(* ===== verification/Prelude.thy ===== *)
theory Prelude
  imports Main "HOL-Library.Char_ord" "HOL-Library.List_Lexorder"
begin

text \<open>
  Shared vocabulary of the development: identifiers, time and 32-bit integers, JSON trees,
  the state-and-error computations in which every database statement and handler is written,
  and the locale that lifts a reflexive and transitive relation on states from single
  statements to whole handlers.
\<close>

section \<open>Types shared by the components\<close>

type_synonym uuid = nat
type_synonym time = int

text \<open>Time is counted in microseconds, the resolution of the database's timestamps.\<close>

definition second :: time where
  "second = 1000000"

text \<open>Go's conversion to a signed 32-bit integer wraps around.\<close>

definition int32 :: "int \<Rightarrow> int" where
  "int32 n = (n + 2 ^ 31) mod 2 ^ 32 - 2 ^ 31"

definition int32_range :: "int \<Rightarrow> bool" where
  "int32_range n \<longleftrightarrow> - (2 ^ 31) \<le> n \<and> n < 2 ^ 31"

lemma int32_in_range: "int32_range (int32 n)"
  by (simp add: int32_def int32_range_def)

lemma int32_id: "int32_range n \<Longrightarrow> int32 n = n"
  by (simp add: int32_def int32_range_def)

lemma int32_id_iff: "int32 n = n \<longleftrightarrow> int32_range n"
  using int32_id int32_in_range by metis

text \<open>A JSON document, as a jsonb column stores it and as a Go value of type any holds it.\<close>

datatype json =
    JNull
  | JBool bool
  | JNum int
  | JStr string
  | JArr "json list"
  | JObj "(string \<times> json) list"

section \<open>Computations with state and errors\<close>

text \<open>
  A computation takes a state and returns an error or a value, with the new state. The Go
  idiom of testing the returned error after each call and returning early is \<open>bind\<close>; a
  call whose error is only logged is \<open>attempt\<close>; wrapping an error is \<open>map_err\<close>.
\<close>

type_synonym ('s, 'e, 'a) sx = "'s \<Rightarrow> ('e + 'a) \<times> 's"

definition ret :: "'a \<Rightarrow> ('s, 'e, 'a) sx" where
  "ret a = (\<lambda>s. (Inr a, s))"

definition throw :: "'e \<Rightarrow> ('s, 'e, 'a) sx" where
  "throw e = (\<lambda>s. (Inl e, s))"

definition bind :: "('s, 'e, 'a) sx \<Rightarrow> ('a \<Rightarrow> ('s, 'e, 'b) sx) \<Rightarrow> ('s, 'e, 'b) sx" where
  "bind m k = (\<lambda>s. case m s of (Inl e, s') \<Rightarrow> (Inl e, s') | (Inr a, s') \<Rightarrow> k a s')"

definition map_err :: "('e \<Rightarrow> 'f) \<Rightarrow> ('s, 'e, 'a) sx \<Rightarrow> ('s, 'f, 'a) sx" where
  "map_err f m = (\<lambda>s. case m s of (Inl e, s') \<Rightarrow> (Inl (f e), s') | (Inr a, s') \<Rightarrow> (Inr a, s'))"

definition attempt :: "('s, 'e, 'a) sx \<Rightarrow> ('s, 'f, 'e + 'a) sx" where
  "attempt m = (\<lambda>s. case m s of (r, s') \<Rightarrow> (Inr r, s'))"

definition gets :: "('s \<Rightarrow> 'a) \<Rightarrow> ('s, 'e, 'a) sx" where
  "gets f = (\<lambda>s. (Inr (f s), s))"

definition modify :: "('s \<Rightarrow> 's) \<Rightarrow> ('s, 'e, unit) sx" where
  "modify f = (\<lambda>s. (Inr (), f s))"

primrec for_each :: "'x list \<Rightarrow> ('x \<Rightarrow> ('s, 'e, unit) sx) \<Rightarrow> ('s, 'e, unit) sx" where
  "for_each [] f = ret ()"
| "for_each (x # xs) f = bind (f x) (\<lambda>_. for_each xs f)"

lemmas sx_defs = ret_def throw_def bind_def map_err_def attempt_def gets_def modify_def

lemma bind_ret [simp]: "bind (ret a) k = k a"
  by (simp add: sx_defs)

lemma bind_throw [simp]: "bind (throw e) k = throw e"
  by (simp add: sx_defs fun_eq_iff)

lemma bind_assoc: "bind (bind m k) h = bind m (\<lambda>a. bind (k a) h)"
  by (auto simp: bind_def fun_eq_iff split: prod.split sum.split)

lemma bind_right_ret [simp]: "bind m ret = m"
  by (auto simp: bind_def ret_def fun_eq_iff split: prod.split sum.split)

lemma ret_apply [simp]: "ret a s = (Inr a, s)"
  by (simp add: ret_def)

lemma throw_apply [simp]: "throw e s = (Inl e, s)"
  by (simp add: throw_def)

lemma gets_apply [simp]: "gets f s = (Inr (f s), s)"
  by (simp add: gets_def)

lemma modify_apply [simp]: "modify f s = (Inr (), f s)"
  by (simp add: modify_def)

lemma bind_Inr [simp]: "m s = (Inr a, s') \<Longrightarrow> bind m k s = k a s'"
  by (simp add: bind_def)

lemma bind_Inl [simp]: "m s = (Inl e, s') \<Longrightarrow> bind m k s = (Inl e, s')"
  by (simp add: bind_def)

lemma bind_eq_Inr_iff:
  "bind m k s = (Inr b, s'') \<longleftrightarrow> (\<exists>a s'. m s = (Inr a, s') \<and> k a s' = (Inr b, s''))"
  by (auto simp: bind_def split: prod.splits sum.splits)

lemma attempt_apply: "attempt m s = (Inr (fst (m s)), snd (m s))"
  by (simp add: attempt_def split: prod.split)

lemma map_err_Inr [simp]: "m s = (Inr a, s') \<Longrightarrow> map_err f m s = (Inr a, s')"
  by (simp add: map_err_def)

lemma map_err_Inl [simp]: "m s = (Inl e, s') \<Longrightarrow> map_err f m s = (Inl (f e), s')"
  by (simp add: map_err_def)

lemma map_err_eq_Inr: "map_err f m s = (Inr a, s') \<Longrightarrow> m s = (Inr a, s')"
  by (auto simp: map_err_def split: prod.splits sum.splits)

lemma snd_map_err [simp]: "snd (map_err f m s) = snd (m s)"
  by (simp add: map_err_def split: prod.split sum.split)

lemma snd_bind_ret [simp]: "snd (bind m (\<lambda>a. ret (f a)) s) = snd (m s)"
  by (simp add: bind_def split: prod.split sum.split)

section \<open>Relations that every statement of a computation keeps\<close>

definition keeps :: "('s \<Rightarrow> 's \<Rightarrow> bool) \<Rightarrow> ('s, 'e, 'a) sx \<Rightarrow> bool" where
  "keeps R m \<longleftrightarrow> (\<forall>s. R s (snd (m s)))"

lemma keepsI: "(\<And>s. R s (snd (m s))) \<Longrightarrow> keeps R m"
  by (simp add: keeps_def)

lemma keepsD: "keeps R m \<Longrightarrow> R s (snd (m s))"
  by (simp add: keeps_def)

locale step_rel =
  fixes R :: "'s \<Rightarrow> 's \<Rightarrow> bool"
  assumes R_refl: "R s s"
    and R_trans: "R s t \<Longrightarrow> R t u \<Longrightarrow> R s u"
begin

lemma ret_keeps: "keeps R (ret a)"
  by (simp add: keeps_def R_refl)

lemma throw_keeps: "keeps R (throw e)"
  by (simp add: keeps_def R_refl)

lemma gets_keeps: "keeps R (gets f)"
  by (simp add: keeps_def R_refl)

lemma modify_keeps: "(\<And>s. R s (f s)) \<Longrightarrow> keeps R (modify f)"
  by (simp add: keeps_def)

lemma bind_keeps:
  assumes m: "keeps R m" and k: "\<And>a. keeps R (k a)"
  shows "keeps R (bind m k)"
proof (rule keepsI)
  fix s
  obtain r s' where ms: "m s = (r, s')" by (cases "m s")
  have s': "R s s'" using keepsD [OF m, of s] ms by simp
  show "R s (snd (bind m k s))"
  proof (cases r)
    case (Inl e)
    then show ?thesis using ms s' by (simp add: bind_def)
  next
    case (Inr a)
    have "R s' (snd (k a s'))" by (rule keepsD [OF k])
    then show ?thesis using ms s' Inr R_trans by (auto simp: bind_def)
  qed
qed

lemma map_err_keeps: "keeps R m \<Longrightarrow> keeps R (map_err f m)"
  by (simp add: keeps_def)

lemma attempt_keeps: "keeps R m \<Longrightarrow> keeps R (attempt m)"
  by (simp add: keeps_def attempt_apply)

lemma for_each_keeps: "(\<And>x. keeps R (f x)) \<Longrightarrow> keeps R (for_each xs f)"
  by (induction xs) (auto intro: ret_keeps bind_keeps)

lemmas keeps_rules = ret_keeps throw_keeps gets_keeps bind_keeps map_err_keeps attempt_keeps
  for_each_keeps

end

text \<open>An invariant is the relation that carries it from one state to the next.\<close>

definition inv_rel :: "('s \<Rightarrow> bool) \<Rightarrow> 's \<Rightarrow> 's \<Rightarrow> bool" where
  "inv_rel I s t \<longleftrightarrow> (I s \<longrightarrow> I t)"

interpretation inv: step_rel "inv_rel I" for I :: "'s \<Rightarrow> bool"
  by unfold_locales (auto simp: inv_rel_def)

lemma keeps_inv_relI: "(\<And>s. I s \<Longrightarrow> I (snd (m s))) \<Longrightarrow> keeps (inv_rel I) m"
  by (simp add: keeps_def inv_rel_def)

lemma keeps_inv_relD: "keeps (inv_rel I) m \<Longrightarrow> I s \<Longrightarrow> I (snd (m s))"
  by (simp add: keeps_def inv_rel_def)

end
