(* ===== verification/Store.thy ===== *)
theory Store
  imports Prelude
begin

text \<open>
  The Postgres store: one record per table of internal/db/migrations, the world in which the
  statements run, and one definition per statement of internal/db/gen. A statement runs
  atomically. Whether it fails with a connection error, what time it sees and which
  identifiers the database draws are oracles of the world, so a theorem about a handler holds
  for every pattern of failures. jsonb columns hold JSON trees. The tables of organizations, users and
  secrets are in Web_Store; the foreign keys of this theory's tables to organizations are not modelled.
\<close>

section \<open>Rows\<close>

record run_row =
  run_id :: uuid
  run_org_id :: uuid
  run_schedule_id :: uuid
  run_skill_sha :: string
  run_fire_time :: "time option"
  run_status :: string
  run_fire_reason :: string
  run_actor :: "string option"
  run_started_at :: "time option"
  run_finished_at :: "time option"
  run_duration_ms :: "int option"
  run_tokens_in :: "int option"
  run_tokens_out :: "int option"
  run_cost_cents :: "int option"
  run_error_kind :: "string option"
  run_error_msg :: "string option"
  run_writeback_commit_sha :: "string option"
  run_runner_pid :: "int option"
  run_runner_token_hash :: string
  run_created_at :: time

record sched_row =
  sch_id :: uuid
  sch_org_id :: uuid
  sch_skill_id :: uuid
  sch_name :: string
  sch_cron :: string
  sch_timezone :: string
  sch_overlap_policy :: string
  sch_timeout_sec :: int
  sch_enabled :: bool
  sch_provider :: string
  sch_model :: string
  sch_llm_secret_ref :: "string option"
  sch_llm_endpoint :: "string option"
  sch_llm_deployment :: "string option"
  sch_destinations_json :: json
  sch_writeback_json :: "json option"
  sch_env_json :: json
  sch_auto_pause_after :: "int option"
  sch_auto_paused_at :: "time option"
  sch_auto_pause_reason :: "string option"
  sch_last_enabled_at :: time
  sch_mcp_env_json :: json
  sch_ui_overrides_json :: json
  sch_max_turns :: "int option"
  sch_copilot_token_refs_json :: "json option"
  sch_next_fire_at :: "time option"
  sch_created_at :: time
  sch_updated_at :: time

record skill_row =
  sk_id :: uuid
  sk_org_id :: uuid
  sk_repo_id :: uuid
  sk_path :: string
  sk_name :: string
  sk_current_sha :: string
  sk_frontmatter_json :: json
  sk_updated_at :: time

record repo_row =
  rc_id :: uuid
  rc_org_id :: uuid
  rc_github_app_install_id :: int
  rc_owner :: string
  rc_name :: string
  rc_default_branch :: string
  rc_sync_interval_sec :: int
  rc_last_synced_at :: "time option"
  rc_last_synced_head_sha :: "string option"
  rc_last_sync_error :: "string option"
  rc_created_at :: time

record event_row =
  ev_id :: nat
  ev_run_id :: uuid
  ev_ts :: time
  ev_level :: string
  ev_event_type :: string
  ev_payload_json :: json

record notif_row =
  nf_id :: nat
  nf_run_id :: uuid
  nf_org_id :: uuid
  nf_kind :: string
  nf_target :: string
  nf_status :: string
  nf_reason :: "string option"
  nf_created_at :: time

record audit_row =
  au_id :: nat
  au_org_id :: uuid
  au_actor :: "string option"
  au_action :: string
  au_target_kind :: "string option"
  au_target_id :: "uuid option"
  au_ts :: time
  au_detail_json :: json

section \<open>The world\<close>

text \<open>A request handed to the job dispatcher, and the metric increments of internal/metrics.\<close>

record dispatch_request =
  dr_binary_path :: string
  dr_args :: "string list"
  dr_env :: "string list"

datatype metric =
    RunsStarted string
  | RunsFinished string
  | RunDuration string int
  | LLMTokens string string int
  | LLMCost string int
  | DestPublish string string

text \<open>
  The tables, the sequence of the bigserial columns, the log of dispatched jobs and metric
  increments, and the oracles: \<open>fault\<close> says which statement fails, \<open>clock_at\<close> what time it
  is at that statement, \<open>uuid_gen\<close> the identifiers that uuid_generate_v4 draws and
  \<open>rand_hex\<close> what crypto/rand yields. \<open>tx_start\<close> is the time the open transaction began,
  which is what now() returns inside it.
\<close>

record world =
  runs :: "run_row list"
  schedules :: "sched_row list"
  skills :: "skill_row list"
  repos :: "repo_row list"
  run_events :: "event_row list"
  notifications :: "notif_row list"
  audit_log :: "audit_row list"
  serial :: nat
  dispatched :: "dispatch_request list"
  metrics :: "metric list"
  tx_start :: "time option"
  stmt_ctr :: nat
  fault :: "nat \<Rightarrow> bool"
  clock_at :: "nat \<Rightarrow> time"
  uuid_gen :: "nat \<Rightarrow> uuid"
  uuid_ctr :: nat
  rand_hex :: "nat \<Rightarrow> string option"

text \<open>\<open>ErrNoRows\<close> is pgx.ErrNoRows; the other two are every other error of a statement.\<close>

datatype db_err = ErrNoRows | ErrConn | ErrConstraint

type_synonym 'a stmt = "(world, db_err, 'a) sx"

definition now_at :: "world \<Rightarrow> time" where
  "now_at w = (case tx_start w of Some t \<Rightarrow> t | None \<Rightarrow> clock_at w (stmt_ctr w))"

definition stmt :: "(world \<Rightarrow> (db_err + 'a) \<times> world) \<Rightarrow> 'a stmt" where
  "stmt f = (\<lambda>w. if fault w (stmt_ctr w)
     then (Inl ErrConn, w\<lparr>stmt_ctr := Suc (stmt_ctr w)\<rparr>)
     else f (w\<lparr>stmt_ctr := Suc (stmt_ctr w)\<rparr>))"

text \<open>
  A transaction: the body sees the time of its start; an error of the body or of the commit
  restores the tables, while sequences, identifiers drawn and the statement count are not
  rolled back.
\<close>

definition rollback_to :: "world \<Rightarrow> world \<Rightarrow> world" where
  "rollback_to w w' = w'\<lparr>runs := runs w, schedules := schedules w, skills := skills w,
     repos := repos w, run_events := run_events w, notifications := notifications w,
     audit_log := audit_log w, tx_start := tx_start w\<rparr>"

definition pool_begin :: "unit stmt" where
  "pool_begin = stmt (\<lambda>w. (Inr (), w\<lparr>tx_start := Some (clock_at w (stmt_ctr w))\<rparr>))"

definition tx_commit :: "unit stmt" where
  "tx_commit = stmt (\<lambda>w. (Inr (), w\<lparr>tx_start := None\<rparr>))"

definition in_tx :: "(db_err \<Rightarrow> 'e) \<Rightarrow> (db_err \<Rightarrow> 'e) \<Rightarrow> (world, 'e, 'a) sx \<Rightarrow> (world, 'e, 'a) sx" where
  "in_tx begin_err commit_err body = (\<lambda>w.
     case map_err begin_err pool_begin w of
       (Inl e, w1) \<Rightarrow> (Inl e, w1)
     | (Inr _, w1) \<Rightarrow>
       (case body w1 of
          (Inl e, w2) \<Rightarrow> (Inl e, rollback_to w w2)
        | (Inr a, w2) \<Rightarrow>
          (case map_err commit_err tx_commit w2 of
             (Inl e, w3) \<Rightarrow> (Inl e, rollback_to w w3)
           | (Inr _, w3) \<Rightarrow> (Inr a, w3))))"

section \<open>Row lookups and joins\<close>

definition active_status :: "string \<Rightarrow> bool" where
  "active_status s \<longleftrightarrow> s = ''pending'' \<or> s = ''running''"

definition terminal_status :: "string \<Rightarrow> bool" where
  "terminal_status s \<longleftrightarrow> s = ''succeeded'' \<or> s = ''partial_failure'' \<or> s = ''failed''"

definition find_run :: "world \<Rightarrow> uuid \<Rightarrow> run_row option" where
  "find_run w i = find (\<lambda>r. run_id r = i) (runs w)"

definition find_schedule :: "world \<Rightarrow> uuid \<Rightarrow> sched_row option" where
  "find_schedule w i = find (\<lambda>s. sch_id s = i) (schedules w)"

definition find_skill :: "world \<Rightarrow> uuid \<Rightarrow> skill_row option" where
  "find_skill w i = find (\<lambda>k. sk_id k = i) (skills w)"

definition find_repo :: "world \<Rightarrow> uuid \<Rightarrow> repo_row option" where
  "find_repo w i = find (\<lambda>c. rc_id c = i) (repos w)"

text \<open>The joins schedule to skill to repo_connection that most queries share.\<close>

definition join_schedule :: "world \<Rightarrow> sched_row \<Rightarrow> (sched_row \<times> skill_row \<times> repo_row) option" where
  "join_schedule w s = Option.bind (find_skill w (sch_skill_id s)) (\<lambda>k.
     Option.bind (find_repo w (sk_repo_id k)) (\<lambda>c. Some (s, k, c)))"

definition join_run :: "world \<Rightarrow> run_row \<Rightarrow> (sched_row \<times> skill_row \<times> repo_row) option" where
  "join_run w r = Option.bind (find_schedule w (run_schedule_id r)) (join_schedule w)"

definition update_where :: "('r \<Rightarrow> bool) \<Rightarrow> ('r \<Rightarrow> 'r) \<Rightarrow> 'r list \<Rightarrow> 'r list" where
  "update_where p f rs = map (\<lambda>r. if p r then f r else r) rs"

end
