(* ===== verification/Run_Queries.thy ===== *)
theory Run_Queries
  imports Store
begin

text \<open>
  The statements on the run, run_event, run_notification and audit_log tables
  (internal/db/gen/run.sql.go, run_event.sql.go, run_notification.sql.go, audit_log.sql.go) and
  the two statements that internal/scheduler/tick.go writes inline. Each carries its WHERE
  clause, its ON CONFLICT clause and the constraints of the tables it writes.
\<close>

section \<open>The run table\<close>

record insert_run_params =
  ir_org_id :: uuid
  ir_schedule_id :: uuid
  ir_skill_sha :: string
  ir_fire_time :: "time option"
  ir_fire_reason :: string
  ir_actor :: "string option"
  ir_runner_token_hash :: string

text \<open>
  The constraints a new row must meet: its schedule exists, its reason is one of the two the
  column allows, and a scheduled run has a fire time exactly when it is not manual.
\<close>

definition run_checks :: "world \<Rightarrow> insert_run_params \<Rightarrow> bool" where
  "run_checks w p \<longleftrightarrow> find_schedule w (ir_schedule_id p) \<noteq> None \<and>
     ((ir_fire_reason p = ''manual'' \<and> ir_fire_time p = None) \<or>
      (ir_fire_reason p = ''schedule'' \<and> ir_fire_time p \<noteq> None))"

definition new_run :: "uuid \<Rightarrow> time \<Rightarrow> insert_run_params \<Rightarrow> run_row" where
  "new_run i t p = \<lparr>run_id = i, run_org_id = ir_org_id p, run_schedule_id = ir_schedule_id p,
     run_skill_sha = ir_skill_sha p, run_fire_time = ir_fire_time p, run_status = ''pending'',
     run_fire_reason = ir_fire_reason p, run_actor = ir_actor p, run_started_at = None,
     run_finished_at = None, run_duration_ms = None, run_tokens_in = None, run_tokens_out = None,
     run_cost_cents = None, run_error_kind = None, run_error_msg = None,
     run_writeback_commit_sha = None, run_runner_pid = None,
     run_runner_token_hash = ir_runner_token_hash p, run_created_at = t\<rparr>"

definition fire_conflict :: "insert_run_params \<Rightarrow> run_row \<Rightarrow> bool" where
  "fire_conflict p r \<longleftrightarrow> ir_fire_time p \<noteq> None \<and> run_schedule_id r = ir_schedule_id p \<and>
     run_fire_time r = ir_fire_time p"

text \<open>
  INSERT ... ON CONFLICT (schedule_id, fire_time) DO NOTHING: the row and whether it is new.
  Check constraints and foreign keys are tested on the proposed row, the partial unique index
  decides the conflict.
\<close>

definition InsertRun :: "insert_run_params \<Rightarrow> (run_row \<times> bool) stmt" where
  "InsertRun p = stmt (\<lambda>w.
     if \<not> run_checks w p then (Inl ErrConstraint, w)
     else case find (fire_conflict p) (runs w) of
       Some r \<Rightarrow> (Inr (r, False), w)
     | None \<Rightarrow>
       (let r = new_run (uuid_gen w (uuid_ctr w)) (now_at w) p
        in (Inr (r, True), w\<lparr>runs := runs w @ [r], uuid_ctr := Suc (uuid_ctr w)\<rparr>)))"

text \<open>Deleting a run cascades to its events and notifications.\<close>

definition drop_runs :: "(run_row \<Rightarrow> bool) \<Rightarrow> world \<Rightarrow> world" where
  "drop_runs p w = (let gone = run_id ` set (filter p (runs w)) in
     w\<lparr>runs := filter (\<lambda>r. \<not> p r) (runs w),
       run_events := filter (\<lambda>e. ev_run_id e \<notin> gone) (run_events w),
       notifications := filter (\<lambda>n. nf_run_id n \<notin> gone) (notifications w)\<rparr>)"

definition DeleteRun :: "uuid \<Rightarrow> unit stmt" where
  "DeleteRun i = stmt (\<lambda>w. (Inr (), drop_runs (\<lambda>r. run_id r = i) w))"

definition GetRun :: "uuid \<Rightarrow> run_row stmt" where
  "GetRun i = stmt (\<lambda>w. case find_run w i of None \<Rightarrow> (Inl ErrNoRows, w) | Some r \<Rightarrow> (Inr r, w))"

record finalize_params =
  fp_status :: string
  fp_duration_ms :: "int option"
  fp_tokens_in :: "int option"
  fp_tokens_out :: "int option"
  fp_cost_cents :: "int option"
  fp_error_kind :: "string option"
  fp_error_msg :: "string option"
  fp_writeback_commit_sha :: "string option"

definition finalized :: "time \<Rightarrow> finalize_params \<Rightarrow> run_row \<Rightarrow> run_row" where
  "finalized t p r = r\<lparr>run_status := fp_status p, run_finished_at := Some t,
     run_duration_ms := fp_duration_ms p, run_tokens_in := fp_tokens_in p,
     run_tokens_out := fp_tokens_out p, run_cost_cents := fp_cost_cents p,
     run_error_kind := fp_error_kind p, run_error_msg := fp_error_msg p,
     run_writeback_commit_sha := fp_writeback_commit_sha p\<rparr>"

text \<open>
  An update of the one row with a given identifier, guarded by a predicate on it; the updated
  row is returned, and no row is pgx.ErrNoRows.
\<close>

definition update_run :: "uuid \<Rightarrow> (run_row \<Rightarrow> bool) \<Rightarrow> (run_row \<Rightarrow> run_row) \<Rightarrow> world \<Rightarrow> (db_err + run_row) \<times> world" where
  "update_run i g f w = (case find_run w i of
       None \<Rightarrow> (Inl ErrNoRows, w)
     | Some r \<Rightarrow> if g r
         then (Inr (f r), w\<lparr>runs := update_where (\<lambda>r. run_id r = i \<and> g r) f (runs w)\<rparr>)
         else (Inl ErrNoRows, w))"

definition valid_status :: "string \<Rightarrow> bool" where
  "valid_status s \<longleftrightarrow> active_status s \<or> terminal_status s"

text \<open>The check constraint on the status is tested on the row the update would write.\<close>

definition FinalizeRun :: "uuid \<Rightarrow> finalize_params \<Rightarrow> run_row stmt" where
  "FinalizeRun i p = stmt (\<lambda>w.
     case update_run i (\<lambda>r. \<not> terminal_status (run_status r)) (finalized (now_at w) p) w of
       (Inl e, w') \<Rightarrow> (Inl e, w')
     | (Inr r, w') \<Rightarrow> if valid_status (fp_status p) then (Inr r, w') else (Inl ErrConstraint, w))"

definition SetRunRunning :: "uuid \<Rightarrow> int option \<Rightarrow> run_row stmt" where
  "SetRunRunning i pid = stmt (\<lambda>w.
     update_run i (\<lambda>r. run_status r = ''pending'')
       (\<lambda>r. r\<lparr>run_status := ''running'', run_started_at := Some (now_at w), run_runner_pid := pid\<rparr>) w)"

definition ListActiveRunsForSchedule :: "uuid \<Rightarrow> run_row list stmt" where
  "ListActiveRunsForSchedule i = stmt (\<lambda>w. (Inr (sort_key run_created_at
     (filter (\<lambda>r. run_schedule_id r = i \<and> active_status (run_status r)) (runs w))), w))"

text \<open>ORDER BY created_at DESC, id DESC LIMIT n.\<close>

definition ListRecentTerminalScheduledRuns :: "uuid \<Rightarrow> time \<Rightarrow> int \<Rightarrow> string list stmt" where
  "ListRecentTerminalScheduledRuns i since lim = stmt (\<lambda>w. (Inr (map run_status (take (nat lim)
     (rev (sort_key run_created_at (sort_key run_id (filter (\<lambda>r. run_schedule_id r = i \<and>
        run_fire_reason r = ''schedule'' \<and> terminal_status (run_status r) \<and>
        since \<le> run_created_at r) (runs w))))))), w))"

definition orphaned :: "world \<Rightarrow> time \<Rightarrow> run_row \<Rightarrow> bool" where
  "orphaned w t r \<longleftrightarrow> active_status (run_status r) \<and>
     (case find_schedule w (run_schedule_id r) of
        None \<Rightarrow> False
      | Some s \<Rightarrow> t - (case run_started_at r of Some u \<Rightarrow> u | None \<Rightarrow> run_created_at r)
                  > (sch_timeout_sec s + 300) * second)"

definition swept :: "time \<Rightarrow> run_row \<Rightarrow> run_row" where
  "swept t r = r\<lparr>run_status := ''failed'', run_error_kind := Some ''shutdown'',
     run_error_msg := Some (case run_error_msg r of Some m \<Rightarrow> m
       | None \<Rightarrow> ''orphan sweep: run exceeded timeout''),
     run_finished_at := Some t\<rparr>"

definition OrphanSweep :: "nat stmt" where
  "OrphanSweep = stmt (\<lambda>w. (Inr (length (filter (orphaned w (now_at w)) (runs w))),
     w\<lparr>runs := update_where (orphaned w (now_at w)) (swept (now_at w)) (runs w)\<rparr>))"

definition join_of_run :: "world \<Rightarrow> uuid \<Rightarrow> (run_row \<times> sched_row \<times> skill_row \<times> repo_row) option" where
  "join_of_run w i = Option.bind (find_run w i) (\<lambda>r. map_option (Pair r) (join_run w r))"

definition GetRunForContext :: "uuid \<Rightarrow> (run_row \<times> sched_row \<times> skill_row \<times> repo_row) stmt" where
  "GetRunForContext i = stmt (\<lambda>w.
     case join_of_run w i of None \<Rightarrow> (Inl ErrNoRows, w) | Some row \<Rightarrow> (Inr row, w))"

record writeback_config_row =
  wc_writeback_json :: "json option"
  wc_github_app_install_id :: int
  wc_owner :: string
  wc_repo_name :: string

definition GetRunWritebackConfig :: "uuid \<Rightarrow> writeback_config_row stmt" where
  "GetRunWritebackConfig i = stmt (\<lambda>w.
     case join_of_run w i of
       None \<Rightarrow> (Inl ErrNoRows, w)
     | Some (r, s, k, c) \<Rightarrow> (Inr \<lparr>wc_writeback_json = sch_writeback_json s,
         wc_github_app_install_id = rc_github_app_install_id c, wc_owner = rc_owner c,
         wc_repo_name = rc_name c\<rparr>, w))"

definition GetRunRepoID :: "uuid \<Rightarrow> uuid stmt" where
  "GetRunRepoID i = stmt (\<lambda>w.
     case Option.bind (find_run w i) (\<lambda>r. Option.bind (find_schedule w (run_schedule_id r))
            (\<lambda>s. find_skill w (sch_skill_id s))) of
       None \<Rightarrow> (Inl ErrNoRows, w)
     | Some k \<Rightarrow> (Inr (sk_repo_id k), w))"

text \<open>UPDATE run SET runner_token_hash = $1 WHERE id = $2, in dispatchRun.\<close>

definition update_token_hash :: "string \<Rightarrow> uuid \<Rightarrow> unit stmt" where
  "update_token_hash h i = stmt (\<lambda>w. (Inr (),
     w\<lparr>runs := update_where (\<lambda>r. run_id r = i) (\<lambda>r. r\<lparr>run_runner_token_hash := h\<rparr>) (runs w)\<rparr>))"

text \<open>The pending query of dispatchPending: manual runs, and queued runs with nothing older active.\<close>

definition older_active :: "world \<Rightarrow> run_row \<Rightarrow> run_row \<Rightarrow> bool" where
  "older_active w r r2 \<longleftrightarrow> run_schedule_id r2 = run_schedule_id r \<and> run_id r2 \<noteq> run_id r \<and>
     active_status (run_status r2) \<and> run_created_at r2 < run_created_at r"

definition pending_ready :: "world \<Rightarrow> run_row \<Rightarrow> bool" where
  "pending_ready w r \<longleftrightarrow> run_status r = ''pending'' \<and>
     (case join_run w r of
        None \<Rightarrow> False
      | Some (s, k, c) \<Rightarrow> sch_enabled s \<and>
          (run_fire_reason r = ''manual'' \<or>
           (run_fire_reason r = ''schedule'' \<and> sch_overlap_policy s = ''queue'' \<and>
            \<not> list_ex (older_active w r) (runs w))))"

definition query_pending :: "(run_row \<times> sched_row \<times> repo_row) list stmt" where
  "query_pending = stmt (\<lambda>w. (Inr (List.map_filter
     (\<lambda>r. map_option (\<lambda>(s, k, c). (r, s, c)) (join_run w r))
     (sort_key run_created_at (filter (pending_ready w) (runs w)))), w))"

section \<open>run_event, run_notification and audit_log\<close>

definition valid_level :: "string \<Rightarrow> bool" where
  "valid_level l \<longleftrightarrow> l = ''info'' \<or> l = ''warn'' \<or> l = ''error''"

definition InsertRunEvent :: "uuid \<Rightarrow> string \<Rightarrow> string \<Rightarrow> json \<Rightarrow> unit stmt" where
  "InsertRunEvent i level ty payload = stmt (\<lambda>w.
     if find_run w i = None \<or> \<not> valid_level level then (Inl ErrConstraint, w)
     else (Inr (), w\<lparr>run_events := run_events w @ [\<lparr>ev_id = serial w, ev_run_id = i, ev_ts = now_at w,
       ev_level = level, ev_event_type = ty, ev_payload_json = payload\<rparr>], serial := Suc (serial w)\<rparr>))"

definition valid_notification_status :: "string \<Rightarrow> bool" where
  "valid_notification_status s \<longleftrightarrow> s = ''sent'' \<or> s = ''skipped'' \<or> s = ''failed''"

definition InsertRunNotification ::
  "uuid \<Rightarrow> uuid \<Rightarrow> string \<Rightarrow> string \<Rightarrow> string \<Rightarrow> string option \<Rightarrow> unit stmt" where
  "InsertRunNotification i org kind target status reason = stmt (\<lambda>w.
     if find_run w i = None \<or> \<not> valid_notification_status status then (Inl ErrConstraint, w)
     else (Inr (), w\<lparr>notifications := notifications w @ [\<lparr>nf_id = serial w, nf_run_id = i,
       nf_org_id = org, nf_kind = kind, nf_target = target, nf_status = status, nf_reason = reason,
       nf_created_at = now_at w\<rparr>], serial := Suc (serial w)\<rparr>))"

definition InsertAuditLog ::
  "uuid \<Rightarrow> string option \<Rightarrow> string \<Rightarrow> string option \<Rightarrow> uuid option \<Rightarrow> json \<Rightarrow> unit stmt" where
  "InsertAuditLog org actor action kind target detail = stmt (\<lambda>w. (Inr (),
     w\<lparr>audit_log := audit_log w @ [\<lparr>au_id = serial w, au_org_id = org, au_actor = actor,
       au_action = action, au_target_kind = kind, au_target_id = target, au_ts = now_at w,
       au_detail_json = detail\<rparr>], serial := Suc (serial w)\<rparr>))"

end
