(* ===== verification/Schedule_Queries.thy ===== *)
theory Schedule_Queries
  imports Run_Queries
begin

text \<open>
  The statements on the schedule, skill and repo_connection tables
  (internal/db/gen/schedule.sql.go, skill.sql.go, repo_connection.sql.go).
\<close>

section \<open>schedule\<close>

definition ListDueSchedulesWithSha :: "(sched_row \<times> string \<times> int) list stmt" where
  "ListDueSchedulesWithSha = stmt (\<lambda>w. (Inr (List.map_filter
     (\<lambda>s. map_option (\<lambda>(s, k, c). (s, sk_current_sha k, rc_github_app_install_id c)) (join_schedule w s))
     (sort_key (\<lambda>s. the (sch_next_fire_at s))
       (filter (\<lambda>s. sch_enabled s \<and> (case sch_next_fire_at s of None \<Rightarrow> False | Some t \<Rightarrow> t \<le> now_at w))
         (schedules w)))), w))"

definition UpdateScheduleNextFireAt :: "uuid \<Rightarrow> time option \<Rightarrow> unit stmt" where
  "UpdateScheduleNextFireAt i t = stmt (\<lambda>w. (Inr (), w\<lparr>schedules := update_where (\<lambda>s. sch_id s = i)
     (\<lambda>s. s\<lparr>sch_next_fire_at := t, sch_updated_at := now_at w\<rparr>) (schedules w)\<rparr>))"

definition AutoPauseSchedule :: "uuid \<Rightarrow> string option \<Rightarrow> nat stmt" where
  "AutoPauseSchedule i reason = stmt (\<lambda>w.
     (Inr (length (filter (\<lambda>s. sch_id s = i \<and> sch_enabled s) (schedules w))),
      w\<lparr>schedules := update_where (\<lambda>s. sch_id s = i \<and> sch_enabled s)
        (\<lambda>s. s\<lparr>sch_enabled := False, sch_auto_paused_at := Some (now_at w),
              sch_auto_pause_reason := reason, sch_updated_at := now_at w\<rparr>) (schedules w)\<rparr>))"

record auto_pause_config =
  ap_org_id :: uuid
  ap_auto_pause_after :: "int option"
  ap_last_enabled_at :: time
  ap_enabled :: bool

definition GetScheduleAutoPauseConfig :: "uuid \<Rightarrow> auto_pause_config stmt" where
  "GetScheduleAutoPauseConfig i = stmt (\<lambda>w. case find_schedule w i of
       None \<Rightarrow> (Inl ErrNoRows, w)
     | Some s \<Rightarrow> (Inr \<lparr>ap_org_id = sch_org_id s, ap_auto_pause_after = sch_auto_pause_after s,
         ap_last_enabled_at = sch_last_enabled_at s, ap_enabled = sch_enabled s\<rparr>, w))"

definition GetScheduleForTrigger :: "uuid \<Rightarrow> (sched_row \<times> string) stmt" where
  "GetScheduleForTrigger i = stmt (\<lambda>w.
     case Option.bind (find_schedule w i) (\<lambda>s.
            map_option (\<lambda>k. (s, sk_current_sha k)) (find_skill w (sch_skill_id s))) of
       None \<Rightarrow> (Inl ErrNoRows, w)
     | Some row \<Rightarrow> (Inr row, w))"

text \<open>
  Enabling clears the auto-pause columns; the anti-flap boundary moves only on a real
  transition from disabled to enabled.
\<close>

definition enabled_row :: "bool \<Rightarrow> time \<Rightarrow> sched_row \<Rightarrow> sched_row" where
  "enabled_row b t s = s\<lparr>sch_enabled := b,
     sch_auto_paused_at := (if b then None else sch_auto_paused_at s),
     sch_auto_pause_reason := (if b then None else sch_auto_pause_reason s),
     sch_last_enabled_at := (if b \<and> \<not> sch_enabled s then t else sch_last_enabled_at s),
     sch_updated_at := t\<rparr>"

definition SetScheduleEnabled :: "uuid \<Rightarrow> bool \<Rightarrow> uuid \<Rightarrow> sched_row stmt" where
  "SetScheduleEnabled i b org = stmt (\<lambda>w.
     case find (\<lambda>s. sch_id s = i \<and> sch_org_id s = org) (schedules w) of
       None \<Rightarrow> (Inl ErrNoRows, w)
     | Some s \<Rightarrow> (Inr (enabled_row b (now_at w) s),
         w\<lparr>schedules := update_where (\<lambda>s. sch_id s = i \<and> sch_org_id s = org)
             (enabled_row b (now_at w)) (schedules w)\<rparr>))"

record upsert_schedule_params =
  us_org_id :: uuid
  us_skill_id :: uuid
  us_name :: string
  us_cron :: string
  us_timezone :: string
  us_overlap_policy :: string
  us_timeout_sec :: int
  us_enabled :: bool
  us_provider :: string
  us_model :: string
  us_llm_secret_ref :: "string option"
  us_llm_endpoint :: "string option"
  us_llm_deployment :: "string option"
  us_destinations_json :: json
  us_writeback_json :: "json option"
  us_env_json :: json
  us_auto_pause_after :: "int option"
  us_mcp_env_json :: json
  us_max_turns :: "int option"
  us_copilot_token_refs_json :: "json option"
  us_next_fire_at :: "time option"

definition valid_overlap_column :: "string \<Rightarrow> bool" where
  "valid_overlap_column p \<longleftrightarrow> p = ''skip'' \<or> p = ''queue'' \<or> p = ''concurrent''"

definition schedule_checks :: "world \<Rightarrow> upsert_schedule_params \<Rightarrow> bool" where
  "schedule_checks w p \<longleftrightarrow> find_skill w (us_skill_id p) \<noteq> None \<and>
     valid_overlap_column (us_overlap_policy p) \<and>
     (case us_max_turns p of None \<Rightarrow> True | Some n \<Rightarrow> 0 < n)"

definition new_schedule :: "uuid \<Rightarrow> time \<Rightarrow> upsert_schedule_params \<Rightarrow> sched_row" where
  "new_schedule i t p = \<lparr>sch_id = i, sch_org_id = us_org_id p, sch_skill_id = us_skill_id p,
     sch_name = us_name p, sch_cron = us_cron p, sch_timezone = us_timezone p,
     sch_overlap_policy = us_overlap_policy p, sch_timeout_sec = us_timeout_sec p,
     sch_enabled = us_enabled p, sch_provider = us_provider p, sch_model = us_model p,
     sch_llm_secret_ref = us_llm_secret_ref p, sch_llm_endpoint = us_llm_endpoint p,
     sch_llm_deployment = us_llm_deployment p, sch_destinations_json = us_destinations_json p,
     sch_writeback_json = us_writeback_json p, sch_env_json = us_env_json p,
     sch_auto_pause_after = us_auto_pause_after p, sch_auto_paused_at = None,
     sch_auto_pause_reason = None, sch_last_enabled_at = t, sch_mcp_env_json = us_mcp_env_json p,
     sch_ui_overrides_json = JObj [], sch_max_turns = us_max_turns p,
     sch_copilot_token_refs_json = us_copilot_token_refs_json p,
     sch_next_fire_at = us_next_fire_at p, sch_created_at = t, sch_updated_at = t\<rparr>"

text \<open>
  The DO UPDATE branch. The auto-pause columns and last_enabled_at keep their values; the fire
  time is replaced only when it is missing, the schedule was disabled, or the cron expression
  or the timezone changed.
\<close>

definition upserted_schedule :: "time \<Rightarrow> upsert_schedule_params \<Rightarrow> sched_row \<Rightarrow> sched_row" where
  "upserted_schedule t p s = s\<lparr>sch_cron := us_cron p, sch_timezone := us_timezone p,
     sch_overlap_policy := us_overlap_policy p, sch_timeout_sec := us_timeout_sec p,
     sch_enabled := us_enabled p, sch_provider := us_provider p, sch_model := us_model p,
     sch_llm_secret_ref := us_llm_secret_ref p, sch_llm_endpoint := us_llm_endpoint p,
     sch_llm_deployment := us_llm_deployment p, sch_destinations_json := us_destinations_json p,
     sch_writeback_json := us_writeback_json p, sch_env_json := us_env_json p,
     sch_auto_pause_after := us_auto_pause_after p, sch_mcp_env_json := us_mcp_env_json p,
     sch_max_turns := us_max_turns p, sch_copilot_token_refs_json := us_copilot_token_refs_json p,
     sch_next_fire_at := (if sch_next_fire_at s = None \<or> \<not> sch_enabled s \<or>
         sch_cron s \<noteq> us_cron p \<or> sch_timezone s \<noteq> us_timezone p
       then us_next_fire_at p else sch_next_fire_at s),
     sch_updated_at := t\<rparr>"

definition sched_key :: "uuid \<Rightarrow> string \<Rightarrow> sched_row \<Rightarrow> bool" where
  "sched_key sk nm s \<longleftrightarrow> sch_skill_id s = sk \<and> sch_name s = nm"

definition UpsertSchedule :: "upsert_schedule_params \<Rightarrow> sched_row stmt" where
  "UpsertSchedule p = stmt (\<lambda>w.
     if \<not> schedule_checks w p then (Inl ErrConstraint, w)
     else case find (sched_key (us_skill_id p) (us_name p)) (schedules w) of
       Some s \<Rightarrow> (Inr (upserted_schedule (now_at w) p s),
         w\<lparr>schedules := update_where (sched_key (us_skill_id p) (us_name p))
             (upserted_schedule (now_at w) p) (schedules w)\<rparr>)
     | None \<Rightarrow>
       (let s = new_schedule (uuid_gen w (uuid_ctr w)) (now_at w) p
        in (Inr s, w\<lparr>schedules := schedules w @ [s], uuid_ctr := Suc (uuid_ctr w)\<rparr>)))"

definition DisableMissingSchedules :: "uuid \<Rightarrow> string list \<Rightarrow> unit stmt" where
  "DisableMissingSchedules sk names = stmt (\<lambda>w. (Inr (),
     w\<lparr>schedules := update_where (\<lambda>s. sch_skill_id s = sk \<and> sch_enabled s \<and> sch_name s \<notin> set names)
        (\<lambda>s. s\<lparr>sch_enabled := False, sch_updated_at := now_at w\<rparr>) (schedules w)\<rparr>))"

section \<open>skill\<close>

record upsert_skill_params =
  uk_org_id :: uuid
  uk_repo_id :: uuid
  uk_path :: string
  uk_name :: string
  uk_current_sha :: string
  uk_frontmatter_json :: json

definition UpsertSkill :: "upsert_skill_params \<Rightarrow> skill_row stmt" where
  "UpsertSkill p = stmt (\<lambda>w.
     if find_repo w (uk_repo_id p) = None then (Inl ErrConstraint, w)
     else let key = (\<lambda>k. sk_repo_id k = uk_repo_id p \<and> sk_path k = uk_path p);
              upd = (\<lambda>k. k\<lparr>sk_name := uk_name p, sk_current_sha := uk_current_sha p,
                       sk_frontmatter_json := uk_frontmatter_json p, sk_updated_at := now_at w\<rparr>)
          in case find key (skills w) of
            Some k \<Rightarrow> (Inr (upd k), w\<lparr>skills := update_where key upd (skills w)\<rparr>)
          | None \<Rightarrow>
            (let k = \<lparr>sk_id = uuid_gen w (uuid_ctr w), sk_org_id = uk_org_id p,
                  sk_repo_id = uk_repo_id p, sk_path = uk_path p, sk_name = uk_name p,
                  sk_current_sha = uk_current_sha p, sk_frontmatter_json = uk_frontmatter_json p,
                  sk_updated_at = now_at w\<rparr>
             in (Inr k, w\<lparr>skills := skills w @ [k], uuid_ctr := Suc (uuid_ctr w)\<rparr>)))"

text \<open>Deleting a skill cascades to its schedules, their runs and the rows under those runs.\<close>

definition drop_schedules :: "(sched_row \<Rightarrow> bool) \<Rightarrow> world \<Rightarrow> world" where
  "drop_schedules p w = (let gone = sch_id ` set (filter p (schedules w)) in
     drop_runs (\<lambda>r. run_schedule_id r \<in> gone)
       (w\<lparr>schedules := filter (\<lambda>s. \<not> p s) (schedules w)\<rparr>))"

definition drop_skills :: "(skill_row \<Rightarrow> bool) \<Rightarrow> world \<Rightarrow> world" where
  "drop_skills p w = (let gone = sk_id ` set (filter p (skills w)) in
     drop_schedules (\<lambda>s. sch_skill_id s \<in> gone)
       (w\<lparr>skills := filter (\<lambda>k. \<not> p k) (skills w)\<rparr>))"

definition DeleteMissingSkills :: "uuid \<Rightarrow> string list \<Rightarrow> unit stmt" where
  "DeleteMissingSkills repo paths = stmt (\<lambda>w.
     (Inr (), drop_skills (\<lambda>k. sk_repo_id k = repo \<and> sk_path k \<notin> set paths) w))"

section \<open>repo_connection\<close>

definition GetRepoConnection :: "uuid \<Rightarrow> repo_row stmt" where
  "GetRepoConnection i = stmt (\<lambda>w. case find_repo w i of None \<Rightarrow> (Inl ErrNoRows, w) | Some c \<Rightarrow> (Inr c, w))"

definition MarkRepoSyncedOK :: "uuid \<Rightarrow> string option \<Rightarrow> unit stmt" where
  "MarkRepoSyncedOK i sha = stmt (\<lambda>w. (Inr (), w\<lparr>repos := update_where (\<lambda>c. rc_id c = i)
     (\<lambda>c. c\<lparr>rc_last_synced_at := Some (now_at w), rc_last_synced_head_sha := sha,
           rc_last_sync_error := None\<rparr>) (repos w)\<rparr>))"

definition MarkRepoSyncError :: "uuid \<Rightarrow> string option \<Rightarrow> unit stmt" where
  "MarkRepoSyncError i msg = stmt (\<lambda>w. (Inr (), w\<lparr>repos := update_where (\<lambda>c. rc_id c = i)
     (\<lambda>c. c\<lparr>rc_last_synced_at := Some (now_at w), rc_last_sync_error := msg\<rparr>) (repos w)\<rparr>))"

definition ListDueRepoConnections :: "repo_row list stmt" where
  "ListDueRepoConnections = stmt (\<lambda>w. (Inr (sort_key
     (\<lambda>c. case rc_last_synced_at c of None \<Rightarrow> 0 | Some t \<Rightarrow> t)
     (filter (\<lambda>c. case rc_last_synced_at c of None \<Rightarrow> True
        | Some t \<Rightarrow> t + rc_sync_interval_sec c * second \<le> now_at w) (repos w))), w))"

end
