(* ===== verification/Store_Inv.thy ===== *)
theory Store_Inv
  imports Schedule_Queries
begin

text \<open>
  The interface between the statements and the handlers built from them. A relation between
  worlds that is reflexive, transitive, indifferent to the statement count and kept by a
  rollback is kept by every read and by every transaction whose body keeps it (\<open>tx_rel\<close>); one
  that each writing statement keeps as well (\<open>store_rel\<close>) is kept by every handler. The
  handlers' theories prove that once, inside the locale.
\<close>

section \<open>Reads and transactions\<close>

locale tx_rel = step_rel R for R :: "world \<Rightarrow> world \<Rightarrow> bool" +
  assumes R_bump: "R w (w\<lparr>stmt_ctr := Suc (stmt_ctr w)\<rparr>)"
    and R_tx_start: "R w (w\<lparr>tx_start := t\<rparr>)"
    and R_rollback: "R w w' \<Longrightarrow> R w (rollback_to w w')"
begin

lemma stmt_keeps: "(\<And>w. R w (snd (f w))) \<Longrightarrow> keeps R (stmt f)"
  by (auto simp: keeps_def stmt_def intro: R_bump R_trans)

lemma pool_begin_keeps: "keeps R pool_begin"
  unfolding pool_begin_def by (rule stmt_keeps) (simp add: R_tx_start)

lemma tx_commit_keeps: "keeps R tx_commit"
  unfolding tx_commit_def by (rule stmt_keeps) (simp add: R_tx_start)

lemma in_tx_keeps:
  assumes body: "keeps R body"
  shows "keeps R (in_tx be ce body)"
proof (rule keepsI)
  fix w
  obtain r1 w1 where b: "pool_begin w = (r1, w1)" by (cases "pool_begin w")
  have w1: "R w w1" using keepsD [OF pool_begin_keeps, of w] b by simp
  obtain r2 w2 where m: "body w1 = (r2, w2)" by (cases "body w1")
  have w2: "R w w2" using keepsD [OF body, of w1] m w1 R_trans by auto
  obtain r3 w3 where c: "tx_commit w2 = (r3, w3)" by (cases "tx_commit w2")
  have w3: "R w w3" using keepsD [OF tx_commit_keeps, of w2] c w2 R_trans by auto
  show "R w (snd (in_tx be ce body w))"
    using w1 w2 w3 b m c
    by (auto simp: in_tx_def map_err_def intro: R_rollback split: sum.splits)
qed

lemma reads_keep: "(\<And>w. snd (f w) = w) \<Longrightarrow> keeps R (stmt f)"
  by (rule stmt_keeps) (simp add: R_refl)

lemma GetRun_keeps: "keeps R (GetRun i)"
  unfolding GetRun_def by (rule reads_keep) (simp split: option.split)

lemma ListActiveRunsForSchedule_keeps: "keeps R (ListActiveRunsForSchedule i)"
  unfolding ListActiveRunsForSchedule_def by (rule reads_keep) simp

lemma ListRecentTerminalScheduledRuns_keeps: "keeps R (ListRecentTerminalScheduledRuns i t n)"
  unfolding ListRecentTerminalScheduledRuns_def by (rule reads_keep) simp

lemma GetRunForContext_keeps: "keeps R (GetRunForContext i)"
  unfolding GetRunForContext_def by (rule reads_keep) (simp split: option.split)

lemma GetRunWritebackConfig_keeps: "keeps R (GetRunWritebackConfig i)"
  unfolding GetRunWritebackConfig_def by (rule reads_keep) (simp split: option.split)

lemma GetRunRepoID_keeps: "keeps R (GetRunRepoID i)"
  unfolding GetRunRepoID_def by (rule reads_keep) (simp split: option.split)

lemma query_pending_keeps: "keeps R query_pending"
  unfolding query_pending_def by (rule reads_keep) simp

lemma ListDueSchedulesWithSha_keeps: "keeps R ListDueSchedulesWithSha"
  unfolding ListDueSchedulesWithSha_def by (rule reads_keep) simp

lemma GetScheduleAutoPauseConfig_keeps: "keeps R (GetScheduleAutoPauseConfig i)"
  unfolding GetScheduleAutoPauseConfig_def by (rule reads_keep) (simp split: option.split)

lemma GetScheduleForTrigger_keeps: "keeps R (GetScheduleForTrigger i)"
  unfolding GetScheduleForTrigger_def by (rule reads_keep) (simp split: option.split)

lemma GetRepoConnection_keeps: "keeps R (GetRepoConnection i)"
  unfolding GetRepoConnection_def by (rule reads_keep) (simp split: option.split)

lemma ListDueRepoConnections_keeps: "keeps R ListDueRepoConnections"
  unfolding ListDueRepoConnections_def by (rule reads_keep) simp

lemmas read_rules = GetRun_keeps ListActiveRunsForSchedule_keeps
  ListRecentTerminalScheduledRuns_keeps GetRunForContext_keeps GetRunWritebackConfig_keeps
  GetRunRepoID_keeps query_pending_keeps ListDueSchedulesWithSha_keeps
  GetScheduleAutoPauseConfig_keeps GetScheduleForTrigger_keeps GetRepoConnection_keeps
  ListDueRepoConnections_keeps

end

section \<open>Writes\<close>

text \<open>
  The laws of the writing statements. A run is finalized with a terminal status only, and only
  a pending run is deleted; both are what the callers do.
\<close>

locale store_rel = tx_rel +
  assumes InsertRun_R: "keeps R (InsertRun p)"
    and DeleteRun_R: "\<forall>r \<in> set (runs w). run_id r = i \<longrightarrow> run_status r = ''pending'' \<Longrightarrow>
      R w (snd (DeleteRun i w))"
    and FinalizeRun_R: "terminal_status (fp_status fp) \<Longrightarrow> keeps R (FinalizeRun i fp)"
    and SetRunRunning_R: "keeps R (SetRunRunning i pid)"
    and OrphanSweep_R: "keeps R OrphanSweep"
    and update_token_hash_R: "keeps R (update_token_hash h i)"
    and InsertRunEvent_R: "keeps R (InsertRunEvent i l ty pl)"
    and InsertRunNotification_R: "keeps R (InsertRunNotification i org k tg st rs)"
    and InsertAuditLog_R: "keeps R (InsertAuditLog org ac act tk ti d)"
    and UpdateScheduleNextFireAt_R: "keeps R (UpdateScheduleNextFireAt i nf)"
    and AutoPauseSchedule_R: "keeps R (AutoPauseSchedule i rs)"
    and SetScheduleEnabled_R: "keeps R (SetScheduleEnabled i b org)"
    and MarkRepoSyncedOK_R: "keeps R (MarkRepoSyncedOK i sha)"
    and MarkRepoSyncError_R: "keeps R (MarkRepoSyncError i msg)"
    and dispatched_R: "R w (w\<lparr>dispatched := dl\<rparr>)"
    and metrics_R: "R w (w\<lparr>metrics := ml\<rparr>)"
begin

lemmas write_rules = InsertRun_R FinalizeRun_R SetRunRunning_R OrphanSweep_R
  update_token_hash_R InsertRunEvent_R InsertRunNotification_R InsertAuditLog_R
  UpdateScheduleNextFireAt_R AutoPauseSchedule_R SetScheduleEnabled_R MarkRepoSyncedOK_R
  MarkRepoSyncError_R

lemma dispatched_keeps: "keeps R (modify (\<lambda>w. w\<lparr>dispatched := dl w\<rparr>))"
  by (rule modify_keeps) (rule dispatched_R)

lemma metrics_keeps: "keeps R (modify (\<lambda>w. w\<lparr>metrics := ml w\<rparr>))"
  by (rule modify_keeps) (rule metrics_R)

lemmas store_rules = keeps_rules read_rules write_rules dispatched_keeps metrics_keeps in_tx_keeps

end

text \<open>The statements of the sync pass, which also insert and delete schedules and skills.\<close>

locale sync_rel = store_rel +
  assumes UpsertSchedule_R: "keeps R (UpsertSchedule up)"
    and DisableMissingSchedules_R: "keeps R (DisableMissingSchedules sk names)"
    and UpsertSkill_R: "keeps R (UpsertSkill ukp)"
    and DeleteMissingSkills_R: "keeps R (DeleteMissingSkills repo paths)"
begin

lemmas sync_rules = store_rules UpsertSchedule_R DisableMissingSchedules_R UpsertSkill_R
  DeleteMissingSkills_R

end

text \<open>
  The well-formedness invariant of the store: the keys, foreign keys and check constraints of
  the schema, the life cycle of a run, and that the identifiers still to be drawn are unused.
  Every statement keeps it, whatever fails; the interpretation of \<open>sync_rel\<close> at the end is
  that result, and the handlers inherit it.
\<close>

section \<open>The invariant\<close>

text \<open>
  Pending runs have neither started nor finished, running ones have started, terminal ones
  have finished; a run is manual exactly when it has no fire time.
\<close>

definition run_ok :: "run_row \<Rightarrow> bool" where
  "run_ok r \<longleftrightarrow>
     (run_fire_reason r = ''manual'' \<and> run_fire_time r = None \<or>
      run_fire_reason r = ''schedule'' \<and> run_fire_time r \<noteq> None) \<and>
     (run_status r = ''pending'' \<and> run_started_at r = None \<and> run_finished_at r = None \<or>
      run_status r = ''running'' \<and> run_started_at r \<noteq> None \<and> run_finished_at r = None \<or>
      terminal_status (run_status r) \<and> run_finished_at r \<noteq> None)"

definition fire_key :: "run_row \<Rightarrow> uuid \<times> time option" where
  "fire_key r = (run_schedule_id r, run_fire_time r)"

definition fires_unique :: "run_row list \<Rightarrow> bool" where
  "fires_unique rs \<longleftrightarrow> distinct (map fire_key (filter (\<lambda>r. run_fire_time r \<noteq> None) rs))"

definition keys_ok :: "world \<Rightarrow> bool" where
  "keys_ok w \<longleftrightarrow> distinct (map run_id (runs w)) \<and> distinct (map sch_id (schedules w)) \<and>
     distinct (map sk_id (skills w)) \<and> distinct (map rc_id (repos w)) \<and>
     fires_unique (runs w) \<and>
     distinct (map (\<lambda>s. (sch_skill_id s, sch_name s)) (schedules w)) \<and>
     distinct (map (\<lambda>k. (sk_repo_id k, sk_path k)) (skills w))"

definition refs_ok :: "world \<Rightarrow> bool" where
  "refs_ok w \<longleftrightarrow> run_schedule_id ` set (runs w) \<subseteq> sch_id ` set (schedules w) \<and>
     sch_skill_id ` set (schedules w) \<subseteq> sk_id ` set (skills w) \<and>
     sk_repo_id ` set (skills w) \<subseteq> rc_id ` set (repos w) \<and>
     ev_run_id ` set (run_events w) \<subseteq> run_id ` set (runs w) \<and>
     nf_run_id ` set (notifications w) \<subseteq> run_id ` set (runs w)"

definition rows_ok :: "world \<Rightarrow> bool" where
  "rows_ok w \<longleftrightarrow> list_all run_ok (runs w) \<and>
     list_all (\<lambda>s. valid_overlap_column (sch_overlap_policy s)) (schedules w)"

definition used_ids :: "world \<Rightarrow> uuid set" where
  "used_ids w = run_id ` set (runs w) \<union> sch_id ` set (schedules w) \<union> sk_id ` set (skills w) \<union> rc_id ` set (repos w)"

definition supply_ok :: "world \<Rightarrow> bool" where
  "supply_ok w \<longleftrightarrow> inj (uuid_gen w) \<and> (\<forall>k \<ge> uuid_ctr w. uuid_gen w k \<notin> used_ids w)"

definition store_ok :: "world \<Rightarrow> bool" where
  "store_ok w \<longleftrightarrow> keys_ok w \<and> refs_ok w \<and> rows_ok w \<and> supply_ok w"

text \<open>The oracles never change and the counters only grow.\<close>

definition grows :: "world \<Rightarrow> world \<Rightarrow> bool" where
  "grows w w' \<longleftrightarrow> fault w' = fault w \<and> clock_at w' = clock_at w \<and> uuid_gen w' = uuid_gen w \<and>
     rand_hex w' = rand_hex w \<and> stmt_ctr w \<le> stmt_ctr w' \<and> uuid_ctr w \<le> uuid_ctr w'"

definition ok_step :: "world \<Rightarrow> world \<Rightarrow> bool" where
  "ok_step w w' \<longleftrightarrow> grows w w' \<and> (store_ok w \<longrightarrow> store_ok w')"

lemmas store_ok_defs = store_ok_def keys_ok_def refs_ok_def rows_ok_def supply_ok_def used_ids_def

lemma store_ok_cong:
  "runs w' = runs w \<Longrightarrow> schedules w' = schedules w \<Longrightarrow> skills w' = skills w \<Longrightarrow>
   repos w' = repos w \<Longrightarrow> run_events w' = run_events w \<Longrightarrow> notifications w' = notifications w \<Longrightarrow>
   uuid_gen w' = uuid_gen w \<Longrightarrow> uuid_ctr w \<le> uuid_ctr w' \<Longrightarrow> store_ok w \<Longrightarrow> store_ok w'"
  by (auto simp: store_ok_defs)

section \<open>Updates in place\<close>

lemma map_update_where [simp]:
  "(\<And>r. k (f r) = k r) \<Longrightarrow> map k (update_where p f rs) = map k rs"
  by (simp add: update_where_def)

lemma image_update_where [simp]:
  "(\<And>r. k (f r) = k r) \<Longrightarrow> k ` set (update_where p f rs) = k ` set rs"
  using map_update_where [of k f p rs] by (metis list.set_map)

lemma list_all_update_where:
  "list_all q rs \<Longrightarrow> (\<And>r. p r \<Longrightarrow> q r \<Longrightarrow> q (f r)) \<Longrightarrow> list_all q (update_where p f rs)"
  by (auto simp: update_where_def list_all_iff)

lemma fires_unique_update_where:
  assumes "\<And>r. run_schedule_id (f r) = run_schedule_id r" "\<And>r. run_fire_time (f r) = run_fire_time r"
  shows "fires_unique (update_where p f rs) = fires_unique rs"
proof -
  have "map fire_key (filter (\<lambda>r. run_fire_time r \<noteq> None) (update_where p f rs)) =
        map fire_key (filter (\<lambda>r. run_fire_time r \<noteq> None) rs)"
    by (induction rs) (auto simp: update_where_def fire_key_def assms)
  then show ?thesis by (simp add: fires_unique_def)
qed

text \<open>A run update that leaves its key columns alone and keeps the row's own constraints.\<close>

definition run_update :: "(run_row \<Rightarrow> bool) \<Rightarrow> (run_row \<Rightarrow> run_row) \<Rightarrow> bool" where
  "run_update p f \<longleftrightarrow> (\<forall>r. run_id (f r) = run_id r \<and> run_schedule_id (f r) = run_schedule_id r \<and>
     run_fire_time (f r) = run_fire_time r \<and> (p r \<longrightarrow> run_ok r \<longrightarrow> run_ok (f r)))"

lemma runs_update_ok:
  assumes "store_ok w" and "run_update p f"
  shows "store_ok (w\<lparr>runs := update_where p f (runs w)\<rparr>)"
proof -
  have keys: "\<And>r. run_id (f r) = run_id r" "\<And>r. run_schedule_id (f r) = run_schedule_id r"
    "\<And>r. run_fire_time (f r) = run_fire_time r"
    using assms(2) by (simp_all add: run_update_def)
  show ?thesis
    using assms
    by (simp add: store_ok_defs keys fires_unique_update_where list_all_update_where run_update_def)
qed

definition sched_update :: "(sched_row \<Rightarrow> sched_row) \<Rightarrow> bool" where
  "sched_update f \<longleftrightarrow> (\<forall>s. sch_id (f s) = sch_id s \<and> sch_skill_id (f s) = sch_skill_id s \<and>
     sch_name (f s) = sch_name s \<and>
     (valid_overlap_column (sch_overlap_policy s) \<longrightarrow> valid_overlap_column (sch_overlap_policy (f s))))"

lemma schedules_update_ok:
  assumes "store_ok w" and "sched_update f"
  shows "store_ok (w\<lparr>schedules := update_where p f (schedules w)\<rparr>)"
proof -
  have keys: "\<And>s. sch_id (f s) = sch_id s" "\<And>s. sch_skill_id (f s) = sch_skill_id s"
    "\<And>s. sch_name (f s) = sch_name s"
    using assms(2) by (simp_all add: sched_update_def)
  show ?thesis
    using assms by (simp add: store_ok_defs keys list_all_update_where sched_update_def)
qed

section \<open>Deletions\<close>

lemma distinct_map_filter_twice:
  "distinct (map f (filter p xs)) \<Longrightarrow> distinct (map f (filter p (filter q xs)))"
  using distinct_map_filter [of f "filter p xs" q] by (simp add: conj_commute)

lemma fires_unique_filter: "fires_unique rs \<Longrightarrow> fires_unique (filter q rs)"
  by (simp add: fires_unique_def distinct_map_filter_twice del: filter_filter)

lemma filter_refs:
  "k ` set xs \<subseteq> i ` set ys \<Longrightarrow>
   k ` set (filter (\<lambda>x. k x \<notin> i ` set (filter p ys)) xs) \<subseteq> i ` set (filter (\<lambda>y. \<not> p y) ys)"
  by auto

text \<open>The shape of a cascading delete: every table loses rows and no reference dangles.\<close>

definition shrinks :: "world \<Rightarrow> world \<Rightarrow> bool" where
  "shrinks w w' \<longleftrightarrow> (\<exists>p q k. runs w' = filter p (runs w) \<and> schedules w' = filter q (schedules w) \<and>
     skills w' = filter k (skills w)) \<and> repos w' = repos w \<and> uuid_gen w' = uuid_gen w \<and>
     uuid_ctr w' = uuid_ctr w"

lemma shrinks_ok:
  assumes "store_ok w" and "shrinks w w'" and "refs_ok w'"
  shows "store_ok w'"
proof -
  obtain p q k where rows: "runs w' = filter p (runs w)" "schedules w' = filter q (schedules w)"
      "skills w' = filter k (skills w)"
    and same: "repos w' = repos w" "uuid_gen w' = uuid_gen w" "uuid_ctr w' = uuid_ctr w"
    using assms(2) by (auto simp: shrinks_def)
  have "keys_ok w'"
    using assms(1) by (simp add: store_ok_def keys_ok_def rows same distinct_map_filter fires_unique_filter)
  moreover have "rows_ok w'"
    using assms(1) by (simp add: store_ok_def rows_ok_def rows list_all_iff)
  moreover have "supply_ok w'"
    using assms(1) by (auto simp: store_ok_def supply_ok_def used_ids_def rows same)
  ultimately show ?thesis using assms(3) by (simp add: store_ok_def)
qed

lemma drop_runs_shrinks: "shrinks w (drop_runs p w)"
  by (auto simp: shrinks_def drop_runs_def Let_def intro: exI [of _ "\<lambda>_. True"])

lemma drop_schedules_shrinks: "shrinks w (drop_schedules p w)"
  by (auto simp: shrinks_def drop_schedules_def drop_runs_def Let_def intro: exI [of _ "\<lambda>_. True"])

lemma drop_skills_shrinks: "shrinks w (drop_skills p w)"
  by (auto simp: shrinks_def drop_skills_def drop_schedules_def drop_runs_def Let_def)

lemma drop_runs_refs:
  assumes "run_schedule_id ` set (filter (\<lambda>r. \<not> p r) (runs w)) \<subseteq> sch_id ` set (schedules w)"
    "sch_skill_id ` set (schedules w) \<subseteq> sk_id ` set (skills w)"
    "sk_repo_id ` set (skills w) \<subseteq> rc_id ` set (repos w)"
    "ev_run_id ` set (run_events w) \<subseteq> run_id ` set (runs w)"
    "nf_run_id ` set (notifications w) \<subseteq> run_id ` set (runs w)"
  shows "refs_ok (drop_runs p w)"
  using assms filter_refs [OF assms(4), of p] filter_refs [OF assms(5), of p]
  by (simp add: refs_ok_def drop_runs_def Let_def)

lemma drop_schedules_refs:
  assumes "run_schedule_id ` set (runs w) \<subseteq> sch_id ` set (schedules w)"
    "sch_skill_id ` set (filter (\<lambda>s. \<not> p s) (schedules w)) \<subseteq> sk_id ` set (skills w)"
    "sk_repo_id ` set (skills w) \<subseteq> rc_id ` set (repos w)"
    "ev_run_id ` set (run_events w) \<subseteq> run_id ` set (runs w)"
    "nf_run_id ` set (notifications w) \<subseteq> run_id ` set (runs w)"
  shows "refs_ok (drop_schedules p w)"
  unfolding drop_schedules_def Let_def
  by (rule drop_runs_refs) (use assms filter_refs [OF assms(1), of p] in simp_all)

lemma drop_skills_refs:
  assumes "refs_ok w"
  shows "refs_ok (drop_skills p w)"
  unfolding drop_skills_def Let_def
  by (rule drop_schedules_refs)
    (use assms filter_refs [of sch_skill_id "schedules w" sk_id "skills w" p]
      in \<open>auto simp: refs_ok_def\<close>)

lemma drop_runs_ok: "store_ok w \<Longrightarrow> store_ok (drop_runs p w)"
  by (rule shrinks_ok [OF _ drop_runs_shrinks drop_runs_refs]) (auto simp: store_ok_def refs_ok_def)

lemma drop_skills_ok: "store_ok w \<Longrightarrow> store_ok (drop_skills p w)"
  by (rule shrinks_ok [OF _ drop_skills_shrinks drop_skills_refs]) (auto simp: store_ok_def)

section \<open>Every statement keeps the invariant\<close>

lemma ok_step_refl: "ok_step w w"
  by (simp add: ok_step_def grows_def)

lemma ok_step_trans: "ok_step w v \<Longrightarrow> ok_step v u \<Longrightarrow> ok_step w u"
  by (auto simp: ok_step_def grows_def)

lemma ok_step_rollback: "ok_step w w' \<Longrightarrow> ok_step w (rollback_to w w')"
  by (auto simp: ok_step_def grows_def rollback_to_def intro: store_ok_cong)

lemma ok_step_tables:
  "grows w w' \<Longrightarrow> runs w' = runs w \<Longrightarrow> schedules w' = schedules w \<Longrightarrow> skills w' = skills w \<Longrightarrow>
   repos w' = repos w \<Longrightarrow> run_events w' = run_events w \<Longrightarrow> notifications w' = notifications w \<Longrightarrow>
   ok_step w w'"
  by (auto simp: ok_step_def grows_def intro: store_ok_cong)

interpretation ok_tx: tx_rel ok_step
  by unfold_locales
    (auto simp: grows_def intro: ok_step_refl ok_step_trans ok_step_rollback ok_step_tables)

lemma ok_stepI: "grows w w' \<Longrightarrow> (store_ok w \<Longrightarrow> store_ok w') \<Longrightarrow> ok_step w w'"
  by (simp add: ok_step_def)

lemma grows_tables [simp]:
  "grows w (w\<lparr>runs := a\<rparr>)" "grows w (w\<lparr>schedules := b\<rparr>)" "grows w (w\<lparr>skills := c\<rparr>)"
  "grows w (w\<lparr>repos := d\<rparr>)" "grows w w"
  by (simp_all add: grows_def)

lemma grows_drops: "grows w (drop_runs p w)" "grows w (drop_skills k w)"
  by (simp_all add: grows_def drop_skills_def drop_schedules_def drop_runs_def Let_def)

lemma find_update_ok: "run_update g f \<Longrightarrow> ok_step w (snd (update_run i g f w))"
  by (auto simp: update_run_def ok_step_refl run_update_def
      intro!: ok_stepI runs_update_ok split: option.split)

lemma finalized_update: "terminal_status (fp_status p) \<Longrightarrow>
    run_update (\<lambda>r. \<not> terminal_status (run_status r)) (finalized t p)"
  by (auto simp: run_update_def run_ok_def finalized_def terminal_status_def)

lemma running_update: "run_update (\<lambda>r. run_status r = ''pending'')
    (\<lambda>r. r\<lparr>run_status := ''running'', run_started_at := Some t, run_runner_pid := pid\<rparr>)"
  by (auto simp: run_update_def run_ok_def terminal_status_def)

lemma swept_update: "run_update p (swept t)"
  by (auto simp: run_update_def run_ok_def swept_def terminal_status_def)

lemma hash_update: "run_update p (\<lambda>r. r\<lparr>run_runner_token_hash := h\<rparr>)"
  by (simp add: run_update_def run_ok_def)

lemma FinalizeRun_ok: "terminal_status (fp_status p) \<Longrightarrow> keeps ok_step (FinalizeRun i p)"
  unfolding FinalizeRun_def
proof (rule ok_tx.stmt_keeps)
  fix w
  assume "terminal_status (fp_status p)"
  then have "ok_step w (snd (update_run i (\<lambda>r. \<not> terminal_status (run_status r)) (finalized (now_at w) p) w))"
    by (intro find_update_ok finalized_update)
  then show "ok_step w (snd (case update_run i (\<lambda>r. \<not> terminal_status (run_status r)) (finalized (now_at w) p) w of
       (Inl e, w') \<Rightarrow> (Inl e, w')
     | (Inr r, w') \<Rightarrow> if valid_status (fp_status p) then (Inr r, w') else (Inl ErrConstraint, w)))"
    by (auto simp: ok_step_refl split: prod.splits sum.splits)
qed

lemma SetRunRunning_ok: "keeps ok_step (SetRunRunning i pid)"
  unfolding SetRunRunning_def by (rule ok_tx.stmt_keeps) (intro find_update_ok running_update)

lemma OrphanSweep_ok: "keeps ok_step OrphanSweep"
  unfolding OrphanSweep_def
  by (rule ok_tx.stmt_keeps) (auto intro!: ok_stepI runs_update_ok swept_update)

lemma update_token_hash_ok: "keeps ok_step (update_token_hash h i)"
  unfolding update_token_hash_def
  by (rule ok_tx.stmt_keeps) (auto intro!: ok_stepI runs_update_ok hash_update)

lemma find_None_notin: "find p xs = None \<longleftrightarrow> (\<forall>x \<in> set xs. \<not> p x)"
  by (auto simp: find_None_iff)

lemma find_Some_in: "find p xs = Some x \<Longrightarrow> x \<in> set xs \<and> p x"
  by (auto simp: find_Some_iff)

lemma find_run_id: "find_run w i = None \<longleftrightarrow> i \<notin> run_id ` set (runs w)"
  by (auto simp: find_run_def find_None_notin)

lemma find_schedule_id: "find_schedule w i = None \<longleftrightarrow> i \<notin> sch_id ` set (schedules w)"
  by (auto simp: find_schedule_def find_None_notin)

lemma find_skill_id: "find_skill w i = None \<longleftrightarrow> i \<notin> sk_id ` set (skills w)"
  by (auto simp: find_skill_def find_None_notin)

lemma find_repo_id: "find_repo w i = None \<longleftrightarrow> i \<notin> rc_id ` set (repos w)"
  by (auto simp: find_repo_def find_None_notin)

lemma inserted_run_ok:
  assumes ok: "store_ok w" and checks: "run_checks w p"
    and fresh: "find (fire_conflict p) (runs w) = None"
  shows "store_ok (w\<lparr>runs := runs w @ [new_run (uuid_gen w (uuid_ctr w)) t p],
                     uuid_ctr := Suc (uuid_ctr w)\<rparr>)" (is "store_ok ?w")
proof -
  let ?r = "new_run (uuid_gen w (uuid_ctr w)) t p"
  have free: "uuid_gen w (uuid_ctr w) \<notin> used_ids w"
    using ok by (simp add: store_ok_def supply_ok_def)
  have "fires_unique (runs w @ [?r])"
    using ok fresh
    by (auto simp: store_ok_def keys_ok_def fires_unique_def fire_key_def new_run_def
        fire_conflict_def find_None_notin)
  then have "keys_ok ?w"
    using ok free by (auto simp: store_ok_def keys_ok_def used_ids_def new_run_def)
  moreover have "refs_ok ?w"
    using ok checks by (auto simp: store_ok_def refs_ok_def run_checks_def find_schedule_id new_run_def)
  moreover have "rows_ok ?w"
    using ok checks by (auto simp: store_ok_def rows_ok_def run_checks_def run_ok_def new_run_def)
  moreover have "supply_ok ?w"
    using ok by (auto simp: store_ok_def supply_ok_def used_ids_def new_run_def
        dest: injD)
  ultimately show ?thesis by (simp add: store_ok_def)
qed

lemma InsertRun_ok: "keeps ok_step (InsertRun p)"
  unfolding InsertRun_def
  by (rule ok_tx.stmt_keeps)
    (auto simp: ok_step_refl Let_def grows_def intro!: ok_stepI inserted_run_ok split: option.split)

lemma DeleteRun_ok: "ok_step w (snd (DeleteRun i w))"
proof -
  have "keeps ok_step (DeleteRun i)"
    unfolding DeleteRun_def
    by (rule ok_tx.stmt_keeps) (auto intro!: ok_stepI drop_runs_ok grows_drops)
  then show ?thesis by (rule keepsD)
qed

lemma InsertRunEvent_ok: "keeps ok_step (InsertRunEvent i l ty pl)"
  unfolding InsertRunEvent_def
  by (rule ok_tx.stmt_keeps)
    (auto simp: ok_step_refl grows_def find_run_id store_ok_defs intro!: ok_stepI)

lemma InsertRunNotification_ok: "keeps ok_step (InsertRunNotification i org k tg st rs)"
  unfolding InsertRunNotification_def
  by (rule ok_tx.stmt_keeps)
    (auto simp: ok_step_refl grows_def find_run_id store_ok_defs intro!: ok_stepI)

lemma InsertAuditLog_ok: "keeps ok_step (InsertAuditLog org ac act tk ti d)"
  unfolding InsertAuditLog_def
  by (rule ok_tx.stmt_keeps) (auto simp: grows_def intro!: ok_step_tables)

lemma schedules_stmt_ok:
  "(\<And>w. sched_update (f w)) \<Longrightarrow>
   keeps ok_step (stmt (\<lambda>w. (Inr (x w), w\<lparr>schedules := update_where (p w) (f w) (schedules w)\<rparr>)))"
  by (rule ok_tx.stmt_keeps) (auto intro!: ok_stepI schedules_update_ok)

lemma UpdateScheduleNextFireAt_ok: "keeps ok_step (UpdateScheduleNextFireAt i nf)"
  unfolding UpdateScheduleNextFireAt_def by (rule schedules_stmt_ok) (simp add: sched_update_def)

lemma AutoPauseSchedule_ok: "keeps ok_step (AutoPauseSchedule i rs)"
  unfolding AutoPauseSchedule_def by (rule schedules_stmt_ok) (simp add: sched_update_def)

lemma DisableMissingSchedules_ok: "keeps ok_step (DisableMissingSchedules sk names)"
  unfolding DisableMissingSchedules_def by (rule schedules_stmt_ok) (simp add: sched_update_def)

lemma SetScheduleEnabled_ok: "keeps ok_step (SetScheduleEnabled i b org)"
  unfolding SetScheduleEnabled_def
  by (rule ok_tx.stmt_keeps)
    (auto simp: ok_step_refl sched_update_def enabled_row_def
      intro!: ok_stepI schedules_update_ok split: option.split)

lemma repos_update_ok:
  "(\<And>c. rc_id (f c) = rc_id c) \<Longrightarrow> store_ok w \<Longrightarrow> store_ok (w\<lparr>repos := update_where p f (repos w)\<rparr>)"
  by (simp add: store_ok_defs)

lemma MarkRepoSyncedOK_ok: "keeps ok_step (MarkRepoSyncedOK i sha)"
  unfolding MarkRepoSyncedOK_def
  by (rule ok_tx.stmt_keeps) (auto intro!: ok_stepI repos_update_ok)

lemma MarkRepoSyncError_ok: "keeps ok_step (MarkRepoSyncError i msg)"
  unfolding MarkRepoSyncError_def
  by (rule ok_tx.stmt_keeps) (auto intro!: ok_stepI repos_update_ok)

lemma inserted_schedule_ok:
  assumes ok: "store_ok w" and checks: "schedule_checks w p"
    and fresh: "find (sched_key (us_skill_id p) (us_name p)) (schedules w) = None"
  shows "store_ok (w\<lparr>schedules := schedules w @ [new_schedule (uuid_gen w (uuid_ctr w)) t p],
                     uuid_ctr := Suc (uuid_ctr w)\<rparr>)" (is "store_ok ?w")
proof -
  have free: "uuid_gen w (uuid_ctr w) \<notin> used_ids w"
    using ok by (simp add: store_ok_def supply_ok_def)
  have "keys_ok ?w"
    using ok free fresh
    by (auto simp: store_ok_def keys_ok_def used_ids_def new_schedule_def find_None_notin sched_key_def)
  moreover have "refs_ok ?w"
    using ok checks by (auto simp: store_ok_def refs_ok_def schedule_checks_def find_skill_id new_schedule_def)
  moreover have "rows_ok ?w"
    using ok checks by (auto simp: store_ok_def rows_ok_def schedule_checks_def new_schedule_def)
  moreover have "supply_ok ?w"
    using ok by (auto simp: store_ok_def supply_ok_def used_ids_def new_schedule_def dest: injD)
  ultimately show ?thesis by (simp add: store_ok_def)
qed

lemma UpsertSchedule_ok: "keeps ok_step (UpsertSchedule p)"
  unfolding UpsertSchedule_def
  by (rule ok_tx.stmt_keeps)
    (auto simp: ok_step_refl Let_def grows_def sched_update_def upserted_schedule_def schedule_checks_def
      intro!: ok_stepI inserted_schedule_ok schedules_update_ok split: option.split)

lemma inserted_skill_ok:
  assumes ok: "store_ok w" and repo: "find_repo w (sk_repo_id k) \<noteq> None"
    and i: "sk_id k = uuid_gen w (uuid_ctr w)"
    and fresh: "\<forall>k' \<in> set (skills w). \<not> (sk_repo_id k' = sk_repo_id k \<and> sk_path k' = sk_path k)"
  shows "store_ok (w\<lparr>skills := skills w @ [k], uuid_ctr := Suc (uuid_ctr w)\<rparr>)" (is "store_ok ?w")
proof -
  have free: "uuid_gen w (uuid_ctr w) \<notin> used_ids w"
    using ok by (simp add: store_ok_def supply_ok_def)
  have "keys_ok ?w"
    using ok free fresh i by (auto simp: store_ok_def keys_ok_def used_ids_def)
  moreover have "refs_ok ?w"
    using ok repo by (auto simp: store_ok_def refs_ok_def find_repo_id)
  moreover have "rows_ok ?w"
    using ok by (simp add: store_ok_def rows_ok_def)
  moreover have "supply_ok ?w"
    using ok i by (auto simp: store_ok_def supply_ok_def used_ids_def dest: injD)
  ultimately show ?thesis by (simp add: store_ok_def)
qed

lemma skills_update_ok:
  "(\<And>k. sk_id (f k) = sk_id k) \<Longrightarrow> (\<And>k. sk_repo_id (f k) = sk_repo_id k) \<Longrightarrow>
   (\<And>k. sk_path (f k) = sk_path k) \<Longrightarrow> store_ok w \<Longrightarrow>
   store_ok (w\<lparr>skills := update_where p f (skills w)\<rparr>)"
  by (simp add: store_ok_defs)

lemma UpsertSkill_ok: "keeps ok_step (UpsertSkill p)"
  unfolding UpsertSkill_def
  by (rule ok_tx.stmt_keeps)
    (auto simp: ok_step_refl Let_def grows_def find_None_notin
      intro!: ok_stepI inserted_skill_ok skills_update_ok split: option.split)

lemma DeleteMissingSkills_ok: "keeps ok_step (DeleteMissingSkills repo paths)"
  unfolding DeleteMissingSkills_def
  by (rule ok_tx.stmt_keeps)
    (auto intro!: ok_stepI drop_skills_ok grows_drops)

interpretation ok: sync_rel ok_step
  by unfold_locales
    (rule InsertRun_ok DeleteRun_ok FinalizeRun_ok SetRunRunning_ok OrphanSweep_ok update_token_hash_ok
      InsertRunEvent_ok InsertRunNotification_ok InsertAuditLog_ok UpdateScheduleNextFireAt_ok
      AutoPauseSchedule_ok SetScheduleEnabled_ok MarkRepoSyncedOK_ok MarkRepoSyncError_ok
      UpsertSchedule_ok DisableMissingSchedules_ok UpsertSkill_ok DeleteMissingSkills_ok |
     (rule ok_step_tables; simp add: grows_def) | assumption)+

end
