(* ===== verification/Secret_Refs.thy ===== *)
theory Secret_Refs
  imports Prelude
begin

text \<open>
  Which secrets a run may read: internal/config/secretrefs.go walks the JSON of a schedule and
  collects every non-empty string under a field named secret. The abstract notion is
  \<open>secret_at\<close>; the walk computes exactly it.
\<close>

section \<open>The walk\<close>

text \<open>The map used as a set is the list of its keys, without repetitions.\<close>

fun walkSecretRefs :: "json \<Rightarrow> string list \<Rightarrow> string list"
  and walk_list :: "json list \<Rightarrow> string list \<Rightarrow> string list"
  and walk_fields :: "(string \<times> json) list \<Rightarrow> string list \<Rightarrow> string list" where
  "walkSecretRefs (JObj kvs) seen =
     walk_fields kvs (case map_of kvs ''secret'' of
         Some (JStr s) \<Rightarrow> (if s \<noteq> [] then List.insert s seen else seen)
       | _ \<Rightarrow> seen)"
| "walkSecretRefs (JArr xs) seen = walk_list xs seen"
| "walkSecretRefs (JStr s) seen = seen"
| "walkSecretRefs (JNum n) seen = seen"
| "walkSecretRefs (JBool b) seen = seen"
| "walkSecretRefs JNull seen = seen"
| "walk_list [] seen = seen"
| "walk_list (x # xs) seen = walk_list xs (walkSecretRefs x seen)"
| "walk_fields [] seen = seen"
| "walk_fields ((k, v) # kvs) seen = walk_fields kvs (walkSecretRefs v seen)"

text \<open>A NULL column or an absent message has length 0 and contributes nothing.\<close>

definition scan_refs :: "json option \<Rightarrow> string list \<Rightarrow> string list" where
  "scan_refs raw seen = (case raw of None \<Rightarrow> seen | Some v \<Rightarrow> walkSecretRefs v seen)"

definition CollectSecretRefs ::
  "json option \<Rightarrow> json option \<Rightarrow> string option \<Rightarrow> json option list \<Rightarrow> string list" where
  "CollectSecretRefs destinations env llmRef extra =
     (let seen = scan_refs destinations [];
          seen = scan_refs env seen;
          seen = fold scan_refs extra seen;
          seen = (case llmRef of Some r \<Rightarrow> if r \<noteq> [] then List.insert r seen else seen | None \<Rightarrow> seen)
      in sort seen)"

section \<open>What the walk finds\<close>

inductive secret_at :: "json \<Rightarrow> string \<Rightarrow> bool" where
  here: "map_of kvs ''secret'' = Some (JStr s) \<Longrightarrow> s \<noteq> [] \<Longrightarrow> secret_at (JObj kvs) s"
| field: "(k, v) \<in> set kvs \<Longrightarrow> secret_at v s \<Longrightarrow> secret_at (JObj kvs) s"
| element: "v \<in> set xs \<Longrightarrow> secret_at v s \<Longrightarrow> secret_at (JArr xs) s"

inductive_simps secret_at_simps [simp]:
  "secret_at (JObj kvs) s" "secret_at (JArr xs) s" "secret_at (JStr t) s" "secret_at (JNum n) s"
  "secret_at (JBool b) s" "secret_at JNull s"

lemma walk_set:
  "set (walkSecretRefs v seen) = set seen \<union> {s. secret_at v s}"
  "set (walk_list xs seen) = set seen \<union> {s. \<exists>v \<in> set xs. secret_at v s}"
  "set (walk_fields kvs seen) = set seen \<union> {s. \<exists>(k, v) \<in> set kvs. secret_at v s}"
  by (induction v seen and xs seen and kvs seen rule: walkSecretRefs_walk_list_walk_fields.induct)
    (auto split: option.splits json.splits)

lemma walk_distinct:
  "distinct seen \<Longrightarrow> distinct (walkSecretRefs v seen)"
  "distinct seen \<Longrightarrow> distinct (walk_list xs seen)"
  "distinct seen \<Longrightarrow> distinct (walk_fields kvs seen)"
  by (induction v seen and xs seen and kvs seen rule: walkSecretRefs_walk_list_walk_fields.induct)
    (auto split: option.splits json.splits)

definition secret_in :: "json option \<Rightarrow> string \<Rightarrow> bool" where
  "secret_in raw s \<longleftrightarrow> (case raw of None \<Rightarrow> False | Some v \<Rightarrow> secret_at v s)"

lemma scan_set: "set (scan_refs raw seen) = set seen \<union> {s. secret_in raw s}"
  by (auto simp: scan_refs_def secret_in_def walk_set split: option.split)

lemma scan_distinct: "distinct seen \<Longrightarrow> distinct (scan_refs raw seen)"
  by (auto simp: scan_refs_def walk_distinct split: option.split)

lemma fold_scan_set: "set (fold scan_refs rs seen) = set seen \<union> {s. \<exists>r \<in> set rs. secret_in r s}"
  by (induction rs arbitrary: seen) (auto simp: scan_set)

lemma fold_scan_distinct: "distinct seen \<Longrightarrow> distinct (fold scan_refs rs seen)"
  by (induction rs arbitrary: seen) (auto simp: scan_distinct)

lemma CollectSecretRefs_set:
  "set (CollectSecretRefs d e l xs) =
     {s. secret_in d s \<or> secret_in e s \<or> (\<exists>x \<in> set xs. secret_in x s) \<or> (l = Some s \<and> s \<noteq> [])}"
  by (auto simp: CollectSecretRefs_def Let_def scan_set fold_scan_set split: option.splits if_splits)

lemma CollectSecretRefs_sorted:
  "sorted (CollectSecretRefs d e l xs) \<and> distinct (CollectSecretRefs d e l xs)"
  by (auto simp: CollectSecretRefs_def Let_def scan_distinct fold_scan_distinct split: option.splits)

end
