(* ===== verification/Token.thy ===== *)
theory Token
  imports Prelude
begin

text \<open>
  Per-run bearer tokens (internal/token/jwt.go). The JWT library, HKDF, SHA-256 and the UUID
  package are parameters, collected in \<open>libs\<close>; what the code relies on is stated by
  \<open>jwt_lib_ok\<close> and \<open>uuid_lib_ok\<close>.
\<close>

section \<open>Third-party functions\<close>

datatype jwt_err = JwtExpired | JwtInvalid

record libs =
  uuid_string :: "uuid \<Rightarrow> string"
  uuid_parse :: "string \<Rightarrow> uuid option"
  hkdf_sha256 :: "string \<Rightarrow> string \<Rightarrow> string"
  sha256_hex :: "string \<Rightarrow> string"
  jwt_signed_string :: "string \<Rightarrow> (string \<times> json) list \<Rightarrow> string option"
  jwt_parse :: "time \<Rightarrow> string \<Rightarrow> string \<Rightarrow> jwt_err + (string \<times> json) list"
  cron_parse :: "string \<Rightarrow> (string \<Rightarrow> time \<Rightarrow> time) option"
  load_location :: "string \<Rightarrow> bool"

text \<open>Parsing the canonical form of an identifier gives it back.\<close>

definition uuid_lib_ok :: "libs \<Rightarrow> bool" where
  "uuid_lib_ok L \<longleftrightarrow> (\<forall>u. uuid_parse L (uuid_string L u) = Some u)"

text \<open>
  What the JWT library documents: a token it signed parses back to its claims under the same
  key before the exp claim and is rejected as expired from then on; and no token parses whose
  exp claim has passed.
\<close>

definition claim_live :: "time \<Rightarrow> (string \<times> json) list \<Rightarrow> bool" where
  "claim_live now c \<longleftrightarrow> (case map_of c ''exp'' of Some (JNum n) \<Rightarrow> now < n * second | _ \<Rightarrow> True)"

definition jwt_lib_ok :: "libs \<Rightarrow> bool" where
  "jwt_lib_ok L \<longleftrightarrow>
     (\<forall>now key c tok. jwt_signed_string L key c = Some tok \<longrightarrow>
        jwt_parse L now key tok = (if claim_live now c then Inr c else Inl JwtExpired)) \<and>
     (\<forall>now key tok c. jwt_parse L now key tok = Inr c \<longrightarrow> claim_live now c)"

section \<open>Signing and verifying\<close>

record run_claims =
  cl_run_id :: uuid
  cl_org_id :: uuid
  cl_secret_refs :: "string list"
  cl_expires_at :: time

datatype token_err =
    SignFailed
  | TokenExpired
  | VerifyFailed
  | BadRunId
  | BadOrgId
  | MissingExp

definition hkdf_info :: string where
  "hkdf_info = ''cronfoundry:run-jwt''"

text \<open>\<open>New\<close>: the signing key derived from the master key.\<close>

definition new_signer :: "libs \<Rightarrow> string \<Rightarrow> string" where
  "new_signer L master = hkdf_sha256 L master hkdf_info"

definition HashToken :: "libs \<Rightarrow> string \<Rightarrow> string" where
  "HashToken L tok = sha256_hex L tok"

definition claims_json :: "libs \<Rightarrow> run_claims \<Rightarrow> (string \<times> json) list" where
  "claims_json L c = [(''run_id'', JStr (uuid_string L (cl_run_id c))),
     (''org_id'', JStr (uuid_string L (cl_org_id c))),
     (''secret_refs'', JArr (map JStr (cl_secret_refs c))),
     (''exp'', JNum (cl_expires_at c div second))]"

definition Sign :: "libs \<Rightarrow> string \<Rightarrow> run_claims \<Rightarrow> token_err + (string \<times> string)" where
  "Sign L key c = (case jwt_signed_string L key (claims_json L c) of
       None \<Rightarrow> Inl SignFailed
     | Some tok \<Rightarrow> Inr (tok, HashToken L tok))"

definition str_claim :: "string \<Rightarrow> (string \<times> json) list \<Rightarrow> string" where
  "str_claim k c = (case map_of c k of Some (JStr s) \<Rightarrow> s | _ \<Rightarrow> [])"

definition refs_claim :: "(string \<times> json) list \<Rightarrow> string list" where
  "refs_claim c = (case map_of c ''secret_refs'' of
       Some (JArr vs) \<Rightarrow> List.map_filter (\<lambda>v. case v of JStr s \<Rightarrow> Some s | _ \<Rightarrow> None) vs
     | _ \<Rightarrow> [])"

definition Verify :: "libs \<Rightarrow> string \<Rightarrow> time \<Rightarrow> string \<Rightarrow> token_err + run_claims" where
  "Verify L key now bearer = (case jwt_parse L now key bearer of
       Inl JwtExpired \<Rightarrow> Inl TokenExpired
     | Inl JwtInvalid \<Rightarrow> Inl VerifyFailed
     | Inr claims \<Rightarrow>
       (case uuid_parse L (str_claim ''run_id'' claims) of
          None \<Rightarrow> Inl BadRunId
        | Some run \<Rightarrow>
          (case uuid_parse L (str_claim ''org_id'' claims) of
             None \<Rightarrow> Inl BadOrgId
           | Some org \<Rightarrow>
             (case map_of claims ''exp'' of
                Some (JNum n) \<Rightarrow> Inr \<lparr>cl_run_id = run, cl_org_id = org,
                    cl_secret_refs = refs_claim claims, cl_expires_at = n * second\<rparr>
              | _ \<Rightarrow> Inl MissingExp))))"

section \<open>Round trip\<close>

lemma map_filter_JStr: "List.map_filter (\<lambda>v. case v of JStr s \<Rightarrow> Some s | _ \<Rightarrow> None) (map JStr xs) = xs"
  by (induction xs) (auto simp: List.map_filter_def)

lemma Sign_hash: "Sign L key c = Inr (tok, h) \<Longrightarrow> h = HashToken L tok"
  by (auto simp: Sign_def split: option.splits)

lemma claims_json_fields [simp]:
  "map_of (claims_json L c) ''exp'' = Some (JNum (cl_expires_at c div second))"
  "str_claim ''run_id'' (claims_json L c) = uuid_string L (cl_run_id c)"
  "str_claim ''org_id'' (claims_json L c) = uuid_string L (cl_org_id c)"
  "refs_claim (claims_json L c) = cl_secret_refs c"
  by (simp_all add: claims_json_def str_claim_def refs_claim_def map_filter_JStr)

lemma Verify_claims:
  assumes "uuid_lib_ok L" and "jwt_parse L now key tok = Inr (claims_json L c)"
  shows "Verify L key now tok = Inr (c\<lparr>cl_expires_at := cl_expires_at c div second * second\<rparr>)"
  using assms by (cases c) (simp add: Verify_def uuid_lib_ok_def)

lemma signed_parse:
  assumes "jwt_lib_ok L" "Sign L key c = Inr (tok, h)"
  shows "jwt_parse L now key tok =
    (if now < cl_expires_at c div second * second then Inr (claims_json L c) else Inl JwtExpired)"
proof -
  from assms(2) have "jwt_signed_string L key (claims_json L c) = Some tok"
    by (auto simp: Sign_def split: option.splits)
  with assms(1) have "jwt_parse L now key tok =
      (if claim_live now (claims_json L c) then Inr (claims_json L c) else Inl JwtExpired)"
    unfolding jwt_lib_ok_def by blast
  then show ?thesis by (simp add: claim_live_def)
qed

text \<open>A bearer that verifies carries an exp claim that has not passed.\<close>

lemma Verify_Inr:
  assumes "Verify L key now tok = Inr c"
  obtains claims n where "jwt_parse L now key tok = Inr claims"
    "map_of claims ''exp'' = Some (JNum n)" "cl_expires_at c = n * second"
    "cl_secret_refs c = refs_claim claims"
    "uuid_parse L (str_claim ''run_id'' claims) = Some (cl_run_id c)"
  using assms
  by (auto simp: Verify_def split: sum.splits jwt_err.splits option.splits json.splits)

lemma verify_live:
  assumes "jwt_lib_ok L" "Verify L key now tok = Inr c"
  shows "now < cl_expires_at c"
proof -
  obtain claims n where p: "jwt_parse L now key tok = Inr claims"
    and e: "map_of claims ''exp'' = Some (JNum n)" "cl_expires_at c = n * second"
    using Verify_Inr [OF assms(2)] by metis
  from assms(1) p have "claim_live now claims"
    unfolding jwt_lib_ok_def by blast
  with e show ?thesis by (simp add: claim_live_def)
qed

end
