(* ===== verification/Scheduler.thy ===== *)
theory Scheduler
  imports Store_Inv Secret_Refs Token
begin

text \<open>
  The tick loop (internal/scheduler): the overlap policy, the next fire time, one pass over
  the due schedules, the drain of pending runs, and the loop around it. The cron parser and the
  time zone database are parameters (\<open>libs\<close>), as are the job dispatcher and the provider of
  GitHub tokens, which the code takes as interfaces.
\<close>

section \<open>Overlap policy\<close>

datatype decision = DecisionDispatch | DecisionSkip | DecisionQueue

definition Decide :: "string \<Rightarrow> nat \<Rightarrow> decision" where
  "Decide policy activeCount =
     (if policy = ''concurrent'' then DecisionDispatch
      else if policy = ''queue'' then (if activeCount = 0 then DecisionDispatch else DecisionQueue)
      else if policy = ''skip'' \<or> policy = [] then (if activeCount = 0 then DecisionDispatch else DecisionSkip)
      else (if activeCount = 0 then DecisionDispatch else DecisionSkip))"

section \<open>Next fire time\<close>

text \<open>The zero value of Go's time type, January 1 of year 1, counted from the Unix epoch.\<close>

definition zero_time :: time where
  "zero_time = - 62135596800 * second"

datatype cron_err = BadTimezone string | BadCron string

definition NextFire :: "libs \<Rightarrow> string \<Rightarrow> string \<Rightarrow> time \<Rightarrow> cron_err + time" where
  "NextFire L expr tz base =
     (if \<not> load_location L tz then Inl (BadTimezone tz)
      else case cron_parse L expr of
        None \<Rightarrow> Inl (BadCron expr)
      | Some schedule_next \<Rightarrow> Inr (schedule_next tz base))"

text \<open>
  What the cron library documents of Next: a time after the given one, or the zero time when
  the expression never fires.
\<close>

definition cron_lib_ok :: "libs \<Rightarrow> bool" where
  "cron_lib_ok L \<longleftrightarrow> (\<forall>expr nxt tz b. cron_parse L expr = Some nxt \<longrightarrow> b < nxt tz b \<or> nxt tz b = zero_time)"

section \<open>Dispatching one run\<close>

datatype sched_err =
    ErrListDue db_err
  | ErrNextFire cron_err
  | ErrPlaceholder
  | ErrInsert db_err
  | ErrUpdateNext db_err
  | ErrListActive db_err
  | ErrDelete db_err
  | ErrSign token_err
  | ErrTokenHash db_err
  | ErrDispatch string
  | ErrQueryPending db_err

record sched_deps =
  sd_libs :: libs
  sd_signer_key :: string
  sd_dispatch :: "dispatch_request list \<Rightarrow> dispatch_request \<Rightarrow> string + int"
  sd_installations :: "(int \<Rightarrow> string + string) option"
  sd_api_base_url :: string
  sd_runner_api_url :: string
  sd_runner_binary :: string

record stats =
  st_dispatched :: nat
  st_skipped :: nat
  st_queued :: nat
  st_errored :: nat

definition stats0 :: stats where
  "stats0 = \<lparr>st_dispatched = 0, st_skipped = 0, st_queued = 0, st_errored = 0\<rparr>"

record dispatch_args =
  da_run_id :: uuid
  da_org_id :: uuid
  da_timeout_sec :: int
  da_secret_refs :: "string list"
  da_install_id :: int
  da_schedule_name :: string

definition github_token :: "sched_deps \<Rightarrow> int \<Rightarrow> string" where
  "github_token deps install = (case sd_installations deps of
       None \<Rightarrow> []
     | Some tok \<Rightarrow> if install = 0 then [] else (case tok install of Inl _ \<Rightarrow> [] | Inr t \<Rightarrow> t))"

definition runner_request :: "sched_deps \<Rightarrow> dispatch_args \<Rightarrow> string \<Rightarrow> dispatch_request" where
  "runner_request deps args tok =
     (let rid = uuid_string (sd_libs deps) (da_run_id args);
          url = (if sd_runner_api_url deps = [] then sd_api_base_url deps else sd_runner_api_url deps);
          gtok = github_token deps (da_install_id args)
      in \<lparr>dr_binary_path = sd_runner_binary deps,
          dr_args = [''runner'', ''--run-id'', rid],
          dr_env = [''CRONFOUNDRY_API_URL='' @ url, ''CRONFOUNDRY_RUN_ID='' @ rid,
                    ''CRONFOUNDRY_RUN_TOKEN='' @ tok] @
                   (if gtok \<noteq> [] then [''GITHUB_TOKEN='' @ gtok] else [])\<rparr>)"

definition dispatch_claims :: "dispatch_args \<Rightarrow> time \<Rightarrow> run_claims" where
  "dispatch_claims args now = \<lparr>cl_run_id = da_run_id args, cl_org_id = da_org_id args,
     cl_secret_refs = da_secret_refs args,
     cl_expires_at = now + (da_timeout_sec args * second + 120 * second)\<rparr>"

text \<open>The call of the dispatcher and the log of the jobs it accepted.\<close>

definition call_dispatcher :: "sched_deps \<Rightarrow> dispatch_request \<Rightarrow> (world, sched_err, int) sx" where
  "call_dispatcher deps spec = bind (gets dispatched) (\<lambda>log.
     case sd_dispatch deps log spec of
       Inl msg \<Rightarrow> throw (ErrDispatch msg)
     | Inr pid \<Rightarrow> bind (modify (\<lambda>w. w\<lparr>dispatched := dispatched w @ [spec]\<rparr>)) (\<lambda>_. ret pid))"

definition emit :: "metric \<Rightarrow> (world, 'e, unit) sx" where
  "emit m = modify (\<lambda>w. w\<lparr>metrics := metrics w @ [m]\<rparr>)"

definition dispatchRun :: "sched_deps \<Rightarrow> dispatch_args \<Rightarrow> (world, sched_err, unit) sx" where
  "dispatchRun deps args =
     bind (gets (\<lambda>w. clock_at w (stmt_ctr w))) (\<lambda>now.
     case Sign (sd_libs deps) (sd_signer_key deps) (dispatch_claims args now) of
       Inl e \<Rightarrow> throw (ErrSign e)
     | Inr (tok, hash) \<Rightarrow>
       bind (map_err ErrTokenHash (update_token_hash hash (da_run_id args))) (\<lambda>_.
       bind (call_dispatcher deps (runner_request deps args tok)) (\<lambda>pid.
       bind (emit (RunsStarted (da_schedule_name args))) (\<lambda>_.
       bind (attempt (SetRunRunning (da_run_id args) (Some (int32 pid)))) (\<lambda>_.
       ret ())))))"

section \<open>One due schedule\<close>

definition sched_args :: "run_row \<Rightarrow> sched_row \<Rightarrow> int \<Rightarrow> dispatch_args" where
  "sched_args r s install = \<lparr>da_run_id = run_id r, da_org_id = sch_org_id s,
     da_timeout_sec = sch_timeout_sec s,
     da_secret_refs = CollectSecretRefs (Some (sch_destinations_json s)) (Some (sch_env_json s))
       (sch_llm_secret_ref s) [],
     da_install_id = install, da_schedule_name = sch_name s\<rparr>"

text \<open>The part of processOne that follows a fresh insert: count, decide, act.\<close>

definition apply_overlap ::
  "sched_deps \<Rightarrow> sched_row \<Rightarrow> int \<Rightarrow> stats \<Rightarrow> run_row \<Rightarrow> (world, sched_err, stats) sx" where
  "apply_overlap deps s install st run =
     bind (map_err ErrListActive (ListActiveRunsForSchedule (sch_id s))) (\<lambda>active.
     case Decide (sch_overlap_policy s) (length (filter (\<lambda>r. run_id r \<noteq> run_id run) active)) of
       DecisionSkip \<Rightarrow> bind (map_err ErrDelete (DeleteRun (run_id run)))
         (\<lambda>_. ret (st\<lparr>st_skipped := Suc (st_skipped st)\<rparr>))
     | DecisionQueue \<Rightarrow> ret (st\<lparr>st_queued := Suc (st_queued st)\<rparr>)
     | DecisionDispatch \<Rightarrow> bind (dispatchRun deps (sched_args run s install))
         (\<lambda>_. ret (st\<lparr>st_dispatched := Suc (st_dispatched st)\<rparr>)))"

definition scheduled_params :: "sched_row \<Rightarrow> string \<Rightarrow> time \<Rightarrow> string \<Rightarrow> insert_run_params" where
  "scheduled_params s sha fire placeholder = \<lparr>ir_org_id = sch_org_id s, ir_schedule_id = sch_id s,
     ir_skill_sha = sha, ir_fire_time = Some fire, ir_fire_reason = ''schedule'', ir_actor = None,
     ir_runner_token_hash = ''pending:'' @ placeholder\<rparr>"

definition processOne ::
  "sched_deps \<Rightarrow> sched_row \<times> string \<times> int \<Rightarrow> stats \<Rightarrow> (world, sched_err, stats) sx" where
  "processOne deps row st = (case row of (s, sha, install) \<Rightarrow>
     let thisFire = (case sch_next_fire_at s of Some t \<Rightarrow> t | None \<Rightarrow> zero_time) in
     case NextFire (sd_libs deps) (sch_cron s) (sch_timezone s) thisFire of
       Inl e \<Rightarrow> throw (ErrNextFire e)
     | Inr nextFire \<Rightarrow>
       bind (gets (\<lambda>w. rand_hex w (stmt_ctr w))) (\<lambda>rnd.
       case rnd of
         None \<Rightarrow> throw ErrPlaceholder
       | Some placeholder \<Rightarrow>
         bind (map_err ErrInsert (InsertRun (scheduled_params s sha thisFire placeholder))) (\<lambda>(run, inserted).
         bind (map_err ErrUpdateNext (UpdateScheduleNextFireAt (sch_id s) (Some nextFire))) (\<lambda>_.
         if \<not> inserted then ret st
         else apply_overlap deps s install st run))))"

section \<open>The pass\<close>

text \<open>An error of one schedule is counted and logged, and the loop goes on.\<close>

primrec process_due ::
  "sched_deps \<Rightarrow> (sched_row \<times> string \<times> int) list \<Rightarrow> stats \<Rightarrow> (world, sched_err, stats) sx" where
  "process_due deps [] st = ret st"
| "process_due deps (row # rows) st =
     bind (attempt (processOne deps row st)) (\<lambda>res.
     process_due deps rows (case res of Inr st' \<Rightarrow> st' | Inl _ \<Rightarrow> st\<lparr>st_errored := Suc (st_errored st)\<rparr>))"

primrec dispatch_rows ::
  "sched_deps \<Rightarrow> (run_row \<times> sched_row \<times> repo_row) list \<Rightarrow> stats \<Rightarrow> (world, sched_err, stats) sx" where
  "dispatch_rows deps [] st = ret st"
| "dispatch_rows deps (row # rows) st = (case row of (r, s, c) \<Rightarrow>
     bind (attempt (dispatchRun deps ((sched_args r s (rc_github_app_install_id c))\<lparr>da_org_id := run_org_id r\<rparr>))) (\<lambda>res.
     dispatch_rows deps rows (case res of
         Inr _ \<Rightarrow> st\<lparr>st_dispatched := Suc (st_dispatched st)\<rparr>
       | Inl _ \<Rightarrow> st\<lparr>st_errored := Suc (st_errored st)\<rparr>)))"

definition dispatchPending :: "sched_deps \<Rightarrow> stats \<Rightarrow> (world, sched_err, stats) sx" where
  "dispatchPending deps st = bind (map_err ErrQueryPending query_pending) (\<lambda>rows. dispatch_rows deps rows st)"

definition Tick :: "sched_deps \<Rightarrow> (world, sched_err, stats) sx" where
  "Tick deps =
     bind (map_err ErrListDue ListDueSchedulesWithSha) (\<lambda>due.
     bind (process_due deps due stats0) (\<lambda>st.
     bind (attempt (dispatchPending deps st)) (\<lambda>res.
     bind (attempt OrphanSweep) (\<lambda>_.
     ret (case res of Inr st' \<Rightarrow> st' | Inl _ \<Rightarrow> st)))))"

definition SweepOrphans :: "nat stmt" where
  "SweepOrphans = OrphanSweep"

text \<open>
  The tick clock, when the deployment has one, holds nanoseconds of the last successful tick, 0
  meaning never; a failed tick leaves it. The loop runs one tick at its start and then one per
  beat of the ticker, until the context ends: \<open>beats\<close> is the number of beats it lives through.
\<close>

definition tick_record :: "time \<Rightarrow> int" where
  "tick_record t = t * 1000"

definition LastTickAt :: "int \<Rightarrow> time" where
  "LastTickAt n = (if n = 0 then zero_time else n div 1000)"

definition tickOnce :: "sched_deps \<Rightarrow> world \<times> int option \<Rightarrow> world \<times> int option" where
  "tickOnce deps wc = (case wc of (w, clk) \<Rightarrow>
     (case Tick deps w of
        (Inl _, w') \<Rightarrow> (w', clk)
      | (Inr _, w') \<Rightarrow> (w', map_option (\<lambda>_. tick_record (clock_at w' (stmt_ctr w'))) clk)))"

primrec tick_loop :: "sched_deps \<Rightarrow> nat \<Rightarrow> world \<times> int option \<Rightarrow> world \<times> int option" where
  "tick_loop deps 0 wc = wc"
| "tick_loop deps (Suc n) wc = tick_loop deps n (tickOnce deps wc)"

definition Loop :: "sched_deps \<Rightarrow> nat \<Rightarrow> world \<times> int option \<Rightarrow> world \<times> int option" where
  "Loop deps beats wc = tick_loop deps beats (tickOnce deps wc)"

end
