(* ===== verification/Scheduler_Keeps.thy ===== *)
theory Scheduler_Keeps
  imports Scheduler
begin

text \<open>
  Whatever relation every statement keeps, a tick keeps. The one delicate statement is the
  DELETE of the skip policy: the row it removes is the pending row inserted a moment before.
\<close>

section \<open>The store invariant\<close>

lemma dispatchRun_ok: "keeps ok_step (dispatchRun deps args)"
  unfolding dispatchRun_def call_dispatcher_def emit_def
  by (intro ok.store_rules) (auto intro!: ok.store_rules split: sum.split prod.split)

lemma DeleteRun_keeps_ok: "keeps ok_step (DeleteRun i)"
  by (simp add: keeps_def DeleteRun_ok)

lemma apply_overlap_ok: "keeps ok_step (apply_overlap deps s install st run)"
  unfolding apply_overlap_def
  by (intro ok.store_rules) (auto intro!: ok.store_rules dispatchRun_ok DeleteRun_keeps_ok split: decision.split)

lemma processOne_ok: "keeps ok_step (processOne deps row st)"
  unfolding processOne_def Let_def
  by (auto intro!: ok.store_rules apply_overlap_ok split: prod.split sum.split option.split)

lemma process_due_ok: "keeps ok_step (process_due deps rows st)"
  by (induction rows arbitrary: st) (auto intro!: ok.store_rules processOne_ok)

section \<open>A fresh row is the only one with its identifier, and pending\<close>

lemma InsertRun_fresh:
  assumes ok: "store_ok w" and ins: "InsertRun p w = (Inr (run, True), w1)"
  shows "runs w1 = runs w @ [run] \<and> run_status run = ''pending'' \<and> run_id run \<notin> run_id ` set (runs w) \<and>
    schedules w1 = schedules w"
proof -
  have "uuid_gen w (uuid_ctr w) \<notin> used_ids w"
    using ok by (simp add: store_ok_def supply_ok_def)
  then show ?thesis
    using ins by (auto simp: InsertRun_def stmt_def Let_def new_run_def used_ids_def split: if_splits option.splits)
qed

lemma UpdateScheduleNextFireAt_runs [simp]: "runs (snd (UpdateScheduleNextFireAt i t w)) = runs w"
  by (simp add: UpdateScheduleNextFireAt_def stmt_def)

lemma ListActive_runs [simp]: "runs (snd (ListActiveRunsForSchedule i w)) = runs w"
  by (simp add: ListActiveRunsForSchedule_def stmt_def)

section \<open>Every relation of the store interface\<close>

locale guarded_rel = store_rel +
  assumes R_grows: "\<not> store_ok w \<Longrightarrow> grows w w' \<Longrightarrow> R w w'"
begin

lemma dispatchRun_keeps: "keeps R (dispatchRun deps args)"
  unfolding dispatchRun_def call_dispatcher_def emit_def
  by (intro store_rules) (auto intro!: store_rules split: sum.split prod.split)

lemma apply_overlap_R:
  assumes "\<forall>r \<in> set (runs w). run_id r = run_id run \<longrightarrow> run_status r = ''pending''"
  shows "R w (snd (apply_overlap deps s install st run w))"
proof -
  let ?L = "map_err ErrListActive (ListActiveRunsForSchedule (sch_id s))"
  obtain res w1 where L: "?L w = (res, w1)" by (cases "?L w")
  have w1: "R w w1"
    using keepsD [OF map_err_keeps [OF ListActiveRunsForSchedule_keeps], of w ErrListActive "sch_id s"] L
    by simp
  have runs1: "runs w1 = runs w"
    using L ListActive_runs [of "sch_id s" w] snd_map_err [of ErrListActive "ListActiveRunsForSchedule (sch_id s)" w]
    by simp
  have del: "R w (snd (bind (map_err ErrDelete (DeleteRun (run_id run))) (\<lambda>_. ret st') w1))"
    for st' :: stats
  proof -
    have "R w1 (snd (DeleteRun (run_id run) w1))"
      using assms by (intro DeleteRun_R) (simp add: runs1)
    then have "R w (snd (DeleteRun (run_id run) w1))"
      using w1 R_trans by blast
    then show ?thesis
      by simp
  qed
  have dis: "R w (snd (bind (dispatchRun deps (sched_args run s install)) (\<lambda>_. ret st') w1))"
    for st' :: stats
    using R_trans [OF w1 keepsD [OF bind_keeps [OF dispatchRun_keeps ret_keeps]]] .
  show ?thesis
  proof (cases res)
    case (Inl e)
    then show ?thesis using L w1 by (simp add: apply_overlap_def)
  next
    case (Inr active)
    then show ?thesis using L w1 del dis
      by (simp add: apply_overlap_def split: decision.split)
  qed
qed

lemma processOne_keeps: "keeps R (processOne deps row st)"
proof (rule keepsI)
  fix w
  obtain s sha install where row: "row = (s, sha, install)" by (cases row)
  show "R w (snd (processOne deps row st w))"
  proof (cases "store_ok w")
    case False
    have "ok_step w (snd (processOne deps row st w))" by (rule keepsD [OF processOne_ok])
    then show ?thesis using False by (auto simp: ok_step_def intro: R_grows)
  next
    case ok: True
    let ?fire = "case sch_next_fire_at s of Some t \<Rightarrow> t | None \<Rightarrow> zero_time"
    let ?rest = "\<lambda>nf (run, inserted). bind (map_err ErrUpdateNext (UpdateScheduleNextFireAt (sch_id s) (Some nf)))
        (\<lambda>_. if \<not> inserted then ret st else apply_overlap deps s install st run)"
    have body: "R w (snd (bind (map_err ErrInsert (InsertRun p)) (?rest nf) w))" for p nf
    proof -
      obtain res w1 where I: "InsertRun p w = (res, w1)" by (cases "InsertRun p w")
      have w1: "R w w1" using keepsD [OF InsertRun_R, of w p] I by simp
      let ?U = "map_err ErrUpdateNext (UpdateScheduleNextFireAt (sch_id s) (Some nf))"
      obtain ures w2 where U: "?U w1 = (ures, w2)" by (cases "?U w1")
      have w2: "R w1 w2"
        using keepsD [OF map_err_keeps [OF UpdateScheduleNextFireAt_R], of w1 ErrUpdateNext "sch_id s" "Some nf"] U
        by simp
      have runs2: "runs w2 = runs w1"
        using U UpdateScheduleNextFireAt_runs [of "sch_id s" "Some nf" w1]
          snd_map_err [of ErrUpdateNext "UpdateScheduleNextFireAt (sch_id s) (Some nf)" w1] by simp
      have fin: "R w2 (snd (apply_overlap deps s install st run w2))" if "res = Inr (run, True)" for run
      proof -
        have "runs w1 = runs w @ [run] \<and> run_status run = ''pending'' \<and> run_id run \<notin> run_id ` set (runs w)"
          using InsertRun_fresh [OF ok, of p run w1] I that by simp
        then show ?thesis using runs2 by (intro apply_overlap_R) (auto simp: image_iff)
      qed
      show ?thesis
      proof (cases res)
        case (Inl e)
        then show ?thesis using I w1 by (simp add: bind_def map_err_def)
      next
        case (Inr ri)
        obtain run inserted where ri: "ri = (run, inserted)" by (cases ri)
        have eq: "bind (map_err ErrInsert (InsertRun p)) (?rest nf) w =
            bind ?U (\<lambda>_. if \<not> inserted then ret st else apply_overlap deps s install st run) w1"
          using I Inr ri by (simp add: bind_def map_err_def)
        show ?thesis
        proof (cases ures)
          case (Inl e)
          then show ?thesis using U R_trans [OF w1 w2] by (simp add: eq)
        next
          case (Inr u)
          then show ?thesis
            using U fin R_trans [OF w1 w2] R_trans [OF R_trans [OF w1 w2]] \<open>res = Inr ri\<close> ri
            by (simp add: eq)
        qed
      qed
    qed
    show ?thesis
      using body by (auto simp: processOne_def row Let_def R_refl split: sum.split option.split)
  qed
qed

lemma process_due_keeps: "keeps R (process_due deps rows st)"
  by (induction rows arbitrary: st) (auto intro!: store_rules processOne_keeps)

lemma dispatch_rows_keeps: "keeps R (dispatch_rows deps rows st)"
  by (induction rows arbitrary: st) (auto intro!: store_rules dispatchRun_keeps split: prod.split)

lemma Tick_keeps: "keeps R (Tick deps)"
  unfolding Tick_def dispatchPending_def
  by (intro store_rules process_due_keeps dispatch_rows_keeps)

lemma tickOnce_R: "R w (fst (tickOnce deps (w, clk)))"
  using keepsD [OF Tick_keeps, of w deps] by (auto simp: tickOnce_def split: prod.split sum.split)

lemma tick_loop_R: "R w (fst (tick_loop deps n (w, clk)))"
proof (induction n arbitrary: w clk)
  case 0
  show ?case by (simp add: R_refl)
next
  case (Suc n)
  obtain w1 clk1 where t: "tickOnce deps (w, clk) = (w1, clk1)" by (cases "tickOnce deps (w, clk)")
  have "R w w1" using tickOnce_R [of w deps clk] t by simp
  then show ?case using Suc.IH [of w1 clk1] R_trans t by simp
qed

lemma Loop_R: "R w (fst (Loop deps n (w, clk)))"
  using tick_loop_R [of w deps "Suc n" clk] by (simp add: Loop_def)

end

interpretation ok_guarded: guarded_rel ok_step
  by unfold_locales (simp add: ok_step_def)

end
