(* ===== verification/Finality.thy ===== *)
theory Finality
  imports Scheduler_Keeps
begin

text \<open>
  A run that has reached a terminal status keeps its row: no handler of the tick or of the
  internal API deletes it or changes anything in it but the token hash. The relation is an
  instance of the store interface, so every handler keeps it.
\<close>

definition outcome_kept :: "run_row list \<Rightarrow> run_row list \<Rightarrow> bool" where
  "outcome_kept rs rs' \<longleftrightarrow> (\<forall>r \<in> set rs. terminal_status (run_status r) \<longrightarrow>
     (\<exists>h. r\<lparr>run_runner_token_hash := h\<rparr> \<in> set rs'))"

definition final_step :: "world \<Rightarrow> world \<Rightarrow> bool" where
  "final_step w w' \<longleftrightarrow> ok_step w w' \<and> (store_ok w \<longrightarrow> outcome_kept (runs w) (runs w'))"

lemma outcome_kept_superset:
  assumes "set rs \<subseteq> set rs'"
  shows "outcome_kept rs rs'"
proof -
  have "r\<lparr>run_runner_token_hash := run_runner_token_hash r\<rparr> = r" for r by simp
  then show ?thesis using assms unfolding outcome_kept_def by (metis subsetD)
qed

lemma outcome_kept_refl [simp]: "outcome_kept rs rs"
  by (rule outcome_kept_superset) simp

lemma outcome_kept_trans: "outcome_kept a b \<Longrightarrow> outcome_kept b c \<Longrightarrow> outcome_kept a c"
  unfolding outcome_kept_def by fastforce

lemma outcome_kept_update:
  assumes "\<And>r. p r \<Longrightarrow> terminal_status (run_status r) \<Longrightarrow> \<exists>h. f r = r\<lparr>run_runner_token_hash := h\<rparr>"
  shows "outcome_kept rs (update_where p f rs)"
  unfolding outcome_kept_def
proof (intro ballI impI)
  fix r
  assume r: "r \<in> set rs" "terminal_status (run_status r)"
  then have "(if p r then f r else r) \<in> set (update_where p f rs)"
    by (auto simp: update_where_def)
  moreover have "\<exists>h. (if p r then f r else r) = r\<lparr>run_runner_token_hash := h\<rparr>"
    using assms r(2) by (auto intro: exI [of _ "run_runner_token_hash r"])
  ultimately show "\<exists>h. r\<lparr>run_runner_token_hash := h\<rparr> \<in> set (update_where p f rs)" by metis
qed

lemma final_keepsI:
  assumes "keeps ok_step m" and "\<And>w. outcome_kept (runs w) (runs (snd (m w)))"
  shows "keeps final_step m"
  using assms by (simp add: keeps_def final_step_def)

lemma outcome_kept_stmt:
  "(\<And>w. outcome_kept (runs w) (runs (snd (f w)))) \<Longrightarrow> outcome_kept (runs w) (runs (snd (stmt f w)))"
proof -
  assume "\<And>w. outcome_kept (runs w) (runs (snd (f w)))"
  from this [of "w\<lparr>stmt_ctr := Suc (stmt_ctr w)\<rparr>"] show ?thesis by (simp add: stmt_def)
qed

lemma terminal_neq: "terminal_status s \<Longrightarrow> s \<noteq> ''pending'' \<and> s \<noteq> ''running'' \<and> \<not> active_status s"
  by (auto simp: terminal_status_def active_status_def)

lemma InsertRun_kept: "outcome_kept (runs w) (runs (snd (InsertRun p w)))"
  unfolding InsertRun_def
  by (rule outcome_kept_stmt) (auto simp: Let_def intro: outcome_kept_superset split: option.split)

lemma update_run_kept:
  "(\<And>r. g r \<Longrightarrow> \<not> terminal_status (run_status r)) \<Longrightarrow>
   outcome_kept (runs w) (runs (snd (update_run i g f w)))"
  by (auto simp: update_run_def intro!: outcome_kept_update split: option.split)

lemma FinalizeRun_kept: "outcome_kept (runs w) (runs (snd (FinalizeRun i p w)))"
  unfolding FinalizeRun_def
proof (rule outcome_kept_stmt)
  fix w
  have "outcome_kept (runs w) (runs (snd (update_run i (\<lambda>r. \<not> terminal_status (run_status r)) (finalized (now_at w) p) w)))"
    by (rule update_run_kept) simp
  then show "outcome_kept (runs w) (runs (snd (case update_run i (\<lambda>r. \<not> terminal_status (run_status r)) (finalized (now_at w) p) w of
       (Inl e, w') \<Rightarrow> (Inl e, w')
     | (Inr r, w') \<Rightarrow> if valid_status (fp_status p) then (Inr r, w') else (Inl ErrConstraint, w))))"
    by (auto split: prod.splits sum.splits)
qed

lemma SetRunRunning_kept: "outcome_kept (runs w) (runs (snd (SetRunRunning i pid w)))"
  unfolding SetRunRunning_def
  by (rule outcome_kept_stmt, rule update_run_kept) (auto dest: terminal_neq)

lemma OrphanSweep_kept: "outcome_kept (runs w) (runs (snd (OrphanSweep w)))"
  unfolding OrphanSweep_def
  by (rule outcome_kept_stmt) (auto simp: orphaned_def dest: terminal_neq intro!: outcome_kept_update)

lemma update_token_hash_kept: "outcome_kept (runs w) (runs (snd (update_token_hash h i w)))"
  unfolding update_token_hash_def
  by (rule outcome_kept_stmt) (auto intro!: outcome_kept_update)

lemma DeleteRun_kept:
  "\<forall>r \<in> set (runs w). run_id r = i \<longrightarrow> run_status r = ''pending'' \<Longrightarrow>
   outcome_kept (runs w) (runs (snd (DeleteRun i w)))"
proof -
  assume pend: "\<forall>r \<in> set (runs w). run_id r = i \<longrightarrow> run_status r = ''pending''"
  have "outcome_kept rs (filter (\<lambda>r. run_id r \<noteq> i) rs)" if "set rs \<subseteq> set (runs w)" for rs
    unfolding outcome_kept_def
  proof (intro ballI impI)
    fix r
    assume r: "r \<in> set rs" "terminal_status (run_status r)"
    then have "r \<in> set (filter (\<lambda>r. run_id r \<noteq> i) rs)"
      using pend that terminal_neq by fastforce
    then show "\<exists>h. r\<lparr>run_runner_token_hash := h\<rparr> \<in> set (filter (\<lambda>r. run_id r \<noteq> i) rs)"
      by (intro exI [of _ "run_runner_token_hash r"]) simp
  qed
  then show ?thesis by (simp add: DeleteRun_def stmt_def drop_runs_def Let_def)
qed

lemma runs_unchanged [simp]:
  "runs (snd (InsertRunEvent i l ty pl w)) = runs w"
  "runs (snd (InsertRunNotification i org k tg st rs w)) = runs w"
  "runs (snd (InsertAuditLog org ac act tk ti d w)) = runs w"
  "runs (snd (AutoPauseSchedule i rs w)) = runs w"
  "runs (snd (SetScheduleEnabled i b org w)) = runs w"
  "runs (snd (MarkRepoSyncedOK i sha w)) = runs w"
  "runs (snd (MarkRepoSyncError i msg w)) = runs w"
  by (simp_all add: InsertRunEvent_def InsertRunNotification_def InsertAuditLog_def
      AutoPauseSchedule_def SetScheduleEnabled_def MarkRepoSyncedOK_def MarkRepoSyncError_def
      stmt_def split: option.split)

lemma final_step_simple: "ok_step w w' \<Longrightarrow> runs w' = runs w \<Longrightarrow> final_step w w'"
  by (simp add: final_step_def)

lemma final_step_trans: "final_step w v \<Longrightarrow> final_step v u \<Longrightarrow> final_step w u"
  unfolding final_step_def using ok_step_trans outcome_kept_trans
  by (meson ok_step_def)

interpretation fin: guarded_rel final_step
proof unfold_locales
  show "final_step w w" for w by (simp add: final_step_def ok_step_refl)
  show "final_step s t \<Longrightarrow> final_step t u \<Longrightarrow> final_step s u" for s t u by (rule final_step_trans)
  show "final_step w (w\<lparr>stmt_ctr := Suc (stmt_ctr w)\<rparr>)" for w
    by (rule final_step_simple) (simp_all add: ok_tx.R_bump)
  show "final_step w (w\<lparr>tx_start := t\<rparr>)" for w t
    by (rule final_step_simple) (simp_all add: ok_tx.R_tx_start)
  show "final_step w w' \<Longrightarrow> final_step w (rollback_to w w')" for w w'
    by (rule final_step_simple) (auto simp: final_step_def rollback_to_def
        intro: ok_step_rollback [unfolded rollback_to_def])
  show "final_step w (w\<lparr>dispatched := dl\<rparr>)" for w dl
    by (rule final_step_simple) (simp_all add: ok.dispatched_R)
  show "final_step w (w\<lparr>metrics := ml\<rparr>)" for w ml
    by (rule final_step_simple) (simp_all add: ok.metrics_R)
  show "\<forall>r \<in> set (runs w). run_id r = i \<longrightarrow> run_status r = ''pending'' \<Longrightarrow> final_step w (snd (DeleteRun i w))" for w i
    by (simp add: final_step_def DeleteRun_ok DeleteRun_kept)
  show "\<not> store_ok w \<Longrightarrow> grows w w' \<Longrightarrow> final_step w w'" for w w'
    by (simp add: final_step_def ok_step_def)
qed (intro final_keepsI ok.write_rules; simp add: InsertRun_kept FinalizeRun_kept SetRunRunning_kept
    OrphanSweep_kept update_token_hash_kept)+

end
