(* ===== verification/Sample_World.thy ===== *)
theory Sample_World
  imports Finality
begin

text \<open>
  A small deployment on which the properties are exercised: one repository with one skill and
  one schedule, an hourly cron, and third-party functions that meet the documented laws.
\<close>

text \<open>
  An identifier is written in unary, a token is signed for one claim set only, and every cron
  expression means one hour later.
\<close>

definition sample_libs :: "(string \<times> json) list \<Rightarrow> libs" where
  "sample_libs c = \<lparr>uuid_string = (\<lambda>u. replicate u (CHR ''0'')), uuid_parse = (\<lambda>s. Some (length s)),
     hkdf_sha256 = (\<lambda>k info. k @ info), sha256_hex = (\<lambda>t. ''h:'' @ t),
     jwt_signed_string = (\<lambda>key d. if d = c then Some ''tok'' else None),
     jwt_parse = (\<lambda>now key tok. if tok \<noteq> ''tok'' then Inl JwtInvalid
        else if claim_live now c then Inr c else Inl JwtExpired),
     cron_parse = (\<lambda>e. if e = [] then None else Some (\<lambda>tz b. b + 3600 * second)),
     load_location = (\<lambda>tz. tz = ''UTC'')\<rparr>"

lemma sample_libs_ok: "jwt_lib_ok (sample_libs c)" "uuid_lib_ok (sample_libs c)" "cron_lib_ok (sample_libs c)"
  by (auto simp: sample_libs_def jwt_lib_ok_def uuid_lib_ok_def cron_lib_ok_def second_def split: if_splits)

definition sample_repo :: repo_row where
  "sample_repo = \<lparr>rc_id = 1, rc_org_id = 9, rc_github_app_install_id = 0, rc_owner = ''acme'',
     rc_name = ''skills'', rc_default_branch = ''main'', rc_sync_interval_sec = 60,
     rc_last_synced_at = None, rc_last_synced_head_sha = None, rc_last_sync_error = None,
     rc_created_at = 0\<rparr>"

definition sample_skill :: skill_row where
  "sample_skill = \<lparr>sk_id = 2, sk_org_id = 9, sk_repo_id = 1, sk_path = ''digest'', sk_name = ''digest'',
     sk_current_sha = ''abc'', sk_frontmatter_json = JObj [], sk_updated_at = 0\<rparr>"

definition sample_schedule :: "string \<Rightarrow> sched_row" where
  "sample_schedule policy = \<lparr>sch_id = 3, sch_org_id = 9, sch_skill_id = 2, sch_name = ''daily'',
     sch_cron = ''@hourly'', sch_timezone = ''UTC'', sch_overlap_policy = policy, sch_timeout_sec = 600,
     sch_enabled = True, sch_provider = ''openai'', sch_model = ''m'', sch_llm_secret_ref = Some ''llm-key'',
     sch_llm_endpoint = None, sch_llm_deployment = None,
     sch_destinations_json = JArr [JObj [(''webhook_url'', JObj [(''secret'', JStr ''hook'')])]],
     sch_writeback_json = None, sch_env_json = JObj [], sch_auto_pause_after = Some 2,
     sch_auto_paused_at = None, sch_auto_pause_reason = None, sch_last_enabled_at = 0,
     sch_mcp_env_json = JObj [], sch_ui_overrides_json = JObj [], sch_max_turns = None,
     sch_copilot_token_refs_json = None, sch_next_fire_at = Some 0, sch_created_at = 0,
     sch_updated_at = 0\<rparr>"

definition sample_run :: "uuid \<Rightarrow> string \<Rightarrow> time option \<Rightarrow> time \<Rightarrow> run_row" where
  "sample_run i status fire created = \<lparr>run_id = i, run_org_id = 9, run_schedule_id = 3,
     run_skill_sha = ''abc'', run_fire_time = fire, run_status = status,
     run_fire_reason = (if fire = None then ''manual'' else ''schedule''), run_actor = None,
     run_started_at = (if status = ''pending'' then None else Some created),
     run_finished_at = (if terminal_status status then Some created else None),
     run_duration_ms = None, run_tokens_in = None, run_tokens_out = None, run_cost_cents = None,
     run_error_kind = None, run_error_msg = None, run_writeback_commit_sha = None,
     run_runner_pid = None, run_runner_token_hash = ''h:tok'', run_created_at = created\<rparr>"

definition sample_world :: "string \<Rightarrow> run_row list \<Rightarrow> world" where
  "sample_world policy rs = \<lparr>runs = rs, schedules = [sample_schedule policy], skills = [sample_skill],
     repos = [sample_repo], run_events = [], notifications = [], audit_log = [], serial = 0,
     dispatched = [], metrics = [], tx_start = None, stmt_ctr = 0, fault = (\<lambda>_. False),
     clock_at = (\<lambda>n. second + int n), uuid_gen = (\<lambda>k. 100 + k), uuid_ctr = 0,
     rand_hex = (\<lambda>_. Some ''00'')\<rparr>"

definition sample_deps :: "(string \<times> json) list \<Rightarrow> sched_deps" where
  "sample_deps c = \<lparr>sd_libs = sample_libs c, sd_signer_key = ''key'',
     sd_dispatch = (\<lambda>log spec. Inr 4242), sd_installations = None,
     sd_api_base_url = ''http://127.0.0.1:8080'', sd_runner_api_url = [],
     sd_runner_binary = ''/bin/cronfoundry''\<rparr>"

lemmas sample_defs = sample_world_def sample_schedule_def sample_skill_def sample_repo_def
  sample_run_def sample_deps_def sample_libs_def

text \<open>The sample is well formed for every list of runs that are.\<close>

definition sample_runs_ok :: "run_row list \<Rightarrow> bool" where
  "sample_runs_ok rs \<longleftrightarrow> distinct (map run_id rs) \<and> fires_unique rs \<and> list_all run_ok rs \<and>
     list_all (\<lambda>r. run_schedule_id r = 3 \<and> run_id r < 100) rs"

lemma sample_world_ok:
  "valid_overlap_column policy \<Longrightarrow> sample_runs_ok rs \<Longrightarrow> store_ok (sample_world policy rs)"
  by (auto simp: sample_world_def sample_schedule_def sample_skill_def sample_repo_def
      store_ok_defs sample_runs_ok_def list_all_iff inj_def)

lemma sample_run_ok: "valid_status a \<Longrightarrow> run_ok (sample_run i a f t)"
  by (auto simp: sample_run_def run_ok_def valid_status_def active_status_def terminal_status_def)

lemma sample_run_fields [simp]:
  "run_id (sample_run i a f t) = i" "run_schedule_id (sample_run i a f t) = 3"
  "run_fire_time (sample_run i a f t) = f" "run_status (sample_run i a f t) = a"
  "run_created_at (sample_run i a f t) = t"
  by (simp_all add: sample_run_def)

lemma sample_none_ok: "valid_overlap_column p \<Longrightarrow> store_ok (sample_world p [])"
  by (rule sample_world_ok) (simp_all add: sample_runs_ok_def fires_unique_def)

lemma sample_pair_ok:
  "i \<noteq> j \<Longrightarrow> i < 100 \<Longrightarrow> j < 100 \<Longrightarrow> valid_status a \<Longrightarrow> valid_status b \<Longrightarrow> f \<noteq> g \<Longrightarrow> valid_overlap_column p \<Longrightarrow>
   store_ok (sample_world p [sample_run i a f t, sample_run j b g u])"
  by (rule sample_world_ok) (simp_all add: sample_runs_ok_def fires_unique_def fire_key_def sample_run_ok)

lemma status_cases [simp]:
  "valid_status ''pending''" "valid_status ''running''" "valid_status ''failed''" "valid_status ''succeeded''"
  "valid_overlap_column ''skip''" "valid_overlap_column ''queue''" "valid_overlap_column ''concurrent''"
  by (simp_all add: valid_status_def active_status_def terminal_status_def valid_overlap_column_def)

section \<open>Variants\<close>

definition paused_world :: world where
  "paused_world = (sample_world ''queue'' [sample_run 1 ''pending'' (Some 0) 0])
     \<lparr>schedules := [(sample_schedule ''queue'')\<lparr>sch_enabled := False\<rparr>], clock_at := (\<lambda>_. 901 * second)\<rparr>"

definition signing_deps :: sched_deps where
  "signing_deps = sample_deps (claims_json (sample_libs []) \<lparr>cl_run_id = 100, cl_org_id = 9,
     cl_secret_refs = [''hook'', ''llm-key''], cl_expires_at = 721 * second\<rparr>)"

definition never_deps :: sched_deps where
  "never_deps = (sample_deps [])\<lparr>sd_libs := (sample_libs [])\<lparr>cron_parse := (\<lambda>e. Some (\<lambda>tz b. zero_time))\<rparr>\<rparr>"

definition lossy_world :: world where
  "lossy_world = (sample_world ''skip'' [sample_run 7 ''pending'' None 0])
     \<lparr>schedules := [(sample_schedule ''skip'')\<lparr>sch_next_fire_at := None\<rparr>],
      fault := (\<lambda>n. n = 3), clock_at := (\<lambda>_. second)\<rparr>"

definition lossy_deps :: sched_deps where
  "lossy_deps = sample_deps (claims_json (sample_libs []) \<lparr>cl_run_id = 7, cl_org_id = 9,
     cl_secret_refs = [''hook'', ''llm-key''], cl_expires_at = 721 * second\<rparr>)"

end
