(* ===== verification/Scheduler_Props.thy ===== *)
theory Scheduler_Props
  imports Sample_World
begin

text \<open>
  What a tick does: the overlap policies, the fires of a schedule, the drain of queued runs,
  the sweep of orphans, and the facts that hold of every number of ticks under every pattern
  of failures.
\<close>

section \<open>Statements that do not fail\<close>

abbreviation calm :: "world \<Rightarrow> bool" where
  "calm w \<equiv> fault w = (\<lambda>_. False)"

abbreviation bump :: "world \<Rightarrow> world" where
  "bump w \<equiv> w\<lparr>stmt_ctr := Suc (stmt_ctr w)\<rparr>"

lemma calm_stmt [simp]: "calm w \<Longrightarrow> stmt f w = f (bump w)"
  by (simp add: stmt_def)

lemma find_ids_update [simp]:
  "find_schedule (w\<lparr>stmt_ctr := n\<rparr>) i = find_schedule w i"
  "find_run (w\<lparr>stmt_ctr := n\<rparr>) i = find_run w i"
  by (simp_all add: find_schedule_def find_run_def)

lemma find_in: "distinct (map k xs) \<Longrightarrow> x \<in> set xs \<Longrightarrow> find (\<lambda>y. k y = k x) xs = Some x"
  by (induction xs) auto

lemma find_schedule_in:
  "store_ok w \<Longrightarrow> s \<in> set (schedules w) \<Longrightarrow> find_schedule w (sch_id s) = Some s"
  by (simp add: find_schedule_def store_ok_def keys_ok_def find_in)

lemma find_run_in: "store_ok w \<Longrightarrow> r \<in> set (runs w) \<Longrightarrow> find_run w (run_id r) = Some r"
  by (simp add: find_run_def store_ok_def keys_ok_def find_in)

lemma InsertRun_new:
  assumes "calm w" "store_ok w" "s \<in> set (schedules w)" "ir_schedule_id p = sch_id s"
    "ir_fire_reason p = ''schedule''" "ir_fire_time p = Some t"
    "\<forall>r \<in> set (runs w). \<not> (run_schedule_id r = sch_id s \<and> run_fire_time r = Some t)"
  shows "InsertRun p w = (let r = new_run (uuid_gen w (uuid_ctr w)) (now_at (bump w)) p
     in (Inr (r, True), w\<lparr>stmt_ctr := Suc (stmt_ctr w), runs := runs w @ [r], uuid_ctr := Suc (uuid_ctr w)\<rparr>))"
proof -
  have "run_checks (bump w) p"
    using assms find_schedule_in [of w s] by (simp add: run_checks_def)
  moreover have "find (fire_conflict p) (runs w) = None"
    using assms by (auto simp: find_None_notin fire_conflict_def)
  ultimately show ?thesis
    using assms(1) by (simp add: InsertRun_def Let_def)
qed

section \<open>Overlap policies\<close>

text \<open>A due schedule whose fire is new: what processOne needs to get to its decision.\<close>

definition fires_now :: "sched_deps \<Rightarrow> world \<Rightarrow> sched_row \<Rightarrow> time \<Rightarrow> time \<Rightarrow> bool" where
  "fires_now deps w s t nf \<longleftrightarrow> calm w \<and> store_ok w \<and> s \<in> set (schedules w) \<and>
     sch_next_fire_at s = Some t \<and>
     NextFire (sd_libs deps) (sch_cron s) (sch_timezone s) t = Inr nf \<and>
     rand_hex w (stmt_ctr w) \<noteq> None \<and>
     (\<forall>r \<in> set (runs w). \<not> (run_schedule_id r = sch_id s \<and> run_fire_time r = Some t))"

definition others_active :: "world \<Rightarrow> sched_row \<Rightarrow> nat" where
  "others_active w s =
     length (filter (\<lambda>r. run_schedule_id r = sch_id s \<and> active_status (run_status r)) (runs w))"

definition fired_run :: "world \<Rightarrow> sched_row \<Rightarrow> string \<Rightarrow> time \<Rightarrow> run_row" where
  "fired_run w s sha t = new_run (uuid_gen w (uuid_ctr w)) (now_at (bump w))
     (scheduled_params s sha t (the (rand_hex w (stmt_ctr w))))"

text \<open>The world just before the decision: the row inserted, the schedule advanced.\<close>

definition armed :: "world \<Rightarrow> sched_row \<Rightarrow> string \<Rightarrow> time \<Rightarrow> time \<Rightarrow> world" where
  "armed w s sha t nf = w\<lparr>runs := runs w @ [fired_run w s sha t], uuid_ctr := Suc (uuid_ctr w),
     schedules := update_where (\<lambda>s'. sch_id s' = sch_id s)
       (\<lambda>s'. s'\<lparr>sch_next_fire_at := Some nf, sch_updated_at := now_at (w\<lparr>stmt_ctr := stmt_ctr w + 2\<rparr>)\<rparr>)
       (schedules w),
     stmt_ctr := stmt_ctr w + 3\<rparr>"

lemma now_at_cong [simp]:
  "now_at (w\<lparr>runs := a\<rparr>) = now_at w" "now_at (w\<lparr>uuid_ctr := b\<rparr>) = now_at w"
  "now_at (w\<lparr>schedules := c\<rparr>) = now_at w" "now_at (w\<lparr>dispatched := d\<rparr>) = now_at w"
  "now_at (w\<lparr>metrics := e\<rparr>) = now_at w"
  by (simp_all add: now_at_def split: option.split)

lemma now_at_reorder [simp]:
  "now_at (w\<lparr>runs := a, uuid_ctr := b, stmt_ctr := n\<rparr>) = now_at (w\<lparr>stmt_ctr := n\<rparr>)"
  by (simp add: now_at_def split: option.split)

lemma fired_run_id: "run_id (fired_run w s sha t) = uuid_gen w (uuid_ctr w)"
  by (simp add: fired_run_def new_run_def)

lemma fired_fresh: "store_ok w \<Longrightarrow> run_id (fired_run w s sha t) \<notin> run_id ` set (runs w)"
  by (auto simp: fired_run_id store_ok_def supply_ok_def used_ids_def)

lemma decision_of_armed:
  assumes "fires_now deps w s t nf"
  shows "processOne deps (s, sha, install) st w =
    (case Decide (sch_overlap_policy s) (others_active w s) of
       DecisionSkip \<Rightarrow> bind (map_err ErrDelete (DeleteRun (run_id (fired_run w s sha t))))
         (\<lambda>_. ret (st\<lparr>st_skipped := Suc (st_skipped st)\<rparr>))
     | DecisionQueue \<Rightarrow> ret (st\<lparr>st_queued := Suc (st_queued st)\<rparr>)
     | DecisionDispatch \<Rightarrow> bind (dispatchRun deps (sched_args (fired_run w s sha t) s install))
         (\<lambda>_. ret (st\<lparr>st_dispatched := Suc (st_dispatched st)\<rparr>))) (armed w s sha t nf)"
proof -
  let ?r = "fired_run w s sha t"
  have f: "calm w" "store_ok w" "s \<in> set (schedules w)" "sch_next_fire_at s = Some t"
    "NextFire (sd_libs deps) (sch_cron s) (sch_timezone s) t = Inr nf"
    "\<forall>r \<in> set (runs w). \<not> (run_schedule_id r = sch_id s \<and> run_fire_time r = Some t)"
    using assms by (simp_all add: fires_now_def)
  obtain ph where ph: "rand_hex w (stmt_ctr w) = Some ph"
    using assms by (auto simp: fires_now_def)
  have ins: "InsertRun (scheduled_params s sha t ph) w =
      (Inr (?r, True), w\<lparr>stmt_ctr := Suc (stmt_ctr w), runs := runs w @ [?r], uuid_ctr := Suc (uuid_ctr w)\<rparr>)"
    using InsertRun_new [OF f(1,2,3), of "scheduled_params s sha t ph" t] f(6) ph
    by (simp add: scheduled_params_def fired_run_def Let_def)
  define active where "active = sort_key run_created_at
      (filter (\<lambda>r. run_schedule_id r = sch_id s \<and> active_status (run_status r)) (runs w @ [?r]))"
  have count: "length (filter (\<lambda>r. run_id r \<noteq> run_id ?r) active) = others_active w s"
  proof -
    have "filter (\<lambda>r. run_id r \<noteq> run_id ?r) (filter (\<lambda>r. run_schedule_id r = sch_id s \<and> active_status (run_status r)) (runs w)) =
        filter (\<lambda>r. run_schedule_id r = sch_id s \<and> active_status (run_status r)) (runs w)"
      using fired_fresh [OF f(2), of s sha t] by (auto simp: image_iff intro!: filter_cong)
    then show ?thesis
      by (simp add: active_def filter_sort others_active_def del: filter_filter)
  qed
  let ?w1 = "w\<lparr>stmt_ctr := Suc (stmt_ctr w), runs := runs w @ [?r], uuid_ctr := Suc (uuid_ctr w)\<rparr>"
  let ?w2 = "(armed w s sha t nf)\<lparr>stmt_ctr := stmt_ctr w + 2\<rparr>"
  have upd: "UpdateScheduleNextFireAt (sch_id s) (Some nf) ?w1 = (Inr (), ?w2)"
    using f(1) by (simp add: UpdateScheduleNextFireAt_def armed_def numeral_2_eq_2)
  have lst: "ListActiveRunsForSchedule (sch_id s) ?w2 = (Inr active, armed w s sha t nf)"
    using f(1) by (simp add: ListActiveRunsForSchedule_def armed_def active_def)
  have "processOne deps (s, sha, install) st w = apply_overlap deps s install st ?r ?w2"
    using f(4,5) ph ins upd by (simp add: processOne_def)
  also have "\<dots> = (case Decide (sch_overlap_policy s) (others_active w s) of
       DecisionSkip \<Rightarrow> bind (map_err ErrDelete (DeleteRun (run_id ?r)))
         (\<lambda>_. ret (st\<lparr>st_skipped := Suc (st_skipped st)\<rparr>))
     | DecisionQueue \<Rightarrow> ret (st\<lparr>st_queued := Suc (st_queued st)\<rparr>)
     | DecisionDispatch \<Rightarrow> bind (dispatchRun deps (sched_args ?r s install))
         (\<lambda>_. ret (st\<lparr>st_dispatched := Suc (st_dispatched st)\<rparr>))) (armed w s sha t nf)"
    using lst count by (simp add: apply_overlap_def)
  finally show ?thesis .
qed

lemma update_where_last: "\<forall>x \<in> set xs. \<not> p x \<Longrightarrow> p y \<Longrightarrow> update_where p f (xs @ [y]) = xs @ [f y]"
  by (induction xs) (auto simp: update_where_def)

lemma find_last: "\<forall>x \<in> set xs. \<not> p x \<Longrightarrow> p y \<Longrightarrow> find p (xs @ [y]) = Some y"
  by (induction xs) auto

lemma fired_fresh_all: "store_ok w \<Longrightarrow> \<forall>r \<in> set (runs w). run_id r \<noteq> run_id (fired_run w s sha t)"
  using fired_fresh by (metis imageI)

lemma armed_fields [simp]:
  "runs (armed w s sha t nf) = runs w @ [fired_run w s sha t]"
  "fault (armed w s sha t nf) = fault w" "stmt_ctr (armed w s sha t nf) = stmt_ctr w + 3"
  "dispatched (armed w s sha t nf) = dispatched w" "clock_at (armed w s sha t nf) = clock_at w"
  "run_events (armed w s sha t nf) = run_events w"
  "notifications (armed w s sha t nf) = notifications w" "tx_start (armed w s sha t nf) = tx_start w"
  "metrics (armed w s sha t nf) = metrics w"
  by (simp_all add: armed_def)

lemma drop_last_run:
  assumes "runs w = rs @ [y]" "\<forall>x \<in> set rs. run_id x \<noteq> run_id y"
    "\<forall>e \<in> set (run_events w). ev_run_id e \<noteq> run_id y"
    "\<forall>m \<in> set (notifications w). nf_run_id m \<noteq> run_id y"
  shows "drop_runs (\<lambda>r. run_id r = run_id y) w = w\<lparr>runs := rs\<rparr>"
proof -
  have "filter (\<lambda>r. run_id r = run_id y) rs = []" "filter (\<lambda>r. run_id r \<noteq> run_id y) rs = rs"
    using assms(2) by (auto simp: filter_id_conv filter_empty_conv)
  moreover have "filter (\<lambda>e. ev_run_id e \<notin> {run_id y}) (run_events w) = run_events w"
    "filter (\<lambda>m. nf_run_id m \<notin> {run_id y}) (notifications w) = notifications w"
    using assms(3,4) by (auto simp: filter_id_conv)
  ultimately have "drop_runs (\<lambda>r. run_id r = run_id y) w =
      w\<lparr>runs := rs, run_events := run_events w, notifications := notifications w\<rparr>"
    using assms(1) by (simp add: drop_runs_def Let_def del: set_filter)
  then show ?thesis by simp
qed

lemma drop_fired_run:
  assumes "store_ok w"
  shows "drop_runs (\<lambda>r. run_id r = run_id (fired_run w s sha t)) ((armed w s sha t nf)\<lparr>stmt_ctr := n\<rparr>) =
    (armed w s sha t nf)\<lparr>stmt_ctr := n, runs := runs w\<rparr>"
proof -
  have "\<forall>e \<in> set (run_events w). ev_run_id e \<noteq> run_id (fired_run w s sha t)"
    "\<forall>m \<in> set (notifications w). nf_run_id m \<noteq> run_id (fired_run w s sha t)"
    using assms fired_fresh [OF assms, of s sha t] unfolding store_ok_def refs_ok_def
    by (metis imageI subsetD)+
  then show ?thesis
    using fired_fresh_all [OF assms, of s sha t] by (simp add: drop_last_run)
qed

lemma skip_effect:
  assumes "fires_now deps w s t nf" and "Decide (sch_overlap_policy s) (others_active w s) = DecisionSkip"
  shows "processOne deps (s, sha, install) st w =
    (Inr (st\<lparr>st_skipped := Suc (st_skipped st)\<rparr>), (armed w s sha t nf)\<lparr>stmt_ctr := stmt_ctr w + 4, runs := runs w\<rparr>)"
  using assms decision_of_armed [OF assms(1), of sha install st] drop_fired_run [where n = "stmt_ctr w + 4" and nf = nf]
  by (simp add: fires_now_def DeleteRun_def eval_nat_numeral)

lemma queue_effect:
  assumes "fires_now deps w s t nf" and "Decide (sch_overlap_policy s) (others_active w s) = DecisionQueue"
  shows "processOne deps (s, sha, install) st w =
    (Inr (st\<lparr>st_queued := Suc (st_queued st)\<rparr>), armed w s sha t nf)"
  using assms decision_of_armed [OF assms(1), of sha install st] by simp

definition started :: "world \<Rightarrow> string \<Rightarrow> int \<Rightarrow> run_row \<Rightarrow> run_row" where
  "started w h pid r = r\<lparr>run_runner_token_hash := h, run_status := ''running'',
     run_started_at := Some (now_at (w\<lparr>stmt_ctr := stmt_ctr w + 5\<rparr>)), run_runner_pid := Some (int32 pid)\<rparr>"

lemma dispatch_effect:
  fixes deps s sha install
  assumes "fires_now deps w s t nf" and "Decide (sch_overlap_policy s) (others_active w s) = DecisionDispatch"
  defines "r \<equiv> fired_run w s sha t"
  defines "args \<equiv> sched_args r s install"
  assumes sign: "Sign (sd_libs deps) (sd_signer_key deps) (dispatch_claims args (clock_at w (stmt_ctr w + 3))) = Inr (tok, h)"
    and disp: "sd_dispatch deps (dispatched w) (runner_request deps args tok) = Inr pid"
  shows "\<exists>w'. processOne deps (s, sha, install) st w = (Inr (st\<lparr>st_dispatched := Suc (st_dispatched st)\<rparr>), w') \<and>
    runs w' = runs w @ [started w h pid r] \<and>
    dispatched w' = dispatched w @ [runner_request deps args tok] \<and>
    schedules w' = schedules (armed w s sha t nf)"
proof -
  have ok: "store_ok w" "calm w" using assms(1) by (simp_all add: fires_now_def)
  have fresh: "\<forall>x \<in> set (runs w). run_id x \<noteq> run_id r"
    using fired_fresh_all [OF ok(1)] by (simp add: r_def)
  have pend: "run_status r = ''pending''" by (simp add: r_def fired_run_def new_run_def)
  let ?h = "r\<lparr>run_runner_token_hash := h\<rparr>"
  let ?a = "armed w s sha t nf"
  let ?w1 = "?a\<lparr>stmt_ctr := Suc (stmt_ctr ?a), runs := runs w @ [?h]\<rparr>"
  have args: "da_run_id args = run_id r" by (simp add: args_def sched_args_def)
  have hash: "update_token_hash h (run_id r) ?a = (Inr (), ?w1)"
    using ok(2) fresh by (simp add: update_token_hash_def update_where_last r_def)
  let ?spec = "runner_request deps args tok"
  let ?w2 = "?w1\<lparr>dispatched := dispatched w @ [?spec],
      metrics := metrics w @ [RunsStarted (da_schedule_name args)]\<rparr>"
  let ?w3 = "?w2\<lparr>stmt_ctr := Suc (stmt_ctr ?w2), runs := runs w @ [started w h pid r]\<rparr>"
  have now: "now_at (bump ?w2) = now_at (w\<lparr>stmt_ctr := stmt_ctr w + 5\<rparr>)"
    by (simp add: now_at_def add.commute split: option.split)
  have found: "find_run (bump ?w2) (run_id r) = Some ?h"
    using fresh by (simp add: find_run_def find_last)
  have run: "SetRunRunning (run_id r) (Some (int32 pid)) ?w2 = (Inr (started w h pid r), ?w3)"
    using ok(2) fresh found pend now
    by (simp add: SetRunRunning_def update_run_def update_where_last started_def)
  have "processOne deps (s, sha, install) st w =
      bind (dispatchRun deps args) (\<lambda>_. ret (st\<lparr>st_dispatched := Suc (st_dispatched st)\<rparr>)) ?a"
    using decision_of_armed [OF assms(1), of sha install st] assms(2) by (simp add: r_def args_def)
  moreover have "dispatchRun deps args ?a = (Inr (), ?w3)"
    using sign disp hash run args
    by (simp add: dispatchRun_def call_dispatcher_def emit_def attempt_apply)
  ultimately show ?thesis by simp
qed

section \<open>The number of active runs of a schedule\<close>

definition same_active :: "sched_row \<Rightarrow> world \<Rightarrow> world \<Rightarrow> bool" where
  "same_active s w w' \<longleftrightarrow> others_active w' s = others_active w s"

interpretation act: tx_rel "same_active s" for s
  by unfold_locales (auto simp: same_active_def others_active_def rollback_to_def)

lemma others_active_update:
  "(\<And>r. run_schedule_id (f r) = run_schedule_id r) \<Longrightarrow>
   (\<And>r. p r \<Longrightarrow> active_status (run_status (f r)) = active_status (run_status r)) \<Longrightarrow>
   others_active (w\<lparr>runs := update_where p f (runs w)\<rparr>) s = others_active w s"
  unfolding others_active_def update_where_def
  by (auto simp: filter_map o_def intro!: arg_cong [where f = length] filter_cong)

lemma dispatchRun_active: "keeps (same_active s) (dispatchRun deps args)"
proof -
  have h: "keeps (same_active s) (update_token_hash h i)" for h i
    unfolding update_token_hash_def
    by (rule act.stmt_keeps) (simp add: same_active_def others_active_update)
  have r: "keeps (same_active s) (SetRunRunning i pid)" for i pid
    unfolding SetRunRunning_def
    by (rule act.stmt_keeps)
      (auto simp: same_active_def update_run_def active_status_def intro!: others_active_update split: option.split)
  have m: "keeps (same_active s) (modify (\<lambda>w. w\<lparr>dispatched := dl w\<rparr>))"
    "keeps (same_active s) (modify (\<lambda>w. w\<lparr>metrics := ml w\<rparr>))" for dl ml
    by (rule act.modify_keeps, simp add: same_active_def others_active_def)+
  show ?thesis
    unfolding dispatchRun_def call_dispatcher_def emit_def
    by (intro act.keeps_rules) (auto intro!: act.keeps_rules h r m split: sum.split prod.split)
qed

lemma others_active_armed:
  "others_active (armed w s sha t nf) s = Suc (others_active w s)"
  by (simp add: others_active_def fired_run_def new_run_def scheduled_params_def active_status_def)

section \<open>Pending runs that are ready\<close>

lemma bump_reads [simp]:
  "join_schedule (w\<lparr>stmt_ctr := n\<rparr>) = join_schedule w" "join_run (w\<lparr>stmt_ctr := n\<rparr>) = join_run w"
  "older_active (w\<lparr>stmt_ctr := n\<rparr>) = older_active w" "pending_ready (w\<lparr>stmt_ctr := n\<rparr>) = pending_ready w"
proof -
  show j: "join_schedule (w\<lparr>stmt_ctr := n\<rparr>) = join_schedule w"
    by (simp add: fun_eq_iff join_schedule_def find_skill_def find_repo_def)
  show r: "join_run (w\<lparr>stmt_ctr := n\<rparr>) = join_run w"
    by (simp add: fun_eq_iff join_run_def j)
  show o: "older_active (w\<lparr>stmt_ctr := n\<rparr>) = older_active w"
    by (simp add: fun_eq_iff older_active_def)
  show "pending_ready (w\<lparr>stmt_ctr := n\<rparr>) = pending_ready w"
    by (simp add: fun_eq_iff pending_ready_def r o split: option.split prod.split)
qed

lemma query_pending_rows:
  assumes "query_pending w = (Inr rows, w')" "(r, s, c) \<in> set rows"
  shows "r \<in> set (runs w) \<and> pending_ready w r \<and> (\<exists>k. join_run w r = Some (s, k, c))"
proof -
  show ?thesis
    using assms
    by (auto simp: query_pending_def stmt_def List.map_filter_def split: if_splits)
qed

lemma pending_ready_iff:
  assumes "join_run w r = Some (s, k, c)"
  shows "pending_ready w r \<longleftrightarrow> run_status r = ''pending'' \<and> sch_enabled s \<and>
    (run_fire_reason r = ''manual'' \<or>
     (run_fire_reason r = ''schedule'' \<and> sch_overlap_policy s = ''queue'' \<and>
      (\<forall>r2 \<in> set (runs w). run_schedule_id r2 = run_schedule_id r \<and> run_id r2 \<noteq> run_id r \<and>
         active_status (run_status r2) \<longrightarrow> run_created_at r \<le> run_created_at r2)))"
  using assms by (auto simp: pending_ready_def list_ex_iff older_active_def)

section \<open>A tick returns\<close>

definition total :: "stats \<Rightarrow> nat" where
  "total st = st_dispatched st + st_skipped st + st_queued st + st_errored st"

lemma dispatchRun_stats: "fst (processOne deps row st w) = Inr st' \<Longrightarrow> total st' \<le> Suc (total st)"
  by (auto simp: processOne_def apply_overlap_def Let_def bind_def map_err_def total_def
      split: prod.splits sum.splits option.splits if_splits decision.splits)

lemma process_due_returns:
  "\<exists>st'. fst (process_due deps rows st w) = Inr st' \<and> total st' \<le> total st + length rows"
proof (induction rows arbitrary: st w)
  case Nil
  show ?case by simp
next
  case (Cons row rows)
  obtain res w1 where p: "processOne deps row st w = (res, w1)" by (cases "processOne deps row st w")
  let ?st = "case res of Inr st' \<Rightarrow> st' | Inl _ \<Rightarrow> st\<lparr>st_errored := Suc (st_errored st)\<rparr>"
  have "total ?st \<le> Suc (total st)"
    using p dispatchRun_stats [of deps row st w] by (auto simp: total_def split: sum.split)
  moreover obtain st' where "fst (process_due deps rows ?st w1) = Inr st'" "total st' \<le> total ?st + length rows"
    using Cons.IH by blast
  ultimately show ?case using p by (simp add: attempt_apply)
qed

lemma dispatch_rows_returns: "\<exists>st'. fst (dispatch_rows deps rows st w) = Inr st'"
  by (induction rows arbitrary: st w) (auto simp: attempt_apply split: prod.split)

lemma Tick_error: "fst (Tick deps w) = Inl e \<longleftrightarrow> fault w (stmt_ctr w) \<and> e = ErrListDue ErrConn"
proof (cases "fault w (stmt_ctr w)")
  case True
  then show ?thesis
    by (auto simp: Tick_def ListDueSchedulesWithSha_def stmt_def map_err_def bind_def)
next
  case False
  obtain due w1 where d: "ListDueSchedulesWithSha w = (Inr due, w1)"
    using False by (simp add: ListDueSchedulesWithSha_def stmt_def)
  obtain st w2 where "process_due deps due stats0 w1 = (Inr st, w2)"
    using process_due_returns [of deps due stats0 w1] by (metis fst_conv surj_pair)
  then have "\<exists>st. fst (Tick deps w) = Inr st" using d by (simp add: Tick_def attempt_apply)
  then show ?thesis using False by auto
qed

section \<open>Rows found and left\<close>

lemma find_map_update:
  "find (\<lambda>x. k x = i) (update_where (\<lambda>x. k x = i) f xs) = map_option f (find (\<lambda>x. k x = i) xs)"
  if "\<And>x. k (f x) = k x"
  by (induction xs) (auto simp: update_where_def that)

lemma find_schedule_armed:
  assumes "fires_now deps w s t nf"
  shows "find_schedule (armed w s sha t nf) (sch_id s) =
    Some (s\<lparr>sch_next_fire_at := Some nf, sch_updated_at := now_at (w\<lparr>stmt_ctr := stmt_ctr w + 2\<rparr>)\<rparr>)"
proof -
  have "find_schedule w (sch_id s) = Some s" using assms find_schedule_in by (simp add: fires_now_def)
  then show ?thesis
    by (simp add: find_schedule_def armed_def find_map_update)
qed

lemma query_pending_mem:
  assumes "query_pending w = (Inr rows, w')" "join_run w r = Some (s, k, c)"
  shows "(r, s, c) \<in> set rows \<longleftrightarrow> r \<in> set (runs w) \<and> pending_ready w r"
proof -
  have rows: "rows = List.map_filter (\<lambda>r. map_option (\<lambda>(s, k, c). (r, s, c)) (join_run w r))
      (sort_key run_created_at (filter (pending_ready w) (runs w)))"
    using assms(1) by (auto simp: query_pending_def stmt_def split: if_splits)
  show ?thesis
  proof
    assume "(r, s, c) \<in> set rows"
    then show "r \<in> set (runs w) \<and> pending_ready w r" using query_pending_rows [OF assms(1)] by blast
  next
    assume "r \<in> set (runs w) \<and> pending_ready w r"
    then show "(r, s, c) \<in> set rows"
      using assms(2) by (force simp: rows List.map_filter_def)
  qed
qed

lemma OrphanSweep_none_left:
  assumes "calm w" "r \<in> set (runs (snd (OrphanSweep w)))"
  shows "\<not> orphaned (snd (OrphanSweep w)) (now_at (snd (OrphanSweep w))) r"
proof -
  let ?t = "now_at (bump w)"
  have w': "snd (OrphanSweep w) = (bump w)\<lparr>runs := update_where (orphaned (bump w) ?t) (swept ?t) (runs w)\<rparr>"
    using assms(1) by (simp add: OrphanSweep_def)
  have same: "orphaned ((bump w)\<lparr>runs := rs\<rparr>) t q \<longleftrightarrow> orphaned (bump w) t q" for rs t q
    by (simp add: orphaned_def find_schedule_def)
  have "\<not> orphaned (bump w) ?t (swept ?t q)" for q
    by (simp add: orphaned_def swept_def active_status_def)
  then show ?thesis
    using assms(2) unfolding w' by (auto simp: same update_where_def split: if_splits)
qed

lemma Tick_ends_with_sweep:
  assumes "calm w"
  shows "\<exists>v. calm v \<and> snd (Tick deps w) = snd (OrphanSweep v)"
proof -
  obtain due w1 where d: "ListDueSchedulesWithSha w = (Inr due, w1)"
    using assms by (simp add: ListDueSchedulesWithSha_def)
  obtain st w2 where p: "process_due deps due stats0 w1 = (Inr st, w2)"
    using process_due_returns [of deps due stats0 w1] by (metis fst_conv surj_pair)
  let ?v = "snd (dispatchPending deps st w2)"
  have "ok_step w w1" using keepsD [OF ok_tx.ListDueSchedulesWithSha_keeps, of w] d by simp
  moreover have "ok_step w1 w2" using keepsD [OF process_due_ok, of w1 deps due stats0] p by simp
  moreover have "ok_step w2 ?v"
    unfolding dispatchPending_def
    by (intro keepsD [of ok_step] ok.store_rules ok_guarded.dispatch_rows_keeps)
  ultimately have "calm ?v" using assms by (simp add: ok_step_def grows_def)
  then show ?thesis using d p by (intro exI [of _ ?v]) (simp add: Tick_def attempt_apply)
qed

lemma InsertRun_conflict:
  assumes "calm w" "store_ok w" "s \<in> set (schedules w)" "ir_schedule_id p = sch_id s"
    "ir_fire_reason p = ''schedule''" "ir_fire_time p = Some t"
    "r \<in> set (runs w)" "run_schedule_id r = sch_id s" "run_fire_time r = Some t"
  shows "\<exists>q. InsertRun p w = (Inr (q, False), bump w)"
proof -
  have "run_checks (bump w) p"
    using assms find_schedule_in [of w s] by (simp add: run_checks_def)
  moreover have "find (fire_conflict p) (runs w) \<noteq> None"
    using assms by (auto simp: find_None_iff fire_conflict_def)
  ultimately show ?thesis using assms(1) by (auto simp: InsertRun_def)
qed

lemma find_schedule_advanced:
  assumes "store_ok w" "s \<in> set (schedules w)"
  shows "find_schedule (w\<lparr>schedules := update_where (\<lambda>s'. sch_id s' = sch_id s)
      (\<lambda>s'. s'\<lparr>sch_next_fire_at := nf, sch_updated_at := t\<rparr>) (schedules w)\<rparr>) (sch_id s) =
    Some (s\<lparr>sch_next_fire_at := nf, sch_updated_at := t\<rparr>)"
  using find_schedule_in [OF assms] by (simp add: find_schedule_def find_map_update)

lemma fires_unique_Cons:
  "fires_unique (r # rs) \<longleftrightarrow> fires_unique rs \<and>
     (run_fire_time r \<noteq> None \<longrightarrow> (\<forall>q \<in> set rs. run_fire_time q \<noteq> None \<longrightarrow> fire_key r \<noteq> fire_key q))"
  by (auto simp: fires_unique_def image_iff)

lemma fires_unique_count:
  "fires_unique rs \<Longrightarrow> length (filter (\<lambda>r. run_schedule_id r = i \<and> run_fire_time r = Some t) rs) \<le> 1"
  by (induction rs) (auto simp: fires_unique_Cons fire_key_def filter_empty_conv)

end
