(* ===== verification/Dispatch_Once.thy ===== *)
theory Dispatch_Once
  imports Scheduler_Props
begin

text \<open>
  No run is handed to the dispatcher twice while the database answers: a run that was sent is no
  longer pending, and only pending runs are sent. When the update to running is lost the run is
  sent again, which the last section exhibits.
\<close>

section \<open>The invariant\<close>

definition runner_args :: "libs \<Rightarrow> uuid \<Rightarrow> string list" where
  "runner_args L i = [''runner'', ''--run-id'', uuid_string L i]"

definition sent :: "libs \<Rightarrow> world \<Rightarrow> uuid \<Rightarrow> bool" where
  "sent L w i \<longleftrightarrow> runner_args L i \<in> dr_args ` set (dispatched w)"

definition sent_ok :: "libs \<Rightarrow> world \<Rightarrow> bool" where
  "sent_ok L w \<longleftrightarrow> calm w \<and> store_ok w \<and> distinct (map dr_args (dispatched w)) \<and>
     (\<forall>r \<in> set (runs w). run_status r = ''pending'' \<longrightarrow> \<not> sent L w (run_id r)) \<and>
     (\<forall>k \<ge> uuid_ctr w. \<not> sent L w (uuid_gen w k))"

text \<open>
  A step that sends nothing: a run pending afterwards was pending before or has a new
  identifier.
\<close>

definition quiet :: "world \<Rightarrow> world \<Rightarrow> bool" where
  "quiet w w' \<longleftrightarrow> ok_step w w' \<and> dispatched w' = dispatched w \<and>
     (\<forall>r \<in> set (runs w'). run_status r = ''pending'' \<longrightarrow>
        (\<exists>q \<in> set (runs w). run_id q = run_id r \<and> run_status q = ''pending'') \<or>
        (\<exists>k \<ge> uuid_ctr w. run_id r = uuid_gen w k))"

lemma quietD:
  assumes "quiet w w'" "r \<in> set (runs w')" "run_status r = ''pending''"
  shows "(\<exists>q \<in> set (runs w). run_id q = run_id r \<and> run_status q = ''pending'') \<or>
    (\<exists>k \<ge> uuid_ctr w. run_id r = uuid_gen w k)"
  using assms by (auto simp: quiet_def)

lemma quiet_grows: "quiet w w' \<Longrightarrow> grows w w'"
  by (simp add: quiet_def ok_step_def)

lemma sent_ok_quiet:
  assumes ok: "sent_ok L w" and q: "quiet w w'"
  shows "sent_ok L w'"
proof -
  have same: "sent L w' = sent L w" using q by (simp add: quiet_def sent_def fun_eq_iff)
  have "\<not> sent L w' (run_id r)" if "r \<in> set (runs w')" "run_status r = ''pending''" for r
    using quietD [OF q that] ok unfolding same sent_ok_def by metis
  moreover have "\<not> sent L w' (uuid_gen w' k)" if "uuid_ctr w' \<le> k" for k
    using that ok quiet_grows [OF q] by (simp add: same sent_ok_def grows_def)
  ultimately show ?thesis
    using ok q by (simp add: sent_ok_def quiet_def ok_step_def grows_def)
qed

lemma quiet_same_runs: "ok_step w w' \<Longrightarrow> dispatched w' = dispatched w \<Longrightarrow> runs w' = runs w \<Longrightarrow> quiet w w'"
  by (auto simp: quiet_def)

lemma quiet_trans:
  assumes wv: "quiet w v" and vu: "quiet v u"
  shows "quiet w u"
proof -
  have g: "uuid_ctr w \<le> uuid_ctr v" "uuid_gen v = uuid_gen w"
    using quiet_grows [OF wv] by (simp_all add: grows_def)
  have "(\<exists>q \<in> set (runs w). run_id q = run_id r \<and> run_status q = ''pending'') \<or>
      (\<exists>k \<ge> uuid_ctr w. run_id r = uuid_gen w k)"
    if r: "r \<in> set (runs u)" "run_status r = ''pending''" for r
    using quietD [OF vu r]
  proof
    assume "\<exists>q \<in> set (runs v). run_id q = run_id r \<and> run_status q = ''pending''"
    then obtain q where "q \<in> set (runs v)" "run_status q = ''pending''" "run_id q = run_id r" by blast
    then show ?thesis using quietD [OF wv, of q] by simp
  next
    assume "\<exists>k \<ge> uuid_ctr v. run_id r = uuid_gen v k"
    then show ?thesis using g by (metis order.trans)
  qed
  then show ?thesis
    using wv vu ok_step_trans by (auto simp: quiet_def)
qed

interpretation qt: tx_rel quiet
proof unfold_locales
  show "quiet w w" for w by (rule quiet_same_runs) (simp_all add: ok_step_refl)
  show "quiet w v \<Longrightarrow> quiet v u \<Longrightarrow> quiet w u" for w v u by (rule quiet_trans)
  show "quiet w (w\<lparr>stmt_ctr := Suc (stmt_ctr w)\<rparr>)" for w
    by (rule quiet_same_runs) (simp_all add: ok_tx.R_bump)
  show "quiet w (w\<lparr>tx_start := t\<rparr>)" for w t
    by (rule quiet_same_runs) (simp_all add: ok_tx.R_tx_start)
  show "quiet w w' \<Longrightarrow> quiet w (rollback_to w w')" for w w'
    by (rule quiet_same_runs) (simp_all add: quiet_def ok_tx.R_rollback, simp_all add: rollback_to_def)
qed

lemma quiet_update:
  assumes "keeps ok_step m" "dispatched (snd (m w)) = dispatched w"
    "runs (snd (m w)) = update_where p f (runs w)"
    "\<And>r. run_id (f r) = run_id r" "\<And>r. run_status (f r) = ''pending'' \<Longrightarrow> run_status r = ''pending''"
  shows "quiet w (snd (m w))"
  using assms keepsD [OF assms(1), of w] by (auto simp: quiet_def update_where_def)

lemma quiet_hash: "quiet w (snd (update_token_hash h i w))"
proof (cases "fault w (stmt_ctr w)")
  case True
  then show ?thesis by (simp add: update_token_hash_def stmt_def qt.R_bump)
next
  case False
  then show ?thesis
    by (intro quiet_update [where p = "\<lambda>r. run_id r = i" and f = "\<lambda>r. r\<lparr>run_runner_token_hash := h\<rparr>"]
        ok.update_token_hash_R) (simp_all add: update_token_hash_def stmt_def)
qed

lemma quiet_sweep: "quiet w (snd (OrphanSweep w))"
proof (cases "fault w (stmt_ctr w)")
  case True
  then show ?thesis by (simp add: OrphanSweep_def stmt_def qt.R_bump)
next
  case False
  then show ?thesis
    by (intro quiet_update [where p = "orphaned (bump w) (now_at (bump w))" and f = "swept (now_at (bump w))"]
        ok.OrphanSweep_R) (simp_all add: OrphanSweep_def stmt_def swept_def)
qed

lemma quiet_next_fire: "quiet w (snd (UpdateScheduleNextFireAt i t w))"
  by (rule quiet_same_runs [OF keepsD [OF ok.UpdateScheduleNextFireAt_R]])
    (simp_all add: UpdateScheduleNextFireAt_def stmt_def)

lemma quiet_delete: "quiet w (snd (DeleteRun i w))"
  using DeleteRun_ok [of w i] by (auto simp: quiet_def DeleteRun_def stmt_def drop_runs_def Let_def)

lemma quiet_insert: "quiet w (snd (InsertRun p w))"
  using keepsD [OF ok.InsertRun_R, of w p]
  by (auto simp: quiet_def InsertRun_def stmt_def Let_def new_run_def split: option.split)

lemma quiet_stmts: "keeps quiet (InsertRun p)" "keeps quiet (UpdateScheduleNextFireAt i t)"
  by (rule keepsI, rule quiet_insert, rule keepsI, rule quiet_next_fire)

lemma sent_ok_stmt: "keeps quiet m \<Longrightarrow> m w = (res, w') \<Longrightarrow> sent_ok L w \<Longrightarrow> sent_ok L w'"
  using sent_ok_quiet keepsD by (metis snd_conv)

section \<open>Sending one run\<close>

lemma runner_args_inj: "uuid_lib_ok L \<Longrightarrow> runner_args L i = runner_args L j \<longleftrightarrow> i = j"
  unfolding uuid_lib_ok_def runner_args_def by (metis list.inject option.inject)

lemma request_args: "dr_args (runner_request deps args tok) = runner_args (sd_libs deps) (da_run_id args)"
  by (simp add: runner_request_def Let_def runner_args_def)

text \<open>The world after a run was sent and marked running.\<close>

lemma sent_ok_send:
  assumes ok: "sent_ok L w" and lib: "uuid_lib_ok L"
    and r: "r \<in> set (runs w)" "run_id r = i" "run_status r = ''pending''"
    and spec: "dr_args spec = runner_args L i"
    and w': "store_ok w'" "calm w'" "dispatched w' = dispatched w @ [spec]" "uuid_gen w' = uuid_gen w"
      "uuid_ctr w' = uuid_ctr w"
    and runs': "\<And>q. q \<in> set (runs w') \<Longrightarrow> run_status q = ''pending'' \<Longrightarrow>
      run_id q \<noteq> i \<and> (\<exists>p \<in> set (runs w). run_id p = run_id q \<and> run_status p = ''pending'')"
  shows "sent_ok L w'"
proof -
  have i: "\<not> sent L w i" using ok r by (auto simp: sent_ok_def)
  have new: "sent L w' j \<longleftrightarrow> sent L w j \<or> j = i" for j
    by (auto simp: sent_def w' spec runner_args_inj [OF lib])
  have "uuid_gen w k \<noteq> i" if "uuid_ctr w \<le> k" for k
    using ok r that by (force simp: sent_ok_def store_ok_def supply_ok_def used_ids_def)
  then have "\<not> sent L w' (uuid_gen w' k)" if "uuid_ctr w' \<le> k" for k
    using ok that by (simp add: new w' sent_ok_def)
  moreover have "\<not> sent L w' (run_id q)" if "q \<in> set (runs w')" "run_status q = ''pending''" for q
    using runs' [OF that] ok unfolding new sent_ok_def by metis
  moreover have "distinct (map dr_args (dispatched w'))"
    using ok i spec by (simp add: sent_ok_def w' sent_def)
  ultimately show ?thesis using w' by (simp add: sent_ok_def)
qed

lemma dispatchRun_sent_ok:
  assumes ok: "sent_ok (sd_libs deps) w" and lib: "uuid_lib_ok (sd_libs deps)"
    and r: "r \<in> set (runs w)" "run_id r = da_run_id args" "run_status r = ''pending''"
  shows "sent_ok (sd_libs deps) (snd (dispatchRun deps args w))"
proof -
  let ?L = "sd_libs deps" and ?i = "da_run_id args"
  have calm: "calm w" using ok by (simp add: sent_ok_def)
  have okw: "store_ok (snd (dispatchRun deps args w))"
    using keepsD [OF dispatchRun_ok, of w deps args] ok by (simp add: ok_step_def sent_ok_def)
  show ?thesis
  proof (cases "Sign ?L (sd_signer_key deps) (dispatch_claims args (clock_at w (stmt_ctr w)))")
    case (Inl e)
    then show ?thesis using ok by (simp add: dispatchRun_def)
  next
    case (Inr th)
    obtain tok h where th: "th = (tok, h)" by (cases th)
    let ?w1 = "snd (update_token_hash h ?i w)"
    have hash: "update_token_hash h ?i w = (Inr (), ?w1)"
      using calm by (simp add: update_token_hash_def)
    have ok1: "sent_ok ?L ?w1" using ok quiet_hash sent_ok_quiet by blast
    have r1: "r\<lparr>run_runner_token_hash := h\<rparr> \<in> set (runs ?w1)"
      using calm r by (force simp: update_token_hash_def update_where_def)
    have d1: "dispatched ?w1 = dispatched w" "calm ?w1"
      using calm by (simp_all add: update_token_hash_def)
    let ?spec = "runner_request deps args tok"
    show ?thesis
    proof (cases "sd_dispatch deps (dispatched ?w1) ?spec")
      case (Inl msg)
      then show ?thesis using ok1 hash \<open>Sign _ _ _ = Inr th\<close> th
        by (simp add: dispatchRun_def call_dispatcher_def)
    next
      case pid: (Inr pid)
      let ?w2 = "?w1\<lparr>dispatched := dispatched ?w1 @ [?spec], metrics := metrics ?w1 @ [RunsStarted (da_schedule_name args)]\<rparr>"
      let ?w3 = "snd (SetRunRunning ?i (Some (int32 pid)) ?w2)"
      have res: "dispatchRun deps args w = (Inr (), ?w3)"
        using hash \<open>Sign _ _ _ = Inr th\<close> th pid
        by (simp add: dispatchRun_def call_dispatcher_def emit_def attempt_apply)
      have found: "find_run ?w2 ?i = Some (r\<lparr>run_runner_token_hash := h\<rparr>)"
        using find_run_in [OF _ r1] ok1 r by (simp add: sent_ok_def find_run_def)
      have runs3: "runs ?w3 = update_where (\<lambda>q. run_id q = ?i \<and> run_status q = ''pending'')
          (\<lambda>q. q\<lparr>run_status := ''running'', run_started_at := Some (now_at (bump ?w2)), run_runner_pid := Some (int32 pid)\<rparr>) (runs ?w1)"
        using found d1 r by (simp add: SetRunRunning_def update_run_def)
      have "sent_ok ?L ?w3"
      proof (rule sent_ok_send [OF ok1 lib r1])
        show "run_id (r\<lparr>run_runner_token_hash := h\<rparr>) = ?i" "run_status (r\<lparr>run_runner_token_hash := h\<rparr>) = ''pending''"
          using r by simp_all
        show "dr_args ?spec = runner_args ?L ?i" by (rule request_args)
        show "store_ok ?w3" using okw res by simp
        show "calm ?w3" "dispatched ?w3 = dispatched ?w1 @ [?spec]" "uuid_gen ?w3 = uuid_gen ?w1" "uuid_ctr ?w3 = uuid_ctr ?w1"
          using found d1 r by (simp_all add: SetRunRunning_def update_run_def)
        show "run_id q \<noteq> ?i \<and> (\<exists>p \<in> set (runs ?w1). run_id p = run_id q \<and> run_status p = ''pending'')"
          if "q \<in> set (runs ?w3)" "run_status q = ''pending''" for q
          using that unfolding runs3 by (auto simp: update_where_def split: if_splits)
      qed
      then show ?thesis using res by simp
    qed
  qed
qed

section \<open>The pass\<close>

definition others_same :: "uuid \<Rightarrow> world \<Rightarrow> world \<Rightarrow> bool" where
  "others_same i w w' \<longleftrightarrow> (\<forall>q \<in> set (runs w). run_id q \<noteq> i \<longrightarrow> q \<in> set (runs w'))"

interpretation oth: tx_rel "others_same i" for i
  by unfold_locales (auto simp: others_same_def rollback_to_def)

lemma others_same_update:
  "(\<And>r. p r \<Longrightarrow> run_id r = i) \<Longrightarrow> others_same i w (w\<lparr>runs := update_where p f (runs w)\<rparr>)"
  by (force simp: others_same_def update_where_def)

lemma dispatchRun_others: "keeps (others_same (da_run_id args)) (dispatchRun deps args)"
proof -
  let ?i = "da_run_id args"
  have h: "keeps (others_same ?i) (update_token_hash h ?i)" for h
    unfolding update_token_hash_def by (rule oth.stmt_keeps) (simp add: others_same_update)
  have r: "keeps (others_same ?i) (SetRunRunning ?i pid)" for pid
    unfolding SetRunRunning_def
    by (rule oth.stmt_keeps)
      (auto simp: update_run_def oth.R_refl intro!: others_same_update split: option.split)
  have m: "keeps (others_same ?i) (modify (\<lambda>w. w\<lparr>dispatched := dl w\<rparr>))"
    "keeps (others_same ?i) (modify (\<lambda>w. w\<lparr>metrics := ml w\<rparr>))" for dl ml
    by (rule oth.modify_keeps, simp add: others_same_def)+
  show ?thesis
    unfolding dispatchRun_def call_dispatcher_def emit_def
    by (intro oth.keeps_rules) (auto intro!: oth.keeps_rules h r m split: sum.split prod.split)
qed

lemma dispatch_rows_sent_ok:
  assumes "sent_ok (sd_libs deps) w" "uuid_lib_ok (sd_libs deps)"
    "distinct (map (\<lambda>(r, s, c). run_id r) rows)"
    "\<And>r s c. (r, s, c) \<in> set rows \<Longrightarrow> r \<in> set (runs w) \<and> run_status r = ''pending''"
  shows "sent_ok (sd_libs deps) (snd (dispatch_rows deps rows st w))"
  using assms
proof (induction rows arbitrary: st w)
  case Nil
  then show ?case by simp
next
  case (Cons row rows)
  obtain r s c where row: "row = (r, s, c)" by (cases row)
  let ?args = "(sched_args r s (rc_github_app_install_id c))\<lparr>da_org_id := run_org_id r\<rparr>"
  obtain res w1 where d: "dispatchRun deps ?args w = (res, w1)" by (cases "dispatchRun deps ?args w")
  have id: "da_run_id ?args = run_id r" by (simp add: sched_args_def)
  have r: "r \<in> set (runs w)" "run_status r = ''pending''" using Cons.prems(4) row by auto
  have "sent_ok (sd_libs deps) w1"
    using dispatchRun_sent_ok [OF Cons.prems(1,2) r(1) _ r(2), of ?args] id d by simp
  moreover have "q \<in> set (runs w1) \<and> run_status q = ''pending''" if "(q, s', c') \<in> set rows" for q s' c'
  proof -
    have "q \<in> set (runs w)" "run_status q = ''pending''" using Cons.prems(4) that by auto
    moreover have "run_id q \<noteq> run_id r" using Cons.prems(3) row that by force
    ultimately show ?thesis
      using keepsD [OF dispatchRun_others, of ?args w deps] d id by (simp add: others_same_def)
  qed
  ultimately have "sent_ok (sd_libs deps) (snd (dispatch_rows deps rows st' w1))" for st'
    using Cons.IH Cons.prems(2,3) by simp
  then show ?case using d by (simp add: row attempt_apply)
qed

lemma apply_overlap_sent_ok:
  assumes ok: "sent_ok (sd_libs deps) w" and lib: "uuid_lib_ok (sd_libs deps)"
    and r: "run \<in> set (runs w)" "run_status run = ''pending''"
  shows "sent_ok (sd_libs deps) (snd (apply_overlap deps s install st run w))"
proof -
  obtain active w1 where l: "ListActiveRunsForSchedule (sch_id s) w = (Inr active, w1)"
    using ok by (simp add: ListActiveRunsForSchedule_def sent_ok_def)
  have ok1: "sent_ok (sd_libs deps) w1"
    using sent_ok_stmt [OF qt.ListActiveRunsForSchedule_keeps l ok] .
  have r1: "run \<in> set (runs w1)" using r l ListActive_runs [of "sch_id s" w] by simp
  have "sent_ok (sd_libs deps) (snd (DeleteRun (run_id run) w1))"
    using sent_ok_quiet [OF ok1 quiet_delete] .
  moreover have "sent_ok (sd_libs deps) (snd (dispatchRun deps (sched_args run s install) w1))"
    using dispatchRun_sent_ok [OF ok1 lib r1 _ r(2)] by (simp add: sched_args_def)
  ultimately show ?thesis
    using l ok1 by (simp add: apply_overlap_def split: decision.split)
qed

lemma processOne_sent_ok:
  assumes ok: "sent_ok (sd_libs deps) w" and lib: "uuid_lib_ok (sd_libs deps)"
  shows "sent_ok (sd_libs deps) (snd (processOne deps (s, sha, install) st w))"
proof -
  let ?fire = "case sch_next_fire_at s of Some t \<Rightarrow> t | None \<Rightarrow> zero_time"
  have "sent_ok (sd_libs deps) (snd (bind (map_err ErrInsert (InsertRun p)) (\<lambda>(run, inserted).
      bind (map_err ErrUpdateNext (UpdateScheduleNextFireAt (sch_id s) (Some nf)))
        (\<lambda>_. if \<not> inserted then ret st else apply_overlap deps s install st run)) w))" for p nf
  proof -
    obtain res w1 where i: "InsertRun p w = (res, w1)" by (cases "InsertRun p w")
    have ok1: "sent_ok (sd_libs deps) w1" using sent_ok_stmt [OF quiet_stmts(1) i ok] .
    obtain w2 where u: "UpdateScheduleNextFireAt (sch_id s) (Some nf) w1 = (Inr (), w2)"
      using ok1 by (simp add: UpdateScheduleNextFireAt_def sent_ok_def)
    have ok2: "sent_ok (sd_libs deps) w2" using sent_ok_stmt [OF quiet_stmts(2) u ok1] .
    have "sent_ok (sd_libs deps) (snd (apply_overlap deps s install st run w2))"
      if "res = Inr (run, True)" for run
      using InsertRun_fresh [of w p run w1] ok i that UpdateScheduleNextFireAt_runs [of "sch_id s" "Some nf" w1] u
      by (intro apply_overlap_sent_ok [OF ok2 lib]) (simp_all add: sent_ok_def)
    then show ?thesis using i u ok1 ok2
      by (cases res) (auto simp: map_err_def bind_def split: prod.split)
  qed
  then show ?thesis using ok by (auto simp: processOne_def Let_def split: sum.split option.split)
qed

lemma process_due_sent_ok:
  assumes "uuid_lib_ok (sd_libs deps)"
  shows "sent_ok (sd_libs deps) w \<Longrightarrow> sent_ok (sd_libs deps) (snd (process_due deps rows st w))"
proof (induction rows arbitrary: st w)
  case Nil
  then show ?case by simp
next
  case (Cons row rows)
  obtain s sha install where row: "row = (s, sha, install)" by (cases row)
  show ?case
    using Cons.IH processOne_sent_ok [OF Cons.prems assms, of s sha install st]
    by (simp add: row attempt_apply)
qed

lemma query_pending_distinct:
  assumes "store_ok w" "query_pending w = (Inr rows, w')"
  shows "distinct (map (\<lambda>(r, s, c). run_id r) rows)"
proof -
  have mf: "distinct (map run_id xs) \<Longrightarrow> distinct (map (\<lambda>(r, s, c). run_id r)
      (List.map_filter (\<lambda>r. map_option (\<lambda>(s, k, c). (r, s, c)) (g r)) xs))"
    for xs and g :: "run_row \<Rightarrow> (sched_row \<times> skill_row \<times> repo_row) option"
    by (induction xs) (auto simp: List.map_filter_def split: option.splits)
  have "distinct (map run_id (filter p (runs w)))" for p
    using assms(1) by (simp add: store_ok_def keys_ok_def distinct_map_filter)
  moreover have "distinct (map run_id (sort_key run_created_at xs)) = distinct (map run_id xs)" for xs
    by (metis distinct_map distinct_sort set_sort)
  ultimately show ?thesis
    using assms(2) mf by (auto simp: query_pending_def stmt_def split: if_splits)
qed

lemma dispatchPending_sent_ok:
  assumes ok: "sent_ok (sd_libs deps) w" and lib: "uuid_lib_ok (sd_libs deps)"
  shows "sent_ok (sd_libs deps) (snd (dispatchPending deps st w))"
proof -
  obtain rows w1 where q: "query_pending w = (Inr rows, w1)"
    using ok by (simp add: query_pending_def sent_ok_def)
  have ok1: "sent_ok (sd_libs deps) w1" using sent_ok_stmt [OF qt.query_pending_keeps q ok] .
  have runs1: "runs w1 = runs w" using q by (auto simp: query_pending_def stmt_def split: if_splits)
  have "r \<in> set (runs w1) \<and> run_status r = ''pending''" if "(r, s, c) \<in> set rows" for r s c
    using query_pending_rows [OF q that] by (auto simp: runs1 pending_ready_def)
  then have "sent_ok (sd_libs deps) (snd (dispatch_rows deps rows st w1))"
    using dispatch_rows_sent_ok [OF ok1 lib query_pending_distinct [OF _ q]] ok by (simp add: sent_ok_def)
  then show ?thesis using q by (simp add: dispatchPending_def)
qed

lemma Tick_sent_ok:
  assumes ok: "sent_ok (sd_libs deps) w" and lib: "uuid_lib_ok (sd_libs deps)"
  shows "sent_ok (sd_libs deps) (snd (Tick deps w))"
proof -
  obtain due w1 where d: "ListDueSchedulesWithSha w = (Inr due, w1)"
    using ok by (simp add: ListDueSchedulesWithSha_def sent_ok_def)
  obtain st w2 where p: "process_due deps due stats0 w1 = (Inr st, w2)"
    using process_due_returns [of deps due stats0 w1] by (metis fst_conv surj_pair)
  have "sent_ok (sd_libs deps) w1"
    using sent_ok_stmt [OF qt.ListDueSchedulesWithSha_keeps d ok] .
  then have "sent_ok (sd_libs deps) w2"
    using process_due_sent_ok [OF lib, of w1 due stats0] p by simp
  then have "sent_ok (sd_libs deps) (snd (OrphanSweep (snd (dispatchPending deps st w2))))"
    using dispatchPending_sent_ok [OF _ lib] quiet_sweep sent_ok_quiet by blast
  then show ?thesis using d p by (simp add: Tick_def attempt_apply)
qed

lemma Loop_sent_ok:
  assumes lib: "uuid_lib_ok (sd_libs deps)" and ok: "sent_ok (sd_libs deps) w"
  shows "sent_ok (sd_libs deps) (fst (Loop deps n (w, clk)))"
proof -
  have t: "sent_ok (sd_libs deps) (fst wc) \<Longrightarrow> sent_ok (sd_libs deps) (fst (tickOnce deps wc))" for wc
    using Tick_sent_ok [OF _ lib, of "fst wc"]
    by (auto simp: tickOnce_def split: prod.split sum.split)
  have "sent_ok (sd_libs deps) (fst wc) \<Longrightarrow> sent_ok (sd_libs deps) (fst (tick_loop deps m wc))" for m wc
    by (induction m arbitrary: wc) (auto simp: t)
  then show ?thesis using ok t [of "(w, clk)"] by (simp add: Loop_def)
qed

section \<open>Properties\<close>

text \<open>
  C3: However many ticks run, a scheduler whose database answers hands every run to the
  dispatcher at most once: the argument vectors of the dispatched jobs are pairwise distinct,
  starting from a store in which nothing pending was sent yet.
\<close>

theorem dispatched_once:
  assumes "uuid_lib_ok (sd_libs deps)" and "sent_ok (sd_libs deps) w"
  shows "distinct (map dr_args (dispatched (fst (Loop deps n (w, clk)))))"
  using Loop_sent_ok [OF assms] by (simp add: sent_ok_def)

theorem dispatched_once_witness:
  "distinct (map dr_args (dispatched (fst (Loop (sample_deps []) 3
     (sample_world ''queue'' [sample_run 7 ''pending'' None 0], Some 0)))))"
proof (rule dispatched_once)
  show "uuid_lib_ok (sd_libs (sample_deps []))" by (simp add: sample_deps_def sample_libs_ok)
  have "store_ok (sample_world ''queue'' [sample_run 7 ''pending'' None 0])"
    by (rule sample_world_ok) (simp_all add: valid_overlap_column_def sample_runs_ok_def
        sample_run_def fires_unique_def run_ok_def terminal_status_def)
  then show "sent_ok (sd_libs (sample_deps [])) (sample_world ''queue'' [sample_run 7 ''pending'' None 0])"
    by (simp add: sent_ok_def sent_def sample_world_def)
qed


end
