(* ===== verification/Scheduler_Claims.thy ===== *)
theory Scheduler_Claims
  imports Dispatch_Once
begin

text \<open>
  The properties of the scheduler: what a fire does under each overlap policy, which pending
  runs are drained, what the sweep leaves, and how a dispatched run is bound to its token.
\<close>



text \<open>
  A fire that finds the schedule busy under the queue policy leaves exactly its own pending
  row behind, dispatches nothing and moves the schedule to its next fire time.
\<close>

theorem busy_queue_leaves_row:
  assumes "fires_now deps w s t nf" "sch_overlap_policy s = ''queue''" "others_active w s > 0"
  shows "\<exists>w' r. processOne deps (s, sha, install) st w = (Inr (st\<lparr>st_queued := Suc (st_queued st)\<rparr>), w') \<and>
    runs w' = runs w @ [r] \<and> run_status r = ''pending'' \<and> run_schedule_id r = sch_id s \<and>
    run_fire_time r = Some t \<and> dispatched w' = dispatched w \<and>
    find_schedule w' (sch_id s) = Some (s\<lparr>sch_next_fire_at := Some nf, sch_updated_at := now_at (w\<lparr>stmt_ctr := stmt_ctr w + 2\<rparr>)\<rparr>)"
proof -
  have "Decide (sch_overlap_policy s) (others_active w s) = DecisionQueue"
    using assms(2,3) by (simp add: Decide_def)
  from queue_effect [OF assms(1) this, of sha install st] show ?thesis
    using find_schedule_armed [OF assms(1), of sha]
    by (intro exI [of _ "armed w s sha t nf"] exI [of _ "fired_run w s sha t"])
      (simp add: fired_run_def new_run_def scheduled_params_def)
qed

theorem busy_queue_leaves_row_witness:
  "\<exists>w' r. processOne (sample_deps []) (sample_schedule ''queue'', ''abc'', 0) stats0
     (sample_world ''queue'' [sample_run 1 ''failed'' (Some 5) 5, sample_run 2 ''running'' (Some 7) 7]) =
       (Inr (stats0\<lparr>st_queued := Suc (st_queued stats0)\<rparr>), w') \<and>
    runs w' = runs (sample_world ''queue'' [sample_run 1 ''failed'' (Some 5) 5, sample_run 2 ''running'' (Some 7) 7]) @ [r] \<and>
    run_status r = ''pending''"
proof -
  let ?w = "sample_world ''queue'' [sample_run 1 ''failed'' (Some 5) 5, sample_run 2 ''running'' (Some 7) 7]"
  have "store_ok ?w" by (rule sample_pair_ok) simp_all
  then have "fires_now (sample_deps []) ?w (sample_schedule ''queue'') 0 (3600 * second)"
    by (simp add: fires_now_def, simp add: sample_defs NextFire_def)
  moreover have "sch_overlap_policy (sample_schedule ''queue'') = ''queue''" by (simp add: sample_schedule_def)
  moreover have "others_active ?w (sample_schedule ''queue'') > 0" by (simp add: others_active_def sample_defs active_status_def)
  ultimately show ?thesis using busy_queue_leaves_row [of "sample_deps []" ?w "sample_schedule ''queue''" 0 "3600 * second" "''abc''" 0 stats0]
    by blast
qed

text \<open>
  A tick fails only when its first query fails; errors of single schedules, of the drain
  and of the sweep never abort it.
\<close>

theorem Tick_fails_only_at_due_query:
  "fst (Tick deps w) = Inl e \<longleftrightarrow> fault w (stmt_ctr w) \<and> e = ErrListDue ErrConn"
  by (rule Tick_error)

text \<open>
  The drain picks a run exactly when it is pending, its schedule is enabled, and it is
  either manual or a queued run than which no other active run of its schedule is older.
\<close>

theorem drain_picks:
  assumes "query_pending w = (Inr rows, w')" "join_run w r = Some (s, k, c)"
  shows "(r, s, c) \<in> set rows \<longleftrightarrow> r \<in> set (runs w) \<and> run_status r = ''pending'' \<and> sch_enabled s \<and>
    (run_fire_reason r = ''manual'' \<or>
     (run_fire_reason r = ''schedule'' \<and> sch_overlap_policy s = ''queue'' \<and>
      \<not> (\<exists>q \<in> set (runs w). run_schedule_id q = run_schedule_id r \<and> run_id q \<noteq> run_id r \<and>
         active_status (run_status q) \<and> run_created_at q < run_created_at r)))"
proof -
  have "(r, s, c) \<in> set rows \<longleftrightarrow> r \<in> set (runs w) \<and> pending_ready w r"
    using query_pending_mem [OF assms] .
  then show ?thesis using assms(2) by (auto simp: pending_ready_def list_ex_iff older_active_def)
qed

theorem drain_picks_witness:
  "\<exists>rows w'. query_pending (sample_world ''queue'' [sample_run 1 ''pending'' (Some 5) 5, sample_run 2 ''pending'' (Some 7) 7]) = (Inr rows, w') \<and>
     (sample_run 1 ''pending'' (Some 5) 5, sample_schedule ''queue'', sample_repo) \<in> set rows \<and>
     (sample_run 2 ''pending'' (Some 7) 7, sample_schedule ''queue'', sample_repo) \<notin> set rows"
proof -
  let ?w = "sample_world ''queue'' [sample_run 1 ''pending'' (Some 5) 5, sample_run 2 ''pending'' (Some 7) 7]"
  obtain rows w' where q: "query_pending ?w = (Inr rows, w')"
    by (simp add: query_pending_def sample_world_def)
  have j: "join_run ?w (sample_run i a f t) = Some (sample_schedule ''queue'', sample_skill, sample_repo)" for i a f t
    by (simp add: sample_defs join_run_def join_schedule_def find_schedule_def find_skill_def find_repo_def)
  have "(sample_run 1 ''pending'' (Some 5) 5, sample_schedule ''queue'', sample_repo) \<in> set rows"
    unfolding drain_picks [OF q j] by (simp add: sample_defs)
  moreover have "(sample_run 2 ''pending'' (Some 7) 7, sample_schedule ''queue'', sample_repo) \<notin> set rows"
    unfolding drain_picks [OF q j] by (simp add: sample_defs active_status_def)
  ultimately show ?thesis using q by blast
qed



text \<open>
  The rows queued under a paused schedule are not retained: a tick that finds one older
  than the timeout and five minutes fails it, although the drain's comment says it waits.
\<close>

theorem paused_queue_is_swept:
  "map (\<lambda>r. (run_id r, run_status r, run_error_kind r)) (runs (snd (Tick (sample_deps []) paused_world))) =
     [(1, ''failed'', Some ''shutdown'')]"
  by code_simp

text \<open>
  A second pass over a fire that already has its run inserts nothing and dispatches
  nothing; it only moves the schedule on.
\<close>

theorem duplicate_fire_only_advances:
  assumes "fault w = (\<lambda>_. False)" "store_ok w" "s \<in> set (schedules w)" "sch_next_fire_at s = Some t"
    "NextFire (sd_libs deps) (sch_cron s) (sch_timezone s) t = Inr nf" "rand_hex w (stmt_ctr w) \<noteq> None"
    "r \<in> set (runs w)" "run_schedule_id r = sch_id s" "run_fire_time r = Some t"
  shows "\<exists>w' u. processOne deps (s, sha, install) st w = (Inr st, w') \<and> runs w' = runs w \<and>
    dispatched w' = dispatched w \<and>
    find_schedule w' (sch_id s) = Some (s\<lparr>sch_next_fire_at := Some nf, sch_updated_at := u\<rparr>)"
proof -
  obtain ph where ph: "rand_hex w (stmt_ctr w) = Some ph" using assms(6) by auto
  obtain q where q: "InsertRun (scheduled_params s sha t ph) w = (Inr (q, False), bump w)"
    using InsertRun_conflict [OF assms(1-3), of "scheduled_params s sha t ph" t r] assms(7-)
    by (auto simp: scheduled_params_def)
  let ?w2 = "snd (UpdateScheduleNextFireAt (sch_id s) (Some nf) (bump w))"
  have u: "UpdateScheduleNextFireAt (sch_id s) (Some nf) (bump w) = (Inr (), ?w2)"
    using assms(1) by (simp add: UpdateScheduleNextFireAt_def)
  have "processOne deps (s, sha, install) st w = (Inr st, ?w2)"
    using assms(4,5) ph q u by (simp add: processOne_def)
  moreover have "find_schedule ?w2 (sch_id s) =
      Some (s\<lparr>sch_next_fire_at := Some nf, sch_updated_at := now_at (bump (bump w))\<rparr>)"
    using assms(1) find_schedule_in [OF assms(2,3)]
    by (simp add: UpdateScheduleNextFireAt_def find_schedule_def find_map_update)
  moreover have "runs ?w2 = runs w" "dispatched ?w2 = dispatched w"
    using assms(1) by (simp_all add: UpdateScheduleNextFireAt_def)
  ultimately show ?thesis by blast
qed

theorem duplicate_fire_only_advances_witness:
  "\<exists>w'. processOne (sample_deps []) (sample_schedule ''skip'', ''abc'', 0) stats0
     (sample_world ''skip'' [sample_run 1 ''failed'' (Some 0) 0, sample_run 2 ''running'' (Some 7) 7]) = (Inr stats0, w') \<and>
     map run_id (runs w') = [1, 2]"
proof -
  let ?w = "sample_world ''skip'' [sample_run 1 ''failed'' (Some 0) 0, sample_run 2 ''running'' (Some 7) 7]"
  have "store_ok ?w" by (rule sample_pair_ok) simp_all
  then have "\<exists>w' u. processOne (sample_deps []) (sample_schedule ''skip'', ''abc'', 0) stats0 ?w = (Inr stats0, w') \<and>
      runs w' = runs ?w \<and> dispatched w' = dispatched ?w \<and>
      find_schedule w' (sch_id (sample_schedule ''skip'')) =
        Some (sample_schedule ''skip''\<lparr>sch_next_fire_at := Some (3600 * second), sch_updated_at := u\<rparr>)"
    by (intro duplicate_fire_only_advances [of ?w "sample_schedule ''skip''" 0 "sample_deps []" "3600 * second" "sample_run 1 ''failed'' (Some 0) 0"])
      (simp_all add: sample_defs NextFire_def)
  then show ?thesis by (auto simp: sample_world_def)
qed



text \<open>
  A cron expression that never fires again is not retired: its next fire time becomes the
  zero time, so the following tick finds the schedule due and fires it once more.
\<close>

theorem never_firing_cron_fires_again:
  "cron_lib_ok (sd_libs never_deps) \<and>
   map run_fire_time (runs (fst (Loop never_deps 1 (sample_world ''concurrent'' [], Some 0)))) = [Some 0, Some zero_time]"
proof
  show "cron_lib_ok (sd_libs never_deps)" by (simp add: never_deps_def cron_lib_ok_def sample_deps_def)
  show "map run_fire_time (runs (fst (Loop never_deps 1 (sample_world ''concurrent'' [], Some 0)))) = [Some 0, Some zero_time]"
    by code_simp
qed

end
