(* ===== verification/Api.thy ===== *)
theory Api
  imports Scheduler Go_Strings "HOL-Library.AList"
begin

text \<open>
  The HTTP surface of the runner subprocesses (internal/api) and the audit log
  (internal/audit). A handler is a computation on the store: an error is what http.Error
  writes, its status and the constant part of its message, and a value is the success
  response. A JSON body arrives decoded, \<open>None\<close> standing for a body that does not decode. The
  secret store, the installation tokens, symbolic links and the git push are parameters.
\<close>

section \<open>Requests and responses\<close>

datatype http_err = HttpError nat string

type_synonym 'a handler = "(world, http_err, 'a) sx"

record headers =
  hd_authorization :: string
  hd_runner_key :: string

record api_deps =
  ad_libs :: libs
  ad_signer_key :: string
  ad_secrets_get :: "world \<Rightarrow> string \<Rightarrow> string + string"
  ad_installations :: "int \<Rightarrow> string + string"
  ad_runner_api_key :: string
  ad_eval_symlinks :: "string \<Rightarrow> string option"
  ad_temp_dir :: string
  ad_push_to_url :: "string \<Rightarrow> string \<Rightarrow> bool"

section \<open>Audit log\<close>

record audit_entry =
  ae_org_id :: uuid
  ae_actor :: string
  ae_action :: string
  ae_target_kind :: string
  ae_target_id :: "uuid option"
  ae_detail :: "(string \<times> json) list option"

definition strPtr :: "string \<Rightarrow> string option" where
  "strPtr s = (if s = [] then None else Some s)"

definition audit_Log :: "audit_entry \<Rightarrow> unit stmt" where
  "audit_Log e = InsertAuditLog (ae_org_id e) (strPtr (ae_actor e)) (ae_action e)
     (strPtr (ae_target_kind e)) (ae_target_id e)
     (case ae_detail e of None \<Rightarrow> JObj [] | Some d \<Rightarrow> JObj d)"

section \<open>Authentication\<close>

text \<open>The zero value of the claims, which a request without verified claims carries.\<close>

definition zero_claims :: run_claims where
  "zero_claims = \<lparr>cl_run_id = 0, cl_org_id = 0, cl_secret_refs = [], cl_expires_at = zero_time\<rparr>"

definition requireBearer :: "api_deps \<Rightarrow> string \<Rightarrow> (run_claims \<Rightarrow> 'a handler) \<Rightarrow> 'a handler" where
  "requireBearer deps auth handle =
     (if \<not> has_prefix auth ''Bearer '' then throw (HttpError 401 ''missing bearer'')
      else let raw = trim_prefix auth ''Bearer '' in
        bind (gets (\<lambda>w. clock_at w (stmt_ctr w))) (\<lambda>now.
        case Verify (ad_libs deps) (ad_signer_key deps) now raw of
          Inl _ \<Rightarrow> throw (HttpError 401 ''invalid token'')
        | Inr claims \<Rightarrow>
          bind (map_err (\<lambda>e. if e = ErrNoRows then HttpError 401 ''unknown run'' else HttpError 500 ''run lookup: '')
            (GetRun (cl_run_id claims))) (\<lambda>run.
          if run_runner_token_hash run \<noteq> HashToken (ad_libs deps) raw
          then throw (HttpError 401 ''token hash mismatch'')
          else handle claims)))"

definition requireBearerOrAPIKey :: "api_deps \<Rightarrow> headers \<Rightarrow> (run_claims \<Rightarrow> 'a handler) \<Rightarrow> 'a handler" where
  "requireBearerOrAPIKey deps hdr handle =
     (if ad_runner_api_key deps \<noteq> [] \<and> hd_runner_key hdr = ad_runner_api_key deps
      then handle zero_claims
      else requireBearer deps (hd_authorization hdr) handle)"

text \<open>The check that the run in the URL is the one the token was issued for.\<close>

definition own_run :: "api_deps \<Rightarrow> run_claims \<Rightarrow> string \<Rightarrow> string \<Rightarrow> (uuid \<Rightarrow> 'a handler) \<Rightarrow> 'a handler" where
  "own_run deps claims path_id msg handle = (case uuid_parse (ad_libs deps) path_id of
       None \<Rightarrow> throw (HttpError 400 ''invalid run id'')
     | Some urlRunID \<Rightarrow> if cl_run_id claims \<noteq> urlRunID then throw (HttpError 403 msg) else handle urlRunID)"

section \<open>GET /internal/runs/{id}/context\<close>

record run_context =
  cx_run_id :: string
  cx_org_id :: string
  cx_schedule_name :: string
  cx_skill_path :: string
  cx_skill_sha :: string
  cx_repo :: string
  cx_repo_id :: string
  cx_default_branch :: string
  cx_installation_id :: int
  cx_provider :: string
  cx_model :: string
  cx_timeout_sec :: int
  cx_llm_secret_ref :: "string option"
  cx_llm_endpoint :: "string option"
  cx_llm_deployment :: "string option"
  cx_destinations :: json
  cx_writeback :: "json option"
  cx_env :: json
  cx_frontmatter :: json
  cx_mcp_env :: json
  cx_max_turns :: "int option"
  cx_secret_manifest :: "string list"

definition context_of :: "libs \<Rightarrow> uuid \<Rightarrow> run_row \<times> sched_row \<times> skill_row \<times> repo_row \<Rightarrow> run_context" where
  "context_of L urlRunID row = (case row of (r, s, k, c) \<Rightarrow>
     \<lparr>cx_run_id = uuid_string L urlRunID, cx_org_id = uuid_string L (run_org_id r),
      cx_schedule_name = sch_name s, cx_skill_path = sk_path k, cx_skill_sha = run_skill_sha r,
      cx_repo = rc_owner c @ ''/'' @ rc_name c, cx_repo_id = uuid_string L (sk_repo_id k),
      cx_default_branch = rc_default_branch c, cx_installation_id = rc_github_app_install_id c,
      cx_provider = sch_provider s, cx_model = sch_model s, cx_timeout_sec = sch_timeout_sec s,
      cx_llm_secret_ref = sch_llm_secret_ref s, cx_llm_endpoint = sch_llm_endpoint s,
      cx_llm_deployment = sch_llm_deployment s, cx_destinations = sch_destinations_json s,
      cx_writeback = sch_writeback_json s, cx_env = sch_env_json s,
      cx_frontmatter = sk_frontmatter_json k, cx_mcp_env = sch_mcp_env_json s,
      cx_max_turns = sch_max_turns s,
      cx_secret_manifest = CollectSecretRefs (Some (sch_destinations_json s)) (Some (sch_env_json s))
        (sch_llm_secret_ref s) [Some (sch_mcp_env_json s)]\<rparr>)"

definition serve_context :: "api_deps \<Rightarrow> string \<Rightarrow> run_claims \<Rightarrow> run_context handler" where
  "serve_context deps path_id claims =
     own_run deps claims path_id ''token run_id does not match URL'' (\<lambda>urlRunID.
     bind (map_err (\<lambda>e. if e = ErrNoRows then HttpError 404 ''run not found'' else HttpError 500 ''load run: '')
       (GetRunForContext urlRunID)) (\<lambda>row.
     ret (context_of (ad_libs deps) urlRunID row)))"

section \<open>GET /internal/secrets\<close>

definition logSecretEvent :: "uuid \<Rightarrow> string \<Rightarrow> string \<Rightarrow> (string \<times> json) list \<Rightarrow> unit handler" where
  "logSecretEvent runID level eventType payload =
     bind (attempt (InsertRunEvent runID level eventType (JObj payload))) (\<lambda>_. ret ())"

text \<open>The result map of the handler, as the list of its entries.\<close>

primrec fetch_secrets ::
  "api_deps \<Rightarrow> run_claims \<Rightarrow> string list \<Rightarrow> (string \<times> string) list \<Rightarrow> (string \<times> string) list handler" where
  "fetch_secrets deps claims [] out = ret out"
| "fetch_secrets deps claims (name # names) out =
     (if name \<notin> set (cl_secret_refs claims) then
        bind (logSecretEvent (cl_run_id claims) ''warn'' ''secret.denied''
          [(''name'', JStr name), (''in_manifest'', JBool False)]) (\<lambda>_.
        throw (HttpError 403 (''secret not in token scope: '' @ name)))
      else
        bind (gets (\<lambda>w. ad_secrets_get deps w name)) (\<lambda>res.
        case res of
          Inl _ \<Rightarrow>
            bind (logSecretEvent (cl_run_id claims) ''error'' ''secret.fetch_error''
              [(''name'', JStr name), (''in_manifest'', JBool True), (''error'', JStr ''secret_store_error'')]) (\<lambda>_.
            throw (HttpError 500 ''load secret failed''))
        | Inr val \<Rightarrow>
            bind (logSecretEvent (cl_run_id claims) ''info'' ''secret.fetched''
              [(''name'', JStr name), (''in_manifest'', JBool True)]) (\<lambda>_.
            fetch_secrets deps claims names (AList.update name val out))))"

definition serve_secrets :: "api_deps \<Rightarrow> string \<Rightarrow> run_claims \<Rightarrow> (string \<times> string) list handler" where
  "serve_secrets deps namesParam claims =
     (if namesParam = [] then throw (HttpError 400 ''missing names query parameter'')
      else let names = map TrimSpace (split_on (CHR '','') namesParam) in
        if [] \<in> set names then throw (HttpError 400 ''secret names must be non-empty'')
        else fetch_secrets deps claims names [])"

section \<open>GET /internal/repos/{id}/clone-url\<close>

definition token_url :: "string \<Rightarrow> string \<Rightarrow> string \<Rightarrow> string" where
  "token_url tok owner name = ''https://x-access-token:'' @ tok @ ''@github.com/'' @ owner @ ''/'' @ name @ ''.git''"

definition serve_clone_url :: "api_deps \<Rightarrow> string \<Rightarrow> run_claims \<Rightarrow> string handler" where
  "serve_clone_url deps path_id claims = (case uuid_parse (ad_libs deps) path_id of
       None \<Rightarrow> throw (HttpError 400 ''invalid repo id'')
     | Some repoID \<Rightarrow>
       bind (map_err (\<lambda>e. if e = ErrNoRows then HttpError 403 ''run not found'' else HttpError 500 ''scope check: '')
         (GetRunRepoID (cl_run_id claims))) (\<lambda>scoped.
       if scoped \<noteq> repoID then throw (HttpError 403 ''repo not in run scope'')
       else
         bind (map_err (\<lambda>e. if e = ErrNoRows then HttpError 404 ''repo not found'' else HttpError 500 ''load repo: '')
           (GetRepoConnection repoID)) (\<lambda>row.
         case ad_installations deps (rc_github_app_install_id row) of
           Inl _ \<Rightarrow> throw (HttpError 502 ''mint install token: '')
         | Inr tok \<Rightarrow> ret (token_url tok (rc_owner row) (rc_name row)))))"

section \<open>POST /internal/runs/{id}/events\<close>

record run_event_in =
  ei_type :: string
  ei_level :: string
  ei_payload :: "json option"

definition insert_event :: "uuid \<Rightarrow> run_event_in \<Rightarrow> unit handler" where
  "insert_event runID ev =
     (let level = (if ei_level ev = [] then ''info'' else ei_level ev);
          payload = (case ei_payload ev of None \<Rightarrow> JObj [] | Some p \<Rightarrow> p)
      in if level \<noteq> ''info'' \<and> level \<noteq> ''warn'' \<and> level \<noteq> ''error'' then throw (HttpError 400 (''invalid level: '' @ level))
         else map_err (\<lambda>_. HttpError 500 ''persist: '') (InsertRunEvent runID level (ei_type ev) payload))"

definition serve_events :: "api_deps \<Rightarrow> string \<Rightarrow> run_event_in list option \<Rightarrow> run_claims \<Rightarrow> unit handler" where
  "serve_events deps path_id body claims =
     own_run deps claims path_id ''token run_id mismatch'' (\<lambda>urlRunID.
     case body of
       None \<Rightarrow> throw (HttpError 400 ''invalid json: '')
     | Some events \<Rightarrow>
       in_tx (\<lambda>_. HttpError 500 ''begin tx: '') (\<lambda>_. HttpError 500 ''commit: '')
         (for_each events (insert_event urlRunID)))"

section \<open>Auto-pause\<close>

definition DefaultAutoPauseAfter :: int where
  "DefaultAutoPauseAfter = 5"

text \<open>
  \<open>PauseNoop\<close> is a return without error before the commit, so the deferred rollback runs; the
  other constructor is an error, with the step that failed.
\<close>

datatype pause_stop = PauseNoop | PauseErr string

definition autoPauseThreshold :: "int option \<Rightarrow> int" where
  "autoPauseThreshold after = (case after of
       Some n \<Rightarrow> if 1 \<le> n then n else DefaultAutoPauseAfter
     | None \<Rightarrow> DefaultAutoPauseAfter)"

definition pause_now :: "libs \<Rightarrow> uuid \<Rightarrow> uuid \<Rightarrow> uuid \<Rightarrow> int \<Rightarrow> (world, pause_stop, unit) sx" where
  "pause_now L orgID scheduleID runID threshold =
     bind (map_err (\<lambda>_. PauseErr ''pause update'')
       (AutoPauseSchedule scheduleID (Some (itoa threshold @ '' consecutive failed runs'')))) (\<lambda>affected.
     if affected = 0 then throw PauseNoop
     else
       bind (map_err (\<lambda>_. PauseErr ''audit'') (audit_Log \<lparr>ae_org_id = orgID, ae_actor = ''system'',
         ae_action = ''schedule.auto_paused'', ae_target_kind = ''schedule'', ae_target_id = Some scheduleID,
         ae_detail = Some [(''threshold'', JNum threshold), (''last_run_id'', JStr (uuid_string L runID))]\<rparr>)) (\<lambda>_.
       map_err (\<lambda>_. PauseErr ''run_event'') (InsertRunEvent runID ''info'' ''schedule.auto_paused''
         (JObj [(''threshold'', JNum threshold)]))))"

definition pause_body :: "libs \<Rightarrow> uuid \<Rightarrow> uuid \<Rightarrow> (world, pause_stop, unit) sx" where
  "pause_body L scheduleID runID =
     bind (map_err (\<lambda>e. if e = ErrNoRows then PauseNoop else PauseErr ''get config'')
       (GetScheduleAutoPauseConfig scheduleID)) (\<lambda>cfg.
     bind (map_err (\<lambda>_. PauseErr ''list recent'')
       (ListRecentTerminalScheduledRuns scheduleID (ap_last_enabled_at cfg)
         (autoPauseThreshold (ap_auto_pause_after cfg)))) (\<lambda>statuses.
     if int32 (int (length statuses)) < autoPauseThreshold (ap_auto_pause_after cfg) then throw PauseNoop
     else if list_ex (\<lambda>st. st \<noteq> ''failed'') statuses then throw PauseNoop
     else pause_now L (ap_org_id cfg) scheduleID runID (autoPauseThreshold (ap_auto_pause_after cfg))))"

definition evaluateAutoPause :: "libs \<Rightarrow> uuid \<Rightarrow> uuid \<Rightarrow> string \<Rightarrow> string \<Rightarrow> (world, string, unit) sx" where
  "evaluateAutoPause L scheduleID runID runStatus fireReason =
     (if fireReason \<noteq> ''schedule'' \<or> runStatus \<noteq> ''failed'' then ret ()
      else bind (attempt (in_tx (\<lambda>_. PauseErr ''begin'') (\<lambda>_. PauseErr ''commit'') (pause_body L scheduleID runID)))
        (\<lambda>res. case res of
           Inl (PauseErr step) \<Rightarrow> throw step
         | Inl PauseNoop \<Rightarrow> ret ()
         | Inr u \<Rightarrow> ret u))"

section \<open>POST /internal/runs/{id}/finalize\<close>

record finalize_notification =
  fn_kind :: string
  fn_target :: string
  fn_status :: string
  fn_reason :: "string option"

record finalize_body =
  fb_status :: string
  fb_duration_ms :: "int option"
  fb_tokens_in :: "int option"
  fb_tokens_out :: "int option"
  fb_cost_cents :: "int option"
  fb_error_kind :: "string option"
  fb_error_msg :: "string option"
  fb_writeback_commit_sha :: "string option"
  fb_notifications :: "finalize_notification list"

definition validFinalizeStatuses :: "string list" where
  "validFinalizeStatuses = [''succeeded'', ''partial_failure'', ''failed'']"

definition validNotificationStatus :: "string list" where
  "validNotificationStatus = [''sent'', ''skipped'', ''failed'']"

definition negative :: "int option \<Rightarrow> bool" where
  "negative x \<longleftrightarrow> (case x of Some n \<Rightarrow> n < 0 | None \<Rightarrow> False)"

definition notification_error :: "nat \<Rightarrow> finalize_notification \<Rightarrow> string option" where
  "notification_error i n =
     (let at = ''notifications['' @ itoa (int i) @ ''].''
      in if fn_kind n = [] \<or> 200 < length (fn_kind n) then Some (at @ ''kind: required, max 200 chars'')
         else if fn_target n = [] \<or> 200 < length (fn_target n) then Some (at @ ''target: required, max 200 chars'')
         else if fn_status n \<notin> set validNotificationStatus then Some (at @ ''status: invalid'')
         else case fn_reason n of
           Some rs \<Rightarrow> if 2000 < length rs then Some (at @ ''reason: max 2000 chars'') else None
         | None \<Rightarrow> None)"

primrec notifications_error :: "nat \<Rightarrow> finalize_notification list \<Rightarrow> string option" where
  "notifications_error i [] = None"
| "notifications_error i (n # ns) = (case notification_error i n of
       Some e \<Rightarrow> Some e
     | None \<Rightarrow> notifications_error (Suc i) ns)"

definition finalize_body_error :: "finalize_body \<Rightarrow> string option" where
  "finalize_body_error b =
     (if fb_status b \<notin> set validFinalizeStatuses then Some (''invalid status: '' @ fb_status b)
      else if negative (fb_duration_ms b) then Some ''duration_ms must be non-negative''
      else if negative (fb_tokens_in b) then Some ''tokens_in must be non-negative''
      else if negative (fb_tokens_out b) then Some ''tokens_out must be non-negative''
      else if negative (fb_cost_cents b) then Some ''cost_cents must be non-negative''
      else notifications_error 0 (fb_notifications b))"

definition finalize_params_of :: "finalize_body \<Rightarrow> finalize_params" where
  "finalize_params_of b = \<lparr>fp_status = fb_status b, fp_duration_ms = fb_duration_ms b,
     fp_tokens_in = fb_tokens_in b, fp_tokens_out = fb_tokens_out b, fp_cost_cents = fb_cost_cents b,
     fp_error_kind = fb_error_kind b, fp_error_msg = fb_error_msg b,
     fp_writeback_commit_sha = fb_writeback_commit_sha b\<rparr>"

definition finalize_tx :: "uuid \<Rightarrow> finalize_body \<Rightarrow> run_row handler" where
  "finalize_tx urlRunID b =
     bind (map_err (\<lambda>e. if e = ErrNoRows then HttpError 409 ''run already terminal'' else HttpError 500 ''finalize: '')
       (FinalizeRun urlRunID (finalize_params_of b))) (\<lambda>row.
     bind (for_each (fb_notifications b) (\<lambda>n. map_err (\<lambda>_. HttpError 500 ''insert notification: '')
       (InsertRunNotification (run_id row) (run_org_id row) (fn_kind n) (fn_target n) (fn_status n) (fn_reason n)))) (\<lambda>_.
     ret row))"

text \<open>
  The metric increments. The duration is observed in milliseconds and the cost in cents, which
  the code divides by 1000 and by 100 as floats.
\<close>

definition when_positive :: "int option \<Rightarrow> (int \<Rightarrow> metric) \<Rightarrow> metric list" where
  "when_positive x f = (case x of Some n \<Rightarrow> if 0 < n then [f n] else [] | None \<Rightarrow> [])"

definition finalize_metrics :: "finalize_body \<Rightarrow> metric list" where
  "finalize_metrics b = RunsFinished (fb_status b) #
     (case fb_duration_ms b of Some d \<Rightarrow> [RunDuration (fb_status b) d] | None \<Rightarrow> []) @
     when_positive (fb_tokens_in b) (LLMTokens ''unknown'' ''input'') @
     when_positive (fb_tokens_out b) (LLMTokens ''unknown'' ''output'') @
     when_positive (fb_cost_cents b) (LLMCost ''unknown'')"

definition serve_finalize :: "api_deps \<Rightarrow> string \<Rightarrow> finalize_body option \<Rightarrow> run_claims \<Rightarrow> unit handler" where
  "serve_finalize deps path_id body claims =
     own_run deps claims path_id ''token run_id mismatch'' (\<lambda>urlRunID.
     case body of
       None \<Rightarrow> throw (HttpError 400 ''invalid json: '')
     | Some b \<Rightarrow>
       (case finalize_body_error b of
          Some msg \<Rightarrow> throw (HttpError 400 msg)
        | None \<Rightarrow>
          bind (in_tx (\<lambda>_. HttpError 500 ''begin tx: '') (\<lambda>_. HttpError 500 ''commit: '') (finalize_tx urlRunID b)) (\<lambda>row.
          bind (modify (\<lambda>w. w\<lparr>metrics := metrics w @ finalize_metrics b\<rparr>)) (\<lambda>_.
          bind (attempt (evaluateAutoPause (ad_libs deps) (run_schedule_id row) urlRunID (fb_status b) (run_fire_reason row))) (\<lambda>_.
          ret ())))))"

section \<open>POST /internal/runs/{id}/writeback-push\<close>

record writeback_push_body =
  wp_commit_sha :: string
  wp_repo_root :: string

text \<open>
  The enabled field of a writeback configuration; a document that does not decode leaves the
  zero value.
\<close>

definition writeback_enabled :: "json option \<Rightarrow> bool" where
  "writeback_enabled j = (case j of Some (JObj kvs) \<Rightarrow> map_of kvs ''enabled'' = Some (JBool True) | _ \<Rightarrow> False)"

definition serve_writeback_push :: "api_deps \<Rightarrow> string \<Rightarrow> writeback_push_body option \<Rightarrow> run_claims \<Rightarrow> unit handler" where
  "serve_writeback_push deps path_id body claims =
     own_run deps claims path_id ''token run_id mismatch'' (\<lambda>urlRunID.
     case body of
       None \<Rightarrow> throw (HttpError 400 ''invalid json: '')
     | Some b \<Rightarrow>
       if wp_commit_sha b = [] then throw (HttpError 400 ''commit_sha required'')
       else if wp_repo_root b = [] then throw (HttpError 400 ''repo_root required'')
       else case ad_eval_symlinks deps (ad_temp_dir deps) of
         None \<Rightarrow> throw (HttpError 500 ''internal error resolving temp dir'')
       | Some canonicalTmp \<Rightarrow>
         (case ad_eval_symlinks deps (wp_repo_root b) of
            None \<Rightarrow> throw (HttpError 400 ''repo_root outside allowed prefix'')
          | Some absRoot \<Rightarrow>
            if \<not> has_prefix (absRoot @ ''/'') (canonicalTmp @ ''/'')
            then throw (HttpError 400 ''repo_root outside allowed prefix'')
            else
              bind (map_err (\<lambda>e. if e = ErrNoRows then HttpError 404 ''run not found'' else HttpError 500 ''load run: '')
                (GetRunWritebackConfig urlRunID)) (\<lambda>cfg.
              if \<not> writeback_enabled (wc_writeback_json cfg)
              then throw (HttpError 400 ''writeback not enabled for this run'')
              else case ad_installations deps (wc_github_app_install_id cfg) of
                Inl _ \<Rightarrow> throw (HttpError 502 ''could not authenticate with GitHub'')
              | Inr tok \<Rightarrow>
                if ad_push_to_url deps absRoot (token_url tok (wc_owner cfg) (wc_repo_name cfg)) then ret ()
                else throw (HttpError 502 ''push failed''))))"

section \<open>POST /internal/schedules/{id}/run-now\<close>

text \<open>
  The remote address as net.SplitHostPort and net.ParseIP give it: \<open>None\<close> when either fails,
  else its 4 or 16 bytes. An IPv4 address mapped into IPv6 counts as IPv4.
\<close>

definition to4 :: "nat list \<Rightarrow> nat list option" where
  "to4 ip = (if length ip = 4 then Some ip
     else if length ip = 16 \<and> take 10 ip = replicate 10 0 \<and> take 2 (drop 10 ip) = [255, 255] then Some (drop 12 ip)
     else None)"

definition IsLoopback :: "nat list \<Rightarrow> bool" where
  "IsLoopback ip = (case to4 ip of
       Some v4 \<Rightarrow> hd v4 = 127
     | None \<Rightarrow> ip = replicate 15 0 @ [1])"

definition isLoopbackRequest :: "nat list option \<Rightarrow> bool" where
  "isLoopbackRequest remote = (case remote of None \<Rightarrow> False | Some ip \<Rightarrow> IsLoopback ip)"

text \<open>The body is absent, or carries an optional actor; \<open>None\<close> is one that does not decode.\<close>

definition manual_params :: "sched_row \<Rightarrow> string \<Rightarrow> string option \<Rightarrow> string \<Rightarrow> insert_run_params" where
  "manual_params s sha actor placeholder = \<lparr>ir_org_id = sch_org_id s, ir_schedule_id = sch_id s,
     ir_skill_sha = sha, ir_fire_time = None, ir_fire_reason = ''manual'', ir_actor = actor,
     ir_runner_token_hash = ''pending:'' @ placeholder\<rparr>"

definition serve_run_now ::
  "api_deps \<Rightarrow> nat list option \<Rightarrow> string \<Rightarrow> string option option \<Rightarrow> string handler" where
  "serve_run_now deps remote path_id body =
     (if \<not> isLoopbackRequest remote then throw (HttpError 403 ''run-now is loopback-only'')
      else case uuid_parse (ad_libs deps) path_id of
        None \<Rightarrow> throw (HttpError 400 ''invalid schedule id'')
      | Some scheduleID \<Rightarrow>
        (case body of
           None \<Rightarrow> throw (HttpError 400 ''invalid json: '')
         | Some actorOpt \<Rightarrow>
           bind (map_err (\<lambda>e. if e = ErrNoRows then HttpError 404 ''schedule not found'' else HttpError 500 ''load schedule: '')
             (GetScheduleForTrigger scheduleID)) (\<lambda>(s, sha).
           bind (gets (\<lambda>w. rand_hex w (stmt_ctr w))) (\<lambda>rnd.
           case rnd of
             None \<Rightarrow> throw (HttpError 500 ''gen placeholder: '')
           | Some placeholder \<Rightarrow>
             bind (map_err (\<lambda>_. HttpError 500 ''insert run: '') (InsertRun (manual_params s sha actorOpt placeholder))) (\<lambda>(run, inserted).
             let actor = (case actorOpt of Some a \<Rightarrow> if a \<noteq> [] then a else ''system'' | None \<Rightarrow> ''system'');
                 runID = uuid_string (ad_libs deps) (run_id run) in
             bind (attempt (audit_Log \<lparr>ae_org_id = sch_org_id s, ae_actor = actor, ae_action = ''schedule.run_now'',
               ae_target_kind = ''schedule'', ae_target_id = Some scheduleID,
               ae_detail = Some [(''run_id'', JStr runID)]\<rparr>)) (\<lambda>_.
             ret runID))))))"

section \<open>Routes\<close>

datatype api_request =
    GetContext headers string
  | GetSecrets headers string
  | GetCloneURL headers string
  | PostEvents headers string "run_event_in list option"
  | PostFinalize headers string "finalize_body option"
  | PostWritebackPush headers string "writeback_push_body option"
  | PostRunNow "nat list option" string "string option option"

datatype api_response =
    ContextResponse run_context
  | SecretsResponse "(string \<times> string) list"
  | URLResponse string
  | NoContent
  | RunIDResponse string

definition respond :: "('a \<Rightarrow> api_response) \<Rightarrow> 'a handler \<Rightarrow> api_response handler" where
  "respond f m = bind m (\<lambda>a. ret (f a))"

fun RegisterRoutes :: "api_deps \<Rightarrow> api_request \<Rightarrow> api_response handler" where
  "RegisterRoutes deps (GetContext h i) =
     requireBearerOrAPIKey deps h (\<lambda>c. respond ContextResponse (serve_context deps i c))"
| "RegisterRoutes deps (GetSecrets h names) =
     requireBearerOrAPIKey deps h (\<lambda>c. respond SecretsResponse (serve_secrets deps names c))"
| "RegisterRoutes deps (GetCloneURL h i) =
     requireBearerOrAPIKey deps h (\<lambda>c. respond URLResponse (serve_clone_url deps i c))"
| "RegisterRoutes deps (PostEvents h i b) =
     requireBearerOrAPIKey deps h (\<lambda>c. respond (\<lambda>_. NoContent) (serve_events deps i b c))"
| "RegisterRoutes deps (PostFinalize h i b) =
     requireBearerOrAPIKey deps h (\<lambda>c. respond (\<lambda>_. NoContent) (serve_finalize deps i b c))"
| "RegisterRoutes deps (PostWritebackPush h i b) =
     requireBearerOrAPIKey deps h (\<lambda>c. respond (\<lambda>_. NoContent) (serve_writeback_push deps i b c))"
| "RegisterRoutes deps (PostRunNow remote i b) = respond RunIDResponse (serve_run_now deps remote i b)"

end
