(* ===== verification/Api_Keeps.thy ===== *)
theory Api_Keeps
  imports Api Finality
begin

text \<open>
  Every relation that the statements keep, the handlers of the internal API keep, whatever the
  request and whichever statements fail. The store invariant and the finality of finished runs
  are the two instances.
\<close>

lemma valid_finalize_terminal: "finalize_body_error b = None \<Longrightarrow> terminal_status (fb_status b)"
  by (auto simp: finalize_body_error_def validFinalizeStatuses_def terminal_status_def split: if_splits)

context store_rel
begin

lemma audit_Log_keeps: "keeps R (audit_Log e)"
  unfolding audit_Log_def by (rule InsertAuditLog_R)

lemma logSecretEvent_keeps: "keeps R (logSecretEvent i l t p)"
  unfolding logSecretEvent_def by (intro store_rules)

lemma own_run_keeps: "(\<And>i. keeps R (m i)) \<Longrightarrow> keeps R (own_run deps claims path msg m)"
  unfolding own_run_def by (auto intro!: store_rules split: option.split)

lemma serve_context_keeps: "keeps R (serve_context deps i c)"
  unfolding serve_context_def by (intro own_run_keeps store_rules)

lemma fetch_secrets_keeps: "keeps R (fetch_secrets deps c names out)"
  by (induction names arbitrary: out)
    (auto intro!: store_rules logSecretEvent_keeps split: sum.split)

lemma serve_secrets_keeps: "keeps R (serve_secrets deps names c)"
  unfolding serve_secrets_def Let_def by (auto intro!: store_rules fetch_secrets_keeps)

lemma serve_clone_url_keeps: "keeps R (serve_clone_url deps i c)"
  unfolding serve_clone_url_def by (auto intro!: store_rules split: option.split sum.split)

lemma insert_event_keeps: "keeps R (insert_event i ev)"
  unfolding insert_event_def Let_def by (auto intro!: store_rules)

lemma serve_events_keeps: "keeps R (serve_events deps i b c)"
  unfolding serve_events_def
  by (auto intro!: own_run_keeps store_rules insert_event_keeps split: option.split)

lemma pause_body_keeps: "keeps R (pause_body L s i)"
  unfolding pause_body_def pause_now_def by (auto intro!: store_rules audit_Log_keeps)

lemma evaluateAutoPause_keeps: "keeps R (evaluateAutoPause L s i st fr)"
  unfolding evaluateAutoPause_def
  by (auto intro!: store_rules pause_body_keeps split: sum.split pause_stop.split)

lemma finalize_tx_keeps: "terminal_status (fb_status b) \<Longrightarrow> keeps R (finalize_tx i b)"
  unfolding finalize_tx_def by (intro store_rules) (simp add: finalize_params_of_def)

lemma serve_finalize_keeps: "keeps R (serve_finalize deps i b c)"
  unfolding serve_finalize_def
  by (auto intro!: own_run_keeps store_rules finalize_tx_keeps evaluateAutoPause_keeps
      dest: valid_finalize_terminal split: option.split)

lemma serve_writeback_push_keeps: "keeps R (serve_writeback_push deps i b c)"
  unfolding serve_writeback_push_def
  by (auto intro!: own_run_keeps store_rules split: option.split sum.split)

lemma serve_run_now_keeps: "keeps R (serve_run_now deps remote i b)"
  unfolding serve_run_now_def Let_def
  by (auto intro!: store_rules audit_Log_keeps split: option.split prod.split)

lemma requireBearer_keeps: "(\<And>c. keeps R (m c)) \<Longrightarrow> keeps R (requireBearerOrAPIKey deps h m)"
  unfolding requireBearerOrAPIKey_def requireBearer_def Let_def
  by (auto intro!: store_rules split: sum.split)

lemma respond_keeps: "keeps R m \<Longrightarrow> keeps R (respond f m)"
  unfolding respond_def by (intro store_rules)

lemma RegisterRoutes_keeps: "keeps R (RegisterRoutes deps req)"
  by (cases req) (auto intro!: requireBearer_keeps respond_keeps serve_context_keeps serve_secrets_keeps
      serve_clone_url_keeps serve_events_keeps serve_finalize_keeps serve_writeback_push_keeps
      serve_run_now_keeps)

end

end
