(* ===== verification/Api_Props.thy ===== *)
theory Api_Props
  imports Api_Keeps Scheduler_Props
begin

text \<open>
  What the internal API guarantees: which token opens which door, that a request either takes
  effect completely or not at all, and when a schedule is paused.
\<close>

section \<open>Authentication\<close>

lemma GetRun_Inr:
  "GetRun i w = (Inr r, w') \<Longrightarrow> r \<in> set (runs w) \<and> run_id r = i \<and> w' = w\<lparr>stmt_ctr := Suc (stmt_ctr w)\<rparr>"
  by (auto simp: GetRun_def stmt_def find_run_def dest: find_Some_in split: if_splits option.splits)

text \<open>A token that is current for a run: it verifies, and the run's row holds its hash.\<close>

definition current_token :: "api_deps \<Rightarrow> world \<Rightarrow> string \<Rightarrow> run_claims \<Rightarrow> bool" where
  "current_token deps w auth c \<longleftrightarrow> (\<exists>tok r. auth = ''Bearer '' @ tok \<and>
     Verify (ad_libs deps) (ad_signer_key deps) (clock_at w (stmt_ctr w)) tok = Inr c \<and>
     r \<in> set (runs w) \<and> run_id r = cl_run_id c \<and> run_runner_token_hash r = HashToken (ad_libs deps) tok)"

lemma requireBearer_Inr:
  assumes "requireBearer deps auth m w = (Inr a, w')"
  shows "\<exists>c. current_token deps w auth c \<and> m c (w\<lparr>stmt_ctr := Suc (stmt_ctr w)\<rparr>) = (Inr a, w')"
proof -
  have pre: "has_prefix auth ''Bearer ''"
    using assms by (auto simp: requireBearer_def split: if_splits)
  define tok where "tok = trim_prefix auth ''Bearer ''"
  have tok: "auth = ''Bearer '' @ tok"
    using pre by (auto simp: tok_def has_prefix_iff trim_prefix_def)
  obtain c where c: "Verify (ad_libs deps) (ad_signer_key deps) (clock_at w (stmt_ctr w)) tok = Inr c"
    using assms pre by (auto simp: requireBearer_def tok_def [symmetric] split: sum.splits)
  let ?g = "map_err (\<lambda>e. if e = ErrNoRows then HttpError 401 ''unknown run'' else HttpError 500 ''run lookup: '')
      (GetRun (cl_run_id c))"
  have "bind ?g (\<lambda>run. if run_runner_token_hash run \<noteq> HashToken (ad_libs deps) tok
      then throw (HttpError 401 ''token hash mismatch'') else m c) w = (Inr a, w')"
    using assms c pre by (simp add: requireBearer_def tok_def [symmetric])
  then obtain r w1 where g: "?g w = (Inr r, w1)"
    and k: "(if run_runner_token_hash r \<noteq> HashToken (ad_libs deps) tok
      then throw (HttpError 401 ''token hash mismatch'') else m c) w1 = (Inr a, w')"
    by (auto simp: bind_eq_Inr_iff)
  have "GetRun (cl_run_id c) w = (Inr r, w1)"
    using g by (auto simp: map_err_def split: prod.splits sum.splits)
  from GetRun_Inr [OF this] k c tok show ?thesis
    unfolding current_token_def by (auto split: if_splits)
qed

lemma api_key_Inr:
  assumes "requireBearerOrAPIKey deps h m w = (Inr a, w')"
  shows "m zero_claims w = (Inr a, w') \<or>
    (\<exists>c. current_token deps w (hd_authorization h) c \<and> m c (w\<lparr>stmt_ctr := Suc (stmt_ctr w)\<rparr>) = (Inr a, w'))"
  using assms requireBearer_Inr [of deps "hd_authorization h" m w a w']
  by (auto simp: requireBearerOrAPIKey_def split: if_splits)

section \<open>Secrets\<close>

lemma fetch_secrets_scope:
  assumes "fetch_secrets deps c names out w = (Inr out', w')" "fst ` set out \<subseteq> set (cl_secret_refs c)"
  shows "fst ` set out' \<subseteq> set (cl_secret_refs c) \<and> set names \<subseteq> set (cl_secret_refs c)"
  using assms
proof (induction names arbitrary: out w)
  case Nil
  then show ?case by simp
next
  case (Cons n names)
  then have n: "n \<in> set (cl_secret_refs c)"
    by (auto simp: bind_eq_Inr_iff split: if_splits)
  then obtain v w1 where "fetch_secrets deps c names (AList.update n v out) w1 = (Inr out', w')"
    using Cons.prems(1) by (auto simp: bind_eq_Inr_iff split: sum.splits)
  moreover have "fst ` set (AList.update n v out) \<subseteq> set (cl_secret_refs c)"
    using n Cons.prems(2) dom_update [of n v out] by (simp add: dom_map_of_conv_image_fst [symmetric])
  ultimately show ?case using Cons.IH n by auto
qed

lemma serve_secrets_scope:
  assumes "serve_secrets deps names c w = (Inr out, w')"
  shows "fst ` set out \<subseteq> set (cl_secret_refs c) \<and> cl_secret_refs c \<noteq> []"
proof -
  let ?ns = "map TrimSpace (split_on (CHR '','') names)"
  have "fetch_secrets deps c ?ns [] w = (Inr out, w')"
    using assms by (auto simp: serve_secrets_def Let_def split: if_splits)
  then have "fst ` set out \<subseteq> set (cl_secret_refs c)" "set ?ns \<subseteq> set (cl_secret_refs c)"
    using fetch_secrets_scope [of deps c ?ns "[]" w out w'] by simp_all
  moreover have "set ?ns \<noteq> {}" by simp
  ultimately show ?thesis by auto
qed

section \<open>Transactions\<close>

lemma in_tx_Inl:
  assumes "in_tx be ce m w = (Inl e, w')"
  shows "runs w' = runs w \<and> run_events w' = run_events w \<and> notifications w' = notifications w \<and>
    schedules w' = schedules w \<and> audit_log w' = audit_log w"
  using assms
  by (auto simp: in_tx_def rollback_to_def map_err_def pool_begin_def stmt_def split: prod.splits sum.splits if_splits)

lemma in_tx_Inr:
  assumes "in_tx be ce m w = (Inr a, w')"
  obtains w1 w2 where "m w1 = (Inr a, w2)" "runs w1 = runs w" "run_events w1 = run_events w"
    "notifications w1 = notifications w" "schedules w1 = schedules w" "audit_log w1 = audit_log w"
    "fault w1 = fault w" "metrics w1 = metrics w"
    "runs w' = runs w2" "run_events w' = run_events w2" "notifications w' = notifications w2"
    "schedules w' = schedules w2" "audit_log w' = audit_log w2" "metrics w' = metrics w2" "fault w' = fault w2"
proof -
  let ?w1 = "snd (pool_begin w)"
  have b: "pool_begin w = (Inr (), ?w1)"
    using assms by (auto simp: in_tx_def pool_begin_def stmt_def map_err_def split: if_splits)
  obtain w2 where m: "m ?w1 = (Inr a, w2)" and c: "tx_commit w2 = (Inr (), w')"
    using assms b by (auto simp: in_tx_def map_err_def tx_commit_def stmt_def split: prod.splits sum.splits if_splits)
  show thesis
    using b c by (intro that [OF m]) (auto simp: pool_begin_def tx_commit_def stmt_def split: if_splits)
qed

section \<open>Finalize\<close>

definition notif_rows :: "run_row \<Rightarrow> finalize_notification list \<Rightarrow> notif_row list \<Rightarrow> bool" where
  "notif_rows r ns rows \<longleftrightarrow>
     map (\<lambda>m. (nf_run_id m, nf_org_id m, nf_kind m, nf_target m, nf_status m, nf_reason m)) rows =
     map (\<lambda>n. (run_id r, run_org_id r, fn_kind n, fn_target n, fn_status n, fn_reason n)) ns"

lemma for_each_notifications:
  assumes "for_each ns (\<lambda>n. map_err f (InsertRunNotification (run_id r) (run_org_id r) (fn_kind n) (fn_target n)
      (fn_status n) (fn_reason n))) w = (Inr (), w')"
  shows "runs w' = runs w \<and> (\<exists>rows. notifications w' = notifications w @ rows \<and> notif_rows r ns rows)"
  using assms
proof (induction ns arbitrary: w)
  case Nil
  then show ?case by (simp add: notif_rows_def)
next
  case (Cons n ns)
  then obtain w1 where i: "InsertRunNotification (run_id r) (run_org_id r) (fn_kind n) (fn_target n) (fn_status n) (fn_reason n) w = (Inr (), w1)"
    and k: "for_each ns (\<lambda>n. map_err f (InsertRunNotification (run_id r) (run_org_id r) (fn_kind n) (fn_target n)
      (fn_status n) (fn_reason n))) w1 = (Inr (), w')"
    by (auto simp: bind_eq_Inr_iff map_err_def split: prod.splits sum.splits)
  from i have w1: "runs w1 = runs w" "\<exists>m. notifications w1 = notifications w @ [m] \<and> notif_rows r [n] [m]"
    by (auto simp: InsertRunNotification_def stmt_def notif_rows_def split: if_splits)
  then obtain m where m: "notifications w1 = notifications w @ [m]" "notif_rows r [n] [m]" by blast
  from Cons.IH [OF k] obtain rows where "runs w' = runs w1" "notifications w' = notifications w1 @ rows" "notif_rows r ns rows"
    by blast
  then show ?case using w1(1) m by (intro conjI exI [of _ "m # rows"]) (simp_all add: notif_rows_def)
qed

lemma FinalizeRun_Inr:
  assumes "FinalizeRun i p w = (Inr row, w')"
  shows "\<exists>r t. r \<in> set (runs w) \<and> run_id r = i \<and> \<not> terminal_status (run_status r) \<and> row = finalized t p r \<and>
    runs w' = update_where (\<lambda>q. run_id q = i \<and> \<not> terminal_status (run_status q)) (finalized t p) (runs w) \<and>
    notifications w' = notifications w \<and> metrics w' = metrics w"
proof -
  let ?w = "w\<lparr>stmt_ctr := Suc (stmt_ctr w)\<rparr>"
  obtain r where r: "find (\<lambda>r. run_id r = i) (runs w) = Some r" "\<not> terminal_status (run_status r)"
    "row = finalized (now_at ?w) p r"
    "w' = ?w\<lparr>runs := update_where (\<lambda>r. run_id r = i \<and> \<not> terminal_status (run_status r)) (finalized (now_at ?w) p) (runs w)\<rparr>"
    using assms
    by (auto simp: FinalizeRun_def stmt_def update_run_def find_run_def split: if_splits option.splits)
  have "r \<in> set (runs w)" "run_id r = i" using find_Some_in [OF r(1)] by auto
  then show ?thesis using r(2-) by (intro exI [of _ r] exI [of _ "now_at ?w"]) simp
qed

text \<open>The evaluation of the auto-pause rule leaves the runs and the notifications alone.\<close>

definition same_runs :: "world \<Rightarrow> world \<Rightarrow> bool" where
  "same_runs w w' \<longleftrightarrow> runs w' = runs w \<and> notifications w' = notifications w \<and> metrics w' = metrics w"

interpretation sr: tx_rel same_runs
  by unfold_locales (auto simp: same_runs_def rollback_to_def)

lemma same_runs_stmts:
  "keeps same_runs (AutoPauseSchedule i rs)" "keeps same_runs (InsertAuditLog org ac act tk ti d)"
  "keeps same_runs (InsertRunEvent i l ty pl)"
  by (auto simp: keeps_def same_runs_def AutoPauseSchedule_def InsertAuditLog_def InsertRunEvent_def stmt_def)

lemma evaluateAutoPause_frame: "same_runs w (snd (evaluateAutoPause L s i st fr w))"
proof -
  have "keeps same_runs (pause_body L s i)"
    unfolding pause_body_def pause_now_def audit_Log_def
    by (auto intro!: sr.keeps_rules sr.read_rules same_runs_stmts)
  then have "keeps same_runs (evaluateAutoPause L s i st fr)"
    unfolding evaluateAutoPause_def
    by (auto intro!: sr.keeps_rules sr.in_tx_keeps split: sum.split pause_stop.split)
  then show ?thesis by (rule keepsD)
qed

lemma finalize_tx_Inr:
  assumes "finalize_tx i b w = (Inr row, w')"
  shows "\<exists>r t rows. r \<in> set (runs w) \<and> run_id r = i \<and> \<not> terminal_status (run_status r) \<and>
    row = finalized t (finalize_params_of b) r \<and>
    runs w' = update_where (\<lambda>q. run_id q = i \<and> \<not> terminal_status (run_status q)) (finalized t (finalize_params_of b)) (runs w) \<and>
    notifications w' = notifications w @ rows \<and> notif_rows r (fb_notifications b) rows"
proof -
  from assms obtain w1 where f: "FinalizeRun i (finalize_params_of b) w = (Inr row, w1)"
    and n: "for_each (fb_notifications b) (\<lambda>n. map_err (\<lambda>_. HttpError 500 ''insert notification: '')
       (InsertRunNotification (run_id row) (run_org_id row) (fn_kind n) (fn_target n) (fn_status n) (fn_reason n))) w1 = (Inr (), w')"
    by (auto simp: finalize_tx_def bind_eq_Inr_iff map_err_def split: prod.splits sum.splits)
  from FinalizeRun_Inr [OF f] obtain r t where r: "r \<in> set (runs w)" "run_id r = i" "\<not> terminal_status (run_status r)"
    "row = finalized t (finalize_params_of b) r"
    "runs w1 = update_where (\<lambda>q. run_id q = i \<and> \<not> terminal_status (run_status q)) (finalized t (finalize_params_of b)) (runs w)"
    "notifications w1 = notifications w" by blast
  from for_each_notifications [OF n] obtain rows where "runs w' = runs w1"
    "notifications w' = notifications w1 @ rows" "notif_rows row (fb_notifications b) rows" by blast
  moreover have "run_id row = run_id r" "run_org_id row = run_org_id r" using r(4) by (simp_all add: finalized_def)
  ultimately show ?thesis using r by (intro exI [of _ r] exI [of _ t] exI [of _ rows]) (simp add: notif_rows_def)
qed

definition same_metrics :: "world \<Rightarrow> world \<Rightarrow> bool" where
  "same_metrics w w' \<longleftrightarrow> metrics w' = metrics w"

interpretation met: tx_rel same_metrics
  by unfold_locales (auto simp: same_metrics_def rollback_to_def)

lemma finalize_tx_metrics: "keeps same_metrics (finalize_tx i b)"
proof -
  have "keeps same_metrics (FinalizeRun i p)" "keeps same_metrics (InsertRunNotification i org k tg st rs)" for i p org k tg st rs
    by (auto simp: keeps_def same_metrics_def FinalizeRun_def InsertRunNotification_def stmt_def update_run_def
        split: option.split)
  then show ?thesis unfolding finalize_tx_def by (intro met.keeps_rules)
qed

lemma serve_finalize_cases:
  assumes "serve_finalize deps p body c w = (res, w')"
  shows "(case res of
     Inl e \<Rightarrow> runs w' = runs w \<and> notifications w' = notifications w \<and> metrics w' = metrics w
   | Inr _ \<Rightarrow> \<exists>b r t rows. body = Some b \<and> finalize_body_error b = None \<and>
       uuid_parse (ad_libs deps) p = Some (cl_run_id c) \<and>
       r \<in> set (runs w) \<and> run_id r = cl_run_id c \<and> \<not> terminal_status (run_status r) \<and>
       runs w' = update_where (\<lambda>q. run_id q = cl_run_id c \<and> \<not> terminal_status (run_status q))
         (finalized t (finalize_params_of b)) (runs w) \<and>
       notifications w' = notifications w @ rows \<and> notif_rows r (fb_notifications b) rows)"
proof (cases "\<exists>b. body = Some b \<and> finalize_body_error b = None \<and> uuid_parse (ad_libs deps) p = Some (cl_run_id c)")
  case False
  then show ?thesis using assms
    by (auto simp: serve_finalize_def own_run_def split: option.splits if_splits)
next
  case True
  then obtain b where b: "body = Some b" "finalize_body_error b = None" "uuid_parse (ad_libs deps) p = Some (cl_run_id c)" by blast
  let ?tx = "in_tx (\<lambda>_. HttpError 500 ''begin tx: '') (\<lambda>_. HttpError 500 ''commit: '') (finalize_tx (cl_run_id c) b)"
  obtain r1 w1 where tx: "?tx w = (r1, w1)" by (cases "?tx w")
  show ?thesis
  proof (cases r1)
    case (Inl e)
    then have "res = Inl e" "w' = w1" using assms b tx by (simp_all add: serve_finalize_def own_run_def)
    moreover have "same_metrics w (snd (?tx w))"
      by (rule keepsD [OF met.in_tx_keeps [OF finalize_tx_metrics]])
    ultimately show ?thesis using in_tx_Inl [OF tx [unfolded Inl]] tx by (auto simp: same_metrics_def)
  next
    case (Inr row)
    let ?w2 = "w1\<lparr>metrics := metrics w1 @ finalize_metrics b\<rparr>"
    have "w' = snd (evaluateAutoPause (ad_libs deps) (run_schedule_id row) (cl_run_id c) (fb_status b) (run_fire_reason row) ?w2)"
      and ok: "res = Inr ()"
      using assms b tx Inr by (simp_all add: serve_finalize_def own_run_def attempt_apply)
    then have "same_runs ?w2 w'" using evaluateAutoPause_frame by simp
    then have fr: "runs w' = runs w1" "notifications w' = notifications w1" by (simp_all add: same_runs_def)
    from in_tx_Inr [OF tx [unfolded Inr]] obtain v1 v2 where v: "finalize_tx (cl_run_id c) b v1 = (Inr row, v2)"
      "runs v1 = runs w" "notifications v1 = notifications w" "runs w1 = runs v2" "notifications w1 = notifications v2"
      by metis
    from finalize_tx_Inr [OF v(1)] show ?thesis using v(2-) fr b ok by auto
  qed
qed

section \<open>Event batches\<close>

lemma insert_event_Inr:
  assumes "insert_event i ev w = (Inr u, w')"
  shows "\<exists>row. run_events w' = run_events w @ [row] \<and> ev_run_id row = i \<and>
    ev_level row = (if ei_level ev = [] then ''info'' else ei_level ev) \<and> ev_event_type row = ei_type ev \<and>
    valid_level (ev_level row)"
  using assms
  by (auto simp: insert_event_def Let_def InsertRunEvent_def stmt_def map_err_def split: if_splits prod.splits sum.splits)

lemma insert_events_rows:
  assumes "for_each evs (insert_event i) w = (Inr u, w')"
  shows "\<exists>rows. run_events w' = run_events w @ rows \<and>
    map (\<lambda>e. (ev_run_id e, ev_level e, ev_event_type e)) rows =
      map (\<lambda>e. (i, if ei_level e = [] then ''info'' else ei_level e, ei_type e)) evs \<and>
    list_all (\<lambda>e. valid_level (ev_level e)) rows"
  using assms
proof (induction evs arbitrary: w)
  case Nil
  then show ?case by simp
next
  case (Cons ev evs)
  then obtain v w1 where i: "insert_event i ev w = (Inr v, w1)" and k: "for_each evs (insert_event i) w1 = (Inr u, w')"
    by (auto simp: bind_eq_Inr_iff)
  from insert_event_Inr [OF i] obtain row where r: "run_events w1 = run_events w @ [row]" "ev_run_id row = i"
    "ev_level row = (if ei_level ev = [] then ''info'' else ei_level ev)" "ev_event_type row = ei_type ev" "valid_level (ev_level row)"
    by blast
  from Cons.IH [OF k] obtain rows where "run_events w' = run_events w1 @ rows"
    "map (\<lambda>e. (ev_run_id e, ev_level e, ev_event_type e)) rows =
      map (\<lambda>e. (i, if ei_level e = [] then ''info'' else ei_level e, ei_type e)) evs"
    "list_all (\<lambda>e. valid_level (ev_level e)) rows" by blast
  then show ?case using r by (intro exI [of _ "row # rows"]) simp
qed

section \<open>Manual trigger\<close>

lemma InsertRun_manual:
  assumes "InsertRun (manual_params s sha actor ph) w = (Inr (run, b), w')"
  shows "runs w' = runs w @ [run] \<and> run_status run = ''pending'' \<and> run_fire_reason run = ''manual'' \<and>
    run_fire_time run = None \<and> run_schedule_id run = sch_id s"
proof -
  have "find (fire_conflict (manual_params s sha actor ph)) rs = None" for rs
    by (auto simp: find_None_iff fire_conflict_def manual_params_def)
  then show ?thesis using assms
    by (auto simp: InsertRun_def stmt_def new_run_def manual_params_def Let_def split: if_splits)
qed

lemma run_now_Inr:
  assumes "serve_run_now deps remote p body w = (Inr rid, w')"
  shows "\<exists>ip r. remote = Some ip \<and> IsLoopback ip \<and> runs w' = runs w @ [r] \<and> run_status r = ''pending'' \<and>
    run_fire_reason r = ''manual'' \<and> run_fire_time r = None \<and>
    uuid_parse (ad_libs deps) p = Some (run_schedule_id r) \<and> rid = uuid_string (ad_libs deps) (run_id r)"
proof -
  obtain ip where ip: "remote = Some ip" "IsLoopback ip"
    using assms by (auto simp: serve_run_now_def isLoopbackRequest_def split: if_splits option.splits)
  obtain sid actor where p: "uuid_parse (ad_libs deps) p = Some sid" "body = Some actor"
    using assms by (auto simp: serve_run_now_def split: if_splits option.splits)
  obtain s sha w1 ph run b w2 where g: "GetScheduleForTrigger sid w = (Inr (s, sha), w1)"
    and i: "InsertRun (manual_params s sha actor ph) w1 = (Inr (run, b), w2)"
    and rid: "rid = uuid_string (ad_libs deps) (run_id run)" and w': "runs w' = runs w2"
    using assms ip p
    by (auto simp: serve_run_now_def isLoopbackRequest_def bind_eq_Inr_iff attempt_apply audit_Log_def Let_def
        dest!: map_err_eq_Inr split: option.splits)
  have "runs w1 = runs w" "sch_id s = sid"
    using g by (auto simp: GetScheduleForTrigger_def stmt_def find_schedule_def bind_eq_Some_conv dest: find_Some_in
        split: if_splits option.splits)
  then show ?thesis using InsertRun_manual [OF i] ip p rid w' by auto
qed

section \<open>Auto-pause\<close>

abbreviation pause_threshold :: "sched_row \<Rightarrow> int" where
  "pause_threshold s \<equiv> autoPauseThreshold (sch_auto_pause_after s)"

text \<open>The finished scheduled runs of a schedule since it was last enabled, newest first.\<close>

definition finished_since_enabled :: "world \<Rightarrow> sched_row \<Rightarrow> run_row list" where
  "finished_since_enabled w s = rev (sort_key run_created_at (sort_key run_id
     (filter (\<lambda>r. run_schedule_id r = sch_id s \<and> run_fire_reason r = ''schedule'' \<and>
        terminal_status (run_status r) \<and> sch_last_enabled_at s \<le> run_created_at r) (runs w))))"

definition failing_streak :: "world \<Rightarrow> sched_row \<Rightarrow> bool" where
  "failing_streak w s \<longleftrightarrow> (let n = nat (pause_threshold s); rs = finished_since_enabled w s in
     n \<le> length rs \<and> (\<forall>r \<in> set (take n rs). run_status r = ''failed''))"

definition paused_row :: "time \<Rightarrow> sched_row \<Rightarrow> sched_row" where
  "paused_row t s = s\<lparr>sch_enabled := False, sch_auto_paused_at := Some t,
     sch_auto_pause_reason := Some (itoa (pause_threshold s) @ '' consecutive failed runs''), sch_updated_at := t\<rparr>"

lemma recent_statuses:
  assumes "calm w"
  shows "ListRecentTerminalScheduledRuns (sch_id s) (sch_last_enabled_at s) n w =
    (Inr (map run_status (take (nat n) (finished_since_enabled w s))), bump w)"
  using assms by (simp add: ListRecentTerminalScheduledRuns_def finished_since_enabled_def)

lemma streak_test:
  assumes "int32_range (pause_threshold s)"
  shows "(int32 (int (length (take (nat (pause_threshold s)) (finished_since_enabled w s)))) < pause_threshold s \<or>
      list_ex (\<lambda>st. st \<noteq> ''failed'') (map run_status (take (nat (pause_threshold s)) (finished_since_enabled w s))))
    \<longleftrightarrow> \<not> failing_streak w s"
proof -
  let ?n = "pause_threshold s" and ?rs = "finished_since_enabled w s"
  have pos: "0 < ?n" by (simp add: autoPauseThreshold_def DefaultAutoPauseAfter_def split: option.split)
  have "int32_range (int (length (take (nat ?n) ?rs)))"
    using assms pos by (auto simp: int32_range_def)
  then have i: "int32 (int (length (take (nat ?n) ?rs))) = int (min (length ?rs) (nat ?n))"
    by (simp add: int32_id)
  have "int (min (length ?rs) (nat ?n)) < ?n \<longleftrightarrow> \<not> nat ?n \<le> length ?rs"
    using pos by linarith
  then show ?thesis by (simp only: i) (auto simp: failing_streak_def Let_def list_ex_iff)
qed

lemma pause_now_calm:
  assumes c: "calm w" and s: "s \<in> set (schedules w)" "sch_enabled s" and r: "find_run w i \<noteq> None"
    and uniq: "\<And>q. q \<in> set (schedules w) \<Longrightarrow> sch_id q = sch_id s \<Longrightarrow> q = s"
  shows "\<exists>w2 t e. pause_now L (sch_org_id s) (sch_id s) i (pause_threshold s) w = (Inr (), w2) \<and> calm w2 \<and>
    schedules w2 = update_where (\<lambda>q. sch_id q = sch_id s) (paused_row t) (schedules w) \<and>
    audit_log w2 = audit_log w @ [e] \<and> au_action e = ''schedule.auto_paused'' \<and> au_target_id e = Some (sch_id s)"
proof -
  let ?n = "pause_threshold s" and ?t = "now_at (bump w)"
  let ?f = "\<lambda>q. q\<lparr>sch_enabled := False, sch_auto_paused_at := Some ?t,
      sch_auto_pause_reason := Some (itoa ?n @ '' consecutive failed runs''), sch_updated_at := ?t\<rparr>"
  let ?w3 = "(bump w)\<lparr>schedules := update_where (\<lambda>q. sch_id q = sch_id s \<and> sch_enabled q) ?f (schedules w)\<rparr>"
  have "s \<in> set (filter (\<lambda>q. sch_id q = sch_id s \<and> sch_enabled q) (schedules w))" using s by simp
  then have ne: "length (filter (\<lambda>q. sch_id q = sch_id s \<and> sch_enabled q) (schedules w)) \<noteq> 0"
    using length_pos_if_in_set by force
  have upd: "AutoPauseSchedule (sch_id s) (Some (itoa ?n @ '' consecutive failed runs'')) w =
      (Inr (length (filter (\<lambda>q. sch_id q = sch_id s \<and> sch_enabled q) (schedules w))), ?w3)"
    using c by (simp add: AutoPauseSchedule_def)
  have sch: "schedules ?w3 = update_where (\<lambda>q. sch_id q = sch_id s) (paused_row ?t) (schedules w)"
    using uniq s(2) by (auto simp: update_where_def paused_row_def)
  obtain w4 e where au: "audit_Log \<lparr>ae_org_id = sch_org_id s, ae_actor = ''system'',
         ae_action = ''schedule.auto_paused'', ae_target_kind = ''schedule'', ae_target_id = Some (sch_id s),
         ae_detail = Some [(''threshold'', JNum ?n), (''last_run_id'', JStr (uuid_string L i))]\<rparr> ?w3 = (Inr (), w4)"
    and w4: "calm w4" "schedules w4 = schedules ?w3" "audit_log w4 = audit_log w @ [e]" "runs w4 = runs w"
      "au_action e = ''schedule.auto_paused''" "au_target_id e = Some (sch_id s)"
    using c by (simp add: audit_Log_def InsertAuditLog_def strPtr_def)
  obtain w5 where ev: "InsertRunEvent i ''info'' ''schedule.auto_paused'' (JObj [(''threshold'', JNum ?n)]) w4 = (Inr (), w5)"
    and w5: "calm w5" "schedules w5 = schedules w4" "audit_log w5 = audit_log w4"
    using w4(1,4) r by (auto simp: InsertRunEvent_def valid_level_def find_run_def)
  have "pause_now L (sch_org_id s) (sch_id s) i ?n w = (Inr (), w5)"
    using upd ne au ev by (simp add: pause_now_def del: length_0_conv)
  then show ?thesis using w4 w5 sch by (intro exI [of _ w5] exI [of _ ?t] exI [of _ e]) simp
qed

lemma pause_now_off:
  assumes "calm w" "\<forall>q \<in> set (schedules w). sch_id q = i \<longrightarrow> \<not> sch_enabled q"
  shows "fst (pause_now L org i run n w) = Inl PauseNoop"
proof -
  have "filter (\<lambda>q. sch_id q = i \<and> sch_enabled q) (schedules w) = []"
    using assms(2) by (auto simp: filter_empty_conv)
  then show ?thesis using assms(1) by (simp add: pause_now_def AutoPauseSchedule_def map_err_def bind_def)
qed

lemma pause_body_calm:
  assumes c: "calm w" and s: "find_schedule w (sch_id s) = Some s" and n: "int32_range (pause_threshold s)"
  shows "\<exists>w1. pause_body L (sch_id s) i w =
    (if failing_streak w s then pause_now L (sch_org_id s) (sch_id s) i (pause_threshold s) w1 else (Inl PauseNoop, w1)) \<and>
    calm w1 \<and> schedules w1 = schedules w \<and> audit_log w1 = audit_log w \<and> runs w1 = runs w"
proof -
  let ?n = "pause_threshold s"
  let ?sts = "map run_status (take (nat ?n) (finished_since_enabled w s))"
  have cfg: "GetScheduleAutoPauseConfig (sch_id s) w = (Inr \<lparr>ap_org_id = sch_org_id s,
      ap_auto_pause_after = sch_auto_pause_after s, ap_last_enabled_at = sch_last_enabled_at s,
      ap_enabled = sch_enabled s\<rparr>, bump w)"
    using c s by (simp add: GetScheduleAutoPauseConfig_def)
  have rec: "ListRecentTerminalScheduledRuns (sch_id s) (sch_last_enabled_at s) ?n (bump w) = (Inr ?sts, bump (bump w))"
    using c recent_statuses [of "bump w" s ?n] by (simp add: finished_since_enabled_def)
  show ?thesis
    using cfg rec streak_test [OF n, of w] c
    by (intro exI [of _ "bump (bump w)"]) (auto simp: pause_body_def)
qed

end
