(* ===== verification/Api_Claims.thy ===== *)
theory Api_Claims
  imports Api_Props Sample_World
begin

text \<open>
  The properties of the internal API: token scope, atomic finalization and event batches, the
  auto-pause rule, the manual trigger, and how the secrets named to a runner relate to those
  its token opens.
\<close>

definition sample_api :: "(string \<times> json) list \<Rightarrow> api_deps" where
  "sample_api c = \<lparr>ad_libs = sample_libs c, ad_signer_key = ''key'',
     ad_secrets_get = (\<lambda>w n. Inr (''value of '' @ n)), ad_installations = (\<lambda>i. Inr ''ghs''),
     ad_runner_api_key = ''rk'', ad_eval_symlinks = Some, ad_temp_dir = ''/tmp'',
     ad_push_to_url = (\<lambda>root url. True)\<rparr>"

definition sample_claims :: "(string \<times> json) list" where
  "sample_claims = claims_json (sample_libs []) \<lparr>cl_run_id = 7, cl_org_id = 9,
     cl_secret_refs = [''hook''], cl_expires_at = 721 * second\<rparr>"

definition sample_headers :: headers where
  "sample_headers = \<lparr>hd_authorization = ''Bearer tok'', hd_runner_key = []\<rparr>"

definition sample_body :: "string \<Rightarrow> finalize_body" where
  "sample_body st = \<lparr>fb_status = st, fb_duration_ms = Some 5, fb_tokens_in = None, fb_tokens_out = None,
     fb_cost_cents = None, fb_error_kind = None, fb_error_msg = None, fb_writeback_commit_sha = None,
     fb_notifications = [\<lparr>fn_kind = ''slack'', fn_target = ''t'', fn_status = ''sent'', fn_reason = None\<rparr>]\<rparr>"

text \<open>
  C5: No secret leaves the server without the current token of a run: a response of the
  secrets endpoint means that the bearer verifies, that the run it names holds its hash, and
  that every name in the response is in the token's scope. The shared runner key opens no secret.
\<close>

theorem secrets_need_current_token:
  assumes "RegisterRoutes deps (GetSecrets h names) w = (Inr resp, w')"
  shows "\<exists>c out. resp = SecretsResponse out \<and> current_token deps w (hd_authorization h) c \<and>
    fst ` set out \<subseteq> set (cl_secret_refs c)"
proof -
  let ?m = "\<lambda>c. respond SecretsResponse (serve_secrets deps names c)"
  have m: "\<exists>out. resp = SecretsResponse out \<and> fst ` set out \<subseteq> set (cl_secret_refs c) \<and> cl_secret_refs c \<noteq> []"
    if "?m c v = (Inr resp, v')" for c v v'
    using that serve_secrets_scope by (fastforce simp: respond_def bind_eq_Inr_iff)
  from assms have "requireBearerOrAPIKey deps h ?m w = (Inr resp, w')" by simp
  from api_key_Inr [OF this] show ?thesis
    using m [of zero_claims] m by (fastforce simp: zero_claims_def)
qed

theorem secrets_need_current_token_witness:
  "\<exists>c. current_token (sample_api sample_claims) (sample_world ''skip'' [sample_run 7 ''running'' None 0])
     (hd_authorization sample_headers) c"
proof -
  let ?w = "sample_world ''skip'' [sample_run 7 ''running'' None 0]"
  have "fst (RegisterRoutes (sample_api sample_claims) (GetSecrets sample_headers ''hook'') ?w) =
      Inr (SecretsResponse [(''hook'', ''value of hook'')])" by code_simp
  then obtain w' where "RegisterRoutes (sample_api sample_claims) (GetSecrets sample_headers ''hook'') ?w =
      (Inr (SecretsResponse [(''hook'', ''value of hook'')]), w')"
    by (metis prod.collapse)
  from secrets_need_current_token [OF this] show ?thesis by blast
qed

text \<open>
  The runner key alone authorizes nothing about a run: it carries no claims, so finalize,
  events, context and writeback-push answer 403 for every run but the nil identifier.
\<close>

theorem runner_key_authorizes_no_run:
  assumes "ad_runner_api_key deps \<noteq> []" "hd_runner_key h = ad_runner_api_key deps"
    and "uuid_parse (ad_libs deps) i = Some u" "u \<noteq> 0"
  shows "RegisterRoutes deps (PostFinalize h i b) w = (Inl (HttpError 403 ''token run_id mismatch''), w) \<and>
    RegisterRoutes deps (PostEvents h i evs) w = (Inl (HttpError 403 ''token run_id mismatch''), w) \<and>
    RegisterRoutes deps (PostWritebackPush h i wb) w = (Inl (HttpError 403 ''token run_id mismatch''), w) \<and>
    RegisterRoutes deps (GetContext h i) w = (Inl (HttpError 403 ''token run_id does not match URL''), w)"
  using assms
  by (simp add: requireBearerOrAPIKey_def respond_def serve_finalize_def serve_events_def
      serve_writeback_push_def serve_context_def own_run_def zero_claims_def bind_def)

theorem runner_key_authorizes_no_run_witness:
  "RegisterRoutes (sample_api []) (PostFinalize \<lparr>hd_authorization = [], hd_runner_key = ''rk''\<rparr> ''0000000'' None)
     (sample_world ''skip'' []) = (Inl (HttpError 403 ''token run_id mismatch''), sample_world ''skip'' [])"
  using runner_key_authorizes_no_run [of "sample_api []" "\<lparr>hd_authorization = [], hd_runner_key = ''rk''\<rparr>" "''0000000''" 7]
  by (simp add: sample_api_def sample_libs_def)



text \<open>
  C12: A finished run cannot be finalized again: while the database answers, a valid body for a
  terminal run gets 409 and changes no table.
\<close>

theorem finalize_twice_conflicts:
  assumes "fault w = (\<lambda>_. False)" "store_ok w" "r \<in> set (runs w)" "terminal_status (run_status r)"
    and "uuid_parse (ad_libs deps) p = Some (run_id r)" "cl_run_id c = run_id r" "finalize_body_error b = None"
  shows "\<exists>w'. serve_finalize deps p (Some b) c w = (Inl (HttpError 409 ''run already terminal''), w') \<and>
    runs w' = runs w \<and> schedules w' = schedules w \<and> notifications w' = notifications w \<and> metrics w' = metrics w"
proof -
  let ?tx = "in_tx (\<lambda>_. HttpError 500 ''begin tx: '') (\<lambda>_. HttpError 500 ''commit: '') (finalize_tx (run_id r) b)"
  have found: "find_run (snd (pool_begin w)) (run_id r) = Some r"
    using assms(1) find_run_in [OF assms(2,3)] by (simp add: pool_begin_def find_run_def)
  obtain v where "FinalizeRun (run_id r) (finalize_params_of b) (snd (pool_begin w)) = (Inl ErrNoRows, v)"
    using assms(1,4) found by (simp add: FinalizeRun_def update_run_def pool_begin_def find_run_def)
  then have "fst (finalize_tx (run_id r) b (snd (pool_begin w))) = Inl (HttpError 409 ''run already terminal'')"
    by (simp add: finalize_tx_def)
  moreover have "pool_begin w = (Inr (), snd (pool_begin w))"
    using assms(1) by (simp add: pool_begin_def)
  ultimately have "fst (?tx w) = Inl (HttpError 409 ''run already terminal'')"
    by (auto simp: in_tx_def map_err_def split: prod.splits sum.splits)
  then obtain w' where tx: "?tx w = (Inl (HttpError 409 ''run already terminal''), w')" by (metis prod.collapse)
  have "same_metrics w (snd (?tx w))"
    by (rule keepsD [OF met.in_tx_keeps [OF finalize_tx_metrics]])
  then have "metrics w' = metrics w" using tx by (simp add: same_metrics_def)
  moreover have "serve_finalize deps p (Some b) c w = (Inl (HttpError 409 ''run already terminal''), w')"
    using assms tx by (simp add: serve_finalize_def own_run_def)
  ultimately show ?thesis using in_tx_Inl [OF tx] by blast
qed

theorem finalize_twice_conflicts_witness:
  "\<exists>w'. serve_finalize (sample_api sample_claims) ''0000000'' (Some (sample_body ''failed'')) (zero_claims\<lparr>cl_run_id := 7\<rparr>)
     (sample_world ''skip'' [sample_run 7 ''succeeded'' None 0, sample_run 8 ''failed'' (Some 1) 1]) =
     (Inl (HttpError 409 ''run already terminal''), w')"
proof -
  let ?w = "sample_world ''skip'' [sample_run 7 ''succeeded'' None 0, sample_run 8 ''failed'' (Some 1) 1]"
  have ok: "store_ok ?w" by (rule sample_pair_ok) simp_all
  have body: "finalize_body_error (sample_body ''failed'') = None" by code_simp
  show ?thesis
    using finalize_twice_conflicts [OF _ ok, of "sample_run 7 ''succeeded'' None 0" "sample_api sample_claims" "''0000000''"
        "zero_claims\<lparr>cl_run_id := 7\<rparr>" "sample_body ''failed''"] body
    by (auto simp: sample_world_def terminal_status_def sample_api_def sample_libs_def)
qed

text \<open>
  An event batch is stored completely or not at all: an error leaves the events unchanged,
  and a success appends one row per event, in order, each with a legal level.
\<close>

theorem events_atomic:
  assumes "serve_events deps p body c w = (res, w')"
  shows "case res of
     Inl e \<Rightarrow> run_events w' = run_events w
   | Inr _ \<Rightarrow> \<exists>evs rows. body = Some evs \<and> uuid_parse (ad_libs deps) p = Some (cl_run_id c) \<and>
       run_events w' = run_events w @ rows \<and>
       map (\<lambda>e. (ev_run_id e, ev_level e, ev_event_type e)) rows =
         map (\<lambda>e. (cl_run_id c, if ei_level e = [] then ''info'' else ei_level e, ei_type e)) evs \<and>
       list_all (\<lambda>e. valid_level (ev_level e)) rows"
proof (cases "\<exists>evs. body = Some evs \<and> uuid_parse (ad_libs deps) p = Some (cl_run_id c)")
  case False
  then show ?thesis using assms by (auto simp: serve_events_def own_run_def split: option.splits if_splits)
next
  case True
  then obtain evs where b: "body = Some evs" "uuid_parse (ad_libs deps) p = Some (cl_run_id c)" by blast
  let ?tx = "in_tx (\<lambda>_. HttpError 500 ''begin tx: '') (\<lambda>_. HttpError 500 ''commit: '') (for_each evs (insert_event (cl_run_id c)))"
  have tx: "?tx w = (res, w')" using assms b by (simp add: serve_events_def own_run_def)
  show ?thesis
  proof (cases res)
    case (Inl e)
    then show ?thesis using in_tx_Inl [OF tx [unfolded Inl]] by simp
  next
    case (Inr u)
    from in_tx_Inr [OF tx [unfolded Inr]] obtain v1 v2 where "for_each evs (insert_event (cl_run_id c)) v1 = (Inr u, v2)"
      "run_events v1 = run_events w" "run_events w' = run_events v2" by metis
    then show ?thesis using insert_events_rows [of evs "cl_run_id c" v1 u v2] Inr b by auto
  qed
qed

theorem events_atomic_witness:
  "\<exists>w'. serve_events (sample_api []) ''0000000'' (Some [\<lparr>ei_type = ''a'', ei_level = [], ei_payload = None\<rparr>,
       \<lparr>ei_type = ''b'', ei_level = ''loud'', ei_payload = None\<rparr>]) (zero_claims\<lparr>cl_run_id := 7\<rparr>)
     (sample_world ''skip'' [sample_run 7 ''running'' None 0]) = (Inl (HttpError 400 ''invalid level: loud''), w') \<and>
     run_events w' = []"
proof -
  let ?h = "serve_events (sample_api []) ''0000000'' (Some [\<lparr>ei_type = ''a'', ei_level = [], ei_payload = None\<rparr>,
       \<lparr>ei_type = ''b'', ei_level = ''loud'', ei_payload = None\<rparr>]) (zero_claims\<lparr>cl_run_id := 7\<rparr>)
     (sample_world ''skip'' [sample_run 7 ''running'' None 0])"
  have "fst ?h = Inl (HttpError 400 ''invalid level: loud'')" by code_simp
  then obtain w' where h: "?h = (Inl (HttpError 400 ''invalid level: loud''), w')" by (metis prod.collapse)
  from events_atomic [OF h] show ?thesis using h by (auto simp: sample_world_def)
qed

text \<open>
  C13: After a failed scheduled run the schedule is paused exactly when it is enabled and its
  last so many finished scheduled runs since it was enabled all failed, so many being its own
  threshold or five; the pause writes one audit row, and otherwise nothing is written.
\<close>

theorem auto_pause_exact:
  assumes "fault w = (\<lambda>_. False)" "store_ok w" "s \<in> set (schedules w)" "r \<in> set (runs w)"
    and "int32_range (pause_threshold s)"
  shows "\<exists>w' t. evaluateAutoPause L (sch_id s) (run_id r) ''failed'' ''schedule'' w = (Inr (), w') \<and>
    (if sch_enabled s \<and> failing_streak w s
     then schedules w' = update_where (\<lambda>q. sch_id q = sch_id s) (paused_row t) (schedules w) \<and>
       (\<exists>e. audit_log w' = audit_log w @ [e] \<and> au_action e = ''schedule.auto_paused'' \<and> au_target_id e = Some (sch_id s))
     else schedules w' = schedules w \<and> audit_log w' = audit_log w)"
proof -
  obtain v where b: "pool_begin w = (Inr (), v)" "calm v" "schedules v = schedules w" "runs v = runs w" "audit_log v = audit_log w"
    using assms(1) by (simp add: pool_begin_def)
  have s: "find_schedule v (sch_id s) = Some s" "find_run v (run_id r) \<noteq> None"
    using find_schedule_in [OF assms(2,3)] find_run_in [OF assms(2,4)] b by (simp_all add: find_schedule_def find_run_def)
  have streak: "failing_streak v s = failing_streak w s"
    using b by (simp add: failing_streak_def finished_since_enabled_def)
  have uniq: "\<And>q. q \<in> set (schedules w) \<Longrightarrow> sch_id q = sch_id s \<Longrightarrow> q = s"
    using assms(2,3) by (auto simp: store_ok_def keys_ok_def distinct_map inj_on_def)
  obtain w1 where body: "pause_body L (sch_id s) (run_id r) v =
      (if failing_streak w s then pause_now L (sch_org_id s) (sch_id s) (run_id r) (pause_threshold s) w1 else (Inl PauseNoop, w1))"
    and w1: "calm w1" "schedules w1 = schedules w" "audit_log w1 = audit_log w" "runs w1 = runs w"
    using pause_body_calm [OF b(2) s(1) assms(5), of L "run_id r"] streak b by auto
  have run1: "find_run w1 (run_id r) \<noteq> None" using s(2) w1(4) b(4) by (simp add: find_run_def)
  show ?thesis
  proof (cases "sch_enabled s \<and> failing_streak w s")
    case True
    from pause_now_calm [OF w1(1), of s "run_id r" L] True assms(3) w1 run1 uniq obtain w2 t e where
      "pause_now L (sch_org_id s) (sch_id s) (run_id r) (pause_threshold s) w1 = (Inr (), w2)" "calm w2"
      "schedules w2 = update_where (\<lambda>q. sch_id q = sch_id s) (paused_row t) (schedules w)"
      "audit_log w2 = audit_log w @ [e]" "au_action e = ''schedule.auto_paused''" "au_target_id e = Some (sch_id s)"
      by auto
    then show ?thesis using True b(1) body
      by (intro exI [of _ "snd (tx_commit w2)"] exI [of _ t])
        (simp add: evaluateAutoPause_def attempt_apply in_tx_def tx_commit_def map_err_def)
  next
    case False
    have "fst (pause_body L (sch_id s) (run_id r) v) = Inl PauseNoop"
    proof (cases "failing_streak w s")
      case True
      then have "\<not> sch_enabled s" using False by simp
      then have "\<forall>q \<in> set (schedules w1). sch_id q = sch_id s \<longrightarrow> \<not> sch_enabled q"
        using uniq w1(2) by metis
      then show ?thesis using True body pause_now_off [OF w1(1)] by simp
    qed (simp add: body)
    then obtain w2 where "pause_body L (sch_id s) (run_id r) v = (Inl PauseNoop, w2)" by (metis prod.collapse)
    then show ?thesis using False b(1)
      by (intro exI [of _ "rollback_to w w2"])
        (auto simp: evaluateAutoPause_def attempt_apply in_tx_def map_err_def rollback_to_def)
  qed
qed

theorem auto_pause_exact_witness:
  "\<exists>w' t. evaluateAutoPause (sample_libs []) 3 7 ''failed'' ''schedule''
      (sample_world ''skip'' [sample_run 7 ''failed'' (Some 5) 5, sample_run 8 ''failed'' (Some 6) 6]) = (Inr (), w') \<and>
    schedules w' = [paused_row t (sample_schedule ''skip'')]"
proof -
  let ?w = "sample_world ''skip'' [sample_run 7 ''failed'' (Some 5) 5, sample_run 8 ''failed'' (Some 6) 6]"
  have ok: "store_ok ?w" by (rule sample_pair_ok) simp_all
  have streak: "sch_enabled (sample_schedule ''skip'') \<and> failing_streak ?w (sample_schedule ''skip'')" by code_simp
  have ids: "sch_id (sample_schedule ''skip'') = 3" "fault ?w = (\<lambda>_. False)" "schedules ?w = [sample_schedule ''skip'']"
    "sample_run 7 ''failed'' (Some 5) 5 \<in> set (runs ?w)"
    by (simp_all add: sample_schedule_def sample_world_def)
  have range: "int32_range (pause_threshold (sample_schedule ''skip''))" by code_simp
  show ?thesis
    using auto_pause_exact [OF ids(2) ok _ ids(4) range, of "sample_libs []"] streak ids
    by (auto simp: update_where_def)
qed

text \<open>
  The manual trigger is refused to every caller that is not on the loopback interface, and
  on success has inserted exactly one run: pending, manual, without a fire time, of the named
  schedule.
\<close>

theorem run_now_inserts_one:
  assumes "serve_run_now deps remote p body w = (Inr rid, w')"
  shows "\<exists>ip r. remote = Some ip \<and> IsLoopback ip \<and> runs w' = runs w @ [r] \<and> run_status r = ''pending'' \<and>
    run_fire_reason r = ''manual'' \<and> run_fire_time r = None \<and>
    uuid_parse (ad_libs deps) p = Some (run_schedule_id r) \<and> rid = uuid_string (ad_libs deps) (run_id r)"
  by (rule run_now_Inr [OF assms])

theorem run_now_inserts_one_witness:
  "\<exists>w' r. serve_run_now (sample_api []) (Some [127, 0, 0, 1]) ''000'' (Some None) (sample_world ''skip'' []) =
      (Inr (uuid_string (sample_libs []) 100), w') \<and> runs w' = [r] \<and> run_fire_reason r = ''manual''"
proof -
  let ?h = "serve_run_now (sample_api []) (Some [127, 0, 0, 1]) ''000'' (Some None) (sample_world ''skip'' [])"
  have "fst ?h = Inr (uuid_string (sample_libs []) 100)" by code_simp
  then obtain w' where h: "?h = (Inr (uuid_string (sample_libs []) 100), w')" by (metis prod.collapse)
  from run_now_inserts_one [OF h] show ?thesis using h by (auto simp: sample_world_def)
qed

text \<open>
  The context a runner receives names more secrets than its token opens: the difference
  is exactly the secrets that only the MCP environment of the schedule mentions.
\<close>

theorem manifest_exceeds_token:
  "set (cx_secret_manifest (context_of L i (r, s, k, c))) - set (da_secret_refs (sched_args r s install)) =
     {n. secret_at (sch_mcp_env_json s) n} - set (da_secret_refs (sched_args r s install))"
  by (auto simp: context_of_def sched_args_def CollectSecretRefs_set secret_in_def)

end
