(* ===== verification/Paths.thy ===== *)
theory Paths
  imports Go_Strings
begin

text \<open>
  path/filepath on Unix, for absolute paths: Clean, Join, Abs, and the test by which the
  program keeps a path from the repository inside the repository root.
\<close>

section \<open>Cleaning a path\<close>

fun clean_segs :: "string list \<Rightarrow> string list \<Rightarrow> string list" where
  "clean_segs acc [] = rev acc"
| "clean_segs acc (s # ss) =
     (if s = [] \<or> s = ''.'' then clean_segs acc ss
      else if s = ''..'' then clean_segs (tl acc) ss
      else clean_segs (s # acc) ss)"

definition segments :: "string \<Rightarrow> string list" where
  "segments p = clean_segs [] (split_on (CHR ''/'') p)"

text \<open>\<open>Clean\<close> of an absolute path.\<close>

definition Clean :: "string \<Rightarrow> string" where
  "Clean p = ''/'' @ join_with ''/'' (segments p)"

definition Join :: "string \<Rightarrow> string \<Rightarrow> string" where
  "Join base rel = (if rel = [] then Clean base else Clean (base @ ''/'' @ rel))"

definition IsAbs :: "string \<Rightarrow> bool" where
  "IsAbs p \<longleftrightarrow> has_prefix p ''/''"

definition inside_root :: "string \<Rightarrow> string \<Rightarrow> bool" where
  "inside_root root p \<longleftrightarrow> has_prefix p (root @ ''/'') \<or> p = root"

section \<open>What containment means\<close>

definition plain_seg :: "string \<Rightarrow> bool" where
  "plain_seg s \<longleftrightarrow> s \<noteq> [] \<and> s \<noteq> ''.'' \<and> s \<noteq> ''..'' \<and> CHR ''/'' \<notin> set s"

lemma clean_segs_plain:
  "\<forall>s \<in> set acc. plain_seg s \<Longrightarrow> \<forall>s \<in> set ss. CHR ''/'' \<notin> set s \<Longrightarrow> \<forall>s \<in> set (clean_segs acc ss). plain_seg s"
proof (induction acc ss rule: clean_segs.induct)
  case (1 acc)
  then show ?case by simp
next
  case (2 acc s ss)
  have tl: "\<forall>s \<in> set (tl acc). plain_seg s" using 2(4) by (cases acc) simp_all
  have s: "CHR ''/'' \<notin> set s" and ss: "\<forall>s \<in> set ss. CHR ''/'' \<notin> set s" using 2(5) by simp_all
  show ?case
  proof (cases "s = [] \<or> s = ''.''")
    case True
    then show ?thesis using 2(1) 2(4) ss by simp
  next
    case ne: False
    show ?thesis
    proof (cases "s = ''..''")
      case True
      then show ?thesis using 2(2) ne tl ss by simp
    next
      case False
      have "plain_seg s" using ne False s by (simp add: plain_seg_def)
      then have "\<forall>x \<in> set (s # acc). plain_seg x" using 2(4) by simp
      from 2(3) [OF ne False this ss] show ?thesis using ne False by simp
    qed
  qed
qed

lemma segments_plain: "\<forall>s \<in> set (segments p). plain_seg s"
  unfolding segments_def by (rule clean_segs_plain) (auto dest: split_on_no_sep)

lemma clean_segs_id: "\<forall>s \<in> set ss. plain_seg s \<Longrightarrow> clean_segs acc ss = rev acc @ ss"
  by (induction ss arbitrary: acc) (auto simp: plain_seg_def)

lemma segments_Clean: "segments (Clean p) = segments p"
proof (cases "segments p = []")
  case True
  then show ?thesis by (simp add: Clean_def segments_def)
next
  case False
  have "split_on (CHR ''/'') (join_with ''/'' (segments p)) = segments p"
    using False segments_plain by (intro split_join) (auto simp: plain_seg_def)
  then have "segments (Clean p) = clean_segs [] ([] # segments p)"
    by (simp add: Clean_def segments_def)
  then show ?thesis using clean_segs_id [OF segments_plain, of "[]" p] by simp
qed

lemma Clean_idem: "Clean (Clean p) = Clean p"
  by (simp add: Clean_def [of "Clean p"] segments_Clean) (simp add: Clean_def)

text \<open>
  A clean path that passes the test names a file whose segments extend those of the root, and
  none of them climbs.
\<close>

lemma inside_root_segments:
  assumes root: "Clean root = root" "root \<noteq> ''/''" and p: "Clean p = p" and inside: "inside_root root p"
  shows "\<exists>more. segments p = segments root @ more \<and> (\<forall>s \<in> set more. plain_seg s)"
  using inside unfolding inside_root_def
proof
  assume "p = root"
  then show ?thesis by simp
next
  assume "has_prefix p (root @ ''/'')"
  then obtain t where t: "p = root @ ''/'' @ t" by (auto simp: has_prefix_iff)
  have ne: "segments root \<noteq> []" using root by (auto simp: Clean_def)
  have sp: "split_on (CHR ''/'') root = [] # segments root"
  proof -
    have "split_on (CHR ''/'') (join_with ''/'' (segments root)) = segments root"
      using ne segments_plain by (intro split_join) (auto simp: plain_seg_def)
    then show ?thesis using root(1) by (metis Clean_def append_Cons append_Nil split_on.simps(2))
  qed
  have app: "split_on c (x @ c # y) = split_on c x @ split_on c y" for c x y
    by (induction x) (auto split: list.splits)
  have "split_on (CHR ''/'') p = [] # segments root @ split_on (CHR ''/'') t"
    by (simp add: t app sp)
  moreover have "split_on (CHR ''/'') p = [] # segments p \<or> segments p = []"
  proof (cases "segments p = []")
    case False
    then have "split_on (CHR ''/'') (join_with ''/'' (segments p)) = segments p"
      using segments_plain by (intro split_join) (auto simp: plain_seg_def)
    then show ?thesis using p by (metis Clean_def append_Cons append_Nil split_on.simps(2))
  qed simp
  moreover have "segments p \<noteq> []"
  proof
    assume "segments p = []"
    then have "p = ''/''" using p by (simp add: Clean_def)
    then show False using t root ne by (cases root) (auto simp: Clean_def)
  qed
  ultimately have "segments p = segments root @ split_on (CHR ''/'') t" by simp
  then show ?thesis using segments_plain [of p] by auto
qed

section \<open>Children of a path inside the root\<close>

lemma Clean_Join: "Clean (Join base rel) = Join base rel"
  by (simp add: Join_def Clean_idem)

lemma split_on_app: "split_on c (x @ c # y) = split_on c x @ split_on c y"
  by (induction x) (auto split: list.splits)

lemma join_with_append:
  "xs \<noteq> [] \<Longrightarrow> ys \<noteq> [] \<Longrightarrow> join_with sep (xs @ ys) = join_with sep xs @ sep @ join_with sep ys"
proof (induction xs)
  case (Cons x xs)
  then show ?case by (cases "xs = []") (simp_all add: join_with_Cons)
qed simp

lemma clean_segs_snoc: "plain_seg n \<Longrightarrow> clean_segs acc (xs @ [n]) = clean_segs acc xs @ [n]"
  by (induction acc xs rule: clean_segs.induct) (simp_all add: plain_seg_def)

lemma segments_child: "plain_seg n \<Longrightarrow> segments (p @ ''/'' @ n) = segments p @ [n]"
proof -
  assume n: "plain_seg n"
  then have "split_on (CHR ''/'') n = [n]" by (intro split_on_id) (simp add: plain_seg_def)
  then show ?thesis using clean_segs_snoc [OF n] by (simp add: segments_def split_on_app)
qed

lemma inside_child:
  assumes root: "Clean root = root" "root \<noteq> ''/''" and p: "Clean p = p" "inside_root root p" and n: "plain_seg n"
  shows "inside_root root (Join p n)"
proof -
  obtain more where more: "segments p = segments root @ more"
    using inside_root_segments [OF root p] by blast
  have ne: "segments root \<noteq> []" using root by (auto simp: Clean_def)
  have "Join p n = ''/'' @ join_with ''/'' (segments root @ more @ [n])"
    using n by (simp add: Join_def Clean_def segments_child [OF n, simplified] more plain_seg_def)
  also have "\<dots> = ''/'' @ join_with ''/'' (segments root) @ ''/'' @ join_with ''/'' (more @ [n])"
    using ne by (simp add: join_with_append)
  also have "\<dots> = root @ ''/'' @ join_with ''/'' (more @ [n])"
    using root(1) by (metis Clean_def append.assoc)
  finally show ?thesis unfolding inside_root_def has_prefix_iff by (metis append.assoc)
qed

end
