(* ===== verification/Url.thy ===== *)
theory Url
  imports Go_Strings
begin

text \<open>
  net/url.ParseRequestURI as far as the program reads its result: whether it fails, and the
  scheme and host. Escapes in the zone of a bracketed IPv6 host are checked like those of the
  rest of the host.
\<close>

definition lower_char :: "char \<Rightarrow> char" where
  "lower_char c = (let n = of_char c :: nat in if 65 \<le> n \<and> n \<le> 90 then char_of (n + 32) else c)"

definition to_lower :: "string \<Rightarrow> string" where
  "to_lower s = map lower_char s"

definition is_alpha :: "char \<Rightarrow> bool" where
  "is_alpha c \<longleftrightarrow> (let n = of_char c :: nat in 65 \<le> n \<and> n \<le> 90 \<or> 97 \<le> n \<and> n \<le> 122)"

definition is_digit :: "char \<Rightarrow> bool" where
  "is_digit c \<longleftrightarrow> (let n = of_char c :: nat in 48 \<le> n \<and> n \<le> 57)"

definition is_hex :: "char \<Rightarrow> bool" where
  "is_hex c \<longleftrightarrow> is_digit c \<or> lower_char c \<in> set ''abcdef''"

definition cut_at :: "char \<Rightarrow> string \<Rightarrow> string \<times> string" where
  "cut_at c s = (takeWhile (\<lambda>x. x \<noteq> c) s, drop (Suc (length (takeWhile (\<lambda>x. x \<noteq> c) s))) s)"

text \<open>\<open>None\<close> is the error of a colon with no scheme before it.\<close>

fun get_scheme :: "string \<Rightarrow> string \<Rightarrow> string \<Rightarrow> (string \<times> string) option" where
  "get_scheme raw acc [] = Some ([], raw)"
| "get_scheme raw acc (c # cs) =
     (if is_alpha c then get_scheme raw (acc @ [c]) cs
      else if is_digit c \<or> c \<in> set ''+-.'' then (if acc = [] then Some ([], raw) else get_scheme raw (acc @ [c]) cs)
      else if c = CHR '':'' then (if acc = [] then None else Some (acc, cs))
      else Some ([], raw))"

text \<open>Percent decoding, as a check: \<open>lit\<close> says which plain bytes are legal, \<open>esc\<close> which escapes.\<close>

fun unescape_ok :: "(char \<Rightarrow> bool) \<Rightarrow> (string \<Rightarrow> bool) \<Rightarrow> string \<Rightarrow> bool" where
  "unescape_ok lit esc [] \<longleftrightarrow> True"
| "unescape_ok lit esc (c # cs) \<longleftrightarrow>
     (if c = CHR ''%'' then
        (case cs of a # b # rest \<Rightarrow> is_hex a \<and> is_hex b \<and> esc [a, b] \<and> unescape_ok lit esc rest | _ \<Rightarrow> False)
      else lit c \<and> unescape_ok lit esc cs)"

definition host_char :: "char \<Rightarrow> bool" where
  "host_char c \<longleftrightarrow> (128::nat) \<le> of_char c \<or> is_alpha c \<or> is_digit c \<or> c \<in> set ''-_.~!$&()*+,;=:[]<>\"'' \<or> c = char_of (39::nat)"

definition valid_host_text :: "string \<Rightarrow> bool" where
  "valid_host_text s = unescape_ok host_char (\<lambda>h. h = ''25'' \<or> \<not> (hd h \<in> set ''01234567'')) s"

definition valid_port :: "string \<Rightarrow> bool" where
  "valid_port p \<longleftrightarrow> p = [] \<or> (hd p = CHR '':'' \<and> list_all is_digit (tl p))"

text \<open>The part of a string from the last occurrence of a byte on, if it occurs.\<close>

definition from_last :: "char \<Rightarrow> string \<Rightarrow> string option" where
  "from_last c s = (if c \<in> set s then Some (c # rev (takeWhile (\<lambda>x. x \<noteq> c) (rev s))) else None)"

definition valid_host :: "string \<Rightarrow> bool" where
  "valid_host host =
     (if has_prefix host ''['' then
        (case from_last (CHR '']'') host of
           None \<Rightarrow> False
         | Some close \<Rightarrow> valid_port (tl close) \<and> valid_host_text host)
      else (case from_last (CHR '':'') host of None \<Rightarrow> True | Some port \<Rightarrow> valid_port port) \<and> valid_host_text host)"

definition userinfo_char :: "char \<Rightarrow> bool" where
  "userinfo_char c \<longleftrightarrow> is_alpha c \<or> is_digit c \<or> c \<in> set ''-._:~!$&()*+,;=%@'' \<or> c = char_of (39::nat)"

text \<open>Authority: user info up to the last at sign, then the host. The result is the host.\<close>

definition parse_authority :: "string \<Rightarrow> string option" where
  "parse_authority a = (case from_last (CHR ''@'') a of
       None \<Rightarrow> if valid_host a then Some a else None
     | Some rest \<Rightarrow>
       if valid_host (tl rest) \<and>
          (let u = take (length a - length rest) a in list_all userinfo_char u \<and> unescape_ok (\<lambda>_. True) (\<lambda>_. True) u)
       then Some (tl rest) else None)"

definition has_ctl :: "string \<Rightarrow> bool" where
  "has_ctl s \<longleftrightarrow> list_ex (\<lambda>c. (of_char c :: nat) < 32 \<or> (of_char c :: nat) = 127) s"

text \<open>Scheme and host of a request URI, the host still in its escaped form.\<close>

definition ParseRequestURI :: "string \<Rightarrow> (string \<times> string) option" where
  "ParseRequestURI raw =
     (if has_ctl raw \<or> raw = [] then None
      else if raw = ''*'' then Some ([], [])
      else case get_scheme raw [] raw of
        None \<Rightarrow> None
      | Some (sch, rest0) \<Rightarrow>
        (let scheme = to_lower sch; rest = fst (cut_at (CHR ''?'') rest0) in
         if \<not> has_prefix rest ''/'' then (if scheme \<noteq> [] then Some (scheme, []) else None)
         else if scheme \<noteq> [] \<and> has_prefix rest ''//'' then
           (let auth = takeWhile (\<lambda>c. c \<noteq> CHR ''/'') (drop 2 rest);
                path = dropWhile (\<lambda>c. c \<noteq> CHR ''/'') (drop 2 rest) in
            case parse_authority auth of
              None \<Rightarrow> None
            | Some host \<Rightarrow> if unescape_ok (\<lambda>_. True) (\<lambda>_. True) path then Some (scheme, host) else None)
         else if unescape_ok (\<lambda>_. True) (\<lambda>_. True) rest then Some (scheme, []) else None))"

end
