(* ===== verification/Config.thy ===== *)
theory Config
  imports Paths Url Secret_Refs
begin

text \<open>
  internal/config: the manifest and the skill file, their validation, their JSON form as the
  sync pass stores it, and the include directives of a skill body. The YAML library is a
  parameter of the two parsers. A nil map or slice is \<open>None\<close>, since it marshals to null.
\<close>

section \<open>Manifest types\<close>

record github_issue_dest =
  gi_repo :: string
  gi_title :: string
  gi_body :: string
  gi_labels :: "string list"
  gi_assignees :: "string list"
  gi_output :: string

record webhook_dest =
  wh_secret :: string
  wh_text :: string
  wh_content :: string
  wh_title :: string
  wh_username :: string
  wh_format :: string
  wh_output :: string

record http_dest =
  ht_url :: string
  ht_method :: string
  ht_secret :: string
  ht_headers :: "(string \<times> string) list"
  ht_body_template :: string
  ht_output :: string

record email_dest =
  em_smtp_host :: string
  em_smtp_port :: int
  em_username_secret :: string
  em_password_secret :: string
  em_from :: string
  em_to :: "string list option"
  em_subject :: string
  em_format :: string
  em_output :: string

record destination =
  de_github_issue :: "github_issue_dest option"
  de_slack :: "webhook_dest option"
  de_discord :: "webhook_dest option"
  de_teams :: "webhook_dest option"
  de_http :: "http_dest option"
  de_email :: "email_dest option"
  de_when :: string

record writeback_config =
  wb_enabled :: bool
  wb_path :: string
  wb_mode :: string

record env_value =
  en_literal :: string
  en_secret :: string

record schedule =
  sc_name :: string
  sc_cron :: string
  sc_timezone :: string
  sc_overlap_policy :: string
  sc_timeout_sec :: int
  sc_provider :: string
  sc_model :: string
  sc_max_turns :: int
  sc_destinations :: "destination list option"
  sc_writeback :: "writeback_config option"
  sc_env :: "(string \<times> env_value) list option"
  sc_mcp_env :: "(string \<times> (string \<times> env_value) list option) list"
  sc_auto_pause_after :: "int option"
  sc_copilot_prefix :: string

record skill_entry =
  se_path :: string
  se_schedules :: "schedule list"

record manifest =
  mf_version :: int
  mf_skills :: "skill_entry list"

record mcp_server =
  ms_name :: string
  ms_command :: string
  ms_args :: "string list option"

record skill_frontmatter =
  sf_name :: string
  sf_description :: string
  sf_model_hint :: string
  sf_max_tokens :: int
  sf_max_turns :: int
  sf_mcp_servers :: "mcp_server list"
  sf_block_format :: string

record skill =
  sl_frontmatter :: skill_frontmatter
  sl_body :: string

section \<open>Destinations\<close>

definition ShouldPublish :: "destination \<Rightarrow> bool \<Rightarrow> bool" where
  "ShouldPublish d runSucceeded =
     (if de_when d = ''on_success'' then runSucceeded
      else if de_when d = ''on_failure'' then \<not> runSucceeded
      else True)"

datatype config_err =
    InvalidWhen string
  | HTTPURLRequired
  | HTTPBadScheme string
  | HTTPHostRequired
  | HTTPBadMethod string
  | EmailHostRequired
  | EmailUsernameRequired
  | EmailPasswordRequired
  | EmailFromRequired
  | EmailToRequired
  | EmailToEmpty
  | EmailBadPort int
  | EmailBadFormat string
  | VersionRequired
  | VersionUnsupported int
  | SkillPathRequired
  | DuplicateSkillPath string
  | ScheduleNameRequired string
  | DuplicateScheduleName string string
  | CronRequired string string
  | ProviderRequired string string
  | ModelRequired string string
  | CopilotPrefixRequired string string
  | MaxTurnsRange string string int
  | OverlapInvalid string string string
  | AutoPauseInvalid string string int
  | DestinationInvalid string string config_err

definition http_error :: "http_dest \<Rightarrow> config_err option" where
  "http_error h =
     (if ht_url h = [] then Some HTTPURLRequired
      else case ParseRequestURI (ht_url h) of
        None \<Rightarrow> Some (HTTPBadScheme (ht_url h))
      | Some (scheme, host) \<Rightarrow>
        if scheme \<noteq> ''http'' \<and> scheme \<noteq> ''https'' then Some (HTTPBadScheme (ht_url h))
        else if host = [] then Some HTTPHostRequired
        else if ht_method h \<noteq> [] \<and> ht_method h \<notin> set [''GET'', ''POST'', ''PUT'', ''PATCH'', ''DELETE'']
        then Some (HTTPBadMethod (ht_method h))
        else None)"

definition email_error :: "email_dest \<Rightarrow> config_err option" where
  "email_error e =
     (let to = (case em_to e of None \<Rightarrow> [] | Some xs \<Rightarrow> xs) in
      if em_smtp_host e = [] then Some EmailHostRequired
      else if em_username_secret e = [] then Some EmailUsernameRequired
      else if em_password_secret e = [] then Some EmailPasswordRequired
      else if em_from e = [] then Some EmailFromRequired
      else if to = [] then Some EmailToRequired
      else if list_ex (\<lambda>addr. TrimSpace addr = []) to then Some EmailToEmpty
      else if em_smtp_port e \<noteq> 0 \<and> (em_smtp_port e < 1 \<or> 65535 < em_smtp_port e) then Some (EmailBadPort (em_smtp_port e))
      else if em_format e \<noteq> [] \<and> em_format e \<noteq> ''html'' \<and> em_format e \<noteq> ''text'' then Some (EmailBadFormat (em_format e))
      else None)"

definition Destination_Validate :: "destination \<Rightarrow> config_err option" where
  "Destination_Validate d =
     (if de_when d \<noteq> [] \<and> de_when d \<notin> set [''always'', ''on_success'', ''on_failure'']
      then Some (InvalidWhen (de_when d))
      else case Option.bind (de_http d) http_error of
        Some e \<Rightarrow> Some e
      | None \<Rightarrow> Option.bind (de_email d) email_error)"

definition EffectiveSMTPPort :: "email_dest \<Rightarrow> int" where
  "EffectiveSMTPPort e = (if em_smtp_port e \<noteq> 0 then em_smtp_port e else 587)"

definition EffectiveFormat :: "email_dest \<Rightarrow> string" where
  "EffectiveFormat e = (if em_format e \<noteq> [] then em_format e else ''html'')"

section \<open>Manifest validation\<close>

definition validOverlap :: "string list" where
  "validOverlap = [[], ''skip'', ''queue'', ''concurrent'']"

definition EffectiveOverlapPolicy :: "schedule \<Rightarrow> string" where
  "EffectiveOverlapPolicy s = (if sc_overlap_policy s = [] then ''skip'' else sc_overlap_policy s)"

primrec first_error :: "('a \<Rightarrow> 'e option) \<Rightarrow> 'a list \<Rightarrow> 'e option" where
  "first_error f [] = None"
| "first_error f (x # xs) = (case f x of Some e \<Rightarrow> Some e | None \<Rightarrow> first_error f xs)"

definition schedule_error :: "string \<Rightarrow> string list \<Rightarrow> schedule \<Rightarrow> config_err option" where
  "schedule_error path seenSched sch =
     (let nm = sc_name sch in
      if nm = [] then Some (ScheduleNameRequired path)
      else if nm \<in> set seenSched then Some (DuplicateScheduleName path nm)
      else if sc_cron sch = [] then Some (CronRequired path nm)
      else if sc_provider sch = [] then Some (ProviderRequired path nm)
      else if sc_model sch = [] then Some (ModelRequired path nm)
      else if sc_provider sch = ''copilot-enterprise'' \<and> sc_copilot_prefix sch = [] then Some (CopilotPrefixRequired path nm)
      else if sc_max_turns sch < 0 \<or> 2147483647 < sc_max_turns sch then Some (MaxTurnsRange path nm (sc_max_turns sch))
      else if sc_overlap_policy sch \<notin> set validOverlap then Some (OverlapInvalid path nm (sc_overlap_policy sch))
      else if (case sc_auto_pause_after sch of Some n \<Rightarrow> n < 1 | None \<Rightarrow> False)
      then Some (AutoPauseInvalid path nm (the (sc_auto_pause_after sch)))
      else map_option (DestinationInvalid path nm)
        (first_error Destination_Validate (case sc_destinations sch of None \<Rightarrow> [] | Some ds \<Rightarrow> ds)))"

primrec schedules_error :: "string \<Rightarrow> string list \<Rightarrow> schedule list \<Rightarrow> config_err option" where
  "schedules_error path seenSched [] = None"
| "schedules_error path seenSched (sch # rest) = (case schedule_error path seenSched sch of
       Some e \<Rightarrow> Some e
     | None \<Rightarrow> schedules_error path (sc_name sch # seenSched) rest)"

primrec skills_error :: "string list \<Rightarrow> skill_entry list \<Rightarrow> config_err option" where
  "skills_error seenSkills [] = None"
| "skills_error seenSkills (s # rest) =
     (if se_path s = [] then Some SkillPathRequired
      else if se_path s \<in> set seenSkills then Some (DuplicateSkillPath (se_path s))
      else case schedules_error (se_path s) [] (se_schedules s) of
        Some e \<Rightarrow> Some e
      | None \<Rightarrow> skills_error (se_path s # seenSkills) rest)"

definition Manifest_Validate :: "manifest \<Rightarrow> config_err option" where
  "Manifest_Validate m =
     (if mf_version m = 0 then Some VersionRequired
      else if mf_version m \<noteq> 1 then Some (VersionUnsupported (mf_version m))
      else skills_error [] (mf_skills m))"

datatype find_err = SkillNotFound string | ScheduleNotFound string string

definition FindSchedule :: "manifest \<Rightarrow> string \<Rightarrow> string \<Rightarrow> find_err + skill_entry \<times> schedule" where
  "FindSchedule m skillPath scheduleName = (case find (\<lambda>s. se_path s = skillPath) (mf_skills m) of
       None \<Rightarrow> Inl (SkillNotFound skillPath)
     | Some s \<Rightarrow>
       (case find (\<lambda>sch. sc_name sch = scheduleName) (se_schedules s) of
          None \<Rightarrow> Inl (ScheduleNotFound scheduleName skillPath)
        | Some sch \<Rightarrow> Inr (s, sch)))"

section \<open>JSON forms\<close>

text \<open>Struct fields with and without omitempty; an absent field is no entry.\<close>

definition str_field :: "string \<Rightarrow> string \<Rightarrow> (string \<times> json) list" where
  "str_field k v = (if v = [] then [] else [(k, JStr v)])"

definition strs_field :: "string \<Rightarrow> string list \<Rightarrow> (string \<times> json) list" where
  "strs_field k vs = (if vs = [] then [] else [(k, JArr (map JStr vs))])"

definition opt_field :: "string \<Rightarrow> json option \<Rightarrow> (string \<times> json) list" where
  "opt_field k v = (case v of None \<Rightarrow> [] | Some j \<Rightarrow> [(k, j)])"

definition list_json :: "('a \<Rightarrow> json) \<Rightarrow> 'a list option \<Rightarrow> json" where
  "list_json f xs = (case xs of None \<Rightarrow> JNull | Some ys \<Rightarrow> JArr (map f ys))"

definition map_json :: "('a \<Rightarrow> json) \<Rightarrow> (string \<times> 'a) list option \<Rightarrow> json" where
  "map_json f m = (case m of None \<Rightarrow> JNull | Some kvs \<Rightarrow> JObj (sort_key fst (map (\<lambda>(k, v). (k, f v)) kvs)))"

definition github_issue_json :: "github_issue_dest \<Rightarrow> json" where
  "github_issue_json g = JObj ((''repo'', JStr (gi_repo g)) # str_field ''title'' (gi_title g) @ str_field ''body'' (gi_body g) @
     strs_field ''labels'' (gi_labels g) @ strs_field ''assignees'' (gi_assignees g) @ str_field ''output'' (gi_output g))"

definition webhook_json :: "webhook_dest \<Rightarrow> json" where
  "webhook_json h = JObj ((''secret'', JStr (wh_secret h)) # str_field ''text'' (wh_text h) @ str_field ''content'' (wh_content h) @
     str_field ''title'' (wh_title h) @ str_field ''username'' (wh_username h) @ str_field ''format'' (wh_format h) @
     str_field ''output'' (wh_output h))"

definition http_json :: "http_dest \<Rightarrow> json" where
  "http_json h = JObj ((''url'', JStr (ht_url h)) # str_field ''method'' (ht_method h) @ str_field ''secret'' (ht_secret h) @
     (if ht_headers h = [] then [] else [(''headers'', map_json JStr (Some (ht_headers h)))]) @
     str_field ''body_template'' (ht_body_template h) @ str_field ''output'' (ht_output h))"

definition email_json :: "email_dest \<Rightarrow> json" where
  "email_json e = JObj ((''smtp_host'', JStr (em_smtp_host e)) #
     (if em_smtp_port e = 0 then [] else [(''smtp_port'', JNum (em_smtp_port e))]) @
     [(''username_secret'', JStr (em_username_secret e)), (''password_secret'', JStr (em_password_secret e)),
      (''from'', JStr (em_from e)), (''to'', list_json JStr (em_to e))] @
     str_field ''subject'' (em_subject e) @ str_field ''format'' (em_format e) @ str_field ''output'' (em_output e))"

definition destination_json :: "destination \<Rightarrow> json" where
  "destination_json d = JObj (opt_field ''github-issue'' (map_option github_issue_json (de_github_issue d)) @
     opt_field ''slack'' (map_option webhook_json (de_slack d)) @
     opt_field ''discord'' (map_option webhook_json (de_discord d)) @
     opt_field ''teams'' (map_option webhook_json (de_teams d)) @
     opt_field ''http'' (map_option http_json (de_http d)) @
     opt_field ''email'' (map_option email_json (de_email d)) @ str_field ''when'' (de_when d))"

definition writeback_json :: "writeback_config \<Rightarrow> json" where
  "writeback_json c = JObj [(''enabled'', JBool (wb_enabled c)), (''path'', JStr (wb_path c)), (''mode'', JStr (wb_mode c))]"

definition frontmatter_json :: "skill_frontmatter \<Rightarrow> json" where
  "frontmatter_json f = JObj ([(''name'', JStr (sf_name f)), (''description'', JStr (sf_description f)),
     (''model_hint'', JStr (sf_model_hint f)), (''max_tokens'', JNum (sf_max_tokens f)), (''max_turns'', JNum (sf_max_turns f))] @
     (if sf_mcp_servers f = [] then [] else [(''mcp_servers'', JArr (map (\<lambda>s. JObj [(''name'', JStr (ms_name s)),
        (''command'', JStr (ms_command s)), (''args'', list_json JStr (ms_args s))]) (sf_mcp_servers f)))]) @
     [(''writeback'', JObj [(''block_format'', JStr (sf_block_format f))])])"

text \<open>
  An environment value has a decoder of its own but no encoder, so it is written field by field
  under the Go field names. The decoder matches the key secret regardless of case, as
  encoding/json does; a key given twice keeps the last value.
\<close>

definition env_value_json :: "env_value \<Rightarrow> json" where
  "env_value_json e = JObj [(''Literal'', JStr (en_literal e)), (''Secret'', JStr (en_secret e))]"

datatype env_err = EnvNull | EnvBadObject | EnvSecretMissing | EnvBadType

fun secret_field :: "(string \<times> json) list \<Rightarrow> string \<Rightarrow> string option" where
  "secret_field [] acc = Some acc"
| "secret_field ((k, v) # kvs) acc =
     (if to_lower k = ''secret'' then
        (case v of JStr s \<Rightarrow> secret_field kvs s | JNull \<Rightarrow> secret_field kvs acc | _ \<Rightarrow> None)
      else secret_field kvs acc)"

definition EnvValue_UnmarshalJSON :: "json \<Rightarrow> env_err + env_value" where
  "EnvValue_UnmarshalJSON data = (case data of
       JNull \<Rightarrow> Inl EnvNull
     | JStr s \<Rightarrow> Inr \<lparr>en_literal = s, en_secret = []\<rparr>
     | JObj kvs \<Rightarrow> (case secret_field kvs [] of
         None \<Rightarrow> Inl EnvBadObject
       | Some s \<Rightarrow> if s = [] then Inl EnvSecretMissing else Inr \<lparr>en_literal = [], en_secret = s\<rparr>)
     | _ \<Rightarrow> Inl EnvBadType)"

section \<open>Skill files\<close>

datatype skill_err = FrontmatterRequired | UnterminatedFrontmatter | FrontmatterInvalid

definition fence :: string where
  "fence = ''---''"

definition nl :: string where
  "nl = [CHR 0x0A]"

definition crnl :: string where
  "crnl = [CHR 0x0D, CHR 0x0A]"

definition fence_line :: "string \<Rightarrow> bool" where
  "fence_line s \<longleftrightarrow> has_prefix s (fence @ nl) \<or> has_prefix s (fence @ crnl)"

definition skip_newline :: "string \<Rightarrow> string" where
  "skip_newline s = trim_prefix (trim_prefix s [CHR 0x0D]) nl"

text \<open>The loop over the positions of the rest: \<open>start\<close> says whether a line starts here.\<close>

fun find_close :: "bool \<Rightarrow> string \<Rightarrow> nat \<Rightarrow> nat option" where
  "find_close start [] i = None"
| "find_close start (c # cs) i =
     (if start \<and> (fence_line (c # cs) \<or> c # cs = fence) then Some i
      else find_close ([c] = nl) cs (Suc i))"

definition split_frontmatter :: "string \<Rightarrow> skill_err + (string \<times> string)" where
  "split_frontmatter data =
     (if \<not> fence_line data then Inl FrontmatterRequired
      else let rest = skip_newline (drop 3 data) in
        case find_close True rest 0 of
          None \<Rightarrow> Inl UnterminatedFrontmatter
        | Some end \<Rightarrow> Inr (take end rest, skip_newline (drop (end + 3) rest)))"

definition ParseSkillFile :: "(string \<Rightarrow> skill_frontmatter option) \<Rightarrow> string \<Rightarrow> skill_err + skill" where
  "ParseSkillFile yaml_unmarshal data = (case split_frontmatter data of
       Inl e \<Rightarrow> Inl e
     | Inr (fmBytes, body) \<Rightarrow>
       (case yaml_unmarshal fmBytes of
          None \<Rightarrow> Inl FrontmatterInvalid
        | Some fm \<Rightarrow> Inr \<lparr>sl_frontmatter = fm, sl_body = body\<rparr>))"

definition is_lower :: "char \<Rightarrow> bool" where
  "is_lower c \<longleftrightarrow> is_alpha c \<and> lower_char c = c"

text \<open>The pattern of an MCP server name: a lower-case letter, then letters, digits, _ and -.\<close>

definition mcp_name_ok :: "string \<Rightarrow> bool" where
  "mcp_name_ok s = (case s of [] \<Rightarrow> False
     | c # cs \<Rightarrow> is_lower c \<and> list_all (\<lambda>d. is_lower d \<or> is_digit d \<or> d = CHR ''_'' \<or> d = CHR ''-'') cs)"

datatype skill_validate_err =
    McpNameInvalid nat string
  | McpNameDuplicate string
  | McpCommandRequired nat string
  | SkillMaxTurnsNegative

primrec mcp_servers_error :: "nat \<Rightarrow> string list \<Rightarrow> mcp_server list \<Rightarrow> skill_validate_err option" where
  "mcp_servers_error i seen [] = None"
| "mcp_servers_error i seen (ms # rest) =
     (if \<not> mcp_name_ok (ms_name ms) then Some (McpNameInvalid i (ms_name ms))
      else if ms_name ms \<in> set seen then Some (McpNameDuplicate (ms_name ms))
      else if ms_command ms = [] then Some (McpCommandRequired i (ms_name ms))
      else mcp_servers_error (Suc i) (ms_name ms # seen) rest)"

definition Skill_Validate :: "skill \<Rightarrow> skill_validate_err option" where
  "Skill_Validate s = (case mcp_servers_error 0 [] (sf_mcp_servers (sl_frontmatter s)) of
       Some e \<Rightarrow> Some e
     | None \<Rightarrow> if sf_max_turns (sl_frontmatter s) < 0 then Some SkillMaxTurnsNegative else None)"

section \<open>Include directives\<close>

text \<open>
  A match of the include pattern at the start of a string: the path and what follows. No part
  of the pattern can match in two ways, so the matching is greedy without backtracking.
\<close>

definition match_include :: "string \<Rightarrow> (string \<times> string) option" where
  "match_include s =
     (if \<not> has_prefix s ''{{'' then None
      else let s1 = dropWhile re_space (drop 2 s) in
        if \<not> has_prefix s1 ''include'' then None
        else let s2 = drop 7 s1; s3 = dropWhile re_space s2 in
          if length s3 = length s2 \<or> \<not> has_prefix s3 [CHR 0x22] then None
          else let quoted = tl s3;
                   rel = takeWhile (\<lambda>c. c \<noteq> CHR 0x22) quoted;
                   s4 = dropWhile (\<lambda>c. c \<noteq> CHR 0x22) quoted in
            if rel = [] \<or> s4 = [] then None
            else let s5 = dropWhile re_space (tl s4) in
              if has_prefix s5 ''}}'' then Some (rel, drop 2 s5) else None)"

datatype include_err = IncludeAbsolute string | IncludeOutside string | IncludeRead string

definition include_file :: "(string \<Rightarrow> string option) \<Rightarrow> string \<Rightarrow> string \<Rightarrow> include_err + string" where
  "include_file read_file absRoot rel =
     (if IsAbs rel then Inl (IncludeAbsolute rel)
      else let cleaned = Join absRoot rel in
        if \<not> inside_root absRoot cleaned then Inl (IncludeOutside rel)
        else case read_file cleaned of None \<Rightarrow> Inl (IncludeRead rel) | Some data \<Rightarrow> Inr data)"

lemma match_include_shorter: "match_include s = Some (rel, rest) \<Longrightarrow> length rest < length s"
proof -
  assume m: "match_include s = Some (rel, rest)"
  define s1 where "s1 = dropWhile re_space (drop 2 s)"
  define s3 where "s3 = dropWhile re_space (drop 7 s1)"
  define s4 where "s4 = dropWhile (\<lambda>c. c \<noteq> CHR 0x22) (tl s3)"
  have "rest = drop 2 (dropWhile re_space (tl s4))" "has_prefix s ''{{''"
    using m by (auto simp: match_include_def Let_def s1_def s3_def s4_def split: if_splits)
  moreover have "length (dropWhile re_space xs) \<le> length xs" for xs by (rule length_dropWhile_le)
  moreover have "length s4 \<le> length (tl s3)" unfolding s4_def by (rule length_dropWhile_le)
  moreover have "length s3 \<le> length s1" unfolding s3_def by (metis length_drop length_dropWhile_le diff_le_self order.trans)
  moreover have "length s1 \<le> length s - 2" unfolding s1_def by (metis length_drop length_dropWhile_le)
  moreover have "2 \<le> length s" using calculation(2) by (auto simp: has_prefix_iff)
  moreover have "length rest \<le> length s4"
    unfolding \<open>rest = _\<close> by (metis diff_le_self length_drop length_dropWhile_le length_tl order.trans)
  ultimately show ?thesis by (simp add: length_tl)
qed

function resolve_from :: "(string \<Rightarrow> string option) \<Rightarrow> string \<Rightarrow> string \<Rightarrow> include_err + string" where
  "resolve_from read_file absRoot [] = Inr []"
| "resolve_from read_file absRoot (c # cs) = (case match_include (c # cs) of
       Some (rel, rest) \<Rightarrow>
         (case include_file read_file absRoot rel of
            Inl e \<Rightarrow> Inl e
          | Inr data \<Rightarrow> (case resolve_from read_file absRoot rest of Inl e \<Rightarrow> Inl e | Inr s \<Rightarrow> Inr (data @ s)))
     | None \<Rightarrow> (case resolve_from read_file absRoot cs of Inl e \<Rightarrow> Inl e | Inr s \<Rightarrow> Inr (c # s)))"
  by pat_completeness auto
termination
  by (relation "measure (\<lambda>(rf, root, s). length s)") (auto dest: match_include_shorter)

text \<open>\<open>absRoot\<close> is the absolute form of the root, as filepath.Abs returns it.\<close>

definition ResolveIncludes :: "(string \<Rightarrow> string option) \<Rightarrow> string \<Rightarrow> string \<Rightarrow> include_err + string" where
  "ResolveIncludes read_file absRoot body = resolve_from read_file absRoot body"

end
