(* ===== verification/Sync.thy ===== *)
theory Sync
  imports Config Scheduler
begin

text \<open>
  The repository sync pass (internal/sync): load the manifest and the skill files of a
  checkout, reconcile the skill and schedule tables with them in one transaction, and record
  the outcome on the repository connection. GitHub, the clone, the YAML library and the text
  of an error are parameters.
\<close>

section \<open>Loading a checkout\<close>

datatype load_err =
    ReadManifest
  | ParseManifestErr
  | ValidateManifest config_err
  | SkillEscapes string
  | ReadSkill string
  | ParseSkill string skill_err

record yaml_lib =
  yaml_manifest :: "string \<Rightarrow> manifest option"
  yaml_frontmatter :: "string \<Rightarrow> skill_frontmatter option"

definition ParseManifest :: "yaml_lib \<Rightarrow> string \<Rightarrow> manifest option" where
  "ParseManifest Y data = yaml_manifest Y data"

primrec load_skills ::
  "yaml_lib \<Rightarrow> (string \<Rightarrow> string option) \<Rightarrow> string \<Rightarrow> skill_entry list \<Rightarrow> load_err + (string \<times> skill) list" where
  "load_skills Y read_file absRoot [] = Inr []"
| "load_skills Y read_file absRoot (entry # rest) =
     (let abs = Join absRoot (se_path entry) in
      if \<not> inside_root absRoot abs then Inl (SkillEscapes (se_path entry))
      else case read_file (Join abs ''SKILL.md'') of
        None \<Rightarrow> Inl (ReadSkill (se_path entry))
      | Some data \<Rightarrow>
        (case ParseSkillFile (yaml_frontmatter Y) data of
           Inl e \<Rightarrow> Inl (ParseSkill (se_path entry) e)
         | Inr sk \<Rightarrow>
           (case load_skills Y read_file absRoot rest of
              Inl e \<Rightarrow> Inl e
            | Inr sks \<Rightarrow> Inr ((se_path entry, sk) # sks))))"

text \<open>The root is absolute and clean, as filepath.Abs leaves it.\<close>

definition LoadManifest ::
  "yaml_lib \<Rightarrow> (string \<Rightarrow> string option) \<Rightarrow> string \<Rightarrow> load_err + (manifest \<times> (string \<times> skill) list)" where
  "LoadManifest Y read_file absRoot = (case read_file (Join absRoot ''cronfoundry.yaml'') of
       None \<Rightarrow> Inl ReadManifest
     | Some bytes \<Rightarrow>
       (case ParseManifest Y bytes of
          None \<Rightarrow> Inl ParseManifestErr
        | Some m \<Rightarrow>
          (case Manifest_Validate m of
             Some e \<Rightarrow> Inl (ValidateManifest e)
           | None \<Rightarrow>
             (case load_skills Y read_file absRoot (mf_skills m) of
                Inl e \<Rightarrow> Inl e
              | Inr sks \<Rightarrow> Inr (m, sks)))))"

section \<open>Reconciling the tables\<close>

datatype upsert_err =
    UpsertBegin db_err
  | UpsertCommit db_err
  | MissingSkill string
  | UpsertSkillErr string db_err
  | DeleteMissingErr db_err
  | McpFoundry string string
  | McpEnvMissing string string string
  | McpEnvUndeclared string string string
  | McpEnvWithoutServers string string
  | MaxTurnsTooBig string string int
  | AutoPauseTooBig string string int
  | NextFireErr string string cron_err
  | UpsertScheduleErr string string db_err
  | DisableMissingErr string db_err

definition initialNextFireAt :: "libs \<Rightarrow> time \<Rightarrow> string \<Rightarrow> string \<Rightarrow> cron_err + time option" where
  "initialNextFireAt L now cronExpr timezone = (case NextFire L cronExpr timezone now of
       Inl e \<Rightarrow> Inl e
     | Inr t \<Rightarrow> Inr (Some t))"

text \<open>Cross-file validation of the declared MCP servers against the schedule's mcp_env.\<close>

definition mcp_env_error :: "string \<Rightarrow> skill \<Rightarrow> schedule \<Rightarrow> upsert_err option" where
  "mcp_env_error path sk sch =
     (let servers = map ms_name (sf_mcp_servers (sl_frontmatter sk)); env = map fst (sc_mcp_env sch) in
      if servers \<noteq> [] then
        (if sc_provider sch = ''azure-foundry'' then Some (McpFoundry path (sc_name sch))
         else case find (\<lambda>n. n \<notin> set env) servers of
           Some n \<Rightarrow> Some (McpEnvMissing path (sc_name sch) n)
         | None \<Rightarrow> map_option (McpEnvUndeclared path (sc_name sch)) (find (\<lambda>n. n \<notin> set servers) env))
      else if env \<noteq> [] then Some (McpEnvWithoutServers path (sc_name sch))
      else None)"

definition mcp_env_json :: "schedule \<Rightarrow> json" where
  "mcp_env_json sch = (if sc_mcp_env sch = [] then JObj []
     else map_json (map_json env_value_json) (Some (sc_mcp_env sch)))"

definition schedule_params ::
  "libs \<Rightarrow> time \<Rightarrow> uuid \<Rightarrow> uuid \<Rightarrow> string \<Rightarrow> skill \<Rightarrow> schedule \<Rightarrow> upsert_err + upsert_schedule_params" where
  "schedule_params L now orgID skillID path sk sch = (case mcp_env_error path sk sch of
       Some e \<Rightarrow> Inl e
     | None \<Rightarrow>
       if 2147483647 < sc_max_turns sch then Inl (MaxTurnsTooBig path (sc_name sch) (sc_max_turns sch))
       else if (case sc_auto_pause_after sch of Some n \<Rightarrow> 2147483647 < n | None \<Rightarrow> False)
       then Inl (AutoPauseTooBig path (sc_name sch) (the (sc_auto_pause_after sch)))
       else
         let timeoutSec = (if sc_timeout_sec sch = 0 then 600 else sc_timeout_sec sch);
             timezone = (if sc_timezone sch = [] then ''UTC'' else sc_timezone sch) in
         (case initialNextFireAt L now (sc_cron sch) timezone of
            Inl e \<Rightarrow> Inl (NextFireErr path (sc_name sch) e)
          | Inr nextFire \<Rightarrow> Inr \<lparr>us_org_id = orgID, us_skill_id = skillID, us_name = sc_name sch, us_cron = sc_cron sch,
              us_timezone = timezone, us_overlap_policy = EffectiveOverlapPolicy sch, us_timeout_sec = int32 timeoutSec,
              us_enabled = True, us_provider = sc_provider sch, us_model = sc_model sch, us_llm_secret_ref = None,
              us_llm_endpoint = None, us_llm_deployment = None,
              us_destinations_json = list_json destination_json (sc_destinations sch),
              us_writeback_json = map_option writeback_json (sc_writeback sch),
              us_env_json = map_json env_value_json (sc_env sch),
              us_auto_pause_after = map_option int32 (sc_auto_pause_after sch),
              us_mcp_env_json = mcp_env_json sch,
              us_max_turns = (if 0 < sc_max_turns sch then Some (int32 (sc_max_turns sch)) else None),
              us_copilot_token_refs_json = (if sc_provider sch = ''copilot-enterprise'' \<and> sc_copilot_prefix sch \<noteq> []
                then Some (JObj [(''prefix'', JStr (sc_copilot_prefix sch))]) else None),
              us_next_fire_at = nextFire\<rparr>))"

primrec upsert_schedules ::
  "libs \<Rightarrow> uuid \<Rightarrow> uuid \<Rightarrow> string \<Rightarrow> skill \<Rightarrow> schedule list \<Rightarrow> (world, upsert_err, unit) sx" where
  "upsert_schedules L orgID skillID path sk [] = ret ()"
| "upsert_schedules L orgID skillID path sk (sch # rest) =
     bind (gets (\<lambda>w. clock_at w (stmt_ctr w))) (\<lambda>now.
     case schedule_params L now orgID skillID path sk sch of
       Inl e \<Rightarrow> throw e
     | Inr p \<Rightarrow>
       bind (map_err (UpsertScheduleErr path (sc_name sch)) (UpsertSchedule p)) (\<lambda>_.
       upsert_schedules L orgID skillID path sk rest))"

primrec upsert_skills ::
  "uuid \<Rightarrow> uuid \<Rightarrow> (string \<times> skill) list \<Rightarrow> string \<Rightarrow> skill_entry list \<Rightarrow>
   (string \<times> uuid) list \<Rightarrow> (world, upsert_err, (string \<times> uuid) list) sx" where
  "upsert_skills orgID repoID skls sha [] ids = ret ids"
| "upsert_skills orgID repoID skls sha (entry # rest) ids = (case map_of skls (se_path entry) of
       None \<Rightarrow> throw (MissingSkill (se_path entry))
     | Some sk \<Rightarrow>
       bind (map_err (UpsertSkillErr (se_path entry)) (UpsertSkill \<lparr>uk_org_id = orgID, uk_repo_id = repoID,
         uk_path = se_path entry, uk_name = sf_name (sl_frontmatter sk), uk_current_sha = sha,
         uk_frontmatter_json = frontmatter_json (sl_frontmatter sk)\<rparr>)) (\<lambda>row.
       upsert_skills orgID repoID skls sha rest ((se_path entry, sk_id row) # ids)))"

text \<open>The nil identifier stands for a missing key of the map, which the loop before rules out.\<close>

definition upsert_entry ::
  "libs \<Rightarrow> uuid \<Rightarrow> (string \<times> skill) list \<Rightarrow> (string \<times> uuid) list \<Rightarrow> skill_entry \<Rightarrow> (world, upsert_err, unit) sx" where
  "upsert_entry L orgID skls ids entry =
     (let skillID = (case map_of ids (se_path entry) of Some i \<Rightarrow> i | None \<Rightarrow> 0) in
      case map_of skls (se_path entry) of
        None \<Rightarrow> throw (MissingSkill (se_path entry))
      | Some sk \<Rightarrow>
        bind (upsert_schedules L orgID skillID (se_path entry) sk (se_schedules entry)) (\<lambda>_.
        map_err (DisableMissingErr (se_path entry)) (DisableMissingSchedules skillID (map sc_name (se_schedules entry)))))"

definition UpsertSkillsAndSchedules ::
  "libs \<Rightarrow> uuid \<Rightarrow> uuid \<Rightarrow> manifest \<Rightarrow> (string \<times> skill) list \<Rightarrow> string \<Rightarrow> (world, upsert_err, unit) sx" where
  "UpsertSkillsAndSchedules L orgID repoID m skls sha =
     in_tx UpsertBegin UpsertCommit
       (bind (upsert_skills orgID repoID skls sha (mf_skills m) []) (\<lambda>ids.
        bind (map_err DeleteMissingErr (DeleteMissingSkills repoID (map se_path (mf_skills m)))) (\<lambda>_.
        for_each (mf_skills m) (upsert_entry L orgID skls ids))))"

section \<open>One sync pass\<close>

datatype sync_err =
    LoadConn db_err
  | InstallToken string
  | HeadCheck string
  | TempDir
  | CloneErr string
  | LoadErr load_err
  | UpsertErr upsert_err
  | MarkErr db_err

record sync_deps =
  sy_libs :: libs
  sy_yaml :: yaml_lib
  sy_installations :: "int \<Rightarrow> string + string"
  sy_branch_head :: "string \<Rightarrow> string \<Rightarrow> string \<Rightarrow> string \<Rightarrow> string + string"
  sy_mkdir_temp :: "string option"
  sy_clone_url_for :: "string \<Rightarrow> string \<Rightarrow> string"
  sy_clone :: "string \<Rightarrow> string \<Rightarrow> string \<Rightarrow> string + (string \<Rightarrow> string option)"
  sy_err_text :: "sync_err \<Rightarrow> string"

definition default_clone_url :: "string \<Rightarrow> string \<Rightarrow> string" where
  "default_clone_url owner name = ''https://github.com/'' @ owner @ ''/'' @ name @ ''.git''"

definition markErr :: "sync_deps \<Rightarrow> uuid \<Rightarrow> sync_err \<Rightarrow> (world, sync_err, 'a) sx" where
  "markErr deps connID err =
     bind (attempt (MarkRepoSyncError connID (Some (sy_err_text deps err)))) (\<lambda>_. throw err)"

definition sync_checkout ::
  "sync_deps \<Rightarrow> uuid \<Rightarrow> repo_row \<Rightarrow> string \<Rightarrow> string \<Rightarrow> (world, sync_err, unit) sx" where
  "sync_checkout deps connID row tok headSHA = (case sy_mkdir_temp deps of
       None \<Rightarrow> markErr deps connID TempDir
     | Some tmp \<Rightarrow>
       (case sy_clone deps (sy_clone_url_for deps (rc_owner row) (rc_name row)) tok headSHA of
          Inl e \<Rightarrow> markErr deps connID (CloneErr e)
        | Inr read_file \<Rightarrow>
          (case LoadManifest (sy_yaml deps) read_file (Clean (tmp @ ''/repo'')) of
             Inl e \<Rightarrow> markErr deps connID (LoadErr e)
           | Inr (m, skls) \<Rightarrow>
             bind (attempt (UpsertSkillsAndSchedules (sy_libs deps) (rc_org_id row) connID m skls headSHA)) (\<lambda>res.
             case res of
               Inl e \<Rightarrow> markErr deps connID (UpsertErr e)
             | Inr _ \<Rightarrow> map_err MarkErr (MarkRepoSyncedOK connID (Some headSHA))))))"

definition SyncOne :: "sync_deps \<Rightarrow> uuid \<Rightarrow> (world, sync_err, unit) sx" where
  "SyncOne deps connID =
     bind (map_err LoadConn (GetRepoConnection connID)) (\<lambda>row.
     case sy_installations deps (rc_github_app_install_id row) of
       Inl e \<Rightarrow> markErr deps connID (InstallToken e)
     | Inr tok \<Rightarrow>
       (case sy_branch_head deps tok (rc_owner row) (rc_name row) (rc_default_branch row) of
          Inl e \<Rightarrow> markErr deps connID (HeadCheck e)
        | Inr headSHA \<Rightarrow>
          if rc_last_synced_head_sha row = Some headSHA
          then map_err MarkErr (MarkRepoSyncedOK connID (Some headSHA))
          else sync_checkout deps connID row tok headSHA))"

section \<open>The store interface\<close>

context sync_rel
begin

lemma upsert_schedules_keeps: "keeps R (upsert_schedules L org sk path s schs)"
proof (induction schs)
  case Nil
  show ?case unfolding upsert_schedules.simps by (rule ret_keeps)
next
  case (Cons sch schs)
  show ?case unfolding upsert_schedules.simps
    by (intro bind_keeps gets_keeps) (auto intro!: sync_rules Cons.IH split: sum.split)
qed

lemma upsert_skills_keeps: "keeps R (upsert_skills org repo skls sha es ids)"
  by (induction es arbitrary: ids) (auto intro!: sync_rules split: option.split)

lemma upsert_entry_keeps: "keeps R (upsert_entry L org skls ids e)"
  unfolding upsert_entry_def Let_def
  by (auto intro!: sync_rules upsert_schedules_keeps split: option.split)

lemma Upsert_keeps: "keeps R (UpsertSkillsAndSchedules L org repo m skls sha)"
  unfolding UpsertSkillsAndSchedules_def
  by (intro sync_rules upsert_skills_keeps upsert_entry_keeps)

lemma markErr_keeps: "keeps R (markErr deps i e)"
  unfolding markErr_def by (intro sync_rules)

lemma SyncOne_keeps: "keeps R (SyncOne deps i)"
  unfolding SyncOne_def sync_checkout_def
  by (auto intro!: sync_rules markErr_keeps Upsert_keeps split: sum.split option.split prod.split)

end

end
