(* ===== verification/Sync_Props.thy ===== *)
theory Sync_Props
  imports Sync Store_Inv
begin

text \<open>
  What a sync pass achieves: the skills of a repository and the enabled schedules of each skill
  become exactly those of the manifest, each with a fire time, or nothing changes at all.
\<close>

section \<open>Views of the tables\<close>

definition skill_key :: "skill_row \<Rightarrow> uuid \<times> string \<times> uuid" where
  "skill_key k = (sk_id k, sk_path k, sk_repo_id k)"

definition repo_skills :: "world \<Rightarrow> uuid \<Rightarrow> (uuid \<times> string) set" where
  "repo_skills w repo = {(i, p). (i, p, repo) \<in> skill_key ` set (skills w)}"

definition enabled_names :: "world \<Rightarrow> uuid \<Rightarrow> string set" where
  "enabled_names w sk = {n. \<exists>s \<in> set (schedules w). sch_skill_id s = sk \<and> sch_name s = n \<and> sch_enabled s}"

text \<open>Every enabled schedule of the skill has a fire time, so the scheduler will find it due.\<close>

definition armed_schedules :: "world \<Rightarrow> uuid \<Rightarrow> string set \<Rightarrow> bool" where
  "armed_schedules w sk names \<longleftrightarrow>
     (\<forall>s \<in> set (schedules w). sch_skill_id s = sk \<and> sch_name s \<in> names \<longrightarrow> sch_next_fire_at s \<noteq> None)"

lemma UpsertSkill_Inr:
  assumes "UpsertSkill p w = (Inr row, w')"
  shows "(sk_id row, uk_path p) \<in> repo_skills w' (uk_repo_id p)"
    and "repo_skills w (uk_repo_id p) \<subseteq> repo_skills w' (uk_repo_id p)"
    and "snd ` repo_skills w' (uk_repo_id p) \<subseteq> insert (uk_path p) (snd ` repo_skills w (uk_repo_id p))"
    and "schedules w' = schedules w"
proof -
  let ?key = "\<lambda>k. sk_repo_id k = uk_repo_id p \<and> sk_path k = uk_path p"
  let ?w = "w\<lparr>stmt_ctr := Suc (stmt_ctr w)\<rparr>"
  let ?upd = "\<lambda>k. k\<lparr>sk_name := uk_name p, sk_current_sha := uk_current_sha p,
     sk_frontmatter_json := uk_frontmatter_json p, sk_updated_at := now_at ?w\<rparr>"
  have "((sk_id row, uk_path p) \<in> repo_skills w' (uk_repo_id p) \<and>
      repo_skills w (uk_repo_id p) \<subseteq> repo_skills w' (uk_repo_id p)) \<and>
      snd ` repo_skills w' (uk_repo_id p) \<subseteq> insert (uk_path p) (snd ` repo_skills w (uk_repo_id p)) \<and>
      schedules w' = schedules w"
  proof (cases "find ?key (skills w)")
    case (Some k)
    have k: "k \<in> set (skills w)" "?key k" using find_Some_in [OF Some] by auto
    have w': "row = ?upd k" "skills w' = update_where ?key ?upd (skills w)" "schedules w' = schedules w"
      using assms Some by (auto simp: UpsertSkill_def stmt_def Let_def split: if_splits)
    have "skill_key ` set (skills w') = skill_key ` set (skills w)"
      unfolding w'(2) by (rule image_update_where) (simp add: skill_key_def)
    then have same: "repo_skills w' (uk_repo_id p) = repo_skills w (uk_repo_id p)" by (simp add: repo_skills_def)
    have "(sk_id row, uk_path p, uk_repo_id p) \<in> skill_key ` set (skills w)"
      using k w'(1) by (auto simp: skill_key_def image_iff)
    then show ?thesis using same w'(3) by (auto simp: repo_skills_def)
  next
    case None
    have "skills w' = skills w @ [row]" "sk_repo_id row = uk_repo_id p" "sk_path row = uk_path p" "schedules w' = schedules w"
      using assms None by (auto simp: UpsertSkill_def stmt_def Let_def split: if_splits)
    then show ?thesis by (auto simp: repo_skills_def skill_key_def)
  qed
  then show "(sk_id row, uk_path p) \<in> repo_skills w' (uk_repo_id p)"
    and "repo_skills w (uk_repo_id p) \<subseteq> repo_skills w' (uk_repo_id p)"
    and "snd ` repo_skills w' (uk_repo_id p) \<subseteq> insert (uk_path p) (snd ` repo_skills w (uk_repo_id p))"
    and "schedules w' = schedules w" by blast+
qed

text \<open>The rows after an upsert: every other row is kept, the named one is enabled and armed.\<close>

lemma UpsertSchedule_rows:
  assumes "UpsertSchedule p w = (Inr row, w')" "us_enabled p" "us_next_fire_at p \<noteq> None"
  shows "skills w' = skills w"
    and "\<exists>s \<in> set (schedules w'). sched_key (us_skill_id p) (us_name p) s"
    and "s \<in> set (schedules w') \<Longrightarrow> sched_key (us_skill_id p) (us_name p) s \<Longrightarrow> sch_enabled s \<and> sch_next_fire_at s \<noteq> None"
    and "\<not> sched_key (us_skill_id p) (us_name p) s \<Longrightarrow> s \<in> set (schedules w') \<longleftrightarrow> s \<in> set (schedules w)"
proof -
  let ?key = "sched_key (us_skill_id p) (us_name p)"
  let ?f = "upserted_schedule (now_at (w\<lparr>stmt_ctr := Suc (stmt_ctr w)\<rparr>)) p"
  have key: "?key (?f s) = ?key s" for s by (simp add: sched_key_def upserted_schedule_def)
  have f: "sch_enabled (?f s) \<and> sch_next_fire_at (?f s) \<noteq> None" for s
    using assms(2,3) by (simp add: upserted_schedule_def)
  show "skills w' = skills w"
    using assms(1) by (auto simp: UpsertSchedule_def stmt_def Let_def split: if_splits option.splits)
  have cases: "(\<exists>q. find ?key (schedules w) = Some q \<and> schedules w' = update_where ?key ?f (schedules w)) \<or>
      (find ?key (schedules w) = None \<and> schedules w' = schedules w @
        [new_schedule (uuid_gen w (uuid_ctr w)) (now_at (w\<lparr>stmt_ctr := Suc (stmt_ctr w)\<rparr>)) p])"
    using assms(1) by (auto simp: UpsertSchedule_def stmt_def Let_def split: if_splits option.splits)
  have new: "?key (new_schedule i t p) \<and> sch_enabled (new_schedule i t p) \<and> sch_next_fire_at (new_schedule i t p) \<noteq> None" for i t
    using assms(2,3) by (simp add: sched_key_def new_schedule_def)
  show "\<exists>s \<in> set (schedules w'). ?key s"
    using cases
  proof
    assume "\<exists>q. find ?key (schedules w) = Some q \<and> schedules w' = update_where ?key ?f (schedules w)"
    then obtain q where q: "find ?key (schedules w) = Some q" "schedules w' = update_where ?key ?f (schedules w)" by blast
    have "q \<in> set (schedules w)" "?key q" using find_Some_in [OF q(1)] by auto
    then have "?f q \<in> set (schedules w')" by (auto simp: q(2) update_where_def)
    then show ?thesis using key \<open>?key q\<close> by blast
  next
    assume "find ?key (schedules w) = None \<and> schedules w' = schedules w @
        [new_schedule (uuid_gen w (uuid_ctr w)) (now_at (w\<lparr>stmt_ctr := Suc (stmt_ctr w)\<rparr>)) p]"
    then show ?thesis using new by auto
  qed
  show "sch_enabled s \<and> sch_next_fire_at s \<noteq> None" if "s \<in> set (schedules w')" "?key s"
    using cases that new f by (auto simp: update_where_def find_None_notin split: if_splits)
  show "s \<in> set (schedules w') \<longleftrightarrow> s \<in> set (schedules w)" if "\<not> ?key s"
    using cases that new key by (auto simp: update_where_def image_iff split: if_splits)
qed

lemma UpsertSchedule_views:
  assumes "UpsertSchedule p w = (Inr row, w')" "us_enabled p" "us_next_fire_at p \<noteq> None"
  shows "enabled_names w' (us_skill_id p) = insert (us_name p) (enabled_names w (us_skill_id p))"
    and "sk \<noteq> us_skill_id p \<Longrightarrow> enabled_names w' sk = enabled_names w sk"
    and "armed_schedules w (us_skill_id p) names \<Longrightarrow> armed_schedules w' (us_skill_id p) (insert (us_name p) names)"
    and "sk \<noteq> us_skill_id p \<Longrightarrow> armed_schedules w sk names \<Longrightarrow> armed_schedules w' sk names"
proof -
  note rows = UpsertSchedule_rows [OF assms]
  show "enabled_names w' (us_skill_id p) = insert (us_name p) (enabled_names w (us_skill_id p))"
  proof (intro set_eqI iffI)
    fix n
    assume "n \<in> enabled_names w' (us_skill_id p)"
    then obtain s where s: "s \<in> set (schedules w')" "sch_skill_id s = us_skill_id p" "sch_name s = n" "sch_enabled s"
      by (auto simp: enabled_names_def)
    show "n \<in> insert (us_name p) (enabled_names w (us_skill_id p))"
    proof (cases "n = us_name p")
      case False
      then have "s \<in> set (schedules w)" using rows(4) [of s] s by (simp add: sched_key_def)
      then show ?thesis using s by (auto simp: enabled_names_def)
    qed simp
  next
    fix n
    assume n: "n \<in> insert (us_name p) (enabled_names w (us_skill_id p))"
    show "n \<in> enabled_names w' (us_skill_id p)"
    proof (cases "n = us_name p")
      case True
      then show ?thesis using rows(2,3) by (auto simp: enabled_names_def sched_key_def)
    next
      case False
      with n obtain s where s: "s \<in> set (schedules w)" "sch_skill_id s = us_skill_id p" "sch_name s = n" "sch_enabled s"
        by (auto simp: enabled_names_def)
      then have "s \<in> set (schedules w')" using rows(4) [of s] False by (simp add: sched_key_def)
      then show ?thesis using s by (auto simp: enabled_names_def)
    qed
  qed
  show "enabled_names w' sk = enabled_names w sk" if "sk \<noteq> us_skill_id p"
    using rows(4) that unfolding enabled_names_def sched_key_def by metis
  show "armed_schedules w' (us_skill_id p) (insert (us_name p) names)" if "armed_schedules w (us_skill_id p) names"
    using rows(3,4) that unfolding armed_schedules_def sched_key_def by (metis insert_iff)
  show "armed_schedules w' sk names" if "sk \<noteq> us_skill_id p" "armed_schedules w sk names"
    using rows(4) that unfolding armed_schedules_def sched_key_def by metis
qed

section \<open>The loops\<close>

lemma schedule_params_Inr:
  assumes "schedule_params L now org skid path sk sch = Inr p"
  shows "us_skill_id p = skid \<and> us_name p = sc_name sch \<and> us_enabled p \<and> us_next_fire_at p \<noteq> None"
  using assms
  by (auto simp: schedule_params_def initialNextFireAt_def Let_def split: option.splits if_splits sum.splits)

lemma upsert_schedules_views:
  assumes "upsert_schedules L org skid path sk schs w = (Inr u, w')" "armed_schedules w skid names"
  shows "enabled_names w' skid = enabled_names w skid \<union> sc_name ` set schs \<and>
    armed_schedules w' skid (names \<union> sc_name ` set schs) \<and> skills w' = skills w \<and>
    (\<forall>k. k \<noteq> skid \<longrightarrow> enabled_names w' k = enabled_names w k \<and> (\<forall>ns. armed_schedules w k ns \<longrightarrow> armed_schedules w' k ns))"
  using assms
proof (induction schs arbitrary: w names)
  case Nil
  then show ?case by simp
next
  case (Cons sch schs)
  from Cons.prems(1) obtain p where sp: "schedule_params L (clock_at w (stmt_ctr w)) org skid path sk sch = Inr p"
    by (auto split: sum.splits)
  from Cons.prems(1) obtain row w1 where u: "UpsertSchedule p w = (Inr row, w1)"
    and k: "upsert_schedules L org skid path sk schs w1 = (Inr u, w')"
    by (auto simp: sp bind_eq_Inr_iff dest!: map_err_eq_Inr)
  have p: "us_skill_id p = skid" "us_name p = sc_name sch" "us_enabled p" "us_next_fire_at p \<noteq> None"
    using schedule_params_Inr [OF sp] by auto
  note v = UpsertSchedule_views [OF u p(3,4)] UpsertSchedule_rows(1) [OF u p(3,4)]
  have v1: "enabled_names w1 skid = insert (sc_name sch) (enabled_names w skid)"
    "armed_schedules w1 skid (insert (sc_name sch) names)"
    using v(1,3) Cons.prems(2) p(1,2) by simp_all
  from Cons.IH [OF k v1(2)] show ?case using v1(1) v(2,4,5) p(1) by (simp add: insert_commute Un_insert_left)
qed

lemma DisableMissing_views:
  assumes "DisableMissingSchedules skid names w = (Inr u, w')"
  shows "enabled_names w' skid = enabled_names w skid \<inter> set names"
    and "armed_schedules w k ns \<Longrightarrow> armed_schedules w' k ns"
    and "k \<noteq> skid \<Longrightarrow> enabled_names w' k = enabled_names w k"
    and "skills w' = skills w"
proof -
  let ?p = "\<lambda>s. sch_skill_id s = skid \<and> sch_enabled s \<and> sch_name s \<notin> set names"
  let ?f = "\<lambda>s. s\<lparr>sch_enabled := False, sch_updated_at := now_at (w\<lparr>stmt_ctr := Suc (stmt_ctr w)\<rparr>)\<rparr>"
  have w': "schedules w' = update_where ?p ?f (schedules w)" "skills w' = skills w"
    using assms by (auto simp: DisableMissingSchedules_def stmt_def split: if_splits)
  define g :: "sched_row \<Rightarrow> sched_row" where "g = (\<lambda>q. if ?p q then ?f q else q)"
  have g: "sch_skill_id (g q) = sch_skill_id q" "sch_name (g q) = sch_name q" "sch_next_fire_at (g q) = sch_next_fire_at q"
    "sch_enabled (g q) \<longleftrightarrow> sch_enabled q \<and> \<not> ?p q" for q
    by (simp_all add: g_def)
  have rows: "set (schedules w') = g ` set (schedules w)"
    by (simp add: w'(1) update_where_def g_def)
  show "enabled_names w' skid = enabled_names w skid \<inter> set names"
    unfolding enabled_names_def rows by (auto simp: g)
  show "armed_schedules w k ns \<Longrightarrow> armed_schedules w' k ns"
    unfolding armed_schedules_def rows by (simp add: g)
  show "k \<noteq> skid \<Longrightarrow> enabled_names w' k = enabled_names w k"
    unfolding enabled_names_def rows by (auto simp: g)
  show "skills w' = skills w" by (rule w'(2))
qed

definition entry_done :: "world \<Rightarrow> uuid \<Rightarrow> skill_entry \<Rightarrow> bool" where
  "entry_done w skid e \<longleftrightarrow> enabled_names w skid = sc_name ` set (se_schedules e) \<and>
     armed_schedules w skid (sc_name ` set (se_schedules e))"

lemma upsert_entry_done:
  assumes "upsert_entry L org skls ids e w = (Inr u, w')" "map_of ids (se_path e) = Some skid"
  shows "entry_done w' skid e \<and> skills w' = skills w \<and>
    (\<forall>k d. k \<noteq> skid \<longrightarrow> entry_done w k d \<longrightarrow> entry_done w' k d)"
proof -
  from assms obtain sk where sk: "map_of skls (se_path e) = Some sk"
    by (auto simp: upsert_entry_def split: option.splits)
  from assms obtain v w1 where u: "upsert_schedules L org skid (se_path e) sk (se_schedules e) w = (Inr v, w1)"
    and d: "DisableMissingSchedules skid (map sc_name (se_schedules e)) w1 = (Inr u, w')"
    by (auto simp: upsert_entry_def sk bind_eq_Inr_iff dest!: map_err_eq_Inr)
  have a: "armed_schedules w skid {}" by (simp add: armed_schedules_def)
  note us = upsert_schedules_views [OF u a] and dm = DisableMissing_views [OF d]
  have "enabled_names w' skid = sc_name ` set (se_schedules e)"
    using us dm(1) by auto
  moreover have "armed_schedules w' skid (sc_name ` set (se_schedules e))" using us dm(2) by simp
  moreover have "entry_done w' k dd" if "k \<noteq> skid" "entry_done w k dd" for k dd
    using that us dm(2,3) by (simp add: entry_done_def)
  ultimately show ?thesis using us dm(4) by (simp add: entry_done_def)
qed

lemma upsert_entries_done:
  assumes "for_each es (upsert_entry L org skls ids) w = (Inr u, w')"
    "\<forall>e \<in> set es. map_of ids (se_path e) = Some (idf e)" "inj_on idf (set es \<union> set prev)" "distinct (prev @ es)"
    "\<forall>e \<in> set prev. entry_done w (idf e) e"
  shows "(\<forall>e \<in> set (prev @ es). entry_done w' (idf e) e) \<and> skills w' = skills w"
  using assms
proof (induction es arbitrary: w prev)
  case Nil
  then show ?case by simp
next
  case (Cons e es)
  from Cons.prems(1) obtain v w1 where u: "upsert_entry L org skls ids e w = (Inr v, w1)"
    and k: "for_each es (upsert_entry L org skls ids) w1 = (Inr u, w')"
    by (auto simp: bind_eq_Inr_iff)
  note d = upsert_entry_done [OF u, of "idf e"]
  have "idf x \<noteq> idf e" if "x \<in> set prev" for x
    using Cons.prems(3,4) that by (auto simp: inj_on_def)
  then have prev: "\<forall>x \<in> set (prev @ [e]). entry_done w1 (idf x) x"
    using d Cons.prems(2,5) by auto
  have "inj_on idf (set es \<union> set (prev @ [e]))"
    using Cons.prems(3) by (rule inj_on_subset) auto
  from Cons.IH [OF k _ this _ prev] Cons.prems(2,4) d show ?case by auto
qed

definition ids_ok :: "world \<Rightarrow> uuid \<Rightarrow> (string \<times> uuid) list \<Rightarrow> bool" where
  "ids_ok w repo ids \<longleftrightarrow> (\<forall>(p, i) \<in> set ids. (i, p) \<in> repo_skills w repo)"

lemma upsert_skills_ids:
  assumes "upsert_skills org repo skls sha es ids w = (Inr ids', w')" "ids_ok w repo ids"
  shows "ids_ok w' repo ids' \<and> fst ` set ids' = se_path ` set es \<union> fst ` set ids"
  using assms
proof (induction es arbitrary: ids w)
  case Nil
  then show ?case by simp
next
  case (Cons e es)
  from Cons.prems(1) obtain sk where sk: "map_of skls (se_path e) = Some sk"
    by (auto split: option.splits)
  let ?p = "\<lparr>uk_org_id = org, uk_repo_id = repo, uk_path = se_path e, uk_name = sf_name (sl_frontmatter sk),
    uk_current_sha = sha, uk_frontmatter_json = frontmatter_json (sl_frontmatter sk)\<rparr>"
  from Cons.prems(1) obtain row w1 where u: "UpsertSkill ?p w = (Inr row, w1)"
    and k: "upsert_skills org repo skls sha es ((se_path e, sk_id row) # ids) w1 = (Inr ids', w')"
    by (auto simp: sk bind_eq_Inr_iff dest!: map_err_eq_Inr)
  have "ids_ok w1 repo ((se_path e, sk_id row) # ids)"
    using UpsertSkill_Inr(1,2) [OF u] Cons.prems(2) by (auto simp: ids_ok_def)
  from Cons.IH [OF k this] show ?case by auto
qed

lemma DeleteMissing_skills:
  assumes "DeleteMissingSkills repo paths w = (Inr u, w')"
  shows "repo_skills w' repo = {(i, p) \<in> repo_skills w repo. p \<in> set paths}"
  using assms
  by (auto simp: DeleteMissingSkills_def stmt_def drop_skills_def drop_schedules_def drop_runs_def Let_def
      repo_skills_def skill_key_def image_iff split: if_splits)

lemma in_tx_body:
  assumes "in_tx be ce m w = (Inr a, w')"
  obtains w1 w2 where "pool_begin w = (Inr (), w1)" "m w1 = (Inr a, w2)" "skills w' = skills w2" "schedules w' = schedules w2"
proof -
  obtain w1 where b: "pool_begin w = (Inr (), w1)"
    using assms by (auto simp: in_tx_def pool_begin_def stmt_def map_err_def split: if_splits)
  obtain w2 where m: "m w1 = (Inr a, w2)" and c: "tx_commit w2 = (Inr (), w')"
    using assms b by (auto simp: in_tx_def map_err_def tx_commit_def stmt_def split: prod.splits sum.splits if_splits)
  show thesis using c by (intro that [OF b m]) (auto simp: tx_commit_def stmt_def split: if_splits)
qed

lemma repo_skills_iff:
  "(i, p) \<in> repo_skills w repo \<longleftrightarrow> (\<exists>k \<in> set (skills w). sk_id k = i \<and> sk_path k = p \<and> sk_repo_id k = repo)"
  by (auto simp: repo_skills_def skill_key_def image_iff)

lemma skills_unique:
  assumes "store_ok w" "k \<in> set (skills w)" "l \<in> set (skills w)"
    "sk_id k = sk_id l \<or> (sk_repo_id k = sk_repo_id l \<and> sk_path k = sk_path l)"
  shows "k = l"
proof -
  have d: "inj_on sk_id (set (skills w))" "inj_on (\<lambda>k. (sk_repo_id k, sk_path k)) (set (skills w))"
    using assms(1) by (simp_all add: store_ok_def keys_ok_def distinct_map)
  show ?thesis
    using assms(4) inj_onD [OF d(1) _ assms(2,3)] inj_onD [OF d(2) _ assms(2,3)] by auto
qed

lemma repo_skills_id_unique:
  assumes "store_ok w" "(i, p) \<in> repo_skills w repo" "(i, q) \<in> repo_skills w repo"
  shows "p = q"
proof -
  obtain k l where "k \<in> set (skills w)" "sk_id k = i" "sk_path k = p" "l \<in> set (skills w)" "sk_id l = i" "sk_path l = q"
    using assms(2,3) by (auto simp: repo_skills_iff)
  then show ?thesis using skills_unique [OF assms(1), of k l] by simp
qed

lemma repo_skills_path_unique:
  assumes "store_ok w" "(i, p) \<in> repo_skills w repo" "(j, p) \<in> repo_skills w repo"
  shows "i = j"
proof -
  obtain k l where "k \<in> set (skills w)" "sk_id k = i" "sk_path k = p" "sk_repo_id k = repo"
    "l \<in> set (skills w)" "sk_id l = j" "sk_path l = p" "sk_repo_id l = repo"
    using assms(2,3) by (auto simp: repo_skills_iff)
  then show ?thesis using skills_unique [OF assms(1), of k l] by simp
qed

lemma for_each_upsert_skills:
  assumes "for_each es (upsert_entry L org skls ids) w = (Inr u, w')"
    "\<And>e. e \<in> set es \<Longrightarrow> \<exists>i. map_of ids (se_path e) = Some i"
  shows "skills w' = skills w"
  using assms
proof (induction es arbitrary: w)
  case Nil
  then show ?case by simp
next
  case (Cons e es)
  from Cons.prems(1) obtain v w1 where "upsert_entry L org skls ids e w = (Inr v, w1)"
    "for_each es (upsert_entry L org skls ids) w1 = (Inr u, w')"
    by (auto simp: bind_eq_Inr_iff)
  moreover obtain i where "map_of ids (se_path e) = Some i" using Cons.prems(2) by auto
  ultimately show ?case using upsert_entry_done Cons.IH Cons.prems(2) by (metis list.set_intros(2))
qed

lemma sync_reconcile:
  assumes ok: "store_ok w" and run: "UpsertSkillsAndSchedules L org repo m skls sha w = (Inr u, w')"
    and dist: "distinct (map se_path (mf_skills m))"
  shows "snd ` repo_skills w' repo = se_path ` set (mf_skills m)"
    and "e \<in> set (mf_skills m) \<Longrightarrow> (i, se_path e) \<in> repo_skills w' repo \<Longrightarrow> entry_done w' i e"
proof -
  let ?es = "mf_skills m"
  have okw': "store_ok w'"
    using keepsD [OF ok.Upsert_keeps, of w L org repo m skls sha] run ok by (simp add: ok_step_def)
  from run [unfolded UpsertSkillsAndSchedules_def] obtain w1 w2 where
    body: "bind (upsert_skills org repo skls sha ?es []) (\<lambda>ids.
      bind (map_err DeleteMissingErr (DeleteMissingSkills repo (map se_path ?es))) (\<lambda>_.
      for_each ?es (upsert_entry L org skls ids))) w1 = (Inr u, w2)"
    and w2: "skills w' = skills w2" "schedules w' = schedules w2"
    by (rule in_tx_body)
  then obtain ids v1 x v2 where us: "upsert_skills org repo skls sha ?es [] w1 = (Inr ids, v1)"
    and del: "DeleteMissingSkills repo (map se_path ?es) v1 = (Inr x, v2)"
    and fe: "for_each ?es (upsert_entry L org skls ids) v2 = (Inr u, w2)"
    by (auto simp: bind_eq_Inr_iff dest!: map_err_eq_Inr)
  have ids: "ids_ok v1 repo ids" "fst ` set ids = se_path ` set ?es"
    using upsert_skills_ids [OF us] by (simp_all add: ids_ok_def)
  define idf where "idf e = the (map_of ids (se_path e))" for e :: skill_entry
  have lookup: "map_of ids (se_path e) = Some (idf e)" if "e \<in> set ?es" for e
  proof -
    have "se_path e \<in> fst ` set ids" using ids(2) that by simp
    then show ?thesis by (simp add: idf_def) (metis map_of_eq_None_iff option.exhaust_sel)
  qed
  have in_v2: "(idf e, se_path e) \<in> repo_skills v2 repo" if "e \<in> set ?es" for e
    using lookup [OF that] map_of_SomeD [of ids "se_path e" "idf e"] ids(1) that
    by (auto simp: DeleteMissing_skills [OF del] ids_ok_def)
  have sub: "snd ` repo_skills v2 repo \<subseteq> se_path ` set ?es"
    by (auto simp: DeleteMissing_skills [OF del])
  have "distinct ?es" using dist by (simp add: distinct_map)
  have skills2: "skills w2 = skills v2 \<Longrightarrow> repo_skills w' repo = repo_skills v2 repo"
    by (simp add: repo_skills_def w2)
  have frame: "skills w2 = skills v2" by (rule for_each_upsert_skills [OF fe]) (simp add: lookup)
  have same: "repo_skills w' repo = repo_skills v2 repo" using skills2 frame by blast
  have inj: "inj_on idf (set ?es)"
  proof (rule inj_onI)
    fix a b assume ab: "a \<in> set ?es" "b \<in> set ?es" "idf a = idf b"
    have "se_path a = se_path b"
      using repo_skills_id_unique [OF okw', of "idf a" "se_path a" repo "se_path b"] in_v2 [OF ab(1)] in_v2 [OF ab(2)] ab(3) same by simp
    then show "a = b" using dist ab by (auto simp: distinct_map inj_on_def)
  qed
  have done_all: "\<forall>e \<in> set ?es. entry_done w2 (idf e) e"
    using upsert_entries_done [OF fe, of idf "[]"] lookup inj \<open>distinct ?es\<close> by simp
  show "snd ` repo_skills w' repo = se_path ` set ?es"
  proof (rule antisym)
    show "snd ` repo_skills w' repo \<subseteq> se_path ` set ?es" using sub same by simp
    show "se_path ` set ?es \<subseteq> snd ` repo_skills w' repo"
      using imageI [OF in_v2, of _ snd] by (simp add: same image_subset_iff)
  qed
  show "entry_done w' i e" if "e \<in> set ?es" "(i, se_path e) \<in> repo_skills w' repo"
  proof -
    have "i = idf e" using repo_skills_path_unique [OF okw' that(2)] in_v2 [OF that(1)] same by simp
    then show ?thesis using done_all that(1) w2
      by (simp add: entry_done_def enabled_names_def armed_schedules_def)
  qed
qed

section \<open>Files read\<close>

lemma load_skills_confined:
  assumes root: "Clean root = root" "root \<noteq> ''/''" and same: "\<And>p. inside_root root p \<Longrightarrow> rf p = rg p"
  shows "load_skills Y rf root es = load_skills Y rg root es"
proof (induction es)
  case Nil
  show ?case by simp
next
  case (Cons e es)
  let ?abs = "Join root (se_path e)"
  have "plain_seg ''SKILL.md''" by (simp add: plain_seg_def)
  then have "rf (Join ?abs ''SKILL.md'') = rg (Join ?abs ''SKILL.md'')" if "inside_root root ?abs"
    using inside_child [OF root Clean_Join that] same by blast
  then show ?case using Cons by (auto simp: Let_def split: option.split sum.split)
qed

lemma load_confined:
  assumes root: "Clean root = root" "root \<noteq> ''/''" and same: "\<And>p. inside_root root p \<Longrightarrow> rf p = rg p"
  shows "LoadManifest Y rf root = LoadManifest Y rg root"
proof -
  have "plain_seg ''cronfoundry.yaml''" by (simp add: plain_seg_def)
  then have "rf (Join root ''cronfoundry.yaml'') = rg (Join root ''cronfoundry.yaml'')"
    using inside_child [OF root root(1)] same by (simp add: inside_root_def)
  then show ?thesis
    using load_skills_confined [of root rf rg Y, OF root same]
    by (simp add: LoadManifest_def split: option.split sum.split)
qed

end
