(* ===== verification/Config_Props.thy ===== *)
theory Config_Props
  imports Config
begin

text \<open>
  Validation of a manifest means what its messages say, a skill file splits back into its
  parts, includes read nothing outside the repository, and which secrets the stored JSON
  mentions.
\<close>

section \<open>Manifest validation\<close>

definition schedule_ok :: "schedule \<Rightarrow> bool" where
  "schedule_ok sch \<longleftrightarrow> sc_name sch \<noteq> [] \<and> sc_cron sch \<noteq> [] \<and> sc_provider sch \<noteq> [] \<and> sc_model sch \<noteq> [] \<and>
     (sc_provider sch = ''copilot-enterprise'' \<longrightarrow> sc_copilot_prefix sch \<noteq> []) \<and>
     0 \<le> sc_max_turns sch \<and> sc_max_turns sch < 2 ^ 31 \<and> sc_overlap_policy sch \<in> set validOverlap \<and>
     (\<forall>n. sc_auto_pause_after sch = Some n \<longrightarrow> 1 \<le> n) \<and>
     (\<forall>ds. sc_destinations sch = Some ds \<longrightarrow> (\<forall>d \<in> set ds. Destination_Validate d = None))"

definition sample_sched :: "string \<Rightarrow> int \<Rightarrow> schedule" where
  "sample_sched nm timeout = \<lparr>sc_name = nm, sc_cron = ''@hourly'', sc_timezone = [], sc_overlap_policy = [],
     sc_timeout_sec = timeout, sc_provider = ''openai'', sc_model = ''m'', sc_max_turns = 0, sc_destinations = None,
     sc_writeback = None, sc_env = None, sc_mcp_env = [], sc_auto_pause_after = None, sc_copilot_prefix = []\<rparr>"

lemma orelse_None: "(case x of None \<Rightarrow> y | Some e \<Rightarrow> Some e) = None \<longleftrightarrow> x = None \<and> y = None"
  by (cases x) simp_all

lemma first_error_None: "first_error f xs = None \<longleftrightarrow> (\<forall>x \<in> set xs. f x = None)"
  by (induction xs) (simp_all add: orelse_None)

lemma if_Some_None: "(if b then Some e else x) = None \<longleftrightarrow> \<not> b \<and> x = None"
  by simp

lemma schedule_error_None:
  "schedule_error path seen sch = None \<longleftrightarrow> sc_name sch \<notin> set seen \<and> schedule_ok sch"
proof -
  have dests: "first_error Destination_Validate (case sc_destinations sch of None \<Rightarrow> [] | Some ds \<Rightarrow> ds) = None \<longleftrightarrow>
      (\<forall>ds. sc_destinations sch = Some ds \<longrightarrow> (\<forall>d \<in> set ds. Destination_Validate d = None))"
    by (cases "sc_destinations sch") (simp_all add: first_error_None)
  have pause: "(case sc_auto_pause_after sch of Some n \<Rightarrow> n < 1 | None \<Rightarrow> False) \<longleftrightarrow>
      \<not> (\<forall>n. sc_auto_pause_after sch = Some n \<longrightarrow> 1 \<le> n)"
    by (cases "sc_auto_pause_after sch") auto
  have big: "(n < 0 \<or> 2147483647 < n) \<longleftrightarrow> \<not> (0 \<le> n \<and> n < 2 ^ 31)" for n :: int by auto
  show ?thesis
    unfolding schedule_error_def Let_def if_Some_None option.map_disc_iff dests pause big schedule_ok_def by blast
qed

lemma schedules_error_None:
  "schedules_error path seen schs = None \<longleftrightarrow>
     (\<forall>sch \<in> set schs. schedule_ok sch) \<and> distinct (map sc_name schs) \<and> set seen \<inter> sc_name ` set schs = {}"
  by (induction schs arbitrary: seen) (auto simp: orelse_None schedule_error_None)

lemma skills_error_None:
  "skills_error seen sks = None \<longleftrightarrow> distinct (map se_path sks) \<and> set seen \<inter> se_path ` set sks = {} \<and>
     (\<forall>s \<in> set sks. se_path s \<noteq> [] \<and> distinct (map sc_name (se_schedules s)) \<and> (\<forall>sch \<in> set (se_schedules s). schedule_ok sch))"
  by (induction sks arbitrary: seen) (auto simp: orelse_None schedules_error_None)

lemma Manifest_Validate_None:
  "Manifest_Validate m = None \<longleftrightarrow> mf_version m = 1 \<and> distinct (map se_path (mf_skills m)) \<and>
     (\<forall>s \<in> set (mf_skills m). se_path s \<noteq> [] \<and> distinct (map sc_name (se_schedules s)) \<and>
        (\<forall>sch \<in> set (se_schedules s). schedule_ok sch))"
  by (simp add: Manifest_Validate_def skills_error_None)

section \<open>Skill files\<close>

lemma find_close_mid:
  "CHR 0x0A \<notin> set l \<Longrightarrow> find_close False (l @ CHR 0x0A # rest) i = find_close True rest (i + length l + 1)"
  by (induction l arbitrary: i) (auto simp: nl_def)

lemma fence_line_iff:
  assumes "CHR 0x0A \<notin> set l"
  shows "fence_line (l @ CHR 0x0A # rest) \<longleftrightarrow> l = fence \<or> l = fence @ [CHR 0x0D]"
proof -
  have pre: "has_prefix (l @ CHR 0x0A # rest) (p @ [CHR 0x0A]) \<longleftrightarrow> l = p" if "CHR 0x0A \<notin> set p" for p
    using assms that
  proof (induction l arbitrary: p)
    case Nil
    then show ?case by (cases p) (auto simp: has_prefix_def)
  next
    case (Cons a l)
    then show ?case by (cases p) (auto simp: has_prefix_def)
  qed
  show ?thesis
    using pre [of fence] pre [of "fence @ [CHR 0x0D]"] by (simp add: fence_line_def fence_def nl_def crnl_def)
qed

lemma find_close_line:
  assumes "CHR 0x0A \<notin> set l" "l \<noteq> fence" "l \<noteq> fence @ [CHR 0x0D]"
  shows "find_close True (l @ CHR 0x0A # rest) i = find_close True rest (i + length l + 1)"
proof (cases l)
  case Nil
  then show ?thesis by (simp add: fence_line_def fence_def nl_def crnl_def has_prefix_def)
next
  case (Cons c cs)
  have "\<not> fence_line (l @ CHR 0x0A # rest)" using fence_line_iff [OF assms(1)] assms by simp
  moreover have "l @ CHR 0x0A # rest \<noteq> fence"
  proof
    assume "l @ CHR 0x0A # rest = fence"
    then have "CHR 0x0A \<in> set fence" by (metis in_set_conv_decomp)
    then show False by (simp add: fence_def)
  qed
  moreover have "c \<noteq> CHR 0x0A" "CHR 0x0A \<notin> set cs" using Cons assms(1) by auto
  ultimately show ?thesis
    using Cons find_close_mid [of cs rest "Suc i"] by (simp add: nl_def)
qed

lemma find_close_lines:
  assumes "\<forall>l \<in> set ls. CHR 0x0A \<notin> set l \<and> l \<noteq> fence \<and> l \<noteq> fence @ [CHR 0x0D]"
  shows "find_close True (concat (map (\<lambda>l. l @ nl) ls) @ fence @ nl @ body) i =
    Some (i + length (concat (map (\<lambda>l. l @ nl) ls)))"
  using assms
proof (induction ls arbitrary: i)
  case Nil
  show ?case by (simp add: fence_def nl_def fence_line_def has_prefix_def)
next
  case (Cons l ls)
  have "find_close True (l @ CHR 0x0A # (concat (map (\<lambda>l. l @ nl) ls) @ fence @ nl @ body)) i =
      find_close True (concat (map (\<lambda>l. l @ nl) ls) @ fence @ nl @ body) (i + length l + 1)"
    using Cons.prems by (intro find_close_line) auto
  then show ?case using Cons by (simp add: nl_def)
qed

lemma split_frontmatter_lines:
  assumes "\<forall>l \<in> set ls. CHR 0x0A \<notin> set l \<and> l \<noteq> fence \<and> l \<noteq> fence @ [CHR 0x0D]"
  shows "split_frontmatter (fence @ nl @ concat (map (\<lambda>l. l @ nl) ls) @ fence @ nl @ body) =
    Inr (concat (map (\<lambda>l. l @ nl) ls), body)"
proof -
  let ?fm = "concat (map (\<lambda>l. l @ nl) ls)"
  let ?rest = "?fm @ fence @ nl @ body"
  have start: "fence_line (fence @ nl @ ?rest)" by (simp add: fence_line_def has_prefix_def fence_def nl_def)
  have skip: "skip_newline (nl @ t) = t" for t
    by (simp add: skip_newline_def trim_prefix_def has_prefix_def nl_def)
  have "drop 3 (fence @ nl @ ?rest) = nl @ ?rest" by (simp add: fence_def)
  then have rest: "skip_newline (drop 3 (fence @ nl @ ?rest)) = ?rest" by (simp only: skip)
  have close: "find_close True ?rest 0 = Some (length ?fm)"
    using find_close_lines [OF assms, of body 0] by simp
  have "drop (length ?fm + 3) ?rest = nl @ body" by (simp add: fence_def)
  then have body: "skip_newline (drop (length ?fm + 3) ?rest) = body" by (simp only: skip)
  have "take (length ?fm) ?rest = ?fm" by simp
  then show ?thesis using start rest close body by (simp add: split_frontmatter_def Let_def)
qed

section \<open>Includes\<close>

lemma include_file_confined:
  "(\<And>p. inside_root root p \<Longrightarrow> rf p = rg p) \<Longrightarrow> include_file rf root rel = include_file rg root rel"
  by (simp add: include_file_def Let_def)

lemma resolve_confined:
  assumes same: "\<And>p. inside_root root p \<Longrightarrow> rf p = rg p"
  shows "resolve_from rf root body = resolve_from rg root body"
proof (induction body rule: length_induct)
  case (1 body)
  show ?case
  proof (cases body)
    case Nil
    then show ?thesis by simp
  next
    case (Cons c cs)
    show ?thesis
    proof (cases "match_include body")
      case None
      then show ?thesis using 1 Cons by simp
    next
      case (Some m)
      obtain rel rest where m: "m = (rel, rest)" by (cases m)
      have "length rest < length body" using match_include_shorter Some m by simp
      then have "resolve_from rf root rest = resolve_from rg root rest" using 1 by blast
      then show ?thesis using Some m Cons include_file_confined [of root rf rg rel, OF same] by (simp split: sum.split)
    qed
  qed
qed

text \<open>Text without a directive is copied; an included file is inserted as it is.\<close>

lemma match_include_start: "match_include s = Some m \<Longrightarrow> \<exists>t. s = CHR ''{'' # t"
  by (cases s) (auto simp: match_include_def Let_def has_prefix_def split: if_splits)

lemma resolve_plain:
  assumes "CHR ''{'' \<notin> set pre"
  shows "resolve_from rf root (pre @ s) = (case resolve_from rf root s of Inl e \<Rightarrow> Inl e | Inr t \<Rightarrow> Inr (pre @ t))"
  using assms
proof (induction pre)
  case Nil
  show ?case by (simp split: sum.split)
next
  case (Cons c pre)
  have "match_include (c # pre @ s) = None"
    using Cons.prems match_include_start by (cases "match_include (c # pre @ s)") fastforce+
  then show ?case using Cons by (simp split: sum.split)
qed

definition directive :: "string \<Rightarrow> string" where
  "directive rel = ''{{ include '' @ [CHR 0x22] @ rel @ [CHR 0x22] @ '' }}''"

lemma match_directive:
  assumes "rel \<noteq> []" "CHR 0x22 \<notin> set rel"
  shows "match_include (directive rel @ rest) = Some (rel, rest)"
proof -
  have tw: "takeWhile (\<lambda>c. c \<noteq> CHR 0x22) (rel @ CHR 0x22 # t) = rel"
    "dropWhile (\<lambda>c. c \<noteq> CHR 0x22) (rel @ CHR 0x22 # t) = CHR 0x22 # t" for t
    using assms(2) by (induction rel) auto
  show ?thesis
    using assms(1) by (simp add: directive_def match_include_def Let_def has_prefix_def re_space_def tw)
qed

lemma resolve_directive:
  assumes "rel \<noteq> []" "CHR 0x22 \<notin> set rel"
  shows "resolve_from rf root (directive rel @ rest) = (case include_file rf root rel of
      Inl e \<Rightarrow> Inl e
    | Inr data \<Rightarrow> (case resolve_from rf root rest of Inl e \<Rightarrow> Inl e | Inr s \<Rightarrow> Inr (data @ s)))"
proof -
  obtain t where t: "directive rel @ rest = CHR ''{'' # t" by (simp add: directive_def)
  show ?thesis using match_directive [OF assms, of rest] by (simp add: t)
qed

section \<open>Secrets in the stored JSON\<close>

lemma field_mem [simp]:
  "(k', v) \<in> set (str_field k s) \<longleftrightarrow> k' = k \<and> v = JStr s \<and> s \<noteq> []"
  "(k', v) \<in> set (strs_field k ss) \<longleftrightarrow> k' = k \<and> v = JArr (map JStr ss) \<and> ss \<noteq> []"
  "(k', v) \<in> set (opt_field k x) \<longleftrightarrow> k' = k \<and> x = Some v"
  by (auto simp: str_field_def strs_field_def opt_field_def split: option.split)

lemma field_lookup [simp]:
  "map_of (str_field k s) j = (if j = k \<and> s \<noteq> [] then Some (JStr s) else None)"
  "map_of (strs_field k ss) j = (if j = k \<and> ss \<noteq> [] then Some (JArr (map JStr ss)) else None)"
  "map_of (opt_field k x) j = (if j = k then x else None)"
  by (auto simp: str_field_def strs_field_def opt_field_def split: option.split)

lemma webhook_secret: "secret_at (webhook_json h) n \<longleftrightarrow> wh_secret h = n \<and> n \<noteq> []"
  by (auto simp: webhook_json_def)

lemma github_issue_secret: "\<not> secret_at (github_issue_json g) n"
  by (auto simp: github_issue_json_def map_add_def)

lemma email_secret: "\<not> secret_at (email_json e) n"
  by (auto simp: email_json_def map_add_def list_json_def split: option.splits if_splits)

text \<open>A header of an HTTP destination whose name is secret counts as a reference as well.\<close>

lemma http_secret_field: "ht_secret h = n \<Longrightarrow> n \<noteq> [] \<Longrightarrow> secret_at (http_json h) n"
  by (auto simp: http_json_def map_add_def)

lemma http_secret_only:
  assumes "secret_at (http_json h) n" "''secret'' \<notin> fst ` set (ht_headers h)"
  shows "ht_secret h = n \<and> n \<noteq> []"
proof -
  have "\<not> secret_at (map_json JStr (Some (ht_headers h))) n"
    using assms(2) by (force simp: map_json_def dest!: map_of_SomeD)
  then show ?thesis using assms(1) by (auto simp: http_json_def map_add_def split: if_splits)
qed

lemma secret_at_fields:
  "map_of kvs ''secret'' = None \<Longrightarrow> secret_at (JObj kvs) n \<longleftrightarrow> (\<exists>v \<in> snd ` set kvs. secret_at v n)"
  by (auto simp: image_iff) (blast | force)+

lemma bex_field:
  "(\<exists>v \<in> snd ` set (opt_field k (map_option f x)). secret_at v n) \<longleftrightarrow> (\<exists>h. x = Some h \<and> secret_at (f h) n)"
  "(\<exists>v \<in> snd ` set (str_field k s). secret_at v n) \<longleftrightarrow> False"
  by (cases x) (simp_all add: opt_field_def str_field_def)

lemma destination_secret:
  "secret_at (destination_json d) n \<longleftrightarrow> (\<exists>h. de_slack d = Some h \<and> secret_at (webhook_json h) n) \<or>
     (\<exists>h. de_discord d = Some h \<and> secret_at (webhook_json h) n) \<or>
     (\<exists>h. de_teams d = Some h \<and> secret_at (webhook_json h) n) \<or>
     (\<exists>h. de_http d = Some h \<and> secret_at (http_json h) n)"
proof -
  have "secret_at (destination_json d) n \<longleftrightarrow> (\<exists>h. de_github_issue d = Some h \<and> secret_at (github_issue_json h) n) \<or>
     (\<exists>h. de_slack d = Some h \<and> secret_at (webhook_json h) n) \<or>
     (\<exists>h. de_discord d = Some h \<and> secret_at (webhook_json h) n) \<or>
     (\<exists>h. de_teams d = Some h \<and> secret_at (webhook_json h) n) \<or>
     (\<exists>h. de_http d = Some h \<and> secret_at (http_json h) n) \<or>
     (\<exists>h. de_email d = Some h \<and> secret_at (email_json h) n)"
    unfolding destination_json_def
    by (subst secret_at_fields, simp add: map_add_def)
      (simp only: set_append image_Un bex_Un bex_field disj_assoc simp_thms)
  then show ?thesis by (simp add: github_issue_secret email_secret)
qed

lemma env_value_secret: "\<not> secret_at (env_value_json e) n"
  by (auto simp: env_value_json_def)

lemma env_map_secret: "\<not> secret_at (map_json env_value_json kvs) n"
  by (auto simp: map_json_def env_value_secret env_value_json_def dest!: map_of_SomeD split: option.split)

lemma mcp_map_secret: "\<not> secret_at (map_json (map_json env_value_json) kvs) n"
  by (auto simp: map_json_def [of "map_json env_value_json"] env_map_secret dest!: map_of_SomeD split: option.split)
    (auto simp: map_json_def split: option.splits)

section \<open>Properties\<close>



text \<open>
  A skill file made of front matter lines and a body, none of the lines a fence, splits
  back into exactly that front matter and that body, whatever the body holds.
\<close>

theorem skill_file_roundtrip:
  assumes "\<forall>l \<in> set ls. CHR 0x0A \<notin> set l \<and> l \<noteq> fence \<and> l \<noteq> fence @ [CHR 0x0D]"
  shows "split_frontmatter (fence @ nl @ concat (map (\<lambda>l. l @ nl) ls) @ fence @ nl @ body) =
    Inr (concat (map (\<lambda>l. l @ nl) ls), body)"
  by (rule split_frontmatter_lines [OF assms])

theorem skill_file_roundtrip_witness:
  "split_frontmatter (fence @ nl @ concat (map (\<lambda>l. l @ nl) [''name: x'', ''max_turns: 3'']) @ fence @ nl @ ''Hello'') =
    Inr (concat (map (\<lambda>l. l @ nl) [''name: x'', ''max_turns: 3'']), ''Hello'')"
  by (rule skill_file_roundtrip) (simp add: fence_def)

text \<open>
  Include directives cannot read outside the repository: two file systems that agree under
  the root give the same result, for every body, hostile paths included.
\<close>

theorem includes_confined:
  assumes "\<And>p. inside_root root p \<Longrightarrow> rf p = rg p"
  shows "ResolveIncludes rf root body = ResolveIncludes rg root body"
  unfolding ResolveIncludes_def by (rule resolve_confined [OF assms])

theorem includes_confined_witness:
  "ResolveIncludes (\<lambda>p. None) ''/repo'' (directive ''../etc/passwd'') =
   ResolveIncludes (\<lambda>p. if p = ''/etc/passwd'' then Some ''root'' else None) ''/repo'' (directive ''../etc/passwd'')"
  by (rule includes_confined) (auto simp: inside_root_def has_prefix_def)

text \<open>
  A directive is replaced by the file it names, verbatim and once: what is included is not
  scanned again, the text around it is kept, and a bad path or a missing file is the error.
\<close>

theorem include_replaced_once:
  assumes "CHR ''{'' \<notin> set pre" "rel \<noteq> []" "CHR 0x22 \<notin> set rel"
  shows "ResolveIncludes rf root (pre @ directive rel @ post) = (case include_file rf root rel of
      Inl e \<Rightarrow> Inl e
    | Inr data \<Rightarrow> (case ResolveIncludes rf root post of Inl e \<Rightarrow> Inl e | Inr s \<Rightarrow> Inr (pre @ data @ s)))"
  unfolding ResolveIncludes_def resolve_plain [OF assms(1)] resolve_directive [OF assms(2,3)]
  by (simp split: sum.split)

theorem include_replaced_once_witness:
  "ResolveIncludes (\<lambda>p. if p = ''/repo/a.md'' then Some (directive ''b.md'') else None) ''/repo''
     (''see '' @ directive ''a.md'' @ '' end'') = Inr (''see '' @ directive ''b.md'' @ '' end'')"
proof -
  let ?rf = "\<lambda>p. if p = ''/repo/a.md'' then Some (directive ''b.md'') else None"
  have "include_file ?rf ''/repo'' ''a.md'' = Inr (directive ''b.md'')" by code_simp
  moreover have "ResolveIncludes ?rf ''/repo'' '' end'' = Inr '' end''" by code_simp
  ultimately show ?thesis
    using include_replaced_once [of "''see ''" "''a.md''" ?rf "''/repo''" "'' end''"] by simp
qed

text \<open>
  The JSON written for an environment value does not read back: a literal value is refused
  by the decoder of the same type, and a secret reference is invisible to the collection of
  secret names.
\<close>

theorem env_value_not_read_back:
  "EnvValue_UnmarshalJSON (env_value_json \<lparr>en_literal = v, en_secret = []\<rparr>) = Inl EnvSecretMissing \<and>
   CollectSecretRefs None (Some (env_value_json \<lparr>en_literal = [], en_secret = n\<rparr>)) None [] = []"
proof
  show "EnvValue_UnmarshalJSON (env_value_json \<lparr>en_literal = v, en_secret = []\<rparr>) = Inl EnvSecretMissing"
    by (simp add: EnvValue_UnmarshalJSON_def env_value_json_def to_lower_def lower_char_def)
  have "set (CollectSecretRefs None (Some (env_value_json \<lparr>en_literal = [], en_secret = n\<rparr>)) None []) = {}"
    by (simp add: CollectSecretRefs_set secret_in_def env_value_secret)
  then show "CollectSecretRefs None (Some (env_value_json \<lparr>en_literal = [], en_secret = n\<rparr>)) None [] = []" by simp
qed

text \<open>
  Of a stored destination the collection finds exactly the webhook secrets and the HTTP
  secret; the two secrets of an e-mail destination are never found.
\<close>

theorem destination_secrets_found:
  assumes "\<And>h. de_http d = Some h \<Longrightarrow> ''secret'' \<notin> fst ` set (ht_headers h)"
  shows "set (CollectSecretRefs (Some (destination_json d)) None None []) =
    {n. n \<noteq> [] \<and> ((\<exists>h. de_slack d = Some h \<and> wh_secret h = n) \<or> (\<exists>h. de_discord d = Some h \<and> wh_secret h = n) \<or>
       (\<exists>h. de_teams d = Some h \<and> wh_secret h = n) \<or> (\<exists>h. de_http d = Some h \<and> ht_secret h = n))}"
proof -
  have "secret_at (destination_json d) n \<longleftrightarrow> n \<noteq> [] \<and> ((\<exists>h. de_slack d = Some h \<and> wh_secret h = n) \<or>
      (\<exists>h. de_discord d = Some h \<and> wh_secret h = n) \<or> (\<exists>h. de_teams d = Some h \<and> wh_secret h = n) \<or>
      (\<exists>h. de_http d = Some h \<and> ht_secret h = n))" for n
    unfolding destination_secret webhook_secret
    using http_secret_field [of _ n] http_secret_only [of _ n, OF _ assms] by blast
  then show ?thesis by (simp add: CollectSecretRefs_set secret_in_def)
qed

definition sample_email :: email_dest where
  "sample_email = \<lparr>em_smtp_host = ''smtp'', em_smtp_port = 0, em_username_secret = ''user'', em_password_secret = ''pass'',
     em_from = ''a'', em_to = Some [''b''], em_subject = [], em_format = [], em_output = []\<rparr>"

definition sample_destination :: destination where
  "sample_destination = \<lparr>de_github_issue = None,
     de_slack = Some \<lparr>wh_secret = ''hook'', wh_text = [], wh_content = [], wh_title = [], wh_username = [], wh_format = [], wh_output = []\<rparr>,
     de_discord = None, de_teams = None, de_http = None, de_email = Some sample_email, de_when = []\<rparr>"

theorem destination_secrets_found_witness:
  "set (CollectSecretRefs (Some (destination_json sample_destination)) None None []) = {''hook''}"
  using destination_secrets_found [of sample_destination] by (auto simp: sample_destination_def)

end
