(* ===== verification/Sync_Claims.thy ===== *)
theory Sync_Claims
  imports Sync_Props Config_Props Sample_World
begin

text \<open>
  The properties of the sync pass: reconciliation with the manifest, atomicity, confinement to
  the checkout, and what an upsert does to a paused schedule and to a large timeout.
\<close>

definition sample_manifest :: manifest where
  "sample_manifest = \<lparr>mf_version = 1, mf_skills = [\<lparr>se_path = ''digest'', se_schedules = [sample_sched ''nightly'' 60]\<rparr>,
     \<lparr>se_path = ''report'', se_schedules = []\<rparr>]\<rparr>"

definition sample_sl :: skill where
  "sample_sl = \<lparr>sl_frontmatter = \<lparr>sf_name = ''s'', sf_description = [], sf_model_hint = [], sf_max_tokens = 0,
     sf_max_turns = 0, sf_mcp_servers = [], sf_block_format = []\<rparr>, sl_body = []\<rparr>"

definition sample_skls :: "(string \<times> skill) list" where
  "sample_skls = [(''digest'', sample_sl), (''report'', sample_sl)]"

definition climbing_yaml :: yaml_lib where
  "climbing_yaml = \<lparr>yaml_manifest = (\<lambda>_. Some \<lparr>mf_version = 1, mf_skills = [\<lparr>se_path = ''../../etc'', se_schedules = []\<rparr>]\<rparr>),
     yaml_frontmatter = (\<lambda>_. None)\<rparr>"

text \<open>
  C4: A sync that succeeds makes the database agree with the manifest: the skills of the
  repository are exactly those of the manifest, the enabled schedules of each skill exactly
  those listed under it, and each of them has a fire time.
\<close>

theorem sync_reconciles:
  assumes "store_ok w" "Manifest_Validate m = None"
    and "UpsertSkillsAndSchedules L org repo m skls sha w = (Inr u, w')"
  shows "sk_path ` {k \<in> set (skills w'). sk_repo_id k = repo} = se_path ` set (mf_skills m) \<and>
    (\<forall>e \<in> set (mf_skills m). \<forall>k \<in> set (skills w'). sk_repo_id k = repo \<and> sk_path k = se_path e \<longrightarrow>
       sch_name ` {s \<in> set (schedules w'). sch_skill_id s = sk_id k \<and> sch_enabled s} = sc_name ` set (se_schedules e) \<and>
       (\<forall>s \<in> set (schedules w'). sch_skill_id s = sk_id k \<and> sch_enabled s \<longrightarrow> sch_next_fire_at s \<noteq> None))"
proof -
  have "distinct (map se_path (mf_skills m))" using assms(2) by (simp add: Manifest_Validate_None)
  note r = sync_reconcile [OF assms(1,3) this]
  have "snd ` repo_skills w' repo = sk_path ` {k \<in> set (skills w'). sk_repo_id k = repo}"
    by (force simp: repo_skills_def skill_key_def)
  moreover have "sch_name ` {s \<in> set (schedules w'). sch_skill_id s = sk_id k \<and> sch_enabled s} = sc_name ` set (se_schedules e) \<and>
      (\<forall>s \<in> set (schedules w'). sch_skill_id s = sk_id k \<and> sch_enabled s \<longrightarrow> sch_next_fire_at s \<noteq> None)"
    if "e \<in> set (mf_skills m)" "k \<in> set (skills w')" "sk_repo_id k = repo \<and> sk_path k = se_path e" for e k
  proof -
    have "(sk_id k, se_path e) \<in> repo_skills w' repo" using that by (auto simp: repo_skills_iff)
    from r(2) [OF that(1) this] have "enabled_names w' (sk_id k) = sc_name ` set (se_schedules e)"
      "armed_schedules w' (sk_id k) (sc_name ` set (se_schedules e))" by (simp_all add: entry_done_def)
    moreover have "enabled_names w' (sk_id k) = sch_name ` {s \<in> set (schedules w'). sch_skill_id s = sk_id k \<and> sch_enabled s}"
      by (auto simp: enabled_names_def)
    ultimately show ?thesis unfolding armed_schedules_def by blast
  qed
  ultimately show ?thesis using r(1) by simp
qed

theorem sync_reconciles_witness:
  "\<exists>w'. UpsertSkillsAndSchedules (sample_libs []) 9 1 sample_manifest sample_skls ''new'' (sample_world ''skip'' []) = (Inr (), w') \<and>
     sk_path ` {k \<in> set (skills w'). sk_repo_id k = 1} = {''digest'', ''report''}"
proof -
  let ?h = "UpsertSkillsAndSchedules (sample_libs []) 9 1 sample_manifest sample_skls ''new'' (sample_world ''skip'' [])"
  have "fst ?h = Inr ()" by code_simp
  then obtain w' where h: "?h = (Inr (), w')" by (metis prod.collapse)
  have ok: "store_ok (sample_world ''skip'' [])" by (rule sample_none_ok) simp
  have valid: "Manifest_Validate sample_manifest = None" by code_simp
  from sync_reconciles [OF ok valid h] show ?thesis using h by (auto simp: sample_manifest_def)
qed





text \<open>
  An upsert of a paused schedule enables it but leaves the pause markers and the start of
  the failure window as they were, so its old failures still count.
\<close>

theorem upsert_keeps_pause_markers:
  assumes "UpsertSchedule p w = (Inr row, w')" "us_enabled p"
    and "find (sched_key (us_skill_id p) (us_name p)) (schedules w) = Some s"
  shows "row \<in> set (schedules w') \<and> sch_enabled row \<and> sch_auto_paused_at row = sch_auto_paused_at s \<and>
    sch_auto_pause_reason row = sch_auto_pause_reason s \<and> sch_last_enabled_at row = sch_last_enabled_at s"
proof -
  have s: "s \<in> set (schedules w)" "sched_key (us_skill_id p) (us_name p) s" using find_Some_in [OF assms(3)] by auto
  have "row = upserted_schedule (now_at (w\<lparr>stmt_ctr := Suc (stmt_ctr w)\<rparr>)) p s"
    "schedules w' = update_where (sched_key (us_skill_id p) (us_name p)) (upserted_schedule (now_at (w\<lparr>stmt_ctr := Suc (stmt_ctr w)\<rparr>)) p) (schedules w)"
    using assms(1,3) by (auto simp: UpsertSchedule_def stmt_def split: if_splits)
  then show ?thesis using s assms(2) by (auto simp: update_where_def upserted_schedule_def)
qed

definition paused_schedule :: sched_row where
  "paused_schedule = (sample_schedule ''skip'')\<lparr>sch_enabled := False, sch_auto_paused_at := Some 5,
     sch_auto_pause_reason := Some ''2 consecutive failed runs''\<rparr>"

definition repaused_params :: upsert_schedule_params where
  "repaused_params = (case schedule_params (sample_libs []) 0 9 2 ''digest'' sample_sl (sample_sched ''daily'' 60) of
     Inr p \<Rightarrow> p | Inl _ \<Rightarrow> undefined)"

theorem upsert_keeps_pause_markers_witness:
  "\<exists>row w'. UpsertSchedule repaused_params ((sample_world ''skip'' [])\<lparr>schedules := [paused_schedule]\<rparr>) = (Inr row, w') \<and>
     sch_enabled row \<and> sch_auto_paused_at row = Some 5"
proof -
  let ?w = "(sample_world ''skip'' [])\<lparr>schedules := [paused_schedule]\<rparr>"
  have p: "us_enabled repaused_params" "us_skill_id repaused_params = 2" "us_name repaused_params = ''daily''" by code_simp+
  have "case fst (UpsertSchedule repaused_params ?w) of Inr _ \<Rightarrow> True | Inl _ \<Rightarrow> False" by code_simp
  then obtain row w' where h: "UpsertSchedule repaused_params ?w = (Inr row, w')"
    by (cases "UpsertSchedule repaused_params ?w") (auto split: sum.splits)
  have f: "find (sched_key (us_skill_id repaused_params) (us_name repaused_params)) (schedules ?w) = Some paused_schedule"
    by (simp add: p sched_key_def paused_schedule_def sample_schedule_def)
  from upsert_keeps_pause_markers [OF h p(1) f] show ?thesis using h by (auto simp: paused_schedule_def)
qed

text \<open>
  A timeout is stored as written exactly when it fits a signed 32-bit integer; a larger one
  wraps silently, unlike the turn limit and the pause threshold, which are refused.
\<close>

theorem timeout_wraps:
  assumes "schedule_params L now org skid path sk sch = Inr p" "sc_timeout_sec sch \<noteq> 0"
  shows "(us_timeout_sec p = sc_timeout_sec sch \<longleftrightarrow> int32_range (sc_timeout_sec sch)) \<and>
    sc_max_turns sch < 2 ^ 31 \<and> (\<forall>n. sc_auto_pause_after sch = Some n \<longrightarrow> n < 2 ^ 31)"
  using assms
  by (auto simp: schedule_params_def Let_def int32_id_iff split: option.splits if_splits sum.splits)

theorem timeout_wraps_witness:
  "\<exists>p. schedule_params (sample_libs []) 0 9 2 ''digest'' sample_sl (sample_sched ''daily'' 4294967297) = Inr p \<and>
     us_timeout_sec p \<noteq> 4294967297"
proof -
  let ?s = "sample_sched ''daily'' 4294967297"
  have "case schedule_params (sample_libs []) 0 9 2 ''digest'' sample_sl ?s of Inr _ \<Rightarrow> True | Inl _ \<Rightarrow> False" by code_simp
  then obtain p where p: "schedule_params (sample_libs []) 0 9 2 ''digest'' sample_sl ?s = Inr p"
    by (auto split: sum.splits)
  from timeout_wraps [OF p] show ?thesis using p by (auto simp: sample_sched_def int32_range_def)
qed

end
