(* ===== verification/System.thy ===== *)
theory System
  imports Api_Keeps Sync_Claims Dispatch_Once
begin

text \<open>
  The whole server: ticks of the scheduler, requests to the internal API and sync passes, in
  any order. Each of them runs to its end before the next begins; inside each, any statement
  may fail.
\<close>

record server =
  sv_sched :: sched_deps
  sv_api :: api_deps
  sv_sync :: sync_deps

inductive run_step :: "server \<Rightarrow> world \<Rightarrow> world \<Rightarrow> bool" for S where
  tick: "run_step S w (snd (Tick (sv_sched S) w))"
| request: "run_step S w (snd (RegisterRoutes (sv_api S) req w))"

inductive server_step :: "server \<Rightarrow> world \<Rightarrow> world \<Rightarrow> bool" for S where
  run: "run_step S w w' \<Longrightarrow> server_step S w w'"
| sync: "server_step S w (snd (SyncOne (sv_sync S) conn w))"

inductive_cases run_stepE: "run_step S w w'"
inductive_cases server_stepE: "server_step S w w'"

inductive reaches :: "('a \<Rightarrow> 'a \<Rightarrow> bool) \<Rightarrow> 'a \<Rightarrow> 'a \<Rightarrow> bool" for step where
  start: "reaches step w w"
| more: "reaches step w v \<Longrightarrow> step v u \<Longrightarrow> reaches step w u"

context step_rel
begin

lemma reaches_R: "reaches step w w' \<Longrightarrow> (\<And>v u. step v u \<Longrightarrow> R v u) \<Longrightarrow> R w w'"
  by (induction rule: reaches.induct) (auto intro: R_refl R_trans)

end

context guarded_rel
begin

lemma run_step_R: "run_step S w w' \<Longrightarrow> R w w'"
  by (erule run_stepE) (auto intro: keepsD [OF Tick_keeps] keepsD [OF RegisterRoutes_keeps])

end

lemma server_step_ok: "server_step S w w' \<Longrightarrow> ok_step w w'"
  by (erule server_stepE) (auto intro: ok_guarded.run_step_R keepsD [OF ok.SyncOne_keeps])

definition sample_server :: server where
  "sample_server = \<lparr>sv_sched = sample_deps [],
     sv_api = \<lparr>ad_libs = sample_libs [], ad_signer_key = ''key'', ad_secrets_get = (\<lambda>w n. Inr n),
       ad_installations = (\<lambda>i. Inr ''ghs''), ad_runner_api_key = [], ad_eval_symlinks = Some, ad_temp_dir = ''/tmp'',
       ad_push_to_url = (\<lambda>r u. True)\<rparr>,
     sv_sync = \<lparr>sy_libs = sample_libs [], sy_yaml = climbing_yaml, sy_installations = (\<lambda>i. Inr ''ghs''),
       sy_branch_head = (\<lambda>tok own nm br. Inr ''sha''), sy_mkdir_temp = Some ''/tmp/x'', sy_clone_url_for = default_clone_url,
       sy_clone = (\<lambda>u t s. Inr (\<lambda>p. None)), sy_err_text = (\<lambda>e. ''e'')\<rparr>\<rparr>"

section \<open>Properties\<close>

text \<open>
  Whatever ticks, requests and sync passes the server goes through, in whatever order and
  whichever statements fail, the store stays well formed; in particular no schedule ever has
  two runs for one fire time.
\<close>

theorem server_keeps_store:
  assumes "store_ok w" "reaches (server_step S) w w'"
  shows "store_ok w' \<and> length (filter (\<lambda>r. run_schedule_id r = i \<and> run_fire_time r = Some t) (runs w')) \<le> 1"
proof -
  have "ok_step w w'" using ok_tx.reaches_R [OF assms(2)] server_step_ok by blast
  then have "store_ok w'" using assms(1) by (simp add: ok_step_def)
  then show ?thesis using fires_unique_count [of "runs w'" i t] by (simp add: store_ok_def keys_ok_def)
qed

theorem server_keeps_store_witness:
  "store_ok (snd (SyncOne (sv_sync sample_server) 1 (snd (Tick (sv_sched sample_server) (sample_world ''skip'' []))))) \<and>
   length (filter (\<lambda>r. run_schedule_id r = 3 \<and> run_fire_time r = Some 0)
     (runs (snd (SyncOne (sv_sync sample_server) 1 (snd (Tick (sv_sched sample_server) (sample_world ''skip'' []))))))) \<le> 1"
proof (rule server_keeps_store)
  show "store_ok (sample_world ''skip'' [])" by (rule sample_none_ok) simp
  show "reaches (server_step sample_server) (sample_world ''skip'' [])
     (snd (SyncOne (sv_sync sample_server) 1 (snd (Tick (sv_sched sample_server) (sample_world ''skip'' [])))))"
    by (rule reaches.more, rule reaches.more, rule reaches.start, rule server_step.run, rule run_step.tick, rule server_step.sync)
qed



end
