(* ===== verification/Go_Text.thy ===== *)
theory Go_Text
  imports Go_Strings "HOL-Library.Sublist"
begin

text \<open>
  Searching in strings and the runes of UTF-8 text: strings.Index and strings.ReplaceAll, the
  conversions between strings and runes, strings.ToValidUTF8 and the passage of a string
  through JSON, which replaces every invalid byte.
\<close>

section \<open>The first occurrence of a substring\<close>

primrec cut_sub :: "string \<Rightarrow> string \<Rightarrow> (string \<times> string) option" where
  "cut_sub sub [] = (if sub = [] then Some ([], []) else None)"
| "cut_sub sub (c # s) = (if has_prefix (c # s) sub then Some ([], drop (length sub) (c # s))
     else case cut_sub sub s of None \<Rightarrow> None | Some (b, a) \<Rightarrow> Some (c # b, a))"

definition Index :: "string \<Rightarrow> string \<Rightarrow> nat option" where
  "Index s sub = map_option (\<lambda>(b, a). length b) (cut_sub sub s)"

lemma has_prefix_prefix: "has_prefix s p \<longleftrightarrow> prefix p s"
  by (auto simp: has_prefix_iff prefix_def)

lemma cut_sub_None: "cut_sub sub s = None \<longleftrightarrow> \<not> sublist sub s"
  by (induction s) (auto simp: has_prefix_prefix sublist_Cons_right split: option.splits)

lemma cut_sub_Some: "cut_sub sub s = Some (b, a) \<Longrightarrow> s = b @ sub @ a"
proof (induction s arbitrary: b)
  case (Cons c s)
  then show ?case
    by (auto simp: has_prefix_def split: if_splits option.splits) (metis append_take_drop_id length_Cons)
qed (auto split: if_splits)

lemma cut_sub_shorter: "cut_sub sub s = Some (b, a) \<Longrightarrow> sub \<noteq> [] \<Longrightarrow> length a < length s"
  by (drule cut_sub_Some) simp

lemma cut_sub_first: "cut_sub sub s = Some (b, a) \<Longrightarrow> sub \<noteq> [] \<Longrightarrow> \<not> sublist sub b"
proof (induction s arbitrary: b)
  case (Cons c s)
  show ?case
  proof (cases "has_prefix (c # s) sub")
    case True
    then show ?thesis using Cons.prems by simp
  next
    case False
    then obtain b' where b': "b = c # b'" "cut_sub sub s = Some (b', a)"
      using Cons.prems by (auto split: option.splits)
    have "c # s = b @ sub @ a" using cut_sub_Some [OF b'(2)] b'(1) by simp
    then have "\<not> prefix sub b"
      using False prefix_prefix [of sub b] by (auto simp: has_prefix_prefix)
    then show ?thesis using Cons.IH [OF b'(2) Cons.prems(2)] b'(1) by (simp add: sublist_Cons_right)
  qed
qed (auto split: if_splits)

text \<open>Text without the separator's first byte is passed over.\<close>

lemma cut_sub_skip:
  assumes "\<not> sublist (c # sub) (b @ butlast (c # sub))"
  shows "cut_sub (c # sub) (b @ c # sub @ a) = Some (b, a)"
  using assms
proof (induction b)
  case Nil
  have "has_prefix (c # sub @ a) (c # sub)" by (simp add: has_prefix_def)
  then show ?case by simp
next
  case (Cons x b)
  have "\<not> has_prefix (x # b @ c # sub @ a) (c # sub)"
  proof
    assume "has_prefix (x # b @ c # sub @ a) (c # sub)"
    then have "prefix (c # sub) ((x # b @ butlast (c # sub)) @ last (c # sub) # a)"
      by (metis append.assoc append_Cons append_Nil append_butlast_last_id has_prefix_prefix list.distinct(1))
    then have "prefix (c # sub) (x # b @ butlast (c # sub))"
      by (rule prefix_length_prefix) simp_all
    then show False using Cons.prems by (metis append_Cons prefix_imp_sublist)
  qed
  moreover have "\<not> sublist (c # sub) (b @ butlast (c # sub))"
    using Cons.prems by (metis append_Cons sublist_Cons_right)
  ultimately show ?case using Cons.IH by simp
qed

section \<open>Replacing every occurrence\<close>

text \<open>The program replaces only non-empty strings; for the empty one nothing is replaced here.\<close>

function ReplaceAll :: "string \<Rightarrow> string \<Rightarrow> string \<Rightarrow> string" where
  "ReplaceAll s old new = (if old = [] then s else case cut_sub old s of
       None \<Rightarrow> s
     | Some (b, a) \<Rightarrow> b @ new @ ReplaceAll a old new)"
  by auto
termination
  by (relation "measure (\<lambda>(s, _, _). length s)") (auto dest: cut_sub_shorter)

declare ReplaceAll.simps [simp del]

lemma ReplaceAll_absent: "\<not> sublist old s \<Longrightarrow> ReplaceAll s old new = s"
  by (subst ReplaceAll.simps) (auto simp flip: cut_sub_None)

text \<open>A byte that a string does not contain separates its occurrences.\<close>

lemma sublist_sep:
  assumes "c \<notin> set v"
  shows "sublist v (x @ c # y) \<longleftrightarrow> sublist v x \<or> sublist v y"
proof
  assume "sublist v (x @ c # y)"
  then obtain p q where "x @ c # y = p @ v @ q" by (auto simp: sublist_def)
  then consider us where "x = p @ us" "v @ q = us @ c # y"
    | us where "p = x @ us" "c # y = us @ v @ q"
    using append_eq_append_conv2 [of x "c # y" p "v @ q"] by metis
  then show "sublist v x \<or> sublist v y"
  proof cases
    case 1
    then obtain ws where "v = us @ ws \<and> ws @ q = c # y \<or> v @ ws = us \<and> q = ws @ c # y"
      by (auto simp: append_eq_append_conv2)
    then show ?thesis using assms 1 by (cases ws) auto
  next
    case 2
    then show ?thesis using assms by (cases us) (auto simp: Cons_eq_append_conv)
  qed
next
  assume "sublist v x \<or> sublist v y"
  then show "sublist v (x @ c # y)"
    by (metis append_Cons append_Nil sublist_append_leftI sublist_append_rightI sublist_order.order_trans)
qed

section \<open>Runes\<close>

text \<open>
  The length in bytes of the encoding at the front of a string, 0 if the first byte does not
  start a valid encoding.
\<close>

definition byte_in :: "nat \<Rightarrow> nat \<Rightarrow> char \<Rightarrow> bool" where
  "byte_in lo hi c \<longleftrightarrow> lo \<le> (of_char c :: nat) \<and> (of_char c :: nat) \<le> hi"

definition cont :: "char \<Rightarrow> bool" where
  "cont = byte_in 128 191"

definition second_byte :: "char \<Rightarrow> char \<Rightarrow> bool" where
  "second_byte b c \<longleftrightarrow> (let n = (of_char b :: nat) in
     if n = 224 then byte_in 160 191 c else if n = 237 then byte_in 128 159 c
     else if n = 240 then byte_in 144 191 c else if n = 244 then byte_in 128 143 c else cont c)"

definition rune_len :: "string \<Rightarrow> nat" where
  "rune_len s = (case s of
       [] \<Rightarrow> 0
     | b # s1 \<Rightarrow> if byte_in 0 127 b then 1 else
       (case s1 of
          [] \<Rightarrow> 0
        | c # s2 \<Rightarrow> if byte_in 194 223 b then (if cont c then 2 else 0) else
          (case s2 of
             [] \<Rightarrow> 0
           | d # s3 \<Rightarrow> if byte_in 224 239 b then (if second_byte b c \<and> cont d then 3 else 0) else
             (case s3 of
                [] \<Rightarrow> 0
              | e # s4 \<Rightarrow> if byte_in 240 244 b then (if second_byte b c \<and> cont d \<and> cont e then 4 else 0) else 0))))"

definition valid_rune :: "string \<Rightarrow> bool" where
  "valid_rune r \<longleftrightarrow> r \<noteq> [] \<and> rune_len r = length r"

definition rune_error :: string where
  "rune_error = [char_of (239::nat), char_of (191::nat), char_of (189::nat)]"

text \<open>
  The conversion to runes, each written as its encoding: an invalid byte becomes the
  replacement character.
\<close>

function runes :: "string \<Rightarrow> string list" where
  "runes s = (if s = [] then [] else if rune_len s = 0 then rune_error # runes (drop 1 s)
     else take (rune_len s) s # runes (drop (rune_len s) s))"
  by auto
termination by (relation "measure length") auto

declare runes.simps [simp del]

lemma runes_Nil [simp]: "runes [] = []"
  by (simp add: runes.simps)

lemma rune_error_valid [simp]: "valid_rune rune_error"
  by (simp add: valid_rune_def rune_error_def rune_len_def byte_in_def second_byte_def cont_def)

lemma rune_len_shapes:
  assumes "rune_len s \<noteq> 0"
  shows "(\<exists>b t. s = b # t \<and> byte_in 0 127 b) \<or>
    (\<exists>b c t. s = b # c # t \<and> \<not> byte_in 0 127 b \<and> byte_in 194 223 b \<and> cont c) \<or>
    (\<exists>b c d t. s = b # c # d # t \<and> \<not> byte_in 0 127 b \<and> \<not> byte_in 194 223 b \<and> byte_in 224 239 b \<and>
       second_byte b c \<and> cont d) \<or>
    (\<exists>b c d e t. s = b # c # d # e # t \<and> \<not> byte_in 0 127 b \<and> \<not> byte_in 194 223 b \<and> \<not> byte_in 224 239 b \<and>
       byte_in 240 244 b \<and> second_byte b c \<and> cont d \<and> cont e)"
  using assms unfolding rune_len_def by (simp split: list.splits if_splits)

lemma rune_len_cases:
  assumes "rune_len s \<noteq> 0"
  shows "rune_len (take (rune_len s) s @ t) = rune_len s \<and> rune_len s \<le> length s"
  using rune_len_shapes [OF assms] by (elim disjE exE conjE) (simp_all add: rune_len_def)

lemma rune_len_valid: "rune_len s \<noteq> 0 \<Longrightarrow> valid_rune (take (rune_len s) s)"
  using rune_len_cases [of s "[]"] by (auto simp: valid_rune_def)

lemma runes_valid: "r \<in> set (runes s) \<Longrightarrow> valid_rune r"
proof (induction s rule: runes.induct)
  case (1 s)
  show ?case
  proof (cases "s = [] \<or> rune_len s = 0")
    case True
    then show ?thesis using 1 by (subst (asm) (3) runes.simps) (auto split: if_splits)
  next
    case False
    then show ?thesis using 1 rune_len_valid [of s] by (subst (asm) (3) runes.simps) auto
  qed
qed

lemma runes_append: "valid_rune r \<Longrightarrow> runes (r @ t) = r # runes t"
  using rune_len_cases [of r t] by (subst runes.simps) (auto simp: valid_rune_def)

lemma runes_concat: "\<forall>r \<in> set rs. valid_rune r \<Longrightarrow> runes (concat rs @ t) = rs @ runes t"
  by (induction rs) (simp_all add: runes_append)

text \<open>JSON carries text only: encoding replaces invalid bytes, decoding gives what was encoded.\<close>

definition json_text :: "string \<Rightarrow> string" where
  "json_text s = concat (runes s)"

lemma runes_json_text [simp]: "runes (json_text s) = runes s"
  using runes_concat [of "runes s" "[]"] by (simp add: json_text_def runes_valid)

lemma json_text_idem: "json_text (json_text s) = json_text s"
  by (simp add: json_text_def [of "json_text s"]) (simp add: json_text_def)

text \<open>Plain bytes are carried as they are, whatever valid text follows.\<close>

definition ascii :: "string \<Rightarrow> bool" where
  "ascii s \<longleftrightarrow> list_all (\<lambda>c. \<not> digit7 c) s"

lemma byte_ascii: "\<not> digit7 c \<Longrightarrow> byte_in 0 127 c"
  by (cases c) (auto simp: byte_in_def of_char_Char)

lemma runes_ascii: "ascii s \<Longrightarrow> runes (s @ t) = map (\<lambda>c. [c]) s @ runes t"
proof (induction s)
  case (Cons c s)
  have "valid_rune [c]" using Cons.prems by (simp add: ascii_def valid_rune_def rune_len_def byte_ascii)
  then show ?case using Cons runes_append [of "[c]" "s @ t"] by (simp add: ascii_def)
qed simp

lemma json_text_ascii_append: "ascii s \<Longrightarrow> json_text (s @ t) = s @ json_text t"
  by (simp add: json_text_def runes_ascii)

lemma json_text_ascii: "ascii s \<Longrightarrow> json_text s = s"
  using json_text_ascii_append [of s "[]"] by (simp add: json_text_def)

lemma json_text_code [code]: "json_text s = (if ascii s then s else concat (runes s))"
  using json_text_ascii by (simp add: json_text_def)

function ToValidUTF8 :: "string \<Rightarrow> string" where
  "ToValidUTF8 s = (if s = [] then [] else if rune_len s = 0 then ToValidUTF8 (drop 1 s)
     else take (rune_len s) s @ ToValidUTF8 (drop (rune_len s) s))"
  by auto
termination by (relation "measure length") auto

declare ToValidUTF8.simps [simp del]

lemma ToValidUTF8_shorter: "length (ToValidUTF8 s) \<le> length s"
proof (induction s rule: ToValidUTF8.induct)
  case (1 s)
  show ?case
  proof (cases "s = [] \<or> rune_len s = 0")
    case True
    then show ?thesis using 1 by (subst ToValidUTF8.simps) (auto split: if_splits)
  next
    case False
    then show ?thesis using 1(2) rune_len_cases [of s "[]"] by (subst ToValidUTF8.simps) auto
  qed
qed

lemma ToValidUTF8_valid: "json_text (ToValidUTF8 s) = ToValidUTF8 s"
proof (induction s rule: ToValidUTF8.induct)
  case (1 s)
  show ?case
  proof (cases "s = [] \<or> rune_len s = 0")
    case True
    then show ?thesis using 1 by (subst (1 2) ToValidUTF8.simps) (auto simp: json_text_def)
  next
    case False
    then show ?thesis using 1(2) rune_len_valid [of s]
      by (subst (1 2) ToValidUTF8.simps) (simp add: json_text_def runes_append)
  qed
qed

end
