(* ===== verification/Template.thy ===== *)
theory Template
  imports Go_Text Url
begin

text \<open>
  Destination templates (internal/template/render.go): the directive pattern, its expressions,
  truncation by runes and the rendering, with the calendar that time.Format needs.
\<close>

section \<open>Calendar\<close>

text \<open>Year, month and day of a day number since 1970, in the proleptic Gregorian calendar.\<close>

definition civil :: "int \<Rightarrow> int \<times> int \<times> int" where
  "civil days =
     (let z = days + 719468; era = z div 146097; doe = z mod 146097;
          yoe = (doe - doe div 1460 + doe div 36524 - doe div 146096) div 365;
          doy = doe - (365 * yoe + yoe div 4 - yoe div 100);
          mp = (5 * doy + 2) div 153; m = (if mp < 10 then mp + 3 else mp - 9)
      in (yoe + era * 400 + (if m \<le> 2 then 1 else 0), m, doy - (153 * mp + 2) div 5 + 1))"

definition pad :: "nat \<Rightarrow> int \<Rightarrow> string" where
  "pad n i = (let d = itoa i in replicate (n - length d) (CHR ''0'') @ d)"

definition format_date :: "time \<Rightarrow> string" where
  "format_date t = (case civil (t div (86400 * second)) of (y, m, d) \<Rightarrow> pad 4 y @ ''-'' @ pad 2 m @ ''-'' @ pad 2 d)"

definition format_rfc3339 :: "time \<Rightarrow> string" where
  "format_rfc3339 t = (let s = t mod (86400 * second) div second in
     format_date t @ ''T'' @ pad 2 (s div 3600) @ '':'' @ pad 2 (s mod 3600 div 60) @ '':'' @ pad 2 (s mod 60) @ ''Z'')"

section \<open>Truncation\<close>

definition ellipsis :: string where
  "ellipsis = [char_of (226::nat), char_of (128::nat), char_of (166::nat)]"

definition Truncate :: "string \<Rightarrow> int \<Rightarrow> string" where
  "Truncate s maxRunes =
     (if maxRunes \<le> 0 then []
      else if int (length (runes s)) \<le> maxRunes then s
      else concat (take (nat (maxRunes - 1)) (runes s)) @ ellipsis)"

section \<open>Rendering\<close>

record tmpl_context =
  tc_output :: string
  tc_run_id :: string
  tc_run_date :: string
  tc_started_at :: time
  tc_schedule_name :: string
  tc_skill_name :: string

text \<open>
  The pattern truncatedArgsRe. The number is converted without a look at the error, and an
  overflow of the conversion gives the largest integer.
\<close>

definition truncated_arg :: "string \<Rightarrow> int option" where
  "truncated_arg expr = (let rest = drop 16 expr; ds = dropWhile re_space rest in
     if has_prefix expr ''output.truncated'' \<and> ds \<noteq> rest \<and> ds \<noteq> [] \<and> list_all is_digit ds
     then Some (min (int (undigits 0 ds)) (2 ^ 63 - 1)) else None)"

definition render_expr :: "tmpl_context \<Rightarrow> string \<Rightarrow> string option" where
  "render_expr ctx expr =
     (if expr = ''output'' then Some (tc_output ctx)
      else if expr = ''run.id'' then Some (tc_run_id ctx)
      else if expr = ''run.date'' then Some (tc_run_date ctx)
      else if expr = ''run.started_at'' then Some (format_rfc3339 (tc_started_at ctx))
      else if expr = ''schedule.name'' then Some (tc_schedule_name ctx)
      else if expr = ''skill.name'' then Some (tc_skill_name ctx)
      else map_option (Truncate (tc_output ctx)) (truncated_arg expr))"

text \<open>
  A match of directiveRe at the start of a string: what stands between the braces, with its
  white space, and what follows. Between the braces stands at least one byte and no closing
  brace, so the lazy quantifier has one way to match; the white space it leaves to its
  neighbours is trimmed from the expression anyway.
\<close>

definition match_directive :: "string \<Rightarrow> (string \<times> string) option" where
  "match_directive s =
     (if has_prefix s ''{{'' then
        (let u = takeWhile (\<lambda>c. c \<noteq> CHR ''}'') (drop 2 s); rest = drop (length u) (drop 2 s) in
         if u \<noteq> [] \<and> has_prefix rest ''}}'' then Some (u, drop 2 rest) else None)
      else None)"

lemma match_directive_shorter: "match_directive s = Some (u, rest) \<Longrightarrow> length rest < length s"
  by (auto simp: match_directive_def Let_def has_prefix_def split: if_splits) (cases s; simp)

function Render :: "string \<Rightarrow> tmpl_context \<Rightarrow> string \<times> string list" where
  "Render s ctx = (case match_directive s of
       Some (u, rest) \<Rightarrow>
         (case Render rest ctx of (out, warnings) \<Rightarrow>
            (case render_expr ctx (TrimSpace u) of
               Some v \<Rightarrow> (v @ out, warnings)
             | None \<Rightarrow> (''{{'' @ u @ ''}}'' @ out, (''unresolved template variable: '' @ TrimSpace u) # warnings)))
     | None \<Rightarrow>
         (case s of [] \<Rightarrow> ([], []) | c # t \<Rightarrow> (case Render t ctx of (out, warnings) \<Rightarrow> (c # out, warnings))))"
  by auto
termination
  by (relation "measure (\<lambda>(s, _). length s)") (auto dest: match_directive_shorter)

declare Render.simps [simp del]

section \<open>Lemmas\<close>

definition sample_context :: "string \<Rightarrow> tmpl_context" where
  "sample_context out = \<lparr>tc_output = out, tc_run_id = ''r1'', tc_run_date = ''2026-05-01'', tc_started_at = 0,
     tc_schedule_name = ''nightly'', tc_skill_name = ''digest''\<rparr>"

lemma ellipsis_valid [simp]: "valid_rune ellipsis"
  by (simp add: valid_rune_def ellipsis_def rune_len_def byte_in_def second_byte_def cont_def)

lemma runes_truncate:
  "runes (Truncate s n) = (if n \<le> 0 then [] else if int (length (runes s)) \<le> n then runes s
     else take (nat (n - 1)) (runes s) @ [ellipsis])"
proof -
  have "\<forall>r \<in> set (take k (runes s)). valid_rune r" for k by (meson in_set_takeD runes_valid)
  moreover have "runes ellipsis = [ellipsis]" using runes_append [of ellipsis "[]"] by simp
  ultimately show ?thesis by (simp add: Truncate_def runes_concat)
qed

lemma match_directive_block:
  assumes "u \<noteq> []" "CHR ''}'' \<notin> set u"
  shows "match_directive (''{{'' @ u @ ''}}'' @ rest) = Some (u, rest)"
proof -
  have "takeWhile (\<lambda>c. c \<noteq> CHR ''}'') (u @ ''}}'' @ rest) = u"
    using assms(2) by (subst takeWhile_append2) auto
  then show ?thesis using assms(1) by (simp add: match_directive_def Let_def has_prefix_def)
qed

lemma Render_plain:
  "CHR ''{'' \<notin> set pre \<Longrightarrow> Render (pre @ s) ctx = (pre @ fst (Render s ctx), snd (Render s ctx))"
proof (induction pre)
  case (Cons c pre)
  then have "match_directive (c # pre @ s) = None"
    by (auto simp: match_directive_def has_prefix_def)
  then show ?case using Cons by (subst Render.simps) simp
qed simp

lemma Render_block:
  assumes "u \<noteq> []" "CHR ''}'' \<notin> set u" "render_expr ctx (TrimSpace u) = Some v"
  shows "Render (''{{'' @ u @ ''}}'' @ rest) ctx = (v @ fst (Render rest ctx), snd (Render rest ctx))"
  using match_directive_block [OF assms(1,2), of rest] assms(3)
  by (subst Render.simps) (simp split: prod.split)

text \<open>
  Truncation respects its limit in runes, whatever the text: the result has at most so many
  runes, is the text itself if that has no more, and otherwise its first runes and an ellipsis.
\<close>

theorem truncate_bound:
  "int (length (runes (Truncate s n))) \<le> max 0 n \<and>
   runes (Truncate s n) = (if n \<le> 0 then [] else if int (length (runes s)) \<le> n then runes s
     else take (nat (n - 1)) (runes s) @ [ellipsis])"
  by (simp add: runes_truncate)

text \<open>
  Rendering substitutes once: a directive between literal text is replaced by its value and
  rendering goes on behind it, so directives inside the value (model output, names) are text.
\<close>

theorem render_inserts_verbatim:
  assumes "CHR ''{'' \<notin> set pre" "u \<noteq> []" "CHR ''}'' \<notin> set u" "render_expr ctx (TrimSpace u) = Some v"
  shows "Render (pre @ ''{{'' @ u @ ''}}'' @ post) ctx = (pre @ v @ fst (Render post ctx), snd (Render post ctx))"
  unfolding Render_plain [OF assms(1)] Render_block [OF assms(2-4)] by simp

theorem render_inserts_verbatim_witness:
  "Render (''see '' @ ''{{'' @ '' output '' @ ''}}'' @ ''!'') (sample_context ''{{ run.id }}'') = (''see {{ run.id }}!'', [])"
proof -
  have "TrimSpace '' output '' = ''output''" by code_simp
  then have v: "render_expr (sample_context ''{{ run.id }}'') (TrimSpace '' output '') = Some ''{{ run.id }}''"
    by (simp add: render_expr_def sample_context_def)
  have "Render ''!'' (sample_context ''{{ run.id }}'') = (''!'', [])"
    using Render_plain [of "''!''" "[]" "sample_context ''{{ run.id }}''"]
    by (simp add: Render.simps [of "[]"] match_directive_def has_prefix_def)
  then show ?thesis using render_inserts_verbatim [OF _ _ _ v, of "''see ''" "''!''"] by simp
qed

end
