(* ===== verification/Publish.thy ===== *)
theory Publish
  imports Config Template Store
begin

text \<open>
  The publishers and their dispatcher (internal/publish). The network is a parameter: what
  building a request gives, what the server answers to the request of each attempt, and whether
  the context ends while an attempt waits. A transport error carries the URL of the request, as
  net/http's url.Error does. The delivery of a mail (to an address, with user, password and host,
  from a sender to recipients), the encoding of its subject, the random boundary of its parts
  and the GitHub client are parameters too.
\<close>

section \<open>Results and collaborators\<close>

record publish_result =
  pr_type :: string
  pr_ok :: bool
  pr_skipped :: bool
  pr_skip_reason :: string
  pr_err :: "string option"
  pr_detail :: string
  pr_target :: string

type_synonym secret_getter = "string \<Rightarrow> string + string"

datatype http_body = JsonBody json | TextBody string

record http_request =
  rq_method :: string
  rq_url :: string
  rq_headers :: "(string \<times> string) list"
  rq_body :: http_body

datatype http_reply = Status int string | TransportError string

record network =
  nt_build_err :: "string \<Rightarrow> string \<Rightarrow> string option"
  nt_reply :: "http_request \<Rightarrow> nat \<Rightarrow> http_reply"
  nt_ctx_done :: "nat \<Rightarrow> string option"
  nt_send_mail :: "string \<Rightarrow> string \<times> string \<times> string \<Rightarrow> string \<Rightarrow> string list \<Rightarrow> string \<Rightarrow> string option"
  nt_q_encode :: "string \<Rightarrow> string"
  nt_boundary :: string
  nt_create_issue :: "string \<Rightarrow> string \<Rightarrow> string \<Rightarrow> string \<Rightarrow> string \<Rightarrow> string list \<Rightarrow> string list \<Rightarrow> string + string"

definition failed_result :: "string \<Rightarrow> string \<Rightarrow> string \<Rightarrow> publish_result" where
  "failed_result typ err target = \<lparr>pr_type = typ, pr_ok = False, pr_skipped = False, pr_skip_reason = [],
     pr_err = Some err, pr_detail = [], pr_target = target\<rparr>"

definition ok_result :: "string \<Rightarrow> string \<Rightarrow> string \<Rightarrow> publish_result" where
  "ok_result typ detail target = \<lparr>pr_type = typ, pr_ok = True, pr_skipped = False, pr_skip_reason = [],
     pr_err = None, pr_detail = detail, pr_target = target\<rparr>"

text \<open>The text of net/url.Error, with the method as the operation's name.\<close>

definition url_error :: "string \<Rightarrow> string \<Rightarrow> string \<Rightarrow> string" where
  "url_error method url err =
     (case method of [] \<Rightarrow> ''Get'' | c # cs \<Rightarrow> c # to_lower cs) @ '' '' @ quoted url @ '': '' @ err"

section \<open>Posting JSON\<close>

definition ensureLen :: "string \<Rightarrow> nat \<Rightarrow> string" where
  "ensureLen s maxRunes = (if length (runes s) \<le> maxRunes then s else concat (take (maxRunes - 3) (runes s)) @ ''...'')"

definition json_post :: "string \<Rightarrow> json \<Rightarrow> http_request" where
  "json_post url payload = \<lparr>rq_method = ''POST'', rq_url = url, rq_headers = [(''Content-Type'', ''application/json'')],
     rq_body = JsonBody payload\<rparr>"

text \<open>The attempts left, the number of the next one and the last error; with the number of requests sent.\<close>

primrec post_attempts :: "network \<Rightarrow> string \<Rightarrow> string \<Rightarrow> json \<Rightarrow> nat \<Rightarrow> nat \<Rightarrow> string \<Rightarrow> publish_result \<times> nat" where
  "post_attempts net typ url payload 0 i lastErr =
     (failed_result typ (typ @ '': retries exhausted: '' @ lastErr) url, 0)"
| "post_attempts net typ url payload (Suc left) i lastErr =
     (case (if i = 0 then None else nt_ctx_done net i) of
        Some e \<Rightarrow> (failed_result typ e url, 0)
      | None \<Rightarrow>
        (case nt_build_err net ''POST'' url of
           Some e \<Rightarrow> post_attempts net typ url payload left (Suc i) e
         | None \<Rightarrow>
           (case nt_reply net (json_post url payload) i of
              TransportError e \<Rightarrow> apsnd Suc (post_attempts net typ url payload left (Suc i) (url_error ''POST'' url e))
            | Status code body \<Rightarrow>
                if 200 \<le> code \<and> code < 300 then (ok_result typ (''http '' @ itoa code) url, 1)
                else if 400 \<le> code \<and> code < 500
                then (failed_result typ (typ @ '': http '' @ itoa code @ '' (no retry)'') url, 1)
                else apsnd Suc (post_attempts net typ url payload left (Suc i) (''http '' @ itoa code)))))"

definition postJSON :: "network \<Rightarrow> string \<Rightarrow> string \<Rightarrow> json \<Rightarrow> publish_result \<times> nat" where
  "postJSON net typ url payload = post_attempts net typ url payload 3 0 []"

section \<open>Webhook publishers\<close>

definition rendered :: "string \<Rightarrow> string \<Rightarrow> tmpl_context \<Rightarrow> string" where
  "rendered tmpl output tctx = (if tmpl \<noteq> [] then fst (Render tmpl tctx) else output)"

definition middle_dot :: string where
  "middle_dot = [CHR 0x20, CHR 0xC2, CHR 0xB7, CHR 0x20]"

text \<open>The section blocks of at most 3000 runes each.\<close>

function rune_chunks :: "nat \<Rightarrow> string list \<Rightarrow> string list" where
  "rune_chunks n rs = (if rs = [] \<or> n = 0 then [] else concat (take n rs) # rune_chunks n (drop n rs))"
  by auto
termination by (relation "measure (\<lambda>(n, rs). length rs)") auto

declare rune_chunks.simps [simp del]

definition slack_blocks :: "string \<Rightarrow> tmpl_context \<Rightarrow> json list" where
  "slack_blocks text tctx =
     (let header = tc_skill_name tctx @ (if tc_run_date tctx \<noteq> [] then middle_dot @ tc_run_date tctx else []) in
      (if header \<noteq> [] then [JObj [(''type'', JStr ''header''),
         (''text'', JObj [(''type'', JStr ''plain_text''), (''text'', JStr (ensureLen header 150))])]] else []) @
      map (\<lambda>chunk. JObj [(''type'', JStr ''section''),
         (''text'', JObj [(''type'', JStr ''mrkdwn''), (''text'', JStr chunk)])]) (rune_chunks 3000 (runes text)))"

definition slack_payload :: "webhook_dest \<Rightarrow> string \<Rightarrow> tmpl_context \<Rightarrow> json" where
  "slack_payload d output tctx = (let text = rendered (wh_text d) output tctx in
     if wh_format d = ''text'' then JObj [(''text'', JStr (ensureLen text 35000))]
     else let blocks = slack_blocks text tctx in JObj [(''blocks'', if blocks = [] then JNull else JArr blocks)])"

definition discord_payload :: "webhook_dest \<Rightarrow> string \<Rightarrow> tmpl_context \<Rightarrow> json" where
  "discord_payload d output tctx =
     JObj ([(''content'', JStr (ensureLen (rendered (wh_content d) output tctx) 2000))] @
       (if wh_username d \<noteq> [] then [(''username'', JStr (wh_username d))] else []))"

definition teams_facts :: "tmpl_context \<Rightarrow> json list" where
  "teams_facts tctx = map (\<lambda>(t, v). JObj [(''title'', JStr t), (''value'', JStr v)])
     (filter (\<lambda>(t, v). v \<noteq> []) [(''Skill'', tc_skill_name tctx), (''Date'', tc_run_date tctx), (''Run ID'', tc_run_id tctx)])"

definition teams_body :: "webhook_dest \<Rightarrow> string \<Rightarrow> tmpl_context \<Rightarrow> json list" where
  "teams_body d text tctx =
     (if wh_title d \<noteq> [] then [JObj [(''type'', JStr ''TextBlock''), (''text'', JStr (wh_title d)),
        (''weight'', JStr ''Bolder''), (''size'', JStr ''Medium'')]] else []) @
     (if wh_format d = ''card'' \<and> teams_facts tctx \<noteq> []
      then [JObj [(''type'', JStr ''FactSet''), (''facts'', JArr (teams_facts tctx))]] else []) @
     [JObj [(''type'', JStr ''TextBlock''), (''text'', JStr text), (''wrap'', JBool True)]]"

definition teams_payload :: "webhook_dest \<Rightarrow> string \<Rightarrow> tmpl_context \<Rightarrow> json" where
  "teams_payload d output tctx =
     JObj [(''type'', JStr ''message''), (''attachments'', JArr [JObj [
       (''contentType'', JStr ''application/vnd.microsoft.card.adaptive''),
       (''content'', JObj [(''type'', JStr ''AdaptiveCard''), (''version'', JStr ''1.4''),
          (''$schema'', JStr ''http://adaptivecards.io/schemas/adaptive-card.json''),
          (''body'', JArr (teams_body d (ensureLen (rendered (wh_text d) output tctx) 25000) tctx))])]])]"

text \<open>The three webhook publishers differ in the payload only.\<close>

definition webhook_publish ::
  "network \<Rightarrow> string \<Rightarrow> (webhook_dest \<Rightarrow> string \<Rightarrow> tmpl_context \<Rightarrow> json) \<Rightarrow> webhook_dest option \<Rightarrow> string \<Rightarrow>
   tmpl_context \<Rightarrow> secret_getter \<Rightarrow> publish_result" where
  "webhook_publish net typ payload dest output tctx secrets = (case dest of
       None \<Rightarrow> failed_result typ (typ @ '': secret required'') []
     | Some d \<Rightarrow>
       if wh_secret d = [] then failed_result typ (typ @ '': secret required'') []
       else case secrets (wh_secret d) of
         Inl e \<Rightarrow> failed_result typ (typ @ '': resolve secret: '' @ e) []
       | Inr url \<Rightarrow> fst (postJSON net typ url (payload d output tctx)))"

definition slack_publish :: "network \<Rightarrow> destination \<Rightarrow> string \<Rightarrow> tmpl_context \<Rightarrow> secret_getter \<Rightarrow> publish_result" where
  "slack_publish net dest = webhook_publish net ''slack'' slack_payload (de_slack dest)"

definition discord_publish :: "network \<Rightarrow> destination \<Rightarrow> string \<Rightarrow> tmpl_context \<Rightarrow> secret_getter \<Rightarrow> publish_result" where
  "discord_publish net dest = webhook_publish net ''discord'' discord_payload (de_discord dest)"

definition teams_publish :: "network \<Rightarrow> destination \<Rightarrow> string \<Rightarrow> tmpl_context \<Rightarrow> secret_getter \<Rightarrow> publish_result" where
  "teams_publish net dest = webhook_publish net ''teams'' teams_payload (de_teams dest)"

section \<open>HTTP, e-mail and issues\<close>

text \<open>The headers are listed in the order in which they are set; a later value replaces an earlier one.\<close>

definition http_request_of :: "http_dest \<Rightarrow> string \<Rightarrow> string \<Rightarrow> tmpl_context \<Rightarrow> string option \<Rightarrow> http_request" where
  "http_request_of d method output tctx tok =
     \<lparr>rq_method = method, rq_url = ht_url d,
      rq_headers = (if ht_body_template d = [] then [(''Content-Type'', ''application/json'')] else []) @ ht_headers d @
        (case tok of Some t \<Rightarrow> [(''Authorization'', ''Bearer '' @ t)] | None \<Rightarrow> []),
      rq_body = (if ht_body_template d \<noteq> [] then TextBody (fst (Render (ht_body_template d) tctx))
        else JsonBody (JObj [(''output'', JStr output)]))\<rparr>"

definition http_outcome :: "http_dest \<Rightarrow> string \<Rightarrow> string list \<Rightarrow> http_reply \<Rightarrow> publish_result" where
  "http_outcome d method warns reply = (case reply of
       TransportError e \<Rightarrow> failed_result ''http'' (''http: '' @ url_error method (ht_url d) e) (ht_url d)
     | Status code body \<Rightarrow>
       (let snippet = TrimSpace (take 1024 body) in
        if 200 \<le> code \<and> code < 300 then
          ok_result ''http'' (''http '' @ itoa code @
            (if warns \<noteq> [] then ''; template warnings: '' @ join_with '', '' warns else [])) (ht_url d)
        else (failed_result ''http'' (''http: status '' @ itoa code) (ht_url d))
          \<lparr>pr_detail := ''http '' @ itoa code @ (if snippet \<noteq> [] then '': '' @ snippet else [])\<rparr>))"

definition http_publish :: "network \<Rightarrow> destination \<Rightarrow> string \<Rightarrow> tmpl_context \<Rightarrow> secret_getter \<Rightarrow> publish_result" where
  "http_publish net dest output tctx secrets = (case de_http dest of
       None \<Rightarrow> failed_result ''http'' ''http: url required'' ''<missing-url>''
     | Some d \<Rightarrow>
       if ht_url d = [] then failed_result ''http'' ''http: url required'' ''<missing-url>''
       else
         let method = (if ht_method d = [] then ''POST'' else ht_method d);
             warns = (if ht_body_template d \<noteq> [] then snd (Render (ht_body_template d) tctx) else []) in
         (case nt_build_err net method (ht_url d) of
            Some e \<Rightarrow> failed_result ''http'' (''http: build request: '' @ e) (ht_url d)
          | None \<Rightarrow>
            if ht_secret d = [] then http_outcome d method warns (nt_reply net (http_request_of d method output tctx None) 0)
            else (case secrets (ht_secret d) of
                Inl e \<Rightarrow> failed_result ''http'' (''http: resolve secret: '' @ e) (ht_url d)
              | Inr tok \<Rightarrow> http_outcome d method warns (nt_reply net (http_request_of d method output tctx (Some tok)) 0))))"

text \<open>The mail: headers, and either the text alone or a plain and an HTML part.\<close>

definition crlf :: string where
  "crlf = [CHR 0x0D, CHR 0x0A]"

definition html_escape_char :: "char \<Rightarrow> string" where
  "html_escape_char c =
     (if c = CHR ''&'' then ''&amp;'' else if c = CHR 0x27 then ''&#39;'' else if c = CHR ''<'' then ''&lt;''
      else if c = CHR ''>'' then ''&gt;'' else if c = CHR 0x22 then ''&#34;'' else [c])"

definition html_EscapeString :: "string \<Rightarrow> string" where
  "html_EscapeString s = concat (map html_escape_char s)"

definition mime_part :: "string \<Rightarrow> string \<Rightarrow> string" where
  "mime_part ctype body = ''Content-Transfer-Encoding: 8bit'' @ crlf @ ''Content-Type: '' @ ctype @ crlf @ crlf @ body"

definition em_dash :: string where
  "em_dash = [CHR 0x20, CHR 0xE2, CHR 0x80, CHR 0x94, CHR 0x20]"

definition html_body :: "string \<Rightarrow> tmpl_context \<Rightarrow> string" where
  "html_body output tctx = ''<html><body style='' @ quoted ''font-family:sans-serif;'' @ ''><h2>'' @
     html_EscapeString (tc_skill_name tctx) @ em_dash @ html_EscapeString (tc_run_date tctx) @
     ''</h2><pre style='' @ quoted ''white-space:pre-wrap;'' @ ''>'' @ html_EscapeString output @ ''</pre></body></html>''"

definition buildEmail ::
  "network \<Rightarrow> string \<Rightarrow> string list \<Rightarrow> string \<Rightarrow> string \<Rightarrow> string \<Rightarrow> tmpl_context \<Rightarrow> string" where
  "buildEmail net from to subject output format tctx =
     ''From: '' @ from @ crlf @ ''To: '' @ join_with '', '' to @ crlf @ ''Subject: '' @ nt_q_encode net subject @ crlf @
     ''MIME-Version: 1.0'' @ crlf @
     (if format = ''html'' then
        (let sep = ''--'' @ nt_boundary net in
         ''Content-Type: multipart/alternative; boundary='' @ quoted (nt_boundary net) @ crlf @ crlf @
         sep @ crlf @ mime_part ''text/plain; charset=utf-8'' output @ crlf @
         sep @ crlf @ mime_part ''text/html; charset=utf-8'' (html_body output tctx) @ crlf @ sep @ ''--'' @ crlf)
      else ''Content-Type: text/plain; charset=utf-8'' @ crlf @ ''Content-Transfer-Encoding: 8bit'' @ crlf @ crlf @ output)"

definition JoinHostPort :: "string \<Rightarrow> string \<Rightarrow> string" where
  "JoinHostPort host port = (if CHR '':'' \<in> set host \<or> CHR ''%'' \<in> set host then ''['' @ host @ '']:'' @ port else host @ '':'' @ port)"

definition email_publish :: "network \<Rightarrow> destination \<Rightarrow> string \<Rightarrow> tmpl_context \<Rightarrow> secret_getter \<Rightarrow> publish_result" where
  "email_publish net dest output tctx secrets = (case de_email dest of
       None \<Rightarrow> failed_result ''email'' ''email: destination config is nil'' []
     | Some d \<Rightarrow>
       (let to = (case em_to d of Some to \<Rightarrow> to | None \<Rightarrow> []);
            target = join_with '', '' to;
            subj = (if em_subject d = [] then ''{{ skill.name }}: run {{ run.date }}'' else em_subject d) in
        case secrets (em_username_secret d) of
          Inl e \<Rightarrow> failed_result ''email'' (''email: resolve username secret: '' @ e) target
        | Inr username \<Rightarrow>
        (case secrets (em_password_secret d) of
           Inl e \<Rightarrow> failed_result ''email'' (''email: resolve password secret: '' @ e) target
         | Inr password \<Rightarrow>
           (case Render subj tctx of (renderedSubj, warns) \<Rightarrow>
              (case nt_send_mail net (JoinHostPort (em_smtp_host d) (itoa (EffectiveSMTPPort d))) (username, password, em_smtp_host d)
                  (em_from d) to (buildEmail net (em_from d) to renderedSubj output (EffectiveFormat d) tctx) of
                 Some e \<Rightarrow> failed_result ''email'' (''email: send: '' @ e) target
               | None \<Rightarrow> ok_result ''email'' (if warns \<noteq> [] then ''template warnings: '' @ join_with '', '' warns else []) target)))))"

definition splitRepo :: "string \<Rightarrow> (string \<times> string) option" where
  "splitRepo r = (case Index r ''/'' of
       None \<Rightarrow> None
     | Some i \<Rightarrow> if i = 0 \<or> i + 1 = length r then None else Some (take i r, drop (i + 1) r))"

definition issueBodyMaxBytes :: nat where
  "issueBodyMaxBytes = 64 * 1024"

definition issue_body :: "string \<Rightarrow> string" where
  "issue_body body = (if issueBodyMaxBytes < length body
     then ToValidUTF8 (take (issueBodyMaxBytes - 64) body) @ CHR 0x0A # CHR 0x0A # ''... [truncated, full output in run log]''
     else body)"

definition github_issue_publish ::
  "network \<Rightarrow> string \<Rightarrow> destination \<Rightarrow> string \<Rightarrow> tmpl_context \<Rightarrow> secret_getter \<Rightarrow> publish_result" where
  "github_issue_publish net fallbackToken dest output tctx secrets = (case de_github_issue dest of
       None \<Rightarrow> failed_result ''github-issue'' ''github-issue: config missing'' ''<missing-config>''
     | Some d \<Rightarrow>
       (case splitRepo (gi_repo d) of
          None \<Rightarrow> failed_result ''github-issue'' (''github-issue: repo must be owner/name (got '' @ quoted (gi_repo d) @ '')'')
            (if gi_repo d = [] then ''<invalid-repo>'' else gi_repo d)
        | Some (owner, repo) \<Rightarrow>
          (let token = (case secrets ''github_token'' of Inr t \<Rightarrow> if t = [] then fallbackToken else t | Inl _ \<Rightarrow> fallbackToken) in
           if token = [] then failed_result ''github-issue'' ''github-issue: no GitHub token available (set GITHUB_TOKEN)'' (gi_repo d)
           else case nt_create_issue net token owner repo (fst (Render (gi_title d) tctx))
               (issue_body (rendered (gi_body d) output tctx)) (gi_labels d) (gi_assignees d) of
             Inl e \<Rightarrow> failed_result ''github-issue'' (''github-issue: create: '' @ e) (gi_repo d)
           | Inr link \<Rightarrow> ok_result ''github-issue'' link (gi_repo d))))"

section \<open>The dispatcher\<close>

type_synonym publisher = "destination \<Rightarrow> string \<Rightarrow> tmpl_context \<Rightarrow> secret_getter \<Rightarrow> publish_result"

definition destType :: "destination \<Rightarrow> string option" where
  "destType d =
     (if de_github_issue d \<noteq> None then Some ''github-issue''
      else if de_slack d \<noteq> None then Some ''slack''
      else if de_discord d \<noteq> None then Some ''discord''
      else if de_teams d \<noteq> None then Some ''teams''
      else if de_http d \<noteq> None then Some ''http''
      else if de_email d \<noteq> None then Some ''email''
      else None)"

definition mustDestType :: "destination \<Rightarrow> string" where
  "mustDestType d = (case destType d of Some t \<Rightarrow> t | None \<Rightarrow> [])"

definition publishOne :: "(string \<Rightarrow> publisher option) \<Rightarrow> destination \<Rightarrow> string \<Rightarrow> tmpl_context \<Rightarrow> secret_getter \<Rightarrow> publish_result" where
  "publishOne publishers dest output tctx secrets = (case destType dest of
       None \<Rightarrow> failed_result [] ''destination entry has no recognised type'' []
     | Some typ \<Rightarrow>
       (case publishers typ of
          None \<Rightarrow> failed_result typ (''no publisher for '' @ typ) []
        | Some p \<Rightarrow> p dest output tctx secrets))"

definition publish_metric :: "destination \<Rightarrow> publish_result \<Rightarrow> metric" where
  "publish_metric dest res =
     (let t = (if pr_type res \<noteq> [] then pr_type res else mustDestType dest) in
      DestPublish (if t \<noteq> [] then t else ''unknown'') (if pr_ok res then ''ok'' else ''error''))"

text \<open>
  One goroutine per destination: its result, and the metric unless the destination is skipped.
  The goroutines share nothing, so the results do not depend on their order; the metrics are
  listed in the order of the destinations.
\<close>

definition dispatch_one ::
  "(string \<Rightarrow> publisher option) \<Rightarrow> (destination \<Rightarrow> string) \<Rightarrow> tmpl_context \<Rightarrow> secret_getter \<Rightarrow> bool \<Rightarrow> destination \<Rightarrow>
   publish_result \<times> metric list" where
  "dispatch_one publishers outputFor tctx secrets runSucceeded dest =
     (if \<not> ShouldPublish dest runSucceeded
      then (\<lparr>pr_type = mustDestType dest, pr_ok = True, pr_skipped = True,
              pr_skip_reason = ''condition:'' @ de_when dest @ '' not met'', pr_err = None, pr_detail = [], pr_target = []\<rparr>, [])
      else let res = publishOne publishers dest (outputFor dest) tctx secrets in (res, [publish_metric dest res]))"

definition Dispatch ::
  "(string \<Rightarrow> publisher option) \<Rightarrow> destination list \<Rightarrow> (destination \<Rightarrow> string) \<Rightarrow> tmpl_context \<Rightarrow> secret_getter \<Rightarrow> bool \<Rightarrow>
   publish_result list \<times> metric list" where
  "Dispatch publishers dests outputFor tctx secrets runSucceeded =
     (let rs = map (dispatch_one publishers outputFor tctx secrets runSucceeded) dests in (map fst rs, concat (map snd rs)))"

end
