(* ===== verification/Memory.thy ===== *)
theory Memory
  imports Go_Text
begin

text \<open>
  The blocks a skill writes into its output (internal/memory/parser.go): the memory block that
  is committed back and the named output blocks that destinations choose from.
\<close>

section \<open>Blocks\<close>

text \<open>
  The matches of blockRe, in order, and the text without them. Between an opening tag and the
  next closing tag the pattern matches in one way only; without a closing tag behind the first
  opening tag nothing matches.
\<close>

function memory_blocks :: "string \<Rightarrow> string list \<times> string" where
  "memory_blocks s = (case cut_sub ''<memory>'' s of
       None \<Rightarrow> ([], s)
     | Some (b, r) \<Rightarrow>
       (case cut_sub ''</memory>'' r of
          None \<Rightarrow> ([], s)
        | Some (c, a) \<Rightarrow> (case memory_blocks a of (cs, rest) \<Rightarrow> (re_trim c # cs, b @ rest))))"
  by auto
termination
proof (relation "measure length")
  fix s ba b r ca c a
  assume "cut_sub ''<memory>'' s = Some ba" "(b, r) = ba" "cut_sub ''</memory>'' r = Some ca" "(c, a) = ca"
  then have "length r < length s" "length a < length r" by (auto dest: cut_sub_shorter)
  then show "(a, s) \<in> measure length" by simp
qed simp

declare memory_blocks.simps [simp del]

definition Extract :: "string \<Rightarrow> string \<times> string \<times> bool" where
  "Extract output = (case memory_blocks output of (cs, rest) \<Rightarrow>
     if cs = [] then (output, [], False) else (TrimSpace rest, TrimSpace (last cs), True))"

text \<open>A match of outputBlockRe at the start of a string: name, content and what follows.\<close>

definition match_output :: "string \<Rightarrow> (string \<times> string \<times> string) option" where
  "match_output s =
     (let s1 = drop 7 s; s2 = dropWhile re_space s1; s3 = drop 6 s2;
          nm = takeWhile (\<lambda>c. c \<noteq> CHR 0x22) s3; s4 = drop (length nm) s3 in
      if has_prefix s ''<output'' \<and> s2 \<noteq> s1 \<and> has_prefix s2 (''name='' @ [CHR 0x22]) \<and> nm \<noteq> [] \<and>
         has_prefix s4 [CHR 0x22, CHR ''>'']
      then (case cut_sub ''</output>'' (drop 2 s4) of None \<Rightarrow> None | Some (c, a) \<Rightarrow> Some (nm, re_trim c, a))
      else None)"

lemma match_output_shorter: "match_output s = Some (n, c, a) \<Longrightarrow> length a < length s"
proof -
  assume m: "match_output s = Some (n, c, a)"
  define s4 where "s4 = drop (length n) (drop 6 (dropWhile re_space (drop 7 s)))"
  have "\<exists>c'. cut_sub ''</output>'' (drop 2 s4) = Some (c', a)"
    using m by (auto simp: match_output_def Let_def s4_def split: if_splits option.splits)
  then have "length a < length s4" by (auto dest: cut_sub_shorter)
  moreover have "length (dropWhile re_space (drop 7 s)) \<le> length s"
    using length_dropWhile_le [of re_space "drop 7 s"] by simp
  ultimately show ?thesis by (simp add: s4_def)
qed

function output_blocks :: "string \<Rightarrow> (string \<times> string) list \<times> string" where
  "output_blocks s = (case match_output s of
       Some (n, c, a) \<Rightarrow> (case output_blocks a of (bs, rest) \<Rightarrow> ((TrimSpace n, TrimSpace c) # bs, rest))
     | None \<Rightarrow> (case s of [] \<Rightarrow> ([], []) | x # t \<Rightarrow> (case output_blocks t of (bs, rest) \<Rightarrow> (bs, x # rest))))"
  by auto
termination
  by (relation "measure length") (auto dest: match_output_shorter)

declare output_blocks.simps [simp del]

text \<open>The map of blocks, newest first: a later block of a name replaces an earlier one.\<close>

definition ExtractOutputBlocks :: "string \<Rightarrow> (string \<times> string) list \<times> string" where
  "ExtractOutputBlocks output = (case output_blocks output of (bs, rest) \<Rightarrow>
     if bs = [] then ([], output) else (rev bs, TrimSpace rest))"

section \<open>Lemmas\<close>

text \<open>A tag whose first byte does not come again in it cannot straddle the end of a text.\<close>

lemma tag_no_straddle:
  assumes "c \<notin> set t" "\<not> sublist (c # t) b"
  shows "\<not> sublist (c # t) (b @ butlast (c # t))"
proof
  assume "sublist (c # t) (b @ butlast (c # t))"
  then obtain p q where e: "b @ butlast (c # t) = p @ (c # t) @ q" by (auto simp: sublist_def)
  then consider us where "b @ us = p" "butlast (c # t) = us @ (c # t) @ q"
    | us where "b = p @ us" "us @ butlast (c # t) = (c # t) @ q"
    using append_eq_append_conv2 [of b "butlast (c # t)" p "(c # t) @ q"] by metis
  then show False
  proof cases
    case 1
    have "length (butlast (c # t)) \<ge> length (c # t)" unfolding 1(2) by simp
    then show False unfolding length_butlast by simp
  next
    case 2
    then consider ws where "us @ ws = c # t" "butlast (c # t) = ws @ q" | ws where "us = (c # t) @ ws"
      using append_eq_append_conv2 [of us "butlast (c # t)" "c # t" q] by metis
    then show False
    proof cases
      case 1
      have "ws \<noteq> []" using 1 2 assms(2) by auto
      show False
      proof (cases us)
        case Nil
        then have "length (butlast (c # t)) \<ge> length (c # t)" using 1 by simp
        then show False unfolding length_butlast by simp
      next
        case (Cons x us')
        then have "t = us' @ ws" using 1(1) by simp
        then show False using 1(2) \<open>ws \<noteq> []\<close> assms(1) by (cases ws) auto
      qed
    next
      case (2 ws)
      then have "sublist (c # t) b" using \<open>b = p @ us\<close> sublist_appendI [of "c # t" p ws] by simp
      then show False using assms(2) by simp
    qed
  qed
qed

lemma cut_tag: "c \<notin> set t \<Longrightarrow> \<not> sublist (c # t) b \<Longrightarrow> cut_sub (c # t) (b @ (c # t) @ a) = Some (b, a)"
  using cut_sub_skip [OF tag_no_straddle, of c t b a] by simp

lemma memory_blocks_none: "\<not> sublist ''<memory>'' s \<Longrightarrow> memory_blocks s = ([], s)"
  using cut_sub_None [of "''<memory>''" s] by (subst memory_blocks.simps) simp

lemma memory_blocks_one:
  assumes "\<not> sublist ''<memory>'' pre" "\<not> sublist ''</memory>'' content"
  shows "memory_blocks (pre @ ''<memory>'' @ content @ ''</memory>'' @ post) =
    (case memory_blocks post of (cs, rest) \<Rightarrow> (re_trim content # cs, pre @ rest))"
proof -
  have "cut_sub ''<memory>'' (pre @ ''<memory>'' @ content @ ''</memory>'' @ post) = Some (pre, content @ ''</memory>'' @ post)"
    using assms(1) by (intro cut_tag) simp_all
  moreover have "cut_sub ''</memory>'' (content @ ''</memory>'' @ post) = Some (content, post)"
    using assms(2) by (intro cut_tag) simp_all
  ultimately show ?thesis by (subst memory_blocks.simps) simp
qed

text \<open>
  A memory block written into the output is found and taken out: text around one block,
  itself without an opening tag, gives back exactly the block's content and the text around it,
  both trimmed, whatever else the content holds.
\<close>

theorem memory_block_extracted:
  assumes "\<not> sublist ''<memory>'' pre" "\<not> sublist ''</memory>'' content" "\<not> sublist ''<memory>'' post"
  shows "Extract (pre @ ''<memory>'' @ content @ ''</memory>'' @ post) =
    (TrimSpace (pre @ post), TrimSpace (re_trim content), True)"
  by (simp add: Extract_def memory_blocks_one [OF assms(1,2), simplified] memory_blocks_none [OF assms(3)])

theorem memory_block_extracted_witness:
  "Extract (''a '' @ ''<memory>'' @ '' n <memory> '' @ ''</memory>'' @ '' b'') = (''a  b'', ''n <memory>'', True)"
proof -
  have "TrimSpace (''a '' @ '' b'') = ''a  b''" "TrimSpace (re_trim '' n <memory> '') = ''n <memory>''" by code_simp+
  moreover have "\<not> sublist ''<memory>'' ''a ''" "\<not> sublist ''</memory>'' '' n <memory> ''" "\<not> sublist ''<memory>'' '' b''"
    by code_simp+
  ultimately show ?thesis using memory_block_extracted [of "''a ''" "'' n <memory> ''" "'' b''"] by simp
qed

text \<open>
  Stripping is not repeated: taking a block out can join a new one, which stays in the
  published output.
\<close>

theorem extract_leaves_block:
  "Extract ''<mem<memory>x</memory>ory>y</memory>'' = (''<memory>y</memory>'', ''x'', True)"
  by code_simp

end
