(* ===== verification/Writeback.thy ===== *)
theory Writeback
  imports Paths
begin

text \<open>
  The commit and push of a memory block (internal/writeback/writeback.go). The file system is a
  map from clean absolute paths to contents with the errors its calls may give; go-git is a
  parameter.
\<close>

section \<open>State and library\<close>

record file_system =
  fs_files :: "string \<Rightarrow> string option"
  fs_read_err :: "string \<Rightarrow> bool"
  fs_mkdir_err :: "string \<Rightarrow> bool"
  fs_write_err :: "string \<Rightarrow> bool"

datatype push_result = PushDone | AlreadyUpToDate | PushFailed string

record git_lib =
  gl_open :: "string \<Rightarrow> string option"
  gl_worktree :: "string \<Rightarrow> string option"
  gl_add :: "string \<Rightarrow> string \<Rightarrow> string option"
  gl_commit :: "string \<Rightarrow> (string \<Rightarrow> string option) \<Rightarrow> string \<Rightarrow> string \<Rightarrow> string \<Rightarrow> string + string"
  gl_fetch_refs :: "string \<Rightarrow> string \<Rightarrow> string list option"
  gl_push :: "string \<Rightarrow> string \<Rightarrow> string \<Rightarrow> string \<Rightarrow> string \<Rightarrow> push_result"
  gl_push_url :: "string \<Rightarrow> string \<Rightarrow> push_result"

text \<open>The results of \<open>gl_open\<close>, \<open>gl_worktree\<close> and \<open>gl_add\<close> are the error, if any.\<close>

record writeback_options =
  wo_path :: string
  wo_mode :: string
  wo_content :: string
  wo_message :: string
  wo_author_name :: string
  wo_author_email :: string

datatype writeback_err =
    ModeInvalid string
  | PathOutside string
  | ReadExisting
  | MkdirErr
  | WriteErr
  | OpenRepo string
  | WorktreeErr string
  | GitAdd string
  | GitCommit string
  | PushErr string

section \<open>Operations\<close>

definition newline :: string where
  "newline = [CHR 0x0A]"

definition ensureTrailingNewline :: "string \<Rightarrow> string" where
  "ensureTrailingNewline s = (if has_suffix s newline then s else s @ newline)"

definition write_file :: "string \<Rightarrow> string \<Rightarrow> (file_system, writeback_err, unit) sx" where
  "write_file path content = (\<lambda>fs. if fs_mkdir_err fs path then (Inl MkdirErr, fs)
     else if fs_write_err fs path then (Inl WriteErr, fs)
     else (Inr (), fs\<lparr>fs_files := (fs_files fs)(path \<mapsto> content)\<rparr>))"

text \<open>The new content of the file; a missing file counts as empty.\<close>

definition new_content :: "file_system \<Rightarrow> string \<Rightarrow> writeback_options \<Rightarrow> writeback_err + string" where
  "new_content fs path opts =
     (if wo_mode opts = ''replace'' then Inr (ensureTrailingNewline (wo_content opts))
      else if fs_read_err fs path then Inl ReadExisting
      else let existing = (case fs_files fs path of Some s \<Rightarrow> s | None \<Rightarrow> []);
               base = (if existing \<noteq> [] \<and> \<not> has_suffix existing newline then existing @ newline else existing)
           in Inr (base @ ensureTrailingNewline (wo_content opts)))"

definition git_commit :: "git_lib \<Rightarrow> string \<Rightarrow> writeback_options \<Rightarrow> (file_system, writeback_err, string) sx" where
  "git_commit g absRoot opts = (\<lambda>fs.
     case gl_open g absRoot of
       Some e \<Rightarrow> (Inl (OpenRepo e), fs)
     | None \<Rightarrow>
     (case gl_worktree g absRoot of
        Some e \<Rightarrow> (Inl (WorktreeErr e), fs)
      | None \<Rightarrow>
      (case gl_add g absRoot (wo_path opts) of
         Some e \<Rightarrow> (Inl (GitAdd e), fs)
       | None \<Rightarrow>
         (let msg = (if wo_message opts = [] then ''chore(cronfoundry): update '' @ wo_path opts else wo_message opts) in
          case gl_commit g absRoot (fs_files fs) msg (wo_author_name opts) (wo_author_email opts) of
            Inl e \<Rightarrow> (Inl (GitCommit e), fs)
          | Inr hash \<Rightarrow> (Inr hash, fs)))))"

definition Commit :: "git_lib \<Rightarrow> string \<Rightarrow> writeback_options \<Rightarrow> (file_system, writeback_err, string) sx" where
  "Commit g absRoot opts =
     (if wo_mode opts \<noteq> ''append'' \<and> wo_mode opts \<noteq> ''replace'' then throw (ModeInvalid (wo_mode opts))
      else let cleaned = Join absRoot (wo_path opts) in
        if \<not> inside_root absRoot cleaned then throw (PathOutside (wo_path opts))
        else bind (gets (\<lambda>fs. new_content fs cleaned opts)) (\<lambda>res.
          case res of
            Inl e \<Rightarrow> throw e
          | Inr content \<Rightarrow> bind (write_file cleaned content) (\<lambda>_. git_commit g absRoot opts)))"

definition push_branch :: "string list option \<Rightarrow> string" where
  "push_branch refs = (case refs of
       None \<Rightarrow> ''main''
     | Some rs \<Rightarrow>
       (case find (\<lambda>r. has_prefix r ''refs/heads/'') rs of
          None \<Rightarrow> ''main''
        | Some r \<Rightarrow> trim_prefix r ''refs/heads/''))"

definition push_outcome :: "push_result \<Rightarrow> writeback_err option" where
  "push_outcome r = (case r of PushFailed e \<Rightarrow> Some (PushErr e) | _ \<Rightarrow> None)"

definition Push :: "git_lib \<Rightarrow> string \<Rightarrow> string \<Rightarrow> string \<Rightarrow> string \<Rightarrow> writeback_err option" where
  "Push g repoRoot remoteName username token = (case gl_open g repoRoot of
       Some e \<Rightarrow> Some (OpenRepo e)
     | None \<Rightarrow> push_outcome (gl_push g repoRoot remoteName username token
         (''HEAD:refs/heads/'' @ push_branch (gl_fetch_refs g repoRoot remoteName))))"

definition PushToURL :: "git_lib \<Rightarrow> string \<Rightarrow> string \<Rightarrow> writeback_err option" where
  "PushToURL g repoRoot remoteURL = (case gl_open g repoRoot of
       Some e \<Rightarrow> Some (OpenRepo e)
     | None \<Rightarrow> push_outcome (gl_push_url g repoRoot remoteURL))"

section \<open>Lemmas\<close>

definition sample_fs :: file_system where
  "sample_fs = \<lparr>fs_files = [''/repo/m.md'' \<mapsto> ''old''], fs_read_err = (\<lambda>_. False), fs_mkdir_err = (\<lambda>_. False),
     fs_write_err = (\<lambda>_. False)\<rparr>"

definition sample_git :: git_lib where
  "sample_git = \<lparr>gl_open = (\<lambda>_. None), gl_worktree = (\<lambda>_. None), gl_add = (\<lambda>_ _. None), gl_commit = (\<lambda>_ _ _ _ _. Inr ''abc''),
     gl_fetch_refs = (\<lambda>_ _. None), gl_push = (\<lambda>_ _ _ _ _. PushDone), gl_push_url = (\<lambda>_ _. PushDone)\<rparr>"

definition sample_options :: "string \<Rightarrow> writeback_options" where
  "sample_options path = \<lparr>wo_path = path, wo_mode = ''append'', wo_content = ''new'', wo_message = [],
     wo_author_name = ''bot'', wo_author_email = ''bot@x''\<rparr>"

lemma snd_git_commit [simp]: "snd (git_commit g root opts fs) = fs"
  by (simp add: git_commit_def Let_def split: option.split sum.split)

lemma ensureTrailingNewline_shape: "\<exists>t. ensureTrailingNewline s = t @ newline \<and> (s = t \<or> s = t @ newline)"
proof (cases "has_suffix s newline")
  case True
  then obtain t where "rev s = newline @ t" by (auto simp: has_suffix_def has_prefix_iff newline_def)
  then have "s = rev t @ newline" by (simp add: newline_def rev_swap)
  then show ?thesis using True by (auto simp: ensureTrailingNewline_def)
qed (simp add: ensureTrailingNewline_def)

lemma new_content_shape:
  assumes "new_content fs p opts = Inr c" "wo_mode opts = ''append'' \<or> wo_mode opts = ''replace''"
  shows "\<exists>kept sep. c = kept @ sep @ ensureTrailingNewline (wo_content opts) \<and> (sep = [] \<or> sep = newline) \<and>
    (if wo_mode opts = ''append'' then kept = (case fs_files fs p of Some old \<Rightarrow> old | None \<Rightarrow> []) else kept = [] \<and> sep = [])"
proof (cases "wo_mode opts = ''append''")
  case True
  define old where "old = (case fs_files fs p of Some old \<Rightarrow> old | None \<Rightarrow> [])"
  have "c = old @ (if old \<noteq> [] \<and> \<not> has_suffix old newline then newline else []) @ ensureTrailingNewline (wo_content opts)"
    using assms(1) True by (auto simp: new_content_def Let_def old_def split: if_splits option.splits)
  then show ?thesis using True
    by (intro exI [of _ old] exI [of _ "if old \<noteq> [] \<and> \<not> has_suffix old newline then newline else []"]) (simp add: old_def)
next
  case False
  then show ?thesis using assms by (auto simp: new_content_def)
qed

lemma Commit_cases:
  assumes "Commit g root opts fs = (res, fs')"
  shows "fs' = fs \<and> (\<exists>e. res = Inl e) \<or>
    (\<exists>c. inside_root root (Join root (wo_path opts)) \<and> new_content fs (Join root (wo_path opts)) opts = Inr c \<and>
       fs' = fs\<lparr>fs_files := (fs_files fs)(Join root (wo_path opts) \<mapsto> c)\<rparr> \<and>
       (wo_mode opts = ''append'' \<or> wo_mode opts = ''replace''))"
proof (cases "(wo_mode opts = ''append'' \<or> wo_mode opts = ''replace'') \<and> inside_root root (Join root (wo_path opts))")
  case False
  then show ?thesis using assms by (auto simp: Commit_def Let_def split: if_splits)
next
  case ok: True
  show ?thesis
  proof (cases "new_content fs (Join root (wo_path opts)) opts")
    case (Inl e)
    then have "Commit g root opts fs = (Inl e, fs)" using ok by (auto simp: Commit_def Let_def bind_def)
    then show ?thesis using assms by simp
  next
    case (Inr c)
    let ?p = "Join root (wo_path opts)"
    show ?thesis
    proof (cases "fs_mkdir_err fs ?p \<or> fs_write_err fs ?p")
      case True
      then show ?thesis using ok assms Inr by (auto simp: Commit_def Let_def bind_def write_file_def split: if_splits)
    next
      case False
      then have "Commit g root opts fs = git_commit g root opts (fs\<lparr>fs_files := (fs_files fs)(?p \<mapsto> c)\<rparr>)"
        using ok Inr by (auto simp: Commit_def Let_def bind_def write_file_def)
      then have "fs' = fs\<lparr>fs_files := (fs_files fs)(?p \<mapsto> c)\<rparr>"
        using assms by (metis snd_conv snd_git_commit)
      then show ?thesis using ok Inr by blast
    qed
  qed
qed



end
