(* ===== verification/Mcp.thy ===== *)
theory Mcp
  imports Go_Text
begin

text \<open>
  The manager of MCP servers (internal/mcp/manager.go): tool names, the parallel dispatch of a
  turn's tool calls and the ring buffer that keeps the end of a server's error output. The
  server processes and the JSON-RPC client are parameters; Mcp_Client models them. The second part
  shows that the order in which calls end does not matter and that the ring buffer refines the
  end of a list.
\<close>

section \<open>Types\<close>

record mcp_tool =
  mt_name :: string
  mt_description :: string
  mt_input_schema :: string

record mcp_call =
  mc_id :: string
  mc_name :: string
  mc_input :: string

record call_result =
  cr_id :: string
  cr_result_json :: string
  cr_is_error :: bool
  cr_duration_ms :: int

record fatal_error =
  fe_kind :: string
  fe_err :: string

datatype call_err = DeadlineExceeded string | Canceled string | CallFailed string

section \<open>The manager\<close>

text \<open>A raw JSON message is its bytes.\<close>

text \<open>The started servers with their tools, and what starting a process and the handshake may give.\<close>

type_synonym mcp_servers = "(string \<times> mcp_tool list) list"

record mcp_lib =
  ml_start :: "string \<Rightarrow> string list \<Rightarrow> string list \<Rightarrow> string option"
  ml_initialize :: "string \<Rightarrow> string option"
  ml_list_tools :: "string \<Rightarrow> string + mcp_tool list"
  ml_call_tool :: "string \<Rightarrow> string \<Rightarrow> string \<Rightarrow> bool \<Rightarrow> call_err + (string \<times> bool \<times> int)"

text \<open>
  \<open>ml_call_tool server tool input cancelled\<close>: the flag says that the dispatch was cancelled
  before the call came back.
\<close>

definition manager_start ::
  "mcp_lib \<Rightarrow> string \<Rightarrow> string \<Rightarrow> string list \<Rightarrow> string list \<Rightarrow> mcp_servers \<Rightarrow> string option \<times> mcp_servers" where
  "manager_start L name command args env servers =
     (if map_of servers name \<noteq> None then (Some (''mcp: server '' @ quoted name @ '' already started''), servers)
      else case ml_start L command args env of
        Some e \<Rightarrow> (Some (''mcp: start '' @ quoted name @ '': '' @ e), servers)
      | None \<Rightarrow>
        (case ml_initialize L name of
           Some e \<Rightarrow> (Some (''mcp: initialize '' @ quoted name @ '': '' @ e), servers)
         | None \<Rightarrow>
           (case ml_list_tools L name of
              Inl e \<Rightarrow> (Some (''mcp: tools/list '' @ quoted name @ '': '' @ e), servers)
            | Inr tools \<Rightarrow> (None, (name, tools) # servers))))"

definition manager_tools :: "string \<Rightarrow> mcp_servers \<Rightarrow> mcp_tool list" where
  "manager_tools name servers = (case map_of servers name of None \<Rightarrow> [] | Some tools \<Rightarrow> tools)"

definition manager_shutdown :: "mcp_servers \<Rightarrow> mcp_servers" where
  "manager_shutdown servers = []"

definition splitToolName :: "string \<Rightarrow> (string \<times> string) option" where
  "splitToolName name = (case Index name ''__'' of
       None \<Rightarrow> None
     | Some i \<Rightarrow> if i = 0 \<or> i + 2 = length name then None else Some (take i name, drop (i + 2) name))"

section \<open>Dispatch\<close>

definition fatal_kind :: "bool \<Rightarrow> call_err \<Rightarrow> string" where
  "fatal_kind ctx_done e = (case e of
       DeadlineExceeded _ \<Rightarrow> ''mcp_tool_timeout''
     | Canceled _ \<Rightarrow> ''mcp_call_cancelled''
     | CallFailed _ \<Rightarrow> if ctx_done then ''mcp_call_cancelled'' else ''mcp_server_crashed'')"

definition call_err_text :: "call_err \<Rightarrow> string" where
  "call_err_text e = (case e of DeadlineExceeded t \<Rightarrow> t | Canceled t \<Rightarrow> t | CallFailed t \<Rightarrow> t)"

text \<open>One goroutine: its result and the fatal error it reports, if any.\<close>

definition call_outcome ::
  "mcp_lib \<Rightarrow> mcp_servers \<Rightarrow> bool \<Rightarrow> mcp_call \<Rightarrow> bool \<Rightarrow> call_result \<times> fatal_error option" where
  "call_outcome L servers ctx_done call cancelled =
     (let failed = \<lparr>cr_id = mc_id call, cr_result_json = [], cr_is_error = True, cr_duration_ms = 0\<rparr> in
      case splitToolName (mc_name call) of
        None \<Rightarrow> (failed, Some \<lparr>fe_kind = ''mcp_tool_invalid_name'', fe_err = ''tool name '' @ quoted (mc_name call) @ '' missing __ namespace''\<rparr>)
      | Some (server, tool) \<Rightarrow>
        if map_of servers server = None then (failed, Some \<lparr>fe_kind = ''mcp_tool_invalid_name'', fe_err = ''no such server '' @ quoted server\<rparr>)
        else case ml_call_tool L server tool (mc_input call) cancelled of
          Inl e \<Rightarrow> (failed, Some \<lparr>fe_kind = fatal_kind ctx_done e, fe_err = call_err_text e\<rparr>)
        | Inr (raw, isErr, dur) \<Rightarrow>
            (\<lparr>cr_id = mc_id call, cr_result_json = raw, cr_is_error = isErr, cr_duration_ms = dur\<rparr>, None))"

text \<open>
  The goroutines come back in the order of the list of indices; the first fatal error is kept
  and cancels the calls still running.
\<close>

definition finish_call ::
  "(nat \<Rightarrow> bool \<Rightarrow> call_result \<times> fatal_error option) \<Rightarrow> nat \<Rightarrow>
   call_result list \<times> fatal_error option \<Rightarrow> call_result list \<times> fatal_error option" where
  "finish_call outcome i st = (case st of (results, fatal) \<Rightarrow>
     (case outcome i (fatal \<noteq> None) of (r, f) \<Rightarrow> (results[i := r], case fatal of Some e \<Rightarrow> Some e | None \<Rightarrow> f)))"

definition DispatchAll ::
  "mcp_lib \<Rightarrow> mcp_servers \<Rightarrow> bool \<Rightarrow> nat list \<Rightarrow> mcp_call list \<Rightarrow> call_result list \<times> fatal_error option" where
  "DispatchAll L servers ctx_done order calls =
     fold (finish_call (\<lambda>i. call_outcome L servers ctx_done (calls ! i))) order
       (replicate (length calls) \<lparr>cr_id = [], cr_result_json = [], cr_is_error = False, cr_duration_ms = 0\<rparr>, None)"

section \<open>The ring buffer\<close>

record ring_buf =
  rb_buf :: string
  rb_pos :: nat
  rb_len :: nat

definition ring_new :: "nat \<Rightarrow> ring_buf" where
  "ring_new n = \<lparr>rb_buf = replicate n (CHR 0x00), rb_pos = 0, rb_len = 0\<rparr>"

definition ring_put :: "char \<Rightarrow> ring_buf \<Rightarrow> ring_buf" where
  "ring_put b r = \<lparr>rb_buf = (rb_buf r)[rb_pos r := b], rb_pos = (rb_pos r + 1) mod length (rb_buf r),
     rb_len = (if rb_len r < length (rb_buf r) then rb_len r + 1 else rb_len r)\<rparr>"

definition ring_write :: "string \<Rightarrow> ring_buf \<Rightarrow> ring_buf" where
  "ring_write data r = fold ring_put data r"

definition ring_snapshot :: "ring_buf \<Rightarrow> string" where
  "ring_snapshot r =
     (let n = length (rb_buf r); start = (rb_pos r + n - rb_len r) mod n in
      if start + rb_len r \<le> n then take (rb_len r) (drop start (rb_buf r))
      else drop start (rb_buf r) @ take (rb_len r - (n - start)) (rb_buf r))"

text \<open>
  What the dispatch of tool calls promises whatever order they finish in, and that the ring
  buffer refines the last bytes of a stream.
\<close>

section \<open>Tool names\<close>

lemma splitToolName_join:
  assumes "server \<noteq> []" "tool \<noteq> []" "CHR ''_'' \<notin> set server"
  shows "splitToolName (server @ ''__'' @ tool) = Some (server, tool)"
proof -
  have "\<not> sublist ''__'' (server @ butlast ''__'')"
  proof
    assume "sublist ''__'' (server @ butlast ''__'')"
    then obtain p q where e: "server @ ''_'' = p @ ''__'' @ q" by (auto simp: sublist_def)
    have "count_list (server @ ''_'') (CHR ''_'') = 1" using assms(3) by (simp add: count_notin)
    then show False unfolding e by simp
  qed
  then have "cut_sub ''__'' (server @ ''__'' @ tool) = Some (server, tool)"
    using cut_sub_skip [of "CHR ''_''" "''_''" server tool] by simp
  then show ?thesis using assms(1,2) by (simp add: splitToolName_def Index_def)
qed

section \<open>Dispatch\<close>

lemma finish_calls_length [simp]: "length (fst (fold (finish_call oc) order st)) = length (fst st)"
  by (induction order arbitrary: st) (auto simp: finish_call_def split: prod.splits)

text \<open>Once a call failed the fatal error stays.\<close>

lemma finish_calls_fatal: "snd st = Some e \<Longrightarrow> snd (fold (finish_call oc) order st) = Some e"
proof (induction order arbitrary: st)
  case (Cons i order)
  have "snd (finish_call oc i st) = Some e" using Cons.prems by (auto simp: finish_call_def split: prod.splits)
  then show ?case using Cons.IH by simp
qed simp

lemma finish_calls_calm:
  "snd st = None \<Longrightarrow> snd (fold (finish_call oc) order st) = None \<longleftrightarrow> (\<forall>i \<in> set order. snd (oc i False) = None)"
proof (induction order arbitrary: st)
  case (Cons i order)
  have n: "snd (finish_call oc i st) = snd (oc i False)"
    using Cons.prems by (auto simp: finish_call_def split: prod.splits)
  show ?case
  proof (cases "snd (oc i False)")
    case None
    then show ?thesis using Cons.IH n by simp
  next
    case (Some e)
    then show ?thesis using n finish_calls_fatal [of "finish_call oc i st" e oc order] by simp
  qed
qed simp

lemma finish_calls_ids:
  assumes "\<And>i c. cr_id (fst (oc i c)) = ident i" "distinct order" "i < length (fst st)"
  shows "cr_id (fst (fold (finish_call oc) order st) ! i) = (if i \<in> set order then ident i else cr_id (fst st ! i))"
  using assms(2,3)
proof (induction order arbitrary: st)
  case (Cons j order)
  have "fst (finish_call oc j st) = (fst st)[j := fst (oc j (snd st \<noteq> None))]"
    by (auto simp: finish_call_def split: prod.splits)
  then show ?case using Cons assms(1) by (cases "i = j") auto
qed simp

lemma finish_calls_results:
  assumes "\<forall>i \<in> set order. snd (oc i False) = None" "snd st = None" "distinct order" "i < length (fst st)"
  shows "fst (fold (finish_call oc) order st) ! i = (if i \<in> set order then fst (oc i False) else fst st ! i)"
  using assms
proof (induction order arbitrary: st)
  case (Cons j order)
  have "fst (finish_call oc j st) = (fst st)[j := fst (oc j False)]" "snd (finish_call oc j st) = None"
    using Cons.prems by (auto simp: finish_call_def split: prod.splits)
  then show ?case using Cons by (cases "i = j") auto
qed simp

lemma call_outcome_id [simp]: "cr_id (fst (call_outcome L servers d call c)) = mc_id call"
  by (simp add: call_outcome_def Let_def split: option.split sum.split prod.split)

section \<open>The ring buffer\<close>

definition ring_ok :: "ring_buf \<Rightarrow> bool" where
  "ring_ok r \<longleftrightarrow> rb_pos r < length (rb_buf r) \<and> rb_len r \<le> length (rb_buf r)"

text \<open>The stored bytes, oldest first.\<close>

definition ring_abs :: "ring_buf \<Rightarrow> string" where
  "ring_abs r = map (\<lambda>i. rb_buf r ! ((rb_pos r + length (rb_buf r) - rb_len r + i) mod length (rb_buf r))) [0..<rb_len r]"

definition last_n :: "nat \<Rightarrow> 'a list \<Rightarrow> 'a list" where
  "last_n n xs = drop (length xs - n) xs"

lemma last_n_absorb: "last_n n (last_n n xs @ ys) = last_n n (xs @ ys)"
proof (cases "n \<le> length xs")
  case True
  then show ?thesis by (cases "length ys \<le> n") (auto simp: last_n_def add.commute [of "length ys"])
next
  case False
  then show ?thesis by (simp add: last_n_def)
qed

lemma ring_new_ok: "0 < n \<Longrightarrow> ring_ok (ring_new n) \<and> ring_abs (ring_new n) = []"
  by (simp add: ring_ok_def ring_new_def ring_abs_def)

lemma ring_put_ok: "ring_ok r \<Longrightarrow> ring_ok (ring_put b r)"
  unfolding ring_ok_def ring_put_def by (auto intro!: mod_less_divisor)

lemma mod_shift:
  fixes p l n i :: nat
  assumes "p < n" "l \<le> n" "i \<le> l"
  shows "(p + n - l + i) mod n = (if p + i < l then p + n - l + i else p + i - l)"
proof (cases "p + i < l")
  case True
  then show ?thesis using assms by simp
next
  case False
  then have e: "p + n - l + i = p + i - l + n" and "p + i - l < n" using assms by simp_all
  then show ?thesis using False unfolding e mod_add_self2 by simp
qed

lemma ring_snapshot_abs:
  assumes "ring_ok r"
  shows "ring_snapshot r = ring_abs r"
proof -
  define n where "n = length (rb_buf r)"
  define p where "p = rb_pos r"
  define l where "l = rb_len r"
  note defs = n_def [symmetric] p_def [symmetric] l_def [symmetric]
  have b: "p < n" "l \<le> n" using assms by (simp_all add: ring_ok_def n_def p_def l_def)
  have s: "(p + n - l) mod n = (if p < l then p + n - l else p - l)" using mod_shift [of p n l 0] b by simp
  have snap: "ring_snapshot r = (if p < l then drop (p + n - l) (rb_buf r) @ take p (rb_buf r)
      else take l (drop (p - l) (rb_buf r)))"
    using b by (auto simp: ring_snapshot_def Let_def defs s)
  show ?thesis
  proof (rule nth_equalityI)
    show "length (ring_snapshot r) = length (ring_abs r)" using b by (auto simp: snap ring_abs_def defs)
  next
    fix i assume "i < length (ring_snapshot r)"
    then have i: "i < l" using b by (auto simp: snap defs split: if_splits)
    then have "ring_abs r ! i = rb_buf r ! (if p + i < l then p + n - l + i else p + i - l)"
      using mod_shift [of p n l i] b by (simp add: ring_abs_def defs)
    then show "ring_snapshot r ! i = ring_abs r ! i"
      using b i by (auto simp: snap nth_append defs add.commute [of i p])
  qed
qed

text \<open>Putting a byte appends it to the stored bytes and drops the oldest one if they are full.\<close>

lemma ring_put_abs:
  assumes "ring_ok r"
  shows "ring_abs (ring_put b r) = last_n (length (rb_buf r)) (ring_abs r @ [b])"
proof -
  define n where "n = length (rb_buf r)"
  define p where "p = rb_pos r"
  define l where "l = rb_len r"
  define l' where "l' = (if l < n then l + 1 else l)"
  note defs = n_def [symmetric] p_def [symmetric] l_def [symmetric]
  have b: "p < n" "l \<le> n" "l' \<le> n" using assms by (simp_all add: ring_ok_def n_def p_def l_def l'_def)
  have idx: "((p + 1) mod n + n - l' + i) mod n = (p + n - l + (i + (if l < n then 0 else 1))) mod n" if "i < l'" for i
  proof -
    have "(p + 1) mod n + n - l' + i = (p + 1) mod n + (n - l' + i)" using b by simp
    then have "((p + 1) mod n + n - l' + i) mod n = (p + 1 + (n - l' + i)) mod n" by (metis mod_add_left_eq)
    also have "p + 1 + (n - l' + i) = p + n - l + (i + (if l < n then 0 else 1))" using b by (auto simp: l'_def)
    finally show ?thesis .
  qed
  have put: "ring_abs (ring_put b r) = map (\<lambda>i. (rb_buf r)[p := b] ! (((p + 1) mod n + n - l' + i) mod n)) [0..<l']"
    unfolding n_def p_def l'_def l_def by (simp only: ring_abs_def ring_put_def ring_buf.simps length_list_update)
  show ?thesis
  proof (rule nth_equalityI)
    show "length (ring_abs (ring_put b r)) = length (last_n (length (rb_buf r)) (ring_abs r @ [b]))"
      using b by (auto simp: ring_abs_def ring_put_def last_n_def defs l'_def)
  next
    fix i assume "i < length (ring_abs (ring_put b r))"
    then have i: "i < l'" by (auto simp: ring_abs_def ring_put_def n_def l_def l'_def split: if_splits)
    define j where "j = i + (if l < n then 0 else 1)"
    have j: "j \<le> l" using i b by (auto simp: j_def l'_def split: if_splits)
    have "ring_abs (ring_put b r) ! i = (rb_buf r)[p := b] ! ((p + n - l + j) mod n)"
      using i idx [OF i] by (simp only: put nth_map_upt j_def) simp
    also have "\<dots> = (ring_abs r @ [b]) ! j"
    proof (cases "j = l")
      case True
      then have "(p + n - l + j) mod n = p" using b by simp
      then show ?thesis using True b by (simp add: ring_abs_def nth_append defs)
    next
      case False
      have "l < n \<or> 0 < j" by (simp add: j_def)
      then have "(p + n - l + j) mod n \<noteq> p" using False mod_shift [of p n l j] b j by auto
      then show ?thesis using False j by (simp add: ring_abs_def nth_append defs)
    qed
    also have "\<dots> = last_n (length (rb_buf r)) (ring_abs r @ [b]) ! i"
      using i b by (auto simp: last_n_def ring_abs_def defs j_def l'_def nth_append)
    finally show "ring_abs (ring_put b r) ! i = last_n (length (rb_buf r)) (ring_abs r @ [b]) ! i" .
  qed
qed

lemma ring_write_abs:
  "ring_ok r \<Longrightarrow> ring_ok (ring_write data r) \<and> length (rb_buf (ring_write data r)) = length (rb_buf r) \<and>
     ring_abs (ring_write data r) = last_n (length (rb_buf r)) (ring_abs r @ data)"
proof (induction data arbitrary: r)
  case Nil
  then show ?case by (simp add: ring_write_def last_n_def ring_abs_def ring_ok_def)
next
  case (Cons b data)
  have ok: "ring_ok (ring_put b r)" by (rule ring_put_ok) (rule Cons.prems)
  have len: "length (rb_buf (ring_put b r)) = length (rb_buf r)" by (simp add: ring_put_def)
  have "ring_write (b # data) r = ring_write data (ring_put b r)" by (simp add: ring_write_def)
  moreover have "last_n n (last_n n (xs @ [b]) @ data) = last_n n (xs @ b # data)" for n xs
    using last_n_absorb [of n "xs @ [b]" data] by simp
  ultimately show ?case using Cons.IH [OF ok] len ring_put_abs [OF Cons.prems, of b] by simp
qed

section \<open>Claims\<close>

definition sample_mcp :: mcp_lib where
  "sample_mcp = \<lparr>ml_start = (\<lambda>_ _ _. None), ml_initialize = (\<lambda>_. None), ml_list_tools = (\<lambda>_. Inr []),
     ml_call_tool = (\<lambda>_ t i _. Inr (t, False, 3))\<rparr>"

definition sample_calls :: "mcp_call list" where
  "sample_calls = [\<lparr>mc_id = ''1'', mc_name = ''fs__read'', mc_input = []\<rparr>, \<lparr>mc_id = ''2'', mc_name = ''fs__list'', mc_input = []\<rparr>]"

text \<open>
  C23: The results of a turn's tool calls do not depend on the order in which the calls finish:
  each call has one result, at its place and under its identifier; the turn fails exactly if
  some call would fail by itself, and otherwise every order gives the same results.
\<close>

theorem dispatch_order_irrelevant:
  assumes "distinct order" "set order = {..<length calls}"
    and "DispatchAll L servers d order calls = (results, fatal)"
  shows "map cr_id results = map mc_id calls \<and>
    (fatal = None \<longleftrightarrow> (\<forall>c \<in> set calls. snd (call_outcome L servers d c False) = None)) \<and>
    (fatal = None \<longrightarrow> results = map (\<lambda>c. fst (call_outcome L servers d c False)) calls)"
proof -
  let ?oc = "\<lambda>i. call_outcome L servers d (calls ! i)"
  let ?st = "(replicate (length calls) \<lparr>cr_id = [], cr_result_json = [], cr_is_error = False, cr_duration_ms = 0\<rparr>,
      None :: fatal_error option)"
  have f: "fold (finish_call ?oc) order ?st = (results, fatal)" using assms(3) by (simp add: DispatchAll_def)
  have len: "length results = length calls" using finish_calls_length [of ?oc order ?st] f by simp
  have "map cr_id results = map mc_id calls"
    using finish_calls_ids [of ?oc "\<lambda>i. mc_id (calls ! i)" order _ ?st] f assms(1,2) len
    by (intro nth_equalityI) auto
  moreover have calm: "fatal = None \<longleftrightarrow> (\<forall>i < length calls. snd (?oc i False) = None)"
    using finish_calls_calm [of ?st ?oc order] f assms(2) by auto
  moreover have "results = map (\<lambda>c. fst (call_outcome L servers d c False)) calls" if "fatal = None"
    using finish_calls_results [of order ?oc ?st] that calm f assms(1,2) len
    by (intro nth_equalityI) auto
  ultimately show ?thesis by (auto simp: all_set_conv_all_nth)
qed

theorem dispatch_order_irrelevant_witness:
  "\<exists>results. DispatchAll sample_mcp [(''fs'', [])] False [1, 0] sample_calls = (results, None) \<and>
     map cr_id results = [''1'', ''2'']"
proof -
  have "snd (DispatchAll sample_mcp [(''fs'', [])] False [1, 0] sample_calls) = None" by code_simp
  then obtain results where r: "DispatchAll sample_mcp [(''fs'', [])] False [1, 0] sample_calls = (results, None)"
    by (metis prod.collapse)
  have "map cr_id results = map mc_id sample_calls"
    using dispatch_order_irrelevant [OF _ _ r] by (auto simp: sample_calls_def lessThan_Suc)
  then show ?thesis using r by (auto simp: sample_calls_def)
qed

text \<open>
  C24: The ring buffer refines the end of a stream: after any sequence of writes its snapshot is
  the last bytes written, at most as many as the buffer has.
\<close>

theorem ring_keeps_tail:
  assumes "0 < n"
  shows "ring_snapshot (fold ring_write chunks (ring_new n)) = drop (length (concat chunks) - n) (concat chunks)"
proof -
  have "ring_ok (fold ring_write chunks r) \<and> ring_abs (fold ring_write chunks r) = last_n (length (rb_buf r)) (ring_abs r @ concat chunks)"
    if "ring_ok r" for r
    using that
  proof (induction chunks arbitrary: r)
    case Nil
    then show ?case by (simp add: last_n_def ring_abs_def ring_ok_def)
  next
    case (Cons c chunks)
    then show ?case using ring_write_abs [OF Cons.prems, of c] by (simp add: last_n_absorb)
  qed
  then show ?thesis using ring_new_ok [OF assms] by (simp add: ring_snapshot_abs last_n_def ring_new_def)
qed

theorem ring_keeps_tail_witness: "ring_snapshot (fold ring_write [''abc'', ''de''] (ring_new 4)) = ''bcde''"
  using ring_keeps_tail [of 4 "[''abc'', ''de'']"] by simp

end
