(* ===== verification/Llm.thy ===== *)
theory Llm
  imports Prelude
begin

text \<open>
  The types of the provider interface (internal/llm/provider.go), the choice of a provider by
  name (factory.go) and the cost of a run (pricing.go). The providers' clients are in
  Llm_Clients; here a provider is a function from the conversation to the answer of a turn.
\<close>

section \<open>Conversation\<close>

datatype role = RoleSystem | RoleUser | RoleAssistant | RoleTool

record tool_use =
  tu_id :: string
  tu_name :: string
  tu_input :: string

record message =
  mg_role :: role
  mg_content :: string
  mg_tool_uses :: "tool_use list"
  mg_tool_use_id :: string

record usage =
  ug_input_tokens :: int
  ug_output_tokens :: int

record call_options =
  co_model :: string
  co_max_tokens :: int
  co_api_key :: string
  co_endpoint :: string
  co_deployment :: string

record tool_def =
  td_name :: string
  td_description :: string
  td_input_schema :: string

record turn_result =
  tr_text :: string
  tr_tool_uses :: "tool_use list"
  tr_usage :: usage
  tr_stop_reason :: string

text \<open>
  A provider answers the n-th call of a run. \<open>pv_chat\<close> streams its text in chunks; \<open>pv_chat_turn\<close>
  is absent for a provider without tool use.
\<close>

record provider =
  pv_chat :: "nat \<Rightarrow> message list \<Rightarrow> call_options \<Rightarrow> string list \<times> (string + usage)"
  pv_chat_turn :: "(nat \<Rightarrow> message list \<Rightarrow> tool_def list \<Rightarrow> call_options \<Rightarrow> string + turn_result) option"

record provider_lib =
  pl_openai :: "string \<Rightarrow> provider"
  pl_anthropic :: "string \<Rightarrow> provider"
  pl_azure_foundry :: provider
  pl_copilot_enterprise :: provider

definition NewProvider :: "provider_lib \<Rightarrow> (string \<Rightarrow> string) \<Rightarrow> string \<Rightarrow> string + provider" where
  "NewProvider L getenv name =
     (if name = ''openai'' then Inr (pl_openai L (getenv ''CRONFOUNDRY_OPENAI_BASE_URL''))
      else if name = ''anthropic'' then Inr (pl_anthropic L (getenv ''CRONFOUNDRY_ANTHROPIC_BASE_URL''))
      else if name = ''azure-foundry'' then Inr (pl_azure_foundry L)
      else if name = ''openrouter'' then
        (let base = getenv ''CRONFOUNDRY_OPENROUTER_BASE_URL'' in
         Inr (pl_openai L (if base = [] then ''https://openrouter.ai/api/v1'' else base)))
      else if name = ''copilot-enterprise'' then Inr (pl_copilot_enterprise L)
      else Inl (''unknown provider '' @ name))"

section \<open>Cost\<close>

definition priceTable :: "(string \<times> (string \<times> int \<times> int) list) list" where
  "priceTable =
    [(''openai'', [(''gpt-4o-mini'', 15, 60), (''gpt-4o'', 250, 1000), (''gpt-5.1'', 300, 600)]),
     (''openrouter'', [(''openai/gpt-4o-mini'', 15, 60), (''openai/gpt-4o'', 250, 1000), (''anthropic/claude-haiku-4.5'', 100, 500),
        (''anthropic/claude-sonnet-4.5'', 300, 1500), (''meta-llama/llama-3.3-70b-instruct'', 59, 79),
        (''google/gemini-2.0-flash-001'', 10, 40)]),
     (''anthropic'', [(''claude-haiku-4-5'', 100, 500), (''claude-sonnet-4-5'', 300, 1500), (''claude-opus-4-6'', 1500, 7500)]),
     (''copilot-enterprise'', [])]"

text \<open>64-bit integers wrap around, and division truncates toward zero.\<close>

definition int64 :: "int \<Rightarrow> int" where
  "int64 n = (n + 2 ^ 63) mod 2 ^ 64 - 2 ^ 63"

definition tdiv :: "int \<Rightarrow> int \<Rightarrow> int" where
  "tdiv a b = (if 0 \<le> a then a div b else - (- a div b))"

definition CostCents :: "string \<Rightarrow> string \<Rightarrow> usage \<Rightarrow> int" where
  "CostCents prov model u = (case map_of priceTable prov of
       None \<Rightarrow> 0
     | Some models \<Rightarrow>
       (case map_of models model of
          None \<Rightarrow> 0
        | Some (pin, pout) \<Rightarrow>
            int64 (tdiv (int64 (ug_input_tokens u * pin)) 1000000 + tdiv (int64 (ug_output_tokens u * pout)) 1000000)))"

lemma int64_id: "- (2 ^ 63) \<le> n \<Longrightarrow> n < 2 ^ 63 \<Longrightarrow> int64 n = n"
  by (simp add: int64_def)

lemma price_bounds:
  assumes "map_of priceTable prov = Some models" "map_of models model = Some (pin, pout)"
  shows "0 < pin \<and> pin \<le> 1500 \<and> 0 < pout \<and> pout \<le> 7500"
proof -
  have "models \<in> snd ` set priceTable" using map_of_SomeD [OF assms(1)] by force
  moreover have "(pin, pout) \<in> snd ` set models" using map_of_SomeD [OF assms(2)] by force
  ultimately show ?thesis by (auto simp: priceTable_def)
qed

lemma CostCents_bounds:
  assumes "0 \<le> ug_input_tokens u" "ug_input_tokens u < 2 ^ 31" "0 \<le> ug_output_tokens u" "ug_output_tokens u < 2 ^ 31"
  shows "0 \<le> CostCents prov model u \<and> CostCents prov model u < 2 ^ 31"
proof (cases "\<exists>models pin pout. map_of priceTable prov = Some models \<and> map_of models model = Some (pin, pout)")
  case False
  then show ?thesis by (auto simp: CostCents_def split: option.split)
next
  case True
  then obtain models pin pout where m: "map_of priceTable prov = Some models" "map_of models model = Some (pin, pout)" by auto
  note p = price_bounds [OF m]
  define a b where "a = ug_input_tokens u * pin" and "b = ug_output_tokens u * pout"
  have "a \<le> 2 ^ 31 * 1500" unfolding a_def by (rule mult_mono) (use assms p in simp_all)
  then have a: "0 \<le> a" "a \<le> 3221225472000" using assms p by (simp_all add: a_def)
  have "b \<le> 2 ^ 31 * 7500" unfolding b_def by (rule mult_mono) (use assms p in simp_all)
  then have b: "0 \<le> b" "b \<le> 16106127360000" using assms p by (simp_all add: b_def)
  have "int64 a = a" by (rule int64_id) (use a in simp_all)
  moreover have "int64 b = b" by (rule int64_id) (use b in simp_all)
  moreover have q: "0 \<le> a div 1000000" "a div 1000000 \<le> 3221226" "0 \<le> b div 1000000" "b div 1000000 \<le> 16106128"
    using a b by simp_all
  moreover have "int64 (a div 1000000 + b div 1000000) = a div 1000000 + b div 1000000"
    by (rule int64_id) (use q in simp_all)
  ultimately have "CostCents prov model u = a div 1000000 + b div 1000000"
    using m a(1) b(1) by (simp add: CostCents_def tdiv_def a_def [symmetric] b_def [symmetric])
  then show ?thesis using q by simp
qed

end
