(* ===== verification/Runner.thy ===== *)
theory Runner
  imports Sync Publish Memory Writeback Mcp Llm "HOL-Library.AList"
begin

text \<open>
  One run of a skill (internal/runner/runner.go): load the manifest and the skill, talk to the
  model, with tools if the skill declares MCP servers, publish the output and write the memory
  block back; and the resolver of secrets (internal/secrets/runner/resolver.go). Events, files,
  started servers and the number of calls to the model are the state of the run; the providers,
  the publishers, go-git, YAML and the MCP servers are parameters.
\<close>

section \<open>Secrets\<close>

definition upper_char :: "char \<Rightarrow> char" where
  "upper_char c = (let n = of_char c :: nat in if 97 \<le> n \<and> n \<le> 122 then char_of (n - 32) else c)"

text \<open>strings.ToUpper on ASCII names.\<close>

definition to_upper :: "string \<Rightarrow> string" where
  "to_upper s = map upper_char s"

definition secret_prefix :: string where
  "secret_prefix = ''CRONFOUNDRY_SECRET_''"

record resolver =
  rv_env :: "(string \<times> string) list"

definition Resolver_Get :: "resolver \<Rightarrow> string \<Rightarrow> string + string" where
  "Resolver_Get r name = (let key = secret_prefix @ to_upper name in
     case map_of (rv_env r) key of
       None \<Rightarrow> Inl (''secret '' @ quoted name @ '' not set; export '' @ key)
     | Some v \<Rightarrow> Inr v)"

definition AllValues :: "resolver \<Rightarrow> string list" where
  "AllValues r = map snd (filter (\<lambda>(k, v). has_prefix k secret_prefix \<and> v \<noteq> []) (AList.clearjunk (rv_env r)))"

section \<open>Inputs, results and state\<close>

definition DefaultMaxTurns :: int where
  "DefaultMaxTurns = 20"

record run_input =
  ri_repo_root :: string
  ri_manifest_path :: string
  ri_skill_path :: string
  ri_schedule_name :: string
  ri_run_id :: string
  ri_secrets :: resolver
  ri_llm_api_key :: string
  ri_llm_endpoint :: string
  ri_llm_deployment :: string
  ri_dry_run :: bool
  ri_skip_push :: bool
  ri_github_username :: string
  ri_github_token :: string
  ri_mcp_servers :: "mcp_server list"
  ri_mcp_env :: "(string \<times> (string \<times> env_value) list option) list option"
  ri_max_turns :: int

record run_result =
  rr_status :: string
  rr_error_kind :: string
  rr_usage :: usage
  rr_cost_cents :: int
  rr_output :: string
  rr_memory_content :: string
  rr_publish_results :: "publish_result list"
  rr_writeback_sha :: string
  rr_started_at :: time
  rr_finished_at :: time

record run_event =
  re_type :: string
  re_payload :: "(string \<times> json) list"

record runner_deps =
  rd_provider :: "string \<Rightarrow> string + provider"
  rd_publishers :: "string \<Rightarrow> publisher option"
  rd_mcp :: mcp_lib
  rd_order :: "nat \<Rightarrow> nat list"
  rd_ctx_done :: "nat \<Rightarrow> bool"
  rd_git :: git_lib
  rd_yaml :: yaml_lib
  rd_started :: time
  rd_finished :: time
  rd_local_offset :: time

text \<open>
  \<open>rd_order n\<close> is the order in which the tool calls after the n-th call to the model finish,
  \<open>rd_ctx_done n\<close> whether the context has ended then; \<open>rd_started\<close> and \<open>rd_finished\<close> are the two
  readings of the clock, \<open>rd_local_offset\<close> the offset of the local time zone.
\<close>

record run_state =
  rs_active :: string
  rs_events :: "run_event list"
  rs_fs :: file_system
  rs_servers :: mcp_servers
  rs_calls :: nat
  rs_usage :: usage
  rs_metrics :: "metric list"

datatype run_err =
    ErrReadManifest
  | ErrParseManifest
  | ErrValidate config_err
  | ErrFind find_err
  | ErrReadSkill
  | ErrParseSkill skill_err
  | ErrInclude include_err
  | ErrProvider string
  | ErrChat string
  | ErrToolUnsupported string
  | ErrMcpEnv string
  | ErrMcpStart string
  | ErrMcpFatal string
  | ErrMaxTurns int

text \<open>A failure carries the error kind, which is empty for the plain ones.\<close>

type_synonym 'a run_sx = "(run_state, string \<times> run_err, 'a) sx"

definition fail :: "run_err \<Rightarrow> 'a run_sx" where
  "fail e = throw ([], e)"

definition failKind :: "string \<Rightarrow> run_err \<Rightarrow> 'a run_sx" where
  "failKind kind e = throw (kind, e)"

definition emit_event :: "string \<Rightarrow> (string \<times> json) list \<Rightarrow> 'a \<Rightarrow> run_state \<Rightarrow> ('e + 'a) \<times> run_state" where
  "emit_event typ payload a s = (Inr a, s\<lparr>rs_events := rs_events s @ [\<lparr>re_type = typ, re_payload = payload\<rparr>]\<rparr>)"

definition enterPhase :: "string \<Rightarrow> string \<Rightarrow> run_event" where
  "enterPhase phase prev = \<lparr>re_type = ''phase.enter'',
     re_payload = (''phase'', JStr phase) # (if prev \<noteq> [] then [(''prev'', JStr prev)] else [])\<rparr>"

definition enter :: "string \<Rightarrow> unit run_sx" where
  "enter phase = modify (\<lambda>s. s\<lparr>rs_events := rs_events s @ [enterPhase phase []], rs_active := phase\<rparr>)"

section \<open>Helpers\<close>

text \<open>The insertion sort of the keys: the new element moves left past greater ones.\<close>

primrec insert_left :: "string \<Rightarrow> string list \<Rightarrow> string list" where
  "insert_left x [] = [x]"
| "insert_left x (y # ys) = (if x < y then y # insert_left x ys else x # y # ys)"

definition sortStrings :: "string list \<Rightarrow> string list" where
  "sortStrings ss = rev (fold insert_left ss [])"

definition env_line :: "(string \<times> env_value) list \<Rightarrow> string \<Rightarrow> string" where
  "env_line env k = (case map_of env k of
       Some v \<Rightarrow> k @ (if en_secret v \<noteq> [] then ''=[secret]'' else ''='' @ en_literal v) @ [CHR 0x0A]
     | None \<Rightarrow> [])"

definition buildEnvBanner :: "(string \<times> env_value) list option \<Rightarrow> string" where
  "buildEnvBanner env0 = (let env = (case env0 of Some e \<Rightarrow> e | None \<Rightarrow> []) in
     if env = [] then []
     else ''<env>'' @ [CHR 0x0A] @ concat (map (env_line env) (sortStrings (map fst env))) @ ''</env>'')"

definition resolveMaxTurns :: "int \<Rightarrow> int \<Rightarrow> int" where
  "resolveMaxTurns fromSchedule fromSkill =
     (if 0 < fromSchedule then fromSchedule else if 0 < fromSkill then fromSkill else DefaultMaxTurns)"

primrec resolve_env :: "string \<Rightarrow> resolver \<Rightarrow> (string \<times> env_value) list \<Rightarrow> string + string list" where
  "resolve_env name s [] = Inr []"
| "resolve_env name s (kv # rest) =
     (case (if en_secret (snd kv) \<noteq> [] then Resolver_Get s (en_secret (snd kv)) else Inr (en_literal (snd kv))) of
        Inl e \<Rightarrow> Inl (''mcp server '' @ name @ '' env '' @ fst kv @ '': '' @ e)
      | Inr v \<Rightarrow>
        (case resolve_env name s rest of Inl e \<Rightarrow> Inl e | Inr env \<Rightarrow> Inr ((fst kv @ ''='' @ v) # env)))"

definition resolveServerEnv ::
  "string \<Rightarrow> (string \<times> (string \<times> env_value) list option) list option \<Rightarrow> resolver \<Rightarrow> string + string list" where
  "resolveServerEnv name mcpEnv s = (case mcpEnv of
       None \<Rightarrow> Inr []
     | Some m \<Rightarrow> resolve_env name s (case map_of m name of Some (Some env) \<Rightarrow> env | _ \<Rightarrow> []))"

definition toMCPCalls :: "tool_use list \<Rightarrow> mcp_call list" where
  "toMCPCalls uses = map (\<lambda>t. \<lparr>mc_id = tu_id t, mc_name = tu_name t, mc_input = tu_input t\<rparr>) uses"

definition selectOutputForDest :: "string \<Rightarrow> (string \<times> string) list \<Rightarrow> string \<Rightarrow> string" where
  "selectOutputForDest name blocks fallback =
     (if name = [] then fallback else case map_of blocks name of Some v \<Rightarrow> v | None \<Rightarrow> fallback)"

definition output_name :: "destination \<Rightarrow> string" where
  "output_name dest = (case de_slack dest of Some d \<Rightarrow> wh_output d | None \<Rightarrow>
     (case de_discord dest of Some d \<Rightarrow> wh_output d | None \<Rightarrow>
     (case de_teams dest of Some d \<Rightarrow> wh_output d | None \<Rightarrow>
     (case de_github_issue dest of Some d \<Rightarrow> gi_output d | None \<Rightarrow> []))))"

section \<open>Boot\<close>

definition os_read :: "file_system \<Rightarrow> string \<Rightarrow> string option" where
  "os_read fs p = (if fs_read_err fs p then None else fs_files fs p)"

definition boot :: "runner_deps \<Rightarrow> run_input \<Rightarrow> file_system \<Rightarrow> run_err + (schedule \<times> skill \<times> string)" where
  "boot deps inp fs =
     (case os_read fs (Join (ri_repo_root inp) (ri_manifest_path inp)) of
        None \<Rightarrow> Inl ErrReadManifest
      | Some manifestBytes \<Rightarrow>
      (case ParseManifest (rd_yaml deps) manifestBytes of
         None \<Rightarrow> Inl ErrParseManifest
       | Some m \<Rightarrow>
       (case Manifest_Validate m of
          Some e \<Rightarrow> Inl (ErrValidate e)
        | None \<Rightarrow>
        (case FindSchedule m (ri_skill_path inp) (ri_schedule_name inp) of
           Inl e \<Rightarrow> Inl (ErrFind e)
         | Inr (_, sch) \<Rightarrow>
         (let skillRoot = Join (ri_repo_root inp) (ri_skill_path inp) in
          case os_read fs (Join skillRoot ''SKILL.md'') of
            None \<Rightarrow> Inl ErrReadSkill
          | Some skillBytes \<Rightarrow>
          (case ParseSkillFile (yaml_frontmatter (rd_yaml deps)) skillBytes of
             Inl e \<Rightarrow> Inl (ErrParseSkill e)
           | Inr sk \<Rightarrow>
           (case ResolveIncludes (os_read fs) skillRoot (sl_body sk) of
              Inl e \<Rightarrow> Inl (ErrInclude e)
            | Inr body \<Rightarrow> Inr (sch, sk, body))))))))"

section \<open>The conversation\<close>

definition options_of :: "run_input \<Rightarrow> schedule \<Rightarrow> skill \<Rightarrow> call_options" where
  "options_of inp sch sk = \<lparr>co_model = sc_model sch, co_max_tokens = sf_max_tokens (sl_frontmatter sk),
     co_api_key = ri_llm_api_key inp, co_endpoint = ri_llm_endpoint inp, co_deployment = ri_llm_deployment inp\<rparr>"

definition prompt :: "string \<Rightarrow> string \<Rightarrow> message list" where
  "prompt envBanner body =
     (if envBanner \<noteq> [] then [\<lparr>mg_role = RoleSystem, mg_content = envBanner, mg_tool_uses = [], mg_tool_use_id = []\<rparr>] else []) @
     [\<lparr>mg_role = RoleUser, mg_content = body, mg_tool_uses = [], mg_tool_use_id = []\<rparr>]"

definition next_call :: "nat run_sx" where
  "next_call = (\<lambda>s. (Inr (rs_calls s), s\<lparr>rs_calls := Suc (rs_calls s)\<rparr>))"

text \<open>Single shot: the usage is recorded only if the call succeeds.\<close>

definition chat_once :: "provider \<Rightarrow> message list \<Rightarrow> call_options \<Rightarrow> string run_sx" where
  "chat_once p msgs opts = bind next_call (\<lambda>n.
     case pv_chat p n msgs opts of
       (chunks, Inl e) \<Rightarrow> fail (ErrChat e)
     | (chunks, Inr u) \<Rightarrow> bind (modify (\<lambda>s. s\<lparr>rs_usage := u\<rparr>)) (\<lambda>_. ret (concat chunks)))"

definition start_server :: "runner_deps \<Rightarrow> run_input \<Rightarrow> mcp_server \<Rightarrow> unit run_sx" where
  "start_server deps inp ms = (case resolveServerEnv (ms_name ms) (ri_mcp_env inp) (ri_secrets inp) of
       Inl e \<Rightarrow> failKind ''mcp_env_resolve'' (ErrMcpEnv e)
     | Inr env \<Rightarrow> (\<lambda>s.
         case manager_start (rd_mcp deps) (ms_name ms) (ms_command ms) (case ms_args ms of Some a \<Rightarrow> a | None \<Rightarrow> []) env (rs_servers s) of
           (Some e, servers) \<Rightarrow> failKind ''mcp_server_start_failed'' (ErrMcpStart e) (s\<lparr>rs_servers := servers\<rparr>)
         | (None, servers) \<Rightarrow> emit_event ''mcp.server.start.ok''
             [(''server'', JStr (ms_name ms)), (''tool_count'', JNum (int (length (manager_tools (ms_name ms) servers))))]
             () (s\<lparr>rs_servers := servers\<rparr>)))"

definition tool_defs :: "mcp_servers \<Rightarrow> mcp_server list \<Rightarrow> tool_def list" where
  "tool_defs servers mss = concat (map (\<lambda>ms. map (\<lambda>t. \<lparr>td_name = ms_name ms @ ''__'' @ mt_name t,
     td_description = mt_description t, td_input_schema = mt_input_schema t\<rparr>) (manager_tools (ms_name ms) servers)) mss)"

definition tool_event :: "mcp_call list \<Rightarrow> call_result \<Rightarrow> unit run_sx" where
  "tool_event calls r = emit_event (if cr_is_error r then ''mcp.tool.call.fail'' else ''mcp.tool.call.ok'')
     [(''tool'', JStr (case map_of (rev (map (\<lambda>c. (mc_id c, mc_name c)) calls)) (cr_id r) of Some n \<Rightarrow> n | None \<Rightarrow> [])),
      (''duration_ms'', JNum (cr_duration_ms r))] ()"

definition tool_message :: "call_result \<Rightarrow> message" where
  "tool_message r = \<lparr>mg_role = RoleTool, mg_content = cr_result_json r, mg_tool_uses = [], mg_tool_use_id = cr_id r\<rparr>"

text \<open>The tool calls of one turn, and the messages that answer them.\<close>

definition run_tools :: "runner_deps \<Rightarrow> nat \<Rightarrow> tool_use list \<Rightarrow> message list run_sx" where
  "run_tools deps n uses = bind (gets rs_servers) (\<lambda>servers.
     let calls = toMCPCalls uses in
     case DispatchAll (rd_mcp deps) servers (rd_ctx_done deps n) (rd_order deps n) calls of
       (results, fatal) \<Rightarrow>
         (case fatal of
            Some f \<Rightarrow> bind (emit_event (''mcp.fatal.'' @ fe_kind f) [(''error'', JStr (fe_err f))] ())
              (\<lambda>_. failKind (fe_kind f) (ErrMcpFatal (fe_err f)))
          | None \<Rightarrow> bind (for_each results (tool_event calls)) (\<lambda>_. ret (map tool_message results))))"

text \<open>The turns left, the number of the turn and the messages; \<open>None\<close> if the turns ran out.\<close>

primrec turn_loop ::
  "runner_deps \<Rightarrow> (nat \<Rightarrow> message list \<Rightarrow> tool_def list \<Rightarrow> call_options \<Rightarrow> string + turn_result) \<Rightarrow> tool_def list \<Rightarrow>
   call_options \<Rightarrow> nat \<Rightarrow> int \<Rightarrow> message list \<Rightarrow> string option run_sx" where
  "turn_loop deps chat_turn tools opts 0 turn messages = ret None"
| "turn_loop deps chat_turn tools opts (Suc left) turn messages =
     bind (emit_event ''mcp.turn.start'' [(''turn'', JNum turn)] ()) (\<lambda>_.
     bind next_call (\<lambda>n.
     case chat_turn n messages tools opts of
       Inl e \<Rightarrow> failKind ''llm_error'' (ErrChat e)
     | Inr tr \<Rightarrow>
       bind (modify (\<lambda>s. s\<lparr>rs_usage := \<lparr>ug_input_tokens = ug_input_tokens (rs_usage s) + ug_input_tokens (tr_usage tr),
           ug_output_tokens = ug_output_tokens (rs_usage s) + ug_output_tokens (tr_usage tr)\<rparr>\<rparr>)) (\<lambda>_.
       if tr_tool_uses tr = [] then ret (Some (tr_text tr))
       else bind (run_tools deps n (tr_tool_uses tr)) (\<lambda>answers.
         turn_loop deps chat_turn tools opts left (turn + 1)
           (messages @ [\<lparr>mg_role = RoleAssistant, mg_content = tr_text tr, mg_tool_uses = tr_tool_uses tr, mg_tool_use_id = []\<rparr>] @
            answers)))))"

definition chat_tools :: "runner_deps \<Rightarrow> run_input \<Rightarrow> provider \<Rightarrow> schedule \<Rightarrow> skill \<Rightarrow> message list \<Rightarrow> string run_sx" where
  "chat_tools deps inp p sch sk msgs = (case pv_chat_turn p of
       None \<Rightarrow> failKind ''provider_tool_unsupported'' (ErrToolUnsupported (sc_provider sch))
     | Some chat_turn \<Rightarrow>
       bind (for_each (ri_mcp_servers inp) (start_server deps inp)) (\<lambda>_.
       bind (gets rs_servers) (\<lambda>servers.
       let maxTurns = resolveMaxTurns (ri_max_turns inp) (sf_max_turns (sl_frontmatter sk)) in
       bind (turn_loop deps chat_turn (tool_defs servers (ri_mcp_servers inp)) (options_of inp sch sk) (nat maxTurns) 1 msgs) (\<lambda>out.
       case out of
         None \<Rightarrow> failKind ''max_turns_exceeded'' (ErrMaxTurns maxTurns)
       | Some t \<Rightarrow> ret t))))"

section \<open>Publishing and writing back\<close>

definition template_context :: "runner_deps \<Rightarrow> run_input \<Rightarrow> schedule \<Rightarrow> skill \<Rightarrow> string \<Rightarrow> tmpl_context" where
  "template_context deps inp sch sk published =
     \<lparr>tc_output = published,
      tc_run_id = (if ri_run_id inp = [] then ''local-'' @ itoa (rd_started deps * 1000) else ri_run_id inp),
      tc_run_date = format_date (rd_started deps + rd_local_offset deps), tc_started_at = rd_started deps,
      tc_schedule_name = sc_name sch, tc_skill_name = sf_name (sl_frontmatter sk)\<rparr>"

definition publish_all :: "runner_deps \<Rightarrow> run_input \<Rightarrow> schedule \<Rightarrow> skill \<Rightarrow> string \<Rightarrow> publish_result list run_sx" where
  "publish_all deps inp sch sk published =
     (case ExtractOutputBlocks published of (outputBlocks, remaining) \<Rightarrow>
       (case Dispatch (rd_publishers deps) (case sc_destinations sch of Some ds \<Rightarrow> ds | None \<Rightarrow> [])
           (\<lambda>dest. selectOutputForDest (output_name dest) outputBlocks remaining)
           (template_context deps inp sch sk published) (Resolver_Get (ri_secrets inp)) True of
          (results, ms) \<Rightarrow> bind (modify (\<lambda>s. s\<lparr>rs_metrics := rs_metrics s @ ms\<rparr>)) (\<lambda>_. ret results)))"

definition writeback_opts :: "run_input \<Rightarrow> writeback_config \<Rightarrow> string \<Rightarrow> writeback_options" where
  "writeback_opts inp wb memBlock = \<lparr>wo_path = wb_path wb, wo_mode = wb_mode wb, wo_content = memBlock,
     wo_message = ''chore(cronfoundry): update '' @ wb_path wb @ (if ri_run_id inp \<noteq> [] then '' from run '' @ ri_run_id inp else []),
     wo_author_name = ''cronfoundry[bot]'', wo_author_email = ''cronfoundry[bot]@users.noreply.github.com''\<rparr>"

text \<open>Whether the writeback went well, and the commit.\<close>

definition write_back :: "runner_deps \<Rightarrow> run_input \<Rightarrow> schedule \<Rightarrow> string \<Rightarrow> bool \<Rightarrow> (bool \<times> string) run_sx" where
  "write_back deps inp sch memBlock hasMemory = (case sc_writeback sch of
       None \<Rightarrow> ret (True, [])
     | Some wb \<Rightarrow>
       if \<not> (wb_enabled wb \<and> hasMemory) then ret (True, [])
       else (\<lambda>s. case Commit (rd_git deps) (ri_repo_root inp) (writeback_opts inp wb memBlock) (rs_fs s) of
           (Inl e, fs) \<Rightarrow> (Inr (False, []), s\<lparr>rs_fs := fs\<rparr>)
         | (Inr sha, fs) \<Rightarrow>
             (Inr (ri_skip_push inp \<or> ri_github_token inp = [] \<or>
                   Push (rd_git deps) (ri_repo_root inp) ''origin'' (ri_github_username inp) (ri_github_token inp) = None, sha),
              s\<lparr>rs_fs := fs\<rparr>)))"

section \<open>The run\<close>

definition exec_phase :: "runner_deps \<Rightarrow> run_input \<Rightarrow> provider \<Rightarrow> schedule \<Rightarrow> skill \<Rightarrow> string \<Rightarrow> string run_sx" where
  "exec_phase deps inp p sch sk body =
     (let msgs = prompt (buildEnvBanner (sc_env sch)) body in
      if ri_mcp_servers inp = [] then chat_once p msgs (options_of inp sch sk) else chat_tools deps inp p sch sk msgs)"

definition result_of :: "runner_deps \<Rightarrow> schedule \<Rightarrow> usage \<Rightarrow> string \<Rightarrow> string \<Rightarrow> run_result" where
  "result_of deps sch u published memBlock =
     \<lparr>rr_status = ''succeeded'', rr_error_kind = [], rr_usage = u, rr_cost_cents = CostCents (sc_provider sch) (sc_model sch) u,
      rr_output = published, rr_memory_content = memBlock, rr_publish_results = [], rr_writeback_sha = [],
      rr_started_at = rd_started deps, rr_finished_at = rd_finished deps\<rparr>"

definition publish_phase :: "runner_deps \<Rightarrow> run_input \<Rightarrow> schedule \<Rightarrow> skill \<Rightarrow> string \<Rightarrow> run_result run_sx" where
  "publish_phase deps inp sch sk llmOutput =
     (case Extract llmOutput of (published, memBlock, hasMemory) \<Rightarrow>
      bind (gets rs_usage) (\<lambda>u.
      let base = result_of deps sch u published memBlock in
      if ri_dry_run inp then ret base
      else
        bind (enter ''publish'') (\<lambda>_.
        bind (publish_all deps inp sch sk published) (\<lambda>pubResults.
        let allOK = list_all (\<lambda>pr. pr_ok pr \<or> pr_skipped pr) pubResults in
        bind (write_back deps inp sch memBlock hasMemory) (\<lambda>(writebackOK, sha).
        ret (base\<lparr>rr_status := (if allOK \<and> writebackOK then ''succeeded'' else ''partial_failure''),
                  rr_publish_results := pubResults, rr_writeback_sha := sha\<rparr>))))))"

definition run_phases :: "runner_deps \<Rightarrow> run_input \<Rightarrow> run_result run_sx" where
  "run_phases deps inp =
     bind (enter ''boot'') (\<lambda>_.
     bind (gets (\<lambda>s. boot deps inp (rs_fs s))) (\<lambda>loaded.
     case loaded of
       Inl e \<Rightarrow> fail e
     | Inr (sch, sk, body) \<Rightarrow>
       bind (enter ''secrets'') (\<lambda>_.
       case rd_provider deps (sc_provider sch) of
         Inl e \<Rightarrow> fail (ErrProvider e)
       | Inr p \<Rightarrow>
         bind (enter ''exec'') (\<lambda>_.
         bind (exec_phase deps inp p sch sk body) (\<lambda>llmOutput.
         publish_phase deps inp sch sk llmOutput)))))"

text \<open>A failed run has its phase event and the usage so far; the servers are shut down either way.\<close>

definition failed_run :: "runner_deps \<Rightarrow> usage \<Rightarrow> string \<Rightarrow> run_result" where
  "failed_run deps u kind = \<lparr>rr_status = ''failed'', rr_error_kind = kind, rr_usage = u, rr_cost_cents = 0, rr_output = [],
     rr_memory_content = [], rr_publish_results = [], rr_writeback_sha = [], rr_started_at = rd_started deps,
     rr_finished_at = rd_finished deps\<rparr>"

definition Run :: "runner_deps \<Rightarrow> run_input \<Rightarrow> run_state \<Rightarrow> run_result \<times> run_err option \<times> run_state" where
  "Run deps inp s0 = (case run_phases deps inp s0 of
       (Inl (kind, e), s) \<Rightarrow> (failed_run deps (rs_usage s) kind, Some e,
          s\<lparr>rs_events := rs_events s @ [enterPhase ''fail'' (rs_active s)], rs_servers := manager_shutdown (rs_servers s)\<rparr>)
     | (Inr r, s) \<Rightarrow> (r, None, s\<lparr>rs_servers := manager_shutdown (rs_servers s)\<rparr>))"

definition run_start :: "file_system \<Rightarrow> run_state" where
  "run_start fs = \<lparr>rs_active = [], rs_events = [], rs_fs = fs, rs_servers = [], rs_calls = 0,
     rs_usage = \<lparr>ug_input_tokens = 0, ug_output_tokens = 0\<rparr>, rs_metrics = []\<rparr>"

end
