(* ===== verification/Redact.thy ===== *)
theory Redact
  imports Go_Text Url
begin

text \<open>
  The redactor of secret values (internal/redact/redact.go) and the reduction of a delivery
  target to what may be stored (internal/redact/target.go).
\<close>

section \<open>The redactor\<close>

definition placeholder :: string where
  "placeholder = ''[REDACTED]''"

record redactor =
  rd_values :: "string list"

text \<open>Longest first. The order of values of one length is left open by slices.SortFunc; here they keep theirs.\<close>

definition Redactor_New :: "string list \<Rightarrow> redactor" where
  "Redactor_New secrets = \<lparr>rd_values = sort_key (\<lambda>s. - int (length s)) (filter (\<lambda>s. s \<noteq> []) secrets)\<rparr>"

definition Redact :: "redactor \<Rightarrow> string \<Rightarrow> string" where
  "Redact r s = fold (\<lambda>v s. ReplaceAll s v placeholder) (rd_values r) s"

section \<open>Targets\<close>

definition hex_val :: "char \<Rightarrow> nat" where
  "hex_val c = (let n = of_char (lower_char c) in if is_digit c then n - 48 else n - 87)"

fun pct_decode :: "string \<Rightarrow> string" where
  "pct_decode (c # a # b # rest) =
     (if c = CHR ''%'' then char_of (hex_val a * 16 + hex_val b) # pct_decode rest else c # pct_decode (a # b # rest))"
| "pct_decode s = s"

text \<open>The host of a URL with a scheme: the fragment is cut off first.\<close>

definition parse_host :: "string \<Rightarrow> string option" where
  "parse_host raw = (case cut_at (CHR ''#'') raw of (u, frag) \<Rightarrow>
     (case ParseRequestURI u of
        Some (_, host) \<Rightarrow> if unescape_ok (\<lambda>_. True) (\<lambda>_. True) frag then Some (pct_decode host) else None
      | None \<Rightarrow> None))"

text \<open>The expression ghRepoRE, unanchored: the optional part is tried first.\<close>

definition two_segments :: "string \<Rightarrow> (string \<times> string) option" where
  "two_segments s = (let owner = takeWhile (\<lambda>c. c \<noteq> CHR ''/'') s; rest = drop (Suc (length owner)) s;
       repo = takeWhile (\<lambda>c. c \<noteq> CHR ''/'') rest
     in if owner \<noteq> [] \<and> repo \<noteq> [] then Some (owner, repo) else None)"

definition repo_after :: "string \<Rightarrow> (string \<times> string) option" where
  "repo_after s = (if has_prefix s ''repos/'' \<and> two_segments (drop 6 s) \<noteq> None then two_segments (drop 6 s) else two_segments s)"

primrec ghRepoRE :: "string \<Rightarrow> (string \<times> string) option" where
  "ghRepoRE [] = None"
| "ghRepoRE (c # s) = (if has_prefix (c # s) ''github.com/'' \<and> repo_after (drop 11 (c # s)) \<noteq> None
     then repo_after (drop 11 (c # s)) else ghRepoRE s)"

definition Target :: "string \<Rightarrow> string \<Rightarrow> string" where
  "Target kind raw0 = (let raw = TrimSpace raw0 in
     if kind \<in> {''slack'', ''discord'', ''teams'', ''http-json'', ''http''} then
       (if has_prefix raw ''http://'' \<or> has_prefix raw ''https://'' then
          (case parse_host raw of Some h \<Rightarrow> if h \<noteq> [] then h else raw | None \<Rightarrow> raw)
        else raw)
     else if kind = ''github-issue'' then (case ghRepoRE raw of Some (o', r) \<Rightarrow> o' @ ''/'' @ r | None \<Rightarrow> raw)
     else raw)"

section \<open>What redaction hides\<close>

lemma placeholder_sep: "placeholder @ t = CHR ''['' # ''REDACTED'' @ CHR '']'' # t"
  by (simp add: placeholder_def)

lemma sublist_placeholder:
  assumes "CHR ''['' \<notin> set v" "CHR '']'' \<notin> set v" "\<not> sublist v ''REDACTED''"
  shows "sublist v (b @ placeholder @ t) \<longleftrightarrow> sublist v b \<or> sublist v t"
  unfolding placeholder_sep sublist_sep [OF assms(1)] sublist_sep [OF assms(2)] using assms(3) by blast

lemma ReplaceAll_adds_none:
  assumes "CHR ''['' \<notin> set v" "CHR '']'' \<notin> set v" "\<not> sublist v ''REDACTED''"
  shows "\<not> sublist v s \<Longrightarrow> \<not> sublist v (ReplaceAll s u placeholder)"
proof (induction s u placeholder rule: ReplaceAll.induct)
  case (1 s u)
  show ?case
  proof (cases "u = [] \<or> cut_sub u s = None")
    case True
    then show ?thesis using 1 by (subst ReplaceAll.simps) (auto split: option.split)
  next
    case False
    then obtain b a where c: "cut_sub u s = Some (b, a)" by auto
    have s: "s = b @ u @ a" by (rule cut_sub_Some) (rule c)
    have "\<not> sublist v b" "\<not> sublist v a"
      using 1(2) unfolding s by (metis append.assoc sublist_appendI sublist_append_leftI sublist_append_rightI sublist_order.order_trans)+
    then show ?thesis
      using False 1(1) c assms
      by (subst ReplaceAll.simps) (simp add: sublist_placeholder)
  qed
qed

lemma ReplaceAll_removes:
  assumes "CHR ''['' \<notin> set v" "CHR '']'' \<notin> set v" "\<not> sublist v ''REDACTED''" "v \<noteq> []"
  shows "\<not> sublist v (ReplaceAll s v placeholder)"
  using assms
proof (induction s v placeholder rule: ReplaceAll.induct)
  case (1 s v)
  show ?case
  proof (cases "cut_sub v s")
    case None
    then show ?thesis using ReplaceAll_absent [of v s] by (simp add: cut_sub_None)
  next
    case (Some ba)
    then obtain b a where c: "cut_sub v s = Some (b, a)" by (cases ba) auto
    have "\<not> sublist v b" by (rule cut_sub_first) (rule c, rule 1(5))
    then show ?thesis
      using 1 c by (subst ReplaceAll.simps) (simp add: sublist_placeholder)
  qed
qed

text \<open>Whatever the order of the values, a value is gone once it was replaced.\<close>

lemma fold_hides:
  assumes "CHR ''['' \<notin> set v" "CHR '']'' \<notin> set v" "\<not> sublist v ''REDACTED''" "v \<noteq> []"
  shows "v \<in> set vs \<or> \<not> sublist v s \<Longrightarrow> \<not> sublist v (fold (\<lambda>v s. ReplaceAll s v placeholder) vs s)"
proof (induction vs arbitrary: s)
  case (Cons u vs)
  show ?case
  proof (cases "u = v")
    case True
    then show ?thesis using Cons.IH ReplaceAll_removes [OF assms] by simp
  next
    case False
    then show ?thesis using Cons ReplaceAll_adds_none [OF assms(1-3)] by auto
  qed
qed simp



end
