(* ===== verification/Go_Json.thy ===== *)
theory Go_Json
  imports Go_Text Url Prelude
begin

text \<open>
  What the program uses of encoding/json on trees: the text that survives encoding, and the
  decoding of an object into a struct. Field names match regardless of case, a field given twice
  is decoded twice, null leaves a field as it is and sets a pointer to nil, and a value of the
  wrong type makes the whole decoding fail.
\<close>

fun json_clean :: "json \<Rightarrow> json" where
  "json_clean (JStr s) = JStr (json_text s)"
| "json_clean (JArr xs) = JArr (map json_clean xs)"
| "json_clean (JObj kvs) = JObj (map (\<lambda>(k, v). (json_text k, json_clean v)) kvs)"
| "json_clean j = j"

fun get_field :: "(json \<Rightarrow> 'a option) \<Rightarrow> string \<Rightarrow> (string \<times> json) list \<Rightarrow> 'a \<Rightarrow> 'a option" where
  "get_field d k [] acc = Some acc"
| "get_field d k ((k', v) # kvs) acc =
     (if to_lower k' \<noteq> k \<or> v = JNull then get_field d k kvs acc
      else Option.bind (d v) (get_field d k kvs))"

fun get_ptr :: "(json \<Rightarrow> 'a option) \<Rightarrow> string \<Rightarrow> (string \<times> json) list \<Rightarrow> 'a option \<Rightarrow> 'a option option" where
  "get_ptr d k [] acc = Some acc"
| "get_ptr d k ((k', v) # kvs) acc =
     (if to_lower k' \<noteq> k then get_ptr d k kvs acc
      else if v = JNull then get_ptr d k kvs None
      else Option.bind (d v) (\<lambda>a. get_ptr d k kvs (Some a)))"

definition as_str :: "json \<Rightarrow> string option" where
  "as_str j = (case j of JStr s \<Rightarrow> Some s | _ \<Rightarrow> None)"

definition as_bool :: "json \<Rightarrow> bool option" where
  "as_bool j = (case j of JBool b \<Rightarrow> Some b | _ \<Rightarrow> None)"

definition int64_range :: "int \<Rightarrow> bool" where
  "int64_range n \<longleftrightarrow> - (2 ^ 63) \<le> n \<and> n < 2 ^ 63"

definition as_int64 :: "json \<Rightarrow> int option" where
  "as_int64 j = (case j of JNum n \<Rightarrow> if int64_range n then Some n else None | _ \<Rightarrow> None)"

definition as_int32 :: "json \<Rightarrow> int option" where
  "as_int32 j = (case j of JNum n \<Rightarrow> if int32_range n then Some n else None | _ \<Rightarrow> None)"

definition str_in :: "string \<Rightarrow> (string \<times> json) list \<Rightarrow> string option" where
  "str_in k kvs = get_field as_str k kvs []"

definition int64_in :: "string \<Rightarrow> (string \<times> json) list \<Rightarrow> int option" where
  "int64_in k kvs = get_field as_int64 k kvs 0"

text \<open>The fields of a document decoded into a struct; null is a struct of zero values.\<close>

definition struct_fields :: "json \<Rightarrow> (string \<times> json) list option" where
  "struct_fields j = (case j of JNull \<Rightarrow> Some [] | JObj kvs \<Rightarrow> Some kvs | _ \<Rightarrow> None)"

lemma get_field_miss: "\<forall>(k', v) \<in> set kvs. to_lower k' \<noteq> k \<Longrightarrow> get_field d k kvs acc = Some acc"
  by (induction kvs) auto

text \<open>Decimal integers of strconv.ParseInt and strconv.Atoi, of a given width.\<close>

definition ParseInt :: "nat \<Rightarrow> string \<Rightarrow> int option" where
  "ParseInt bits s =
     (let (neg, ds) = (case s of c # r \<Rightarrow> if c = CHR ''-'' then (True, r) else if c = CHR ''+'' then (False, r) else (False, s) | [] \<Rightarrow> (False, []));
          n = int (undigits 0 ds); v = (if neg then - n else n) in
      if ds = [] \<or> \<not> list_all is_digit ds then None
      else if - (2 ^ (bits - 1)) \<le> v \<and> v < 2 ^ (bits - 1) then Some v else None)"

lemma digits_digit: "list_all is_digit (digits n) \<and> digits n \<noteq> []"
proof (induction n rule: digits.induct)
  case (1 n)
  have c: "is_digit (char_of (48 + d))" if "d < 10" for d :: nat
    using that by (simp add: is_digit_def)
  show ?case using 1 c [of n] c [of "n mod 10"] by (subst (1 2) digits.simps) auto
qed

lemma ParseInt_itoa:
  assumes n: "- (2 ^ (bits - 1)) \<le> n" "n < 2 ^ (bits - 1)"
  shows "ParseInt bits (itoa n) = Some n"
proof (cases "n < 0")
  case True
  then show ?thesis using n digits_digit [of "nat (- n)"] by (simp add: ParseInt_def itoa_def undigits_digits)
next
  case False
  obtain c r where d: "digits (nat n) = c # r" using digits_digit [of "nat n"] by (cases "digits (nat n)") auto
  have "is_digit c" using digits_digit [of "nat n"] d by simp
  then have "c \<noteq> CHR ''-''" "c \<noteq> CHR ''+''" by (auto simp: is_digit_def)
  then show ?thesis using n False digits_digit [of "nat n"] undigits_digits [of "nat n"] d
    by (simp add: ParseInt_def itoa_def del: undigits.simps)
qed

end
