(* ===== verification/Runner_Cmd.thy ===== *)
theory Runner_Cmd
  imports Runner Api Redact Go_Json
begin

text \<open>
  The runner subcommand (cmd/cronfoundry/runner.go): it fetches its context over the internal
  API, runs the skill and finalizes the run. Its client talks to the modelled server, so that a
  request is a call of the route table on the store; the transport may lose any request.
\<close>

section \<open>Client\<close>

record cmd_deps =
  cd_getenv :: "string \<Rightarrow> string"
  cd_api :: api_deps
  cd_lost :: "nat \<Rightarrow> string option"
  cd_copilot_token :: "string \<Rightarrow> string + string"
  cd_mkdir_temp :: "string + string"
  cd_clone :: "string \<Rightarrow> string \<Rightarrow> string \<Rightarrow> string + file_system"
  cd_without_user :: "string \<Rightarrow> string option"
  cd_runner :: runner_deps
  cd_network :: network
  cd_providers :: provider_lib
  cd_err_text :: "run_err \<Rightarrow> string"
  cd_started :: time
  cd_ended :: time

text \<open>
  \<open>cd_clone url sha dir\<close> is the checkout; \<open>cd_without_user\<close> is net/url's parsing and
  printing of a URL around the removal of its user part, \<open>None\<close> where it does not parse; \<open>cd_copilot_token\<close> the answer of the web API's token
  endpoint; \<open>cd_runner\<close> holds the collaborators of the run that are not chosen here. The state is the server's store and the requests sent so far.
\<close>

record cmd_state =
  cm_world :: world
  cm_sent :: "api_request list"

type_synonym 'a cmd_sx = "(cmd_state, string, 'a) sx"

definition bearer :: "string \<Rightarrow> headers" where
  "bearer tok = \<lparr>hd_authorization = ''Bearer '' @ tok, hd_runner_key = []\<rparr>"

definition do_request :: "cmd_deps \<Rightarrow> api_request \<Rightarrow> api_response cmd_sx" where
  "do_request deps req = (\<lambda>s.
     let sent = cm_sent s @ [req] in
     case cd_lost deps (length (cm_sent s)) of
       Some e \<Rightarrow> (Inl (''http: '' @ e), s\<lparr>cm_sent := sent\<rparr>)
     | None \<Rightarrow>
       (case RegisterRoutes (cd_api deps) req (cm_world s) of
          (Inl (HttpError code msg), w) \<Rightarrow> (Inl (''http '' @ itoa (int code) @ '': '' @ msg), s\<lparr>cm_world := w, cm_sent := sent\<rparr>)
        | (Inr resp, w) \<Rightarrow> (Inr resp, s\<lparr>cm_world := w, cm_sent := sent\<rparr>)))"

text \<open>A response of another shape does not decode.\<close>

definition GetRunContext :: "cmd_deps \<Rightarrow> string \<Rightarrow> string \<Rightarrow> run_context cmd_sx" where
  "GetRunContext deps tok runID = bind (do_request deps (GetContext (bearer tok) runID)) (\<lambda>resp.
     case resp of ContextResponse c \<Rightarrow> ret c | _ \<Rightarrow> throw ''decode'')"

definition client_GetSecrets :: "cmd_deps \<Rightarrow> string \<Rightarrow> string list \<Rightarrow> (string \<times> string) list cmd_sx" where
  "client_GetSecrets deps tok names =
     (if names = [] then ret []
      else bind (do_request deps (GetSecrets (bearer tok) (join_with '','' names))) (\<lambda>resp.
        case resp of SecretsResponse m \<Rightarrow> ret m | _ \<Rightarrow> throw ''decode''))"

definition client_GetCloneURL :: "cmd_deps \<Rightarrow> string \<Rightarrow> string \<Rightarrow> string cmd_sx" where
  "client_GetCloneURL deps tok repoID = bind (do_request deps (GetCloneURL (bearer tok) repoID)) (\<lambda>resp.
     case resp of URLResponse u \<Rightarrow> ret u | _ \<Rightarrow> throw ''decode'')"

text \<open>JSON bodies carry valid text only.\<close>

definition client_PostEvents :: "cmd_deps \<Rightarrow> string \<Rightarrow> string \<Rightarrow> run_event_in list \<Rightarrow> unit cmd_sx" where
  "client_PostEvents deps tok runID events = bind (do_request deps (PostEvents (bearer tok) runID
     (Some (map (\<lambda>e. \<lparr>ei_type = json_text (ei_type e), ei_level = json_text (ei_level e),
        ei_payload = map_option json_clean (ei_payload e)\<rparr>) events)))) (\<lambda>_. ret ())"

definition wire_notification :: "finalize_notification \<Rightarrow> finalize_notification" where
  "wire_notification n = \<lparr>fn_kind = json_text (fn_kind n), fn_target = json_text (fn_target n), fn_status = json_text (fn_status n),
     fn_reason = map_option json_text (fn_reason n)\<rparr>"

definition wire_body :: "finalize_body \<Rightarrow> finalize_body" where
  "wire_body b = b\<lparr>fb_status := json_text (fb_status b), fb_error_kind := map_option json_text (fb_error_kind b),
     fb_error_msg := map_option json_text (fb_error_msg b),
     fb_writeback_commit_sha := map_option json_text (fb_writeback_commit_sha b),
     fb_notifications := map wire_notification (fb_notifications b)\<rparr>"

definition client_PostFinalize :: "cmd_deps \<Rightarrow> string \<Rightarrow> string \<Rightarrow> finalize_body \<Rightarrow> unit cmd_sx" where
  "client_PostFinalize deps tok runID b =
     bind (do_request deps (PostFinalize (bearer tok) runID (Some (wire_body b)))) (\<lambda>_. ret ())"

section \<open>Notifications\<close>

definition clip :: "string \<Rightarrow> nat \<Rightarrow> string" where
  "clip s m = (if length s \<le> m then s else if m \<le> length ellipsis then take m s else take (m - length ellipsis) s @ ellipsis)"

definition notification_of :: "publish_result \<Rightarrow> finalize_notification" where
  "notification_of pr =
     (let kind = clip (pr_type pr) 200; target = clip (Target (pr_type pr) (pr_target pr)) 200 in
      \<lparr>fn_kind = (if kind = [] then ''<unknown>'' else kind), fn_target = (if target = [] then ''<unknown>'' else target),
       fn_status = (if pr_ok pr then (if pr_skipped pr then ''skipped'' else ''sent'') else ''failed''),
       fn_reason = (if pr_ok pr then
           (if pr_skipped pr \<and> pr_skip_reason pr \<noteq> [] then Some (clip (pr_skip_reason pr) 2000) else None)
         else map_option (\<lambda>e. clip e 2000) (pr_err pr))\<rparr>)"

definition buildNotifications :: "publish_result list \<Rightarrow> finalize_notification list" where
  "buildNotifications results = map notification_of results"

definition redactCloneURL :: "cmd_deps \<Rightarrow> string \<Rightarrow> string" where
  "redactCloneURL deps s = (case cd_without_user deps s of None \<Rightarrow> ''<clone-url>'' | Some u \<Rightarrow> u)"

section \<open>Configuration\<close>

definition envMapForSecrets :: "(string \<times> string) list \<Rightarrow> (string \<times> string) list" where
  "envMapForSecrets m = rev (map (\<lambda>(name, val). (''CRONFOUNDRY_SECRET_'' @ to_upper name, val)) m)"

definition json_str :: "json \<Rightarrow> string option" where
  "json_str j = (case j of JStr s \<Rightarrow> Some s | JNull \<Rightarrow> Some [] | _ \<Rightarrow> None)"

text \<open>A field of an object, matched regardless of case; the last one counts and null leaves the zero value.\<close>

definition json_field :: "string \<Rightarrow> (string \<times> json) list \<Rightarrow> json" where
  "json_field k kvs = (case find (\<lambda>(k', v). to_lower k' = k) (rev kvs) of Some (_, v) \<Rightarrow> v | None \<Rightarrow> JNull)"

primrec all_some :: "'a option list \<Rightarrow> 'a list option" where
  "all_some [] = Some []"
| "all_some (x # xs) = (case x of None \<Rightarrow> None | Some a \<Rightarrow> map_option (Cons a) (all_some xs))"

definition decode_server :: "json \<Rightarrow> mcp_server option" where
  "decode_server j = (case j of
       JNull \<Rightarrow> Some \<lparr>ms_name = [], ms_command = [], ms_args = None\<rparr>
     | JObj kvs \<Rightarrow>
       (case (json_str (json_field ''name'' kvs), json_str (json_field ''command'' kvs),
              case json_field ''args'' kvs of JNull \<Rightarrow> Some None | JArr xs \<Rightarrow> map_option Some (all_some (map json_str xs)) | _ \<Rightarrow> None) of
          (Some n, Some c, Some a) \<Rightarrow> Some \<lparr>ms_name = n, ms_command = c, ms_args = a\<rparr>
        | _ \<Rightarrow> None)
     | _ \<Rightarrow> None)"

definition decode_servers :: "json \<Rightarrow> mcp_server list option" where
  "decode_servers fm = (case fm of
       JNull \<Rightarrow> Some []
     | JObj kvs \<Rightarrow> (case json_field ''mcp_servers'' kvs of JNull \<Rightarrow> Some [] | JArr xs \<Rightarrow> all_some (map decode_server xs) | _ \<Rightarrow> None)
     | _ \<Rightarrow> None)"

definition decode_env :: "json \<Rightarrow> (string \<times> env_value) list option option" where
  "decode_env j = (case j of
       JNull \<Rightarrow> Some None
     | JObj kvs \<Rightarrow> map_option Some (all_some (map (\<lambda>(k, v). case EnvValue_UnmarshalJSON v of Inl _ \<Rightarrow> None | Inr e \<Rightarrow> Some (k, e)) kvs))
     | _ \<Rightarrow> None)"

definition decode_mcp_env :: "json \<Rightarrow> (string \<times> (string \<times> env_value) list option) list option option" where
  "decode_mcp_env j = (case j of
       JNull \<Rightarrow> Some None
     | JObj kvs \<Rightarrow> map_option Some (all_some (map (\<lambda>(k, v). map_option (Pair k) (decode_env v)) kvs))
     | _ \<Rightarrow> None)"

definition parseMCPConfig ::
  "run_context \<Rightarrow> string + (mcp_server list \<times> (string \<times> (string \<times> env_value) list option) list option \<times> int)" where
  "parseMCPConfig rc = (case decode_servers (cx_frontmatter rc) of
       None \<Rightarrow> Inl ''unmarshal frontmatter''
     | Some servers \<Rightarrow>
       (case decode_mcp_env (cx_mcp_env rc) of
          None \<Rightarrow> Inl ''unmarshal mcp_env''
        | Some env \<Rightarrow> Inr (servers, env, case cx_max_turns rc of Some n \<Rightarrow> n | None \<Rightarrow> 0)))"

section \<open>Finalizing\<close>

definition fail_body :: "string \<Rightarrow> string \<Rightarrow> finalize_body" where
  "fail_body kind msg = \<lparr>fb_status = ''failed'', fb_duration_ms = None, fb_tokens_in = None, fb_tokens_out = None, fb_cost_cents = None,
     fb_error_kind = Some kind, fb_error_msg = Some msg, fb_writeback_commit_sha = None, fb_notifications = []\<rparr>"

definition failRun :: "cmd_deps \<Rightarrow> string \<Rightarrow> string \<Rightarrow> string \<Rightarrow> string \<Rightarrow> 'a cmd_sx" where
  "failRun deps tok runID kind err =
     bind (attempt (client_PostFinalize deps tok runID (fail_body kind err))) (\<lambda>_.
     throw (''runner '' @ kind @ '': '' @ err))"

definition positive_int32 :: "int \<Rightarrow> int option" where
  "positive_int32 n = (if 0 < n then Some (int32 n) else None)"

definition final_body :: "cmd_deps \<Rightarrow> run_result \<Rightarrow> run_err option \<Rightarrow> finalize_body" where
  "final_body deps r runErr =
     \<lparr>fb_status = (if runErr \<noteq> None then ''failed'' else rr_status r),
      fb_duration_ms = (if rr_started_at r \<noteq> zero_time \<and> rr_finished_at r \<noteq> zero_time
        then Some (int32 (tdiv (rr_finished_at r - rr_started_at r) 1000)) else None),
      fb_tokens_in = positive_int32 (ug_input_tokens (rr_usage r)), fb_tokens_out = positive_int32 (ug_output_tokens (rr_usage r)),
      fb_cost_cents = Some (int32 (rr_cost_cents r)),
      fb_error_kind = (if runErr \<noteq> None then Some ''runner'' else None), fb_error_msg = map_option (cd_err_text deps) runErr,
      fb_writeback_commit_sha = (if rr_writeback_sha r \<noteq> [] then Some (rr_writeback_sha r) else None),
      fb_notifications = buildNotifications (rr_publish_results r)\<rparr>"

definition info_event :: "string \<Rightarrow> (string \<times> json) list \<Rightarrow> run_event_in" where
  "info_event typ payload = \<lparr>ei_type = typ, ei_level = ''info'', ei_payload = Some (JObj payload)\<rparr>"

definition publish_event :: "nat \<Rightarrow> publish_result \<Rightarrow> run_event_in" where
  "publish_event i pr = \<lparr>ei_type = ''publish.'' @ pr_type pr @ (if pr_ok pr then ''.ok'' else ''.fail''),
     ei_level = (if pr_ok pr then ''info'' else ''error''),
     ei_payload = Some (JObj ([(''index'', JNum (int i))] @ (if pr_detail pr \<noteq> [] then [(''detail'', JStr (pr_detail pr))] else []) @
       (case pr_err pr of Some e \<Rightarrow> [(''error'', JStr e)] | None \<Rightarrow> [])))\<rparr>"

definition end_event :: "cmd_deps \<Rightarrow> run_result \<Rightarrow> run_err option \<Rightarrow> run_event_in" where
  "end_event deps r runErr = \<lparr>ei_type = (if runErr \<noteq> None then ''runner.error'' else ''runner.finish''),
     ei_level = (if runErr \<noteq> None then ''error'' else ''info''),
     ei_payload = Some (JObj [(''status'', JStr (rr_status r)), (''finished_at'', JStr (format_rfc3339 (cd_ended deps))),
       (''input_tokens'', JNum (ug_input_tokens (rr_usage r))), (''output_tokens'', JNum (ug_output_tokens (rr_usage r)))])\<rparr>"

text \<open>An event whose loss is only logged.\<close>

definition tell :: "cmd_deps \<Rightarrow> string \<Rightarrow> string \<Rightarrow> run_event_in list \<Rightarrow> unit cmd_sx" where
  "tell deps tok runID events = bind (attempt (client_PostEvents deps tok runID events)) (\<lambda>_. ret ())"

section \<open>The command\<close>

text \<open>The publishers of a run and its provider factory, which is the default one.\<close>

definition runner_publishers :: "network \<Rightarrow> string \<Rightarrow> string \<Rightarrow> publisher option" where
  "runner_publishers net fallbackToken typ =
     (if typ = ''github-issue'' then Some (github_issue_publish net fallbackToken)
      else if typ = ''slack'' then Some (slack_publish net)
      else if typ = ''discord'' then Some (discord_publish net)
      else if typ = ''teams'' then Some (teams_publish net)
      else if typ = ''http'' then Some (http_publish net)
      else if typ = ''email'' then Some (email_publish net)
      else None)"

definition runner_deps_of :: "cmd_deps \<Rightarrow> runner_deps" where
  "runner_deps_of deps = (cd_runner deps)\<lparr>rd_provider := NewProvider (cd_providers deps) (cd_getenv deps),
     rd_publishers := runner_publishers (cd_network deps) (cd_getenv deps ''GITHUB_TOKEN'')\<rparr>"

definition input_of ::
  "cmd_deps \<Rightarrow> run_context \<Rightarrow> string \<Rightarrow> string \<Rightarrow> string \<Rightarrow> (string \<times> string) list \<Rightarrow> mcp_server list \<Rightarrow>
   (string \<times> (string \<times> env_value) list option) list option \<Rightarrow> int \<Rightarrow> run_input" where
  "input_of deps rc runID cloneDir llmAPIKey secretMap servers env maxTurns =
     \<lparr>ri_repo_root = cloneDir, ri_manifest_path = ''cronfoundry.yaml'', ri_skill_path = cx_skill_path rc,
      ri_schedule_name = cx_schedule_name rc, ri_run_id = runID, ri_secrets = \<lparr>rv_env = envMapForSecrets secretMap\<rparr>,
      ri_llm_api_key = llmAPIKey, ri_llm_endpoint = (case cx_llm_endpoint rc of Some e \<Rightarrow> e | None \<Rightarrow> []),
      ri_llm_deployment = (case cx_llm_deployment rc of Some d \<Rightarrow> d | None \<Rightarrow> []), ri_dry_run = False, ri_skip_push = False,
      ri_github_username = ''x-access-token'', ri_github_token = cd_getenv deps ''GITHUB_TOKEN'', ri_mcp_servers = servers,
      ri_mcp_env = env, ri_max_turns = maxTurns\<rparr>"

text \<open>From the clone on. The events of the run reach the server one by one, in order.\<close>

definition execute :: "cmd_deps \<Rightarrow> string \<Rightarrow> string \<Rightarrow> run_context \<Rightarrow> string \<Rightarrow> file_system \<Rightarrow> string \<Rightarrow> (string \<times> string) list \<Rightarrow> unit cmd_sx" where
  "execute deps tok runID rc cloneDir fs llmAPIKey secretMap =
     bind (tell deps tok runID [info_event ''runner.start'' [(''started_at'', JStr (format_rfc3339 (cd_started deps)))]]) (\<lambda>_.
     case parseMCPConfig rc of
       Inl e \<Rightarrow> failRun deps tok runID ''config_parse'' e
     | Inr (servers, env, maxTurns) \<Rightarrow>
       (case Run (runner_deps_of deps) (input_of deps rc runID cloneDir llmAPIKey secretMap servers env maxTurns) (run_start fs) of
          (r, runErr, rs) \<Rightarrow>
            bind (for_each (rs_events rs) (\<lambda>e. tell deps tok runID [info_event (re_type e) (re_payload e)])) (\<lambda>_.
            bind (if runErr = None \<and> rr_publish_results r \<noteq> []
                  then tell deps tok runID (map (\<lambda>(i, pr). publish_event i pr) (enumerate 0 (rr_publish_results r)))
                  else ret ()) (\<lambda>_.
            bind (tell deps tok runID [end_event deps r runErr]) (\<lambda>_.
            bind (map_err (\<lambda>e. ''finalize: '' @ e) (client_PostFinalize deps tok runID (final_body deps r runErr))) (\<lambda>_.
            case runErr of Some e \<Rightarrow> throw (''runner: '' @ cd_err_text deps e) | None \<Rightarrow> ret ()))))))"

text \<open>A step of the preparation, whose failure ends the run with its kind.\<close>

definition or_fail :: "cmd_deps \<Rightarrow> string \<Rightarrow> string \<Rightarrow> string \<Rightarrow> 'a cmd_sx \<Rightarrow> ('a \<Rightarrow> 'b cmd_sx) \<Rightarrow> 'b cmd_sx" where
  "or_fail deps tok runID kind m k = bind (attempt m) (\<lambda>res.
     case res of Inl e \<Rightarrow> failRun deps tok runID kind e | Inr a \<Rightarrow> k a)"

definition copilot_key :: "cmd_deps \<Rightarrow> string \<Rightarrow> run_context \<Rightarrow> string \<Rightarrow> string + string" where
  "copilot_key deps runID rc llmAPIKey =
     (if cx_provider rc = ''copilot-enterprise'' then
        (case cd_copilot_token deps runID of
           Inl e \<Rightarrow> Inl e
         | Inr t \<Rightarrow> if t = [] then Inl ''received empty access_token'' else Inr t)
      else Inr llmAPIKey)"

definition run_with_token :: "cmd_deps \<Rightarrow> string \<Rightarrow> string \<Rightarrow> unit cmd_sx" where
  "run_with_token deps tok runID =
     or_fail deps tok runID ''context_fetch'' (GetRunContext deps tok runID) (\<lambda>rc.
     bind (tell deps tok runID [info_event ''manifest.set'' [(''allowed'', JArr (map JStr (cx_secret_manifest rc)))]]) (\<lambda>_.
     let secretNames = (if cx_secret_manifest rc \<noteq> [] then cx_secret_manifest rc
           else CollectSecretRefs (Some (cx_destinations rc)) (Some (cx_env rc)) (cx_llm_secret_ref rc) [Some (cx_mcp_env rc)]) in
     or_fail deps tok runID ''secrets_fetch'' (client_GetSecrets deps tok secretNames) (\<lambda>secretMap.
     let llmAPIKey = (case cx_llm_secret_ref rc of
           Some n \<Rightarrow> if n \<noteq> [] then (case map_of secretMap n of Some v \<Rightarrow> v | None \<Rightarrow> []) else []
         | None \<Rightarrow> []) in
     case copilot_key deps runID rc llmAPIKey of
       Inl e \<Rightarrow> failRun deps tok runID ''copilot_token_refresh'' e
     | Inr key \<Rightarrow>
     or_fail deps tok runID ''clone_url_fetch'' (client_GetCloneURL deps tok (cx_repo_id rc)) (\<lambda>cloneURL.
     case cd_mkdir_temp deps of
       Inl e \<Rightarrow> failRun deps tok runID ''tempdir'' e
     | Inr cloneDir \<Rightarrow>
       (case cd_clone deps cloneURL (cx_skill_sha rc) cloneDir of
          Inl e \<Rightarrow> failRun deps tok runID ''clone'' (''clone '' @ redactCloneURL deps cloneURL @ '': '' @ e)
        | Inr fs \<Rightarrow> execute deps tok runID rc cloneDir fs key secretMap)))))"

definition runRunnerHTTP :: "cmd_deps \<Rightarrow> string \<Rightarrow> unit cmd_sx" where
  "runRunnerHTTP deps runIDFlag =
     (let apiURL = cd_getenv deps ''CRONFOUNDRY_API_URL'';
          runID = (if runIDFlag \<noteq> [] then runIDFlag else cd_getenv deps ''CRONFOUNDRY_RUN_ID'');
          runToken = cd_getenv deps ''CRONFOUNDRY_RUN_TOKEN'' in
      if apiURL = [] then throw ''CRONFOUNDRY_API_URL is required''
      else if runID = [] then throw ''CRONFOUNDRY_RUN_ID or --run-id is required''
      else if runToken = [] then throw ''CRONFOUNDRY_RUN_TOKEN is required''
      else run_with_token deps runToken runID)"

end
