(* ===== verification/Runner_Cmd_Props.thy ===== *)
theory Runner_Cmd_Props
  imports Runner_Cmd Api_Props
begin

text \<open>
  The requests of the runner command: whatever the server and the transport answer, it sends
  exactly one finalize request, as its last; and what the request carries.
\<close>

section \<open>Requests that do not finalize\<close>

definition is_finalize :: "api_request \<Rightarrow> bool" where
  "is_finalize r \<longleftrightarrow> (case r of PostFinalize _ _ _ \<Rightarrow> True | _ \<Rightarrow> False)"

definition asks_only :: "cmd_state \<Rightarrow> cmd_state \<Rightarrow> bool" where
  "asks_only s t \<longleftrightarrow> (\<exists>reqs. cm_sent t = cm_sent s @ reqs \<and> list_all (\<lambda>r. \<not> is_finalize r) reqs)"

interpretation asks: step_rel asks_only
proof
  fix s t u
  show "asks_only s s" unfolding asks_only_def by (rule exI [of _ "[]"]) simp
  show "asks_only s u" if "asks_only s t" "asks_only t u"
    using that unfolding asks_only_def by (metis append.assoc list_all_append)
qed

lemma do_request_sent: "cm_sent (snd (do_request deps req s)) = cm_sent s @ [req]"
  by (simp add: do_request_def Let_def split: option.split prod.split sum.split http_err.split)

lemma do_request_asks: "\<not> is_finalize req \<Longrightarrow> keeps asks_only (do_request deps req)"
  by (rule keepsI) (simp add: asks_only_def do_request_sent)

lemma client_asks:
  "keeps asks_only (GetRunContext deps tok i)" "keeps asks_only (client_GetSecrets deps tok names)"
  "keeps asks_only (client_GetCloneURL deps tok i)" "keeps asks_only (client_PostEvents deps tok i evs)"
  unfolding GetRunContext_def client_GetSecrets_def client_GetCloneURL_def client_PostEvents_def
  by (auto split: api_response.split intro!: asks.keeps_rules do_request_asks simp: is_finalize_def)

section \<open>One finalize request, the last\<close>

text \<open>A computation that ends with the finalize request of a run, and one that never fails.\<close>

definition finalizes :: "string \<Rightarrow> string \<Rightarrow> 'a cmd_sx \<Rightarrow> bool" where
  "finalizes tok runID m \<longleftrightarrow> (\<forall>s. \<exists>reqs b. cm_sent (snd (m s)) = cm_sent s @ reqs @ [PostFinalize (bearer tok) runID (Some b)] \<and>
     list_all (\<lambda>r. \<not> is_finalize r) reqs)"

definition succeeds :: "('s, 'e, 'a) sx \<Rightarrow> bool" where
  "succeeds m \<longleftrightarrow> (\<forall>s. \<exists>a s'. m s = (Inr a, s'))"

lemma succeeds_rules: "succeeds (ret a)" "succeeds (attempt m)" "succeeds (gets f)"
  by (simp_all add: succeeds_def attempt_def split: prod.split)

lemma succeeds_bind: "succeeds m \<Longrightarrow> (\<And>a. succeeds (k a)) \<Longrightarrow> succeeds (bind m k)"
  unfolding succeeds_def by (metis bind_Inr)

lemma succeeds_each: "(\<And>x. succeeds (f x)) \<Longrightarrow> succeeds (for_each xs f)"
  by (induction xs) (auto intro: succeeds_rules succeeds_bind)

lemma tell_rules: "succeeds (tell deps tok i evs)" "keeps asks_only (tell deps tok i evs)"
  unfolding tell_def by (auto intro!: succeeds_bind succeeds_rules asks.keeps_rules client_asks)

lemma finalizes_after:
  assumes "succeeds m" "keeps asks_only m" "\<And>a. finalizes tok i (k a)"
  shows "finalizes tok i (bind m k)"
  unfolding finalizes_def
proof
  fix s
  obtain a t where m: "m s = (Inr a, t)" using assms(1) unfolding succeeds_def by blast
  then obtain r1 where r1: "cm_sent t = cm_sent s @ r1" "list_all (\<lambda>r. \<not> is_finalize r) r1"
    using keepsD [OF assms(2), of s] by (auto simp: asks_only_def)
  obtain r2 b where r2: "cm_sent (snd (k a t)) = cm_sent t @ r2 @ [PostFinalize (bearer tok) i (Some b)]"
    "list_all (\<lambda>r. \<not> is_finalize r) r2"
    using assms(3) unfolding finalizes_def by blast
  show "\<exists>reqs b. cm_sent (snd (bind m k s)) = cm_sent s @ reqs @ [PostFinalize (bearer tok) i (Some b)] \<and>
      list_all (\<lambda>r. \<not> is_finalize r) reqs"
    using m r1 r2 by (intro exI [of _ "r1 @ r2"] exI [of _ b]) simp
qed

text \<open>What comes behind the request sends nothing.\<close>

lemma finalizes_then:
  assumes "finalizes tok i m" "\<And>a s. cm_sent (snd (k a s)) = cm_sent s"
  shows "finalizes tok i (bind m k)"
proof -
  have "cm_sent (snd (bind m k s)) = cm_sent (snd (m s))" for s
    using assms(2) by (simp add: bind_def split: prod.split sum.split)
  then show ?thesis using assms(1) by (simp add: finalizes_def)
qed

lemma PostFinalize_finalizes: "finalizes tok i (client_PostFinalize deps tok i b)"
  by (auto simp: finalizes_def client_PostFinalize_def do_request_sent intro: exI [of _ "[]"])

lemma map_err_finalizes: "finalizes tok i m \<Longrightarrow> finalizes tok i (map_err f m)"
  by (simp add: finalizes_def)

lemma failRun_finalizes: "finalizes tok i (failRun deps tok i kind err)"
proof -
  have "finalizes tok i (attempt (client_PostFinalize deps tok i b))" for b
    using PostFinalize_finalizes [of tok i deps b] by (simp add: finalizes_def attempt_apply)
  then show ?thesis unfolding failRun_def by (intro finalizes_then) simp_all
qed

lemma or_fail_finalizes:
  assumes "keeps asks_only m" "\<And>a. finalizes tok i (k a)"
  shows "finalizes tok i (or_fail deps tok i kind m k)"
  unfolding or_fail_def
  by (intro finalizes_after succeeds_rules asks.keeps_rules assms(1)) (auto split: sum.split intro: failRun_finalizes assms(2))

lemma execute_finalizes: "finalizes tok i (execute deps tok i rc dir fs key m)"
proof -
  have last: "finalizes tok i (bind (map_err f (client_PostFinalize deps tok i b))
      (\<lambda>_. case e of Some x \<Rightarrow> throw (g x) | None \<Rightarrow> ret ()))" for f b g and e :: "run_err option"
    using PostFinalize_finalizes [of tok i deps b]
    by (intro finalizes_then) (auto simp: finalizes_def split: option.split)
  show ?thesis
    unfolding execute_def
    by (intro finalizes_after tell_rules)
      (auto split: sum.split prod.split intro!: failRun_finalizes finalizes_after tell_rules succeeds_each asks.for_each_keeps last
        map_err_finalizes PostFinalize_finalizes succeeds_rules asks.ret_keeps)
qed

lemma run_with_token_finalizes: "finalizes tok i (run_with_token deps tok i)"
  unfolding run_with_token_def Let_def
  by (intro or_fail_finalizes client_asks finalizes_after tell_rules)
    (auto split: sum.split intro!: or_fail_finalizes client_asks failRun_finalizes execute_finalizes)

section \<open>What a success means\<close>

definition run_recorded :: "cmd_deps \<Rightarrow> string \<Rightarrow> cmd_state \<Rightarrow> bool" where
  "run_recorded deps i s \<longleftrightarrow> (\<exists>r \<in> set (runs (cm_world s)). uuid_parse (ad_libs (cd_api deps)) i = Some (run_id r) \<and>
     run_status r \<in> {''succeeded'', ''partial_failure''} \<and> run_finished_at r \<noteq> None)"

definition records :: "cmd_deps \<Rightarrow> string \<Rightarrow> 'a cmd_sx \<Rightarrow> bool" where
  "records deps i m \<longleftrightarrow> (\<forall>s u s'. m s = (Inr u, s') \<longrightarrow> run_recorded deps i s')"

lemma records_bind: "(\<And>a. records deps i (k a)) \<Longrightarrow> records deps i (bind m k)"
  unfolding records_def by (metis bind_eq_Inr_iff)

lemma failRun_records: "records deps i (failRun deps tok i' kind err)"
  by (auto simp: records_def failRun_def bind_eq_Inr_iff)

lemma or_fail_records: "(\<And>a. records deps i (k a)) \<Longrightarrow> records deps i (or_fail deps tok i' kind m k)"
  unfolding or_fail_def by (intro records_bind) (auto split: sum.split intro: failRun_records)

text \<open>What a computation can return.\<close>

definition returns :: "('a \<Rightarrow> bool) \<Rightarrow> ('s, 'e, 'a) sx \<Rightarrow> bool" where
  "returns P m \<longleftrightarrow> (\<forall>s a t. m s = (Inr a, t) \<longrightarrow> P a)"

lemma returns_ret: "P a \<Longrightarrow> returns P (ret a)"
  by (simp add: returns_def)

lemma returns_fail: "returns P (fail e)"
  by (simp add: returns_def fail_def)

lemma returns_bind: "(\<And>a. returns P (k a)) \<Longrightarrow> returns P (bind m k)"
  unfolding returns_def by (metis bind_eq_Inr_iff)

lemma run_phases_status: "returns (\<lambda>r. rr_status r \<in> {''succeeded'', ''partial_failure''}) (run_phases deps inp)"
  unfolding run_phases_def publish_phase_def Let_def
  by (auto simp: result_of_def split: sum.split prod.split if_splits intro!: returns_bind returns_fail returns_ret)

lemma Run_status: "Run deps inp s = (r, None, t) \<Longrightarrow> rr_status r \<in> {''succeeded'', ''partial_failure''}"
  using run_phases_status [of deps inp] unfolding returns_def Run_def by (auto split: prod.splits sum.splits)

lemma PostFinalize_recorded:
  assumes "client_PostFinalize deps tok i b s = (Inr u, s')"
  shows "\<exists>r \<in> set (runs (cm_world s')). uuid_parse (ad_libs (cd_api deps)) i = Some (run_id r) \<and>
    run_status r = json_text (fb_status b) \<and> run_finished_at r \<noteq> None"
proof -
  let ?h = "\<lambda>c. respond (\<lambda>_. NoContent) (serve_finalize (cd_api deps) i (Some (wire_body b)) c)"
  obtain resp where "do_request deps (PostFinalize (bearer tok) i (Some (wire_body b))) s = (Inr resp, s')"
    using assms by (auto simp: client_PostFinalize_def bind_eq_Inr_iff)
  then have "requireBearerOrAPIKey (cd_api deps) (bearer tok) ?h (cm_world s) = (Inr resp, cm_world s')"
    by (auto simp: do_request_def Let_def split: option.splits prod.splits sum.splits http_err.splits)
  then obtain c w where "serve_finalize (cd_api deps) i (Some (wire_body b)) c w = (Inr (), cm_world s')"
    by (auto dest!: api_key_Inr simp: respond_def bind_eq_Inr_iff)
  from serve_finalize_cases [OF this] obtain r t where
    r: "uuid_parse (ad_libs (cd_api deps)) i = Some (run_id r)" "r \<in> set (runs w)" "\<not> terminal_status (run_status r)"
      "runs (cm_world s') = update_where (\<lambda>q. run_id q = run_id r \<and> \<not> terminal_status (run_status q))
        (finalized t (finalize_params_of (wire_body b))) (runs w)"
    by simp metis
  have "finalized t (finalize_params_of (wire_body b)) r \<in> set (runs (cm_world s'))"
    using r(2,3) unfolding r(4) by (auto simp: update_where_def)
  then show ?thesis
    using r(1) by (intro bexI [of _ "finalized t (finalize_params_of (wire_body b)) r"])
      (simp_all add: finalized_def finalize_params_of_def wire_body_def)
qed

lemma json_text_status: "json_text ''succeeded'' = ''succeeded''" "json_text ''partial_failure'' = ''partial_failure''"
  by (simp_all add: json_text_ascii ascii_def)

lemma final_records:
  assumes "rr_status r \<in> {''succeeded'', ''partial_failure''}"
  shows "records deps i (map_err f (client_PostFinalize deps tok i (final_body deps r None)))"
  using assms unfolding records_def run_recorded_def
  by (fastforce simp: final_body_def json_text_status dest!: map_err_eq_Inr PostFinalize_recorded)

lemma throw_records: "records deps i (bind m (\<lambda>_. throw e))"
  by (simp add: records_def bind_eq_Inr_iff)

lemma execute_records: "records deps i (execute deps tok i rc dir fs key m)"
  unfolding execute_def
  by (intro records_bind)
    (auto split: sum.split prod.split option.split intro!: failRun_records records_bind throw_records final_records [OF Run_status])

lemma run_with_token_records: "records deps i (run_with_token deps tok i)"
  unfolding run_with_token_def Let_def
  by (intro or_fail_records records_bind)
    (auto split: sum.split intro!: or_fail_records failRun_records execute_records)

section \<open>Notifications and secrets\<close>

lemma json_clip:
  assumes "ascii s"
  shows "length (json_text (clip s m)) \<le> m" "clip s m = [] \<longleftrightarrow> s = [] \<or> m = 0" "json_text (clip s m) = [] \<longleftrightarrow> clip s m = []"
proof -
  have t: "ascii (take k s)" for k using assms by (auto simp: ascii_def list_all_iff dest: in_set_takeD)
  have e: "json_text ellipsis = ellipsis" "ellipsis \<noteq> []" "length ellipsis = 3"
    using runes_append [OF ellipsis_valid, of "[]"] by (auto simp: json_text_def) (simp_all add: ellipsis_def)
  show "length (json_text (clip s m)) \<le> m" "clip s m = [] \<longleftrightarrow> s = [] \<or> m = 0" "json_text (clip s m) = [] \<longleftrightarrow> clip s m = []"
    using assms t e by (auto simp: clip_def json_text_ascii json_text_ascii_append)
qed

lemma notification_fits:
  assumes "ascii (pr_type pr)" "ascii (Target (pr_type pr) (pr_target pr))" "ascii (pr_skip_reason pr)"
    "\<And>e. pr_err pr = Some e \<Longrightarrow> ascii e"
  shows "notification_error k (wire_notification (notification_of pr)) = None"
proof -
  have lit: "json_text ''<unknown>'' = ''<unknown>''" "json_text ''skipped'' = ''skipped''" "json_text ''sent'' = ''sent''"
    "json_text ''failed'' = ''failed''" by (simp_all add: json_text_ascii ascii_def)
  show ?thesis
    using assms lit json_clip [OF assms(1), of 200] json_clip [OF assms(2), of 200] json_clip [OF assms(3), of 2000]
      json_clip(1) [OF assms(4), of _ 2000]
    by (auto simp: notification_error_def wire_notification_def notification_of_def Let_def validNotificationStatus_def not_less
        split: option.split)
qed

lemma envMapForSecrets_eq: "envMapForSecrets m = rev (map (\<lambda>(n, v). (secret_prefix @ to_upper n, v)) m)"
  by (simp add: envMapForSecrets_def secret_prefix_def)

lemma envMap_lookup:
  assumes "distinct (map (\<lambda>(n, v). to_upper n) m)"
  shows "map_of (envMapForSecrets m) (secret_prefix @ to_upper n) = Some v \<longleftrightarrow> (\<exists>n'. (n', v) \<in> set m \<and> to_upper n' = to_upper n)"
proof -
  have "map fst (envMapForSecrets m) = rev (map ((@) secret_prefix) (map (\<lambda>(n, v). to_upper n) m))"
    by (simp add: envMapForSecrets_eq rev_map comp_def case_prod_unfold)
  then have "distinct (map fst (envMapForSecrets m))"
    using assms distinct_map [of "(@) secret_prefix" "map (\<lambda>(n, v). to_upper n) m"] by (simp del: map_map add: inj_on_def)
  then have "map_of (envMapForSecrets m) (secret_prefix @ to_upper n) = Some v \<longleftrightarrow>
      (secret_prefix @ to_upper n, v) \<in> set (envMapForSecrets m)" by (rule map_of_eq_Some_iff)
  then show ?thesis by (auto simp: envMapForSecrets_eq intro: rev_image_eqI)
qed

section \<open>A rune cut in two\<close>

text \<open>Text of one two-byte rune, repeated.\<close>

definition accents :: "nat \<Rightarrow> string" where
  "accents n = concat (replicate n [CHR 0xC3, CHR 0xA9])"

lemma accents_Suc: "accents (Suc n) = CHR 0xC3 # CHR 0xA9 # accents n"
  by (simp add: accents_def)

lemma length_accents [simp]: "length (accents n) = 2 * n"
  by (induction n) (simp_all add: accents_def)

lemma accents_add: "accents (m + n) = accents m @ accents n"
  by (simp add: accents_def replicate_add)

lemma rev_accents: "rev (accents (Suc n)) = CHR 0xA9 # CHR 0xC3 # rev (accents n)"
  using accents_add [of n 1] by (simp add: accents_def)

lemma Trim_accents: "TrimSpace (accents (Suc n)) = accents (Suc n)"
proof -
  have a: "strip_left spaces (accents (Suc n)) = accents (Suc n)"
    by (subst strip_left.simps) (simp add: accents_Suc leading_space_def spaces_def has_prefix_def)
  have "strip_left (map rev spaces) (rev (accents (Suc n))) = rev (accents (Suc n))"
    unfolding rev_accents by (subst strip_left.simps) (simp add: leading_space_def spaces_def has_prefix_def)
  then show ?thesis using a by (simp add: TrimSpace_def)
qed

lemma json_cut_accents: "json_text (accents n @ CHR 0xC3 # ellipsis) = accents n @ rune_error @ ellipsis"
proof -
  have v: "valid_rune [CHR 0xC3, CHR 0xA9]" by code_simp
  have z: "rune_len (CHR 0xC3 # ellipsis) = 0" by code_simp
  have "runes (CHR 0xC3 # ellipsis) = [rune_error, ellipsis]"
    using z runes_append [of ellipsis "[]"] ellipsis_valid by (subst runes.simps) simp
  then show ?thesis
    using runes_concat [of "replicate n [CHR 0xC3, CHR 0xA9]" "CHR 0xC3 # ellipsis"] v
    by (simp add: json_text_def accents_def)
qed

end
