(* ===== verification/Runner_Props.thy ===== *)
theory Runner_Props
  imports Runner Mcp "HOL-Library.Multiset"
begin

text \<open>
  The run as a state machine: the phases it announces, the number of calls to the model, the
  status it ends with, and what each step leaves alone.
\<close>

section \<open>Steps that enter no phase\<close>

definition is_phase :: "run_event \<Rightarrow> bool" where
  "is_phase e \<longleftrightarrow> re_type e = ''phase.enter''"

definition phase_trace :: "run_state \<Rightarrow> run_event list" where
  "phase_trace s = filter is_phase (rs_events s)"

definition same_phase :: "run_state \<Rightarrow> run_state \<Rightarrow> bool" where
  "same_phase s t \<longleftrightarrow> phase_trace t = phase_trace s \<and> rs_active t = rs_active s"

definition same_calls :: "run_state \<Rightarrow> run_state \<Rightarrow> bool" where
  "same_calls s t \<longleftrightarrow> rs_calls t = rs_calls s"

interpretation phase: step_rel same_phase
  by unfold_locales (auto simp: same_phase_def)

interpretation calls: step_rel same_calls
  by unfold_locales (auto simp: same_calls_def)

lemma fail_keeps: "keeps same_phase (fail e)" "keeps same_calls (fail e)"
  by (auto simp: fail_def intro: phase.throw_keeps calls.throw_keeps)

lemma failKind_keeps: "keeps same_phase (failKind k e)" "keeps same_calls (failKind k e)"
  by (auto simp: failKind_def intro: phase.throw_keeps calls.throw_keeps)

lemma emit_keeps: "typ \<noteq> ''phase.enter'' \<Longrightarrow> keeps same_phase (emit_event typ payload a)" "keeps same_calls (emit_event typ payload a)"
  by (auto simp: keeps_def emit_event_def same_phase_def same_calls_def phase_trace_def is_phase_def)

lemma next_call_phase: "keeps same_phase next_call"
  by (simp add: keeps_def next_call_def same_phase_def phase_trace_def)

lemma usage_keeps: "keeps same_phase (modify (\<lambda>s. s\<lparr>rs_usage := f s\<rparr>))" "keeps same_calls (modify (\<lambda>s. s\<lparr>rs_usage := f s\<rparr>))"
  by (simp_all add: keeps_def same_phase_def same_calls_def phase_trace_def)

lemma metrics_phase: "keeps same_phase (modify (\<lambda>s. s\<lparr>rs_metrics := f s\<rparr>))"
  by (simp add: keeps_def same_phase_def phase_trace_def)

lemmas run_keeps = fail_keeps failKind_keeps emit_keeps next_call_phase usage_keeps metrics_phase

lemma start_server_keeps: "keeps same_phase (start_server deps inp ms)" "keeps same_calls (start_server deps inp ms)"
  by (auto simp: keeps_def start_server_def failKind_def emit_event_def same_phase_def same_calls_def phase_trace_def is_phase_def
      split: sum.split option.split prod.split)

lemma tool_event_keeps: "keeps same_phase (tool_event cs r)" "keeps same_calls (tool_event cs r)"
  by (auto simp: tool_event_def intro!: emit_keeps)

lemma fatal_event_keeps: "keeps same_phase (emit_event (''mcp.fatal.'' @ k) pl a)"
  by (rule emit_keeps) simp

lemma run_tools_keeps: "keeps same_phase (run_tools deps n uses)" "keeps same_calls (run_tools deps n uses)"
  unfolding run_tools_def Let_def case_prod_beta
  by (intro phase.keeps_rules calls.keeps_rules, simp only: option.split, intro conjI allI impI
      phase.keeps_rules calls.keeps_rules run_keeps(3,4) emit_keeps(2) fatal_event_keeps tool_event_keeps)+

lemma turn_loop_phase: "keeps same_phase (turn_loop deps ct tools opts left turn msgs)"
proof (induction left arbitrary: turn msgs)
  case 0
  show ?case unfolding turn_loop.simps by (rule phase.ret_keeps)
next
  case (Suc left)
  show ?case
    unfolding turn_loop.simps
    by (intro phase.bind_keeps run_keeps) (auto split: sum.split intro!: phase.keeps_rules run_keeps run_tools_keeps Suc.IH)
qed

lemma chat_tools_phase: "keeps same_phase (chat_tools deps inp p sch sk msgs)"
  unfolding chat_tools_def Let_def
  by (auto split: option.split intro!: phase.keeps_rules run_keeps start_server_keeps turn_loop_phase)

lemma chat_once_phase: "keeps same_phase (chat_once p msgs opts)"
  unfolding chat_once_def by (auto split: prod.split sum.split intro!: phase.keeps_rules run_keeps)

lemma exec_phase_phase: "keeps same_phase (exec_phase deps inp p sch sk body)"
  by (simp add: exec_phase_def Let_def chat_tools_phase chat_once_phase)

lemma publish_all_phase: "keeps same_phase (publish_all deps inp sch sk published)"
  unfolding publish_all_def by (auto split: prod.split intro!: phase.keeps_rules run_keeps)

lemma write_back_phase: "keeps same_phase (write_back deps inp sch m h)"
  by (auto simp: keeps_def write_back_def same_phase_def phase_trace_def split: option.split prod.split sum.split)

section \<open>The number of turns\<close>

lemma next_call_apply [simp]: "next_call s = (Inr (rs_calls s), s\<lparr>rs_calls := Suc (rs_calls s)\<rparr>)"
  by (simp add: next_call_def)

lemma turn_loop_calls: "rs_calls (snd (turn_loop deps ct tools opts left turn msgs s)) \<le> rs_calls s + left"
proof (induction left arbitrary: turn msgs s)
  case (Suc left)
  let ?s = "s\<lparr>rs_events := rs_events s @ [\<lparr>re_type = ''mcp.turn.start'', re_payload = [(''turn'', JNum turn)]\<rparr>],
      rs_calls := Suc (rs_calls s)\<rparr>"
  show ?case
  proof (cases "ct (rs_calls s) msgs tools opts")
    case (Inl e)
    then show ?thesis by (simp add: emit_event_def bind_def failKind_def)
  next
    case (Inr tr)
    let ?t = "?s\<lparr>rs_usage := \<lparr>ug_input_tokens = ug_input_tokens (rs_usage s) + ug_input_tokens (tr_usage tr),
        ug_output_tokens = ug_output_tokens (rs_usage s) + ug_output_tokens (tr_usage tr)\<rparr>\<rparr>"
    have t: "rs_calls (snd (run_tools deps (rs_calls s) (tr_tool_uses tr) ?t)) = Suc (rs_calls s)"
      using keepsD [OF run_tools_keeps(2) [of deps "rs_calls s" "tr_tool_uses tr"], of ?t] by (simp add: same_calls_def)
    show ?thesis
    proof (cases "run_tools deps (rs_calls s) (tr_tool_uses tr) ?t")
      case (Pair r u)
      then have "rs_calls u = Suc (rs_calls s)" using t by simp
      then show ?thesis using Inr Pair Suc.IH [of "turn + 1" _ u]
        by (cases r) (auto simp: emit_event_def bind_def simp del: turn_loop.simps(1) intro!: le_SucI dest: order_trans)
    qed
  qed
qed simp

section \<open>The phases of a run\<close>

lemma phaseD: "keeps same_phase m \<Longrightarrow> m s = (r, s') \<Longrightarrow> phase_trace s' = phase_trace s \<and> rs_active s' = rs_active s"
  using keepsD [of same_phase m s] by (simp add: same_phase_def)

lemma enter_apply: "enter p s = (Inr (), s\<lparr>rs_events := rs_events s @ [enterPhase p []], rs_active := p\<rparr>)"
  by (simp add: enter_def)

lemma phase_trace_enter [simp]:
  "phase_trace (s\<lparr>rs_events := rs_events s @ [enterPhase p q]\<rparr>) = phase_trace s @ [enterPhase p q]"
  "phase_trace (s\<lparr>rs_events := rs_events s @ [enterPhase p q], rs_active := a\<rparr>) = phase_trace s @ [enterPhase p q]"
  "phase_trace (s\<lparr>rs_events := rs_events s @ [enterPhase p q], rs_servers := v\<rparr>) = phase_trace s @ [enterPhase p q]"
  "phase_trace (s\<lparr>rs_servers := v\<rparr>) = phase_trace s"
  by (simp_all add: phase_trace_def is_phase_def enterPhase_def)

lemma publish_phase_Inr:
  "\<exists>r s'. publish_phase deps inp sch sk out s = (Inr r, s') \<and>
     phase_trace s' = phase_trace s @ (if ri_dry_run inp then [] else [enterPhase ''publish'' []])"
proof -
  obtain published memBlock hasMemory where x: "Extract out = (published, memBlock, hasMemory)" by (cases "Extract out")
  show ?thesis
  proof (cases "ri_dry_run inp")
    case True
    then show ?thesis by (simp add: publish_phase_def x bind_def Let_def)
  next
    case False
    let ?s = "s\<lparr>rs_events := rs_events s @ [enterPhase ''publish'' []], rs_active := ''publish''\<rparr>"
    obtain pr t where p: "publish_all deps inp sch sk published ?s = (Inr pr, t)"
      by (simp add: publish_all_def case_prod_beta bind_def)
    obtain ok sha u where w: "write_back deps inp sch memBlock hasMemory t = (Inr (ok, sha), u)"
      by (cases "write_back deps inp sch memBlock hasMemory t")
        (auto simp: write_back_def split: option.splits if_splits prod.splits sum.splits)
    have "phase_trace u = phase_trace s @ [enterPhase ''publish'' []]"
      using phaseD [OF publish_all_phase p] phaseD [OF write_back_phase w] by simp
    then show ?thesis using False p w by (auto simp: publish_phase_def x bind_def enter_apply Let_def)
  qed
qed

text \<open>The run with its phase events in place.\<close>

definition entered :: "string list \<Rightarrow> run_state \<Rightarrow> run_state" where
  "entered ps s = s\<lparr>rs_events := rs_events s @ map (\<lambda>p. enterPhase p []) ps, rs_active := last ps\<rparr>"

lemma entered_simps [simp]:
  "phase_trace (entered ps s) = phase_trace s @ map (\<lambda>p. enterPhase p []) ps" "rs_active (entered ps s) = last ps"
  "rs_calls (entered ps s) = rs_calls s" "rs_usage (entered ps s) = rs_usage s" "rs_fs (entered ps s) = rs_fs s"
proof -
  have "filter is_phase (map (\<lambda>p. enterPhase p []) ps) = map (\<lambda>p. enterPhase p []) ps"
    by (auto simp: filter_id_conv is_phase_def enterPhase_def)
  then show "phase_trace (entered ps s) = phase_trace s @ map (\<lambda>p. enterPhase p []) ps"
    by (simp add: entered_def phase_trace_def)
qed (simp_all add: entered_def)

lemma run_phases_eq:
  "run_phases deps inp s = (case boot deps inp (rs_fs s) of
       Inl e \<Rightarrow> (Inl ([], e), entered [''boot''] s)
     | Inr (sch, sk, body) \<Rightarrow>
       (case rd_provider deps (sc_provider sch) of
          Inl e \<Rightarrow> (Inl ([], ErrProvider e), entered [''boot'', ''secrets''] s)
        | Inr p \<Rightarrow> bind (exec_phase deps inp p sch sk body) (publish_phase deps inp sch sk)
            (entered [''boot'', ''secrets'', ''exec''] s)))"
  by (simp add: run_phases_def enter_apply bind_def fail_def entered_def split: sum.split prod.split)

text \<open>The possible ends of the phases of a run, as the phases entered and the error.\<close>

lemma run_phases_trace:
  assumes "run_phases deps inp s = (res, s')"
  shows "\<exists>ps. phase_trace s' = phase_trace s @ map (\<lambda>p. enterPhase p []) ps \<and>
    (case res of
       Inl e \<Rightarrow> ps \<in> {[''boot''], [''boot'', ''secrets''], [''boot'', ''secrets'', ''exec'']} \<and> rs_active s' = last ps
     | Inr r \<Rightarrow> ps = [''boot'', ''secrets'', ''exec''] @ (if ri_dry_run inp then [] else [''publish'']))"
proof (cases "boot deps inp (rs_fs s)")
  case (Inl e)
  then show ?thesis using assms by (intro exI [of _ "[''boot'']"]) (auto simp: run_phases_eq)
next
  case (Inr loaded)
  obtain sch sk body where l: "loaded = (sch, sk, body)" by (cases loaded)
  show ?thesis
  proof (cases "rd_provider deps (sc_provider sch)")
    case (Inl e)
    then show ?thesis using assms Inr l by (intro exI [of _ "[''boot'', ''secrets'']"]) (auto simp: run_phases_eq)
  next
    case p: (Inr p)
    let ?d = "entered [''boot'', ''secrets'', ''exec''] s"
    obtain x t where x: "exec_phase deps inp p sch sk body ?d = (x, t)" by (cases "exec_phase deps inp p sch sk body ?d")
    note t = phaseD [OF exec_phase_phase x]
    show ?thesis
    proof (cases x)
      case (Inl e)
      then have "res = Inl e" "s' = t" using assms Inr l p x by (simp_all add: run_phases_eq bind_def)
      then show ?thesis using t by (intro exI [of _ "[''boot'', ''secrets'', ''exec'']"]) simp
    next
      case out: (Inr out)
      obtain v u where v: "publish_phase deps inp sch sk out t = (Inr v, u)"
        "phase_trace u = phase_trace t @ (if ri_dry_run inp then [] else [enterPhase ''publish'' []])"
        using publish_phase_Inr by blast
      then have "res = Inr v" "s' = u" using assms Inr l p x out by (simp_all add: run_phases_eq bind_def)
      then show ?thesis using t v(2)
        by (intro exI [of _ "[''boot'', ''secrets'', ''exec''] @ (if ri_dry_run inp then [] else [''publish''])"]) simp
    qed
  qed
qed

section \<open>Turns that run out\<close>

lemma turn_loop_runs_out:
  "turn_loop deps ct tools opts left turn msgs s = (Inr None, s') \<Longrightarrow> rs_calls s' = rs_calls s + left"
proof (induction left arbitrary: turn msgs s)
  case (Suc left)
  then obtain tr where tr: "ct (rs_calls s) msgs tools opts = Inr tr" "tr_tool_uses tr \<noteq> []"
    by (auto simp: emit_event_def bind_def failKind_def split: sum.splits if_splits)
  let ?t = "s\<lparr>rs_events := rs_events s @ [\<lparr>re_type = ''mcp.turn.start'', re_payload = [(''turn'', JNum turn)]\<rparr>],
      rs_calls := Suc (rs_calls s),
      rs_usage := \<lparr>ug_input_tokens = ug_input_tokens (rs_usage s) + ug_input_tokens (tr_usage tr),
        ug_output_tokens = ug_output_tokens (rs_usage s) + ug_output_tokens (tr_usage tr)\<rparr>\<rparr>"
  obtain r u where u: "run_tools deps (rs_calls s) (tr_tool_uses tr) ?t = (r, u)" by (cases "run_tools deps (rs_calls s) (tr_tool_uses tr) ?t")
  have c: "rs_calls u = Suc (rs_calls s)"
    using keepsD [OF run_tools_keeps(2) [of deps "rs_calls s" "tr_tool_uses tr"], of ?t] u by (simp add: same_calls_def)
  obtain answers where "r = Inr answers" using Suc.prems tr u by (cases r) (auto simp: emit_event_def bind_def)
  then obtain turn' msgs' where "turn_loop deps ct tools opts left turn' msgs' u = (Inr None, s')"
    using Suc.prems tr u by (auto simp: emit_event_def bind_def)
  then have "rs_calls s' = rs_calls u + left" by (rule Suc.IH)
  then show ?case using c by simp
qed simp

lemma servers_calls: "rs_calls (snd (for_each mss (start_server deps inp) s)) = rs_calls s"
  using keepsD [OF calls.for_each_keeps [of "start_server deps inp" mss], of s] start_server_keeps(2)
  by (simp add: same_calls_def)

text \<open>Which errors a computation can end with.\<close>

definition only_fails :: "('e \<Rightarrow> bool) \<Rightarrow> ('s, 'e, 'a) sx \<Rightarrow> bool" where
  "only_fails P m \<longleftrightarrow> (\<forall>s e s'. m s = (Inl e, s') \<longrightarrow> P e)"

lemma only_failsD: "only_fails P m \<Longrightarrow> m s = (Inl e, s') \<Longrightarrow> P e"
  by (auto simp: only_fails_def)

lemma only_fails_basic:
  "only_fails P (ret a)" "only_fails P (gets f)" "only_fails P (modify g)" "P e \<Longrightarrow> only_fails P (throw e)"
  by (auto simp: only_fails_def)

lemma only_fails_run: "only_fails P (emit_event typ payload a)" "only_fails P next_call"
  by (auto simp: only_fails_def emit_event_def)

lemma only_fails_bind: "only_fails P m \<Longrightarrow> (\<And>a. only_fails P (k a)) \<Longrightarrow> only_fails P (bind m k)"
  by (auto simp: only_fails_def bind_def split: prod.splits sum.splits)

lemma only_fails_each: "(\<And>x. only_fails P (f x)) \<Longrightarrow> only_fails P (for_each xs f)"
  by (induction xs) (auto intro: only_fails_basic only_fails_bind)

lemmas only_fails_rules = only_fails_basic only_fails_run only_fails_bind only_fails_each

definition turns_left :: "string \<times> run_err \<Rightarrow> bool" where
  "turns_left e \<longleftrightarrow> (\<forall>n. snd e \<noteq> ErrMaxTurns n)"

lemma turns_left_iff: "turns_left (k, e) \<longleftrightarrow> (\<forall>n. e \<noteq> ErrMaxTurns n)"
  by (simp add: turns_left_def)

lemma start_server_fails: "only_fails turns_left (start_server deps inp ms)"
  by (auto simp: only_fails_def start_server_def failKind_def emit_event_def turns_left_def split: sum.splits prod.splits option.splits)

lemma run_tools_fails: "only_fails turns_left (run_tools deps n uses)"
  unfolding run_tools_def Let_def case_prod_beta
  by (auto split: option.split intro!: only_fails_rules simp: failKind_def tool_event_def turns_left_iff)

lemma turn_loop_fails: "only_fails turns_left (turn_loop deps ct tools opts left turn msgs)"
proof (induction left arbitrary: turn msgs)
  case 0
  show ?case unfolding turn_loop.simps by (rule only_fails_basic)
next
  case (Suc left)
  show ?case
    unfolding turn_loop.simps
    by (intro only_fails_bind only_fails_run)
      (auto split: sum.split intro!: only_fails_rules run_tools_fails Suc.IH simp: failKind_def turns_left_iff)
qed

lemma chat_tools_calls:
  assumes "chat_tools deps inp p sch sk msgs s = (res, s')"
  shows "rs_calls s' \<le> rs_calls s + nat (resolveMaxTurns (ri_max_turns inp) (sf_max_turns (sl_frontmatter sk))) \<and>
    (\<forall>k n. res = Inl (k, ErrMaxTurns n) \<longrightarrow> rs_calls s' = rs_calls s + nat n)"
proof (cases "pv_chat_turn p")
  case None
  then show ?thesis using assms by (auto simp: chat_tools_def failKind_def)
next
  case (Some ct)
  define m where "m = resolveMaxTurns (ri_max_turns inp) (sf_max_turns (sl_frontmatter sk))"
  obtain r1 t where t: "for_each (ri_mcp_servers inp) (start_server deps inp) s = (r1, t)"
    by (cases "for_each (ri_mcp_servers inp) (start_server deps inp) s")
  have tc: "rs_calls t = rs_calls s" using servers_calls [of "ri_mcp_servers inp" deps inp s] t by simp
  show ?thesis
  proof (cases r1)
    case (Inl e)
    have "only_fails turns_left (for_each (ri_mcp_servers inp) (start_server deps inp))"
      by (rule only_fails_each) (rule start_server_fails)
    from only_failsD [OF this t [unfolded Inl]] have "turns_left e" .
    then show ?thesis using assms Some t tc Inl by (auto simp: chat_tools_def bind_def turns_left_def)
  next
    case (Inr x)
    let ?loop = "turn_loop deps ct (tool_defs (rs_servers t) (ri_mcp_servers inp)) (options_of inp sch sk) (nat m) 1 msgs"
    obtain r2 u where u: "?loop t = (r2, u)" by (cases "?loop t")
    have uc: "rs_calls u \<le> rs_calls s + nat m"
      using turn_loop_calls [of deps ct "tool_defs (rs_servers t) (ri_mcp_servers inp)" "options_of inp sch sk" "nat m" 1 msgs t] u tc
      by simp
    have r: "chat_tools deps inp p sch sk msgs s = (case r2 of Inl e \<Rightarrow> (Inl e, u)
        | Inr None \<Rightarrow> (Inl (''max_turns_exceeded'', ErrMaxTurns m), u) | Inr (Some out) \<Rightarrow> (Inr out, u))"
      using Some t Inr u by (auto simp: chat_tools_def bind_def failKind_def Let_def m_def split: sum.split option.split)
    show ?thesis
    proof (cases r2)
      case (Inl e)
      from only_failsD [OF turn_loop_fails u [unfolded Inl]] have "turns_left e" .
      then show ?thesis using assms r Inl uc by (auto simp: turns_left_def m_def)
    next
      case (Inr out)
      then show ?thesis using assms r uc turn_loop_runs_out [of deps ct _ _ "nat m" 1 msgs t u] u tc
        by (cases out) (auto simp: m_def)
    qed
  qed
qed

lemma exec_phase_calls:
  assumes "exec_phase deps inp p sch sk body s = (res, s')"
  shows "rs_calls s' \<le> rs_calls s + (if ri_mcp_servers inp = [] then 1
      else nat (resolveMaxTurns (ri_max_turns inp) (sf_max_turns (sl_frontmatter sk)))) \<and>
    (\<forall>k n. res = Inl (k, ErrMaxTurns n) \<longrightarrow> rs_calls s' = rs_calls s + nat n)"
proof (cases "ri_mcp_servers inp = []")
  case True
  then show ?thesis using assms
    by (auto simp: exec_phase_def chat_once_def bind_def fail_def split: prod.splits sum.splits)
next
  case False
  then have "chat_tools deps inp p sch sk (prompt (buildEnvBanner (sc_env sch)) body) s = (res, s')"
    using assms by (simp add: exec_phase_def Let_def)
  from chat_tools_calls [OF this] False show ?thesis by simp
qed

lemma publish_phase_calls: "rs_calls (snd (publish_phase deps inp sch sk out s)) = rs_calls s"
proof -
  have "keeps same_calls (enter p)" "keeps same_calls (write_back deps inp sch m h)" "keeps same_calls (publish_all deps inp sch sk o')" for p m h o'
    by (auto simp: keeps_def enter_def same_calls_def write_back_def publish_all_def case_prod_beta bind_def
        split: option.split prod.split sum.split)
  then have "keeps same_calls (publish_phase deps inp sch sk out)"
    unfolding publish_phase_def Let_def case_prod_beta by (auto intro!: calls.keeps_rules)
  then show ?thesis using keepsD [of same_calls _ s] by (simp add: same_calls_def)
qed

lemma boot_fails: "boot deps inp fs = Inl e \<Longrightarrow> turns_left (k, e)"
  by (auto simp: boot_def turns_left_def Let_def split: option.splits sum.splits prod.splits)

lemma run_phases_calls:
  assumes "run_phases deps inp s = (res, s')"
  shows "rs_calls s' \<le> rs_calls s + (case boot deps inp (rs_fs s) of Inl e \<Rightarrow> 0
      | Inr (sch, sk, body) \<Rightarrow> if ri_mcp_servers inp = [] then 1
          else nat (resolveMaxTurns (ri_max_turns inp) (sf_max_turns (sl_frontmatter sk)))) \<and>
    (\<forall>k n. res = Inl (k, ErrMaxTurns n) \<longrightarrow> rs_calls s' = rs_calls s + nat n)"
proof (cases "boot deps inp (rs_fs s)")
  case (Inl e)
  then show ?thesis using assms boot_fails [OF Inl] by (auto simp: run_phases_eq turns_left_iff)
next
  case (Inr loaded)
  obtain sch sk body where l: "loaded = (sch, sk, body)" by (cases loaded)
  show ?thesis
  proof (cases "rd_provider deps (sc_provider sch)")
    case (Inl e)
    then show ?thesis using assms Inr l by (auto simp: run_phases_eq)
  next
    case p: (Inr p)
    let ?d = "entered [''boot'', ''secrets'', ''exec''] s"
    obtain x t where x: "exec_phase deps inp p sch sk body ?d = (x, t)" by (cases "exec_phase deps inp p sch sk body ?d")
    note c = exec_phase_calls [OF x]
    show ?thesis
    proof (cases x)
      case (Inl e)
      then have "res = Inl e" "s' = t" using assms Inr l p x by (simp_all add: run_phases_eq bind_def)
      then show ?thesis using c Inr l Inl by auto
    next
      case out: (Inr out)
      obtain v u where v: "publish_phase deps inp sch sk out t = (Inr v, u)" using publish_phase_Inr by blast
      then have "res = Inr v" "s' = u" using assms Inr l p x out by (simp_all add: run_phases_eq bind_def)
      then show ?thesis using c Inr l v publish_phase_calls [of deps inp sch sk out t] by auto
    qed
  qed
qed

section \<open>The sort of the banner's keys\<close>

lemma insert_left_mset [simp]: "mset (insert_left x ys) = {#x#} + mset ys"
  by (induction ys) auto

lemma insert_left_sorted: "sorted (rev ys) \<Longrightarrow> sorted (rev (insert_left x ys))"
proof (induction ys)
  case (Cons y ys)
  have "set (insert_left x ys) = insert x (set ys)"
    by (induction ys) auto
  then show ?case using Cons by (auto simp: sorted_append)
qed simp

lemma sortStrings_sort: "sortStrings ss = sort ss"
proof -
  have "sorted (rev acc) \<Longrightarrow> sorted (rev (fold insert_left ss acc)) \<and> mset (fold insert_left ss acc) = mset acc + mset ss" for acc
    by (induction ss arbitrary: acc) (auto simp: insert_left_sorted)
  from this [of "[]"] show ?thesis unfolding sortStrings_def by (intro properties_for_sort [symmetric]) auto
qed

section \<open>What is published\<close>

text \<open>The results are those of the destinations, dispatched as a success.\<close>

lemma publish_phase_results:
  assumes "publish_phase deps inp sch sk out s = (Inr r, s')" "sc_destinations sch = Some ds"
  shows "if ri_dry_run inp then rr_publish_results r = []
    else length (rr_publish_results r) = length ds \<and>
      (\<forall>i < length ds. de_when (ds ! i) = ''on_failure'' \<longrightarrow> pr_skipped (rr_publish_results r ! i))"
proof (cases "ri_dry_run inp")
  case True
  then show ?thesis using assms(1) by (auto simp: publish_phase_def result_of_def split: prod.splits)
next
  case False
  then obtain published pubs t t' where p: "publish_all deps inp sch sk published t = (Inr pubs, t')" "rr_publish_results r = pubs"
    using assms(1) by (auto simp: publish_phase_def bind_eq_Inr_iff Let_def split: prod.splits)
  obtain outputFor tctx where "pubs = fst (Dispatch (rd_publishers deps) ds outputFor tctx (Resolver_Get (ri_secrets inp)) True)"
    using p(1) assms(2) by (auto simp: publish_all_def split: prod.splits) (metis fst_conv)
  then show ?thesis using False p(2) by (auto simp: Dispatch_def dispatch_one_def ShouldPublish_def Let_def)
qed

text \<open>
  What a run promises: its phases, its bounds, its servers, and that what it publishes are the
  destinations for success.
\<close>

section \<open>A concrete run\<close>

definition sample_frontmatter :: skill_frontmatter where
  "sample_frontmatter = \<lparr>sf_name = ''digest'', sf_description = [], sf_model_hint = [], sf_max_tokens = 0, sf_max_turns = 0,
     sf_mcp_servers = [], sf_block_format = []\<rparr>"

definition failure_dest :: destination where
  "failure_dest = \<lparr>de_github_issue = None, de_slack = Some \<lparr>wh_secret = ''hook'', wh_text = [], wh_content = [], wh_title = [],
     wh_username = [], wh_format = [], wh_output = []\<rparr>, de_discord = None, de_teams = None, de_http = None, de_email = None,
     de_when = ''on_failure''\<rparr>"

definition sample_run_schedule :: schedule where
  "sample_run_schedule = \<lparr>sc_name = ''a'', sc_cron = ''c'', sc_timezone = [], sc_overlap_policy = [], sc_timeout_sec = 60,
     sc_provider = ''openai'', sc_model = ''m'', sc_max_turns = 0, sc_destinations = Some [failure_dest], sc_writeback = None, sc_env = None,
     sc_mcp_env = [], sc_auto_pause_after = None, sc_copilot_prefix = []\<rparr>"

definition talking_provider :: provider where
  "talking_provider = \<lparr>pv_chat = (\<lambda>_ _ _. ([''h'', ''i''], Inr \<lparr>ug_input_tokens = 1, ug_output_tokens = 1\<rparr>)),
     pv_chat_turn = Some (\<lambda>n _ _ _. Inr \<lparr>tr_text = [], tr_tool_uses = [\<lparr>tu_id = ''1'', tu_name = ''fs__x'', tu_input = []\<rparr>],
        tr_usage = \<lparr>ug_input_tokens = 1, ug_output_tokens = 1\<rparr>, tr_stop_reason = []\<rparr>)\<rparr>"

definition sample_run_deps :: runner_deps where
  "sample_run_deps = \<lparr>rd_provider = (\<lambda>_. Inr talking_provider), rd_publishers = (\<lambda>_. None), rd_mcp = sample_mcp, rd_order = (\<lambda>_. [0]),
     rd_ctx_done = (\<lambda>_. False), rd_git = sample_git,
     rd_yaml = \<lparr>yaml_manifest = (\<lambda>_. Some \<lparr>mf_version = 1, mf_skills = [\<lparr>se_path = ''s'', se_schedules = [sample_run_schedule]\<rparr>]\<rparr>),
       yaml_frontmatter = (\<lambda>_. Some sample_frontmatter)\<rparr>,
     rd_started = 0, rd_finished = 1, rd_local_offset = 0\<rparr>"

definition sample_run_input :: "mcp_server list \<Rightarrow> run_input" where
  "sample_run_input mss = \<lparr>ri_repo_root = ''/r'', ri_manifest_path = ''c'', ri_skill_path = ''s'', ri_schedule_name = ''a'', ri_run_id = ''1'',
     ri_secrets = \<lparr>rv_env = []\<rparr>, ri_llm_api_key = [], ri_llm_endpoint = [], ri_llm_deployment = [], ri_dry_run = False,
     ri_skip_push = False, ri_github_username = [], ri_github_token = [], ri_mcp_servers = mss, ri_mcp_env = None, ri_max_turns = 2\<rparr>"

definition sample_run_fs :: file_system where
  "sample_run_fs = \<lparr>fs_files = [''/r/c'' \<mapsto> [], ''/r/s/SKILL.md'' \<mapsto> fence @ nl @ fence @ nl], fs_read_err = (\<lambda>_. False),
     fs_mkdir_err = (\<lambda>_. False), fs_write_err = (\<lambda>_. False)\<rparr>"

section \<open>Claims\<close>



text \<open>
  C20: A run asks the model a bounded number of times: not before everything is loaded, once
  without MCP servers, and with them at most the turn limit of the schedule, of the skill or the
  default; a run that fails for its turn limit has used every turn of it.
\<close>

theorem run_calls_bounded:
  assumes "Run deps inp (run_start fs) = (r, err, s)"
  shows "rs_calls s \<le> (case boot deps inp fs of Inl e \<Rightarrow> 0
      | Inr (sch, sk, body) \<Rightarrow> if ri_mcp_servers inp = [] then 1
          else nat (resolveMaxTurns (ri_max_turns inp) (sf_max_turns (sl_frontmatter sk)))) \<and>
    (\<forall>n. err = Some (ErrMaxTurns n) \<longrightarrow> rs_calls s = nat n)"
proof -
  obtain res t where t: "run_phases deps inp (run_start fs) = (res, t)" by (cases "run_phases deps inp (run_start fs)")
  have "rs_calls s = rs_calls t" "\<forall>n. err = Some (ErrMaxTurns n) \<longrightarrow> (\<exists>k. res = Inl (k, ErrMaxTurns n))"
    using assms t by (auto simp: Run_def split: sum.splits prod.splits)
  then show ?thesis using run_phases_calls [OF t] by (auto simp: run_start_def)
qed

theorem run_calls_bounded_witness:
  "\<exists>r s. Run sample_run_deps (sample_run_input [\<lparr>ms_name = ''fs'', ms_command = [], ms_args = None\<rparr>]) (run_start sample_run_fs) =
     (r, Some (ErrMaxTurns 2), s) \<and> rs_calls s = 2"
proof -
  let ?r = "Run sample_run_deps (sample_run_input [\<lparr>ms_name = ''fs'', ms_command = [], ms_args = None\<rparr>]) (run_start sample_run_fs)"
  have "fst (snd ?r) = Some (ErrMaxTurns 2)" by code_simp
  then obtain r s where r: "?r = (r, Some (ErrMaxTurns 2), s)" by (metis prod.collapse)
  from run_calls_bounded [OF r] show ?thesis using r by simp
qed

text \<open>
  A destination for failures is never used: a run publishes only after the model answered,
  always as a success, so a destination with the condition on_failure is skipped in every run
  that publishes, and a run that fails publishes nothing.
\<close>

theorem on_failure_never_published:
  assumes "Run deps inp (run_start fs) = (r, err, s)" "boot deps inp fs = Inr (sch, sk, body)"
    and "sc_destinations sch = Some ds"
  shows "if err = None \<and> \<not> ri_dry_run inp
    then length (rr_publish_results r) = length ds \<and>
      (\<forall>i < length ds. de_when (ds ! i) = ''on_failure'' \<longrightarrow> pr_skipped (rr_publish_results r ! i))
    else rr_publish_results r = []"
proof -
  obtain res t where t: "run_phases deps inp (run_start fs) = (res, t)" by (cases "run_phases deps inp (run_start fs)")
  show ?thesis
  proof (cases res)
    case (Inl e)
    then show ?thesis using assms(1) t by (auto simp: Run_def failed_run_def split: prod.splits)
  next
    case (Inr v)
    then have v: "r = v" "err = None" using assms(1) t by (auto simp: Run_def)
    have "\<exists>out u. publish_phase deps inp sch sk out u = (Inr v, t)"
      using t Inr assms(2) by (auto simp: run_phases_eq run_start_def bind_eq_Inr_iff split: sum.splits)
    then show ?thesis using publish_phase_results [of deps inp sch sk _ _ v t] v assms(3) by auto
  qed
qed

theorem on_failure_never_published_witness:
  "\<exists>r s. Run sample_run_deps (sample_run_input []) (run_start sample_run_fs) = (r, None, s) \<and>
     length (rr_publish_results r) = 1 \<and> pr_skipped (rr_publish_results r ! 0)"
proof -
  let ?r = "Run sample_run_deps (sample_run_input []) (run_start sample_run_fs)"
  have "fst (snd ?r) = None" by code_simp
  then obtain r s where r: "?r = (r, None, s)" by (metis prod.collapse)
  have "(case boot sample_run_deps (sample_run_input []) sample_run_fs of Inr (sch, sk, body) \<Rightarrow> sc_destinations sch = Some [failure_dest]
      | Inl _ \<Rightarrow> False)" by code_simp
  then obtain sch sk body where b: "boot sample_run_deps (sample_run_input []) sample_run_fs = Inr (sch, sk, body)"
    "sc_destinations sch = Some [failure_dest]" by (auto split: sum.splits)
  from on_failure_never_published [OF r b] r show ?thesis by (simp add: sample_run_input_def failure_dest_def)
qed

end
