(* ===== verification/Runner_Cmd_Claims.thy ===== *)
theory Runner_Cmd_Claims
  imports Runner_Cmd_Props Runner_Props Api_Claims
begin

text \<open>
  What the runner command promises to the server, and the secrets it hands to a run. The command
  is exercised against the sample deployment, with the sample skill as the checkout.
\<close>

section \<open>A deployment with a runner\<close>

definition sample_env :: "string \<Rightarrow> string" where
  "sample_env k = (if k = ''CRONFOUNDRY_API_URL'' then ''http://127.0.0.1:8080'' else if k = ''CRONFOUNDRY_RUN_ID'' then ''0000000''
     else if k = ''CRONFOUNDRY_RUN_TOKEN'' then ''tok'' else [])"

definition dead_network :: network where
  "dead_network = \<lparr>nt_build_err = (\<lambda>_ _. None), nt_reply = (\<lambda>_ _. TransportError ''timeout''), nt_ctx_done = (\<lambda>_. None),
     nt_send_mail = (\<lambda>_ _ _ _ _. None), nt_q_encode = id, nt_boundary = ''b'', nt_create_issue = (\<lambda>_ _ _ _ _ _ _. Inr [])\<rparr>"

definition sample_cmd :: "(nat \<Rightarrow> string option) \<Rightarrow> cmd_deps" where
  "sample_cmd lost = \<lparr>cd_getenv = sample_env, cd_api = sample_api sample_claims, cd_lost = lost, cd_copilot_token = Inr,
     cd_mkdir_temp = Inr ''/r'', cd_clone = (\<lambda>_ _ _. Inr (sample_run_fs\<lparr>fs_files := (fs_files sample_run_fs)(''/r/cronfoundry.yaml'' \<mapsto> [])\<rparr>)), cd_without_user = Some,
     cd_runner = sample_run_deps, cd_network = dead_network,
     cd_providers = \<lparr>pl_openai = (\<lambda>_. talking_provider), pl_anthropic = (\<lambda>_. talking_provider), pl_azure_foundry = talking_provider,
       pl_copilot_enterprise = talking_provider\<rparr>, cd_err_text = (\<lambda>_. ''failed''), cd_started = second, cd_ended = second\<rparr>"

definition sample_cmd_state :: cmd_state where
  "sample_cmd_state = \<lparr>cm_world = (sample_world ''skip'' [sample_run 7 ''running'' None 0])
       \<lparr>schedules := [(sample_schedule ''skip'')\<lparr>sch_name := ''a'', sch_llm_secret_ref := None\<rparr>], skills := [sample_skill\<lparr>sk_path := ''s''\<rparr>]\<rparr>,
     cm_sent = []\<rparr>"

section \<open>One finalize request\<close>

text \<open>
  C7: A runner that was started with its three settings always reports the end of its run:
  whatever the server, the network, the checkout, the model and the destinations do, the last
  request it sends is the finalize request of the run, and it sends no other one.
\<close>

theorem runner_finalizes_once:
  assumes "cd_getenv deps ''CRONFOUNDRY_API_URL'' \<noteq> []" "cd_getenv deps ''CRONFOUNDRY_RUN_TOKEN'' = tok" "tok \<noteq> []"
    and "i = (if flag \<noteq> [] then flag else cd_getenv deps ''CRONFOUNDRY_RUN_ID'')" "i \<noteq> []"
  shows "\<exists>reqs b. cm_sent (snd (runRunnerHTTP deps flag s)) = cm_sent s @ reqs @ [PostFinalize (bearer tok) i (Some b)] \<and>
    list_all (\<lambda>r. \<not> is_finalize r) reqs"
  using run_with_token_finalizes [of tok i deps] assms unfolding finalizes_def by (simp add: runRunnerHTTP_def)

theorem runner_finalizes_once_witness:
  "\<exists>reqs b. cm_sent (snd (runRunnerHTTP (sample_cmd (\<lambda>n. Some ''refused'')) [] sample_cmd_state)) =
     reqs @ [PostFinalize (bearer ''tok'') ''0000000'' (Some b)] \<and> list_all (\<lambda>r. \<not> is_finalize r) reqs"
  using runner_finalizes_once [of "sample_cmd (\<lambda>n. Some ''refused'')" "''tok''" "''0000000''" "[]" sample_cmd_state]
  by (simp add: sample_cmd_def sample_env_def sample_cmd_state_def)

section \<open>A successful command leaves a finished run\<close>

text \<open>
  C8: If the runner command ends without an error, the server's row of the run is finished as
  succeeded or as a partial failure.
\<close>

theorem runner_success_recorded:
  assumes "runRunnerHTTP deps flag s = (Inr u, s')"
  shows "\<exists>r \<in> set (runs (cm_world s')).
    uuid_parse (ad_libs (cd_api deps)) (if flag \<noteq> [] then flag else cd_getenv deps ''CRONFOUNDRY_RUN_ID'') = Some (run_id r) \<and>
    run_status r \<in> {''succeeded'', ''partial_failure''} \<and> run_finished_at r \<noteq> None"
  using run_with_token_records assms unfolding records_def run_recorded_def
  by (fastforce simp: runRunnerHTTP_def Let_def split: if_splits)

theorem runner_success_recorded_witness:
  "\<exists>s'. runRunnerHTTP (sample_cmd (\<lambda>_. None)) [] sample_cmd_state = (Inr (), s') \<and>
     (\<exists>r \<in> set (runs (cm_world s')). run_id r = 7 \<and> run_status r \<in> {''succeeded'', ''partial_failure''})"
proof -
  let ?m = "runRunnerHTTP (sample_cmd (\<lambda>_. None)) [] sample_cmd_state"
  have "fst ?m = Inr ()" by code_simp
  then obtain s' where m: "?m = (Inr (), s')" by (metis prod.collapse)
  have parse: "uuid_parse (ad_libs (cd_api (sample_cmd (\<lambda>_. None)))) (cd_getenv (sample_cmd (\<lambda>_. None)) ''CRONFOUNDRY_RUN_ID'') = Some 7"
    by code_simp
  from runner_success_recorded [OF m] show ?thesis using m parse by auto
qed

section \<open>Notifications\<close>

text \<open>
  The server accepts the notifications that the runner builds, however long the texts of
  the results are: for plain ASCII texts every entry is within the limits of the finalize
  endpoint, so a long error cannot keep a run from being finalized.
\<close>

theorem notifications_accepted:
  assumes "\<forall>pr \<in> set results. ascii (pr_type pr) \<and> ascii (Target (pr_type pr) (pr_target pr)) \<and> ascii (pr_skip_reason pr) \<and>
    (\<forall>e. pr_err pr = Some e \<longrightarrow> ascii e)"
  shows "notifications_error k (map wire_notification (buildNotifications results)) = None"
  using assms
proof (induction results arbitrary: k)
  case (Cons pr results)
  then have "notification_error k (wire_notification (notification_of pr)) = None" by (intro notification_fits) auto
  then show ?case using Cons by (simp add: buildNotifications_def)
qed (simp add: buildNotifications_def)

definition long_result :: publish_result where
  "long_result = \<lparr>pr_type = ''email'', pr_ok = False, pr_skipped = False, pr_skip_reason = [], pr_err = Some (replicate 5000 (CHR ''e'')),
     pr_detail = [], pr_target = ''a@b''\<rparr>"

theorem notifications_accepted_witness:
  "notifications_error 0 (map wire_notification (buildNotifications [long_result])) = None"
proof -
  have "ascii (pr_type long_result)" "ascii (Target (pr_type long_result) (pr_target long_result))" by code_simp+
  then show ?thesis
    by (intro notifications_accepted) (auto simp: long_result_def ascii_def list_all_iff)
qed

text \<open>
  Beyond ASCII the limit can be missed: a target of 101 two-byte runes is cut in the middle
  of a rune, the lone byte becomes a three-byte replacement character on the wire, and the
  server refuses the whole finalize request.
\<close>

theorem clip_splits_rune:
  "clip (accents 101) 200 = accents 98 @ CHR 0xC3 # ellipsis \<and>
   length (json_text (clip (accents 101) 200)) = 202 \<and>
   notifications_error 0 (map wire_notification (buildNotifications [ok_result ''email'' [] (accents 101)])) =
     Some ''notifications[0].target: required, max 200 chars''"
proof -
  have "accents 101 = (accents 98 @ [CHR 0xC3]) @ CHR 0xA9 # accents 2"
    using accents_add [of 98 3] accents_Suc [of 2] by simp
  then have "take 197 (accents 101) = accents 98 @ [CHR 0xC3]"
    by (simp add: take_append)
  then have c: "clip (accents 101) 200 = accents 98 @ CHR 0xC3 # ellipsis"
    by (simp add: clip_def ellipsis_def)
  then have l: "length (json_text (clip (accents 101) 200)) = 202"
    unfolding c json_cut_accents by (simp add: rune_error_def ellipsis_def)
  have "Target ''email'' (accents 101) = accents 101"
    using Trim_accents [of 100] by (simp add: Target_def)
  then have n: "buildNotifications [ok_result ''email'' [] (accents 101)] = [\<lparr>fn_kind = ''email'', fn_target = clip (accents 101) 200,
      fn_status = ''sent'', fn_reason = None\<rparr>]"
    using c by (simp add: buildNotifications_def notification_of_def ok_result_def clip_def [of "''email''"])
  have "itoa 0 = ''0''" by code_simp
  then have "notifications_error 0 (map wire_notification (buildNotifications [ok_result ''email'' [] (accents 101)])) =
      Some ''notifications[0].target: required, max 200 chars''"
    using l unfolding n by (simp add: wire_notification_def notification_error_def json_text_ascii ascii_def)
  then show ?thesis using c l by blast
qed

text \<open>
  A webhook URL reaches the server when the webhook cannot be reached: the URL, which is
  the secret, is part of the transport's error text, and that text is the reason of the
  notification.
\<close>

theorem transport_error_leaks_webhook:
  assumes "wh_secret d \<noteq> []" "secrets (wh_secret d) = Inr url" "length url + length e \<le> 1900"
    and "nt_build_err net ''POST'' url = None" "nt_ctx_done net 1 = None" "nt_ctx_done net 2 = None"
    and "\<forall>i < 3. nt_reply net (json_post url (slack_payload d output tctx)) i = TransportError e"
  shows "\<exists>reason. fn_reason (notification_of (slack_publish net (dest\<lparr>de_slack := Some d\<rparr>) output tctx secrets)) = Some reason \<and>
    sublist url reason"
proof -
  let ?msg = "''slack: retries exhausted: '' @ url_error ''POST'' url e"
  have "fst (postJSON net ''slack'' url (slack_payload d output tctx)) = failed_result ''slack'' ?msg url"
    using assms(4-7) by (simp add: postJSON_def eval_nat_numeral)
  then have r: "slack_publish net (dest\<lparr>de_slack := Some d\<rparr>) output tctx secrets = failed_result ''slack'' ?msg url"
    using assms(1,2) by (simp add: slack_publish_def webhook_publish_def)
  have "length ?msg \<le> 2000" using assms(3) by (simp add: url_error_def quoted_def to_lower_def)
  then have "fn_reason (notification_of (slack_publish net (dest\<lparr>de_slack := Some d\<rparr>) output tctx secrets)) = Some ?msg"
    unfolding r by (simp add: notification_of_def failed_result_def clip_def Let_def)
  moreover have "to_lower ''OST'' = ''ost''" by code_simp
  then have "sublist url ?msg" unfolding url_error_def quoted_def sublist_def
    by (intro exI [of _ "''slack: retries exhausted: Post '' @ [CHR 0x22]"] exI [of _ "CHR 0x22 # '': '' @ e"]) simp
  ultimately show ?thesis by blast
qed

theorem transport_error_leaks_webhook_witness:
  "\<exists>reason. fn_reason (notification_of (slack_publish dead_network (failure_dest\<lparr>de_slack := Some (the (de_slack failure_dest))\<rparr>)
     ''out'' (sample_context ''out'') (\<lambda>_. Inr ''https://hooks.slack.com/T0/SECRET''))) = Some reason \<and>
     sublist ''https://hooks.slack.com/T0/SECRET'' reason"
  by (rule transport_error_leaks_webhook [where e = "''timeout''"]) (simp_all add: failure_dest_def dead_network_def)

section \<open>Secrets of the run\<close>

text \<open>
  The names under which the runner exports the secrets find them again: if no two names
  differ in case only, the resolver of the run answers every name with its value and no other.
\<close>

theorem resolver_roundtrip:
  assumes "distinct (map (\<lambda>(n, v). to_upper n) m)"
  shows "Resolver_Get \<lparr>rv_env = envMapForSecrets m\<rparr> n = Inr v \<longleftrightarrow> (\<exists>n'. (n', v) \<in> set m \<and> to_upper n' = to_upper n)"
  using envMap_lookup [OF assms, of n v] by (auto simp: Resolver_Get_def Let_def split: option.splits)

theorem resolver_roundtrip_witness:
  "Resolver_Get \<lparr>rv_env = envMapForSecrets [(''hook'', ''u''), (''llm-key'', ''k'')]\<rparr> ''LLM-key'' = Inr ''k''"
proof -
  have "distinct (map (\<lambda>(n, v). to_upper n) [(''hook'', ''u''), (''llm-key'', ''k'')])" by code_simp
  moreover have "to_upper ''LLM-key'' = to_upper ''llm-key''" by code_simp
  ultimately show ?thesis by (simp add: resolver_roundtrip)
qed

end
