(* ===== verification/Web_Store.thy ===== *)
theory Web_Store
  imports Schedule_Queries Url
begin

text \<open>
  The tables that only the web API and the admin commands touch: organization, app_user and
  secret, beside the store of the scheduler and the runner API, with the statements of
  internal/db/gen on them, and the listing statements the web API reads the other tables
  with. A login column is citext: it keeps its case and compares without it.
\<close>

section \<open>Rows and state\<close>

record org_row =
  og_id :: uuid
  og_name :: string
  og_created_at :: time

record user_row =
  usr_id :: uuid
  usr_org_id :: uuid
  usr_login :: string
  usr_role :: string
  usr_created_at :: time
  usr_last_login_at :: "time option"

record secret_row =
  sec_id :: uuid
  sec_org_id :: uuid
  sec_name :: string
  sec_dek_wrapped :: string
  sec_ciphertext :: string
  sec_nonce :: string
  sec_version :: int
  sec_created_at :: time
  sec_updated_at :: time
  sec_last_used_at :: "time option"

text \<open>
  \<open>ww_rand\<close> is what crypto/rand yields at each reading: an error, or a supply of bytes.
\<close>

record web =
  ww_db :: world
  ww_orgs :: "org_row list"
  ww_users :: "user_row list"
  ww_secrets :: "secret_row list"
  ww_rand :: "nat \<Rightarrow> (nat \<Rightarrow> char) option"
  ww_rand_ctr :: nat

type_synonym 'a web_stmt = "(web, db_err, 'a) sx"

definition on_db :: "(world, 'e, 'a) sx \<Rightarrow> (web, 'e, 'a) sx" where
  "on_db m = (\<lambda>w. case m (ww_db w) of (r, d) \<Rightarrow> (r, w\<lparr>ww_db := d\<rparr>))"

text \<open>A statement on the tables of this theory: it counts and fails like every other.\<close>

definition web_stmt :: "(web \<Rightarrow> (db_err + 'a) \<times> web) \<Rightarrow> 'a web_stmt" where
  "web_stmt f = bind (on_db (stmt (\<lambda>d. (Inr (), d)))) (\<lambda>_. f)"

definition web_now :: "(web, 'e, time) sx" where
  "web_now = gets (\<lambda>w. clock_at (ww_db w) (stmt_ctr (ww_db w)))"

definition web_time :: "web \<Rightarrow> time" where
  "web_time w = now_at (ww_db w)"

definition draw_id :: "web \<Rightarrow> uuid" where
  "draw_id w = uuid_gen (ww_db w) (uuid_ctr (ww_db w))"

definition id_drawn :: "web \<Rightarrow> web" where
  "id_drawn w = w\<lparr>ww_db := (ww_db w)\<lparr>uuid_ctr := Suc (uuid_ctr (ww_db w))\<rparr>\<rparr>"

definition rand_Read :: "nat \<Rightarrow> (web, unit, string) sx" where
  "rand_Read n = (\<lambda>w. (case ww_rand w (ww_rand_ctr w) of None \<Rightarrow> Inl () | Some f \<Rightarrow> Inr (map f [0..<n]),
     w\<lparr>ww_rand_ctr := Suc (ww_rand_ctr w)\<rparr>))"

section \<open>organization\<close>

definition CreateOrganization :: "string \<Rightarrow> org_row web_stmt" where
  "CreateOrganization name = web_stmt (\<lambda>w.
     let o' = \<lparr>og_id = draw_id w, og_name = name, og_created_at = web_time w\<rparr>
     in (Inr o', (id_drawn w)\<lparr>ww_orgs := ww_orgs w @ [o']\<rparr>))"

definition GetFirstOrganization :: "org_row web_stmt" where
  "GetFirstOrganization = web_stmt (\<lambda>w. case sort_key og_created_at (ww_orgs w) of
       [] \<Rightarrow> (Inl ErrNoRows, w)
     | o' # _ \<Rightarrow> (Inr o', w))"

section \<open>app\_user\<close>

definition citext_eq :: "string \<Rightarrow> string \<Rightarrow> bool" where
  "citext_eq a b \<longleftrightarrow> to_lower a = to_lower b"

definition user_key :: "uuid \<Rightarrow> string \<Rightarrow> user_row \<Rightarrow> bool" where
  "user_key org login u \<longleftrightarrow> usr_org_id u = org \<and> citext_eq (usr_login u) login"

definition valid_role_column :: "string \<Rightarrow> bool" where
  "valid_role_column r \<longleftrightarrow> r = ''admin'' \<or> r = ''viewer''"

definition org_exists :: "web \<Rightarrow> uuid \<Rightarrow> bool" where
  "org_exists w org \<longleftrightarrow> list_ex (\<lambda>o'. og_id o' = org) (ww_orgs w)"

definition admins_of :: "uuid \<Rightarrow> user_row list \<Rightarrow> user_row list" where
  "admins_of org us = filter (\<lambda>u. usr_org_id u = org \<and> usr_role u = ''admin'') us"

definition users_of :: "uuid \<Rightarrow> user_row list \<Rightarrow> user_row list" where
  "users_of org us = filter (\<lambda>u. usr_org_id u = org) us"

definition CountAdmins :: "uuid \<Rightarrow> nat web_stmt" where
  "CountAdmins org = web_stmt (\<lambda>w. (Inr (length (admins_of org (ww_users w))), w))"

definition CountUsers :: "uuid \<Rightarrow> nat web_stmt" where
  "CountUsers org = web_stmt (\<lambda>w. (Inr (length (users_of org (ww_users w))), w))"

definition CreateUser :: "uuid \<Rightarrow> string \<Rightarrow> string \<Rightarrow> user_row web_stmt" where
  "CreateUser org login role = web_stmt (\<lambda>w.
     if \<not> org_exists w org \<or> \<not> valid_role_column role then (Inl ErrConstraint, w)
     else case find (user_key org login) (ww_users w) of
       Some _ \<Rightarrow> (Inl ErrNoRows, w)
     | None \<Rightarrow>
       (let u = \<lparr>usr_id = draw_id w, usr_org_id = org, usr_login = login, usr_role = role,
              usr_created_at = web_time w, usr_last_login_at = None\<rparr>
        in (Inr u, (id_drawn w)\<lparr>ww_users := ww_users w @ [u]\<rparr>)))"

definition DeleteUser :: "uuid \<Rightarrow> string \<Rightarrow> nat web_stmt" where
  "DeleteUser org login = web_stmt (\<lambda>w. (Inr (length (filter (user_key org login) (ww_users w))),
     w\<lparr>ww_users := filter (\<lambda>u. \<not> user_key org login u) (ww_users w)\<rparr>))"

definition DeleteUserIfNotLast :: "uuid \<Rightarrow> string \<Rightarrow> nat web_stmt" where
  "DeleteUserIfNotLast org login = web_stmt (\<lambda>w.
     if 1 < length (users_of org (ww_users w))
     then (Inr (length (filter (user_key org login) (ww_users w))),
           w\<lparr>ww_users := filter (\<lambda>u. \<not> user_key org login u) (ww_users w)\<rparr>)
     else (Inr 0, w))"

definition GetUserRole :: "uuid \<Rightarrow> string \<Rightarrow> string web_stmt" where
  "GetUserRole org login = web_stmt (\<lambda>w. case find (user_key org login) (ww_users w) of
       None \<Rightarrow> (Inl ErrNoRows, w)
     | Some u \<Rightarrow> (Inr (usr_role u), w))"

definition ListUsers :: "uuid \<Rightarrow> user_row list web_stmt" where
  "ListUsers org = web_stmt (\<lambda>w. (Inr (sort_key (\<lambda>u. to_lower (usr_login u)) (users_of org (ww_users w))), w))"

definition SetUserRole :: "uuid \<Rightarrow> string \<Rightarrow> string \<Rightarrow> unit web_stmt" where
  "SetUserRole org login role = web_stmt (\<lambda>w.
     if list_ex (user_key org login) (ww_users w) \<and> \<not> valid_role_column role then (Inl ErrConstraint, w)
     else (Inr (), w\<lparr>ww_users := update_where (user_key org login) (\<lambda>u. u\<lparr>usr_role := role\<rparr>) (ww_users w)\<rparr>))"

definition UpsertUserOnLogin :: "uuid \<Rightarrow> string \<Rightarrow> string \<Rightarrow> user_row web_stmt" where
  "UpsertUserOnLogin org login role = web_stmt (\<lambda>w.
     if \<not> org_exists w org \<or> \<not> valid_role_column role then (Inl ErrConstraint, w)
     else case find (user_key org login) (ww_users w) of
       Some u \<Rightarrow> (Inr (u\<lparr>usr_last_login_at := Some (web_time w)\<rparr>),
         w\<lparr>ww_users := update_where (user_key org login)
            (\<lambda>u. u\<lparr>usr_last_login_at := Some (web_time w)\<rparr>) (ww_users w)\<rparr>)
     | None \<Rightarrow>
       (let u = \<lparr>usr_id = draw_id w, usr_org_id = org, usr_login = login, usr_role = role,
              usr_created_at = web_time w, usr_last_login_at = Some (web_time w)\<rparr>
        in (Inr u, (id_drawn w)\<lparr>ww_users := ww_users w @ [u]\<rparr>)))"

section \<open>secret\<close>

definition secret_key :: "uuid \<Rightarrow> string \<Rightarrow> secret_row \<Rightarrow> bool" where
  "secret_key org name s \<longleftrightarrow> sec_org_id s = org \<and> sec_name s = name"

definition DeleteSecret :: "uuid \<Rightarrow> string \<Rightarrow> nat web_stmt" where
  "DeleteSecret org name = web_stmt (\<lambda>w. (Inr (length (filter (secret_key org name) (ww_secrets w))),
     w\<lparr>ww_secrets := filter (\<lambda>s. \<not> secret_key org name s) (ww_secrets w)\<rparr>))"

definition GetSecretByName :: "uuid \<Rightarrow> string \<Rightarrow> secret_row web_stmt" where
  "GetSecretByName org name = web_stmt (\<lambda>w. case find (secret_key org name) (ww_secrets w) of
       None \<Rightarrow> (Inl ErrNoRows, w)
     | Some s \<Rightarrow> (Inr s, w))"

definition ListSecretNames :: "uuid \<Rightarrow> secret_row list web_stmt" where
  "ListSecretNames org = web_stmt (\<lambda>w.
     (Inr (sort_key sec_name (filter (\<lambda>s. sec_org_id s = org) (ww_secrets w))), w))"

definition TouchSecret :: "uuid \<Rightarrow> unit web_stmt" where
  "TouchSecret i = web_stmt (\<lambda>w. (Inr (), w\<lparr>ww_secrets := update_where (\<lambda>s. sec_id s = i)
     (\<lambda>s. s\<lparr>sec_last_used_at := Some (web_time w)\<rparr>) (ww_secrets w)\<rparr>))"

definition UpsertSecret :: "uuid \<Rightarrow> string \<Rightarrow> string \<Rightarrow> string \<Rightarrow> string \<Rightarrow> secret_row web_stmt" where
  "UpsertSecret org name wrapped ct nonce = web_stmt (\<lambda>w.
     let upd = (\<lambda>s. s\<lparr>sec_dek_wrapped := wrapped, sec_ciphertext := ct, sec_nonce := nonce,
                 sec_version := sec_version s + 1, sec_updated_at := web_time w\<rparr>) in
     if \<not> org_exists w org then (Inl ErrConstraint, w)
     else case find (secret_key org name) (ww_secrets w) of
       Some s \<Rightarrow> if int32_range (sec_version s + 1)
         then (Inr (upd s), w\<lparr>ww_secrets := update_where (secret_key org name) upd (ww_secrets w)\<rparr>)
         else (Inl ErrConstraint, w)
     | None \<Rightarrow>
       (let s = \<lparr>sec_id = draw_id w, sec_org_id = org, sec_name = name, sec_dek_wrapped = wrapped,
              sec_ciphertext = ct, sec_nonce = nonce, sec_version = 1, sec_created_at = web_time w,
              sec_updated_at = web_time w, sec_last_used_at = None\<rparr>
        in (Inr s, (id_drawn w)\<lparr>ww_secrets := ww_secrets w @ [s]\<rparr>)))"

end
