(* ===== verification/Base64.thy ===== *)
theory Base64
  imports Go_Strings Redact
begin

text \<open>
  The base64 encodings of Go's encoding/base64 that the program uses: RawURLEncoding, without
  padding, and StdEncoding. Decoding skips line breaks and does not look at the unused bits
  of the last character, as the Go decoder does. The laws of an encoding are a locale.
  The last part is encoding/hex.
\<close>

locale codec =
  fixes enc :: "'a \<Rightarrow> 'b" and dec :: "'b \<Rightarrow> 'a option"
  assumes dec_enc: "dec (enc x) = Some x"
begin

lemma enc_inj: "enc x = enc y \<longleftrightarrow> x = y"
  using dec_enc by (metis option.inject)

end

section \<open>Octets and sextets\<close>

fun sextets :: "nat list \<Rightarrow> nat list" where
  "sextets [] = []"
| "sextets [a] = [a div 4, a mod 4 * 16]"
| "sextets [a, b] = [a div 4, a mod 4 * 16 + b div 16, b mod 16 * 4]"
| "sextets (a # b # c # r) = a div 4 # (a mod 4 * 16 + b div 16) # (b mod 16 * 4 + c div 64) # c mod 64 # sextets r"

fun octets :: "nat list \<Rightarrow> nat list" where
  "octets (x # y # z # w # r) = (x * 4 + y div 16) # (y mod 16 * 16 + z div 4) # (z mod 4 * 64 + w) # octets r"
| "octets [x, y, z] = [x * 4 + y div 16, y mod 16 * 16 + z div 4]"
| "octets [x, y] = [x * 4 + y div 16]"
| "octets _ = []"

lemma high_bits: "b < 256 \<Longrightarrow> b div 16 < (16 :: nat)" "c < 256 \<Longrightarrow> c div 64 < (4 :: nat)" "a < 256 \<Longrightarrow> a div 4 < (64 :: nat)"
  by simp_all

lemma merge: "i < k \<Longrightarrow> (m * k + i) div k = (m :: nat)" "i < k \<Longrightarrow> (m * k + i) mod k = (i :: nat)"
  by simp_all

lemma octets_sextets: "list_all (\<lambda>b. b < 256) bs \<Longrightarrow> octets (sextets bs) = bs"
proof (induction bs rule: sextets.induct)
  case (2 a)
  then show ?case by simp
next
  case (3 a b)
  then have h: "b div 16 < 16" by (auto intro: high_bits)
  show ?case by (simp only: sextets.simps octets.simps merge [OF h]) simp
next
  case (4 a b c r)
  then have h: "b div 16 < 16" "c div 64 < 4" by (auto intro: high_bits)
  show ?case using 4 by (simp only: sextets.simps octets.simps merge [OF h(1)] merge [OF h(2)]) simp
qed simp

lemma sextets_bound: "list_all (\<lambda>b. b < 256) bs \<Longrightarrow> list_all (\<lambda>i. i < 64) (sextets bs)"
proof (induction bs rule: sextets.induct)
  case (2 a)
  have "a mod 4 \<le> 3" by simp
  then show ?case using 2 by simp
next
  case (3 a b)
  have "a mod 4 \<le> 3" "b mod 16 \<le> 15" by simp_all
  moreover have "a div 4 < 64" "b div 16 < 16" using 3 by (auto intro: high_bits)
  ultimately show ?case by auto
next
  case (4 a b c r)
  have "a mod 4 \<le> 3" "b mod 16 \<le> 15" "c mod 64 < 64" by simp_all
  moreover have "a div 4 < 64" "b div 16 < 16" "c div 64 < 4" "list_all (\<lambda>i. i < 64) (sextets r)" using 4 by (auto intro: high_bits)
  ultimately show ?case by auto
qed simp

lemma sextets_length: "length (sextets bs) mod 4 \<noteq> 1"
  by (induction bs rule: sextets.induct) simp_all

definition pad_of :: "nat \<Rightarrow> nat" where
  "pad_of n = (3 - n mod 3) mod 3"

lemma pad_of_step: "pad_of (n + 3) = pad_of n"
  by (simp add: pad_of_def)

lemma sextets_padded: "4 dvd length (sextets bs) + pad_of (length bs)"
proof (induction bs rule: sextets.induct)
  case (4 a b c r)
  have "length (a # b # c # r) = length r + 3" "length (sextets (a # b # c # r)) = length (sextets r) + 4" by simp_all
  then have "length (sextets (a # b # c # r)) + pad_of (length (a # b # c # r)) = (length (sextets r) + pad_of (length r)) + 4"
    by (simp only: pad_of_step)
  then show ?case using 4 by (simp only: dvd_add_triv_right_iff)
next
  case (2 a)
  have "length (sextets [a]) + pad_of (length [a]) = 4" by (simp add: pad_of_def)
  then show ?case by (simp only: dvd_refl)
next
  case (3 a b)
  have "length (sextets [a, b]) + pad_of (length [a, b]) = 4" by (simp add: pad_of_def)
  then show ?case by (simp only: dvd_refl)
qed (simp add: pad_of_def)

section \<open>Alphabets\<close>

definition alphabet :: "string \<Rightarrow> string" where
  "alphabet last2 = ''ABCDEFGHIJKLMNOPQRSTUVWXYZabcdefghijklmnopqrstuvwxyz0123456789'' @ last2"

definition char_at :: "string \<Rightarrow> nat \<Rightarrow> char" where
  "char_at last2 i = alphabet last2 ! i"

definition val_of :: "string \<Rightarrow> char \<Rightarrow> nat" where
  "val_of last2 c = length (takeWhile (\<lambda>x. x \<noteq> c) (alphabet last2))"

definition b64_digits :: "string \<Rightarrow> string \<Rightarrow> string" where
  "b64_digits last2 s = map (char_at last2) (sextets (map of_char s))"

definition b64_bytes :: "string \<Rightarrow> string \<Rightarrow> string option" where
  "b64_bytes last2 t = (if list_all (\<lambda>c. c \<in> set (alphabet last2)) t \<and> length t mod 4 \<noteq> 1
     then Some (map char_of (octets (map (val_of last2) t))) else None)"

definition skip_breaks :: "string \<Rightarrow> string" where
  "skip_breaks s = filter (\<lambda>c. c \<noteq> CHR 0x0A \<and> c \<noteq> CHR 0x0D) s"

lemma val_char:
  assumes "distinct (alphabet last2)" "length (alphabet last2) = 64" "i < 64"
  shows "val_of last2 (char_at last2 i) = i \<and> char_at last2 i \<in> set (alphabet last2)"
proof -
  have "length (takeWhile (\<lambda>x. x \<noteq> xs ! i) xs) = i" if "distinct xs" "i < length xs" for xs :: string
  proof -
    have "takeWhile (\<lambda>x. x \<noteq> xs ! i) xs = take i xs"
      using that by (intro takeWhile_eq_take_P_nth) (auto simp: nth_eq_iff_index_eq)
    then show ?thesis using that by simp
  qed
  then show ?thesis using assms by (simp add: val_of_def char_at_def)
qed

lemma map_val_char:
  assumes "distinct (alphabet last2)" "length (alphabet last2) = 64" "list_all (\<lambda>i. i < 64) is"
  shows "map (val_of last2) (map (char_at last2) is) = is" "list_all (\<lambda>c. c \<in> set (alphabet last2)) (map (char_at last2) is)"
  using assms(3) val_char [OF assms(1,2)] by (induction "is") auto

lemma byte_bounds: "list_all (\<lambda>b. b < 256) (map of_char (s :: string) :: nat list)"
  by (simp add: list_all_iff)

lemma b64_digits_ok:
  assumes "distinct (alphabet last2)" "length (alphabet last2) = 64"
  shows "b64_bytes last2 (b64_digits last2 s) = Some s" "list_all (\<lambda>c. c \<in> set (alphabet last2)) (b64_digits last2 s)"
proof -
  note v = map_val_char [OF assms sextets_bound [OF byte_bounds [of s]]]
  have "map (char_of :: nat \<Rightarrow> char) (map of_char s) = s" by (simp add: comp_def)
  then show "b64_bytes last2 (b64_digits last2 s) = Some s"
    using v sextets_length [of "map of_char s"]
    by (simp add: b64_bytes_def b64_digits_def octets_sextets [OF byte_bounds] del: map_map)
  show "list_all (\<lambda>c. c \<in> set (alphabet last2)) (b64_digits last2 s)" using v by (simp add: b64_digits_def)
qed

lemma url_alphabet: "distinct (alphabet ''-_'')" "length (alphabet ''-_'') = 64"
  by code_simp+

lemma std_alphabet: "distinct (alphabet ''+/'')" "length (alphabet ''+/'') = 64"
  by code_simp+

section \<open>The two encodings\<close>

definition url64_encode :: "string \<Rightarrow> string" where
  "url64_encode s = b64_digits ''-_'' s"

definition url64_decode :: "string \<Rightarrow> string option" where
  "url64_decode s = b64_bytes ''-_'' (skip_breaks s)"

definition std64_encode :: "string \<Rightarrow> string" where
  "std64_encode s = b64_digits ''+/'' s @ replicate (pad_of (length s)) (CHR ''='')"

definition std64_decode :: "string \<Rightarrow> string option" where
  "std64_decode s = (let t = skip_breaks s; body = takeWhile (\<lambda>c. c \<noteq> CHR ''='') t; pad = drop (length body) t in
     if 4 dvd length t \<and> length pad \<le> 2 \<and> list_all (\<lambda>c. c = CHR ''='') pad then b64_bytes ''+/'' body else None)"

lemma alphabet_plain:
  "CHR 0x0A \<notin> set (alphabet ''-_'')" "CHR 0x0D \<notin> set (alphabet ''-_'')" "CHR ''.'' \<notin> set (alphabet ''-_'')"
  "CHR 0x0A \<notin> set (alphabet ''+/'')" "CHR 0x0D \<notin> set (alphabet ''+/'')" "CHR ''='' \<notin> set (alphabet ''+/'')"
  by code_simp+

lemma no_breaks: "CHR 0x0A \<notin> set t \<Longrightarrow> CHR 0x0D \<notin> set t \<Longrightarrow> skip_breaks t = t"
  unfolding skip_breaks_def filter_id_conv by metis

lemma url64_chars: "c \<in> set (url64_encode s) \<Longrightarrow> c \<in> set (alphabet ''-_'')"
  using b64_digits_ok(2) [OF url_alphabet, of s] unfolding url64_encode_def list_all_iff by blast

lemma std64_chars: "c \<in> set (b64_digits ''+/'' s) \<Longrightarrow> c \<in> set (alphabet ''+/'')"
  using b64_digits_ok(2) [OF std_alphabet, of s] unfolding list_all_iff by blast

lemma url64_no_dot: "CHR ''.'' \<notin> set (url64_encode s)"
  using url64_chars alphabet_plain(3) by blast

lemma std64_roundtrip: "std64_decode (std64_encode s) = Some s"
proof -
  let ?d = "b64_digits ''+/'' s" and ?p = "replicate (pad_of (length s)) (CHR ''='')"
  note d = b64_digits_ok [OF std_alphabet, of s]
  have "CHR 0x0A \<notin> set ?d" "CHR 0x0D \<notin> set ?d" "CHR ''='' \<notin> set ?d"
    using std64_chars alphabet_plain(4-6) by blast+
  note e = this
  have "skip_breaks (?d @ ?p) = ?d @ ?p" using e by (intro no_breaks) simp_all
  moreover have "takeWhile (\<lambda>c. c \<noteq> CHR ''='') (?d @ ?p) = ?d"
    using e(3) by (subst takeWhile_append2) (auto simp: takeWhile_replicate)
  moreover have "4 dvd length (?d @ ?p)"
    using sextets_padded [of "map of_char s"] by (simp add: b64_digits_def)
  moreover have "length ?p \<le> 2" by (simp add: pad_of_def)
  ultimately show ?thesis using d(1) by (simp add: std64_encode_def std64_decode_def Let_def list_all_iff)
qed

interpretation url64: codec url64_encode url64_decode
proof
  fix s
  have "CHR 0x0A \<notin> set (url64_encode s)" "CHR 0x0D \<notin> set (url64_encode s)"
    using url64_chars alphabet_plain(1,2) by blast+
  then have "skip_breaks (url64_encode s) = url64_encode s" by (rule no_breaks)
  then show "url64_decode (url64_encode s) = Some s"
    unfolding url64_decode_def by (simp add: url64_encode_def b64_digits_ok [OF url_alphabet])
qed

interpretation std64: codec std64_encode std64_decode
  by unfold_locales (rule std64_roundtrip)

text \<open>encoding/hex: the text of bytes in hexadecimal digits, and back.\<close>

text \<open>hex.DecodeString: pairs of digits of either case, an odd one is an error.\<close>

fun hex_decode :: "string \<Rightarrow> string option" where
  "hex_decode [] = Some []"
| "hex_decode [c] = None"
| "hex_decode (a # b # rest) = (if is_hex a \<and> is_hex b
     then map_option (\<lambda>s. char_of (hex_val a * 16 + hex_val b) # s) (hex_decode rest) else None)"

text \<open>hex.EncodeToString, in lower case.\<close>

definition lower_hex :: "nat \<Rightarrow> char" where
  "lower_hex n = ''0123456789abcdef'' ! n"

definition hex_encode :: "string \<Rightarrow> string" where
  "hex_encode s = concat (map (\<lambda>c. [lower_hex (of_char c div 16), lower_hex (of_char c mod 16)]) s)"

lemma hex_digit_vals:
  "list_all (\<lambda>n. is_hex (lower_hex n) \<and> hex_val (lower_hex n) = n) [0..<16]"
  by (simp add: upt_rec lower_hex_def is_hex_def hex_val_def lower_char_def is_digit_def)

lemma hex_digit_val: "n < 16 \<Longrightarrow> is_hex (lower_hex n) \<and> hex_val (lower_hex n) = n"
  using hex_digit_vals by (simp only: list_all_iff) auto

lemma hex_decode_encode: "hex_decode (hex_encode s) = Some s"
proof (induction s)
  case (Cons c s)
  have "(of_char c :: nat) < 256" by simp
  then have "(of_char c :: nat) div 16 < 16" "(of_char c :: nat) mod 16 < 16" by (rule high_bits) simp
  from this [THEN hex_digit_val] Cons show ?case by (simp add: hex_encode_def)
qed (simp add: hex_encode_def)

lemma hex_encode_digits: "c \<in> set (hex_encode s) \<Longrightarrow> is_hex c"
proof -
  assume "c \<in> set (hex_encode s)"
  then obtain x where x: "c \<in> {lower_hex (of_char x div 16), lower_hex (of_char x mod 16)}" by (auto simp: hex_encode_def)
  have "(of_char x :: nat) < 256" by simp
  then have "(of_char x :: nat) div 16 < 16" "(of_char x :: nat) mod 16 < 16" by (rule high_bits) simp
  from this [THEN hex_digit_val] show ?thesis using x by auto
qed

lemma hex_encode_nonempty: "s \<noteq> [] \<Longrightarrow> hex_encode s \<noteq> []"
  by (cases s) (simp_all add: hex_encode_def)

end
