(* ===== verification/Web_Http.thy ===== *)
theory Web_Http
  imports Web_Store Api Template Go_Json Base64
begin

text \<open>
  The HTTP vocabulary of the web API (internal/webapi: apierr.go, audit_helper.go and what it
  uses of net/http, net and net/url). A handler is a computation on the web state; an early
  return is a thrown response, so a handler always answers. What the Go process gets from
  outside is collected in \<open>web_libs\<close>: HMAC-SHA256, the text form of JSON, the layout of
  timestamps in the local zone, and the replies of GitHub.
\<close>

section \<open>Requests and responses\<close>

record web_request =
  wr_method :: string
  wr_host :: string
  wr_remote_addr :: string
  wr_headers :: "(string \<times> string) list"
  wr_cookies :: "(string \<times> string) list"
  wr_query :: "(string \<times> string) list"
  wr_path :: "(string \<times> string) list"
  wr_body :: string

record set_cookie =
  ck_name :: string
  ck_value :: string
  ck_max_age :: int
  ck_http_only :: bool
  ck_lax :: bool
  ck_secure :: bool

datatype web_body = ApiError string string | JsonBody json | TextBody string | NoBody

record web_response =
  ws_status :: nat
  ws_headers :: "(string \<times> string) list"
  ws_cookies :: "set_cookie list"
  ws_body :: web_body

type_synonym 'a web_sx = "(web, web_response, 'a) sx"
type_synonym web_handler = "web_request \<Rightarrow> web_response web_sx"

record web_libs =
  wl_ids :: libs
  wl_hmac :: "string \<Rightarrow> string \<Rightarrow> string"
  wl_marshal :: "json \<Rightarrow> string"
  wl_unmarshal :: "string \<Rightarrow> json option"
  wl_decode :: "string \<Rightarrow> json option"
  wl_iso :: "time \<Rightarrow> string"
  wl_http :: "string \<Rightarrow> string \<Rightarrow> (string \<times> string) list \<Rightarrow> string \<Rightarrow> (nat \<times> string) option"

definition lookup_or_empty :: "string \<Rightarrow> (string \<times> string) list \<Rightarrow> string" where
  "lookup_or_empty k kvs = (case map_of kvs k of None \<Rightarrow> [] | Some v \<Rightarrow> v)"

definition header :: "string \<Rightarrow> web_request \<Rightarrow> string" where
  "header k r = lookup_or_empty k (wr_headers r)"

definition path_value :: "string \<Rightarrow> web_request \<Rightarrow> string" where
  "path_value k r = lookup_or_empty k (wr_path r)"

definition query_get :: "string \<Rightarrow> web_request \<Rightarrow> string" where
  "query_get k r = lookup_or_empty k (wr_query r)"

section \<open>Writing responses\<close>

definition writeErr :: "nat \<Rightarrow> string \<Rightarrow> string \<Rightarrow> web_response" where
  "writeErr status msg code = \<lparr>ws_status = status, ws_headers = [(''Content-Type'', ''application/json'')],
     ws_cookies = [], ws_body = ApiError msg code\<rparr>"

text \<open>A nil slice is an empty list here, so it is written as an empty array.\<close>

definition writeJSON :: "nat \<Rightarrow> json \<Rightarrow> web_response" where
  "writeJSON status v = \<lparr>ws_status = status, ws_headers = [(''Content-Type'', ''application/json'')],
     ws_cookies = [], ws_body = JsonBody v\<rparr>"

definition http_Error :: "string \<Rightarrow> nat \<Rightarrow> web_response" where
  "http_Error msg status = \<lparr>ws_status = status, ws_headers = [(''Content-Type'', ''text/plain; charset=utf-8'')],
     ws_cookies = [], ws_body = TextBody msg\<rparr>"

definition bare_status :: "nat \<Rightarrow> web_response" where
  "bare_status status = \<lparr>ws_status = status, ws_headers = [], ws_cookies = [], ws_body = NoBody\<rparr>"

definition redirect :: "string \<Rightarrow> web_response" where
  "redirect url = \<lparr>ws_status = 302, ws_headers = [(''Location'', url)], ws_cookies = [], ws_body = NoBody\<rparr>"

definition with_cookies :: "set_cookie list \<Rightarrow> web_response \<Rightarrow> web_response" where
  "with_cookies cs r = r\<lparr>ws_cookies := cs @ ws_cookies r\<rparr>"

text \<open>The response a computation ends with, whether it returned early or not.\<close>

definition serve :: "web_response web_sx \<Rightarrow> web \<Rightarrow> web_response \<times> web" where
  "serve m w = (case m w of (Inl r, w') \<Rightarrow> (r, w') | (Inr r, w') \<Rightarrow> (r, w'))"

section \<open>net and net/url\<close>

definition SplitHostPort :: "string \<Rightarrow> (string \<times> string) option" where
  "SplitHostPort s = (case from_last (CHR '':'') s of
       None \<Rightarrow> None
     | Some rest \<Rightarrow>
       let i = length s - length rest; port = tl rest in
       if has_prefix s ''['' then
         (if CHR '']'' \<notin> set s then None
          else let e = length (takeWhile (\<lambda>c. c \<noteq> CHR '']'') s) in
            if e + 1 \<noteq> i then None
            else if CHR ''['' \<in> set (tl s) \<or> CHR '']'' \<in> set (drop (e + 1) s) then None
            else Some (take (e - 1) (tl s), port))
       else let host = take i s in
         if CHR '':'' \<in> set host \<or> CHR ''['' \<in> set s \<or> CHR '']'' \<in> set s then None
         else Some (host, port))"

definition isLocalhost :: "string \<Rightarrow> bool" where
  "isLocalhost host =
     (let h0 = (case SplitHostPort host of None \<Rightarrow> host | Some (h, _) \<Rightarrow> h);
          h1 = (if has_suffix h0 '']'' then butlast h0 else h0);
          h = trim_prefix h1 ''[''
      in h = ''localhost'' \<or> h = ''127.0.0.1'' \<or> h = ''::1'')"

definition hex_digit :: "nat \<Rightarrow> char" where
  "hex_digit n = ''0123456789ABCDEF'' ! n"

definition query_escape :: "string \<Rightarrow> string" where
  "query_escape s = concat (map (\<lambda>c.
     if is_alpha c \<or> is_digit c \<or> c \<in> set ''-_.~'' then [c]
     else if c = CHR '' '' then ''+''
     else [CHR ''%'', hex_digit (of_char c div 16), hex_digit (of_char c mod 16)]) s)"

definition Values_Encode :: "(string \<times> string) list \<Rightarrow> string" where
  "Values_Encode kvs = join_with ''&''
     (map (\<lambda>(k, v). query_escape k @ ''='' @ query_escape v) (sort_key fst kvs))"

section \<open>Audit\<close>

text \<open>An audit row that cannot be written never fails the request.\<close>

definition auditLog :: "string \<Rightarrow> audit_entry \<Rightarrow> unit web_sx" where
  "auditLog actor e = bind (attempt (on_db (audit_Log
     (if ae_actor e = [] then e\<lparr>ae_actor := actor\<rparr> else e)))) (\<lambda>_. ret ())"

definition load_org :: "string \<Rightarrow> org_row web_sx" where
  "load_org msg = map_err (\<lambda>_. writeErr 500 msg ''internal'') GetFirstOrganization"

section \<open>Frame lemmas\<close>

lemma from_last_append: "c \<notin> set b \<Longrightarrow> from_last c (a @ c # b) = Some (c # b)"
proof -
  assume b: "c \<notin> set b"
  have "takeWhile (\<lambda>x. x \<noteq> c) (rev b @ c # rev a) = rev b"
    using b by (subst takeWhile_append2) auto
  then show ?thesis by (simp add: from_last_def)
qed

lemma from_last_split:
  assumes "from_last c s = Some rest"
  obtains a b where "s = a @ c # b" "rest = c # b"
proof -
  have c: "c \<in> set s" and r: "rest = c # rev (takeWhile (\<lambda>x. x \<noteq> c) (rev s))"
    using assms by (auto simp: from_last_def split: if_splits)
  have "\<exists>x \<in> set (rev s). \<not> x \<noteq> c" using c by auto
  then obtain d where d: "dropWhile (\<lambda>x. x \<noteq> c) (rev s) = c # d"
    using hd_dropWhile [of "\<lambda>x. x \<noteq> c" "rev s"] by (cases "dropWhile (\<lambda>x. x \<noteq> c) (rev s)") auto
  have "rev s = takeWhile (\<lambda>x. x \<noteq> c) (rev s) @ c # d" using d by (metis takeWhile_dropWhile_id)
  then have "s = rev d @ c # rev (takeWhile (\<lambda>x. x \<noteq> c) (rev s))" by (metis rev_rev_ident rev_append rev.simps(2) append_Cons append_Nil append_assoc)
  then show thesis using r by (rule that)
qed

lemma snd_serve [simp]: "snd (serve m w) = snd (m w)"
  by (simp add: serve_def split: prod.split sum.split)

lemma snd_on_db: "snd (on_db m w) = w\<lparr>ww_db := snd (m (ww_db w))\<rparr>"
  by (simp add: on_db_def split: prod.split)

lemma web_stmt_cases:
  obtains "web_stmt f w = (Inl ErrConn, w\<lparr>ww_db := (ww_db w)\<lparr>stmt_ctr := Suc (stmt_ctr (ww_db w))\<rparr>\<rparr>)"
  | "web_stmt f w = f (w\<lparr>ww_db := (ww_db w)\<lparr>stmt_ctr := Suc (stmt_ctr (ww_db w))\<rparr>\<rparr>)"
  by (cases "fault (ww_db w) (stmt_ctr (ww_db w))") (simp_all add: web_stmt_def on_db_def stmt_def bind_def)

text \<open>A statement runs on the state in which it has been counted.\<close>

definition counted :: "web \<Rightarrow> web" where
  "counted w = w\<lparr>ww_db := (ww_db w)\<lparr>stmt_ctr := Suc (stmt_ctr (ww_db w))\<rparr>\<rparr>"

lemma counted_simps [simp]:
  "ww_users (counted w) = ww_users w" "ww_secrets (counted w) = ww_secrets w" "ww_orgs (counted w) = ww_orgs w"
  "ww_rand (counted w) = ww_rand w" "ww_rand_ctr (counted w) = ww_rand_ctr w"
  by (simp_all add: counted_def)

lemma web_stmt_run: "web_stmt f w = (if fault (ww_db w) (stmt_ctr (ww_db w)) then (Inl ErrConn, counted w) else f (counted w))"
  by (simp add: web_stmt_def on_db_def stmt_def bind_def counted_def)

lemma web_stmt_Inr: "web_stmt f w = (Inr a, w') \<Longrightarrow> f (counted w) = (Inr a, w')"
  by (simp add: web_stmt_run split: if_splits)

lemma web_stmt_Inl: "web_stmt f w = (Inl e, w') \<Longrightarrow> w' = counted w \<or> f (counted w) = (Inl e, w')"
  by (auto simp: web_stmt_run split: if_splits)

lemma find_member: "find P xs = Some x \<Longrightarrow> x \<in> set xs \<and> P x"
  by (auto simp: find_Some_iff)

end
