(* ===== verification/Session.thy ===== *)
theory Session
  imports Web_Http
begin

text \<open>
  Sessions and login of the web API (internal/webapi: session.go, auth.go, oauth.go, me.go, the
  role lookup of server.go, and the token and cookie helpers of csrf.go). A cookie value is the
  base64url form of the claims and of their HMAC.
\<close>

section \<open>Signed values\<close>

record session_claims =
  sc_login :: string
  sc_role :: string
  sc_exp :: int

definition session_json :: "session_claims \<Rightarrow> json" where
  "session_json c = JObj [(''login'', JStr (sc_login c)), (''role'', JStr (sc_role c)), (''exp'', JNum (sc_exp c))]"

definition session_of_json :: "json \<Rightarrow> session_claims option" where
  "session_of_json j = Option.bind (struct_fields j) (\<lambda>kvs.
     Option.bind (str_in ''login'' kvs) (\<lambda>l. Option.bind (str_in ''role'' kvs) (\<lambda>r.
     Option.bind (int64_in ''exp'' kvs) (\<lambda>e. Some \<lparr>sc_login = l, sc_role = r, sc_exp = e\<rparr>))))"

text \<open>
  What the code relies on of encoding/json: the claims that were encoded come back, with the
  invalid bytes of their texts replaced.
\<close>

definition session_json_ok :: "web_libs \<Rightarrow> bool" where
  "session_json_ok L \<longleftrightarrow> (\<forall>c. int64_range (sc_exp c) \<longrightarrow>
     wl_unmarshal L (wl_marshal L (session_json c)) = Some (json_clean (session_json c)))"

definition SignSession :: "web_libs \<Rightarrow> time \<Rightarrow> session_claims \<Rightarrow> string \<Rightarrow> time \<Rightarrow> string + string" where
  "SignSession L now claims key ttl =
     (if key = [] then Inl ''session: signing key must not be empty''
      else let enc = url64_encode (wl_marshal L (session_json (claims\<lparr>sc_exp := (now + ttl) div second\<rparr>)))
        in Inr (enc @ ''.'' @ url64_encode (wl_hmac L key enc)))"

definition VerifySession :: "web_libs \<Rightarrow> time \<Rightarrow> string \<Rightarrow> string \<Rightarrow> string + session_claims" where
  "VerifySession L now cookie key =
     (if key = [] then Inl ''session: signing key must not be empty''
      else case from_last (CHR ''.'') cookie of
        None \<Rightarrow> Inl ''invalid signature: malformed cookie''
      | Some rest \<Rightarrow>
        let enc = take (length cookie - length rest) cookie in
        case url64_decode (tl rest) of
          None \<Rightarrow> Inl ''invalid signature: bad encoding''
        | Some sigGot \<Rightarrow>
          if sigGot \<noteq> wl_hmac L key enc then Inl ''invalid signature''
          else case Option.bind (url64_decode enc) (\<lambda>p. Option.bind (wl_unmarshal L p) session_of_json) of
            None \<Rightarrow> Inl ''invalid session''
          | Some claims \<Rightarrow> if now div second > sc_exp claims then Inl ''session expired'' else Inr claims)"

section \<open>Middleware\<close>

record rate_config =
  rl_trust_proxy :: bool
  rl_disabled :: bool
  rl_api_rpm :: int
  rl_oauth_rpm :: int
  rl_webhook_rpm :: int
  rl_sse_max_concurrent :: int
  rl_lru_size :: int

record web_deps =
  wd_libs :: web_libs
  wd_master_key :: string
  wd_client_id :: string
  wd_client_secret :: string
  wd_github_base :: string
  wd_queries :: bool
  wd_public_base_url :: string
  wd_webhook_secret :: string
  wd_api_base_url :: string
  wd_app_slug :: string
  wd_rate_limit :: rate_config
  wd_sweep_interval :: int

definition RequireSession :: "web_deps \<Rightarrow> (session_claims \<Rightarrow> web_request \<Rightarrow> 'a web_sx) \<Rightarrow> web_request \<Rightarrow> 'a web_sx" where
  "RequireSession deps next r =
     (case map_of (wr_cookies r) ''cf_session'' of
        None \<Rightarrow> throw (writeErr 401 ''authentication required'' ''unauthorized'')
      | Some v \<Rightarrow> bind web_now (\<lambda>now.
          case VerifySession (wd_libs deps) now v (wd_master_key deps) of
            Inl _ \<Rightarrow> throw (writeErr 401 ''invalid session'' ''unauthorized'')
          | Inr claims \<Rightarrow> next claims r))"

definition RequireRole :: "web_deps \<Rightarrow> string \<Rightarrow> (session_claims \<Rightarrow> web_request \<Rightarrow> 'a web_sx) \<Rightarrow> web_request \<Rightarrow> 'a web_sx" where
  "RequireRole deps role next = RequireSession deps (\<lambda>claims r.
     if role = ''admin'' \<and> sc_role claims \<noteq> ''admin''
     then throw (writeErr 403 ''admin role required'' ''forbidden'')
     else next claims r)"

definition meHandler :: "session_claims \<Rightarrow> web_handler" where
  "meHandler claims r = ret (writeJSON 200 (JObj [(''login'', JStr (sc_login claims)), (''role'', JStr (sc_role claims))]))"

section \<open>OAuth\<close>

definition sessionDuration :: time where
  "sessionDuration = 7 * 24 * 3600 * second"

definition SignOAuthState :: "web_deps \<Rightarrow> time \<Rightarrow> (web, unit, string) sx" where
  "SignOAuthState deps ttl =
     bind (rand_Read 16) (\<lambda>b. bind web_now (\<lambda>now.
       case SignSession (wd_libs deps) now \<lparr>sc_login = url64_encode b, sc_role = ''state'', sc_exp = 0\<rparr> (wd_master_key deps) ttl of
         Inl _ \<Rightarrow> throw () | Inr s \<Rightarrow> ret s))"

definition state_cookie :: "string \<Rightarrow> string \<Rightarrow> set_cookie" where
  "state_cookie host state = \<lparr>ck_name = ''oauth_state'', ck_value = state, ck_max_age = 600, ck_http_only = True,
     ck_lax = True, ck_secure = \<not> isLocalhost host\<rparr>"

definition expired_cookie :: "string \<Rightarrow> set_cookie" where
  "expired_cookie name = \<lparr>ck_name = name, ck_value = [], ck_max_age = - 1, ck_http_only = False, ck_lax = False, ck_secure = False\<rparr>"

definition oauth_login :: "web_deps \<Rightarrow> web_handler" where
  "oauth_login deps r =
     bind (map_err (\<lambda>_. http_Error ''state generation failed'' 500) (SignOAuthState deps (600 * second))) (\<lambda>state.
     ret (with_cookies [state_cookie (wr_host r) state]
       (redirect (''https://github.com/login/oauth/authorize?'' @
          Values_Encode [(''client_id'', wd_client_id deps), (''state'', state), (''scope'', ''read:user'')]))))"

definition github_url :: "web_deps \<Rightarrow> string \<Rightarrow> string \<Rightarrow> string" where
  "github_url deps dflt path = (if wd_github_base deps = [] then dflt else wd_github_base deps @ path)"

definition exchangeCode :: "web_deps \<Rightarrow> string \<Rightarrow> string option" where
  "exchangeCode deps code =
     (case wl_http (wd_libs deps) ''POST''
         (github_url deps ''https://github.com/login/oauth/access_token'' ''/login/oauth/access_token'')
         [(''Accept'', ''application/json''), (''Content-Type'', ''application/x-www-form-urlencoded'')]
         (Values_Encode [(''client_id'', wd_client_id deps), (''client_secret'', wd_client_secret deps), (''code'', code)]) of
        None \<Rightarrow> None
      | Some (status, body) \<Rightarrow>
        if status \<noteq> 200 then None
        else Option.bind (wl_decode (wd_libs deps) body) (\<lambda>j. Option.bind (struct_fields j) (\<lambda>kvs.
          Option.bind (str_in ''access_token'' kvs) (\<lambda>tok. Option.bind (str_in ''error'' kvs) (\<lambda>e.
          if e \<noteq> [] then None else Some tok)))))"

definition fetchLogin :: "web_deps \<Rightarrow> string \<Rightarrow> string option" where
  "fetchLogin deps tok =
     (case wl_http (wd_libs deps) ''GET'' (github_url deps ''https://api.github.com/user'' ''/user'')
         [(''Authorization'', ''Bearer '' @ tok), (''Accept'', ''application/json'')] [] of
        None \<Rightarrow> None
      | Some (status, body) \<Rightarrow>
        if status \<noteq> 200 then None
        else Option.bind (wl_unmarshal (wd_libs deps) body) (\<lambda>j. Option.bind (struct_fields j) (str_in ''login'')))"

definition resolveRole :: "web_deps \<Rightarrow> uuid \<Rightarrow> string \<Rightarrow> string web_stmt" where
  "resolveRole deps org login =
     (if \<not> wd_queries deps then ret []
      else bind (attempt (GetUserRole org login)) (\<lambda>res.
        case res of Inr role \<Rightarrow> ret role | Inl e \<Rightarrow> if e = ErrNoRows then ret [] else throw e))"

definition NewCSRFToken :: "(web, unit, string) sx" where
  "NewCSRFToken = bind (rand_Read 32) (\<lambda>b. ret (url64_encode b))"

definition csrf_cookie :: "string \<Rightarrow> int \<Rightarrow> string \<Rightarrow> set_cookie" where
  "csrf_cookie tok maxAge host = \<lparr>ck_name = ''cf_csrf'', ck_value = tok, ck_max_age = maxAge, ck_http_only = False,
     ck_lax = True, ck_secure = \<not> isLocalhost host\<rparr>"

definition session_cookie :: "string \<Rightarrow> string \<Rightarrow> set_cookie" where
  "session_cookie session host = \<lparr>ck_name = ''cf_session'', ck_value = session, ck_max_age = sessionDuration div second,
     ck_http_only = True, ck_lax = True, ck_secure = \<not> isLocalhost host\<rparr>"

text \<open>The part of the callback that follows a known login: role, last login, cookies.\<close>

definition org_of_callback :: "web_deps \<Rightarrow> uuid web_sx" where
  "org_of_callback deps = (if wd_queries deps
     then bind (map_err (\<lambda>_. http_Error ''org load failed'' 500) GetFirstOrganization) (\<lambda>o'. ret (og_id o'))
     else ret 0)"

definition complete_login :: "web_deps \<Rightarrow> web_request \<Rightarrow> string \<Rightarrow> web_response web_sx" where
  "complete_login deps r login =
     bind (org_of_callback deps) (\<lambda>org.
     bind (map_err (\<lambda>_. http_Error ''role lookup failed'' 500) (resolveRole deps org login)) (\<lambda>role.
     if role = [] then throw (http_Error ''access denied'' 403)
     else bind (if wd_queries deps then attempt (UpsertUserOnLogin org login role) else ret (Inl ErrNoRows)) (\<lambda>_.
     bind web_now (\<lambda>now.
     case SignSession (wd_libs deps) now \<lparr>sc_login = login, sc_role = role, sc_exp = 0\<rparr> (wd_master_key deps) sessionDuration of
       Inl _ \<Rightarrow> throw (http_Error ''session creation failed'' 500)
     | Inr session \<Rightarrow>
       bind (map_err (\<lambda>_. http_Error ''csrf token generation failed'' 500) NewCSRFToken) (\<lambda>tok.
       ret (with_cookies [session_cookie session (wr_host r), csrf_cookie tok (sessionDuration div second) (wr_host r)]
         (redirect ''/'')))))))"

definition checked_login :: "web_deps \<Rightarrow> web_request \<Rightarrow> string \<Rightarrow> web_response web_sx" where
  "checked_login deps r state =
     (if query_get ''state'' r \<noteq> state then throw (http_Error ''state mismatch'' 400)
      else bind web_now (\<lambda>now. case VerifySession (wd_libs deps) now state (wd_master_key deps) of
        Inl _ \<Rightarrow> throw (http_Error ''invalid state'' 400)
      | Inr _ \<Rightarrow>
        (case exchangeCode deps (query_get ''code'' r) of
           None \<Rightarrow> throw (http_Error ''token exchange failed'' 502)
         | Some tok \<Rightarrow>
           (case fetchLogin deps tok of
              None \<Rightarrow> throw (http_Error ''user fetch failed'' 502)
            | Some login \<Rightarrow> complete_login deps r login))))"

definition adding_cookies :: "set_cookie list \<Rightarrow> web_response web_sx \<Rightarrow> web_response web_sx" where
  "adding_cookies cs m = bind (map_err (with_cookies cs) m) (\<lambda>r. ret (with_cookies cs r))"

definition oauth_callback :: "web_deps \<Rightarrow> web_handler" where
  "oauth_callback deps r = (case map_of (wr_cookies r) ''oauth_state'' of
       None \<Rightarrow> throw (http_Error ''missing state cookie'' 400)
     | Some state \<Rightarrow> adding_cookies [expired_cookie ''oauth_state''] (checked_login deps r state))"

definition oauth_logout :: "web_handler" where
  "oauth_logout r = ret (with_cookies [expired_cookie ''cf_session'', expired_cookie ''cf_csrf''] (redirect ''/oauth/login''))"

section \<open>Signed values verify\<close>

lemma session_of_json_clean:
  "int64_range (sc_exp c) \<Longrightarrow> session_of_json (json_clean (session_json c)) =
     Some \<lparr>sc_login = json_text (sc_login c), sc_role = json_text (sc_role c), sc_exp = sc_exp c\<rparr>"
  by (simp add: session_of_json_def session_json_def struct_fields_def str_in_def int64_in_def as_str_def as_int64_def
      json_text_ascii ascii_def to_lower_def lower_char_def)

lemma session_fields:
  "\<exists>kvs. struct_fields (json_clean (session_json c)) = Some kvs \<and>
     str_in ''login'' kvs = Some (json_text (sc_login c)) \<and> str_in ''role'' kvs = Some (json_text (sc_role c))"
  by (simp add: session_json_def struct_fields_def str_in_def as_str_def json_text_ascii ascii_def to_lower_def lower_char_def)

lemma VerifySession_signed:
  assumes L: "session_json_ok L" and s: "SignSession L t c key ttl = Inr v" and e: "int64_range ((t + ttl) div second)"
  shows "VerifySession L now v key = (if now div second > (t + ttl) div second then Inl ''session expired''
     else Inr \<lparr>sc_login = json_text (sc_login c), sc_role = json_text (sc_role c), sc_exp = (t + ttl) div second\<rparr>)"
proof -
  let ?c = "c\<lparr>sc_exp := (t + ttl) div second\<rparr>"
  let ?enc = "url64_encode (wl_marshal L (session_json ?c))"
  have k: "key \<noteq> []" and v: "v = ?enc @ CHR ''.'' # url64_encode (wl_hmac L key ?enc)"
    using s by (auto simp: SignSession_def Let_def split: if_splits)
  have f: "from_last (CHR ''.'') v = Some (CHR ''.'' # url64_encode (wl_hmac L key ?enc))"
    unfolding v by (rule from_last_append) (rule url64_no_dot)
  have u: "wl_unmarshal L (wl_marshal L (session_json ?c)) = Some (json_clean (session_json ?c))"
    using L e by (simp add: session_json_ok_def)
  show ?thesis
    using k e by (simp add: VerifySession_def f) (simp add: v u url64.dec_enc session_of_json_clean)
qed

text \<open>No value verifies unless its signature is the HMAC of what precedes it under the key.\<close>

lemma VerifySession_signature:
  assumes "VerifySession L now v key = Inr c"
  obtains enc sigt where "v = enc @ ''.'' @ sigt" "url64_decode sigt = Some (wl_hmac L key enc)" "now div second \<le> sc_exp c"
proof -
  obtain rest where f: "from_last (CHR ''.'') v = Some rest"
    using assms by (auto simp: VerifySession_def split: if_splits option.splits)
  obtain enc sigt where v: "v = enc @ ''.'' @ sigt" "rest = ''.'' @ sigt"
    using from_last_split [OF f] by auto
  then have t: "take (length v - length rest) v = enc" "tl rest = sigt" by simp_all
  have "url64_decode sigt = Some (wl_hmac L key enc)" "now div second \<le> sc_exp c"
    using assms f t by (auto simp: VerifySession_def Let_def split: if_splits option.splits)
  with v(1) show thesis by (rule that)
qed

end
