(* ===== verification/Session_Claims.thy ===== *)
theory Session_Claims
  imports Session Sample_World
begin

text \<open>
  What the session cookies guarantee: a signed value verifies until it expires, a protected
  handler runs only on a value with the right HMAC, and a login is granted to users of the
  table with the role the table gives them.
\<close>

section \<open>A sample deployment\<close>

definition sample_marshal :: "json \<Rightarrow> string" where
  "sample_marshal j = (case j of
       JObj [(_, JStr l), (_, JStr r), (_, JNum e)] \<Rightarrow> itoa e @ '','' @ digits (length l) @ '','' @ l @ r
     | _ \<Rightarrow> [])"

definition sample_unmarshal :: "string \<Rightarrow> json option" where
  "sample_unmarshal s = (let (e, s1) = cut_at (CHR '','') s; (n, s2) = cut_at (CHR '','') s1; k = undigits 0 n in
     map_option (\<lambda>e. json_clean (session_json \<lparr>sc_login = take k s2, sc_role = drop k s2, sc_exp = e\<rparr>)) (ParseInt 64 e))"

definition sample_web_libs :: web_libs where
  "sample_web_libs = \<lparr>wl_ids = sample_libs [], wl_hmac = (\<lambda>k d. k @ d), wl_marshal = sample_marshal,
     wl_unmarshal = sample_unmarshal, wl_decode = sample_unmarshal, wl_iso = (\<lambda>t. []),
     wl_http = (\<lambda>m u h b. if m = ''POST'' then Some (200, itoa 0 @ '','' @ digits 0 @ '','')
        else Some (200, sample_marshal (session_json \<lparr>sc_login = ''Ann'', sc_role = [], sc_exp = 0\<rparr>)))\<rparr>"

definition sample_web_deps :: web_deps where
  "sample_web_deps = \<lparr>wd_libs = sample_web_libs, wd_master_key = ''key'', wd_client_id = ''id'', wd_client_secret = ''cs'',
     wd_github_base = [], wd_queries = True, wd_public_base_url = ''https://cron.example'', wd_webhook_secret = ''hook'',
     wd_api_base_url = ''http://127.0.0.1:8080'', wd_app_slug = [],
     wd_rate_limit = \<lparr>rl_trust_proxy = False, rl_disabled = True, rl_api_rpm = 0, rl_oauth_rpm = 0, rl_webhook_rpm = 0,
       rl_sse_max_concurrent = 0, rl_lru_size = 0\<rparr>, wd_sweep_interval = 0\<rparr>"

definition sample_user :: "uuid \<Rightarrow> string \<Rightarrow> string \<Rightarrow> user_row" where
  "sample_user i login role = \<lparr>usr_id = i, usr_org_id = 9, usr_login = login, usr_role = role, usr_created_at = 0,
     usr_last_login_at = None\<rparr>"

definition sample_web :: "user_row list \<Rightarrow> web" where
  "sample_web us = \<lparr>ww_db = sample_world ''skip'' [], ww_orgs = [\<lparr>og_id = 9, og_name = ''org'', og_created_at = 0\<rparr>],
     ww_users = us, ww_secrets = [], ww_rand = (\<lambda>_. Some (\<lambda>_. CHR ''x'')), ww_rand_ctr = 0\<rparr>"

definition sample_request :: "(string \<times> string) list \<Rightarrow> web_request" where
  "sample_request cookies = \<lparr>wr_method = ''GET'', wr_host = ''cron.example'', wr_remote_addr = ''10.0.0.1:5000'',
     wr_headers = [], wr_cookies = cookies, wr_query = [(''state'', lookup_or_empty ''oauth_state'' cookies)], wr_path = [],
     wr_body = []\<rparr>"

lemma cut_at_append: "c \<notin> set a \<Longrightarrow> cut_at c (a @ c # b) = (a, b)"
proof -
  assume "c \<notin> set a"
  then have "takeWhile (\<lambda>x. x \<noteq> c) (a @ c # b) = a" by (auto simp: takeWhile_append)
  then show ?thesis by (simp add: cut_at_def)
qed

lemma digits_no_comma: "CHR '','' \<notin> set (digits n)" "CHR '','' \<notin> set (itoa i)"
proof -
  have d: "CHR '','' \<notin> set (digits n)" for n
    using digits_digit [of n] by (auto simp: list_all_iff is_digit_def)
  then show "CHR '','' \<notin> set (digits n)" "CHR '','' \<notin> set (itoa i)" by (simp_all add: itoa_def)
qed

lemma sample_session_json_ok: "session_json_ok sample_web_libs"
  by (simp add: session_json_ok_def sample_web_libs_def sample_marshal_def sample_unmarshal_def session_json_def
      cut_at_append digits_no_comma ParseInt_itoa undigits_digits int64_range_def)

section \<open>Sessions\<close>

text \<open>
  A value that SignSession issued is accepted by RequireSession, which hands the signed login
  and role to the protected handler, for as long as its lifetime has not passed, and is
  answered with 401 afterwards.
\<close>

theorem session_roundtrip:
  assumes L: "session_json_ok (wd_libs deps)" and s: "SignSession (wd_libs deps) t c (wd_master_key deps) ttl = Inr v"
    and e: "int64_range ((t + ttl) div second)" and clean: "json_text (sc_login c) = sc_login c" "json_text (sc_role c) = sc_role c"
    and v: "map_of (wr_cookies r) ''cf_session'' = Some v"
  shows "RequireSession deps h r w =
     (if (t + ttl) div second < clock_at (ww_db w) (stmt_ctr (ww_db w)) div second
      then (Inl (writeErr 401 ''invalid session'' ''unauthorized''), w)
      else h (c\<lparr>sc_exp := (t + ttl) div second\<rparr>) r w)"
  using VerifySession_signed [OF L s e, of "clock_at (ww_db w) (stmt_ctr (ww_db w))"] clean v
  by (simp add: RequireSession_def web_now_def bind_def split del: if_split) (cases c, simp)

theorem session_roundtrip_witness:
  "RequireSession sample_web_deps (\<lambda>c r. ret (writeJSON 200 (JStr (sc_role c))))
     (sample_request [(''cf_session'', projr (SignSession sample_web_libs 0 \<lparr>sc_login = ''ann'', sc_role = ''admin'', sc_exp = 0\<rparr> ''key'' second))])
     (sample_web []) = (Inr (writeJSON 200 (JStr ''admin'')), sample_web [])"
  by (subst session_roundtrip [where t = 0 and ttl = second and c = "\<lparr>sc_login = ''ann'', sc_role = ''admin'', sc_exp = 0\<rparr>"])
     (simp_all add: sample_web_deps_def sample_session_json_ok sample_request_def SignSession_def Let_def int64_range_def
       second_def sample_web_def sample_world_def json_text_ascii ascii_def)

text \<open>
  C25: A handler behind RequireSession runs only when the cookie is a payload followed by the
  base64url form of the HMAC of that payload under the master key, and its claims have not
  expired; every other request is answered with 401 and changes nothing.
\<close>

theorem session_unforged:
  "RequireSession deps h r w = (Inl (writeErr 401 ''authentication required'' ''unauthorized''), w) \<or>
   RequireSession deps h r w = (Inl (writeErr 401 ''invalid session'' ''unauthorized''), w) \<or>
   (\<exists>enc sigt claims. map_of (wr_cookies r) ''cf_session'' = Some (enc @ ''.'' @ sigt) \<and>
      url64_decode sigt = Some (wl_hmac (wd_libs deps) (wd_master_key deps) enc) \<and>
      clock_at (ww_db w) (stmt_ctr (ww_db w)) div second \<le> sc_exp claims \<and>
      RequireSession deps h r w = h claims r w)"
proof (cases "map_of (wr_cookies r) ''cf_session''")
  case (Some v)
  let ?now = "clock_at (ww_db w) (stmt_ctr (ww_db w))"
  show ?thesis
  proof (cases "VerifySession (wd_libs deps) ?now v (wd_master_key deps)")
    case (Inr c)
    obtain enc sigt where "v = enc @ ''.'' @ sigt" "url64_decode sigt = Some (wl_hmac (wd_libs deps) (wd_master_key deps) enc)"
      "?now div second \<le> sc_exp c" using VerifySession_signature [OF Inr] by metis
    moreover have "RequireSession deps h r w = h c r w"
      using Some Inr by (simp add: RequireSession_def web_now_def bind_def)
    ultimately show ?thesis using Some by blast
  qed (simp add: Some RequireSession_def web_now_def bind_def)
qed (simp add: RequireSession_def)

text \<open>
  C26: The state value that the login route hands to any visitor is a session: within ten minutes
  RequireSession accepts it as cf\_session, with the role state, so every route that asks only
  for a session serves a visitor who never logged in; only the admin routes refuse it.
\<close>

theorem visitor_state_is_session:
  assumes L: "session_json_ok (wd_libs deps)" and l: "serve (oauth_login deps r) w = (resp, w')"
    and c: "c \<in> set (ws_cookies resp)" and v: "map_of (wr_cookies r2) ''cf_session'' = Some (ck_value c)"
    and t: "clock_at (ww_db w2) (stmt_ctr (ww_db w2)) \<le> clock_at (ww_db w) (stmt_ctr (ww_db w)) + 600 * second"
    and e: "int64_range ((clock_at (ww_db w) (stmt_ctr (ww_db w)) + 600 * second) div second)"
  shows "\<exists>claims. sc_role claims = ''state'' \<and> RequireSession deps h r2 w2 = h claims r2 w2 \<and>
     RequireRole deps ''admin'' h r2 w2 = (Inl (writeErr 403 ''admin role required'' ''forbidden''), w2)"
proof -
  let ?t = "clock_at (ww_db w) (stmt_ctr (ww_db w))"
  obtain b where s: "SignSession (wd_libs deps) ?t \<lparr>sc_login = url64_encode b, sc_role = ''state'', sc_exp = 0\<rparr>
      (wd_master_key deps) (600 * second) = Inr (ck_value c)"
    using l c by (auto simp: serve_def oauth_login_def SignOAuthState_def rand_Read_def web_now_def sx_defs http_Error_def
        with_cookies_def redirect_def state_cookie_def split: option.splits sum.splits prod.splits)
  have "\<not> (?t + 600 * second) div second < clock_at (ww_db w2) (stmt_ctr (ww_db w2)) div second"
    using t by (simp add: not_less zdiv_mono1 second_def)
  then have "\<exists>claims. sc_role claims = ''state'' \<and>
      VerifySession (wd_libs deps) (clock_at (ww_db w2) (stmt_ctr (ww_db w2))) (ck_value c) (wd_master_key deps) = Inr claims"
    using VerifySession_signed [OF L s e] by (simp add: json_text_ascii ascii_def)
  then show ?thesis using v by (auto simp: RequireSession_def RequireRole_def web_now_def bind_def)
qed

theorem visitor_state_is_session_witness:
  "let resp = fst (serve (oauth_login sample_web_deps (sample_request [])) (sample_web [])) in
   \<exists>claims. sc_role claims = ''state'' \<and>
     RequireSession sample_web_deps meHandler (sample_request [(''cf_session'', ck_value (hd (ws_cookies resp)))]) (sample_web []) =
     meHandler claims (sample_request [(''cf_session'', ck_value (hd (ws_cookies resp)))]) (sample_web [])"
proof -
  obtain resp w' where l: "serve (oauth_login sample_web_deps (sample_request [])) (sample_web []) = (resp, w')" by fastforce
  have "ws_cookies resp \<noteq> []"
    using l by (auto simp: serve_def oauth_login_def SignOAuthState_def rand_Read_def web_now_def sx_defs sample_web_deps_def
        with_cookies_def sample_web_def SignSession_def Let_def)
  then have c: "hd (ws_cookies resp) \<in> set (ws_cookies resp)" by simp
  show ?thesis
    unfolding l using visitor_state_is_session [OF _ l c, where h = meHandler
        and ?r2.0 = "sample_request [(''cf_session'', ck_value (hd (ws_cookies resp)))]" and ?w2.0 = "sample_web []"]
    by (auto simp: sample_web_deps_def sample_session_json_ok sample_request_def sample_web_def sample_world_def second_def int64_range_def)
qed

section \<open>Login\<close>

lemma on_db_users: "ww_users (snd (on_db m w)) = ww_users w"
  by (simp add: snd_on_db)

lemma GetFirstOrganization_users:
  "GetFirstOrganization w = (res, w') \<Longrightarrow> ww_users w' = ww_users w"
  by (rule web_stmt_cases [of "\<lambda>w. case sort_key og_created_at (ww_orgs w) of [] \<Rightarrow> (Inl ErrNoRows, w) | o' # _ \<Rightarrow> (Inr o', w)" w])
     (auto simp: GetFirstOrganization_def split: list.splits)

lemma GetUserRole_found:
  assumes "GetUserRole org login w = (Inr role, w')"
  shows "\<exists>u. u \<in> set (ww_users w) \<and> usr_org_id u = org \<and> citext_eq (usr_login u) login \<and> role = usr_role u"
proof (rule web_stmt_cases [of "\<lambda>w. case find (user_key org login) (ww_users w) of None \<Rightarrow> (Inl ErrNoRows, w) | Some u \<Rightarrow> (Inr (usr_role u), w)" w])
qed (use assms in \<open>auto simp: GetUserRole_def user_key_def dest!: find_member split: option.splits\<close>)

lemma serve_adding: "serve (adding_cookies cs m) w = (with_cookies cs (fst (serve m w)), snd (serve m w))"
  by (simp add: adding_cookies_def serve_def sx_defs split: prod.split sum.split)

lemma complete_login_session:
  assumes m: "serve (complete_login deps r login) w = (resp, w')" and c: "c \<in> set (ws_cookies resp)" "ck_name c = ''cf_session''"
  shows "\<exists>u t. u \<in> set (ww_users w) \<and> citext_eq (usr_login u) login \<and>
     SignSession (wd_libs deps) t \<lparr>sc_login = login, sc_role = usr_role u, sc_exp = 0\<rparr> (wd_master_key deps) sessionDuration = Inr (ck_value c)"
proof -
  have q: "wd_queries deps"
    using m c by (auto simp: serve_def complete_login_def org_of_callback_def resolveRole_def http_Error_def split: if_splits)
  obtain org w1 where g: "GetFirstOrganization w = (Inr org, w1)"
    using m c q by (cases "GetFirstOrganization w", cases "fst (GetFirstOrganization w)")
       (auto simp: serve_def complete_login_def org_of_callback_def bind_def map_err_def http_Error_def)
  obtain role w2 where k: "GetUserRole (og_id org) login w1 = (Inr role, w2)"
    using m c q g by (cases "GetUserRole (og_id org) login w1", cases "fst (GetUserRole (og_id org) login w1)")
       (auto simp: serve_def complete_login_def org_of_callback_def resolveRole_def sx_defs http_Error_def split: if_splits)
  let ?sign = "\<lambda>t. SignSession (wd_libs deps) t \<lparr>sc_login = login, sc_role = role, sc_exp = 0\<rparr> (wd_master_key deps) sessionDuration"
  obtain w3 where u: "attempt (UpsertUserOnLogin (og_id org) login role) w2 = (Inr (fst (UpsertUserOnLogin (og_id org) login role w2)), w3)"
    by (simp add: attempt_apply)
  have "?sign (clock_at (ww_db w3) (stmt_ctr (ww_db w3))) = Inr (ck_value c)"
    using m c q g k u by (cases "?sign (clock_at (ww_db w3) (stmt_ctr (ww_db w3)))"; cases "NewCSRFToken w3"; cases "fst (NewCSRFToken w3)")
      (auto simp: serve_def complete_login_def org_of_callback_def resolveRole_def http_Error_def web_now_def map_err_def
        attempt_apply bind_def with_cookies_def redirect_def session_cookie_def csrf_cookie_def split: if_splits)
  then show ?thesis using GetUserRole_found [OF k] GetFirstOrganization_users [OF g] by auto
qed

text \<open>
  The OAuth callback issues a session cookie only for a login that GitHub reported for the
  code of the request, only when the state of the request is the one in the visitor's cookie
  and verifies, and only with the role that the users table gives that login.
\<close>

theorem callback_session_of_user:
  assumes m: "serve (oauth_callback deps r) w = (resp, w')" and c: "c \<in> set (ws_cookies resp)" "ck_name c = ''cf_session''"
  shows "\<exists>tok login u t claims. exchangeCode deps (query_get ''code'' r) = Some tok \<and> fetchLogin deps tok = Some login \<and>
     u \<in> set (ww_users w) \<and> citext_eq (usr_login u) login \<and>
     SignSession (wd_libs deps) t \<lparr>sc_login = login, sc_role = usr_role u, sc_exp = 0\<rparr> (wd_master_key deps) sessionDuration = Inr (ck_value c) \<and>
     map_of (wr_cookies r) ''oauth_state'' = Some (query_get ''state'' r) \<and>
     VerifySession (wd_libs deps) (clock_at (ww_db w) (stmt_ctr (ww_db w))) (query_get ''state'' r) (wd_master_key deps) = Inr claims"
proof -
  let ?state = "query_get ''state'' r" and ?now = "clock_at (ww_db w) (stmt_ctr (ww_db w))"
  obtain state where st: "map_of (wr_cookies r) ''oauth_state'' = Some state"
    using m c by (auto simp: oauth_callback_def serve_def http_Error_def split: option.splits)
  let ?resp1 = "fst (serve (checked_login deps r state) w)"
  have "c \<in> set (ws_cookies ?resp1)"
    using m c st by (auto simp: oauth_callback_def serve_adding with_cookies_def expired_cookie_def)
  moreover then have eq: "state = ?state" by (auto simp: checked_login_def serve_def http_Error_def split: if_splits)
  moreover obtain claims where v: "VerifySession (wd_libs deps) ?now ?state (wd_master_key deps) = Inr claims"
    using calculation by (cases "VerifySession (wd_libs deps) ?now ?state (wd_master_key deps)")
      (auto simp: checked_login_def serve_def http_Error_def web_now_def bind_def)
  moreover obtain tok where t: "exchangeCode deps (query_get ''code'' r) = Some tok"
    using calculation by (cases "exchangeCode deps (query_get ''code'' r)")
      (auto simp: checked_login_def serve_def http_Error_def web_now_def bind_def)
  moreover obtain login where l: "fetchLogin deps tok = Some login"
    using calculation by (cases "fetchLogin deps tok")
      (auto simp: checked_login_def serve_def http_Error_def web_now_def bind_def)
  ultimately have "c \<in> set (ws_cookies (fst (serve (complete_login deps r login) w)))"
    by (simp add: checked_login_def serve_def web_now_def bind_def)
  from complete_login_session [OF prod.collapse [symmetric] this c(2)] show ?thesis
    using st eq v t l by blast
qed

lemma sample_document: "int64_range (sc_exp c) \<Longrightarrow> sample_unmarshal (sample_marshal (session_json c)) = Some (json_clean (session_json c))"
  using sample_session_json_ok by (simp add: session_json_ok_def sample_web_libs_def)

lemma sample_github:
  "exchangeCode sample_web_deps code = Some []" "fetchLogin sample_web_deps tok = Some ''Ann''"
  using sample_document [of "\<lparr>sc_login = ''Ann'', sc_role = [], sc_exp = 0\<rparr>"]
    sample_document [of "\<lparr>sc_login = [], sc_role = [], sc_exp = 0\<rparr>"]
  by (simp_all add: exchangeCode_def fetchLogin_def sample_web_deps_def sample_web_libs_def struct_fields_def session_json_def
      int64_range_def str_in_def as_str_def json_text_ascii ascii_def to_lower_def lower_char_def sample_marshal_def)

lemma sample_same_login: "citext_eq ''ann'' ''Ann''"
  by code_simp

lemma sample_login:
  "\<exists>c \<in> set (ws_cookies (fst (serve (complete_login sample_web_deps r ''Ann'') (sample_web [sample_user 5 ''ann'' ''admin''])))). ck_name c = ''cf_session''"
  by (simp add: complete_login_def org_of_callback_def resolveRole_def GetFirstOrganization_def GetUserRole_def UpsertUserOnLogin_def
      sample_web_def sample_world_def sample_user_def web_stmt_def on_db_def stmt_def sx_defs serve_def web_now_def sample_web_deps_def
      user_key_def sample_same_login SignSession_def Let_def NewCSRFToken_def rand_Read_def with_cookies_def
      session_cookie_def)

theorem callback_session_of_user_witness:
  "let state = projr (SignSession sample_web_libs 0 \<lparr>sc_login = ''n'', sc_role = ''state'', sc_exp = 0\<rparr> ''key'' (600 * second));
       resp = fst (serve (oauth_callback sample_web_deps (sample_request [(''oauth_state'', state)])) (sample_web [sample_user 5 ''ann'' ''admin'']))
   in \<exists>c \<in> set (ws_cookies resp). ck_name c = ''cf_session'' \<and>
      (\<exists>login t. citext_eq ''ann'' login \<and>
       SignSession sample_web_libs t \<lparr>sc_login = login, sc_role = ''admin'', sc_exp = 0\<rparr> ''key'' sessionDuration = Inr (ck_value c))"
proof -
  define state where "state = projr (SignSession sample_web_libs 0 \<lparr>sc_login = ''n'', sc_role = ''state'', sc_exp = 0\<rparr> ''key'' (600 * second))"
  let ?m = "oauth_callback sample_web_deps (sample_request [(''oauth_state'', state)])" and ?w = "sample_web [sample_user 5 ''ann'' ''admin'']"
  let ?cs = "ws_cookies (fst (serve ?m ?w))"
  have v: "VerifySession sample_web_libs second state ''key'' = Inr \<lparr>sc_login = ''n'', sc_role = ''state'', sc_exp = 600\<rparr>"
    unfolding state_def by (subst VerifySession_signed [OF sample_session_json_ok, of 0 "\<lparr>sc_login = ''n'', sc_role = ''state'', sc_exp = 0\<rparr>" "''key''" "600 * second"])
      (simp_all add: SignSession_def Let_def second_def int64_range_def json_text_ascii ascii_def)
  have f: "wd_libs sample_web_deps = sample_web_libs" "wd_master_key sample_web_deps = ''key''"
      "query_get ''state'' (sample_request [(''oauth_state'', state)]) = state"
      "map_of (wr_cookies (sample_request [(''oauth_state'', state)])) ''oauth_state'' = Some state"
      "clock_at (ww_db ?w) (stmt_ctr (ww_db ?w)) = second"
    by (simp_all add: sample_web_deps_def sample_request_def query_get_def lookup_or_empty_def sample_web_def sample_world_def)
  then have "checked_login sample_web_deps (sample_request [(''oauth_state'', state)]) state ?w =
      complete_login sample_web_deps (sample_request [(''oauth_state'', state)]) ''Ann'' ?w"
    using v by (simp add: checked_login_def web_now_def bind_def sample_github)
  then have "fst (serve ?m ?w) = with_cookies [expired_cookie ''oauth_state'']
      (fst (serve (complete_login sample_web_deps (sample_request [(''oauth_state'', state)]) ''Ann'') ?w))"
    using f by (simp add: oauth_callback_def serve_adding) (simp add: serve_def)
  then obtain c where c: "c \<in> set ?cs" "ck_name c = ''cf_session''"
    using sample_login [of "sample_request [(''oauth_state'', state)]"] by (auto simp: serve_adding with_cookies_def)
  from callback_session_of_user [OF prod.collapse [symmetric] c] show ?thesis
    unfolding Let_def state_def [symmetric] using c
    by (intro bexI [OF _ c(1)]) (auto simp: sample_web_def sample_user_def sample_web_deps_def)
qed

end
