(* ===== verification/Csrf.thy ===== *)
theory Csrf
  imports Session Redact
begin

text \<open>
  The CSRF middleware (internal/webapi/csrf.go): a double-submit cookie and a comparison of
  origins on every method that is not safe. Host names are compared in lower case, of ASCII
  letters here.
\<close>

definition url_split_host_port :: "string \<Rightarrow> string \<times> string" where
  "url_split_host_port hp =
     (let (host, port) = (case from_last (CHR '':'') hp of
            Some p \<Rightarrow> if valid_port p then (take (length hp - length p) hp, tl p) else (hp, [])
          | None \<Rightarrow> (hp, []))
      in (if has_prefix host ''['' \<and> has_suffix host '']'' then butlast (tl host) else host, port))"

text \<open>The scheme and host that url.Parse finds; both are empty unless the URL has an authority.\<close>

definition parse_origin :: "string \<Rightarrow> (string \<times> string) option" where
  "parse_origin s = (case cut_at (CHR ''#'') s of (u, frag) \<Rightarrow>
     if unescape_ok (\<lambda>_. True) (\<lambda>_. True) frag
     then map_option (\<lambda>(scheme, host). (scheme, pct_decode host)) (ParseRequestURI u) else None)"

definition normalizeOrigin :: "string \<Rightarrow> string option" where
  "normalizeOrigin s = (case parse_origin s of
       None \<Rightarrow> None
     | Some (scheme, hp) \<Rightarrow>
       if scheme = [] \<or> hp = [] then None
       else case url_split_host_port hp of (h, port) \<Rightarrow>
         let host = to_lower h in
         if port = [] \<or> (scheme = ''http'' \<and> port = ''80'') \<or> (scheme = ''https'' \<and> port = ''443'')
         then Some (scheme @ ''://'' @ host) else Some (scheme @ ''://'' @ host @ '':'' @ port))"

definition checkOrigin :: "web_request \<Rightarrow> string \<Rightarrow> string \<times> bool" where
  "checkOrigin r allowed = (case normalizeOrigin allowed of
       None \<Rightarrow> (''origin mismatch'', False)
     | Some want \<Rightarrow>
       let origin = header ''Origin'' r; ref = header ''Referer'' r in
       if origin = [] \<and> ref = [] then (''origin missing'', False)
       else case normalizeOrigin (if origin = [] then ref else origin) of
         None \<Rightarrow> (''origin missing'', False)
       | Some got \<Rightarrow> if got \<noteq> want then (''origin mismatch'', False) else ([], True))"

definition csrfReject :: "string \<Rightarrow> web_response" where
  "csrfReject reason = writeJSON 403 (JObj [(''error'', JStr reason)])"

definition CSRF :: "string \<Rightarrow> (web_request \<Rightarrow> ('s, web_response, 'a) sx) \<Rightarrow> web_request \<Rightarrow> ('s, web_response, 'a) sx" where
  "CSRF allowedOrigin next r =
     (if wr_method r = ''GET'' \<or> wr_method r = ''HEAD'' \<or> wr_method r = ''OPTIONS'' then next r
      else case map_of (wr_cookies r) ''cf_csrf'' of
        None \<Rightarrow> throw (csrfReject ''csrf cookie missing'')
      | Some cookie \<Rightarrow>
        if cookie = [] then throw (csrfReject ''csrf cookie missing'')
        else if header ''X-CSRF-Token'' r = [] then throw (csrfReject ''csrf header missing'')
        else if cookie \<noteq> header ''X-CSRF-Token'' r then throw (csrfReject ''csrf mismatch'')
        else if allowedOrigin \<noteq> [] then
          (case checkOrigin r allowedOrigin of (reason, ok) \<Rightarrow> if ok then next r else throw (csrfReject reason))
        else next r)"

section \<open>What passes\<close>

text \<open>
  The contract of the middleware: the token was submitted twice, and the origin of the request,
  its Referer when it sends no Origin, is the allowed one when there is one.
\<close>

definition safe_method :: "string \<Rightarrow> bool" where
  "safe_method m \<longleftrightarrow> m \<in> {''GET'', ''HEAD'', ''OPTIONS''}"

definition request_origin :: "web_request \<Rightarrow> string" where
  "request_origin r = (if header ''Origin'' r = [] then header ''Referer'' r else header ''Origin'' r)"

definition csrf_ok :: "string \<Rightarrow> web_request \<Rightarrow> bool" where
  "csrf_ok allowed r \<longleftrightarrow> safe_method (wr_method r) \<or>
     (header ''X-CSRF-Token'' r \<noteq> [] \<and> map_of (wr_cookies r) ''cf_csrf'' = Some (header ''X-CSRF-Token'' r) \<and>
      (allowed \<noteq> [] \<longrightarrow> normalizeOrigin allowed \<noteq> None \<and> normalizeOrigin (request_origin r) = normalizeOrigin allowed))"

lemma normalizeOrigin_empty: "normalizeOrigin [] = None"
  by (simp add: normalizeOrigin_def parse_origin_def cut_at_def ParseRequestURI_def)

lemma checkOrigin_ok:
  "snd (checkOrigin r allowed) \<longleftrightarrow>
     normalizeOrigin allowed \<noteq> None \<and> normalizeOrigin (request_origin r) = normalizeOrigin allowed"
  by (auto simp: checkOrigin_def request_origin_def Let_def normalizeOrigin_empty split: option.splits if_splits)

lemma CSRF_cases:
  "CSRF allowed h r w = (if csrf_ok allowed r then h r w else
     (Inl (csrfReject (case CSRF allowed h r w of (Inl resp, _) \<Rightarrow> (case ws_body resp of JsonBody (JObj [(_, JStr e)]) \<Rightarrow> e | _ \<Rightarrow> []) | _ \<Rightarrow> [])), w))"
proof (cases "snd (checkOrigin r allowed)")
  case True
  then show ?thesis using checkOrigin_ok [of r allowed]
    by (auto simp: CSRF_def csrf_ok_def safe_method_def csrfReject_def writeJSON_def split: option.splits prod.splits)
next
  case False
  then show ?thesis using checkOrigin_ok [of r allowed]
    by (auto simp: CSRF_def csrf_ok_def safe_method_def csrfReject_def writeJSON_def split: option.splits prod.splits)
qed

end
