(* ===== verification/Ratelimit.thy ===== *)
theory Ratelimit
  imports Session
begin

text \<open>
  Rate limiting (internal/webapi/ratelimit.go). The token bucket and the LRU cache are
  third-party packages and parameters here, of arbitrary state types. The cap on concurrent
  streams is a counter per client that is only changed by atomic additions, and any number of
  requests interleave between them: they are the steps of a relation.
\<close>

section \<open>Clients\<close>

definition clientIP :: "web_request \<Rightarrow> bool \<Rightarrow> string" where
  "clientIP r trustProxy =
     (let xff = header ''X-Forwarded-For'' r;
          leftmost = TrimSpace (fst (cut_at (CHR '','') xff)) in
      if trustProxy \<and> xff \<noteq> [] \<and> leftmost \<noteq> [] then leftmost
      else case SplitHostPort (wr_remote_addr r) of Some (host, _) \<Rightarrow> host | None \<Rightarrow> wr_remote_addr r)"

section \<open>Token buckets\<close>

text \<open>
  \<open>ll_allow\<close> is Limiter.Allow, which takes a token when there is one; \<open>ll_get\<close> and \<open>ll_add\<close>
  are the cache, whose Get also records the use.
\<close>

record ('l, 'c) limiter_lib =
  ll_new :: "int \<Rightarrow> int \<Rightarrow> 'l"
  ll_allow :: "time \<Rightarrow> 'l \<Rightarrow> bool \<times> 'l"
  ll_cache :: "int \<Rightarrow> 'c"
  ll_get :: "'c \<Rightarrow> string \<Rightarrow> 'l option \<times> 'c"
  ll_add :: "'c \<Rightarrow> string \<Rightarrow> 'l \<Rightarrow> 'c"

record 'c group_bucket =
  gb_rpm :: int
  gb_burst :: int
  gb_lru :: 'c

definition burst_of :: "int \<Rightarrow> int" where
  "burst_of rpm = (if rpm div 6 < 3 then 3 else rpm div 6)"

definition new_group :: "('l, 'c) limiter_lib \<Rightarrow> int \<Rightarrow> int \<Rightarrow> 'c group_bucket option" where
  "new_group lib cap rpm = (if rpm \<le> 0 then None
     else Some \<lparr>gb_rpm = rpm, gb_burst = burst_of rpm, gb_lru = ll_cache lib cap\<rparr>)"

definition NewRateLimiter :: "('l, 'c) limiter_lib \<Rightarrow> rate_config \<Rightarrow> (string \<times> 'c group_bucket option) list" where
  "NewRateLimiter lib cfg = (let lru = (if rl_lru_size cfg < 1 then 4096 else rl_lru_size cfg) in
     map (\<lambda>(name, rpm). (name, new_group lib lru rpm))
       [(''api'', rl_api_rpm cfg), (''oauth'', rl_oauth_rpm cfg), (''webhook'', rl_webhook_rpm cfg)])"

definition limiterFor :: "('l, 'c) limiter_lib \<Rightarrow> 'c group_bucket \<Rightarrow> string \<Rightarrow> 'l \<times> 'c group_bucket" where
  "limiterFor lib b ip = (case ll_get lib (gb_lru b) ip of
       (Some lim, c) \<Rightarrow> (lim, b\<lparr>gb_lru := c\<rparr>)
     | (None, c) \<Rightarrow> (let lim = ll_new lib (gb_rpm b) (gb_burst b) in (lim, b\<lparr>gb_lru := ll_add lib c ip lim\<rparr>)))"

definition rejectRateLimit :: "string \<Rightarrow> web_response" where
  "rejectRateLimit retryAfter = (writeJSON 429 (JObj [(''error'', JStr ''rate limited'')]))
     \<lparr>ws_headers := [(''Content-Type'', ''application/json''), (''Retry-After'', retryAfter)]\<rparr>"

text \<open>
  The cache holds a pointer, so taking a token updates the cached limiter; the model writes it
  back. A handler is let through or answered with 429.
\<close>

definition group_allow :: "('l, 'c) limiter_lib \<Rightarrow> time \<Rightarrow> 'c group_bucket \<Rightarrow> string \<Rightarrow> bool \<times> 'c group_bucket" where
  "group_allow lib now b ip = (case limiterFor lib b ip of (lim, b') \<Rightarrow>
     case ll_allow lib now lim of (ok, lim') \<Rightarrow> (ok, b'\<lparr>gb_lru := ll_add lib (gb_lru b') ip lim'\<rparr>))"

definition Group :: "('l, 'c) limiter_lib \<Rightarrow> rate_config \<Rightarrow> time \<Rightarrow> 'c group_bucket option \<Rightarrow> web_request \<Rightarrow>
    web_response option \<times> 'c group_bucket option" where
  "Group lib cfg now g r = (if rl_disabled cfg then (None, g) else case g of
       None \<Rightarrow> (None, None)
     | Some b \<Rightarrow> (case group_allow lib now b (clientIP r (rl_trust_proxy cfg)) of (ok, b') \<Rightarrow>
         (if ok then None else Some (rejectRateLimit ''1''), Some b')))"

section \<open>Concurrent streams\<close>

datatype sse_phase = Arriving | Refused | Streaming | Gone

record sse_state =
  ss_count :: "string \<Rightarrow> int"
  ss_phase :: "nat \<Rightarrow> sse_phase"

definition sse_disabled :: "rate_config \<Rightarrow> bool" where
  "sse_disabled cfg \<longleftrightarrow> rl_disabled cfg \<or> rl_sse_max_concurrent cfg \<le> 0"

text \<open>
  The atomic actions of the middleware: the addition of one with the test of the value it
  returns, and the subtraction of one, by a request that is turned away or whose handler has
  returned.
\<close>

definition sse_enter :: "int \<Rightarrow> string \<Rightarrow> nat \<Rightarrow> sse_state \<Rightarrow> sse_state" where
  "sse_enter cap ip i st = (let v = ss_count st ip + 1 in
     st\<lparr>ss_count := (ss_count st)(ip := v), ss_phase := (ss_phase st)(i := if v > cap then Refused else Streaming)\<rparr>)"

definition sse_leave :: "string \<Rightarrow> nat \<Rightarrow> sse_state \<Rightarrow> sse_state" where
  "sse_leave ip i st = st\<lparr>ss_count := (ss_count st)(ip := ss_count st ip - 1), ss_phase := (ss_phase st)(i := Gone)\<rparr>"

inductive sse_step :: "int \<Rightarrow> (nat \<Rightarrow> string) \<Rightarrow> sse_state \<Rightarrow> sse_state \<Rightarrow> bool" for cap ip where
  enter: "ss_phase st i = Arriving \<Longrightarrow> sse_step cap ip st (sse_enter cap (ip i) i st)"
| refuse: "ss_phase st i = Refused \<Longrightarrow> sse_step cap ip st (sse_leave (ip i) i st)"
| finish: "ss_phase st i = Streaming \<Longrightarrow> sse_step cap ip st (sse_leave (ip i) i st)"

inductive_cases sse_stepE: "sse_step cap ip st st'"

definition sse_start :: sse_state where
  "sse_start = \<lparr>ss_count = (\<lambda>_. 0), ss_phase = (\<lambda>_. Arriving)\<rparr>"

definition live :: "(nat \<Rightarrow> string) \<Rightarrow> sse_state \<Rightarrow> string \<Rightarrow> nat set" where
  "live ip st a = {i. ip i = a \<and> (ss_phase st i = Refused \<or> ss_phase st i = Streaming)}"

definition streams :: "(nat \<Rightarrow> string) \<Rightarrow> sse_state \<Rightarrow> string \<Rightarrow> nat set" where
  "streams ip st a = {i. ip i = a \<and> ss_phase st i = Streaming}"

definition sse_inv :: "int \<Rightarrow> (nat \<Rightarrow> string) \<Rightarrow> sse_state \<Rightarrow> bool" where
  "sse_inv cap ip st \<longleftrightarrow> (\<forall>a. finite (live ip st a) \<and> ss_count st a = int (card (live ip st a)) \<and>
     int (card (streams ip st a)) \<le> max 0 cap)"

lemma streams_live: "streams ip st a \<subseteq> live ip st a"
  by (auto simp: streams_def live_def)

lemma count_enter: "ss_count (sse_enter cap b i st) a = ss_count st a + (if a = b then 1 else 0)"
  by (simp add: sse_enter_def Let_def)

lemma count_leave: "ss_count (sse_leave b i st) a = ss_count st a - (if a = b then 1 else 0)"
  by (simp add: sse_leave_def)

lemma live_enter: "ss_phase st i = Arriving \<Longrightarrow>
   live ip (sse_enter cap (ip i) i st) a = (if a = ip i then insert i (live ip st a) else live ip st a)"
  by (auto simp: live_def sse_enter_def Let_def)

lemma streams_enter: "ss_phase st i = Arriving \<Longrightarrow>
   streams ip (sse_enter cap (ip i) i st) a =
     (if a = ip i \<and> ss_count st a + 1 \<le> cap then insert i (streams ip st a) else streams ip st a)"
  by (auto simp: streams_def sse_enter_def Let_def)

lemma live_leave: "live ip (sse_leave (ip i) i st) a = live ip st a - {i}"
  by (auto simp: live_def sse_leave_def)

lemma streams_leave: "streams ip (sse_leave (ip i) i st) a = streams ip st a - {i}"
  by (auto simp: streams_def sse_leave_def)

lemma sse_inv_enter:
  assumes I: "sse_inv cap ip st" and i: "ss_phase st i = Arriving"
  shows "sse_inv cap ip (sse_enter cap (ip i) i st)"
  unfolding sse_inv_def
proof (intro allI conjI)
  fix a
  have fin: "finite (live ip st a)" "finite (streams ip st a)" and le: "card (streams ip st a) \<le> card (live ip st a)"
    using I streams_live [of ip st a] by (auto simp: sse_inv_def intro: finite_subset card_mono)
  have new: "i \<notin> live ip st a" "i \<notin> streams ip st a" using i by (auto simp: live_def streams_def)
  show "finite (live ip (sse_enter cap (ip i) i st) a)" using fin by (auto simp: live_enter [OF i])
  show "ss_count (sse_enter cap (ip i) i st) a = int (card (live ip (sse_enter cap (ip i) i st) a))"
    using I fin new by (auto simp: live_enter [OF i] sse_inv_def count_enter)
  show "int (card (streams ip (sse_enter cap (ip i) i st) a)) \<le> max 0 cap"
    using I fin new le by (auto simp: streams_enter [OF i] sse_inv_def)
qed

lemma sse_inv_leave:
  assumes I: "sse_inv cap ip st" and i: "ss_phase st i = Refused \<or> ss_phase st i = Streaming"
  shows "sse_inv cap ip (sse_leave (ip i) i st)"
  unfolding sse_inv_def
proof (intro allI conjI)
  fix a
  have fin: "finite (live ip st a)" "finite (streams ip st a)"
    using I streams_live [of ip st a] by (auto simp: sse_inv_def intro: finite_subset)
  have old: "i \<in> live ip st a \<longleftrightarrow> a = ip i" using i by (auto simp: live_def)
  show "finite (live ip (sse_leave (ip i) i st) a)" using fin by (simp add: live_leave)
  show "ss_count (sse_leave (ip i) i st) a = int (card (live ip (sse_leave (ip i) i st) a))"
  proof (cases "a = ip i")
    case True
    then have "card (live ip st a) = Suc (card (live ip st a - {i}))" using fin old by (metis card.remove)
    then show ?thesis using I True by (simp add: live_leave count_leave sse_inv_def)
  qed (use I old in \<open>simp add: live_leave count_leave sse_inv_def\<close>)
  have "card (streams ip st a - {i}) \<le> card (streams ip st a)" using fin by (simp add: card_mono)
  then show "int (card (streams ip (sse_leave (ip i) i st) a)) \<le> max 0 cap"
    using I by (simp add: streams_leave sse_inv_def) (meson dual_order.trans of_nat_mono)
qed

lemma sse_inv_step: "sse_step cap ip st st' \<Longrightarrow> sse_inv cap ip st \<Longrightarrow> sse_inv cap ip st'"
  by (erule sse_stepE) (auto intro: sse_inv_enter sse_inv_leave)

lemma sse_inv_reach:
  "(sse_step cap ip)\<^sup>*\<^sup>* st st' \<Longrightarrow> sse_inv cap ip st \<Longrightarrow> sse_inv cap ip st'"
  by (induction rule: rtranclp_induct) (auto intro: sse_inv_step)

lemma sse_inv_start: "sse_inv cap ip sse_start"
  by (simp add: sse_inv_def sse_start_def live_def streams_def)

text \<open>
  However requests interleave between the atomic additions, a client never has more streams
  open than the configured cap, and its counter is the number of its requests between the
  two additions, so it is zero again whenever none of them is in flight.
\<close>

theorem sse_cap_held:
  assumes "(sse_step cap ip)\<^sup>*\<^sup>* sse_start st" and "0 < cap"
  shows "int (card (streams ip st a)) \<le> cap \<and> (live ip st a = {} \<longrightarrow> ss_count st a = 0)"
  using sse_inv_reach [OF assms(1) sse_inv_start] assms(2) by (auto simp: sse_inv_def max_def)

theorem sse_cap_held_witness:
  "let st = sse_enter 1 ''ip'' 1 (sse_enter 1 ''ip'' 0 sse_start) in
   ss_phase st 0 = Streaming \<and> ss_phase st 1 = Refused \<and> int (card (streams (\<lambda>_. ''ip'') st ''ip'')) \<le> 1"
proof -
  let ?st = "sse_enter 1 ''ip'' 1 (sse_enter 1 ''ip'' 0 sse_start)"
  have "(sse_step 1 (\<lambda>_. ''ip''))\<^sup>*\<^sup>* sse_start ?st"
    using sse_step.enter [of sse_start 0 1 "\<lambda>_. ''ip''"] sse_step.enter [of "sse_enter 1 ''ip'' 0 sse_start" 1 1 "\<lambda>_. ''ip''"]
    by (auto simp: sse_start_def sse_enter_def Let_def intro: rtranclp.intros)
  from sse_cap_held [OF this, of "''ip''"] show ?thesis
    by (simp add: Let_def) (simp add: sse_enter_def sse_start_def)
qed

end
