(* ===== verification/Web_Users.thy ===== *)
theory Web_Users
  imports Session Session_Claims
begin

text \<open>
  The user administration of the web API (internal/webapi/users.go). The update of a role is a
  check followed by a blind UPDATE, and the two are separate definitions because other
  requests can run between them.
\<close>

section \<open>Handlers\<close>

definition toUserDTO :: "user_row \<Rightarrow> json" where
  "toUserDTO u = JObj ([(''login'', JStr (usr_login u)), (''role'', JStr (usr_role u)),
     (''created_at'', JStr (format_rfc3339 (usr_created_at u)))] @
     (case usr_last_login_at u of None \<Rightarrow> [] | Some t \<Rightarrow> [(''last_login_at'', JStr (format_rfc3339 t))]))"

definition validRole :: "string \<Rightarrow> bool" where
  "validRole role \<longleftrightarrow> role = ''admin'' \<or> role = ''viewer''"

definition users_list :: "web_deps \<Rightarrow> session_claims \<Rightarrow> web_handler" where
  "users_list deps claims r =
     bind (load_org ''failed to load org'') (\<lambda>org.
     bind (map_err (\<lambda>_. writeErr 500 ''failed to list users'' ''internal'') (ListUsers (og_id org))) (\<lambda>rows.
     ret (writeJSON 200 (JArr (map toUserDTO rows)))))"

definition user_request :: "web_deps \<Rightarrow> web_request \<Rightarrow> (string \<times> string) option" where
  "user_request deps r = Option.bind (wl_decode (wd_libs deps) (wr_body r)) (\<lambda>j. Option.bind (struct_fields j) (\<lambda>kvs.
     Option.bind (str_in ''login'' kvs) (\<lambda>l. Option.bind (str_in ''role'' kvs) (\<lambda>ro. Some (l, ro)))))"

definition user_entry :: "uuid \<Rightarrow> string \<Rightarrow> (string \<times> json) list \<Rightarrow> audit_entry" where
  "user_entry org action detail = \<lparr>ae_org_id = org, ae_actor = [], ae_action = action, ae_target_kind = ''user'',
     ae_target_id = None, ae_detail = Some detail\<rparr>"

definition users_create :: "web_deps \<Rightarrow> session_claims \<Rightarrow> web_handler" where
  "users_create deps claims r = (case user_request deps r of
       None \<Rightarrow> throw (writeErr 400 ''login and role (admin|viewer) are required'' ''bad_request'')
     | Some (login, role) \<Rightarrow>
       if login = [] \<or> \<not> validRole role
       then throw (writeErr 400 ''login and role (admin|viewer) are required'' ''bad_request'')
       else bind (load_org ''failed to load org'') (\<lambda>org.
         bind (map_err (\<lambda>e. if e = ErrNoRows then writeErr 409 ''user already exists'' ''conflict''
                            else writeErr 500 ''failed to create user'' ''internal'')
           (CreateUser (og_id org) login role)) (\<lambda>row.
         bind (auditLog (sc_login claims) (user_entry (og_id org) ''user.create'' [(''login'', JStr login), (''role'', JStr role)])) (\<lambda>_.
         ret (writeJSON 201 (toUserDTO row))))))"

definition role_request :: "web_deps \<Rightarrow> web_request \<Rightarrow> string option" where
  "role_request deps r = Option.bind (wl_decode (wd_libs deps) (wr_body r)) (\<lambda>j.
     Option.bind (struct_fields j) (str_in ''role''))"

definition updateRole_check :: "web_deps \<Rightarrow> web_request \<Rightarrow> (uuid \<times> string \<times> string) web_sx" where
  "updateRole_check deps r =
     (let login = path_value ''login'' r in
      if login = [] then throw (writeErr 400 ''login is required'' ''bad_request'')
      else case role_request deps r of
        None \<Rightarrow> throw (writeErr 400 ''role must be admin or viewer'' ''bad_request'')
      | Some role \<Rightarrow>
        if \<not> validRole role then throw (writeErr 400 ''role must be admin or viewer'' ''bad_request'')
        else bind (load_org ''failed to load org'') (\<lambda>org.
          bind (map_err (\<lambda>e. if e = ErrNoRows then writeErr 404 ''user not found'' ''not_found''
                             else writeErr 500 ''failed to load user'' ''internal'')
            (GetUserRole (og_id org) login)) (\<lambda>currentRole.
          if currentRole = ''admin'' \<and> role \<noteq> ''admin'' then
            bind (map_err (\<lambda>_. writeErr 500 ''failed to count admins'' ''internal'') (CountAdmins (og_id org))) (\<lambda>adminCount.
            if adminCount \<le> 1 then throw (writeErr 409 ''cannot demote the last admin'' ''last_admin'')
            else ret (og_id org, login, role))
          else ret (og_id org, login, role))))"

definition updateRole_apply :: "session_claims \<Rightarrow> uuid \<times> string \<times> string \<Rightarrow> web_response web_sx" where
  "updateRole_apply claims plan = (case plan of (org, login, role) \<Rightarrow>
     bind (map_err (\<lambda>_. writeErr 500 ''failed to update role'' ''internal'') (SetUserRole org login role)) (\<lambda>_.
     bind (auditLog (sc_login claims) (user_entry org ''user.set_role'' [(''login'', JStr login), (''role'', JStr role)])) (\<lambda>_.
     ret (bare_status 204))))"

definition updateRole :: "web_deps \<Rightarrow> session_claims \<Rightarrow> web_handler" where
  "updateRole deps claims r = bind (updateRole_check deps r) (updateRole_apply claims)"

definition users_delete :: "web_deps \<Rightarrow> session_claims \<Rightarrow> web_handler" where
  "users_delete deps claims r =
     (let login = path_value ''login'' r in
      if login = [] then throw (writeErr 400 ''login is required'' ''bad_request'')
      else if sc_login claims = login then throw (writeErr 409 ''cannot delete your own user'' ''self_delete'')
      else bind (load_org ''failed to load org'') (\<lambda>org.
        bind (map_err (\<lambda>e. if e = ErrNoRows then writeErr 404 ''user not found'' ''not_found''
                           else writeErr 500 ''failed to load user'' ''internal'')
          (GetUserRole (og_id org) login)) (\<lambda>_.
        bind (map_err (\<lambda>_. writeErr 500 ''failed to delete user'' ''internal'') (DeleteUserIfNotLast (og_id org) login)) (\<lambda>affected.
        if affected = 0 then throw (writeErr 409 ''cannot delete the last user'' ''last_user'')
        else bind (auditLog (sc_login claims) (user_entry (og_id org) ''user.delete'' [(''login'', JStr login)])) (\<lambda>_.
          ret (bare_status 204))))))"

section \<open>The users table\<close>

text \<open>The constraints of the table: one row per organization and login, roles admin or viewer.\<close>

definition user_id_key :: "user_row \<Rightarrow> uuid \<times> string" where
  "user_id_key u = (usr_org_id u, to_lower (usr_login u))"

definition users_ok :: "user_row list \<Rightarrow> bool" where
  "users_ok us \<longleftrightarrow> distinct (map user_id_key us) \<and> list_all (\<lambda>u. valid_role_column (usr_role u)) us"

lemma user_key_alt: "user_key org login u \<longleftrightarrow> user_id_key u = (org, to_lower login)"
  by (auto simp: user_key_def user_id_key_def citext_eq_def)

text \<open>What each statement does to the table, when it does not fail.\<close>

lemma web_stmt_read: "(\<And>v. ww_users (snd (f v)) = ww_users v) \<Longrightarrow> ww_users (snd (web_stmt f w)) = ww_users w"
  by (rule web_stmt_cases [of f w]) auto

lemma ListUsers_users [simp]: "ww_users (snd (ListUsers org w)) = ww_users w"
  unfolding ListUsers_def by (rule web_stmt_read) simp

lemma CountAdmins_users [simp]: "ww_users (snd (CountAdmins org w)) = ww_users w"
  unfolding CountAdmins_def by (rule web_stmt_read) simp

lemma GetUserRole_users [simp]: "ww_users (snd (GetUserRole org login w)) = ww_users w"
  unfolding GetUserRole_def by (rule web_stmt_read) (simp split: option.split)

lemma load_org_users [simp]: "ww_users (snd (load_org msg w)) = ww_users w"
  unfolding load_org_def GetFirstOrganization_def snd_map_err by (rule web_stmt_read) (simp split: list.split)

lemma auditLog_users [simp]: "ww_users (snd (auditLog actor e w)) = ww_users w"
  by (simp add: auditLog_def attempt_apply snd_on_db bind_def)

text \<open>
  The users table under the web API: its constraints hold after every handler, an organization
  never loses its last user or, by demotion, its last admin, and what the guards miss.
\<close>

section \<open>Statements keep the constraints\<close>

abbreviation table_kept :: "(user_row list \<Rightarrow> bool) \<Rightarrow> (web, 'e, 'a) sx \<Rightarrow> bool" where
  "table_kept I m \<equiv> keeps (inv_rel (\<lambda>w. I (ww_users w))) m"

abbreviation users_kept :: "(web, 'e, 'a) sx \<Rightarrow> bool" where
  "users_kept m \<equiv> table_kept users_ok m"

lemma unchanged_kept: "(\<And>w. ww_users (snd (m w)) = ww_users w) \<Longrightarrow> table_kept I m"
  by (rule keeps_inv_relI) simp

lemma stmt_kept: "(\<And>v. I (ww_users v) \<Longrightarrow> I (ww_users (snd (f v)))) \<Longrightarrow> table_kept I (web_stmt f)"
  by (rule keeps_inv_relI, rule_tac f = f and w = s in web_stmt_cases) auto

lemma users_ok_add:
  "users_ok us \<Longrightarrow> find (user_key (usr_org_id u) (usr_login u)) us = None \<Longrightarrow> valid_role_column (usr_role u) \<Longrightarrow> users_ok (us @ [u])"
  by (auto simp: users_ok_def find_None_iff user_key_alt user_id_key_def)

lemma users_ok_update:
  assumes "users_ok us" and "\<And>u. user_id_key (f u) = user_id_key u" and "\<And>u. valid_role_column (usr_role u) \<Longrightarrow> valid_role_column (usr_role (f u))"
  shows "users_ok (update_where p f us)"
proof -
  have "map user_id_key (update_where p f us) = map user_id_key us" using assms(2) by (simp add: update_where_def)
  moreover have "list_all (\<lambda>u. valid_role_column (usr_role u)) (update_where p f us)"
    using assms(1,3) by (auto simp: users_ok_def update_where_def list_all_iff)
  ultimately show ?thesis using assms(1) by (simp add: users_ok_def)
qed

lemma users_ok_filter: "users_ok us \<Longrightarrow> users_ok (filter p us)"
  by (auto simp: users_ok_def distinct_map_filter list_all_iff)

lemma id_drawn_users [simp]: "ww_users (id_drawn w) = ww_users w"
  by (simp add: id_drawn_def)

lemma CreateUser_kept: "users_kept (CreateUser org login role)"
  unfolding CreateUser_def by (rule stmt_kept) (auto simp: Let_def intro!: users_ok_add split: option.split)

lemma UpsertUserOnLogin_kept: "users_kept (UpsertUserOnLogin org login role)"
  unfolding UpsertUserOnLogin_def
  by (rule stmt_kept) (auto simp: Let_def user_id_key_def intro!: users_ok_add users_ok_update split: option.split)

lemma update_where_none: "\<not> list_ex p xs \<Longrightarrow> update_where p f xs = xs"
  by (induction xs) (auto simp: update_where_def)

lemma SetUserRole_kept: "users_kept (SetUserRole org login role)"
  unfolding SetUserRole_def
proof (rule stmt_kept)
  fix v assume ok: "users_ok (ww_users v)"
  show "users_ok (ww_users (snd (if list_ex (user_key org login) (ww_users v) \<and> \<not> valid_role_column role then (Inl ErrConstraint, v)
     else (Inr (), v\<lparr>ww_users := update_where (user_key org login) (\<lambda>u. u\<lparr>usr_role := role\<rparr>) (ww_users v)\<rparr>))))"
  proof (cases "list_ex (user_key org login) (ww_users v)")
    case True
    then show ?thesis using ok by (auto simp: user_id_key_def intro!: users_ok_update)
  qed (simp add: ok update_where_none)
qed

lemma DeleteUserIfNotLast_kept: "users_kept (DeleteUserIfNotLast org login)"
  unfolding DeleteUserIfNotLast_def by (rule stmt_kept) (simp add: users_ok_filter)

lemma reads_kept:
  "table_kept I (load_org msg)" "table_kept I (GetUserRole org login)" "table_kept I (CountAdmins org)" "table_kept I (auditLog actor e)"
  "table_kept I GetFirstOrganization" "table_kept I (rand_Read n)" "table_kept I web_now"
  by (rule unchanged_kept; simp add: rand_Read_def web_now_def)+
     (rule unchanged_kept, metis GetFirstOrganization_users prod.collapse,
      (rule unchanged_kept; simp add: rand_Read_def web_now_def)+)

lemmas users_rules = inv.keeps_rules reads_kept CreateUser_kept UpsertUserOnLogin_kept DeleteUserIfNotLast_kept

lemma create_kept: "users_kept (users_create deps claims r)"
  unfolding users_create_def by (auto split: option.split intro!: users_rules)

lemma update_kept: "users_kept (updateRole deps claims r)"
  unfolding updateRole_def updateRole_check_def updateRole_apply_def Let_def
  by (auto split: option.split prod.split intro!: users_rules SetUserRole_kept)

lemma delete_kept: "users_kept (users_delete deps claims r)"
  unfolding users_delete_def Let_def by (auto intro!: users_rules)

lemma pair_kept: "users_kept (Pair res)"
  by (rule keeps_inv_relI) simp

lemma login_kept: "users_kept (complete_login deps r login)"
  unfolding complete_login_def org_of_callback_def resolveRole_def NewCSRFToken_def
  by (auto split: sum.split intro!: users_rules pair_kept)

lemma callback_kept: "users_kept (oauth_callback deps r)"
  unfolding oauth_callback_def checked_login_def adding_cookies_def
  by (auto split: option.split sum.split intro!: users_rules login_kept)



section \<open>Admins\<close>

lemma GetUserRole_find:
  assumes "GetUserRole org login w = (Inr role, w')"
  shows "ww_users w' = ww_users w \<and> (\<exists>u. find (user_key org login) (ww_users w) = Some u \<and> role = usr_role u)"
proof (rule web_stmt_cases [of "\<lambda>w. case find (user_key org login) (ww_users w) of None \<Rightarrow> (Inl ErrNoRows, w) | Some u \<Rightarrow> (Inr (usr_role u), w)" w])
qed (use assms in \<open>auto simp: GetUserRole_def split: option.splits\<close>)

lemma CountAdmins_count: "CountAdmins org w = (Inr n, w') \<Longrightarrow> ww_users w' = ww_users w \<and> n = length (admins_of org (ww_users w))"
  by (rule web_stmt_cases [of "\<lambda>w. (Inr (length (admins_of org (ww_users w))), w)" w]) (auto simp: CountAdmins_def)

lemma load_org_same: "load_org msg w = (res, w') \<Longrightarrow> ww_users w' = ww_users w"
  using load_org_users [of msg w] by simp

lemma updateRole_check_ok:
  assumes "updateRole_check deps r w = (Inr (org, login, role), w')"
  shows "ww_users w' = ww_users w \<and> (\<exists>u. find (user_key org login) (ww_users w) = Some u \<and>
       (usr_role u = ''admin'' \<and> role \<noteq> ''admin'' \<longrightarrow> 1 < length (admins_of org (ww_users w))))"
  using assms unfolding updateRole_check_def Let_def
  by (auto simp: bind_eq_Inr_iff dest!: map_err_eq_Inr GetUserRole_find CountAdmins_count load_org_same split: if_splits option.splits)

lemma distinct_two:
  assumes "distinct (map f xs)" and "1 < length (filter P xs)"
  shows "\<exists>x \<in> set xs. P x \<and> f x \<noteq> k"
proof -
  obtain x y r where xy: "filter P xs = x # y # r"
    using assms(2) by (cases "filter P xs" rule: remdups_adj.cases) auto
  then have "f x \<noteq> f y" using assms(1) distinct_map_filter [of f xs P] by simp
  moreover have "x \<in> set xs \<and> P x \<and> y \<in> set xs \<and> P y"
  proof -
    have "x \<in> set (filter P xs)" "y \<in> set (filter P xs)" using xy by simp_all
    then show ?thesis by simp
  qed
  ultimately show ?thesis by metis
qed

text \<open>Setting a role leaves an admin when the row was no admin, stays one, or is not the only one.\<close>

lemma SetUserRole_admin:
  assumes ok: "users_ok us" and u: "find (user_key org login) us = Some u"
    and many: "usr_role u = ''admin'' \<and> role \<noteq> ''admin'' \<longrightarrow> 1 < length (admins_of org us)"
    and a: "admins_of org' us \<noteq> []"
  shows "admins_of org' (update_where (user_key org login) (\<lambda>u. u\<lparr>usr_role := role\<rparr>) us) \<noteq> []"
proof -
  have keep: "admins_of org' (update_where (user_key org login) (\<lambda>u. u\<lparr>usr_role := role\<rparr>) us) \<noteq> []"
    if "v \<in> set us" "usr_org_id v = org'" "usr_role v = ''admin''" "\<not> user_key org login v \<or> role = ''admin''" for v
  proof -
    have "(if user_key org login v then v\<lparr>usr_role := role\<rparr> else v) \<in> set (admins_of org' (update_where (user_key org login) (\<lambda>u. u\<lparr>usr_role := role\<rparr>) us))"
      using that by (auto simp: admins_of_def update_where_def)
    then show ?thesis by auto
  qed
  obtain v where v: "v \<in> set us" "usr_org_id v = org'" "usr_role v = ''admin''"
    using a by (auto simp: admins_of_def filter_empty_conv)
  have uu: "u \<in> set us" "user_key org login u" using find_member [OF u] by auto
  show ?thesis
  proof (cases "user_key org login v \<and> role \<noteq> ''admin''")
    case True
    then have "user_id_key v = user_id_key u" using uu(2) by (simp add: user_key_alt)
    then have "v = u" using ok v(1) uu(1) by (auto simp: users_ok_def distinct_map dest: inj_onD)
    then have "1 < length (filter (\<lambda>u. usr_org_id u = org \<and> usr_role u = ''admin'') us)" and "org' = org"
      using many True v by (auto simp: admins_of_def user_key_def)
    then obtain x where "x \<in> set us" "usr_org_id x = org'" "usr_role x = ''admin''" "\<not> user_key org login x"
      using ok distinct_two [of user_id_key us _ "(org, to_lower login)"] by (auto simp: users_ok_def user_key_alt)
    then show ?thesis using keep by blast
  next
    case False
    then show ?thesis using keep v by blast
  qed
qed

lemma snd_bind_users:
  "(\<And>a v. ww_users (snd (k a v)) = ww_users v) \<Longrightarrow> ww_users (snd (bind m k w)) = ww_users (snd (m w))"
  by (simp add: bind_def split: prod.split sum.split)

lemma apply_users:
  "ww_users (snd (updateRole_apply claims (org, login, role) w)) = ww_users w \<or>
   ww_users (snd (updateRole_apply claims (org, login, role) w)) =
     update_where (user_key org login) (\<lambda>u. u\<lparr>usr_role := role\<rparr>) (ww_users w)"
proof -
  let ?f = "\<lambda>w. if list_ex (user_key org login) (ww_users w) \<and> \<not> valid_role_column role then (Inl ErrConstraint, w)
     else (Inr (), w\<lparr>ww_users := update_where (user_key org login) (\<lambda>u. u\<lparr>usr_role := role\<rparr>) (ww_users w)\<rparr>)"
  have "ww_users (snd (updateRole_apply claims (org, login, role) w)) = ww_users (snd (web_stmt ?f w))"
    by (simp add: updateRole_apply_def snd_bind_users) (simp add: SetUserRole_def)
  then show ?thesis by (rule_tac f = ?f and w = w in web_stmt_cases) auto
qed

lemma check_users: "ww_users (snd (updateRole_check deps r w)) = ww_users w"
  unfolding updateRole_check_def Let_def by (auto simp: snd_bind_users split: option.split)

text \<open>
  Changing roles never takes the last admin from an organization: if it has one before the
  request it has one after it, whatever the request asks for and whichever statement fails.
\<close>

theorem demotion_keeps_admin:
  assumes ok: "users_ok (ww_users w)" and a: "admins_of org' (ww_users w) \<noteq> []"
  shows "admins_of org' (ww_users (snd (updateRole deps claims r w))) \<noteq> []"
proof (cases "updateRole_check deps r w")
  case (Pair res w')
  show ?thesis
  proof (cases res)
    case (Inl e)
    then show ?thesis using Pair a check_users [of deps r w] by (simp add: updateRole_def)
  next
    case (Inr plan)
    obtain org login role where p: "plan = (org, login, role)" by (cases plan)
    note c = updateRole_check_ok [OF Pair [unfolded Inr p]]
    then obtain u where u: "find (user_key org login) (ww_users w) = Some u"
      "usr_role u = ''admin'' \<and> role \<noteq> ''admin'' \<longrightarrow> 1 < length (admins_of org (ww_users w))" by blast
    have "snd (updateRole deps claims r w) = snd (updateRole_apply claims (org, login, role) w')"
      using Pair Inr p by (simp add: updateRole_def)
    then show ?thesis using apply_users [of claims org login role w'] SetUserRole_admin [OF ok u a] a c by auto
  qed
qed

definition patch_role :: "string \<Rightarrow> string \<Rightarrow> web_request" where
  "patch_role login role = (sample_request [])\<lparr>wr_method := ''PATCH'', wr_path := [(''login'', login)],
     wr_body := sample_marshal (session_json \<lparr>sc_login = [], sc_role = role, sc_exp = 0\<rparr>)\<rparr>"

abbreviation two_admins :: web where
  "two_admins \<equiv> sample_web [sample_user 5 ''ann'' ''admin'', sample_user 6 ''bob'' ''admin'']"

abbreviation ann :: session_claims where
  "ann \<equiv> \<lparr>sc_login = ''ann'', sc_role = ''admin'', sc_exp = 0\<rparr>"

theorem demotion_keeps_admin_witness:
  "admins_of 9 (ww_users (snd (updateRole sample_web_deps ann (patch_role ''bob'' ''viewer'') two_admins))) \<noteq> []"
  by (rule demotion_keeps_admin)
     (simp_all add: sample_web_def sample_user_def users_ok_def valid_role_column_def user_id_key_def to_lower_def lower_char_def admins_of_def)

lemma SetUserRole_done:
  assumes "SetUserRole org login role w = (Inr (), w')"
  shows "ww_users w' = update_where (user_key org login) (\<lambda>u. u\<lparr>usr_role := role\<rparr>) (ww_users w)"
proof (rule web_stmt_cases [of "\<lambda>w. if list_ex (user_key org login) (ww_users w) \<and> \<not> valid_role_column role then (Inl ErrConstraint, w)
     else (Inr (), w\<lparr>ww_users := update_where (user_key org login) (\<lambda>u. u\<lparr>usr_role := role\<rparr>) (ww_users w)\<rparr>)" w])
qed (use assms in \<open>auto simp: SetUserRole_def split: if_splits\<close>)

lemma apply_done:
  assumes "updateRole_apply claims (org, login, role) w = (Inr x, w')"
  shows "ww_users w' = update_where (user_key org login) (\<lambda>u. u\<lparr>usr_role := role\<rparr>) (ww_users w)"
proof -
  obtain w1 where s: "SetUserRole org login role w = (Inr (), w1)"
    using assms by (auto simp: updateRole_apply_def bind_eq_Inr_iff dest!: map_err_eq_Inr)
  have "ww_users w' = ww_users (snd (updateRole_apply claims (org, login, role) w))" using assms by simp
  also have "\<dots> = ww_users w1" using s by (simp add: updateRole_apply_def snd_bind_users)
  finally show ?thesis using SetUserRole_done [OF s] by simp
qed

lemma user_key_role [simp]: "user_key org login (u\<lparr>usr_role := x\<rparr>) = user_key org login u"
  by (simp add: user_key_def)

text \<open>
  The guard of the last admin is a separate statement from the update it protects. Two
  requests that demote the only two admins and both pass the check before either updates
  both succeed, and the organization is left with no admin.
\<close>

theorem demotions_race:
  assumes only: "list_all (\<lambda>u. user_key org l1 u \<or> user_key org l2 u) (admins_of org (ww_users w))"
    and c1: "updateRole_check deps r1 w = (Inr (org, l1, ''viewer''), w1)"
    and c2: "updateRole_check deps r2 w1 = (Inr (org, l2, ''viewer''), w2)"
    and a2: "updateRole_apply cl2 (org, l2, ''viewer'') w2 = (Inr x2, w3)"
    and a1: "updateRole_apply cl1 (org, l1, ''viewer'') w3 = (Inr x1, w4)"
  shows "admins_of org (ww_users w4) = []"
proof -
  have "ww_users w2 = ww_users w" using updateRole_check_ok [OF c1] updateRole_check_ok [OF c2] by simp
  define g where "g = (\<lambda>u. if user_key org l1 u \<or> user_key org l2 u then u\<lparr>usr_role := ''viewer''\<rparr> else u)"
  have "ww_users w4 = map g (ww_users w)"
    using apply_done [OF a2] apply_done [OF a1] \<open>ww_users w2 = ww_users w\<close> by (auto simp: update_where_def g_def)
  moreover have "\<not> (usr_org_id (g u) = org \<and> usr_role (g u) = ''admin'')" if "u \<in> set (ww_users w)" for u
    using that only by (cases "user_key org l1 u \<or> user_key org l2 u") (auto simp: g_def admins_of_def list_all_iff)
  ultimately show ?thesis by (simp only: admins_of_def filter_empty_conv set_map ball_simps) simp
qed

lemma patch_role_request: "role_request sample_web_deps (patch_role login ''viewer'') = Some ''viewer''"
proof -
  let ?c = "\<lparr>sc_login = [], sc_role = ''viewer'', sc_exp = 0\<rparr>"
  have "wl_decode (wd_libs sample_web_deps) (wr_body (patch_role login ''viewer'')) = Some (json_clean (session_json ?c))"
    using sample_document [of ?c] by (simp add: patch_role_def sample_web_deps_def sample_web_libs_def int64_range_def)
  then show ?thesis using session_fields [of ?c] by (auto simp: role_request_def json_text_ascii ascii_def)
qed

lemma sample_check:
  assumes "login = ''ann'' \<or> login = ''bob''" and w: "w = two_admins\<lparr>ww_db := (ww_db two_admins)\<lparr>stmt_ctr := n\<rparr>\<rparr>"
  shows "updateRole_check sample_web_deps (patch_role login ''viewer'') w =
     (Inr (9, login, ''viewer''), two_admins\<lparr>ww_db := (ww_db two_admins)\<lparr>stmt_ctr := n + 3\<rparr>\<rparr>)"
proof -
  have p: "path_value ''login'' (patch_role l ''viewer'') = l" for l
    by (simp add: path_value_def lookup_or_empty_def patch_role_def)
  have l: "to_lower ''ann'' = ''ann''" "to_lower ''bob'' = ''bob''" by code_simp+
  show ?thesis using assms(1) unfolding w
    by (elim disjE; simp add: updateRole_check_def p patch_role_request validRole_def Let_def load_org_def GetFirstOrganization_def GetUserRole_def
        CountAdmins_def web_stmt_def on_db_def stmt_def sx_defs sample_web_def sample_world_def sample_user_def user_key_def
        citext_eq_def l admins_of_def)
qed

lemma sample_apply:
  assumes w: "ww_orgs w = ww_orgs two_admins" "fault (ww_db w) = (\<lambda>_. False)"
  obtains w' where "updateRole_apply claims (org, login, ''viewer'') w = (Inr (bare_status 204), w')"
    "ww_orgs w' = ww_orgs two_admins" "fault (ww_db w') = (\<lambda>_. False)"
proof (rule that)
  show "updateRole_apply claims (org, login, ''viewer'') w = (Inr (bare_status 204), snd (updateRole_apply claims (org, login, ''viewer'') w))"
    "ww_orgs (snd (updateRole_apply claims (org, login, ''viewer'') w)) = ww_orgs two_admins"
    "fault (ww_db (snd (updateRole_apply claims (org, login, ''viewer'') w))) = (\<lambda>_. False)"
    using w by (simp_all add: updateRole_apply_def SetUserRole_def valid_role_column_def web_stmt_def on_db_def stmt_def sx_defs
        auditLog_def audit_Log_def InsertAuditLog_def)
qed

theorem demotions_race_witness:
  "\<exists>w1 w2 w3 w4 x1 x2. length (admins_of 9 (ww_users two_admins)) = 2 \<and>
     updateRole_check sample_web_deps (patch_role ''ann'' ''viewer'') two_admins = (Inr (9, ''ann'', ''viewer''), w1) \<and>
     updateRole_check sample_web_deps (patch_role ''bob'' ''viewer'') w1 = (Inr (9, ''bob'', ''viewer''), w2) \<and>
     updateRole_apply ann (9, ''bob'', ''viewer'') w2 = (Inr x2, w3) \<and>
     updateRole_apply ann (9, ''ann'', ''viewer'') w3 = (Inr x1, w4) \<and> admins_of 9 (ww_users w4) = []"
proof -
  let ?w1 = "two_admins\<lparr>ww_db := (ww_db two_admins)\<lparr>stmt_ctr := 3\<rparr>\<rparr>" and ?w2 = "two_admins\<lparr>ww_db := (ww_db two_admins)\<lparr>stmt_ctr := 6\<rparr>\<rparr>"
  have c1: "updateRole_check sample_web_deps (patch_role ''ann'' ''viewer'') two_admins = (Inr (9, ''ann'', ''viewer''), ?w1)"
    using sample_check [of "''ann''" two_admins 0] by (simp add: sample_web_def sample_world_def)
  have c2: "updateRole_check sample_web_deps (patch_role ''bob'' ''viewer'') ?w1 = (Inr (9, ''bob'', ''viewer''), ?w2)"
    using sample_check [of "''bob''" ?w1 3] by simp
  obtain w3 where a2: "updateRole_apply ann (9, ''bob'', ''viewer'') ?w2 = (Inr (bare_status 204), w3)"
    and w3: "ww_orgs w3 = ww_orgs two_admins" "fault (ww_db w3) = (\<lambda>_. False)"
    by (rule sample_apply [of ?w2]) (simp_all add: sample_web_def sample_world_def)
  obtain w4 where a1: "updateRole_apply ann (9, ''ann'', ''viewer'') w3 = (Inr (bare_status 204), w4)"
    by (rule sample_apply [OF w3])
  have "list_all (\<lambda>u. user_key 9 ''ann'' u \<or> user_key 9 ''bob'' u) (admins_of 9 (ww_users two_admins))"
    and "length (admins_of 9 (ww_users two_admins)) = 2"
    by (simp_all add: sample_web_def sample_user_def admins_of_def user_key_def citext_eq_def)
  with demotions_race [OF _ c1 c2 a2 a1] c1 c2 a2 a1 show ?thesis by blast
qed

section \<open>Deleting users\<close>

definition manned :: "uuid \<Rightarrow> user_row list \<Rightarrow> bool" where
  "manned org us \<longleftrightarrow> users_ok us \<and> users_of org us \<noteq> []"

lemma manned_filter:
  assumes "manned org' us" and "1 < length (users_of org us)"
  shows "manned org' (filter (\<lambda>u. \<not> user_key org login u) us)"
proof -
  have "\<exists>u \<in> set us. usr_org_id u = org' \<and> \<not> user_key org login u"
  proof (cases "org' = org")
    case True
    then show ?thesis using assms distinct_two [of user_id_key us "\<lambda>u. usr_org_id u = org" "(org, to_lower login)"]
      by (auto simp: manned_def users_ok_def users_of_def user_key_alt)
  next
    case False
    then show ?thesis using assms(1) by (auto simp: manned_def users_of_def filter_empty_conv user_key_def)
  qed
  then show ?thesis using assms(1) by (auto simp: manned_def users_of_def filter_empty_conv intro: users_ok_filter)
qed

lemma delete_manned: "table_kept (manned org) (users_delete deps claims r)"
proof -
  have "table_kept (manned org) (DeleteUserIfNotLast org' login)" for org' login
    unfolding DeleteUserIfNotLast_def by (rule stmt_kept) (simp add: manned_filter)
  then show ?thesis unfolding users_delete_def Let_def by (auto intro!: inv.keeps_rules reads_kept)
qed

text \<open>
  Deleting users never empties an organization: an organization with a user before the
  request has one after it.
\<close>

theorem delete_keeps_user:
  assumes "users_ok (ww_users w)" and "users_of org (ww_users w) \<noteq> []"
  shows "users_of org (ww_users (snd (users_delete deps claims r w))) \<noteq> []"
  using keeps_inv_relD [OF delete_manned, of org w] assms by (simp add: manned_def)

definition delete_request :: "string \<Rightarrow> web_request" where
  "delete_request login = (sample_request [])\<lparr>wr_method := ''DELETE'', wr_path := [(''login'', login)]\<rparr>"

theorem delete_keeps_user_witness:
  "users_of 9 (ww_users (snd (users_delete sample_web_deps ann (delete_request ''bob'') two_admins))) \<noteq> []"
  by (rule delete_keeps_user)
     (simp_all add: sample_web_def sample_user_def users_ok_def valid_role_column_def user_id_key_def to_lower_def lower_char_def users_of_def)

text \<open>
  The guard against deleting oneself compares logins byte by byte while the table compares
  them without case: an admin who spells their login with other letter case deletes their own
  row, even when they are the only admin.
\<close>

theorem self_delete_by_case:
  assumes o1: "sort_key og_created_at (ww_orgs w) = org # rest" and nf: "fault (ww_db w) = (\<lambda>_. False)"
    and l: "path_value ''login'' r \<noteq> []" "path_value ''login'' r \<noteq> sc_login claims" "citext_eq (path_value ''login'' r) (sc_login claims)"
    and u: "u \<in> set (ww_users w)" "user_key (og_id org) (sc_login claims) u" and n: "1 < length (users_of (og_id org) (ww_users w))"
  shows "fst (users_delete deps claims r w) = Inr (bare_status 204) \<and>
     ww_users (snd (users_delete deps claims r w)) = filter (\<lambda>u. \<not> user_key (og_id org) (sc_login claims) u) (ww_users w)"
proof -
  let ?login = "path_value ''login'' r"
  have k: "user_key o' ?login = user_key o' (sc_login claims)" for o'
    using l(3) by (auto simp: user_key_def citext_eq_def)
  obtain v where v: "find (user_key (og_id org) (sc_login claims)) (ww_users w) = Some v"
    using u by (cases "find (user_key (og_id org) (sc_login claims)) (ww_users w)") (auto simp: find_None_iff)
  have f: "filter (user_key (og_id org) (sc_login claims)) (ww_users w) \<noteq> []" using u by (auto simp: filter_empty_conv)
  show ?thesis using l o1 nf v n f
    by (simp add: users_delete_def Let_def k load_org_def GetFirstOrganization_def GetUserRole_def DeleteUserIfNotLast_def web_stmt_def
        on_db_def stmt_def sx_defs auditLog_def audit_Log_def InsertAuditLog_def)
qed

theorem self_delete_by_case_witness:
  "ww_users (snd (users_delete sample_web_deps ann (delete_request ''Ann'')
     (sample_web [sample_user 5 ''ann'' ''admin'', sample_user 6 ''bob'' ''viewer'']))) = [sample_user 6 ''bob'' ''viewer'']"
proof -
  let ?w = "sample_web [sample_user 5 ''ann'' ''admin'', sample_user 6 ''bob'' ''viewer'']"
  have "citext_eq ''Ann'' ''ann''" "\<not> citext_eq ''bob'' ''ann''" by code_simp+
  then show ?thesis
    using self_delete_by_case [of ?w "\<lparr>og_id = 9, og_name = ''org'', og_created_at = 0\<rparr>" "[]" "delete_request ''Ann''" ann
        "sample_user 5 ''ann'' ''admin''" sample_web_deps]
    by (simp add: sample_web_def sample_world_def delete_request_def path_value_def lookup_or_empty_def sample_user_def user_key_def users_of_def)
       (simp add: citext_eq_def)
qed

end
