(* ===== verification/Secret_Store.thy ===== *)
theory Secret_Store
  imports Session Session_Claims
begin

text \<open>
  The secret store (internal/secrets/server) and its routes (internal/webapi/secrets.go). A
  secret is encrypted with a data key of its own, which is stored encrypted with the master
  key. AES-GCM is a parameter; what the code relies on is that opening what was sealed gives
  the plaintext back. The interface SecretStore is a record of operations, and what its
  clients rely on is the locale \<open>secret_store\<close>.
\<close>

section \<open>Envelope encryption\<close>

record gcm_lib =
  gcm_seal :: "string \<Rightarrow> string \<Rightarrow> string \<Rightarrow> string"
  gcm_open :: "string \<Rightarrow> string \<Rightarrow> string \<Rightarrow> string option"

definition gcm_ok :: "gcm_lib \<Rightarrow> bool" where
  "gcm_ok G \<longleftrightarrow> (\<forall>k n p. gcm_open G k n (gcm_seal G k n p) = Some p)"

definition keyLen :: nat where
  "keyLen = 32"

definition nonceSize :: nat where
  "nonceSize = 12"

text \<open>aes.NewCipher accepts keys of three lengths; a GCM over AES always exists.\<close>

definition aes_key :: "string \<Rightarrow> bool" where
  "aes_key k \<longleftrightarrow> length k = 16 \<or> length k = 24 \<or> length k = 32"

type_synonym 'a env_sx = "(web, string, 'a) sx"

definition encrypt :: "gcm_lib \<Rightarrow> string \<Rightarrow> string \<Rightarrow> (string \<times> string) env_sx" where
  "encrypt G dek plaintext =
     (if \<not> aes_key dek then throw ''envelope: new cipher''
      else bind (map_err (\<lambda>_. ''envelope: generate nonce'') (rand_Read nonceSize)) (\<lambda>nonce.
        ret (gcm_seal G dek nonce plaintext, nonce)))"

definition decrypt :: "gcm_lib \<Rightarrow> string \<Rightarrow> string \<Rightarrow> string \<Rightarrow> string + string" where
  "decrypt G dek ciphertext nonce =
     (if \<not> aes_key dek then Inl ''envelope: new cipher''
      else if length nonce \<noteq> nonceSize then Inl ''envelope: nonce length''
      else case gcm_open G dek nonce ciphertext of None \<Rightarrow> Inl ''envelope: open'' | Some p \<Rightarrow> Inr p)"

definition encryptWithNoncePrefixed :: "gcm_lib \<Rightarrow> string \<Rightarrow> string \<Rightarrow> (string \<times> string) env_sx" where
  "encryptWithNoncePrefixed G key plaintext =
     (if \<not> aes_key key then throw ''envelope: new cipher''
      else bind (map_err (\<lambda>_. ''envelope: generate nonce'') (rand_Read nonceSize)) (\<lambda>nonce.
        ret (nonce @ gcm_seal G key nonce plaintext, nonce)))"

definition decryptNoncePrefixed :: "gcm_lib \<Rightarrow> string \<Rightarrow> string \<Rightarrow> string + string" where
  "decryptNoncePrefixed G key data =
     (if \<not> aes_key key then Inl ''envelope: new cipher''
      else if length data < nonceSize then Inl ''envelope: payload shorter than nonce''
      else case gcm_open G key (take nonceSize data) (drop nonceSize data) of None \<Rightarrow> Inl ''envelope: open'' | Some p \<Rightarrow> Inr p)"

definition newWrappedDEK :: "gcm_lib \<Rightarrow> string \<Rightarrow> (string \<times> string) env_sx" where
  "newWrappedDEK G master =
     (if length master \<noteq> keyLen then throw ''envelope: master key must be 32 bytes''
      else bind (map_err (\<lambda>_. ''envelope: generate DEK'') (rand_Read keyLen)) (\<lambda>dek.
        bind (encryptWithNoncePrefixed G master dek) (\<lambda>(wrapped, _). ret (dek, wrapped))))"

definition unwrapDEK :: "gcm_lib \<Rightarrow> string \<Rightarrow> string \<Rightarrow> string + string" where
  "unwrapDEK G master wrapped =
     (if length master \<noteq> keyLen then Inl ''envelope: master key must be 32 bytes'' else decryptNoncePrefixed G master wrapped)"

definition encodeMasterKey :: "string \<Rightarrow> string" where
  "encodeMasterKey key = std64_encode key"

definition parseMasterKey :: "string \<Rightarrow> string + string" where
  "parseMasterKey encoded = (case std64_decode encoded of
       None \<Rightarrow> Inl ''envelope: decode master key''
     | Some raw \<Rightarrow> if length raw \<noteq> keyLen then Inl ''envelope: master key must be 32 bytes after base64 decode'' else Inr raw)"

definition GenerateMasterKey :: "string env_sx" where
  "GenerateMasterKey = bind (map_err (\<lambda>_. ''envelope: generate master key'') (rand_Read keyLen)) (\<lambda>key. ret (encodeMasterKey key))"

section \<open>The store\<close>

datatype secret_err = ErrNotFound | StoreError string string

record 's secret_store_if =
  ss_get :: "string \<Rightarrow> ('s, secret_err, string) sx"
  ss_put :: "string \<Rightarrow> string \<Rightarrow> ('s, secret_err, unit) sx"
  ss_delete :: "string \<Rightarrow> ('s, secret_err, unit) sx"
  ss_list :: "('s, secret_err, string list) sx"

record envelope_store =
  es_org_id :: uuid
  es_master :: string
  es_gcm :: gcm_lib

definition lift_sum :: "('e \<Rightarrow> 'f) \<Rightarrow> 'e + 'a \<Rightarrow> ('s, 'f, 'a) sx" where
  "lift_sum f x = (case x of Inl e \<Rightarrow> throw (f e) | Inr a \<Rightarrow> ret a)"

definition es_Get :: "envelope_store \<Rightarrow> string \<Rightarrow> (web, secret_err, string) sx" where
  "es_Get st name =
     bind (map_err (\<lambda>e. if e = ErrNoRows then ErrNotFound else StoreError ''get'' name) (GetSecretByName (es_org_id st) name)) (\<lambda>row.
     bind (lift_sum (\<lambda>_. StoreError ''unwrap DEK for'' name) (unwrapDEK (es_gcm st) (es_master st) (sec_dek_wrapped row))) (\<lambda>dek.
     bind (lift_sum (\<lambda>_. StoreError ''decrypt'' name) (decrypt (es_gcm st) dek (sec_ciphertext row) (sec_nonce row))) (\<lambda>plaintext.
     bind (attempt (TouchSecret (sec_id row))) (\<lambda>_. ret plaintext))))"

definition es_Put :: "envelope_store \<Rightarrow> string \<Rightarrow> string \<Rightarrow> (web, secret_err, unit) sx" where
  "es_Put st name value =
     bind (map_err (\<lambda>_. StoreError ''put new DEK'' name) (newWrappedDEK (es_gcm st) (es_master st))) (\<lambda>(dek, wrapped).
     bind (map_err (\<lambda>_. StoreError ''put encrypt'' name) (encrypt (es_gcm st) dek value)) (\<lambda>(ct, nonce).
     bind (map_err (\<lambda>_. StoreError ''put'' name) (UpsertSecret (es_org_id st) name wrapped ct nonce)) (\<lambda>_. ret ())))"

definition es_Delete :: "envelope_store \<Rightarrow> string \<Rightarrow> (web, secret_err, unit) sx" where
  "es_Delete st name = bind (map_err (\<lambda>_. StoreError ''delete'' name) (DeleteSecret (es_org_id st) name)) (\<lambda>_. ret ())"

definition es_List :: "envelope_store \<Rightarrow> (web, secret_err, string list) sx" where
  "es_List st = bind (map_err (\<lambda>_. StoreError ''list'' []) (ListSecretNames (es_org_id st))) (\<lambda>rows. ret (map sec_name rows))"

definition NewEnvelopePostgresStore :: "envelope_store \<Rightarrow> web secret_store_if" where
  "NewEnvelopePostgresStore st = \<lparr>ss_get = es_Get st, ss_put = es_Put st, ss_delete = es_Delete st, ss_list = es_List st\<rparr>"

section \<open>Routes\<close>

definition secret_meta :: "secret_row \<Rightarrow> json" where
  "secret_meta row = JObj ([(''name'', JStr (sec_name row)), (''version'', JNum (sec_version row)),
     (''last_updated'', JStr (format_rfc3339 (sec_updated_at row)))] @
     (case sec_last_used_at row of None \<Rightarrow> [] | Some t \<Rightarrow> [(''last_used'', JStr (format_rfc3339 t))]))"

definition secrets_list :: "session_claims \<Rightarrow> web_handler" where
  "secrets_list claims r =
     bind (load_org ''failed to load org'') (\<lambda>org.
     bind (map_err (\<lambda>_. writeErr 500 ''failed to list secrets'' ''internal'') (ListSecretNames (og_id org))) (\<lambda>rows.
     ret (writeJSON 200 (JArr (map secret_meta rows)))))"

definition auditSecretMutation :: "session_claims \<Rightarrow> string \<Rightarrow> string \<Rightarrow> unit web_sx" where
  "auditSecretMutation claims action name =
     bind (attempt GetFirstOrganization) (\<lambda>res. case res of
       Inl _ \<Rightarrow> ret ()
     | Inr org \<Rightarrow> auditLog (sc_login claims) \<lparr>ae_org_id = og_id org, ae_actor = [], ae_action = action, ae_target_kind = ''secret'',
         ae_target_id = None, ae_detail = Some [(''name'', JStr name)]\<rparr>)"

definition secret_request :: "web_deps \<Rightarrow> web_request \<Rightarrow> (string \<times> string) option" where
  "secret_request deps r = Option.bind (wl_decode (wd_libs deps) (wr_body r)) (\<lambda>j. Option.bind (struct_fields j) (\<lambda>kvs.
     Option.bind (str_in ''name'' kvs) (\<lambda>n. Option.bind (str_in ''value'' kvs) (\<lambda>v. Some (n, v)))))"

definition secrets_create :: "web_deps \<Rightarrow> web secret_store_if \<Rightarrow> session_claims \<Rightarrow> web_handler" where
  "secrets_create deps store claims r = (case secret_request deps r of
       None \<Rightarrow> throw (writeErr 400 ''name and value are required'' ''bad_request'')
     | Some (name, value) \<Rightarrow>
       if name = [] \<or> value = [] then throw (writeErr 400 ''name and value are required'' ''bad_request'')
       else bind (map_err (\<lambda>_. writeErr 500 ''failed to create secret'' ''internal'') (ss_put store name value)) (\<lambda>_.
         bind (auditSecretMutation claims ''secret.create'' name) (\<lambda>_.
         ret (writeJSON 201 (JObj [(''name'', JStr name)])))))"

definition value_request :: "web_deps \<Rightarrow> web_request \<Rightarrow> string option" where
  "value_request deps r = Option.bind (wl_decode (wd_libs deps) (wr_body r)) (\<lambda>j. Option.bind (struct_fields j) (str_in ''value''))"

definition secrets_rotate :: "web_deps \<Rightarrow> web secret_store_if \<Rightarrow> session_claims \<Rightarrow> web_handler" where
  "secrets_rotate deps store claims r =
     (let name = path_value ''name'' r in
      if name = [] then throw (writeErr 400 ''name is required'' ''bad_request'')
      else case value_request deps r of
        None \<Rightarrow> throw (writeErr 400 ''value is required'' ''bad_request'')
      | Some value \<Rightarrow>
        if value = [] then throw (writeErr 400 ''value is required'' ''bad_request'')
        else bind (map_err (\<lambda>_. writeErr 500 ''failed to rotate secret'' ''internal'') (ss_put store name value)) (\<lambda>_.
          bind (auditSecretMutation claims ''secret.rotate'' name) (\<lambda>_.
          ret (writeJSON 200 (JObj [(''name'', JStr name)])))))"

definition secrets_delete :: "web secret_store_if \<Rightarrow> session_claims \<Rightarrow> web_handler" where
  "secrets_delete store claims r =
     (let name = path_value ''name'' r in
      if name = [] then throw (writeErr 400 ''name is required'' ''bad_request'')
      else bind (map_err (\<lambda>_. writeErr 500 ''failed to delete secret'' ''internal'') (ss_delete store name)) (\<lambda>_.
        bind (auditSecretMutation claims ''secret.delete'' name) (\<lambda>_. ret (bare_status 204))))"

section \<open>What a store promises\<close>

locale secret_store =
  fixes S :: "'s secret_store_if" and contents :: "'s \<Rightarrow> string \<Rightarrow> string option"
  assumes put_done: "ss_put S n v s = (Inr (), s') \<Longrightarrow> contents s' = (contents s)(n := Some v)"
    and put_failed: "ss_put S n v s = (Inl e, s') \<Longrightarrow> contents s' = contents s"
    and get_done: "ss_get S n s = (Inr v, s') \<Longrightarrow> contents s n = Some v"
    and get_failed: "ss_get S n s = (Inl ErrNotFound, s') \<Longrightarrow> contents s n = None"
    and get_keeps: "contents (snd (ss_get S n s)) = contents s"
    and delete_done: "ss_delete S n s = (Inr (), s') \<Longrightarrow> contents s' = (contents s)(n := None)"
    and delete_failed: "ss_delete S n s = (Inl e, s') \<Longrightarrow> contents s' = contents s"
begin

lemma get_after_put:
  assumes "ss_put S n v s = (Inr (), s')" and "ss_get S m s' = (Inr x, s'')"
  shows "if m = n then x = v else contents s m = Some x"
  using put_done [OF assms(1)] get_done [OF assms(2)] by auto

lemma get_after_delete:
  assumes "ss_delete S n s = (Inr (), s')"
  shows "ss_get S n s' \<noteq> (Inr x, s'')"
  using delete_done [OF assms] get_done [of n s' x s''] by auto

end

section \<open>The envelope store keeps it\<close>

definition row_value :: "envelope_store \<Rightarrow> secret_row \<Rightarrow> string option" where
  "row_value st row = (case unwrapDEK (es_gcm st) (es_master st) (sec_dek_wrapped row) of
       Inl _ \<Rightarrow> None
     | Inr dek \<Rightarrow> (case decrypt (es_gcm st) dek (sec_ciphertext row) (sec_nonce row) of Inl _ \<Rightarrow> None | Inr p \<Rightarrow> Some p))"

definition es_contents :: "envelope_store \<Rightarrow> web \<Rightarrow> string \<Rightarrow> string option" where
  "es_contents st w name = Option.bind (find (secret_key (es_org_id st) name) (ww_secrets w)) (row_value st)"

lemma rand_Read_len: "rand_Read n w = (Inr b, w') \<Longrightarrow> length b = n \<and> ww_secrets w' = ww_secrets w"
  by (auto simp: rand_Read_def split: option.splits)

lemma find_snoc: "find p (xs @ [x]) = (case find p xs of Some y \<Rightarrow> Some y | None \<Rightarrow> if p x then Some x else None)"
  by (induction xs) auto

lemma find_update: "(\<And>s. p (f s) = p s) \<Longrightarrow> find p (update_where p f xs) = map_option f (find p xs)"
  by (induction xs) (auto simp: update_where_def)

lemma find_update_other: "(\<And>s. p (f s) = p s) \<Longrightarrow> (\<And>s. q s \<Longrightarrow> \<not> p s) \<Longrightarrow> find p (update_where q f xs) = find p xs"
  by (induction xs) (auto simp: update_where_def)

lemma rand_Read_secrets [simp]: "ww_secrets (snd (rand_Read n w)) = ww_secrets w"
  by (simp add: rand_Read_def)

lemma newWrappedDEK_ok:
  assumes "newWrappedDEK G m w = (Inr (dek, wr), w')" and "gcm_ok G"
  shows "unwrapDEK G m wr = Inr dek \<and> ww_secrets w' = ww_secrets w"
  using assms unfolding newWrappedDEK_def encryptWithNoncePrefixed_def
  by (auto simp: bind_eq_Inr_iff unwrapDEK_def decryptNoncePrefixed_def gcm_ok_def dest!: map_err_eq_Inr rand_Read_len split: if_splits)

lemma encrypt_ok:
  assumes "encrypt G dek p w = (Inr (ct, n), w')" and "gcm_ok G"
  shows "decrypt G dek ct n = Inr p \<and> ww_secrets w' = ww_secrets w"
  using assms unfolding encrypt_def
  by (auto simp: bind_eq_Inr_iff decrypt_def gcm_ok_def dest!: map_err_eq_Inr rand_Read_len split: if_splits)

lemma secrets_keep: "(\<And>a v. ww_secrets (snd (k a v)) = ww_secrets v) \<Longrightarrow> ww_secrets (snd (bind m k w)) = ww_secrets (snd (m w))"
  by (simp add: bind_def split: prod.split sum.split)

lemma encryption_secrets [simp]:
  "ww_secrets (snd (newWrappedDEK G m w)) = ww_secrets w" "ww_secrets (snd (encrypt G dek p w)) = ww_secrets w"
  by (simp_all add: newWrappedDEK_def encrypt_def encryptWithNoncePrefixed_def secrets_keep split: prod.split)

lemma UpsertSecret_ok:
  assumes "UpsertSecret org n wr ct no w = (Inr x, w')"
  shows "\<exists>row. sec_dek_wrapped row = wr \<and> sec_ciphertext row = ct \<and> sec_nonce row = no \<and>
     (\<forall>m. find (secret_key org m) (ww_secrets w') = (if m = n then Some row else find (secret_key org m) (ww_secrets w)))"
proof -
  note run = web_stmt_Inr [OF assms [unfolded UpsertSecret_def]]
  show ?thesis
  proof (cases "find (secret_key org n) (ww_secrets w)")
    case None
    then have "find (secret_key org m) (ww_secrets w') = (if m = n then Some x else find (secret_key org m) (ww_secrets w))" for m
      using run by (auto simp: Let_def find_snoc secret_key_def split: if_splits option.split)
    then show ?thesis using run None by (auto simp: Let_def split: if_splits)
  next
    case (Some s)
    let ?upd = "\<lambda>s. s\<lparr>sec_dek_wrapped := wr, sec_ciphertext := ct, sec_nonce := no, sec_version := sec_version s + 1, sec_updated_at := web_time (counted w)\<rparr>"
    have "ww_secrets w' = update_where (secret_key org n) ?upd (ww_secrets w)" using run Some by (auto simp: Let_def split: if_splits)
    then have "find (secret_key org m) (ww_secrets w') = (if m = n then Some (?upd s) else find (secret_key org m) (ww_secrets w))" for m
      using Some find_update [of "secret_key org n" ?upd "ww_secrets w"] find_update_other [of "secret_key org m" ?upd "secret_key org n" "ww_secrets w"]
      by (auto simp: secret_key_def)
    then show ?thesis by (intro exI [of _ "?upd s"]) simp
  qed
qed

lemma UpsertSecret_failed:
  "UpsertSecret org n wr ct no w = (Inl e, w') \<Longrightarrow> ww_secrets w' = ww_secrets w"
  unfolding UpsertSecret_def by (drule web_stmt_Inl) (auto simp: Let_def split: if_splits option.splits)

lemma es_Put_done:
  assumes G: "gcm_ok (es_gcm st)" and p: "es_Put st n v w = (Inr (), w')"
  shows "es_contents st w' = (es_contents st w)(n := Some v)"
proof -
  obtain dek wr ct no x w1 w2 where d: "newWrappedDEK (es_gcm st) (es_master st) w = (Inr (dek, wr), w1)"
    and e: "encrypt (es_gcm st) dek v w1 = (Inr (ct, no), w2)" and u: "UpsertSecret (es_org_id st) n wr ct no w2 = (Inr x, w')"
    using p unfolding es_Put_def by (auto simp: bind_eq_Inr_iff dest!: map_err_eq_Inr)
  obtain row where "sec_dek_wrapped row = wr" "sec_ciphertext row = ct" "sec_nonce row = no"
    "\<And>m. find (secret_key (es_org_id st) m) (ww_secrets w') = (if m = n then Some row else find (secret_key (es_org_id st) m) (ww_secrets w2))"
    using UpsertSecret_ok [OF u] by blast
  then show ?thesis using newWrappedDEK_ok [OF d G] encrypt_ok [OF e G]
    by (auto simp: es_contents_def row_value_def fun_eq_iff)
qed

lemma es_Put_failed:
  assumes "es_Put st n v w = (Inl e, w')"
  shows "ww_secrets w' = ww_secrets w"
proof (cases "newWrappedDEK (es_gcm st) (es_master st) w")
  case (Pair r1 w1)
  then have s1: "ww_secrets w1 = ww_secrets w" using encryption_secrets(1) [of "es_gcm st" "es_master st" w] by simp
  show ?thesis
  proof (cases r1)
    case (Inr dw)
    obtain dek wr where dw: "dw = (dek, wr)" by (cases dw)
    obtain r2 w2 where e: "encrypt (es_gcm st) dek v w1 = (r2, w2)" by fastforce
    then have s2: "ww_secrets w2 = ww_secrets w" using s1 encryption_secrets(2) [of "es_gcm st" dek v w1] by simp
    show ?thesis
    proof (cases r2)
      case (Inr cn)
      then show ?thesis using assms Pair \<open>r1 = Inr dw\<close> dw e s2
        by (cases cn) (auto simp: es_Put_def bind_def map_err_def split: prod.splits sum.splits dest!: UpsertSecret_failed)
    qed (use assms Pair Inr dw e s2 in \<open>simp add: es_Put_def bind_def map_err_def\<close>)
  qed (use assms Pair s1 in \<open>simp add: es_Put_def bind_def map_err_def\<close>)
qed

lemma GetSecretByName_run:
  "GetSecretByName org n w = (res, w') \<Longrightarrow> ww_secrets w' = ww_secrets w \<and>
     (\<forall>row. res = Inr row \<longrightarrow> find (secret_key org n) (ww_secrets w) = Some row) \<and>
     (res = Inl ErrNoRows \<longrightarrow> find (secret_key org n) (ww_secrets w) = None)"
  unfolding GetSecretByName_def by (auto simp: web_stmt_run split: if_splits option.splits)

lemma find_update_any: "(\<And>s. p (f s) = p s) \<Longrightarrow> find p (update_where q f xs) = map_option (\<lambda>s. if q s then f s else s) (find p xs)"
  by (induction xs) (auto simp: update_where_def)

lemma row_value_touch [simp]: "row_value st (s\<lparr>sec_last_used_at := t\<rparr>) = row_value st s"
  by (simp add: row_value_def cong: sum.case_cong)

lemma lift_sum_Inr: "lift_sum f x s = (Inr a, s') \<longleftrightarrow> x = Inr a \<and> s' = s"
  by (auto simp: lift_sum_def split: sum.split)

lemma TouchSecret_contents: "es_contents st (snd (TouchSecret i w)) = es_contents st w"
proof -
  have "Option.bind (find (secret_key org n) (update_where (\<lambda>s. sec_id s = i) (\<lambda>s. s\<lparr>sec_last_used_at := t\<rparr>) xs)) (row_value st) =
      Option.bind (find (secret_key org n) xs) (row_value st)" for org n t xs
    by (subst find_update_any) (auto simp: secret_key_def split: option.split bind_split)
  then show ?thesis by (auto simp: TouchSecret_def web_stmt_run es_contents_def fun_eq_iff)
qed

lemma es_Get_contents: "es_contents st (snd (es_Get st n w)) = es_contents st w"
proof (cases "GetSecretByName (es_org_id st) n w")
  case (Pair res w1)
  then have s: "es_contents st w1 = es_contents st w" using GetSecretByName_run [OF Pair] by (simp add: es_contents_def fun_eq_iff)
  then show ?thesis using Pair TouchSecret_contents
    by (cases res) (simp_all add: es_Get_def map_err_def bind_def lift_sum_def attempt_apply split: sum.split)
qed

lemma es_Get_done:
  assumes "es_Get st n w = (Inr v, w')"
  shows "es_contents st w n = Some v"
proof -
  obtain row dek w1 where g: "GetSecretByName (es_org_id st) n w = (Inr row, w1)"
    and "unwrapDEK (es_gcm st) (es_master st) (sec_dek_wrapped row) = Inr dek" "decrypt (es_gcm st) dek (sec_ciphertext row) (sec_nonce row) = Inr v"
    using assms unfolding es_Get_def
    by (auto simp: bind_eq_Inr_iff lift_sum_Inr attempt_apply dest!: map_err_eq_Inr)
  then show ?thesis using GetSecretByName_run [OF g] by (simp add: es_contents_def row_value_def)
qed

lemma es_Get_missing:
  assumes "es_Get st n w = (Inl ErrNotFound, w')"
  shows "es_contents st w n = None"
proof (cases "GetSecretByName (es_org_id st) n w")
  case (Pair res w1)
  show ?thesis
  proof (cases res)
    case (Inl e)
    then have "e = ErrNoRows" using assms Pair by (auto simp: es_Get_def map_err_def bind_def split: if_splits)
    then show ?thesis using GetSecretByName_run [OF Pair] Inl by (simp add: es_contents_def)
  next
    case (Inr row)
    then show ?thesis using assms Pair
      by (auto simp: es_Get_def map_err_def bind_def lift_sum_def attempt_apply split: sum.splits)
  qed
qed

lemma es_Delete_done:
  assumes "es_Delete st n w = (Inr (), w')"
  shows "es_contents st w' = (es_contents st w)(n := None)"
proof -
  have k: "secret_key org m s \<Longrightarrow> secret_key org n s \<Longrightarrow> m = n" for org m s
    by (simp add: secret_key_def)
  have "find (secret_key org m) (filter (\<lambda>s. \<not> secret_key org n s) xs) = (if m = n then None else find (secret_key org m) xs)" for org m xs
    by (induction xs) (auto dest: k)
  then show ?thesis using assms unfolding es_Delete_def DeleteSecret_def
    by (auto simp: bind_eq_Inr_iff es_contents_def fun_eq_iff dest!: map_err_eq_Inr web_stmt_Inr)
qed

lemma es_Delete_failed: "es_Delete st n w = (Inl e, w') \<Longrightarrow> es_contents st w' = es_contents st w"
  by (auto simp: es_Delete_def DeleteSecret_def web_stmt_run bind_def map_err_def es_contents_def split: if_splits)

lemma envelope_secret_store:
  assumes "gcm_ok (es_gcm st)"
  shows "secret_store (NewEnvelopePostgresStore st) (es_contents st)"
proof
  fix n v w w' assume "ss_put (NewEnvelopePostgresStore st) n v w = (Inr (), w')"
  then show "es_contents st w' = (es_contents st w)(n := Some v)"
    using es_Put_done [OF assms] by (simp add: NewEnvelopePostgresStore_def)
next
  fix n v w e w' assume "ss_put (NewEnvelopePostgresStore st) n v w = (Inl e, w')"
  then show "es_contents st w' = es_contents st w"
    using es_Put_failed by (simp add: NewEnvelopePostgresStore_def es_contents_def fun_eq_iff)
qed (simp_all add: NewEnvelopePostgresStore_def es_Get_done es_Get_missing es_Get_contents es_Delete_done es_Delete_failed)

text \<open>
  The secret store behaves as a map from names to values: each operation refines the operation
  on the map, a secret that was stored is read back, and a generated master key is accepted.
\<close>

section \<open>A sample store\<close>

definition sample_gcm :: gcm_lib where
  "sample_gcm = \<lparr>gcm_seal = (\<lambda>k n p. n @ p), gcm_open = (\<lambda>k n c. if take (length n) c = n then Some (drop (length n) c) else None)\<rparr>"

lemma sample_gcm_ok: "gcm_ok sample_gcm"
  by (simp add: gcm_ok_def sample_gcm_def)

definition sample_store :: envelope_store where
  "sample_store = \<lparr>es_org_id = 9, es_master = replicate 32 (CHR ''m''), es_gcm = sample_gcm\<rparr>"

interpretation sample: secret_store "NewEnvelopePostgresStore sample_store" "es_contents sample_store"
  by (rule envelope_secret_store) (simp add: sample_store_def sample_gcm_ok)

section \<open>The map\<close>

text \<open>
  C28: The envelope store refines a map from names to values, through the decryption of its rows:
  storing a secret updates the map at that name, deleting one removes it, reading leaves the
  map unchanged and returns what it holds, and an operation that fails changes nothing.
\<close>

theorem secret_store_refines_map:
  assumes "gcm_ok (es_gcm st)"
  shows "es_contents st (snd (es_Put st n v w)) =
       (case fst (es_Put st n v w) of Inl _ \<Rightarrow> es_contents st w | Inr _ \<Rightarrow> (es_contents st w)(n \<mapsto> v)) \<and>
     es_contents st (snd (es_Delete st n w)) =
       (case fst (es_Delete st n w) of Inl _ \<Rightarrow> es_contents st w | Inr _ \<Rightarrow> (es_contents st w)(n := None)) \<and>
     es_contents st (snd (es_Get st n w)) = es_contents st w \<and>
     (case fst (es_Get st n w) of Inl e \<Rightarrow> e = ErrNotFound \<longrightarrow> es_contents st w n = None | Inr x \<Rightarrow> es_contents st w n = Some x)"
proof -
  note store = envelope_secret_store [OF assms]
  show ?thesis
    using secret_store.put_done [OF store, of n v w] secret_store.put_failed [OF store, of n v w]
      secret_store.delete_done [OF store, of n w] secret_store.delete_failed [OF store, of n w]
      secret_store.get_keeps [OF store, of n w] secret_store.get_done [OF store, of n w] secret_store.get_failed [OF store, of n w]
    by (cases "es_Put st n v w"; cases "es_Delete st n w"; cases "es_Get st n w")
       (auto simp: NewEnvelopePostgresStore_def split: sum.split)
qed

theorem secret_store_refines_map_witness:
  "es_contents sample_store (snd (es_Put sample_store ''k'' ''v'' (sample_web []))) =
     (case fst (es_Put sample_store ''k'' ''v'' (sample_web [])) of Inl _ \<Rightarrow> es_contents sample_store (sample_web [])
        | Inr _ \<Rightarrow> (es_contents sample_store (sample_web []))(''k'' \<mapsto> ''v''))"
  using secret_store_refines_map [of sample_store "''k''" "''v''" "sample_web []"] sample_gcm_ok by (simp add: sample_store_def)

section \<open>Reading back\<close>

definition calm_web :: "web \<Rightarrow> bool" where
  "calm_web w \<longleftrightarrow> fault (ww_db w) = (\<lambda>_. False) \<and> (\<forall>k. ww_rand w k \<noteq> None)"

lemma counted_calm [simp]: "calm_web (counted w) = calm_web w"
  by (simp add: calm_web_def counted_def)

definition same_store :: "web \<Rightarrow> web \<Rightarrow> bool" where
  "same_store w w' \<longleftrightarrow> calm_web w' \<and> ww_orgs w' = ww_orgs w \<and> ww_secrets w' = ww_secrets w"

lemma rand_Read_calm: "calm_web w \<Longrightarrow> \<exists>b w'. rand_Read n w = (Inr b, w') \<and> length b = n \<and> same_store w w'"
  by (auto simp: rand_Read_def calm_web_def same_store_def split: option.split)

lemma newWrappedDEK_calm:
  assumes "calm_web w" and "length m = 32"
  shows "\<exists>dek wr w'. newWrappedDEK G m w = (Inr (dek, wr), w') \<and> length dek = 32 \<and> same_store w w'"
proof -
  obtain dek w1 where 1: "rand_Read keyLen w = (Inr dek, w1)" "length dek = keyLen" "same_store w w1"
    using rand_Read_calm [OF assms(1)] by blast
  then obtain no w2 where "rand_Read nonceSize w1 = (Inr no, w2)" "same_store w1 w2"
    using rand_Read_calm [of w1 nonceSize] 1(3) by (auto simp: same_store_def)
  then show ?thesis using 1 assms(2)
    by (simp add: newWrappedDEK_def encryptWithNoncePrefixed_def keyLen_def aes_key_def same_store_def)
qed

lemma encrypt_calm:
  assumes "calm_web w" and "length dek = 32"
  shows "\<exists>ct no w'. encrypt G dek p w = (Inr (ct, no), w') \<and> same_store w w'"
  using rand_Read_calm [OF assms(1), of nonceSize] assms(2) by (auto simp: encrypt_def aes_key_def)

text \<open>Room for another version of every secret: the column is a 32-bit integer.\<close>

definition versions_below :: "int \<Rightarrow> web \<Rightarrow> bool" where
  "versions_below k w \<longleftrightarrow> 2 \<le> k \<and> list_all (\<lambda>s. 0 \<le> sec_version s \<and> sec_version s < k) (ww_secrets w)"

lemma UpsertSecret_calm:
  assumes "calm_web w" and "org_exists w org" and "versions_below k w" and "k < 2 ^ 31"
  shows "\<exists>row w'. UpsertSecret org n wr ct no w = (Inr row, w') \<and> calm_web w' \<and> ww_orgs w' = ww_orgs w \<and> versions_below (k + 1) w'"
proof -
  have f: "\<not> fault (ww_db w) (stmt_ctr (ww_db w))" using assms(1) by (simp add: calm_web_def)
  have o1: "org_exists (counted w) org" using assms(2) by (simp add: org_exists_def)
  have c: "calm_web (counted w)" using assms(1) by simp
  have v: "2 \<le> k" "\<And>s. s \<in> set (ww_secrets w) \<Longrightarrow> 0 \<le> sec_version s \<and> sec_version s < k"
    using assms(3) by (auto simp: versions_below_def list_all_iff)
  have r: "int32_range (sec_version s + 1)" if "find (secret_key org n) (ww_secrets w) = Some s" for s
    using find_member [OF that] v assms(4) by (auto simp: int32_range_def dest!: v(2))
  have k: "versions_below (k + 1) w'" if "ww_secrets w' = ww_secrets w @ [s] \<and> sec_version s = 1 \<or> ww_secrets w' = update_where p f (ww_secrets w) \<and>
      (\<forall>s. sec_version (f s) = sec_version s + 1)" for w' s p f
    using that v unfolding versions_below_def list_all_iff by (force simp: update_where_def)
  show ?thesis
  proof (cases "find (secret_key org n) (ww_secrets w)")
    case None
    then show ?thesis using f o1 c by (auto simp: UpsertSecret_def web_stmt_run Let_def calm_web_def id_drawn_def intro!: k)
  next
    case (Some s)
    then show ?thesis using f o1 c r [OF Some] by (auto simp: UpsertSecret_def web_stmt_run Let_def calm_web_def intro!: k)
  qed
qed

lemma es_Put_calm:
  assumes m: "length (es_master st) = 32" and w: "calm_web w" "org_exists w (es_org_id st)" "versions_below k w" "k < 2 ^ 31"
  shows "\<exists>w'. es_Put st n x w = (Inr (), w') \<and> calm_web w' \<and> ww_orgs w' = ww_orgs w \<and> versions_below (k + 1) w'"
proof -
  obtain dek wr w1 where 1: "newWrappedDEK (es_gcm st) (es_master st) w = (Inr (dek, wr), w1)" "length dek = 32" "same_store w w1"
    using newWrappedDEK_calm [OF w(1) m] by blast
  then obtain ct no w2 where 2: "encrypt (es_gcm st) dek x w1 = (Inr (ct, no), w2)" "same_store w1 w2"
    using encrypt_calm [of w1 dek "es_gcm st" x] by (auto simp: same_store_def)
  then obtain row w3 where 3: "UpsertSecret (es_org_id st) n wr ct no w2 = (Inr row, w3)" "calm_web w3" "ww_orgs w3 = ww_orgs w" "versions_below (k + 1) w3"
    using UpsertSecret_calm [of w2 "es_org_id st" k n wr ct no] 1 w by (auto simp: same_store_def org_exists_def versions_below_def)
  have "es_Put st n x w = (Inr (), w3)"
    using 1(1) 2(1) 3(1) by (simp add: es_Put_def map_err_def bind_def)
  then show ?thesis using 3 by blast
qed

lemma es_Get_calm:
  assumes "calm_web w" and "es_contents st w n = Some x"
  shows "fst (es_Get st n w) = Inr x"
proof -
  obtain row where "find (secret_key (es_org_id st) n) (ww_secrets w) = Some row" "row_value st row = Some x"
    using assms(2) by (auto simp: es_contents_def bind_eq_Some_conv)
  then show ?thesis using assms(1)
    by (auto simp: es_Get_def GetSecretByName_def web_stmt_run calm_web_def map_err_def bind_def lift_sum_def attempt_apply row_value_def split: sum.splits)
qed

text \<open>
  Storing a secret works and the value is read back: with a 32-byte master key, an existing
  organization, no failing statement and no failing random source, Put succeeds, and the next
  Get of that name returns exactly the value that was put.
\<close>

theorem secret_put_then_get:
  assumes G: "gcm_ok (es_gcm st)" and m: "length (es_master st) = 32" and w: "calm_web w" "org_exists w (es_org_id st)"
    and v: "versions_below k w" "k < 2 ^ 31"
  shows "\<exists>w'. es_Put st n x w = (Inr (), w') \<and> fst (es_Get st n w') = Inr x"
proof -
  obtain w' where p: "es_Put st n x w = (Inr (), w')" "calm_web w'" using es_Put_calm [OF m w v] by blast
  then show ?thesis using es_Get_calm [OF p(2)] es_Put_done [OF G p(1)] by auto
qed

theorem secret_put_then_get_witness:
  "\<exists>w'. es_Put sample_store ''api-key'' ''s3cret'' (sample_web []) = (Inr (), w') \<and> fst (es_Get sample_store ''api-key'' w') = Inr ''s3cret''"
  by (rule secret_put_then_get [where k = 2])
     (simp_all add: sample_store_def sample_gcm_ok calm_web_def sample_web_def sample_world_def org_exists_def versions_below_def)

text \<open>A generated master key is one that the server accepts at startup.\<close>

lemma generated_key_parses:
  assumes "GenerateMasterKey w = (Inr s, w')"
  shows "\<exists>k. parseMasterKey s = Inr k \<and> length k = 32 \<and> encodeMasterKey k = s"
  using assms unfolding GenerateMasterKey_def
  by (auto simp: bind_eq_Inr_iff encodeMasterKey_def parseMasterKey_def std64.dec_enc keyLen_def dest!: map_err_eq_Inr rand_Read_len)

end
