(* ===== verification/Web_Queries.thy ===== *)
theory Web_Queries
  imports Schedule_Queries
begin

text \<open>
  The statements on the scheduler's tables that the web API and the command line use: the
  listings behind the pages, the overrides of a schedule, repository connections, health and
  alerts (internal/db/gen). A listing that joins drops rows whose skill or repository is gone.
\<close>

section \<open>schedule\<close>

definition GetScheduleByID :: "uuid \<Rightarrow> sched_row stmt" where
  "GetScheduleByID i = stmt (\<lambda>w. case find_schedule w i of None \<Rightarrow> (Inl ErrNoRows, w) | Some s \<Rightarrow> (Inr s, w))"

definition ListDueSchedules :: "sched_row list stmt" where
  "ListDueSchedules = stmt (\<lambda>w. (Inr (sort_key (\<lambda>s. the (sch_next_fire_at s))
     (filter (\<lambda>s. sch_enabled s \<and> (case sch_next_fire_at s of None \<Rightarrow> False | Some t \<Rightarrow> t \<le> now_at w)) (schedules w))), w))"

text \<open>Rows ordered by several text columns, the first one most significant.\<close>

definition order_by :: "('r \<Rightarrow> string list) \<Rightarrow> 'r list \<Rightarrow> 'r list" where
  "order_by key rs = sort_key key rs"

definition ListSchedulesByOrg :: "uuid \<Rightarrow> (sched_row \<times> skill_row \<times> repo_row) list stmt" where
  "ListSchedulesByOrg org = stmt (\<lambda>w. (Inr (order_by (\<lambda>(s, k, c). [rc_owner c, rc_name c, sk_path k, sch_name s])
     (List.map_filter (join_schedule w) (filter (\<lambda>s. sch_org_id s = org) (schedules w)))), w))"

definition set_overrides :: "uuid \<Rightarrow> uuid \<Rightarrow> json \<Rightarrow> sched_row stmt" where
  "set_overrides i org j = stmt (\<lambda>w.
     case find (\<lambda>s. sch_id s = i \<and> sch_org_id s = org) (schedules w) of
       None \<Rightarrow> (Inl ErrNoRows, w)
     | Some s \<Rightarrow>
       (let upd = (\<lambda>s. s\<lparr>sch_ui_overrides_json := j, sch_updated_at := now_at w\<rparr>) in
        (Inr (upd s), w\<lparr>schedules := update_where (\<lambda>s. sch_id s = i \<and> sch_org_id s = org) upd (schedules w)\<rparr>)))"

definition SetScheduleOverrides :: "uuid \<Rightarrow> json \<Rightarrow> uuid \<Rightarrow> sched_row stmt" where
  "SetScheduleOverrides i raw org = set_overrides i org raw"

definition ClearScheduleOverrides :: "uuid \<Rightarrow> uuid \<Rightarrow> sched_row stmt" where
  "ClearScheduleOverrides i org = set_overrides i org (JObj [])"

section \<open>run, run\_event and run\_notification\<close>

type_synonym run_join = "run_row \<times> sched_row \<times> skill_row \<times> repo_row"

definition with_join :: "world \<Rightarrow> run_row \<Rightarrow> run_join option" where
  "with_join w r = map_option (\<lambda>(s, k, c). (r, s, k, c)) (join_run w r)"

definition GetRunForAdmin :: "uuid \<Rightarrow> run_join stmt" where
  "GetRunForAdmin i = stmt (\<lambda>w. case Option.bind (find_run w i) (with_join w) of
       None \<Rightarrow> (Inl ErrNoRows, w) | Some row \<Rightarrow> (Inr row, w))"

definition newest_runs :: "world \<Rightarrow> (run_join \<Rightarrow> bool) \<Rightarrow> int \<Rightarrow> run_join list" where
  "newest_runs w p limit = take (nat limit) (sort_key (\<lambda>(r, _). - run_created_at r)
     (filter p (List.map_filter (with_join w) (runs w))))"

definition ListRunsForOrg :: "uuid \<Rightarrow> int \<Rightarrow> run_join list stmt" where
  "ListRunsForOrg org limit = stmt (\<lambda>w. (Inr (newest_runs w (\<lambda>(r, _). run_org_id r = org) limit), w))"

definition ListRunsForSchedule :: "uuid \<Rightarrow> string \<Rightarrow> int \<Rightarrow> run_join list stmt" where
  "ListRunsForSchedule org name limit = stmt (\<lambda>w.
     (Inr (newest_runs w (\<lambda>(r, s, _). run_org_id r = org \<and> sch_name s = name) limit), w))"

definition ListRunEvents :: "uuid \<Rightarrow> event_row list stmt" where
  "ListRunEvents i = stmt (\<lambda>w. (Inr (sort_key ev_ts (sort_key ev_id (filter (\<lambda>e. ev_run_id e = i) (run_events w)))), w))"

definition ListRunEventsSince :: "uuid \<Rightarrow> int \<Rightarrow> event_row list stmt" where
  "ListRunEventsSince i since = stmt (\<lambda>w.
     (Inr (sort_key ev_id (filter (\<lambda>e. ev_run_id e = i \<and> since < int (ev_id e)) (run_events w))), w))"

definition ListRunNotifications :: "uuid \<Rightarrow> uuid \<Rightarrow> notif_row list stmt" where
  "ListRunNotifications i org = stmt (\<lambda>w.
     (Inr (sort_key nf_id (filter (\<lambda>n. nf_run_id n = i \<and> nf_org_id n = org) (notifications w))), w))"

section \<open>audit\_log\<close>

definition CountAuditLogByOrg :: "uuid \<Rightarrow> nat stmt" where
  "CountAuditLogByOrg org = stmt (\<lambda>w. (Inr (length (filter (\<lambda>a. au_org_id a = org) (audit_log w))), w))"

definition ListAuditLogByOrg :: "uuid \<Rightarrow> int \<Rightarrow> int \<Rightarrow> audit_row list stmt" where
  "ListAuditLogByOrg org limit offset = stmt (\<lambda>w. (Inr (take (nat limit) (drop (nat offset)
     (sort_key (\<lambda>a. - au_ts a) (rev (sort_key au_id (filter (\<lambda>a. au_org_id a = org) (audit_log w))))))), w))"

section \<open>skill and repo\_connection\<close>

definition ListSkillsByOrg :: "uuid \<Rightarrow> (skill_row \<times> repo_row) list stmt" where
  "ListSkillsByOrg org = stmt (\<lambda>w. (Inr (order_by (\<lambda>(k, c). [rc_owner c, rc_name c, sk_path k])
     (List.map_filter (\<lambda>k. map_option (\<lambda>c. (k, c)) (find_repo w (sk_repo_id k)))
       (filter (\<lambda>k. sk_org_id k = org) (skills w)))), w))"

definition ListSkillsByRepo :: "uuid \<Rightarrow> skill_row list stmt" where
  "ListSkillsByRepo repo = stmt (\<lambda>w. (Inr (order_by (\<lambda>k. [sk_path k]) (filter (\<lambda>k. sk_repo_id k = repo) (skills w))), w))"

definition GetRepoConnectionByOwnerName :: "uuid \<Rightarrow> string \<Rightarrow> string \<Rightarrow> repo_row stmt" where
  "GetRepoConnectionByOwnerName org owner name = stmt (\<lambda>w.
     case find (\<lambda>c. rc_org_id c = org \<and> rc_owner c = owner \<and> rc_name c = name) (repos w) of
       None \<Rightarrow> (Inl ErrNoRows, w) | Some c \<Rightarrow> (Inr c, w))"

definition ListRepoConnections :: "uuid \<Rightarrow> repo_row list stmt" where
  "ListRepoConnections org = stmt (\<lambda>w. (Inr (order_by (\<lambda>c. [rc_owner c, rc_name c]) (filter (\<lambda>c. rc_org_id c = org) (repos w))), w))"

text \<open>Connecting a repository again replaces its installation, branch and interval.\<close>

definition InsertRepoConnection :: "uuid \<Rightarrow> int \<Rightarrow> string \<Rightarrow> string \<Rightarrow> string \<Rightarrow> int \<Rightarrow> repo_row stmt" where
  "InsertRepoConnection org inst owner name branch interval = stmt (\<lambda>w.
     let key = (\<lambda>c. rc_org_id c = org \<and> rc_owner c = owner \<and> rc_name c = name);
         upd = (\<lambda>c. c\<lparr>rc_github_app_install_id := inst, rc_default_branch := branch, rc_sync_interval_sec := interval\<rparr>)
     in case find key (repos w) of
       Some c \<Rightarrow> (Inr (upd c), w\<lparr>repos := update_where key upd (repos w)\<rparr>)
     | None \<Rightarrow>
       (let c = \<lparr>rc_id = uuid_gen w (uuid_ctr w), rc_org_id = org, rc_github_app_install_id = inst, rc_owner = owner,
              rc_name = name, rc_default_branch = branch, rc_sync_interval_sec = interval, rc_last_synced_at = None,
              rc_last_synced_head_sha = None, rc_last_sync_error = None, rc_created_at = now_at w\<rparr>
        in (Inr c, w\<lparr>repos := repos w @ [c], uuid_ctr := Suc (uuid_ctr w)\<rparr>)))"

text \<open>Deleting a connection cascades to its skills and everything under them.\<close>

definition drop_repos :: "(repo_row \<Rightarrow> bool) \<Rightarrow> world \<Rightarrow> world" where
  "drop_repos p w = (let gone = rc_id ` set (filter p (repos w)) in
     drop_skills (\<lambda>k. sk_repo_id k \<in> gone) (w\<lparr>repos := filter (\<lambda>c. \<not> p c) (repos w)\<rparr>))"

definition DeleteRepoConnection :: "uuid \<Rightarrow> uuid \<Rightarrow> nat stmt" where
  "DeleteRepoConnection i org = stmt (\<lambda>w. let p = (\<lambda>c. rc_id c = i \<and> rc_org_id c = org) in
     (Inr (length (filter p (repos w))), drop_repos p w))"

section \<open>Health and alerts\<close>

definition CountActiveWorkers :: "uuid \<Rightarrow> nat stmt" where
  "CountActiveWorkers org = stmt (\<lambda>w. (Inr (length (remdups (List.map_filter run_runner_pid
     (filter (\<lambda>r. run_org_id r = org \<and> run_status r = ''running'') (runs w))))), w))"

definition CountQueueDepth :: "uuid \<Rightarrow> nat stmt" where
  "CountQueueDepth org = stmt (\<lambda>w. (Inr (length (filter (\<lambda>r. run_org_id r = org \<and> active_status (run_status r)) (runs w))), w))"

definition latest :: "time list \<Rightarrow> time option" where
  "latest ts = (case ts of [] \<Rightarrow> None | t # r \<Rightarrow> Some (foldr max r t))"

definition LastRepoSyncAt :: "uuid \<Rightarrow> time option stmt" where
  "LastRepoSyncAt org = stmt (\<lambda>w. (Inr (latest (List.map_filter rc_last_synced_at (filter (\<lambda>c. rc_org_id c = org) (repos w)))), w))"

definition ListRecentAutoPaused :: "uuid \<Rightarrow> time \<Rightarrow> sched_row list stmt" where
  "ListRecentAutoPaused org cutoff = stmt (\<lambda>w. (Inr (take 20 (sort_key (\<lambda>s. - the (sch_auto_paused_at s))
     (filter (\<lambda>s. sch_org_id s = org \<and> (case sch_auto_paused_at s of None \<Rightarrow> False | Some t \<Rightarrow> cutoff < t)) (schedules w)))), w))"

definition last_success :: "world \<Rightarrow> uuid \<Rightarrow> time option" where
  "last_success w sched = latest (List.map_filter run_finished_at
     (filter (\<lambda>r. run_schedule_id r = sched \<and> run_status r = ''succeeded'') (runs w)))"

definition ListSchedulesForQuietCheck :: "uuid \<Rightarrow> (sched_row \<times> time option) list stmt" where
  "ListSchedulesForQuietCheck org = stmt (\<lambda>w. (Inr (map (\<lambda>s. (s, last_success w (sch_id s)))
     (sort_key sch_name (filter (\<lambda>s. sch_org_id s = org \<and> sch_enabled s \<and> sch_auto_paused_at s = None) (schedules w)))), w))"

end
