(* ===== verification/Copilot.thy ===== *)
theory Copilot
  imports Secret_Store Web_Queries
begin

text \<open>
  Copilot tokens (internal/webapi: copilot_token.go, copilot_connect.go, copilot_github.go). The
  short-lived token is cached in the secret store; the functions work on any store, so they
  take the operations of one and a clock. The device flows are a table in the memory of the
  handler.
\<close>

section \<open>Minting\<close>

datatype copilot_err = ErrCopilotReauthRequired | CopilotFailed string

definition copilotIDETokenURL :: string where
  "copilotIDETokenURL = ''https://api.github.com/copilot_internal/v2/token''"

definition trim_right_slash :: "string \<Rightarrow> string" where
  "trim_right_slash s = rev (dropWhile (\<lambda>c. c = CHR ''/'') (rev s))"

definition mintIDEToken :: "web_libs \<Rightarrow> string \<Rightarrow> string option \<Rightarrow> copilot_err + (string \<times> int)" where
  "mintIDEToken L oauth base =
     (let url = (case base of None \<Rightarrow> copilotIDETokenURL | Some b \<Rightarrow> trim_right_slash b @ ''/copilot_internal/v2/token'') in
      case wl_http L ''GET'' url [(''Authorization'', ''token '' @ oauth), (''Accept'', ''application/json''),
          (''Editor-Version'', ''vscode/1.85.1''), (''Editor-Plugin-Version'', ''copilot/1.155.0''),
          (''User-Agent'', ''GithubCopilot/1.155.0'')] [] of
        None \<Rightarrow> Inl (CopilotFailed ''mint request'')
      | Some (status, body) \<Rightarrow>
        if status = 401 \<or> status = 403 then Inl ErrCopilotReauthRequired
        else if status \<noteq> 200 then Inl (CopilotFailed ''mint failed'')
        else case Option.bind (wl_decode L body) (\<lambda>j. Option.bind (struct_fields j) (\<lambda>kvs.
            Option.bind (str_in ''token'' kvs) (\<lambda>t. Option.bind (int64_in ''expires_at'' kvs) (\<lambda>e. Some (t, e))))) of
          None \<Rightarrow> Inl (CopilotFailed ''mint: malformed JSON from GitHub'')
        | Some (t, e) \<Rightarrow> if t = [] then Inl (CopilotFailed ''mint: GitHub returned no token'') else Inr (t, e))"

section \<open>The cached token\<close>

text \<open>An expiry is in Unix seconds; the result of reading is \<open>None\<close> for a token to be minted anew.\<close>

definition readCachedIDEToken :: "'s secret_store_if \<Rightarrow> ('s \<Rightarrow> time) \<Rightarrow> string \<Rightarrow> ('s, copilot_err, (string \<times> int) option) sx" where
  "readCachedIDEToken S clock pre =
     bind (attempt (ss_get S (pre @ ''-ide-token''))) (\<lambda>r1. case r1 of
       Inl _ \<Rightarrow> ret None
     | Inr tok \<Rightarrow> if tok = [] then ret None
       else bind (attempt (ss_get S (pre @ ''-ide-expiry''))) (\<lambda>r2. case r2 of
         Inl _ \<Rightarrow> ret None
       | Inr expStr \<Rightarrow> if expStr = [] then ret None
         else case ParseInt 64 expStr of
           None \<Rightarrow> ret None
         | Some exp \<Rightarrow> bind (gets clock) (\<lambda>now.
             ret (if exp * second - now \<le> 60 * second then None else Some (tok, exp)))))"

definition writeCachedIDEToken :: "'s secret_store_if \<Rightarrow> string \<Rightarrow> string \<Rightarrow> int \<Rightarrow> ('s, secret_err, unit) sx" where
  "writeCachedIDEToken S pre tok exp =
     bind (ss_put S (pre @ ''-ide-token'') tok) (\<lambda>_. ss_put S (pre @ ''-ide-expiry'') (itoa exp))"

definition ResolveCopilotToken ::
  "web_libs \<Rightarrow> 's secret_store_if \<Rightarrow> ('s \<Rightarrow> time) \<Rightarrow> string \<Rightarrow> string option \<Rightarrow> ('s, copilot_err, string \<times> int) sx" where
  "ResolveCopilotToken L S clock pre base =
     bind (readCachedIDEToken S clock pre) (\<lambda>cached. case cached of
       Some te \<Rightarrow> ret te
     | None \<Rightarrow>
       bind (map_err (\<lambda>_. CopilotFailed ''read oauth access token'') (ss_get S (pre @ ''-access-token''))) (\<lambda>oauth.
       if oauth = [] then throw ErrCopilotReauthRequired
       else case mintIDEToken L oauth base of
         Inl e \<Rightarrow> throw e
       | Inr (tok, exp) \<Rightarrow>
         bind (attempt (writeCachedIDEToken S pre tok exp)) (\<lambda>_. ret (tok, exp))))"

section \<open>The runner's endpoint\<close>

definition token_refs_prefix :: "json \<Rightarrow> string option" where
  "token_refs_prefix j = Option.bind (struct_fields j) (str_in ''prefix'')"

definition copilot_token_get :: "web_deps \<Rightarrow> web secret_store_if \<Rightarrow> web_handler" where
  "copilot_token_get deps store r = (case uuid_parse (wl_ids (wd_libs deps)) (path_value ''id'' r) of
       None \<Rightarrow> throw (writeErr 400 ''invalid run id'' ''bad_request'')
     | Some runID \<Rightarrow>
       bind (map_err (\<lambda>_. writeErr 404 ''run not found'' ''not_found'') (on_db (GetRunForAdmin runID))) (\<lambda>(run, _).
       bind (map_err (\<lambda>_. writeErr 500 ''schedule not found'' ''internal'') (on_db (GetScheduleByID (run_schedule_id run)))) (\<lambda>sched.
       case sch_copilot_token_refs_json sched of
         None \<Rightarrow> throw (writeErr 400 ''schedule has no copilot token refs'' ''bad_request'')
       | Some refs \<Rightarrow>
         (case token_refs_prefix refs of
            None \<Rightarrow> throw (writeErr 500 ''invalid copilot token refs'' ''internal'')
          | Some pre \<Rightarrow>
            if pre = [] then throw (writeErr 500 ''invalid copilot token refs'' ''internal'')
            else bind (map_err (\<lambda>e. if e = ErrCopilotReauthRequired
                then writeErr 401 ''copilot oauth token revoked or missing; re-run `cronfoundry admin connect-copilot`'' ''copilot_token_reauth''
                else writeErr 503 ''copilot token mint failed'' ''copilot_token_mint'')
              (ResolveCopilotToken (wd_libs deps) store (\<lambda>w. clock_at (ww_db w) (stmt_ctr (ww_db w))) pre None)) (\<lambda>(tok, exp).
              ret (writeJSON 200 (JObj [(''access_token'', JStr tok), (''expires_at'', JStr (format_rfc3339 (exp * second)))])))))))"

section \<open>Device flows\<close>

text \<open>
  The flows of the handler, by device code, beside the web state. The eviction timer is a
  separate action.
\<close>

record device_flow =
  df_prefix :: string
  df_expires_at :: time

type_synonym 'a flow_sx = "((string \<times> device_flow) list \<times> web, web_response, 'a) sx"

definition on_web :: "(web, 'e, 'a) sx \<Rightarrow> ('f \<times> web, 'e, 'a) sx" where
  "on_web m = (\<lambda>(fl, w). case m w of (r, w') \<Rightarrow> (r, (fl, w')))"

definition copilotClientID :: string where
  "copilotClientID = ''Iv1.b507a08c87ecfe98''"

definition copilot_github_base :: "web_deps \<Rightarrow> string" where
  "copilot_github_base deps = (if wd_github_base deps \<noteq> [] then trim_right_slash (wd_github_base deps) else ''https://github.com'')"

definition put_flow :: "string \<Rightarrow> device_flow \<Rightarrow> unit flow_sx" where
  "put_flow code d = modify (\<lambda>(fl, w). (AList.update code d fl, w))"

definition drop_flow :: "string \<Rightarrow> unit flow_sx" where
  "drop_flow code = modify (\<lambda>(fl, w). (AList.delete code fl, w))"

record device_code_response =
  dc_device_code :: string
  dc_user_code :: string
  dc_verification_uri :: string
  dc_expires_in :: int

definition decode_device_code :: "json \<Rightarrow> device_code_response option" where
  "decode_device_code j = Option.bind (struct_fields j) (\<lambda>kvs.
     Option.bind (str_in ''device_code'' kvs) (\<lambda>d. Option.bind (str_in ''user_code'' kvs) (\<lambda>u.
     Option.bind (str_in ''verification_uri'' kvs) (\<lambda>v. Option.bind (int64_in ''expires_in'' kvs) (\<lambda>e.
     Option.bind (int64_in ''interval'' kvs) (\<lambda>_.
     Some \<lparr>dc_device_code = d, dc_user_code = u, dc_verification_uri = v, dc_expires_in = e\<rparr>))))))"

definition flow_now :: "('f \<times> web, 'e, time) sx" where
  "flow_now = gets (\<lambda>(_, w). clock_at (ww_db w) (stmt_ctr (ww_db w)))"

definition startFlow :: "web_deps \<Rightarrow> web_request \<Rightarrow> web_response flow_sx" where
  "startFlow deps r =
     (case Option.bind (wl_decode (wd_libs deps) (wr_body r)) token_refs_prefix of
        None \<Rightarrow> throw (writeErr 400 ''prefix is required'' ''bad_request'')
      | Some pre \<Rightarrow>
        if pre = [] then throw (writeErr 400 ''prefix is required'' ''bad_request'')
        else case wl_http (wd_libs deps) ''POST'' (copilot_github_base deps @ ''/login/device/code'')
            [(''Accept'', ''application/json''), (''Content-Type'', ''application/x-www-form-urlencoded'')]
            (''client_id='' @ copilotClientID @ ''&scope=copilot'') of
          None \<Rightarrow> throw (writeErr 502 ''failed to contact GitHub'' ''upstream_error'')
        | Some (_, body) \<Rightarrow>
          (case Option.bind (wl_decode (wd_libs deps) body) decode_device_code of
             None \<Rightarrow> throw (writeErr 502 ''unexpected response from GitHub'' ''upstream_error'')
           | Some d \<Rightarrow>
             if dc_device_code d = [] then throw (writeErr 502 ''unexpected response from GitHub'' ''upstream_error'')
             else bind flow_now (\<lambda>now.
               bind (put_flow (dc_device_code d) \<lparr>df_prefix = pre, df_expires_at = now + dc_expires_in d * second\<rparr>) (\<lambda>_.
               ret (writeJSON 200 (JObj [(''device_code'', JStr (dc_device_code d)), (''user_code'', JStr (dc_user_code d)),
                 (''verification_uri'', JStr (dc_verification_uri d)), (''expires_in'', JNum (dc_expires_in d))]))))))"

definition evict_flow :: "string \<Rightarrow> unit flow_sx" where
  "evict_flow code = drop_flow code"

record token_response =
  tr_access_token :: string
  tr_refresh_token :: string
  tr_expires_in :: int
  tr_error :: string

definition decode_token_response :: "json \<Rightarrow> token_response option" where
  "decode_token_response j = Option.bind (struct_fields j) (\<lambda>kvs.
     Option.bind (str_in ''access_token'' kvs) (\<lambda>a. Option.bind (str_in ''refresh_token'' kvs) (\<lambda>f.
     Option.bind (int64_in ''expires_in'' kvs) (\<lambda>e. Option.bind (str_in ''error'' kvs) (\<lambda>x.
     Some \<lparr>tr_access_token = a, tr_refresh_token = f, tr_expires_in = e, tr_error = x\<rparr>)))))"

definition store_tokens :: "web secret_store_if \<Rightarrow> string \<Rightarrow> token_response \<Rightarrow> time \<Rightarrow> unit web_sx" where
  "store_tokens store pre t now =
     bind (map_err (\<lambda>_. writeErr 500 ''failed to store access token'' ''internal'') (ss_put store (pre @ ''-access-token'') (tr_access_token t))) (\<lambda>_.
     bind (map_err (\<lambda>_. writeErr 500 ''failed to store refresh token'' ''internal'') (ss_put store (pre @ ''-refresh-token'') (tr_refresh_token t))) (\<lambda>_.
     map_err (\<lambda>_. writeErr 500 ''failed to store expiry'' ''internal'')
       (ss_put store (pre @ ''-expiry'') (itoa ((now + tr_expires_in t * second) div second)))))"

definition status_json :: "string \<Rightarrow> (string \<times> json) list \<Rightarrow> web_response" where
  "status_json st kvs = writeJSON 200 (JObj ((''status'', JStr st) # kvs))"

definition copilot_poll :: "web_deps \<Rightarrow> web secret_store_if \<Rightarrow> web_request \<Rightarrow> web_response flow_sx" where
  "copilot_poll deps store r =
     (let code = path_value ''device_code'' r in
      bind (gets (\<lambda>(fl, _). map_of fl code)) (\<lambda>found. case found of
        None \<Rightarrow> throw (writeErr 404 (''unknown device_code '' @ [CHR 0xE2, CHR 0x80, CHR 0x94] @ '' start a new flow'') ''not_found'')
      | Some flow \<Rightarrow> bind flow_now (\<lambda>now.
        if now > df_expires_at flow then
          bind (drop_flow code) (\<lambda>_. ret (status_json ''error'' [(''error'', JStr ''expired'')]))
        else case wl_http (wd_libs deps) ''POST'' (copilot_github_base deps @ ''/login/oauth/access_token'')
            [(''Accept'', ''application/json''), (''Content-Type'', ''application/x-www-form-urlencoded'')]
            (Values_Encode [(''client_id'', copilotClientID), (''device_code'', code),
              (''grant_type'', ''urn:ietf:params:oauth:grant-type:device_code'')]) of
          None \<Rightarrow> throw (writeErr 502 ''failed to contact GitHub'' ''upstream_error'')
        | Some (_, body) \<Rightarrow>
          (case Option.bind (wl_decode (wd_libs deps) body) decode_token_response of
             None \<Rightarrow> throw (writeErr 502 ''unexpected response from GitHub'' ''upstream_error'')
           | Some t \<Rightarrow>
             if tr_error t = ''authorization_pending'' \<or> tr_error t = ''slow_down'' then ret (status_json ''pending'' [])
             else if tr_error t \<noteq> [] then
               bind (drop_flow code) (\<lambda>_. ret (status_json ''error'' [(''error'', JStr (tr_error t))]))
             else bind flow_now (\<lambda>now2.
               bind (on_web (store_tokens store (df_prefix flow) t now2)) (\<lambda>_.
               bind (drop_flow code) (\<lambda>_. ret (status_json ''success'' []))))))))"

text \<open>
  The token cache, proved for any secret store that keeps what it is given and answers reads:
  what was cached is used again until a minute before it expires. And two things the routes do
  not do.
\<close>

section \<open>The cache over a store\<close>

locale readable_store = secret_store S contents for S :: "'s secret_store_if" and contents +
  fixes ok :: "'s \<Rightarrow> bool"
  assumes get_live: "ok s \<Longrightarrow> contents s n = Some v \<Longrightarrow> fst (ss_get S n s) = Inr v"
    and get_ok: "ok s \<Longrightarrow> ok (snd (ss_get S n s))"
begin

lemma cached_contents:
  assumes "writeCachedIDEToken S pre tok exp s = (Inr (), s')"
  shows "contents s' (pre @ ''-ide-token'') = Some tok" "contents s' (pre @ ''-ide-expiry'') = Some (itoa exp)"
proof -
  obtain s1 where "ss_put S (pre @ ''-ide-token'') tok s = (Inr (), s1)" "ss_put S (pre @ ''-ide-expiry'') (itoa exp) s1 = (Inr (), s')"
    using assms by (auto simp: writeCachedIDEToken_def bind_eq_Inr_iff)
  then have "contents s' = (contents s)(pre @ ''-ide-token'' \<mapsto> tok, pre @ ''-ide-expiry'' \<mapsto> itoa exp)"
    using put_done by metis
  then show "contents s' (pre @ ''-ide-token'') = Some tok" "contents s' (pre @ ''-ide-expiry'') = Some (itoa exp)" by simp_all
qed

lemma get_run: "ok s \<Longrightarrow> contents s n = Some v \<Longrightarrow> \<exists>s'. ss_get S n s = (Inr v, s') \<and> ok s' \<and> contents s' = contents s"
  using get_live [of s n v] get_ok [of s n] get_keeps [of n s] by (cases "ss_get S n s") auto

lemma read_cached:
  assumes c: "contents t (pre @ ''-ide-token'') = Some tok" "contents t (pre @ ''-ide-expiry'') = Some (itoa exp)"
    and t: "ok t" "tok \<noteq> []" "int64_range exp"
  defines "u \<equiv> snd (ss_get S (pre @ ''-ide-expiry'') (snd (ss_get S (pre @ ''-ide-token'') t)))"
  shows "readCachedIDEToken S clock pre t = (Inr (if exp * second - clock u \<le> 60 * second then None else Some (tok, exp)), u)"
proof -
  obtain t1 where 1: "ss_get S (pre @ ''-ide-token'') t = (Inr tok, t1)" "ok t1" "contents t1 = contents t"
    using get_run [OF t(1) c(1)] by blast
  obtain t2 where 2: "ss_get S (pre @ ''-ide-expiry'') t1 = (Inr (itoa exp), t2)"
    using get_run [OF 1(2), of "pre @ ''-ide-expiry''"] c(2) 1(3) by auto
  have "itoa exp \<noteq> []" using digits_digit by (simp add: itoa_def)
  moreover have "ParseInt 64 (itoa exp) = Some exp" using t(3) by (intro ParseInt_itoa) (simp_all add: int64_range_def)
  ultimately show ?thesis using 1 2 t(2)
    by (simp add: readCachedIDEToken_def u_def bind_def attempt_apply)
qed

lemma resolve_cached:
  assumes w: "writeCachedIDEToken S pre tok exp s = (Inr (), s')" and c: "contents t = contents s'"
    and t: "ok t" "tok \<noteq> []" "int64_range exp"
  defines "u \<equiv> snd (ss_get S (pre @ ''-ide-expiry'') (snd (ss_get S (pre @ ''-ide-token'') t)))"
  assumes young: "60 * second < exp * second - clock u"
  shows "ResolveCopilotToken L S clock pre base t = (Inr (tok, exp), u)"
  using read_cached [of t pre tok exp clock] cached_contents [OF w] c t young
  by (simp add: ResolveCopilotToken_def u_def)

end

lemma stmt_calm: "(\<And>v. calm_web v \<Longrightarrow> calm_web (snd (f v))) \<Longrightarrow> calm_web w \<Longrightarrow> calm_web (snd (web_stmt f w))"
  by (simp add: web_stmt_run)

lemma es_Get_calm_kept: "calm_web w \<Longrightarrow> calm_web (snd (es_Get st n w))"
proof -
  have "keeps (inv_rel calm_web) (GetSecretByName org m)" for org m
    by (rule keeps_inv_relI) (auto simp: GetSecretByName_def intro!: stmt_calm split: option.split)
  moreover have "keeps (inv_rel calm_web) (TouchSecret i)" for i
    by (rule keeps_inv_relI) (unfold TouchSecret_def, rule stmt_calm, simp_all add: calm_web_def)
  moreover have "keeps (inv_rel calm_web) (lift_sum f x)" for f :: "string \<Rightarrow> secret_err" and x :: "string + string"
    by (rule keeps_inv_relI) (auto simp: lift_sum_def split: sum.split)
  ultimately have "keeps (inv_rel calm_web) (es_Get st n)"
    unfolding es_Get_def by (intro inv.keeps_rules)
  then show "calm_web w \<Longrightarrow> calm_web (snd (es_Get st n w))" by (rule keeps_inv_relD)
qed

lemma envelope_readable_store:
  assumes "gcm_ok (es_gcm st)"
  shows "readable_store (NewEnvelopePostgresStore st) (es_contents st) calm_web"
  by (intro readable_store.intro readable_store_axioms.intro envelope_secret_store [OF assms])
     (simp_all add: NewEnvelopePostgresStore_def es_Get_calm es_Get_calm_kept)

interpretation sample: readable_store "NewEnvelopePostgresStore sample_store" "es_contents sample_store" calm_web
  by (rule envelope_readable_store) (simp add: sample_store_def sample_gcm_ok)

text \<open>
  A Copilot token that was cached is returned again, with its expiry and without asking
  GitHub, whatever GitHub would answer, as long as more than 60 seconds of it remain when it
  is read; with 60 seconds or less the cache reports no token. This holds of the envelope
  store, through the laws of a readable secret store.
\<close>

theorem copilot_token_reused:
  assumes G: "gcm_ok (es_gcm st)"
    and w: "writeCachedIDEToken (NewEnvelopePostgresStore st) pre tok exp w = (Inr (), w')" "es_contents st t = es_contents st w'"
    and t: "calm_web t" "tok \<noteq> []" "int64_range exp"
  shows "\<exists>u.
     readCachedIDEToken (NewEnvelopePostgresStore st) clock pre t = (Inr (if exp * second - clock u \<le> 60 * second then None else Some (tok, exp)), u) \<and>
     (60 * second < exp * second - clock u \<longrightarrow>
       ResolveCopilotToken L (NewEnvelopePostgresStore st) clock pre base t = (Inr (tok, exp), u))"
proof -
  note store = envelope_readable_store [OF G]
  let ?S = "NewEnvelopePostgresStore st"
  let ?u = "snd (ss_get ?S (pre @ ''-ide-expiry'') (snd (ss_get ?S (pre @ ''-ide-token'') t)))"
  note c = readable_store.cached_contents [OF store w(1)]
  show ?thesis
    using readable_store.read_cached [OF store, of t pre tok exp clock] readable_store.resolve_cached [OF store w t, of clock L base] c w(2) t
    by (intro exI [of _ ?u]) auto
qed

theorem copilot_token_reused_witness:
  "\<exists>w' u. writeCachedIDEToken (NewEnvelopePostgresStore sample_store) ''cp'' ''tok'' 5000 (sample_web []) = (Inr (), w') \<and>
     ResolveCopilotToken L (NewEnvelopePostgresStore sample_store) (\<lambda>_. 0) ''cp'' None w' = (Inr (''tok'', 5000), u)"
proof -
  have m: "length (es_master sample_store) = 32" "gcm_ok (es_gcm sample_store)" by (simp_all add: sample_store_def sample_gcm_ok)
  have w0: "calm_web (sample_web [])" "org_exists (sample_web []) (es_org_id sample_store)" "versions_below 2 (sample_web [])"
    by (simp_all add: sample_store_def calm_web_def sample_web_def sample_world_def org_exists_def versions_below_def)
  obtain w1 where w1: "es_Put sample_store ''cp-ide-token'' ''tok'' (sample_web []) = (Inr (), w1)" "calm_web w1" "org_exists w1 (es_org_id sample_store)" "versions_below 3 w1"
    using es_Put_calm [OF m(1) w0, of "''cp-ide-token''" "''tok''"] w0(2) by (auto simp: org_exists_def)
  obtain w' where w': "es_Put sample_store ''cp-ide-expiry'' (itoa 5000) w1 = (Inr (), w')" "calm_web w'"
    using es_Put_calm [OF m(1) w1(2-4), of "''cp-ide-expiry''" "itoa 5000"] by auto
  have w: "writeCachedIDEToken (NewEnvelopePostgresStore sample_store) ''cp'' ''tok'' 5000 (sample_web []) = (Inr (), w')" "calm_web w'"
    using w1(1) w' by (simp_all add: writeCachedIDEToken_def NewEnvelopePostgresStore_def bind_def)
  show ?thesis using w(1) copilot_token_reused [OF m(2) w(1) refl w(2), of "\<lambda>_. 0" L None] by (auto simp: int64_range_def second_def)
qed

section \<open>What the routes do not check\<close>

text \<open>
  The endpoint that hands out Copilot tokens looks at nothing but the run identifier of the
  path: two requests that differ in their cookies, their headers or their sender get the same
  answer, so no session and no runner token is required.
\<close>

theorem copilot_token_public:
  "copilot_token_get deps store (r\<lparr>wr_cookies := cs, wr_headers := hs, wr_remote_addr := a\<rparr>) = copilot_token_get deps store r"
  by (simp add: copilot_token_get_def path_value_def)

text \<open>
  A missing OAuth token is not reported as one: when the store has no access token for the
  prefix, and no cached token, resolving fails with an ordinary error, which the endpoint
  answers with 503 and not with the 401 that asks for a new authorization; only a token
  stored as the empty string gives 401.
\<close>

theorem missing_oauth_token_is_503:
  assumes c: "ss_get S (pre @ ''-ide-token'') s = (Inl e, s1)"
  shows "ss_get S (pre @ ''-access-token'') s1 = (Inl ErrNotFound, s2) \<Longrightarrow>
       ResolveCopilotToken L S clock pre base s = (Inl (CopilotFailed ''read oauth access token''), s2)"
    and "ss_get S (pre @ ''-access-token'') s1 = (Inr [], s2) \<Longrightarrow>
       ResolveCopilotToken L S clock pre base s = (Inl ErrCopilotReauthRequired, s2)"
  using c by (simp_all add: ResolveCopilotToken_def readCachedIDEToken_def attempt_apply map_err_def bind_def)

end
