(* ===== verification/Web_Pages.thy ===== *)
theory Web_Pages
  imports Session Web_Queries Scheduler Llm
begin

text \<open>
  The pages of the web API that list what the store holds, and the two that connect and
  disconnect a repository (internal/webapi: dto.go, repos.go, skills.go, runs.go,
  run_notifications.go, audit.go, alerts.go, system.go). A null in a response is a missing
  value of the row. Durations are in nanoseconds, where a difference of times saturates and a
  product wraps around.
\<close>

section \<open>Wire shapes\<close>

definition null_or :: "('a \<Rightarrow> json) \<Rightarrow> 'a option \<Rightarrow> json" where
  "null_or f x = (case x of None \<Rightarrow> JNull | Some v \<Rightarrow> f v)"

definition toISO :: "web_libs \<Rightarrow> time \<Rightarrow> json" where
  "toISO L t = JStr (wl_iso L t)"

definition toISOPtr :: "web_libs \<Rightarrow> time option \<Rightarrow> json" where
  "toISOPtr L t = null_or (toISO L) t"

definition uuidString :: "web_libs \<Rightarrow> uuid \<Rightarrow> json" where
  "uuidString L i = JStr (uuid_string (wl_ids L) i)"

definition listed :: "string \<Rightarrow> (uuid \<Rightarrow> 'a list stmt) \<Rightarrow> ('a \<Rightarrow> json) \<Rightarrow> web_response web_sx" where
  "listed msg query dto =
     bind (load_org ''failed to load org'') (\<lambda>org.
     bind (map_err (\<lambda>_. writeErr 500 msg ''internal'') (on_db (query (og_id org)))) (\<lambda>rows.
     ret (writeJSON 200 (JArr (map dto rows)))))"

section \<open>Repositories\<close>

definition repoToDTO :: "web_libs \<Rightarrow> repo_row \<Rightarrow> json" where
  "repoToDTO L c = JObj [(''id'', uuidString L (rc_id c)), (''org_id'', uuidString L (rc_org_id c)),
     (''github_app_install_id'', JNum (rc_github_app_install_id c)), (''owner'', JStr (rc_owner c)), (''name'', JStr (rc_name c)),
     (''default_branch'', JStr (rc_default_branch c)), (''sync_interval_sec'', JNum (rc_sync_interval_sec c)),
     (''last_synced_at'', toISOPtr L (rc_last_synced_at c)), (''last_sync_error'', null_or JStr (rc_last_sync_error c)),
     (''created_at'', toISO L (rc_created_at c))]"

definition repos_list :: "web_deps \<Rightarrow> session_claims \<Rightarrow> web_handler" where
  "repos_list deps claims r = listed ''failed to list repos'' ListRepoConnections (repoToDTO (wd_libs deps))"

record connect_request =
  cr_install_id :: int
  cr_owner :: string
  cr_name :: string
  cr_default_branch :: string

definition decode_connect :: "json \<Rightarrow> connect_request option" where
  "decode_connect j = Option.bind (struct_fields j) (\<lambda>kvs.
     Option.bind (int64_in ''install_id'' kvs) (\<lambda>i. Option.bind (str_in ''owner'' kvs) (\<lambda>ow.
     Option.bind (str_in ''name'' kvs) (\<lambda>n. Option.bind (str_in ''default_branch'' kvs) (\<lambda>b.
     Some \<lparr>cr_install_id = i, cr_owner = ow, cr_name = n, cr_default_branch = b\<rparr>)))))"

definition repo_entry :: "uuid \<Rightarrow> string \<Rightarrow> uuid \<Rightarrow> (string \<times> json) list option \<Rightarrow> audit_entry" where
  "repo_entry org action i detail = \<lparr>ae_org_id = org, ae_actor = [], ae_action = action, ae_target_kind = ''repo'',
     ae_target_id = Some i, ae_detail = detail\<rparr>"

definition repos_connect :: "web_deps \<Rightarrow> session_claims \<Rightarrow> web_handler" where
  "repos_connect deps claims r =
     bind (load_org ''failed to load org'') (\<lambda>org.
     case Option.bind (wl_decode (wd_libs deps) (wr_body r)) decode_connect of
       None \<Rightarrow> throw (writeErr 400 ''invalid request body'' ''bad_request'')
     | Some req \<Rightarrow>
       if cr_owner req = [] \<or> cr_name req = [] then throw (writeErr 400 ''owner and name are required'' ''bad_request'')
       else bind (map_err (\<lambda>_. writeErr 500 ''failed to connect repo'' ''internal'')
           (on_db (InsertRepoConnection (og_id org) (cr_install_id req) (cr_owner req) (cr_name req)
             (if cr_default_branch req = [] then ''main'' else cr_default_branch req) 300))) (\<lambda>repo.
         bind (auditLog (sc_login claims) (repo_entry (og_id org) ''repo.connect'' (rc_id repo)
           (Some [(''owner'', JStr (rc_owner repo)), (''name'', JStr (rc_name repo)),
             (''install_id'', JNum (rc_github_app_install_id repo))]))) (\<lambda>_.
         ret (writeJSON 201 (repoToDTO (wd_libs deps) repo)))))"

definition repos_disconnect :: "web_deps \<Rightarrow> session_claims \<Rightarrow> web_handler" where
  "repos_disconnect deps claims r =
     bind (load_org ''failed to load org'') (\<lambda>org.
     case uuid_parse (wl_ids (wd_libs deps)) (path_value ''id'' r) of
       None \<Rightarrow> throw (writeErr 400 ''invalid repo id'' ''bad_request'')
     | Some i \<Rightarrow>
       bind (map_err (\<lambda>_. writeErr 500 ''failed to delete repo'' ''internal'') (on_db (DeleteRepoConnection i (og_id org)))) (\<lambda>n.
       if n = 0 then throw (writeErr 404 ''repo not found'' ''not_found'')
       else bind (auditLog (sc_login claims) (repo_entry (og_id org) ''repo.disconnect'' i None)) (\<lambda>_. ret (bare_status 204))))"

section \<open>Skills and runs\<close>

definition skillRowToDTO :: "web_libs \<Rightarrow> skill_row \<times> repo_row \<Rightarrow> json" where
  "skillRowToDTO L row = (case row of (k, c) \<Rightarrow>
     JObj [(''id'', uuidString L (sk_id k)), (''repo_id'', uuidString L (sk_repo_id k)), (''path'', JStr (sk_path k)),
       (''name'', JStr (sk_name k)), (''current_sha'', JStr (sk_current_sha k)), (''updated_at'', toISO L (sk_updated_at k)),
       (''owner'', JStr (rc_owner c)), (''repo_name'', JStr (rc_name c))])"

definition skills_list :: "web_deps \<Rightarrow> session_claims \<Rightarrow> web_handler" where
  "skills_list deps claims r = listed ''failed to list skills'' ListSkillsByOrg (skillRowToDTO (wd_libs deps))"

definition run_summary :: "web_libs \<Rightarrow> run_join \<Rightarrow> (string \<times> json) list" where
  "run_summary L row = (case row of (r, s, k, c) \<Rightarrow>
     [(''id'', uuidString L (run_id r)), (''status'', JStr (run_status r)), (''fire_reason'', JStr (run_fire_reason r)),
      (''actor'', null_or JStr (run_actor r)), (''started_at'', toISOPtr L (run_started_at r)),
      (''finished_at'', toISOPtr L (run_finished_at r)), (''duration_ms'', null_or JNum (run_duration_ms r)),
      (''error_kind'', null_or JStr (run_error_kind r)), (''error_msg'', null_or JStr (run_error_msg r)),
      (''created_at'', toISO L (run_created_at r)), (''schedule_name'', JStr (sch_name s)), (''skill_path'', JStr (sk_path k)),
      (''owner'', JStr (rc_owner c)), (''repo_name'', JStr (rc_name c))])"

definition runSummaryRowToDTO :: "web_libs \<Rightarrow> run_join \<Rightarrow> json" where
  "runSummaryRowToDTO L row = JObj (run_summary L row)"

definition runDetailRowToDTO :: "web_libs \<Rightarrow> run_join \<Rightarrow> json" where
  "runDetailRowToDTO L row = JObj (run_summary L row @
     [(''tokens_in'', null_or JNum (run_tokens_in (fst row))), (''tokens_out'', null_or JNum (run_tokens_out (fst row))),
      (''cost_cents'', null_or JNum (run_cost_cents (fst row))),
      (''writeback_commit_sha'', null_or JStr (run_writeback_commit_sha (fst row)))])"

definition runs_limit :: "web_request \<Rightarrow> int" where
  "runs_limit r = (case ParseInt 64 (query_get ''limit'' r) of
       None \<Rightarrow> 50
     | Some n \<Rightarrow> if 0 < n \<and> n \<le> 200 then n else 50)"

definition runs_list :: "web_deps \<Rightarrow> session_claims \<Rightarrow> web_handler" where
  "runs_list deps claims r =
     listed ''failed to list runs'' (\<lambda>org. ListRunsForOrg org (runs_limit r)) (runSummaryRowToDTO (wd_libs deps))"

definition runs_get :: "web_deps \<Rightarrow> session_claims \<Rightarrow> web_handler" where
  "runs_get deps claims r = (case uuid_parse (wl_ids (wd_libs deps)) (path_value ''id'' r) of
       None \<Rightarrow> throw (writeErr 400 ''invalid run id'' ''bad_request'')
     | Some i \<Rightarrow>
       bind (map_err (\<lambda>e. if e = ErrNoRows then writeErr 404 ''run not found'' ''not_found''
                          else writeErr 500 ''failed to load run'' ''internal'') (on_db (GetRunForAdmin i))) (\<lambda>row.
       ret (writeJSON 200 (runDetailRowToDTO (wd_libs deps) row))))"

definition runNotificationToDTO :: "web_libs \<Rightarrow> notif_row \<Rightarrow> json" where
  "runNotificationToDTO L n = JObj [(''id'', JNum (int (nf_id n))), (''run_id'', uuidString L (nf_run_id n)),
     (''kind'', JStr (nf_kind n)), (''target'', JStr (nf_target n)), (''status'', JStr (nf_status n)),
     (''reason'', null_or JStr (nf_reason n)), (''created_at'', toISO L (nf_created_at n))]"

definition run_notifications_list :: "web_deps \<Rightarrow> session_claims \<Rightarrow> web_handler" where
  "run_notifications_list deps claims r = (case uuid_parse (wl_ids (wd_libs deps)) (path_value ''id'' r) of
       None \<Rightarrow> throw (writeErr 400 ''invalid run id'' ''bad_request'')
     | Some i \<Rightarrow>
       bind (load_org ''load org'') (\<lambda>org.
       bind (map_err (\<lambda>_. writeErr 500 ''failed to list notifications'' ''internal'') (on_db (ListRunNotifications i (og_id org)))) (\<lambda>rows.
       ret (writeJSON 200 (JArr (map (runNotificationToDTO (wd_libs deps)) rows))))))"

section \<open>Audit log\<close>

text \<open>A field with omitempty is left out when its text is empty.\<close>

definition omit_empty :: "string \<Rightarrow> string \<Rightarrow> (string \<times> json) list" where
  "omit_empty k s = (if s = [] then [] else [(k, JStr s)])"

definition auditDefaultLimit :: int where "auditDefaultLimit = 100"
definition auditMaxLimit :: int where "auditMaxLimit = 500"

definition audit_limit :: "web_request \<Rightarrow> int" where
  "audit_limit r = (case ParseInt 32 (query_get ''limit'' r) of
       None \<Rightarrow> auditDefaultLimit
     | Some n \<Rightarrow> if 0 < n then min n auditMaxLimit else auditDefaultLimit)"

definition audit_offset :: "web_request \<Rightarrow> int" where
  "audit_offset r = (case ParseInt 32 (query_get ''offset'' r) of None \<Rightarrow> 0 | Some n \<Rightarrow> if 0 \<le> n then n else 0)"

definition auditEntry :: "web_libs \<Rightarrow> audit_row \<Rightarrow> json" where
  "auditEntry L a = JObj ([(''id'', JNum (int (au_id a))), (''ts'', JStr (format_rfc3339 (au_ts a)))] @
     omit_empty ''actor'' (case au_actor a of None \<Rightarrow> [] | Some s \<Rightarrow> s) @ [(''action'', JStr (au_action a))] @
     omit_empty ''target_kind'' (case au_target_kind a of None \<Rightarrow> [] | Some s \<Rightarrow> s) @
     omit_empty ''target_id'' (case au_target_id a of None \<Rightarrow> [] | Some i \<Rightarrow> uuid_string (wl_ids L) i) @
     [(''detail'', au_detail_json a)])"

definition audit_list :: "web_deps \<Rightarrow> session_claims \<Rightarrow> web_handler" where
  "audit_list deps claims r = listed ''failed to list audit log''
     (\<lambda>org. ListAuditLogByOrg org (audit_limit r) (audit_offset r)) (auditEntry (wd_libs deps))"

section \<open>Alerts\<close>

definition time_Sub :: "time \<Rightarrow> time \<Rightarrow> int" where
  "time_Sub a b = max (- (2 ^ 63)) (min (2 ^ 63 - 1) ((a - b) * 1000))"

definition nanos :: "int \<Rightarrow> int" where
  "nanos s = s * 1000000000"

definition expectedInterval :: "libs \<Rightarrow> string \<Rightarrow> string \<Rightarrow> time \<Rightarrow> int option" where
  "expectedInterval L expr tz now = (case NextFire L expr tz now of
       Inl _ \<Rightarrow> None
     | Inr t1 \<Rightarrow> (case NextFire L expr tz t1 of Inl _ \<Rightarrow> None | Inr t2 \<Rightarrow> Some (time_Sub t2 t1)))"

definition quiet_threshold :: "int \<Rightarrow> int" where
  "quiet_threshold interval = (let t = int64 (3 * interval) in if t < nanos 3600 then nanos 3600 else t)"

definition is_quiet :: "time \<Rightarrow> int \<Rightarrow> time option \<Rightarrow> bool" where
  "is_quiet now interval lastT = (case lastT of None \<Rightarrow> True | Some t \<Rightarrow> quiet_threshold interval < time_Sub now t)"

definition quietJobDTO :: "web_libs \<Rightarrow> sched_row \<Rightarrow> time option \<Rightarrow> int \<Rightarrow> json" where
  "quietJobDTO L s lastT interval = JObj [(''schedule_id'', uuidString L (sch_id s)), (''schedule_name'', JStr (sch_name s)),
     (''last_success'', null_or (JStr \<circ> format_rfc3339) lastT), (''expected_every'', JNum (tdiv interval 1000000000))]"

text \<open>The loop over the candidates: the list ends when it has twenty entries.\<close>

fun quiet_jobs :: "web_libs \<Rightarrow> time \<Rightarrow> (sched_row \<times> time option) list \<Rightarrow> json list \<Rightarrow> json list" where
  "quiet_jobs L now [] quiet = quiet"
| "quiet_jobs L now ((s, lastT) # cands) quiet =
     (case expectedInterval (wl_ids L) (sch_cron s) (sch_timezone s) now of
        None \<Rightarrow> quiet_jobs L now cands quiet
      | Some interval \<Rightarrow>
        if \<not> is_quiet now interval lastT then quiet_jobs L now cands quiet
        else let quiet' = quiet @ [quietJobDTO L s lastT interval] in
          if 20 \<le> length quiet' then quiet' else quiet_jobs L now cands quiet')"

definition pausedDTO :: "web_libs \<Rightarrow> sched_row \<Rightarrow> json" where
  "pausedDTO L s = JObj [(''schedule_id'', uuidString L (sch_id s)), (''schedule_name'', JStr (sch_name s)),
     (''paused_at'', JStr (case sch_auto_paused_at s of None \<Rightarrow> format_rfc3339 zero_time | Some t \<Rightarrow> format_rfc3339 t)),
     (''reason'', null_or JStr (sch_auto_pause_reason s))]"

definition alerts_list :: "web_deps \<Rightarrow> session_claims \<Rightarrow> web_handler" where
  "alerts_list deps claims r =
     bind (load_org ''load org'') (\<lambda>org.
     bind (map_err (\<lambda>_. writeErr 500 ''alerts: quiet candidates'' ''internal'') (on_db (ListSchedulesForQuietCheck (og_id org)))) (\<lambda>cands.
     bind web_now (\<lambda>now.
     bind (map_err (\<lambda>_. writeErr 500 ''alerts: paused'' ''internal'')
       (on_db (ListRecentAutoPaused (og_id org) (now - 7 * 24 * 3600 * second)))) (\<lambda>paused.
     ret (writeJSON 200 (JObj [(''quiet_jobs'', JArr (quiet_jobs (wd_libs deps) now cands [])),
       (''recently_paused'', JArr (map (pausedDTO (wd_libs deps)) paused)),
       (''expiring_secrets'', JArr []), (''drift'', JArr [])]))))))"

section \<open>Health\<close>

definition scheduler_status :: "int \<Rightarrow> int \<Rightarrow> string" where
  "scheduler_status sweep age = (let interval = (if sweep \<le> 0 then nanos 30 else sweep) in
     if age < int64 (2 * interval) then ''healthy'' else if age < int64 (5 * interval) then ''degraded'' else ''down'')"

text \<open>\<open>clk\<close> is the counter of the tick clock, when the server has one.\<close>

definition scheduler_dto :: "web_deps \<Rightarrow> int option \<Rightarrow> time \<Rightarrow> json" where
  "scheduler_dto deps clk now = (case clk of
       None \<Rightarrow> JObj [(''status'', JStr ''down''), (''last_tick_at'', JNull)]
     | Some n \<Rightarrow>
       if LastTickAt n = zero_time then JObj [(''status'', JStr ''down''), (''last_tick_at'', JNull)]
       else JObj [(''status'', JStr (scheduler_status (wd_sweep_interval deps) (time_Sub now (LastTickAt n)))),
         (''last_tick_at'', JStr (format_rfc3339 (LastTickAt n)))])"

definition system_health :: "web_deps \<Rightarrow> int option \<Rightarrow> session_claims \<Rightarrow> web_handler" where
  "system_health deps clk claims r =
     bind (load_org ''load org'') (\<lambda>org.
     bind (map_err (\<lambda>_. writeErr 500 ''queue'' ''internal'') (on_db (CountQueueDepth (og_id org)))) (\<lambda>qd.
     bind (map_err (\<lambda>_. writeErr 500 ''workers'' ''internal'') (on_db (CountActiveWorkers (og_id org)))) (\<lambda>workers.
     bind (map_err (\<lambda>_. writeErr 500 ''last sync'' ''internal'') (on_db (LastRepoSyncAt (og_id org)))) (\<lambda>lastT.
     bind web_now (\<lambda>now.
     ret (writeJSON 200 (JObj [(''scheduler'', scheduler_dto deps clk now), (''queue_depth'', JNum (int qd)),
       (''workers'', JNum (int workers)), (''last_sync_at'', null_or (JStr \<circ> format_rfc3339) lastT)])))))))"

end
