(* ===== verification/Web_Schedules.thy ===== *)
theory Web_Schedules
  imports Web_Pages Runner_Cmd Session_Claims Api_Claims
begin

text \<open>
  The schedule routes of the web API (internal/webapi: schedules.go, schedule_overrides.go).
  Timestamps of the DTO are rendered by \<open>wl_iso\<close>. Run-now goes through the internal API of
  the same process: the loopback transport is an argument, and \<open>internal_trigger\<close> is the
  one in which the internal handler answers.
\<close>

section \<open>The wire shape\<close>

record schedule_dto =
  sd_id :: string
  sd_skill_id :: string
  sd_name :: string
  sd_cron :: string
  sd_timezone :: string
  sd_overlap_policy :: string
  sd_timeout_sec :: int
  sd_enabled :: bool
  sd_provider :: string
  sd_model :: string
  sd_next_fire_at :: "string option"
  sd_auto_pause_after :: "int option"
  sd_auto_paused_at :: "string option"
  sd_auto_pause_reason :: "string option"
  sd_last_enabled_at :: string
  sd_skill_path :: string
  sd_skill_name :: string
  sd_owner :: string
  sd_repo_name :: string
  sd_max_turns :: "int option"
  sd_mcp_servers :: "mcp_server list"
  sd_has_ui_overrides :: bool

record ui_overrides =
  uo_cron :: "string option"
  uo_timezone :: "string option"
  uo_timeout_sec :: "int option"
  uo_enabled :: "bool option"

definition decode_overrides :: "json \<Rightarrow> ui_overrides option" where
  "decode_overrides j = Option.bind (struct_fields j) (\<lambda>kvs.
     Option.bind (get_ptr as_str ''cron'' kvs None) (\<lambda>c. Option.bind (get_ptr as_str ''timezone'' kvs None) (\<lambda>z.
     Option.bind (get_ptr as_int32 ''timeout_sec'' kvs None) (\<lambda>t. Option.bind (get_ptr as_bool ''enabled'' kvs None) (\<lambda>e.
     Some \<lparr>uo_cron = c, uo_timezone = z, uo_timeout_sec = t, uo_enabled = e\<rparr>)))))"

definition overrides_json :: "ui_overrides \<Rightarrow> json" where
  "overrides_json ov = JObj (opt_field ''cron'' (map_option JStr (uo_cron ov)) @ opt_field ''timezone'' (map_option JStr (uo_timezone ov)) @
     opt_field ''timeout_sec'' (map_option JNum (uo_timeout_sec ov)) @ opt_field ''enabled'' (map_option JBool (uo_enabled ov)))"

definition override :: "'a option \<Rightarrow> 'a \<Rightarrow> 'a" where
  "override p x = (case p of None \<Rightarrow> x | Some y \<Rightarrow> y)"

definition applyUIOverrides :: "schedule_dto \<Rightarrow> json \<Rightarrow> schedule_dto" where
  "applyUIOverrides dto raw = (case decode_overrides raw of
       None \<Rightarrow> dto
     | Some ov \<Rightarrow> dto\<lparr>sd_cron := override (uo_cron ov) (sd_cron dto), sd_timezone := override (uo_timezone ov) (sd_timezone dto),
         sd_timeout_sec := override (uo_timeout_sec ov) (sd_timeout_sec dto), sd_enabled := override (uo_enabled ov) (sd_enabled dto),
         sd_has_ui_overrides := sd_has_ui_overrides dto \<or> uo_cron ov \<noteq> None \<or> uo_timezone ov \<noteq> None \<or>
           uo_timeout_sec ov \<noteq> None \<or> uo_enabled ov \<noteq> None\<rparr>)"

text \<open>The MCP servers of the frontmatter, none when the frontmatter does not decode.\<close>

definition as_servers :: "json \<Rightarrow> mcp_server list option" where
  "as_servers j = (case j of JArr xs \<Rightarrow> all_some (map decode_server xs) | _ \<Rightarrow> None)"

definition as_writeback :: "json \<Rightarrow> string option" where
  "as_writeback j = Option.bind (struct_fields j) (str_in ''block_format'')"

definition mcpServers :: "json \<Rightarrow> mcp_server list" where
  "mcpServers fm = (case Option.bind (struct_fields fm) (\<lambda>kvs.
       Option.bind (str_in ''name'' kvs) (\<lambda>_. Option.bind (str_in ''description'' kvs) (\<lambda>_. Option.bind (str_in ''model_hint'' kvs) (\<lambda>_.
       Option.bind (int64_in ''max_tokens'' kvs) (\<lambda>_. Option.bind (int64_in ''max_turns'' kvs) (\<lambda>_.
       Option.bind (get_field as_writeback ''writeback'' kvs []) (\<lambda>_. get_field as_servers ''mcp_servers'' kvs []))))))) of
     None \<Rightarrow> [] | Some ss \<Rightarrow> ss)"

definition scheduleRowToDTO :: "web_libs \<Rightarrow> sched_row \<times> skill_row \<times> repo_row \<Rightarrow> schedule_dto" where
  "scheduleRowToDTO L row = (case row of (s, k, c) \<Rightarrow> applyUIOverrides
     \<lparr>sd_id = uuid_string (wl_ids L) (sch_id s), sd_skill_id = uuid_string (wl_ids L) (sch_skill_id s), sd_name = sch_name s,
      sd_cron = sch_cron s, sd_timezone = sch_timezone s, sd_overlap_policy = sch_overlap_policy s,
      sd_timeout_sec = sch_timeout_sec s, sd_enabled = sch_enabled s, sd_provider = sch_provider s, sd_model = sch_model s,
      sd_next_fire_at = map_option (wl_iso L) (sch_next_fire_at s), sd_auto_pause_after = sch_auto_pause_after s,
      sd_auto_paused_at = map_option (wl_iso L) (sch_auto_paused_at s), sd_auto_pause_reason = sch_auto_pause_reason s,
      sd_last_enabled_at = wl_iso L (sch_last_enabled_at s), sd_skill_path = sk_path k, sd_skill_name = sk_name k,
      sd_owner = rc_owner c, sd_repo_name = rc_name c, sd_max_turns = sch_max_turns s,
      sd_mcp_servers = mcpServers (sk_frontmatter_json k), sd_has_ui_overrides = False\<rparr> (sch_ui_overrides_json s))"

definition mcp_server_dto :: "mcp_server \<Rightarrow> json" where
  "mcp_server_dto m = JObj [(''name'', JStr (ms_name m)), (''command'', JStr (ms_command m)),
     (''args'', null_or (\<lambda>xs. JArr (map JStr xs)) (ms_args m))]"

definition schedule_dto_json :: "schedule_dto \<Rightarrow> json" where
  "schedule_dto_json d = JObj [(''id'', JStr (sd_id d)), (''skill_id'', JStr (sd_skill_id d)), (''name'', JStr (sd_name d)),
     (''cron'', JStr (sd_cron d)), (''timezone'', JStr (sd_timezone d)), (''overlap_policy'', JStr (sd_overlap_policy d)),
     (''timeout_sec'', JNum (sd_timeout_sec d)), (''enabled'', JBool (sd_enabled d)), (''provider'', JStr (sd_provider d)),
     (''model'', JStr (sd_model d)), (''next_fire_at'', null_or JStr (sd_next_fire_at d)),
     (''auto_pause_after'', null_or JNum (sd_auto_pause_after d)), (''auto_paused_at'', null_or JStr (sd_auto_paused_at d)),
     (''auto_pause_reason'', null_or JStr (sd_auto_pause_reason d)), (''last_enabled_at'', JStr (sd_last_enabled_at d)),
     (''skill_path'', JStr (sd_skill_path d)), (''skill_name'', JStr (sd_skill_name d)), (''owner'', JStr (sd_owner d)),
     (''repo_name'', JStr (sd_repo_name d)), (''max_turns'', null_or JNum (sd_max_turns d)),
     (''mcp_servers'', JArr (map mcp_server_dto (sd_mcp_servers d))), (''has_ui_overrides'', JBool (sd_has_ui_overrides d))]"

section \<open>Handlers\<close>

definition schedules_list :: "web_deps \<Rightarrow> session_claims \<Rightarrow> web_handler" where
  "schedules_list deps claims r =
     bind (load_org ''failed to load org'') (\<lambda>org.
     bind (map_err (\<lambda>_. writeErr 500 ''failed to list schedules'' ''internal'') (on_db (ListSchedulesByOrg (og_id org)))) (\<lambda>rows.
     ret (writeJSON 200 (JArr (map (schedule_dto_json \<circ> scheduleRowToDTO (wd_libs deps)) rows)))))"

definition schedule_entry :: "uuid \<Rightarrow> string \<Rightarrow> uuid \<Rightarrow> audit_entry" where
  "schedule_entry org action i = \<lparr>ae_org_id = org, ae_actor = [], ae_action = action, ae_target_kind = ''schedule'',
     ae_target_id = Some i, ae_detail = None\<rparr>"

text \<open>The organization is loaded before the identifier is parsed.\<close>

definition with_schedule_id :: "web_deps \<Rightarrow> web_request \<Rightarrow> (org_row \<Rightarrow> uuid \<Rightarrow> web_response web_sx) \<Rightarrow> web_response web_sx" where
  "with_schedule_id deps r k = bind (load_org ''failed to load org'') (\<lambda>org.
     case uuid_parse (wl_ids (wd_libs deps)) (path_value ''id'' r) of
       None \<Rightarrow> throw (writeErr 400 ''invalid schedule id'' ''bad_request'')
     | Some i \<Rightarrow> k org i)"

definition setEnabled :: "web_deps \<Rightarrow> bool \<Rightarrow> session_claims \<Rightarrow> web_handler" where
  "setEnabled deps enabled claims r = with_schedule_id deps r (\<lambda>org i.
     bind (map_err (\<lambda>e. if e = ErrNoRows then writeErr 404 ''schedule not found'' ''not_found''
                        else writeErr 500 ''failed to update schedule'' ''internal'')
       (on_db (SetScheduleEnabled i enabled (og_id org)))) (\<lambda>_.
     bind (auditLog (sc_login claims) (schedule_entry (og_id org) (if enabled then ''schedule.resume'' else ''schedule.pause'') i)) (\<lambda>_.
     bind (map_err (\<lambda>_. writeErr 500 ''failed to reload schedule'' ''internal'') (on_db (ListSchedulesByOrg (og_id org)))) (\<lambda>rows.
     case find (\<lambda>(s, _). sch_id s = i) rows of
       Some row \<Rightarrow> ret (writeJSON 200 (schedule_dto_json (scheduleRowToDTO (wd_libs deps) row)))
     | None \<Rightarrow> throw (writeErr 404 ''schedule not found after update'' ''not_found'')))))"

definition schedule_pause :: "web_deps \<Rightarrow> session_claims \<Rightarrow> web_handler" where
  "schedule_pause deps = setEnabled deps False"

definition schedule_resume :: "web_deps \<Rightarrow> session_claims \<Rightarrow> web_handler" where
  "schedule_resume deps = setEnabled deps True"

definition patchOverrides :: "web_deps \<Rightarrow> session_claims \<Rightarrow> web_handler" where
  "patchOverrides deps claims r = with_schedule_id deps r (\<lambda>org i.
     case Option.bind (wl_decode (wd_libs deps) (wr_body r)) decode_overrides of
       None \<Rightarrow> throw (writeErr 400 ''invalid body'' ''bad_request'')
     | Some ov \<Rightarrow>
       bind (map_err (\<lambda>_. writeErr 500 ''failed to set overrides'' ''internal'')
         (on_db (SetScheduleOverrides i (json_clean (overrides_json ov)) (og_id org)))) (\<lambda>_.
       bind (auditLog (sc_login claims) (schedule_entry (og_id org) ''schedule.overrides.set'' i)) (\<lambda>_.
       ret (bare_status 200))))"

definition deleteOverrides :: "web_deps \<Rightarrow> session_claims \<Rightarrow> web_handler" where
  "deleteOverrides deps claims r = with_schedule_id deps r (\<lambda>org i.
     bind (map_err (\<lambda>_. writeErr 500 ''failed to clear overrides'' ''internal'') (on_db (ClearScheduleOverrides i (og_id org)))) (\<lambda>_.
     bind (auditLog (sc_login claims) (schedule_entry (og_id org) ''schedule.overrides.clear'' i)) (\<lambda>_.
     ret (bare_status 200))))"

text \<open>What came back from the loopback call: no reply, or a status and the decoded body.\<close>

type_synonym loopback = "string \<Rightarrow> string \<Rightarrow> (world, unit, nat \<times> json option) sx"

definition runNow :: "web_deps \<Rightarrow> loopback \<Rightarrow> session_claims \<Rightarrow> web_handler" where
  "runNow deps loop claims r =
     (let idStr = path_value ''id'' r in
      case uuid_parse (wl_ids (wd_libs deps)) idStr of
        None \<Rightarrow> throw (writeErr 400 ''invalid schedule id'' ''bad_request'')
      | Some _ \<Rightarrow>
        if wd_api_base_url deps = [] then throw (writeErr 503 ''api base url not configured'' ''config'')
        else bind (map_err (\<lambda>_. writeErr 502 ''trigger call failed'' ''gateway'')
            (on_db (loop (wd_api_base_url deps @ ''/internal/schedules/'' @ idStr @ ''/run-now'') (json_text (sc_login claims))))) (\<lambda>(status, body).
          if 400 \<le> status then throw (writeErr status ''trigger failed'' ''trigger_error'')
          else case Option.bind body (\<lambda>j. Option.bind (struct_fields j) (str_in ''run_id'')) of
            None \<Rightarrow> throw (writeErr 502 ''trigger returned no run_id'' ''gateway'')
          | Some runID \<Rightarrow>
            if runID = [] then throw (writeErr 502 ''trigger returned no run_id'' ''gateway'')
            else ret (writeJSON 200 (JObj [(''run_id'', JStr runID)]))))"

definition run_now_id :: "string \<Rightarrow> string \<Rightarrow> string" where
  "run_now_id base url = take (length url - length base - length ''/internal/schedules/'' - length ''/run-now'')
     (drop (length base + length ''/internal/schedules/'') url)"

definition internal_trigger :: "api_deps \<Rightarrow> string \<Rightarrow> loopback" where
  "internal_trigger adeps base url actor = (\<lambda>w.
     case serve_run_now adeps (Some [127, 0, 0, 1]) (run_now_id base url) (Some (Some actor)) w of
       (Inl (HttpError status _), w') \<Rightarrow> (Inr (status, None), w')
     | (Inr runID, w') \<Rightarrow> (Inr (200, Some (JObj [(''run_id'', JStr runID)])), w'))"

text \<open>
  What the schedule routes change and what they only show: an override is displayed but never
  reaches the scheduler, and run-now through the web API starts exactly one run.
\<close>

section \<open>Overrides\<close>

definition due_at :: "time \<Rightarrow> sched_row \<Rightarrow> bool" where
  "due_at t s \<longleftrightarrow> sch_enabled s \<and> (case sch_next_fire_at s of None \<Rightarrow> False | Some n \<Rightarrow> n \<le> t)"

definition clean_overrides :: "ui_overrides \<Rightarrow> ui_overrides" where
  "clean_overrides ov = ov\<lparr>uo_cron := map_option json_text (uo_cron ov), uo_timezone := map_option json_text (uo_timezone ov)\<rparr>"

lemma field_names:
  "json_text ''cron'' = ''cron''" "json_text ''timezone'' = ''timezone''" "json_text ''timeout_sec'' = ''timeout_sec''" "json_text ''enabled'' = ''enabled''"
  "to_lower ''cron'' = ''cron''" "to_lower ''timezone'' = ''timezone''" "to_lower ''timeout_sec'' = ''timeout_sec''" "to_lower ''enabled'' = ''enabled''"
  by code_simp+

lemma overrides_roundtrip:
  assumes "pred_option int32_range (uo_timeout_sec ov)"
  shows "decode_overrides (json_clean (overrides_json ov)) = Some (clean_overrides ov)"
  using assms by (cases ov; cases "uo_cron ov"; cases "uo_timezone ov"; cases "uo_timeout_sec ov"; cases "uo_enabled ov")
    (simp_all add: decode_overrides_def overrides_json_def opt_field_def struct_fields_def as_str_def as_int32_def as_bool_def
      clean_overrides_def field_names)

lemma get_ptr_range:
  "get_ptr as_int32 k kvs acc = Some v \<Longrightarrow> pred_option int32_range acc \<Longrightarrow> pred_option int32_range v"
  by (induction as_int32 k kvs acc arbitrary: v rule: get_ptr.induct)
     (auto simp: bind_eq_Some_conv as_int32_def split: if_splits json.splits)

lemma decode_overrides_range: "decode_overrides j = Some ov \<Longrightarrow> pred_option int32_range (uo_timeout_sec ov)"
  by (auto simp: decode_overrides_def bind_eq_Some_conv dest!: get_ptr_range)

lemma set_overrides_rows:
  assumes "set_overrides i org j d = (Inr row, d')"
  shows "\<exists>t. schedules d' = update_where (\<lambda>s. sch_id s = i \<and> sch_org_id s = org) (\<lambda>s. s\<lparr>sch_ui_overrides_json := j, sch_updated_at := t\<rparr>) (schedules d)"
  using assms by (auto simp: set_overrides_def stmt_def Let_def split: if_splits option.splits)

lemma due_update:
  "map sch_id (filter (due_at t) (update_where p (\<lambda>s. s\<lparr>sch_ui_overrides_json := j, sch_updated_at := u\<rparr>) ss)) = map sch_id (filter (due_at t) ss)"
  by (induction ss) (auto simp: update_where_def due_at_def)

lemma load_org_db: "load_org msg w = (Inr org, w') \<Longrightarrow> schedules (ww_db w') = schedules (ww_db w) \<and> runs (ww_db w') = runs (ww_db w)"
  by (auto simp: load_org_def GetFirstOrganization_def web_stmt_run counted_def dest!: map_err_eq_Inr split: if_splits list.splits)

lemma auditLog_db: "schedules (ww_db (snd (auditLog actor e w))) = schedules (ww_db w)" "runs (ww_db (snd (auditLog actor e w))) = runs (ww_db w)"
  by (simp_all add: auditLog_def audit_Log_def InsertAuditLog_def stmt_def on_db_def attempt_apply bind_def)

lemma on_db_Inr: "on_db m w = (Inr a, w') \<Longrightarrow> m (ww_db w) = (Inr a, ww_db w')"
  by (auto simp: on_db_def split: prod.splits)

lemma patchOverrides_rows:
  assumes ok: "patchOverrides deps claims r w = (Inr resp, w')"
    and i: "uuid_parse (wl_ids (wd_libs deps)) (path_value ''id'' r) = Some i"
    and b: "Option.bind (wl_decode (wd_libs deps) (wr_body r)) decode_overrides = Some ov"
  shows "\<exists>org t. schedules (ww_db w') = update_where (\<lambda>s. sch_id s = i \<and> sch_org_id s = org)
     (\<lambda>s. s\<lparr>sch_ui_overrides_json := json_clean (overrides_json ov), sch_updated_at := t\<rparr>) (schedules (ww_db w)) \<and>
     (\<exists>s \<in> set (schedules (ww_db w)). sch_id s = i \<and> sch_org_id s = org)"
proof -
  obtain org w1 row w2 where l: "load_org ''failed to load org'' w = (Inr org, w1)"
    and s: "on_db (SetScheduleOverrides i (json_clean (overrides_json ov)) (og_id org)) w1 = (Inr row, w2)"
    and a: "w' = snd (auditLog (sc_login claims) (schedule_entry (og_id org) ''schedule.overrides.set'' i) w2)"
    using ok i b by (auto simp: patchOverrides_def with_schedule_id_def bind_eq_Inr_iff dest!: map_err_eq_Inr)
  have so: "set_overrides i (og_id org) (json_clean (overrides_json ov)) (ww_db w1) = (Inr row, ww_db w2)"
    using on_db_Inr [OF s] by (simp add: SetScheduleOverrides_def)
  have "\<exists>x \<in> set (schedules (ww_db w1)). sch_id x = i \<and> sch_org_id x = og_id org"
    using so by (auto simp: set_overrides_def stmt_def split: if_splits option.splits dest: find_member)
  then show ?thesis using set_overrides_rows [OF so] load_org_db [OF l] a by (auto simp: auditLog_db)
qed

text \<open>
  An override of a schedule is only shown. After a successful PATCH of the overrides the
  schedule's page shows the overriding cron expression and enabled flag, but the rows are due
  at exactly the same times as before: a schedule that is shown as disabled keeps firing, on
  its old cron expression.
\<close>

theorem overrides_only_shown:
  assumes ok: "patchOverrides deps claims r w = (Inr resp, w')"
    and i: "uuid_parse (wl_ids (wd_libs deps)) (path_value ''id'' r) = Some i"
    and b: "Option.bind (wl_decode (wd_libs deps) (wr_body r)) decode_overrides = Some ov"
  shows "(\<forall>t. map sch_id (filter (due_at t) (schedules (ww_db w'))) = map sch_id (filter (due_at t) (schedules (ww_db w)))) \<and>
     (\<exists>s \<in> set (schedules (ww_db w)). \<exists>s' \<in> set (schedules (ww_db w')). sch_id s = i \<and> sch_id s' = i \<and>
        sch_cron s' = sch_cron s \<and> sch_enabled s' = sch_enabled s \<and> sch_next_fire_at s' = sch_next_fire_at s \<and>
        (\<forall>k c. sd_cron (scheduleRowToDTO (wd_libs deps) (s', k, c)) = override (map_option json_text (uo_cron ov)) (sch_cron s) \<and>
           sd_enabled (scheduleRowToDTO (wd_libs deps) (s', k, c)) = override (uo_enabled ov) (sch_enabled s)))"
proof -
  obtain org t s where rows: "schedules (ww_db w') = update_where (\<lambda>s. sch_id s = i \<and> sch_org_id s = org)
     (\<lambda>s. s\<lparr>sch_ui_overrides_json := json_clean (overrides_json ov), sch_updated_at := t\<rparr>) (schedules (ww_db w))"
    and s: "s \<in> set (schedules (ww_db w))" "sch_id s = i" "sch_org_id s = org"
    using patchOverrides_rows [OF assms] by blast
  have d: "decode_overrides (json_clean (overrides_json ov)) = Some (clean_overrides ov)"
    using b by (auto simp: bind_eq_Some_conv dest!: decode_overrides_range intro!: overrides_roundtrip)
  let ?s = "s\<lparr>sch_ui_overrides_json := json_clean (overrides_json ov), sch_updated_at := t\<rparr>"
  have "?s \<in> set (schedules (ww_db w'))" using s unfolding rows by (auto simp: update_where_def intro!: image_eqI [of _ _ s])
  moreover have "sd_cron (scheduleRowToDTO (wd_libs deps) (?s, k, c)) = override (map_option json_text (uo_cron ov)) (sch_cron s)"
    "sd_enabled (scheduleRowToDTO (wd_libs deps) (?s, k, c)) = override (uo_enabled ov) (sch_enabled s)" for k c
    by (simp_all add: scheduleRowToDTO_def applyUIOverrides_def d clean_overrides_def)
  ultimately show ?thesis using s by (intro conjI allI bexI [of _ s] bexI [of _ ?s]) (simp_all add: rows due_update)
qed

definition disable_deps :: web_deps where
  "disable_deps = sample_web_deps\<lparr>wd_libs := sample_web_libs\<lparr>wl_decode := (\<lambda>_. Some (JObj [(''enabled'', JBool False)]))\<rparr>\<rparr>"

definition schedule_request :: web_request where
  "schedule_request = (sample_request [])\<lparr>wr_path := [(''id'', ''000'')]\<rparr>"

theorem overrides_only_shown_witness:
  "\<exists>resp w' s' c k. patchOverrides disable_deps \<lparr>sc_login = ''ann'', sc_role = ''admin'', sc_exp = 0\<rparr> schedule_request (sample_web []) = (Inr resp, w') \<and>
     s' \<in> set (schedules (ww_db w')) \<and> sch_enabled s' \<and> \<not> sd_enabled (scheduleRowToDTO (wd_libs disable_deps) (s', k, c))"
proof -
  let ?c = "\<lparr>sc_login = ''ann'', sc_role = ''admin'', sc_exp = 0\<rparr>"
  let ?ov = "\<lparr>uo_cron = None, uo_timezone = None, uo_timeout_sec = None, uo_enabled = Some False\<rparr>"
  have i: "uuid_parse (wl_ids (wd_libs disable_deps)) (path_value ''id'' schedule_request) = Some 3"
    by (simp add: disable_deps_def sample_web_deps_def sample_web_libs_def sample_libs_def schedule_request_def path_value_def lookup_or_empty_def)
  have b: "Option.bind (wl_decode (wd_libs disable_deps) (wr_body schedule_request)) decode_overrides = Some ?ov"
    by (simp add: disable_deps_def decode_overrides_def struct_fields_def as_bool_def field_names)
  obtain w' where ok: "patchOverrides disable_deps ?c schedule_request (sample_web []) = (Inr (bare_status 200), w')"
    using b by (simp add: patchOverrides_def with_schedule_id_def i load_org_def GetFirstOrganization_def SetScheduleOverrides_def set_overrides_def
        web_stmt_def on_db_def stmt_def sx_defs sample_web_def sample_world_def sample_schedule_def auditLog_def audit_Log_def InsertAuditLog_def Let_def)
  have "schedules (ww_db (sample_web [])) = [sample_schedule ''skip'']" "sch_enabled (sample_schedule ''skip'')"
    by (simp_all add: sample_web_def sample_world_def sample_schedule_def)
  with overrides_only_shown [OF ok i b] ok show ?thesis by (fastforce simp: override_def)
qed

section \<open>Run now\<close>

lemma run_id_lower: "to_lower ''run_id'' = ''run_id''"
  by code_simp

lemma run_now_id_url: "run_now_id base (base @ ''/internal/schedules/'' @ i @ ''/run-now'') = i"
  by (simp add: run_now_id_def)

text \<open>
  Run-now through the web API, with the internal endpoint answering on the loopback address,
  either answers with an error, or inserts exactly one pending manual run of the schedule in the
  path and answers with the identifier of that run.
\<close>

theorem web_run_now_creates_run:
  assumes "runNow deps (internal_trigger adeps (wd_api_base_url deps)) claims r w = (Inr resp, w')"
  shows "\<exists>run. runs (ww_db w') = runs (ww_db w) @ [run] \<and> run_status run = ''pending'' \<and> run_fire_reason run = ''manual'' \<and>
     uuid_parse (ad_libs adeps) (path_value ''id'' r) = Some (run_schedule_id run) \<and>
     resp = writeJSON 200 (JObj [(''run_id'', JStr (uuid_string (ad_libs adeps) (run_id run)))])"
proof -
  let ?url = "wd_api_base_url deps @ ''/internal/schedules/'' @ path_value ''id'' r @ ''/run-now''"
  obtain status body w1 runID where t: "on_db (internal_trigger adeps (wd_api_base_url deps) ?url (json_text (sc_login claims))) w = (Inr (status, body), w')"
    and st: "status < 400" and b: "Option.bind body (\<lambda>j. Option.bind (struct_fields j) (str_in ''run_id'')) = Some runID"
    and resp: "resp = writeJSON 200 (JObj [(''run_id'', JStr runID)])"
    using assms by (auto simp: runNow_def Let_def bind_eq_Inr_iff dest!: map_err_eq_Inr split: option.splits if_splits)
  note tr = on_db_Inr [OF t, unfolded internal_trigger_def run_now_id_url]
  obtain res d where s: "serve_run_now adeps (Some [127, 0, 0, 1]) (path_value ''id'' r) (Some (Some (json_text (sc_login claims)))) (ww_db w) = (res, d)"
    by fastforce
  obtain rid where rid: "res = Inr rid" using tr s b by (cases res) (auto split: http_err.splits)
  have "d = ww_db w'" "body = Some (JObj [(''run_id'', JStr rid)])" using tr s rid by auto
  moreover have "str_in ''run_id'' [(''run_id'', JStr rid)] = Some rid"
    by (simp add: str_in_def as_str_def run_id_lower)
  ultimately show ?thesis using run_now_Inr [OF s [unfolded rid]] b resp by (auto simp: struct_fields_def)
qed

theorem web_run_now_creates_run_witness:
  "\<exists>resp w' run. runNow sample_web_deps (internal_trigger (sample_api []) (wd_api_base_url sample_web_deps))
       \<lparr>sc_login = ''ann'', sc_role = ''admin'', sc_exp = 0\<rparr> schedule_request (sample_web []) = (Inr resp, w') \<and>
     runs (ww_db w') = [run] \<and> run_fire_reason run = ''manual''"
proof -
  let ?h = "runNow sample_web_deps (internal_trigger (sample_api []) (wd_api_base_url sample_web_deps))
       \<lparr>sc_login = ''ann'', sc_role = ''admin'', sc_exp = 0\<rparr> schedule_request (sample_web [])"
  have "isl (fst ?h) = False" by code_simp
  then obtain resp w' where h: "?h = (Inr resp, w')" by (cases ?h; cases "fst ?h") auto
  from web_run_now_creates_run [OF h] show ?thesis using h by (auto simp: sample_web_def sample_world_def)
qed

end
