(* ===== verification/Events.thy ===== *)
theory Events
  imports Session_Claims Web_Queries
begin

text \<open>
  The event routes of a run (internal/webapi/events.go). A stream polls: one statement lists the
  events after the last one sent, a second reads the run's status, and the database changes
  between any two statements. The stream is a step relation in which those changes are steps
  of the environment.
\<close>

section \<open>Listing\<close>

definition runEventToDTO :: "web_libs \<Rightarrow> event_row \<Rightarrow> json" where
  "runEventToDTO L e = JObj [(''id'', JNum (int (ev_id e))), (''run_id'', JStr (uuid_string (wl_ids L) (ev_run_id e))),
     (''ts'', JStr (wl_iso L (ev_ts e))), (''level'', JStr (ev_level e)), (''event_type'', JStr (ev_event_type e)),
     (''payload_json'', ev_payload_json e)]"

definition events_list :: "web_deps \<Rightarrow> session_claims \<Rightarrow> web_handler" where
  "events_list deps claims r = (case uuid_parse (wl_ids (wd_libs deps)) (path_value ''id'' r) of
       None \<Rightarrow> throw (writeErr 400 ''invalid run id'' ''bad_request'')
     | Some i \<Rightarrow>
       bind (map_err (\<lambda>_. writeErr 500 ''failed to list events'' ''internal'') (on_db (ListRunEvents i))) (\<lambda>es.
       ret (writeJSON 200 (JArr (map (runEventToDTO (wd_libs deps)) es)))))"

section \<open>Streaming\<close>

record stream =
  st_last :: int
  st_sent :: "event_row list"
  st_done :: bool
  st_open :: bool

definition stream_start :: stream where
  "stream_start = \<lparr>st_last = 0, st_sent = [], st_done = False, st_open = True\<rparr>"

text \<open>The first half of a tick: an error closes the stream without a word.\<close>

definition stream_send :: "uuid \<Rightarrow> stream \<Rightarrow> world \<Rightarrow> stream \<times> world" where
  "stream_send i st w = (case ListRunEventsSince i (st_last st) w of
       (Inl _, w') \<Rightarrow> (st\<lparr>st_open := False\<rparr>, w')
     | (Inr es, w') \<Rightarrow> (st\<lparr>st_sent := st_sent st @ es, st_last := (if es = [] then st_last st else int (ev_id (last es)))\<rparr>, w'))"

text \<open>The second half: the stream says that it is done when the run is terminal or cannot be read.\<close>

definition stream_check :: "uuid \<Rightarrow> stream \<Rightarrow> world \<Rightarrow> stream \<times> world" where
  "stream_check i st w = (case GetRun i w of
       (Inl _, w') \<Rightarrow> (st\<lparr>st_done := True, st_open := False\<rparr>, w')
     | (Inr run, w') \<Rightarrow> (if terminal_status (run_status run) then st\<lparr>st_done := True, st_open := False\<rparr> else st, w'))"

datatype stream_pc = AtTick | AtCheck

inductive stream_step :: "uuid \<Rightarrow> stream_pc \<times> stream \<times> world \<Rightarrow> stream_pc \<times> stream \<times> world \<Rightarrow> bool" for i where
  send: "st_open st \<Longrightarrow> stream_send i st w = (st', w') \<Longrightarrow> stream_step i (AtTick, st, w) (AtCheck, st', w')"
| check: "st_open st \<Longrightarrow> stream_check i st w = (st', w') \<Longrightarrow> stream_step i (AtCheck, st, w) (AtTick, st', w')"
| gone: "stream_step i (AtTick, st, w) (AtTick, st\<lparr>st_open := False\<rparr>, w)"
| env: "run_events w' = run_events w @ es \<Longrightarrow> sorted_wrt (<) (map ev_id (run_events w')) \<Longrightarrow> stream_step i (pc, st, w) (pc, st, w')"

inductive_cases stream_stepE: "stream_step i x y"

text \<open>Everything the stream has sent, it has sent in order and without a gap.\<close>

definition stream_inv :: "uuid \<Rightarrow> stream_pc \<times> stream \<times> world \<Rightarrow> bool" where
  "stream_inv i x = (case x of (_, st, w) \<Rightarrow> sorted_wrt (<) (map ev_id (run_events w)) \<and>
     st_sent st = filter (\<lambda>e. ev_run_id e = i \<and> 0 < ev_id e \<and> int (ev_id e) \<le> st_last st) (run_events w) \<and>
     0 \<le> st_last st \<and> (st_last st = 0 \<or> (\<exists>e \<in> set (run_events w). int (ev_id e) = st_last st)))"

lemma sorted_filter_ids: "sorted_wrt (<) (map ev_id es) \<Longrightarrow> sort_key ev_id (filter p es) = filter p es"
  by (intro sort_key_id_if_sorted sorted_filter strict_sorted_imp_sorted)

lemma ListRunEventsSince_run:
  assumes "ListRunEventsSince i n w = (res, w')"
  shows "run_events w' = run_events w \<and> (\<forall>es. res = Inr es \<longrightarrow> es = sort_key ev_id (filter (\<lambda>e. ev_run_id e = i \<and> n < int (ev_id e)) (run_events w)))"
  using assms by (auto simp: ListRunEventsSince_def stmt_def split: if_splits)

lemma sorted_split:
  assumes "sorted_wrt (<) (map ev_id es)"
  shows "filter (\<lambda>e. p e \<and> int (ev_id e) \<le> n) es @ filter (\<lambda>e. p e \<and> n < int (ev_id e)) es = filter p es"
  using assms
proof (induction es)
  case (Cons e es)
  have "filter (\<lambda>e. p e \<and> int (ev_id e) \<le> n) es = []" if "n < int (ev_id e)"
    using Cons.prems that by (auto simp: filter_empty_conv)
  then show ?case using Cons by auto
qed simp

lemma sorted_last_le: "sorted (map f xs) \<Longrightarrow> x \<in> set xs \<Longrightarrow> f x \<le> f (last xs)"
  by (induction xs) auto

lemma stream_send_inv:
  assumes I: "stream_inv i (pc, st, w)" and s: "stream_send i st w = (st', w')"
  shows "stream_inv i (pc', st', w')"
proof (cases "ListRunEventsSince i (st_last st) w")
  case (Pair res w1)
  note run = ListRunEventsSince_run [OF Pair]
  have so: "sorted_wrt (<) (map ev_id (run_events w))" using I by (simp add: stream_inv_def)
  show ?thesis
  proof (cases res)
    case (Inl e)
    then show ?thesis using I s Pair run by (auto simp: stream_send_def stream_inv_def)
  next
    case (Inr es)
    let ?p = "\<lambda>e. ev_run_id e = i \<and> 0 < ev_id e"
    have es: "es = filter (\<lambda>e. ev_run_id e = i \<and> st_last st < int (ev_id e)) (run_events w)"
      using run Inr sorted_filter_ids [OF so] by simp
    show ?thesis
    proof (cases "es = []")
      case True
      then show ?thesis using I s Pair run Inr by (auto simp: stream_send_def stream_inv_def)
    next
      case False
      have "es = filter (\<lambda>e. ?p e \<and> st_last st < int (ev_id e)) (run_events w)"
        unfolding es using I by (intro filter_cong) (auto simp: stream_inv_def)
      then have app: "st_sent st @ es = filter ?p (run_events w)"
        using I sorted_split [OF so, of ?p "st_last st"] by (simp add: stream_inv_def conj_assoc)
      have "sorted (map ev_id (filter ?p (run_events w)))"
        using so by (intro sorted_filter strict_sorted_imp_sorted)
      moreover have "last (filter ?p (run_events w)) = last es" unfolding app [symmetric] using False by simp
      ultimately have le: "\<forall>e \<in> set (filter ?p (run_events w)). ev_id e \<le> ev_id (last es)"
        using sorted_last_le [of ev_id "filter ?p (run_events w)"] by simp
      have "filter (\<lambda>e. ev_run_id e = i \<and> 0 < ev_id e \<and> int (ev_id e) \<le> int (ev_id (last es))) (run_events w) = filter ?p (run_events w)"
        using le by (intro filter_cong) auto
      then have "st_sent st @ es = filter (\<lambda>e. ev_run_id e = i \<and> 0 < ev_id e \<and> int (ev_id e) \<le> int (ev_id (last es))) (run_events w)" unfolding app by simp
      moreover have "last es \<in> set (run_events w)" using es False last_in_set [OF False] by auto
      moreover have "st' = st\<lparr>st_sent := st_sent st @ es, st_last := int (ev_id (last es))\<rparr>" "w' = w1"
        using s Pair Inr False by (auto simp: stream_send_def)
      ultimately show ?thesis using so run by (auto simp: stream_inv_def)
    qed
  qed
qed

lemma stream_check_inv:
  assumes "stream_inv i (pc, st, w)" and "stream_check i st w = (st', w')"
  shows "stream_inv i (pc', st', w')"
proof -
  have "run_events w' = run_events w" "st_sent st' = st_sent st" "st_last st' = st_last st"
    using assms(2) by (auto simp: stream_check_def GetRun_def stmt_def split: if_splits option.splits)
  then show ?thesis using assms(1) by (simp add: stream_inv_def)
qed

lemma stream_env_inv:
  assumes I: "stream_inv i (pc, st, w)" and g: "run_events w' = run_events w @ es" and so: "sorted_wrt (<) (map ev_id (run_events w'))"
  shows "stream_inv i (pc, st, w')"
proof -
  have "\<not> (0 < ev_id e \<and> int (ev_id e) \<le> st_last st)" if "e \<in> set es" for e
  proof (cases "st_last st = 0")
    case False
    then obtain x where x: "x \<in> set (run_events w)" "int (ev_id x) = st_last st"
      using I by (auto simp: stream_inv_def)
    then have "ev_id x < ev_id e" using so that by (simp add: g sorted_wrt_append)
    then show ?thesis using x by simp
  qed auto
  then have "filter (\<lambda>e. ev_run_id e = i \<and> 0 < ev_id e \<and> int (ev_id e) \<le> st_last st) es = []"
    by (auto simp: filter_empty_conv)
  then show ?thesis using I so by (auto simp: stream_inv_def g)
qed

lemma stream_gone_inv: "stream_inv i (pc, st, w) \<Longrightarrow> stream_inv i (pc, st\<lparr>st_open := False\<rparr>, w)"
  by (simp add: stream_inv_def)

lemma stream_inv_step: "stream_step i x y \<Longrightarrow> stream_inv i x \<Longrightarrow> stream_inv i y"
  by (erule stream_stepE) (auto intro: stream_send_inv stream_check_inv stream_env_inv stream_gone_inv)

lemma stream_inv_reach: "(stream_step i)\<^sup>*\<^sup>* x y \<Longrightarrow> stream_inv i x \<Longrightarrow> stream_inv i y"
  by (induction rule: rtranclp_induct) (auto intro: stream_inv_step)


definition sample_event :: "nat \<Rightarrow> event_row" where
  "sample_event n = \<lparr>ev_id = n, ev_run_id = 7, ev_ts = 0, ev_level = ''info'', ev_event_type = ''run_end'', ev_payload_json = JNull\<rparr>"

definition stream_world :: "string \<Rightarrow> event_row list \<Rightarrow> world" where
  "stream_world status es = (sample_world ''skip'' [sample_run 7 status None 0])\<lparr>run_events := es\<rparr>"


text \<open>
  A stream may say that it is done without having sent the last events of its run: events
  recorded after it listed the new ones, together with the end of the run, are never sent.
\<close>

theorem stream_misses_last_event:
  "\<exists>w st w'. sorted_wrt (<) (map ev_id (run_events w)) \<and> (stream_step 7)\<^sup>*\<^sup>* (AtTick, stream_start, w) (AtTick, st, w') \<and>
     st_done st \<and> \<not> st_open st \<and> (\<exists>e \<in> set (run_events w'). ev_run_id e = 7 \<and> e \<notin> set (st_sent st))"
proof -
  let ?w = "stream_world ''running'' []" and ?v = "stream_world ''succeeded'' [sample_event 1]"
  have 1: "stream_step 7 (AtTick, stream_start, ?w) (AtCheck, stream_start, ?w\<lparr>stmt_ctr := 1\<rparr>)"
    by (rule stream_step.send) (simp_all add: stream_send_def ListRunEventsSince_def stmt_def stream_start_def stream_world_def sample_world_def)
  have 2: "stream_step 7 (AtCheck, stream_start, ?w\<lparr>stmt_ctr := 1\<rparr>) (AtCheck, stream_start, ?v)"
    by (rule stream_step.env [of _ _ "[sample_event 1]"]) (simp_all add: stream_world_def sample_event_def)
  have 3: "stream_step 7 (AtCheck, stream_start, ?v) (AtTick, stream_start\<lparr>st_done := True, st_open := False\<rparr>, ?v\<lparr>stmt_ctr := 1\<rparr>)"
    by (rule stream_step.check) (simp_all add: stream_check_def GetRun_def stmt_def stream_start_def stream_world_def sample_world_def
        find_run_def sample_run_def terminal_status_def)
  have "(stream_step 7)\<^sup>*\<^sup>* (AtTick, stream_start, ?w) (AtTick, stream_start\<lparr>st_done := True, st_open := False\<rparr>, ?v\<lparr>stmt_ctr := 1\<rparr>)"
    using 1 2 3 by (meson converse_rtranclp_into_rtranclp rtranclp.rtrancl_refl)
  moreover have "sorted_wrt (<) (map ev_id (run_events ?w))" "sample_event 1 \<in> set (run_events (?v\<lparr>stmt_ctr := 1\<rparr>))"
    "ev_run_id (sample_event 1) = 7" by (simp_all add: stream_world_def sample_event_def)
  ultimately show ?thesis
    by (intro exI [of _ ?w] exI [of _ "stream_start\<lparr>st_done := True, st_open := False\<rparr>"] exI [of _ "?v\<lparr>stmt_ctr := 1\<rparr>"])
       (auto simp: stream_start_def)
qed

end
