(* ===== verification/Webhook.thy ===== *)
theory Webhook
  imports Session_Claims Web_Queries System Base64
begin

text \<open>
  The GitHub webhook (internal/webapi/webhook.go, internal/github/webhook.go): a push to the
  default branch of a connected repository starts a sync pass. The route has no session; it is
  protected by an HMAC of the body alone.
\<close>

section \<open>Signatures\<close>

definition VerifyWebhookSignature :: "web_libs \<Rightarrow> string \<Rightarrow> string \<Rightarrow> string \<Rightarrow> bool" where
  "VerifyWebhookSignature L secret body sig =
     (if \<not> has_prefix sig ''sha256='' then False
      else case hex_decode (drop (length ''sha256='') sig) of
        None \<Rightarrow> False
      | Some want \<Rightarrow> want \<noteq> [] \<and> wl_hmac L secret body = want)"

section \<open>The handler\<close>

record push_payload =
  pp_ref :: string
  pp_name :: string
  pp_owner :: string
  pp_default_branch :: string

definition as_owner :: "json \<Rightarrow> string option" where
  "as_owner j = Option.bind (struct_fields j) (str_in ''login'')"

definition as_repository :: "json \<Rightarrow> (string \<times> string \<times> string) option" where
  "as_repository j = Option.bind (struct_fields j) (\<lambda>kvs.
     Option.bind (str_in ''name'' kvs) (\<lambda>n. Option.bind (get_field as_owner ''owner'' kvs []) (\<lambda>ow.
     Option.bind (str_in ''default_branch'' kvs) (\<lambda>b. Some (n, ow, b)))))"

definition decode_push :: "json \<Rightarrow> push_payload option" where
  "decode_push j = Option.bind (struct_fields j) (\<lambda>kvs.
     Option.bind (str_in ''ref'' kvs) (\<lambda>rf. Option.bind (str_in ''after'' kvs) (\<lambda>_.
     Option.bind (get_field as_repository ''repository'' kvs ([], [], [])) (\<lambda>(n, ow, b).
     Option.bind (get_field (\<lambda>v. Option.bind (struct_fields v) (int64_in ''id'')) ''installation'' kvs 0) (\<lambda>_.
     Some \<lparr>pp_ref = rf, pp_name = n, pp_owner = ow, pp_default_branch = b\<rparr>)))))"

definition maxWebhookBodyBytes :: nat where
  "maxWebhookBodyBytes = 5 * 1024 * 1024"

definition push_sync :: "sync_deps \<Rightarrow> push_payload \<Rightarrow> web_response web_sx" where
  "push_sync sdeps p =
     bind (load_org ''load org'') (\<lambda>org.
     bind (attempt (on_db (GetRepoConnectionByOwnerName (og_id org) (pp_owner p) (pp_name p)))) (\<lambda>found. case found of
       Inl e \<Rightarrow> if e = ErrNoRows then ret (bare_status 200) else throw (writeErr 500 ''lookup conn'' ''internal'')
     | Inr conn \<Rightarrow>
       bind (map_err (\<lambda>_. writeErr 500 ''sync failed'' ''sync_error'') (on_db (SyncOne sdeps (rc_id conn)))) (\<lambda>_.
       ret (bare_status 200))))"

definition webhookHandler :: "web_deps \<Rightarrow> sync_deps \<Rightarrow> web_handler" where
  "webhookHandler deps sdeps r =
     (let event = header ''X-GitHub-Event'' r in
      if event = ''ping'' then ret (bare_status 200)
      else if event \<noteq> ''push'' then ret (bare_status 204)
      else if wd_webhook_secret deps = [] then throw (writeErr 503 ''webhook secret not configured'' ''config'')
      else if maxWebhookBodyBytes < length (wr_body r) then throw (writeErr 413 ''request body too large'' ''body_too_large'')
      else if \<not> VerifyWebhookSignature (wd_libs deps) (wd_webhook_secret deps) (wr_body r) (header ''X-Hub-Signature-256'' r)
        then throw (writeErr 401 ''invalid signature'' ''unauthorized'')
      else case Option.bind (wl_unmarshal (wd_libs deps) (wr_body r)) decode_push of
        None \<Rightarrow> throw (writeErr 400 ''parse payload'' ''bad_request'')
      | Some p \<Rightarrow>
        if pp_owner p = [] \<or> pp_name p = [] then throw (writeErr 400 ''missing repo coords'' ''bad_request'')
        else if pp_default_branch p \<noteq> [] \<and> pp_ref p \<noteq> ''refs/heads/'' @ pp_default_branch p then ret (bare_status 204)
        else push_sync sdeps p)"

section \<open>Properties\<close>

text \<open>
  C1: A delivery that GitHub signed verifies; and a request whose signature header is not
  \<open>sha256=\<close> followed by hexadecimal text of the HMAC of its body reads and changes nothing,
  whatever event it claims.
\<close>

theorem webhook_needs_signature:
  assumes "wl_hmac (wd_libs deps) (wd_webhook_secret deps) (wr_body r) \<noteq> []"
  shows "VerifyWebhookSignature (wd_libs deps) (wd_webhook_secret deps) (wr_body r)
           (''sha256='' @ hex_encode (wl_hmac (wd_libs deps) (wd_webhook_secret deps) (wr_body r))) \<and>
    (snd (webhookHandler deps sdeps r w) \<noteq> w \<longrightarrow> (\<exists>hex. header ''X-Hub-Signature-256'' r = ''sha256='' @ hex \<and>
       hex_decode hex = Some (wl_hmac (wd_libs deps) (wd_webhook_secret deps) (wr_body r))))"
proof (intro conjI impI)
  show "VerifyWebhookSignature (wd_libs deps) (wd_webhook_secret deps) (wr_body r)
           (''sha256='' @ hex_encode (wl_hmac (wd_libs deps) (wd_webhook_secret deps) (wr_body r)))"
    using assms by (simp add: VerifyWebhookSignature_def has_prefix_def hex_decode_encode)
next
  assume "snd (webhookHandler deps sdeps r w) \<noteq> w"
  then have "VerifyWebhookSignature (wd_libs deps) (wd_webhook_secret deps) (wr_body r) (header ''X-Hub-Signature-256'' r)"
    by (rule contrapos_np) (simp add: webhookHandler_def Let_def ret_def throw_def)
  then have "has_prefix (header ''X-Hub-Signature-256'' r) ''sha256=''"
    "hex_decode (drop (length ''sha256='') (header ''X-Hub-Signature-256'' r)) =
       Some (wl_hmac (wd_libs deps) (wd_webhook_secret deps) (wr_body r))"
    by (auto simp: VerifyWebhookSignature_def split: if_splits option.splits)
  then show "\<exists>hex. header ''X-Hub-Signature-256'' r = ''sha256='' @ hex \<and>
       hex_decode hex = Some (wl_hmac (wd_libs deps) (wd_webhook_secret deps) (wr_body r))"
    by (metis has_prefix_def append_take_drop_id)
qed

definition push_request :: web_request where
  "push_request = (sample_request [])\<lparr>wr_headers := [(''X-GitHub-Event'', ''push''), (''X-Hub-Signature-256'', ''sha256=00'')]\<rparr>"

theorem webhook_needs_signature_witness:
  "VerifyWebhookSignature sample_web_libs ''hook'' [] (''sha256='' @ hex_encode ''hook'') \<and>
   snd (webhookHandler sample_web_deps (sv_sync sample_server) push_request (sample_web [])) = sample_web []"
proof -
  have k: "wl_hmac (wd_libs sample_web_deps) (wd_webhook_secret sample_web_deps) (wr_body push_request) = ''hook''"
    "header ''X-Hub-Signature-256'' push_request = ''sha256='' @ ''00''" "hex_decode ''00'' = Some [CHR 0x00]"
    by (simp_all add: sample_web_deps_def sample_web_libs_def push_request_def sample_request_def header_def lookup_or_empty_def
        is_hex_def is_digit_def hex_val_def lower_char_def char_of_def)
  have "wl_hmac (wd_libs sample_web_deps) (wd_webhook_secret sample_web_deps) (wr_body push_request) \<noteq> []"
    using k by simp
  from webhook_needs_signature [OF this, of "sv_sync sample_server" "sample_web []"] show ?thesis
    using k by (auto simp: sample_web_deps_def sample_web_libs_def push_request_def sample_request_def)
qed

end
