(* ===== verification/Chat.thy ===== *)
theory Chat
  imports Web_Pages Copilot Go_Text Config
begin

text \<open>
  The in-app assistant (internal/chat: chat.go, docs.go, tools.go): a loop in which a model
  answers or calls tools, and the tools that read the store for it. A provider answers the
  n-th call of a conversation and streams the chunks \<open>cc_deltas\<close> meanwhile; the embedded
  documents are an argument. The schema of a tool is written up to white space.
\<close>

section \<open>Text\<close>

text \<open>
  The verb \<open>%q\<close>: quotes, backslashes and control characters are escaped and invalid bytes are
  written in hexadecimal; every rune outside ASCII counts as printable.
\<close>

definition lower_hex_digit :: "nat \<Rightarrow> char" where
  \<open>lower_hex_digit n = ''0123456789abcdef'' ! n\<close>

definition quote_byte :: "char \<Rightarrow> string" where
  \<open>quote_byte c = (let n = of_char c :: nat in
     if c = CHR 0x22 \<or> c = CHR 0x5C then [CHR 0x5C, c]
     else if n = 7 then [CHR 0x5C, CHR ''a''] else if n = 8 then [CHR 0x5C, CHR ''b'']
     else if n = 12 then [CHR 0x5C, CHR ''f''] else if n = 10 then [CHR 0x5C, CHR ''n'']
     else if n = 13 then [CHR 0x5C, CHR ''r''] else if n = 9 then [CHR 0x5C, CHR ''t'']
     else if n = 11 then [CHR 0x5C, CHR ''v'']
     else if n < 32 \<or> n \<ge> 127 then [CHR 0x5C, CHR ''x'', lower_hex_digit (n div 16), lower_hex_digit (n mod 16)]
     else [c])\<close>

function go_quote_body :: "string \<Rightarrow> string" where
  "go_quote_body s = (if s = [] then []
     else if rune_len s \<le> 1 then quote_byte (hd s) @ go_quote_body (tl s)
     else take (rune_len s) s @ go_quote_body (drop (rune_len s) s))"
  by auto
termination by (relation "measure length") auto

declare go_quote_body.simps [simp del]

definition go_quote :: "string \<Rightarrow> string" where
  "go_quote s = [CHR 0x22] @ go_quote_body s @ [CHR 0x22]"

definition format_millis :: "time \<Rightarrow> string" where
  "format_millis t = butlast (format_rfc3339 t) @ ''.'' @ pad 3 (t mod second div 1000) @ ''Z''"

definition lines_of :: "string list \<Rightarrow> string" where
  "lines_of ls = concat (map (\<lambda>l. l @ [CHR 0x0A]) ls)"

section \<open>The system prompt\<close>

record caller =
  cl_login :: string
  cl_role :: string

text \<open>The corpus: the markdown files of the embedded directory in the order of their names.\<close>

definition mustLoadCorpus :: "(string \<times> bool \<times> string option) list \<Rightarrow> string" where
  "mustLoadCorpus entries = concat (map (\<lambda>(name, body). ''### '' @ name @ [CHR 0x0A, CHR 0x0A] @ body @ [CHR 0x0A, CHR 0x0A])
     (sort_key fst (List.map_filter (\<lambda>(name, dir, body). if dir \<or> \<not> has_suffix name ''.md'' then None
        else map_option (\<lambda>b. (name, b)) body) entries)))"

definition persona :: "string list" where
  \<open>persona =
    [''You are the CronFoundry in-app assistant. CronFoundry is a'',
     ''self-hostable, GitOps-style scheduler for LLM skills. Your job is to help'',
     ''operators:'',
     [],
     ''  - understand the app and its concepts (manifests, skills, schedules,'',
     ''    runs, destinations, secrets, writeback),'',
     ''  - troubleshoot failed or unexpected runs by inspecting recent runs and'',
     ''    their event timelines,'',
     ''  - draft cronfoundry.yaml snippets when the operator wants to add a new'',
     ''    skill or schedule.'',
     [],
     ''GUIDELINES'',
     ''  - Prefer concrete tool calls over guessing. If the user asks "why did my'',
     ''    monday-morning job fail?", call get_recent_runs / get_run_events to'',
     ''    look at the actual data before hypothesizing.'',
     ''  - You CANNOT modify schedules, secrets, or repos. If the user asks for a'',
     ''    mutation, explain that they need to make the change through the UI or'',
     ''    by committing to their skill repo, and offer a YAML snippet.'',
     ''  - When emitting YAML, wrap it in a fenced code block tagged 'yaml' so the'',
     ''    UI can render it cleanly.'',
     ''  - Keep responses short. Operators are usually mid-incident. If a long'',
     ''    answer is unavoidable, lead with a one-sentence summary.'',
     ''  - Never invent run IDs, schedule names, or commit SHAs. If the data isn't'',
     ''    in the conversation or in a tool result, say you don't know.'',
     ''  - Secret VALUES are never visible to you. Secret NAMES (as referenced'',
     ''    from manifests) are fine to discuss.'']\<close>

definition buildSystemPrompt :: "string \<Rightarrow> caller \<Rightarrow> string \<Rightarrow> string" where
  "buildSystemPrompt docs cl page = lines_of persona @
     (if cl_login cl = [] then [] else [CHR 0x0A] @ ''The current operator is '' @ go_quote (cl_login cl) @ '' (role: '' @ cl_role cl @ '').'' @ [CHR 0x0A]) @
     (if page = [] then [] else [CHR 0x0A] @ ''The operator is currently viewing: '' @ page @ [CHR 0x0A]) @
     (if docs = [] then [] else [CHR 0x0A] @ ''--- BEGIN PRODUCT DOCS ---'' @ [CHR 0x0A, CHR 0x0A] @ docs @
        [CHR 0x0A] @ ''--- END PRODUCT DOCS ---'' @ [CHR 0x0A])"

section \<open>Tools\<close>

record toolbox =
  tb_libs :: web_libs
  tb_org :: uuid
  tb_err_text :: "db_err \<Rightarrow> string"

definition object_schema :: "(string \<times> json) list \<Rightarrow> string list \<Rightarrow> json" where
  "object_schema props req = JObj [(''type'', JStr ''object''), (''properties'', JObj props), (''required'', JArr (map JStr req))]"

definition limit_schema :: "int \<Rightarrow> string \<Rightarrow> json" where
  "limit_schema n d = JObj [(''type'', JStr ''integer''), (''minimum'', JNum 1), (''maximum'', JNum n), (''description'', JStr d)]"

definition tool_of :: "toolbox \<Rightarrow> string \<Rightarrow> string \<Rightarrow> json \<Rightarrow> tool_def" where
  "tool_of tb name d schema = \<lparr>td_name = name, td_description = d, td_input_schema = wl_marshal (tb_libs tb) schema\<rparr>"

definition Defs :: "toolbox \<Rightarrow> tool_def list" where
  \<open>Defs tb = [
     tool_of tb ''list_jobs'' ''List all scheduled jobs (schedules) for the operator's organization. Returns id, name, cron, timezone, enabled, provider, model, skill_path, owner, repo_name, next_fire_at, auto_paused_at for each.''
       (object_schema [] []),
     tool_of tb ''get_recent_runs'' ''Return the most recent runs across all jobs (or a specific schedule), newest first. Use this to triage failures.''
       (object_schema [(''limit'', limit_schema 50 ''How many runs to return. Default 10.''),
          (''schedule_name'', JObj [(''type'', JStr ''string''), (''description'', JStr ''Optional: filter to runs of this schedule name.'')])] []),
     tool_of tb ''get_run'' ''Get full detail for a single run by id, including tokens, cost, error_kind, error_msg, and writeback commit.''
       (object_schema [(''run_id'', JObj [(''type'', JStr ''string''), (''description'', JStr ''The run UUID.'')])] [''run_id'']),
     tool_of tb ''get_run_events'' ''Get the timeline of events for a run (run.started, llm.start, publish.*, writeback.*, run.finished, etc). Essential for diagnosing failures.''
       (object_schema [(''run_id'', JObj [(''type'', JStr ''string'')]), (''limit'', limit_schema 200 ''Cap event count. Default 50.'')] [''run_id'']),
     tool_of tb ''list_skills'' ''List all known skills (parsed from connected repos).''
       (object_schema [] []),
     tool_of tb ''list_secret_names'' ''List the names of secrets currently in the secret store. Values are NEVER returned. Use this to confirm a manifest's secret references are present.''
       (object_schema [] []),
     tool_of tb ''list_repos'' ''List the GitHub repos connected to this CronFoundry instance.''
       (object_schema [] []),
     tool_of tb ''get_alerts'' ''Return current operator alerts: quiet jobs (haven't succeeded in their expected window) and recently auto-paused schedules.''
       (object_schema [] [])]\<close>

type_synonym 'a tool_sx = "(web, string, 'a) sx"

definition tool_db :: "toolbox \<Rightarrow> 'a stmt \<Rightarrow> 'a tool_sx" where
  "tool_db tb q = map_err (tb_err_text tb) (on_db q)"

definition encoded :: "toolbox \<Rightarrow> json \<Rightarrow> string tool_sx" where
  "encoded tb j = ret (wl_marshal (tb_libs tb) j)"

definition uuidStr :: "toolbox \<Rightarrow> uuid \<Rightarrow> json" where
  "uuidStr tb i = JStr (uuid_string (wl_ids (tb_libs tb)) i)"

definition tsPtr :: "time option \<Rightarrow> json option" where
  "tsPtr t = map_option (JStr \<circ> format_millis) t"

definition job_json :: "toolbox \<Rightarrow> sched_row \<times> skill_row \<times> repo_row \<Rightarrow> json" where
  "job_json tb row = (case row of (s, k, c) \<Rightarrow>
     JObj ([(''id'', uuidStr tb (sch_id s)), (''name'', JStr (sch_name s)), (''cron'', JStr (sch_cron s)),
       (''timezone'', JStr (sch_timezone s)), (''enabled'', JBool (sch_enabled s)), (''provider'', JStr (sch_provider s)),
       (''model'', JStr (sch_model s)), (''skill_path'', JStr (sk_path k)), (''owner'', JStr (rc_owner c)), (''repo_name'', JStr (rc_name c))] @
       opt_field ''next_fire_at'' (map_option (JStr \<circ> format_rfc3339) (sch_next_fire_at s)) @
       opt_field ''auto_paused_at'' (map_option (JStr \<circ> format_rfc3339) (sch_auto_paused_at s)) @
       opt_field ''auto_pause_reason'' (map_option JStr (sch_auto_pause_reason s))))"

definition listJobs :: "toolbox \<Rightarrow> string tool_sx" where
  "listJobs tb = bind (tool_db tb (ListSchedulesByOrg (tb_org tb))) (\<lambda>rows. encoded tb (JArr (map (job_json tb) rows)))"

definition run_json :: "toolbox \<Rightarrow> run_join \<Rightarrow> json" where
  "run_json tb row = (case row of (r, s, k, c) \<Rightarrow>
     JObj ([(''id'', uuidStr tb (run_id r)), (''status'', JStr (run_status r)), (''schedule_name'', JStr (sch_name s)), (''skill_path'', JStr (sk_path k))] @
       opt_field ''started_at'' (tsPtr (run_started_at r)) @ opt_field ''finished_at'' (tsPtr (run_finished_at r)) @
       opt_field ''duration_ms'' (map_option JNum (run_duration_ms r)) @ opt_field ''error_kind'' (map_option JStr (run_error_kind r)) @
       opt_field ''error_msg'' (map_option JStr (run_error_msg r)) @ [(''fire_reason'', JStr (run_fire_reason r))] @
       opt_field ''actor'' (map_option JStr (run_actor r))))"

definition recent_args :: "toolbox \<Rightarrow> string \<Rightarrow> (int \<times> string) option" where
  "recent_args tb raw = (if raw = [] then Some (0, [])
     else Option.bind (wl_unmarshal (tb_libs tb) raw) (\<lambda>j. Option.bind (struct_fields j) (\<lambda>kvs.
       Option.bind (int64_in ''limit'' kvs) (\<lambda>n. Option.bind (str_in ''schedule_name'' kvs) (\<lambda>s. Some (n, s))))))"

definition clamp_limit :: "int \<Rightarrow> int \<Rightarrow> int \<Rightarrow> int" where
  "clamp_limit hi dflt n = (if n \<le> 0 \<or> n > hi then dflt else n)"

definition getRecentRuns :: "toolbox \<Rightarrow> string \<Rightarrow> string tool_sx" where
  "getRecentRuns tb raw = (case recent_args tb raw of
       None \<Rightarrow> throw ''get_recent_runs: bad arguments''
     | Some (n, name) \<Rightarrow>
       bind (tool_db tb (if name = [] then ListRunsForOrg (tb_org tb) (clamp_limit 50 10 n)
                         else ListRunsForSchedule (tb_org tb) name (clamp_limit 50 10 n))) (\<lambda>rows.
       encoded tb (JArr (map (run_json tb) rows))))"

definition run_not_found :: string where
  \<open>run_not_found = ''{"error":"run not found"}''\<close>

definition own_run_row :: "toolbox \<Rightarrow> uuid \<Rightarrow> (run_join \<Rightarrow> string tool_sx) \<Rightarrow> string tool_sx" where
  "own_run_row tb i k = bind (attempt (on_db (GetRunForAdmin i))) (\<lambda>res. case res of
       Inl e \<Rightarrow> if e = ErrNoRows then ret run_not_found else throw (tb_err_text tb e)
     | Inr row \<Rightarrow> if run_org_id (fst row) \<noteq> tb_org tb then ret run_not_found else k row)"

definition run_detail_json :: "toolbox \<Rightarrow> run_join \<Rightarrow> json" where
  "run_detail_json tb row = (case row of (r, s, k, c) \<Rightarrow>
     JObj [(''actor'', null_or JStr (run_actor r)), (''cost_cents'', null_or JNum (run_cost_cents r)),
       (''duration_ms'', null_or JNum (run_duration_ms r)), (''error_kind'', null_or JStr (run_error_kind r)),
       (''error_msg'', null_or JStr (run_error_msg r)), (''finished_at'', null_or id (tsPtr (run_finished_at r))),
       (''fire_reason'', JStr (run_fire_reason r)), (''id'', uuidStr tb (run_id r)), (''owner'', JStr (rc_owner c)),
       (''repo_name'', JStr (rc_name c)), (''schedule_name'', JStr (sch_name s)), (''skill_path'', JStr (sk_path k)),
       (''started_at'', null_or id (tsPtr (run_started_at r))), (''status'', JStr (run_status r)),
       (''tokens_in'', null_or JNum (run_tokens_in r)), (''tokens_out'', null_or JNum (run_tokens_out r)),
       (''writeback_sha'', null_or JStr (run_writeback_commit_sha r))])"

definition run_arg :: "toolbox \<Rightarrow> string \<Rightarrow> (string \<times> int) option" where
  "run_arg tb raw = Option.bind (wl_unmarshal (tb_libs tb) raw) (\<lambda>j. Option.bind (struct_fields j) (\<lambda>kvs.
     Option.bind (str_in ''run_id'' kvs) (\<lambda>i. Option.bind (int64_in ''limit'' kvs) (\<lambda>n. Some (i, n)))))"

definition getRun :: "toolbox \<Rightarrow> string \<Rightarrow> string tool_sx" where
  "getRun tb raw = (case Option.bind (wl_unmarshal (tb_libs tb) raw) (\<lambda>j. Option.bind (struct_fields j) (str_in ''run_id'')) of
       None \<Rightarrow> throw ''bad arguments''
     | Some arg \<Rightarrow> (case uuid_parse (wl_ids (tb_libs tb)) arg of
         None \<Rightarrow> throw ''invalid run_id''
       | Some i \<Rightarrow> own_run_row tb i (\<lambda>row. encoded tb (run_detail_json tb row))))"

definition event_json :: "event_row \<Rightarrow> json" where
  "event_json e = JObj [(''ts'', JStr (format_millis (ev_ts e))), (''level'', JStr (ev_level e)),
     (''event_type'', JStr (ev_event_type e)), (''payload'', ev_payload_json e)]"

definition last_events :: "int \<Rightarrow> 'a list \<Rightarrow> 'a list" where
  "last_events n es = drop (length es - nat n) es"

definition getRunEvents :: "toolbox \<Rightarrow> string \<Rightarrow> string tool_sx" where
  "getRunEvents tb raw = (case run_arg tb raw of
       None \<Rightarrow> throw ''bad arguments''
     | Some (arg, n) \<Rightarrow> (case uuid_parse (wl_ids (tb_libs tb)) arg of
         None \<Rightarrow> throw ''invalid run_id''
       | Some i \<Rightarrow> own_run_row tb i (\<lambda>_.
           bind (tool_db tb (ListRunEvents i)) (\<lambda>es. encoded tb (JArr (map event_json (last_events (clamp_limit 200 50 n) es)))))))"

definition listSkills :: "toolbox \<Rightarrow> string tool_sx" where
  "listSkills tb = bind (tool_db tb (ListSkillsByOrg (tb_org tb))) (\<lambda>rows. encoded tb (JArr (map (\<lambda>(k, c).
     JObj [(''path'', JStr (sk_path k)), (''name'', JStr (sk_name k)), (''owner'', JStr (rc_owner c)), (''repo_name'', JStr (rc_name c))]) rows)))"

definition listSecretNames :: "toolbox \<Rightarrow> string tool_sx" where
  "listSecretNames tb = bind (map_err (tb_err_text tb) (ListSecretNames (tb_org tb))) (\<lambda>rows.
     encoded tb (JArr (map (JStr \<circ> sec_name) rows)))"

definition listRepos :: "toolbox \<Rightarrow> string tool_sx" where
  "listRepos tb = bind (tool_db tb (ListRepoConnections (tb_org tb))) (\<lambda>rows. encoded tb (JArr (map (\<lambda>c.
     JObj [(''owner'', JStr (rc_owner c)), (''name'', JStr (rc_name c)), (''default_branch'', JStr (rc_default_branch c))]) rows)))"

definition getAlerts :: "toolbox \<Rightarrow> string tool_sx" where
  "getAlerts tb = bind (tool_db tb (ListSchedulesForQuietCheck (tb_org tb))) (\<lambda>quiet.
     bind web_now (\<lambda>now.
     bind (tool_db tb (ListRecentAutoPaused (tb_org tb) (now - 7 * 24 * 3600 * second))) (\<lambda>paused.
     encoded tb (JObj [(''quiet_check_candidates'', JArr (map (\<lambda>(s, t).
         JObj [(''name'', JStr (sch_name s)), (''cron'', JStr (sch_cron s)), (''timezone'', JStr (sch_timezone s)),
           (''last_success'', null_or id (tsPtr t))]) quiet)),
       (''recently_auto_paused'', JArr (map (\<lambda>s.
         JObj [(''name'', JStr (sch_name s)), (''paused_at'', null_or id (tsPtr (sch_auto_paused_at s))),
           (''pause_reason'', null_or JStr (sch_auto_pause_reason s))]) paused))]))))"

definition Toolbox_Call :: "toolbox \<Rightarrow> caller \<Rightarrow> string \<Rightarrow> string \<Rightarrow> string tool_sx" where
  "Toolbox_Call tb cl name raw =
     (if name = ''list_jobs'' then listJobs tb
      else if name = ''get_recent_runs'' then getRecentRuns tb raw
      else if name = ''get_run'' then getRun tb raw
      else if name = ''get_run_events'' then getRunEvents tb raw
      else if name = ''list_skills'' then listSkills tb
      else if name = ''list_secret_names'' then (if cl_login cl = [] then throw ''authentication required'' else listSecretNames tb)
      else if name = ''list_repos'' then listRepos tb
      else if name = ''get_alerts'' then getAlerts tb
      else throw (''unknown tool '' @ go_quote name))"

section \<open>The loop\<close>

record chat_message =
  cm_role :: string
  cm_content :: string

datatype sink_event = Token string | ToolStart string string | ToolEnd string string

record chat_cfg =
  cc_turn :: "nat \<Rightarrow> message list \<Rightarrow> tool_def list \<Rightarrow> call_options \<Rightarrow> string + turn_result"
  cc_deltas :: "nat \<Rightarrow> message list \<Rightarrow> string list"
  cc_model :: string
  cc_api_key :: string
  cc_max_turns :: int
  cc_max_tokens :: int
  cc_tools :: toolbox
  cc_caller :: caller
  cc_page :: string
  cc_docs :: string

type_synonym 'a chat_sx = "(sink_event list \<times> web, string, 'a) sx"

definition to_sink :: "sink_event list \<Rightarrow> unit chat_sx" where
  "to_sink es = modify (\<lambda>(out, w). (out @ es, w))"

definition history_message :: "chat_message \<Rightarrow> message option" where
  "history_message m =
     (if cm_role m = ''user'' then Some \<lparr>mg_role = RoleUser, mg_content = cm_content m, mg_tool_uses = [], mg_tool_use_id = []\<rparr>
      else if cm_role m = ''assistant'' then Some \<lparr>mg_role = RoleAssistant, mg_content = cm_content m, mg_tool_uses = [], mg_tool_use_id = []\<rparr>
      else None)"

definition tool_reply :: "tool_use \<Rightarrow> string \<Rightarrow> message" where
  "tool_reply tu text = \<lparr>mg_role = RoleTool, mg_content = text, mg_tool_uses = [], mg_tool_use_id = tu_id tu\<rparr>"

definition call_tool :: "chat_cfg \<Rightarrow> tool_use \<Rightarrow> message chat_sx" where
  \<open>call_tool cfg tu =
     bind (to_sink [ToolStart (tu_name tu) (tu_input tu)]) (\<lambda>_.
     bind (attempt (on_web (Toolbox_Call (cc_tools cfg) (cc_caller cfg) (tu_name tu) (tu_input tu)))) (\<lambda>res. case res of
       Inl e \<Rightarrow> bind (to_sink [ToolEnd (tu_name tu) e]) (\<lambda>_. ret (tool_reply tu (''{"error":'' @ go_quote e @ ''}'')))
     | Inr result \<Rightarrow> bind (to_sink [ToolEnd (tu_name tu) []]) (\<lambda>_. ret (tool_reply tu result))))\<close>

fun call_tools :: "chat_cfg \<Rightarrow> tool_use list \<Rightarrow> message list chat_sx" where
  "call_tools cfg [] = ret []"
| "call_tools cfg (tu # tus) = bind (call_tool cfg tu) (\<lambda>m. bind (call_tools cfg tus) (\<lambda>ms. ret (m # ms)))"

definition ran_out :: string where
  "ran_out = ''I ran out of turns before reaching an answer. Try rephrasing or breaking the request into smaller steps.''"

definition chat_options :: "chat_cfg \<Rightarrow> call_options" where
  "chat_options cfg = \<lparr>co_model = cc_model cfg, co_max_tokens = (if cc_max_tokens cfg \<le> 0 then 2048 else cc_max_tokens cfg),
     co_api_key = cc_api_key cfg, co_endpoint = [], co_deployment = []\<rparr>"

text \<open>\<open>left\<close> turns remain after \<open>turn\<close> of them; the result is empty when they are used up.\<close>

fun chat_turns :: "chat_cfg \<Rightarrow> nat \<Rightarrow> nat \<Rightarrow> message list \<Rightarrow> usage \<Rightarrow> (string \<times> usage) chat_sx" where
  "chat_turns cfg 0 turn msgs u = ret ([], u)"
| "chat_turns cfg (Suc left) turn msgs u =
     bind (to_sink (map Token (filter (\<lambda>d. d \<noteq> []) (cc_deltas cfg turn msgs)))) (\<lambda>_.
     case cc_turn cfg turn msgs (Defs (cc_tools cfg)) (chat_options cfg) of
       Inl e \<Rightarrow> throw (''chat: turn '' @ digits (Suc turn) @ '': '' @ e)
     | Inr tr \<Rightarrow>
       let u' = \<lparr>ug_input_tokens = ug_input_tokens u + ug_input_tokens (tr_usage tr),
                 ug_output_tokens = ug_output_tokens u + ug_output_tokens (tr_usage tr)\<rparr>;
           said = \<lparr>mg_role = RoleAssistant, mg_content = tr_text tr, mg_tool_uses = tr_tool_uses tr, mg_tool_use_id = []\<rparr> in
       if tr_tool_uses tr = [] then ret (tr_text tr, u')
       else bind (call_tools cfg (tr_tool_uses tr)) (\<lambda>replies. chat_turns cfg left (Suc turn) (msgs @ [said] @ replies) u'))"

definition chat_max_turns :: "chat_cfg \<Rightarrow> nat" where
  "chat_max_turns cfg = (if cc_max_turns cfg \<le> 0 then 6 else nat (cc_max_turns cfg))"

definition chat_start :: "chat_cfg \<Rightarrow> chat_message list \<Rightarrow> message list" where
  "chat_start cfg history = \<lparr>mg_role = RoleSystem, mg_content = buildSystemPrompt (cc_docs cfg) (cc_caller cfg) (cc_page cfg),
     mg_tool_uses = [], mg_tool_use_id = []\<rparr> # List.map_filter history_message history"

definition chat_Run :: "chat_cfg \<Rightarrow> chat_message list \<Rightarrow> (string \<times> usage) chat_sx" where
  "chat_Run cfg history =
     bind (chat_turns cfg (chat_max_turns cfg) 0 (chat_start cfg history) \<lparr>ug_input_tokens = 0, ug_output_tokens = 0\<rparr>) (\<lambda>(text, u).
     ret (if text = [] then ran_out else text, u))"

text \<open>
  The chat routes (internal/webapi/chat.go): the configuration of the assistant, the
  credentials of its provider, and the stream of server-sent events. The events the handler
  writes after its headers are the frames of the state.
\<close>

record chat_config =
  ch_enabled :: bool
  ch_provider :: string
  ch_model :: string
  ch_api_key_secret :: string
  ch_copilot_prefix :: string
  ch_max_turns :: int
  ch_max_tokens :: int

text \<open>
  What the handler gets from outside: the providers and the environment they are made from,
  the chunks they stream, the embedded documents, the texts of database errors, and whether
  a JSON text that does not decode is merely cut off.
\<close>

record chat_env =
  ce_providers :: provider_lib
  ce_getenv :: "string \<Rightarrow> string"
  ce_deltas :: "nat \<Rightarrow> message list \<Rightarrow> string list"
  ce_docs :: string
  ce_err_text :: "db_err \<Rightarrow> string"
  ce_incomplete :: "string \<Rightarrow> bool"

section \<open>Requests\<close>

definition decode_message :: "json \<Rightarrow> chat_message option" where
  "decode_message j = Option.bind (struct_fields j) (\<lambda>kvs.
     Option.bind (str_in ''role'' kvs) (\<lambda>ro. Option.bind (str_in ''content'' kvs) (\<lambda>c. Some \<lparr>cm_role = ro, cm_content = c\<rparr>)))"

fun decode_all :: "('a \<Rightarrow> 'b option) \<Rightarrow> 'a list \<Rightarrow> 'b list option" where
  "decode_all f [] = Some []"
| "decode_all f (x # xs) = Option.bind (f x) (\<lambda>y. map_option (\<lambda>ys. y # ys) (decode_all f xs))"

definition as_messages :: "json \<Rightarrow> chat_message list option" where
  "as_messages j = (case j of JArr xs \<Rightarrow> decode_all decode_message xs | _ \<Rightarrow> None)"

definition decode_chat :: "json \<Rightarrow> (chat_message list \<times> string) option" where
  "decode_chat j = Option.bind (struct_fields j) (\<lambda>kvs.
     Option.bind (get_field as_messages ''messages'' kvs []) (\<lambda>ms. Option.bind (str_in ''page_context'' kvs) (\<lambda>p. Some (ms, p))))"

definition maxChatBody :: nat where
  "maxChatBody = 64 * 1024"

text \<open>The decoder reads up to the limit and no further than the end of the first value.\<close>

definition chat_request :: "web_deps \<Rightarrow> chat_env \<Rightarrow> web_request \<Rightarrow> web_response + (chat_message list \<times> string)" where
  "chat_request deps env r =
     (let read = take maxChatBody (wr_body r) in
      case wl_decode (wd_libs deps) read of
        None \<Rightarrow> Inl (if maxChatBody < length (wr_body r) \<and> ce_incomplete env read
          then writeErr 413 ''request body too large'' ''payload_too_large'' else writeErr 400 ''invalid body'' ''bad_request'')
      | Some j \<Rightarrow> (case decode_chat j of
          None \<Rightarrow> Inl (writeErr 400 ''invalid body'' ''bad_request'')
        | Some (ms, page) \<Rightarrow>
          if ms = [] then Inl (writeErr 400 ''messages must be non-empty'' ''bad_request'')
          else Inr (drop (length ms - 40) ms, page)))"

definition keep_rune :: "string \<Rightarrow> bool" where
  "keep_rune r = (case r of
       [c] \<Rightarrow> (let n = of_char c :: nat in (32 \<le> n \<and> n \<noteq> 127) \<or> n = 9)
     | _ \<Rightarrow> True)"

definition sanitizePageContext :: "string \<Rightarrow> string" where
  "sanitizePageContext s = concat (filter keep_rune (runes (take 256 s)))"

section \<open>Credentials\<close>

datatype credential_err = CredentialErr nat string string | StoreFailed

definition resolveChatCredentials ::
  "web_deps \<Rightarrow> chat_config \<Rightarrow> web secret_store_if \<Rightarrow> (web, credential_err, string) sx" where
  "resolveChatCredentials deps cfg store =
     (if ch_provider cfg = ''copilot-enterprise'' then
        (if ch_copilot_prefix cfg = [] then throw (CredentialErr 503 ''chat_disabled''
           ''chat copilot prefix is not configured (set CRONFOUNDRY_CHAT_COPILOT_PREFIX)'')
         else bind (map_err (\<lambda>e. if e = ErrCopilotReauthRequired
             then CredentialErr 401 ''copilot_token_reauth''
               (''copilot oauth token revoked or missing; reconnect from Settings '' @ [CHR 0xE2, CHR 0x86, CHR 0x92] @ '' Providers'')
             else CredentialErr 503 ''copilot_token_mint'' ''copilot token mint failed'')
           (ResolveCopilotToken (wd_libs deps) store (\<lambda>w. clock_at (ww_db w) (stmt_ctr (ww_db w))) (ch_copilot_prefix cfg) None)) (\<lambda>(tok, _).
           ret tok))
      else if ch_api_key_secret cfg = [] then throw (CredentialErr 503 ''chat_disabled'' ''chat api key secret is not configured'')
      else map_err (\<lambda>e. if e = ErrNotFound
          then CredentialErr 503 ''chat_disabled'' (''chat api key secret '' @ go_quote (ch_api_key_secret cfg) @ '' is not set'')
          else StoreFailed) (ss_get store (ch_api_key_secret cfg)))"

section \<open>The stream\<close>

definition sse_frame :: "web_libs \<Rightarrow> string \<Rightarrow> json \<Rightarrow> string" where
  "sse_frame L name payload = ''event: '' @ name @ [CHR 0x0A] @ ''data: '' @ wl_marshal L payload @ [CHR 0x0A, CHR 0x0A]"

text \<open>The input of a tool is raw JSON; an event whose input is not JSON is dropped.\<close>

definition sink_frames :: "web_libs \<Rightarrow> sink_event \<Rightarrow> string list" where
  "sink_frames L e = (case e of
       Token d \<Rightarrow> [sse_frame L ''token'' (JObj [(''delta'', JStr d)])]
     | ToolStart name input \<Rightarrow> (case wl_unmarshal L input of None \<Rightarrow> []
         | Some j \<Rightarrow> [sse_frame L ''tool_start'' (JObj [(''input'', j), (''name'', JStr name)])])
     | ToolEnd name err \<Rightarrow> [sse_frame L ''tool_end'' (JObj (omit_empty ''error'' err @ [(''name'', JStr name)]))])"

type_synonym 'a sse_sx = "(string list \<times> web, web_response, 'a) sx"

definition event_stream :: web_response where
  "event_stream = (bare_status 200)\<lparr>ws_headers := [(''Content-Type'', ''text/event-stream''), (''Cache-Control'', ''no-cache''),
     (''Connection'', ''keep-alive''), (''X-Accel-Buffering'', ''no'')]\<rparr>"

definition run_chat :: "web_libs \<Rightarrow> chat_cfg \<Rightarrow> chat_message list \<Rightarrow> unit sse_sx" where
  "run_chat L cfg ms = (\<lambda>(frames, w). case chat_Run cfg ms ([], w) of
       (res, evs, w') \<Rightarrow> (Inr (), frames @ concat (map (sink_frames L) evs) @ [case res of
         Inl _ \<Rightarrow> sse_frame L ''error'' (JObj [(''message'', JStr ''I hit an error talking to the model. Try again in a moment.'')])
       | Inr (final, u) \<Rightarrow> sse_frame L ''done'' (JObj [(''final'', JStr final), (''input_tokens'', JNum (ug_input_tokens u)),
           (''output_tokens'', JNum (ug_output_tokens u))])], w'))"

definition chat_cfg_of ::
  "web_deps \<Rightarrow> chat_config \<Rightarrow> chat_env \<Rightarrow> session_claims \<Rightarrow> uuid \<Rightarrow>
   (nat \<Rightarrow> message list \<Rightarrow> tool_def list \<Rightarrow> call_options \<Rightarrow> string + turn_result) \<Rightarrow> string \<Rightarrow> string \<Rightarrow> chat_cfg" where
  "chat_cfg_of deps cfg env claims org turn key page = \<lparr>cc_turn = turn, cc_deltas = ce_deltas env, cc_model = ch_model cfg,
     cc_api_key = key, cc_max_turns = ch_max_turns cfg, cc_max_tokens = ch_max_tokens cfg,
     cc_tools = \<lparr>tb_libs = wd_libs deps, tb_org = org, tb_err_text = ce_err_text env\<rparr>,
     cc_caller = \<lparr>cl_login = sc_login claims, cl_role = sc_role claims\<rparr>, cc_page = sanitizePageContext page, cc_docs = ce_docs env\<rparr>"

definition chat_stream :: "web_deps \<Rightarrow> chat_config \<Rightarrow> chat_env \<Rightarrow> web secret_store_if \<Rightarrow> session_claims \<Rightarrow> web_request \<Rightarrow> web_response sse_sx" where
  "chat_stream deps cfg env store claims r =
     (if \<not> ch_enabled cfg then throw (writeErr 503 ''chat assistant is not configured'' ''chat_disabled'')
      else case chat_request deps env r of
        Inl resp \<Rightarrow> throw resp
      | Inr (ms, page) \<Rightarrow>
        bind (on_web (load_org ''failed to load org'')) (\<lambda>org.
        case NewProvider (ce_providers env) (ce_getenv env) (ch_provider cfg) of
          Inl _ \<Rightarrow> throw (writeErr 500 ''chat provider misconfigured'' ''config'')
        | Inr p \<Rightarrow> (case pv_chat_turn p of
            None \<Rightarrow> throw (writeErr 500 (''provider '' @ go_quote (ch_provider cfg) @ '' does not support tool use'') ''provider_tool_unsupported'')
          | Some turn \<Rightarrow>
            bind (map_err (\<lambda>e. case e of CredentialErr status code msg \<Rightarrow> writeErr status msg code
                | StoreFailed \<Rightarrow> writeErr 500 ''failed to load chat credentials'' ''internal'')
              (on_web (resolveChatCredentials deps cfg store))) (\<lambda>key.
            bind (run_chat (wd_libs deps) (chat_cfg_of deps cfg env claims (og_id org) turn key page) ms) (\<lambda>_. ret event_stream)))))"

definition chat_info :: "chat_config \<Rightarrow> session_claims \<Rightarrow> web_handler" where
  "chat_info cfg claims r = ret (writeJSON 200 (JObj ((''enabled'', JBool (ch_enabled cfg)) #
     omit_empty ''model'' (if ch_enabled cfg then ch_model cfg else []))))"

end
