(* ===== verification/Chat_Claims.thy ===== *)
theory Chat_Claims
  imports Chat Session_Claims
begin

text \<open>
  What the assistant cannot do: its tools change nothing and show nothing of another
  organization, a conversation is bounded, and the page context it is told is clean text.
\<close>

section \<open>Reading only\<close>

definition reads_only :: "web \<Rightarrow> web \<Rightarrow> bool" where
  "reads_only w w' \<longleftrightarrow> (\<exists>n. w' = w\<lparr>ww_db := (ww_db w)\<lparr>stmt_ctr := stmt_ctr (ww_db w) + n\<rparr>\<rparr>)"

definition second_state :: "('s \<Rightarrow> 's \<Rightarrow> bool) \<Rightarrow> 'f \<times> 's \<Rightarrow> 'f \<times> 's \<Rightarrow> bool" where
  "second_state R x y \<longleftrightarrow> R (snd x) (snd y)"

lemma reads_only_refl: "reads_only w w"
  unfolding reads_only_def by (rule exI [of _ 0]) simp

interpretation ro: step_rel reads_only
  by unfold_locales (rule reads_only_refl, auto simp: reads_only_def add.assoc)

interpretation ro2: step_rel "second_state reads_only"
  by unfold_locales (auto simp: second_state_def intro: ro.R_refl ro.R_trans)

lemma read_stmt: "(\<And>w. snd (f w) = w) \<Longrightarrow> keeps reads_only (on_db (stmt f))"
  by (auto simp: keeps_def reads_only_def on_db_def stmt_def intro!: exI [of _ 1] split: prod.split) (metis snd_conv)+

lemma read_web_stmt: "(\<And>w. snd (f w) = w) \<Longrightarrow> keeps reads_only (web_stmt f)"
  by (auto simp: keeps_def reads_only_def web_stmt_run counted_def intro!: exI [of _ 1])

lemma tool_db_reads: "(\<And>w. snd (f w) = w) \<Longrightarrow> keeps reads_only (tool_db tb (stmt f))"
  unfolding tool_db_def by (intro ro.keeps_rules read_stmt)

lemma encoded_reads: "keeps reads_only (encoded tb j)"
  unfolding encoded_def by (rule ro.ret_keeps)

lemma own_run_row_reads: "(\<And>row. keeps reads_only (k row)) \<Longrightarrow> keeps reads_only (own_run_row tb i k)"
  unfolding own_run_row_def GetRunForAdmin_def
  by (auto intro!: ro.keeps_rules read_stmt split: sum.split option.split)

lemma listJobs_reads: "keeps reads_only (listJobs tb)"
  unfolding listJobs_def ListSchedulesByOrg_def by (intro ro.keeps_rules tool_db_reads encoded_reads) simp

lemma getRecentRuns_reads: "keeps reads_only (getRecentRuns tb raw)"
  unfolding getRecentRuns_def ListRunsForOrg_def ListRunsForSchedule_def
  by (auto intro!: ro.bind_keeps ro.throw_keeps tool_db_reads encoded_reads split: option.split)

lemma getRun_reads: "keeps reads_only (getRun tb raw)"
  unfolding getRun_def by (auto intro!: ro.throw_keeps own_run_row_reads encoded_reads split: option.split)

lemma getRunEvents_reads: "keeps reads_only (getRunEvents tb raw)"
  unfolding getRunEvents_def ListRunEvents_def
  by (auto intro!: ro.bind_keeps ro.throw_keeps own_run_row_reads tool_db_reads encoded_reads split: option.split)

lemma listSkills_reads: "keeps reads_only (listSkills tb)"
  unfolding listSkills_def ListSkillsByOrg_def by (intro ro.bind_keeps tool_db_reads encoded_reads) simp

lemma listSecretNames_reads: "keeps reads_only (listSecretNames tb)"
  unfolding listSecretNames_def ListSecretNames_def by (intro ro.bind_keeps ro.map_err_keeps read_web_stmt encoded_reads) simp

lemma listRepos_reads: "keeps reads_only (listRepos tb)"
  unfolding listRepos_def ListRepoConnections_def by (intro ro.bind_keeps tool_db_reads encoded_reads) simp

lemma getAlerts_reads: "keeps reads_only (getAlerts tb)"
  unfolding getAlerts_def ListSchedulesForQuietCheck_def ListRecentAutoPaused_def web_now_def
  by (intro ro.bind_keeps ro.gets_keeps tool_db_reads encoded_reads) simp_all

lemma Toolbox_Call_reads: "keeps reads_only (Toolbox_Call tb cl name raw)"
  unfolding Toolbox_Call_def
  by (simp add: listJobs_reads getRecentRuns_reads getRun_reads getRunEvents_reads listSkills_reads listSecretNames_reads
      listRepos_reads getAlerts_reads ro.throw_keeps del: throw_apply)

lemma on_web_second: "keeps R m \<Longrightarrow> keeps (second_state R) (on_web m)"
  by (auto simp: keeps_def second_state_def on_web_def split: prod.split) (metis snd_conv)

lemma to_sink_reads: "keeps (second_state reads_only) (to_sink es)"
  unfolding to_sink_def by (rule ro2.modify_keeps) (simp add: second_state_def split_beta ro.R_refl)

lemma call_tool_reads: "keeps (second_state reads_only) (call_tool cfg tu)"
  unfolding call_tool_def
  by (auto intro!: ro2.keeps_rules to_sink_reads on_web_second Toolbox_Call_reads split: sum.split)

lemma call_tools_reads: "keeps (second_state reads_only) (call_tools cfg tus)"
proof (induction tus)
  case Nil
  show ?case unfolding call_tools.simps by (rule ro2.ret_keeps)
next
  case (Cons tu tus)
  then show ?case unfolding call_tools.simps by (intro ro2.keeps_rules call_tool_reads)
qed

lemma chat_turns_reads: "keeps (second_state reads_only) (chat_turns cfg left turn msgs u)"
proof (induction left arbitrary: turn msgs u)
  case 0
  show ?case unfolding chat_turns.simps by (rule ro2.ret_keeps)
next
  case (Suc left)
  then show ?case unfolding chat_turns.simps Let_def
    by (intro ro2.bind_keeps to_sink_reads) (auto intro!: ro2.keeps_rules call_tools_reads split: sum.split)
qed

lemma chat_Run_reads: "keeps (second_state reads_only) (chat_Run cfg history)"
  unfolding chat_Run_def by (intro ro2.keeps_rules chat_turns_reads) (auto intro: ro2.keeps_rules)

text \<open>
  Whatever a model answers, a conversation of the assistant leaves every table as it was:
  the only thing that changes is the number of statements run.
\<close>

theorem chat_reads_only:
  "\<exists>n. snd (snd (chat_Run cfg history (out, w))) = w\<lparr>ww_db := (ww_db w)\<lparr>stmt_ctr := n\<rparr>\<rparr>"
proof -
  from keepsD [OF chat_Run_reads [of cfg history], of "(out, w)"] show ?thesis by (auto simp: second_state_def reads_only_def)
qed

section \<open>One organization\<close>

text \<open>What a state holds for an organization, the rows its rows refer to included.\<close>

definition org_events :: "uuid \<Rightarrow> world \<Rightarrow> event_row list" where
  "org_events org d = filter (\<lambda>e. list_ex (\<lambda>r. run_id r = ev_run_id e \<and> run_org_id r = org) (runs d)) (run_events d)"

definition org_schedules :: "uuid \<Rightarrow> world \<Rightarrow> (sched_row \<times> (sched_row \<times> skill_row \<times> repo_row) option \<times> time option) list" where
  "org_schedules org d = map (\<lambda>s. (s, join_schedule d s, last_success d (sch_id s))) (filter (\<lambda>s. sch_org_id s = org) (schedules d))"

definition org_runs :: "uuid \<Rightarrow> world \<Rightarrow> (run_row \<times> run_join option) list" where
  "org_runs org d = map (\<lambda>r. (r, with_join d r)) (filter (\<lambda>r. run_org_id r = org) (runs d))"

definition org_skills :: "uuid \<Rightarrow> world \<Rightarrow> (skill_row \<times> repo_row option) list" where
  "org_skills org d = map (\<lambda>k. (k, find_repo d (sk_repo_id k))) (filter (\<lambda>k. sk_org_id k = org) (skills d))"

definition org_repos :: "uuid \<Rightarrow> world \<Rightarrow> repo_row list" where
  "org_repos org d = filter (\<lambda>c. rc_org_id c = org) (repos d)"

definition org_secret_names :: "uuid \<Rightarrow> web \<Rightarrow> string list" where
  "org_secret_names org w = map sec_name (filter (\<lambda>s. sec_org_id s = org) (ww_secrets w))"

definition same_org :: "uuid \<Rightarrow> web \<Rightarrow> web \<Rightarrow> bool" where
  "same_org org w v \<longleftrightarrow> (let a = ww_db w; b = ww_db v in
     fault a = fault b \<and> clock_at a = clock_at b \<and> stmt_ctr a = stmt_ctr b \<and>
     distinct (map run_id (runs a)) \<and> distinct (map run_id (runs b)) \<and>
     org_schedules org a = org_schedules org b \<and> org_runs org a = org_runs org b \<and> org_events org a = org_events org b \<and>
     org_skills org a = org_skills org b \<and> org_repos org a = org_repos org b \<and> org_secret_names org w = org_secret_names org v)"

lemma same_org_sym: "same_org org w v \<Longrightarrow> same_org org v w"
  by (simp add: same_org_def Let_def)

lemma joins_counter [simp]: "join_schedule (d\<lparr>stmt_ctr := n\<rparr>) = join_schedule d" "with_join (d\<lparr>stmt_ctr := n\<rparr>) = with_join d"
proof -
  show "join_schedule (d\<lparr>stmt_ctr := n\<rparr>) = join_schedule d"
    by (rule ext) (simp add: join_schedule_def find_skill_def find_repo_def)
  then show "with_join (d\<lparr>stmt_ctr := n\<rparr>) = with_join d"
    by (intro ext) (simp add: with_join_def join_run_def find_schedule_def)
qed

lemma org_views_counter [simp]:
  "org_schedules org (d\<lparr>stmt_ctr := n\<rparr>) = org_schedules org d" "org_runs org (d\<lparr>stmt_ctr := n\<rparr>) = org_runs org d"
  "org_events org (d\<lparr>stmt_ctr := n\<rparr>) = org_events org d" "org_skills org (d\<lparr>stmt_ctr := n\<rparr>) = org_skills org d"
  "org_repos org (d\<lparr>stmt_ctr := n\<rparr>) = org_repos org d"
  by (simp_all add: org_schedules_def org_runs_def org_events_def org_skills_def org_repos_def
      find_repo_def last_success_def)

lemma same_org_counted: "same_org org w v \<Longrightarrow> same_org org (counted w) (counted v)"
  by (simp add: same_org_def Let_def counted_def org_secret_names_def)

text \<open>Two runs of a computation that agree on the result and end in related states.\<close>

definition agree :: "('s \<Rightarrow> 's \<Rightarrow> bool) \<Rightarrow> ('s, 'e, 'a) sx \<Rightarrow> 's \<Rightarrow> 's \<Rightarrow> bool" where
  "agree E m w v \<longleftrightarrow> fst (m w) = fst (m v) \<and> E (snd (m w)) (snd (m v))"

lemma agree_ret: "E w v \<Longrightarrow> agree E (ret a) w v" and agree_throw: "E w v \<Longrightarrow> agree E (throw e) w v"
  by (simp_all add: agree_def)

lemma agree_map_err: "agree E m w v \<Longrightarrow> agree E (map_err f m) w v"
  by (auto simp: agree_def map_err_def split: prod.splits sum.splits)

lemma agree_attempt: "agree E m w v \<Longrightarrow> agree E (attempt m) w v"
  by (auto simp: agree_def attempt_apply)

lemma agree_bind:
  assumes "agree E m w v" and "\<And>a w' v'. m w = (Inr a, w') \<Longrightarrow> m v = (Inr a, v') \<Longrightarrow> E w' v' \<Longrightarrow> agree E (k a) w' v'"
  shows "agree E (bind m k) w v"
proof -
  obtain x w' y v' where m: "m w = (x, w')" "m v = (y, v')" by fastforce
  then have "x = y" "E w' v'" using assms(1) by (simp_all add: agree_def)
  then show ?thesis using m assms(2) by (cases x) (auto simp: agree_def bind_def)
qed

lemma agree_db:
  assumes "same_org org w v" and "q (ww_db (counted w)) = q (ww_db (counted v))"
  shows "agree (same_org org) (on_db (stmt (\<lambda>d. (q d, d)))) w v"
proof -
  have "fst (on_db (stmt (\<lambda>d. (q d, d))) u) = (if fault (ww_db u) (stmt_ctr (ww_db u)) then Inl ErrConn else q (ww_db (counted u)))"
    "snd (on_db (stmt (\<lambda>d. (q d, d))) u) = counted u" for u
    by (simp_all add: on_db_def stmt_def counted_def)
  then show ?thesis using assms same_org_counted [OF assms(1)] by (simp add: agree_def same_org_def Let_def)
qed

lemma agree_tool_db:
  "same_org org w v \<Longrightarrow> q (ww_db (counted w)) = q (ww_db (counted v)) \<Longrightarrow>
   agree (same_org org) (tool_db tb (stmt (\<lambda>d. (q d, d)))) w v"
  unfolding tool_db_def by (intro agree_map_err agree_db)

lemma agree_encoded: "E w v \<Longrightarrow> agree E (encoded tb j) w v"
  by (simp add: encoded_def agree_ret)

text \<open>The queries of the tools read nothing but the view.\<close>

lemma same_org_rows:
  assumes "same_org org w v"
  shows "filter (\<lambda>s. sch_org_id s = org) (schedules (ww_db w)) = filter (\<lambda>s. sch_org_id s = org) (schedules (ww_db v))"
    "\<forall>s \<in> set (schedules (ww_db w)). sch_org_id s = org \<longrightarrow> join_schedule (ww_db w) s = join_schedule (ww_db v) s \<and>
       last_success (ww_db w) (sch_id s) = last_success (ww_db v) (sch_id s)"
    "filter (\<lambda>r. run_org_id r = org) (runs (ww_db w)) = filter (\<lambda>r. run_org_id r = org) (runs (ww_db v))"
    "\<forall>r \<in> set (runs (ww_db w)). run_org_id r = org \<longrightarrow> with_join (ww_db w) r = with_join (ww_db v) r"
    "filter (\<lambda>k. sk_org_id k = org) (skills (ww_db w)) = filter (\<lambda>k. sk_org_id k = org) (skills (ww_db v))"
    "\<forall>k \<in> set (skills (ww_db w)). sk_org_id k = org \<longrightarrow> find_repo (ww_db w) (sk_repo_id k) = find_repo (ww_db v) (sk_repo_id k)"
proof -
  have s: "org_schedules org (ww_db w) = org_schedules org (ww_db v)" and r: "org_runs org (ww_db w) = org_runs org (ww_db v)"
    and k: "org_skills org (ww_db w) = org_skills org (ww_db v)"
    using assms by (simp_all add: same_org_def Let_def)
  have pairs: "map g xs = map h ys \<Longrightarrow> (\<And>x. fst (g x) = x) \<Longrightarrow> (\<And>x. fst (h x) = x) \<Longrightarrow> xs = ys \<and> (\<forall>x \<in> set xs. g x = h x)"
    for g h :: "'x \<Rightarrow> 'x \<times> 'y" and xs ys
  proof -
    assume e: "map g xs = map h ys" and f: "\<And>x. fst (g x) = x" "\<And>x. fst (h x) = x"
    have "map (fst \<circ> g) xs = map (fst \<circ> h) ys" using arg_cong [OF e, of "map fst"] by simp
    then have "xs = ys" using f by (simp add: comp_def)
    then show ?thesis using e by simp
  qed
  from pairs [OF s [unfolded org_schedules_def]] show "filter (\<lambda>s. sch_org_id s = org) (schedules (ww_db w)) = filter (\<lambda>s. sch_org_id s = org) (schedules (ww_db v))"
    "\<forall>s \<in> set (schedules (ww_db w)). sch_org_id s = org \<longrightarrow> join_schedule (ww_db w) s = join_schedule (ww_db v) s \<and>
       last_success (ww_db w) (sch_id s) = last_success (ww_db v) (sch_id s)" by simp_all
  from pairs [OF r [unfolded org_runs_def]] show "filter (\<lambda>r. run_org_id r = org) (runs (ww_db w)) = filter (\<lambda>r. run_org_id r = org) (runs (ww_db v))"
    "\<forall>r \<in> set (runs (ww_db w)). run_org_id r = org \<longrightarrow> with_join (ww_db w) r = with_join (ww_db v) r" by simp_all
  from pairs [OF k [unfolded org_skills_def]] show "filter (\<lambda>k. sk_org_id k = org) (skills (ww_db w)) = filter (\<lambda>k. sk_org_id k = org) (skills (ww_db v))"
    "\<forall>k \<in> set (skills (ww_db w)). sk_org_id k = org \<longrightarrow> find_repo (ww_db w) (sk_repo_id k) = find_repo (ww_db v) (sk_repo_id k)" by simp_all
qed

lemma map_filter_same: "xs = ys \<Longrightarrow> (\<And>x. x \<in> set xs \<Longrightarrow> f x = g x) \<Longrightarrow> List.map_filter f xs = List.map_filter g ys"
  by (auto simp: List.map_filter_def intro!: map_cong filter_cong)

lemma filter_org: "filter (\<lambda>x. p x \<and> q x) xs = filter q (filter p xs)"
  by simp

lemma join_filter:
  "filter (\<lambda>row. run_org_id (fst row) = org \<and> p row) (List.map_filter (with_join d) rs) =
   filter p (List.map_filter (with_join d) (filter (\<lambda>r. run_org_id r = org) rs))"
  by (induction rs) (auto simp: map_filter_simps with_join_def split: option.splits)

lemma same_org_joins:
  assumes "same_org org w v"
  shows "List.map_filter (join_schedule (ww_db w)) (filter (\<lambda>s. sch_org_id s = org) (schedules (ww_db w))) =
      List.map_filter (join_schedule (ww_db v)) (filter (\<lambda>s. sch_org_id s = org) (schedules (ww_db v)))"
    "List.map_filter (with_join (ww_db w)) (filter (\<lambda>r. run_org_id r = org) (runs (ww_db w))) =
      List.map_filter (with_join (ww_db v)) (filter (\<lambda>r. run_org_id r = org) (runs (ww_db v)))"
    "List.map_filter (\<lambda>k. map_option (\<lambda>c. (k, c)) (find_repo (ww_db w) (sk_repo_id k))) (filter (\<lambda>k. sk_org_id k = org) (skills (ww_db w))) =
      List.map_filter (\<lambda>k. map_option (\<lambda>c. (k, c)) (find_repo (ww_db v) (sk_repo_id k))) (filter (\<lambda>k. sk_org_id k = org) (skills (ww_db v)))"
    "map (\<lambda>s. (s, last_success (ww_db w) (sch_id s))) (sort_key sch_name (filter (\<lambda>s. sch_org_id s = org \<and> p s) (schedules (ww_db w)))) =
      map (\<lambda>s. (s, last_success (ww_db v) (sch_id s))) (sort_key sch_name (filter (\<lambda>s. sch_org_id s = org \<and> p s) (schedules (ww_db v))))"
proof -
  note rows = same_org_rows [OF assms]
  show "List.map_filter (join_schedule (ww_db w)) (filter (\<lambda>s. sch_org_id s = org) (schedules (ww_db w))) =
      List.map_filter (join_schedule (ww_db v)) (filter (\<lambda>s. sch_org_id s = org) (schedules (ww_db v)))"
    using rows(1) by (rule map_filter_same) (use rows(2) in simp)
  show "List.map_filter (with_join (ww_db w)) (filter (\<lambda>r. run_org_id r = org) (runs (ww_db w))) =
      List.map_filter (with_join (ww_db v)) (filter (\<lambda>r. run_org_id r = org) (runs (ww_db v)))"
    using rows(3) by (rule map_filter_same) (use rows(4) in simp)
  show "List.map_filter (\<lambda>k. map_option (\<lambda>c. (k, c)) (find_repo (ww_db w) (sk_repo_id k))) (filter (\<lambda>k. sk_org_id k = org) (skills (ww_db w))) =
      List.map_filter (\<lambda>k. map_option (\<lambda>c. (k, c)) (find_repo (ww_db v) (sk_repo_id k))) (filter (\<lambda>k. sk_org_id k = org) (skills (ww_db v)))"
    using rows(5) by (rule map_filter_same) (use rows(6) in simp)
  have "filter (\<lambda>s. sch_org_id s = org \<and> p s) (schedules (ww_db w)) = filter (\<lambda>s. sch_org_id s = org \<and> p s) (schedules (ww_db v))"
    unfolding filter_org rows(1) ..
  moreover have "map (\<lambda>s. (s, last_success (ww_db w) (sch_id s))) (sort_key sch_name (filter (\<lambda>s. sch_org_id s = org \<and> p s) (schedules (ww_db w)))) =
      map (\<lambda>s. (s, last_success (ww_db v) (sch_id s))) (sort_key sch_name (filter (\<lambda>s. sch_org_id s = org \<and> p s) (schedules (ww_db w))))"
    by (rule map_cong [OF refl]) (use rows(2) in auto)
  ultimately show "map (\<lambda>s. (s, last_success (ww_db w) (sch_id s))) (sort_key sch_name (filter (\<lambda>s. sch_org_id s = org \<and> p s) (schedules (ww_db w)))) =
      map (\<lambda>s. (s, last_success (ww_db v) (sch_id s))) (sort_key sch_name (filter (\<lambda>s. sch_org_id s = org \<and> p s) (schedules (ww_db v))))"
    by simp
qed

lemma newest_runs_same:
  assumes "same_org org w v"
  shows "newest_runs (ww_db w) (\<lambda>row. run_org_id (fst row) = org \<and> p row) n = newest_runs (ww_db v) (\<lambda>row. run_org_id (fst row) = org \<and> p row) n"
  by (simp add: newest_runs_def join_filter same_org_joins(2) [OF assms])

lemma listJobs_agree: "same_org (tb_org tb) w v \<Longrightarrow> agree (same_org (tb_org tb)) (listJobs tb) w v"
  unfolding listJobs_def ListSchedulesByOrg_def
  by (intro agree_bind agree_tool_db agree_encoded) (simp_all add: same_org_joins(1) [OF same_org_counted])

lemma getRecentRuns_agree: "same_org (tb_org tb) w v \<Longrightarrow> agree (same_org (tb_org tb)) (getRecentRuns tb raw) w v"
proof -
  assume s: "same_org (tb_org tb) w v"
  have "agree (same_org (tb_org tb)) (tool_db tb (ListRunsForOrg (tb_org tb) n)) w v" for n
    unfolding ListRunsForOrg_def using newest_runs_same [OF same_org_counted [OF s], of "\<lambda>_. True" n]
    by (intro agree_tool_db s) (simp add: case_prod_beta')
  moreover have "agree (same_org (tb_org tb)) (tool_db tb (ListRunsForSchedule (tb_org tb) name n)) w v" for name n
    unfolding ListRunsForSchedule_def using newest_runs_same [OF same_org_counted [OF s], of "\<lambda>row. sch_name (fst (snd row)) = name" n]
    by (intro agree_tool_db s) (simp add: case_prod_beta')
  ultimately show ?thesis
    unfolding getRecentRuns_def by (auto split: option.split intro!: agree_bind agree_throw agree_encoded s)
qed

lemma listSkills_agree: "same_org (tb_org tb) w v \<Longrightarrow> agree (same_org (tb_org tb)) (listSkills tb) w v"
  unfolding listSkills_def ListSkillsByOrg_def
  by (intro agree_bind agree_tool_db agree_encoded) (simp_all add: same_org_joins(3) [OF same_org_counted])

lemma listRepos_agree: "same_org (tb_org tb) w v \<Longrightarrow> agree (same_org (tb_org tb)) (listRepos tb) w v"
  unfolding listRepos_def ListRepoConnections_def
  by (intro agree_bind agree_tool_db agree_encoded)
     (auto dest!: same_org_counted simp: same_org_def Let_def org_repos_def counted_def)

lemma web_now_agree: "same_org org w v \<Longrightarrow> agree (same_org org) web_now w v"
  by (simp add: agree_def web_now_def same_org_def Let_def)

lemma paused_same:
  assumes "same_org org w v"
  shows "filter (\<lambda>s. sch_org_id s = org \<and> p s) (schedules (ww_db w)) = filter (\<lambda>s. sch_org_id s = org \<and> p s) (schedules (ww_db v))"
  unfolding filter_org same_org_rows(1) [OF assms] ..

lemma quiet_agree: "same_org (tb_org tb) w v \<Longrightarrow> agree (same_org (tb_org tb)) (tool_db tb (ListSchedulesForQuietCheck (tb_org tb))) w v"
  unfolding ListSchedulesForQuietCheck_def
  by (rule agree_tool_db, assumption) (rule arg_cong [of _ _ Inr], rule same_org_joins(4), rule same_org_counted)

lemma paused_agree: "same_org (tb_org tb) w v \<Longrightarrow> agree (same_org (tb_org tb)) (tool_db tb (ListRecentAutoPaused (tb_org tb) t)) w v"
  unfolding ListRecentAutoPaused_def
  by (rule agree_tool_db, assumption) (simp only: paused_same [OF same_org_counted])

lemma getAlerts_agree: "same_org (tb_org tb) w v \<Longrightarrow> agree (same_org (tb_org tb)) (getAlerts tb) w v"
  unfolding getAlerts_def by (intro agree_bind quiet_agree paused_agree agree_encoded web_now_agree)

lemma insort_names: "map f (insort_key f x xs) = insort (f x) (map f xs)"
  by (induction xs) simp_all

lemma sort_names: "map f (sort_key f xs) = sort (map f xs)"
  by (induction xs) (simp_all add: insort_names)

lemma listSecretNames_agree: "same_org (tb_org tb) w v \<Longrightarrow> agree (same_org (tb_org tb)) (listSecretNames tb) w v"
proof -
  assume s: "same_org (tb_org tb) w v"
  let ?r = "\<lambda>u. if fault (ww_db u) (stmt_ctr (ww_db u)) then Inl (tb_err_text tb ErrConn)
    else Inr (wl_marshal (tb_libs tb) (JArr (map JStr (sort (org_secret_names (tb_org tb) u)))))"
  have "listSecretNames tb u = (?r u, counted u)" for u
    by (simp add: listSecretNames_def ListSecretNames_def web_stmt_run bind_def map_err_def encoded_def org_secret_names_def
        sort_names [symmetric])
  then show ?thesis using s same_org_counted [OF s] by (simp add: agree_def same_org_def Let_def)
qed

text \<open>A run of another organization and a run that does not exist look the same.\<close>

lemma find_unique_id: "distinct (map run_id rs) \<Longrightarrow> find (\<lambda>r. run_id r = i) rs = Some r \<longleftrightarrow> r \<in> set rs \<and> run_id r = i"
  by (induction rs) (auto intro: rev_image_eqI)

lemma own_run_same:
  assumes s: "same_org org w v"
  shows "(find_run (ww_db w) i = Some r \<and> run_org_id r = org) = (find_run (ww_db v) i = Some r \<and> run_org_id r = org)"
  using s arg_cong [OF same_org_rows(3) [OF s], of set]
  by (auto simp: find_run_def same_org_def Let_def find_unique_id set_eq_iff)

lemma own_run_row_agree:
  assumes s: "same_org (tb_org tb) w v"
    and k: "\<And>row w' v'. same_org (tb_org tb) w' v' \<Longrightarrow> find_run (ww_db w') i = Some (fst row) \<Longrightarrow> run_org_id (fst row) = tb_org tb \<Longrightarrow>
      agree (same_org (tb_org tb)) (k row) w' v'"
  shows "agree (same_org (tb_org tb)) (own_run_row tb i k) w v"
proof -
  let ?q = "\<lambda>u. Option.bind (find_run (ww_db u) i) (with_join (ww_db u))"
  have run: "own_run_row tb i k u = (if fault (ww_db u) (stmt_ctr (ww_db u)) then (Inl (tb_err_text tb ErrConn), counted u)
      else case ?q u of None \<Rightarrow> (Inr run_not_found, counted u)
        | Some row \<Rightarrow> if run_org_id (fst row) \<noteq> tb_org tb then (Inr run_not_found, counted u) else k row (counted u))" for u
    by (auto simp: own_run_row_def GetRunForAdmin_def bind_def attempt_apply on_db_def stmt_def counted_def find_run_def
        split: option.splits)
  have c: "same_org (tb_org tb) (counted w) (counted v)" using s by (rule same_org_counted)
  have fst_join: "with_join d r = Some row \<Longrightarrow> fst row = r" for d r row by (auto simp: with_join_def)
  have fq: "find_run (ww_db (counted u)) i = find_run (ww_db u) i" for u by (simp add: counted_def find_run_def)
  show ?thesis
  proof (cases "\<exists>r. find_run (ww_db w) i = Some r \<and> run_org_id r = tb_org tb")
    case True
    then obtain r where r: "find_run (ww_db w) i = Some r" "run_org_id r = tb_org tb" by blast
    then have v: "find_run (ww_db v) i = Some r" using own_run_same [OF s] by blast
    have "r \<in> set (runs (ww_db w))" using r by (simp add: find_run_def find_member)
    then have "with_join (ww_db w) r = with_join (ww_db v) r" using same_org_rows(4) [OF s] r by simp
    then show ?thesis
      using r v s c k [OF c] fst_join
      by (auto simp: agree_def run fq same_org_def Let_def split: option.splits)
  next
    case False
    then have "\<nexists>r. find_run (ww_db v) i = Some r \<and> run_org_id r = tb_org tb" using own_run_same [OF s] by blast
    with False have "(case ?q u of None \<Rightarrow> (Inr run_not_found, counted u)
        | Some row \<Rightarrow> if run_org_id (fst row) \<noteq> tb_org tb then (Inr run_not_found, counted u) else k row (counted u)) = (Inr run_not_found, counted u)"
      if "u = w \<or> u = v" for u
      using that by (auto split: option.splits bind_splits dest: fst_join)
    then show ?thesis using s c by (simp add: agree_def run same_org_def Let_def)
  qed
qed

lemma getRun_agree: "same_org (tb_org tb) w v \<Longrightarrow> agree (same_org (tb_org tb)) (getRun tb raw) w v"
  unfolding getRun_def by (auto split: option.split intro!: agree_throw own_run_row_agree agree_encoded)

lemma run_events_same:
  assumes "same_org org w v" and "find_run (ww_db w) i = Some r" and "run_org_id r = org"
  shows "filter (\<lambda>e. ev_run_id e = i) (run_events (ww_db w)) = filter (\<lambda>e. ev_run_id e = i) (run_events (ww_db v))"
proof -
  have via: "filter (\<lambda>e. ev_run_id e = i) (run_events d) = filter (\<lambda>e. ev_run_id e = i) (org_events org d)"
    if "find_run d i = Some r" for d
  proof -
    have "r \<in> set (runs d) \<and> run_id r = i" using find_member [OF that [unfolded find_run_def]] by simp
    then have "ev_run_id e = i \<Longrightarrow> list_ex (\<lambda>r. run_id r = ev_run_id e \<and> run_org_id r = org) (runs d)" for e
      using assms(3) by (auto simp: list_ex_iff)
    then show ?thesis unfolding org_events_def filter_filter by (intro filter_cong) auto
  qed
  have "find_run (ww_db v) i = Some r" using own_run_same [OF assms(1)] assms(2,3) by blast
  then show ?thesis using via assms(1,2) by (simp add: same_org_def Let_def)
qed

lemma events_agree:
  assumes s: "same_org (tb_org tb) w v" and r: "find_run (ww_db w) i = Some r" "run_org_id r = tb_org tb"
  shows "agree (same_org (tb_org tb)) (tool_db tb (ListRunEvents i)) w v"
proof -
  have "find_run (ww_db (counted w)) i = Some r" using r(1) by (simp add: counted_def find_run_def)
  from run_events_same [OF same_org_counted [OF s] this r(2)] show ?thesis
    unfolding ListRunEvents_def by (intro agree_tool_db s) simp
qed

lemma getRunEvents_agree:
  assumes s: "same_org (tb_org tb) w v"
  shows "agree (same_org (tb_org tb)) (getRunEvents tb raw) w v"
proof -
  have "agree (same_org (tb_org tb)) (own_run_row tb i (\<lambda>_. bind (tool_db tb (ListRunEvents i)) (\<lambda>es. encoded tb (f es)))) w v" for i f
    by (rule own_run_row_agree [OF s], rule agree_bind, rule events_agree) (auto intro: agree_encoded)
  then show ?thesis unfolding getRunEvents_def by (simp add: agree_throw s split: option.split prod.split)
qed

lemma Toolbox_Call_agree: "same_org (tb_org tb) w v \<Longrightarrow> agree (same_org (tb_org tb)) (Toolbox_Call tb cl name raw) w v"
  unfolding Toolbox_Call_def
  by (simp add: listJobs_agree getRecentRuns_agree getRun_agree getRunEvents_agree listSkills_agree listSecretNames_agree
      listRepos_agree getAlerts_agree agree_throw)

text \<open>The sink is part of what the caller sees, so related states have the same one.\<close>

definition same_stream :: "uuid \<Rightarrow> sink_event list \<times> web \<Rightarrow> sink_event list \<times> web \<Rightarrow> bool" where
  "same_stream org x y \<longleftrightarrow> fst x = fst y \<and> same_org org (snd x) (snd y)"

lemma on_web_agree: "agree (same_org org) m (snd x) (snd y) \<Longrightarrow> fst x = fst y \<Longrightarrow> agree (same_stream org) (on_web m) x y"
  by (auto simp: agree_def same_stream_def on_web_def split: prod.splits)

lemma to_sink_agree: "same_stream org x y \<Longrightarrow> agree (same_stream org) (to_sink es) x y"
  by (auto simp: agree_def same_stream_def to_sink_def split: prod.splits)

lemma call_tool_agree: "same_stream (tb_org (cc_tools cfg)) x y \<Longrightarrow> agree (same_stream (tb_org (cc_tools cfg))) (call_tool cfg tu) x y"
  unfolding call_tool_def
  by (intro agree_bind to_sink_agree agree_attempt on_web_agree Toolbox_Call_agree)
     (auto simp: same_stream_def split: sum.split intro!: agree_bind to_sink_agree agree_ret)

lemma call_tools_agree: "same_stream (tb_org (cc_tools cfg)) x y \<Longrightarrow> agree (same_stream (tb_org (cc_tools cfg))) (call_tools cfg tus) x y"
proof (induction tus arbitrary: x y)
  case Nil
  then show ?case unfolding call_tools.simps by (rule agree_ret)
next
  case (Cons tu tus)
  then show ?case unfolding call_tools.simps by (intro agree_bind call_tool_agree agree_ret)
qed

lemma chat_turns_agree: "same_stream (tb_org (cc_tools cfg)) x y \<Longrightarrow>
   agree (same_stream (tb_org (cc_tools cfg))) (chat_turns cfg left turn msgs u) x y"
proof (induction left arbitrary: turn msgs u x y)
  case 0
  then show ?case unfolding chat_turns.simps by (rule agree_ret)
next
  case (Suc left)
  show ?case unfolding chat_turns.simps Let_def
    by (intro agree_bind to_sink_agree Suc.prems)
       (auto split: sum.split intro!: agree_throw agree_ret agree_bind call_tools_agree Suc.IH)
qed

text \<open>
  C31: A conversation shows nothing of another organization. Two states that hold the same for
  the organization of the toolbox, whatever else they hold, give the same answer, the same
  usage and the same stream of events, whatever tools the model calls with whatever arguments.
\<close>

theorem chat_isolates_org:
  assumes "same_org (tb_org (cc_tools cfg)) w v"
  shows "fst (chat_Run cfg history (out, w)) = fst (chat_Run cfg history (out, v)) \<and>
    fst (snd (chat_Run cfg history (out, w))) = fst (snd (chat_Run cfg history (out, v)))"
proof -
  have "same_stream (tb_org (cc_tools cfg)) (out, w) (out, v)" using assms by (simp add: same_stream_def)
  then have "agree (same_stream (tb_org (cc_tools cfg))) (chat_Run cfg history) (out, w) (out, v)"
    unfolding chat_Run_def by (intro agree_bind chat_turns_agree) (auto intro: agree_ret)
  then show ?thesis by (simp add: agree_def same_stream_def)
qed

definition sample_chat :: chat_cfg where
  "sample_chat = \<lparr>cc_turn = (\<lambda>n ms tools opts. Inr \<lparr>tr_text = ''done'',
       tr_tool_uses = (if n = 0 then [\<lparr>tu_id = ''1'', tu_name = ''list_repos'', tu_input = []\<rparr>] else []),
       tr_usage = \<lparr>ug_input_tokens = 1, ug_output_tokens = 1\<rparr>, tr_stop_reason = []\<rparr>),
     cc_deltas = (\<lambda>n ms. [''done'']), cc_model = ''m'', cc_api_key = ''k'', cc_max_turns = 0, cc_max_tokens = 0,
     cc_tools = \<lparr>tb_libs = sample_web_libs, tb_org = 9, tb_err_text = (\<lambda>_. ''e'')\<rparr>,
     cc_caller = \<lparr>cl_login = ''Ann'', cl_role = ''viewer''\<rparr>, cc_page = [], cc_docs = []\<rparr>"

definition foreign_web :: web where
  "foreign_web = (let w = sample_web [] in w\<lparr>ww_db := (ww_db w)\<lparr>repos := repos (ww_db w) @
     [sample_repo\<lparr>rc_id := 77, rc_org_id := 8, rc_owner := ''other''\<rparr>]\<rparr>\<rparr>)"

theorem chat_isolates_org_witness:
  "fst (chat_Run sample_chat [] ([], sample_web [])) = fst (chat_Run sample_chat [] ([], foreign_web)) \<and>
   length (repos (ww_db foreign_web)) = Suc (length (repos (ww_db (sample_web []))))"
proof -
  have "same_org (tb_org (cc_tools sample_chat)) (sample_web []) foreign_web"
    by (simp add: same_org_def sample_chat_def foreign_web_def sample_web_def sample_world_def org_schedules_def org_runs_def
        org_events_def org_skills_def org_repos_def org_secret_names_def sample_schedule_def sample_skill_def sample_repo_def
        join_schedule_def find_skill_def find_repo_def last_success_def Let_def)
  from chat_isolates_org [OF this] show ?thesis by (simp add: foreign_web_def Let_def)
qed

section \<open>Bounds\<close>

lemma call_tool_provider [simp]: "call_tool (cfg\<lparr>cc_turn := f, cc_deltas := g\<rparr>) tu = call_tool cfg tu"
  by (simp add: call_tool_def)

lemma call_tools_provider [simp]: "call_tools (cfg\<lparr>cc_turn := f, cc_deltas := g\<rparr>) tus = call_tools cfg tus"
  by (induction tus) simp_all

lemma chat_options_provider [simp]: "chat_options (cfg\<lparr>cc_turn := f, cc_deltas := g\<rparr>) = chat_options cfg"
  by (simp add: chat_options_def)

lemma chat_turns_provider:
  "\<forall>n. turn \<le> n \<and> n < turn + left \<longrightarrow> f n = cc_turn cfg n \<and> g n = cc_deltas cfg n \<Longrightarrow>
   chat_turns (cfg\<lparr>cc_turn := f, cc_deltas := g\<rparr>) left turn msgs u = chat_turns cfg left turn msgs u"
proof (induction left arbitrary: turn msgs u)
  case (Suc left)
  have "f turn = cc_turn cfg turn" "g turn = cc_deltas cfg turn" using Suc.prems by simp_all
  moreover have "chat_turns (cfg\<lparr>cc_turn := f, cc_deltas := g\<rparr>) left (Suc turn) ms v = chat_turns cfg left (Suc turn) ms v" for ms v
    using Suc.prems by (intro Suc.IH) simp
  ultimately show ?case by (simp add: Let_def cong: sum.case_cong if_cong)
qed simp

text \<open>
  A conversation asks the model at most its number of turns, six when none is configured:
  what a model would answer to a later call has no effect on it.
\<close>

theorem chat_bounded:
  assumes "\<forall>n < (if cc_max_turns cfg \<le> 0 then 6 else nat (cc_max_turns cfg)). f n = cc_turn cfg n \<and> g n = cc_deltas cfg n"
  shows "chat_Run (cfg\<lparr>cc_turn := f, cc_deltas := g\<rparr>) history = chat_Run cfg history"
proof -
  have "chat_max_turns (cfg\<lparr>cc_turn := f, cc_deltas := g\<rparr>) = chat_max_turns cfg"
    "chat_start (cfg\<lparr>cc_turn := f, cc_deltas := g\<rparr>) history = chat_start cfg history"
    by (simp_all add: chat_max_turns_def chat_start_def)
  then show ?thesis
    using assms by (simp add: chat_Run_def chat_turns_provider chat_max_turns_def)
qed

theorem chat_bounded_witness:
  "chat_Run (sample_chat\<lparr>cc_turn := (\<lambda>n. if n < 6 then cc_turn sample_chat n else (\<lambda>_ _ _. Inl ''never'')), cc_deltas := cc_deltas sample_chat\<rparr>) [] =
   chat_Run sample_chat []"
  by (rule chat_bounded) (simp add: sample_chat_def)

text \<open>The page context.\<close>

lemma runes_length: "length (concat (runes s)) \<le> 3 * length s"
proof (induction s rule: runes.induct)
  case (1 s)
  show ?case
  proof (cases "s = [] \<or> rune_len s = 0")
    case True
    then show ?thesis using 1 by (subst runes.simps) (cases s; auto simp: rune_error_def)
  next
    case False
    then have "rune_len s \<le> length s" using rune_len_cases by blast
    then show ?thesis using 1 False by (subst runes.simps) auto
  qed
qed

lemma second_byte_high: "second_byte b c \<Longrightarrow> 128 \<le> (of_char c :: nat)"
  by (auto simp: second_byte_def byte_in_def cont_def Let_def split: if_splits)

lemma valid_rune_bytes:
  assumes "valid_rune r" and "length r \<noteq> 1" and "c \<in> set r"
  shows "128 \<le> (of_char c :: nat)"
proof -
  have "rune_len r \<noteq> 0" using assms(1) by (auto simp: valid_rune_def)
  from rune_len_shapes [OF this] show ?thesis
    using assms
    by (elim disjE exE conjE)
       (auto simp: valid_rune_def rune_len_def byte_in_def cont_def dest: second_byte_high split: if_splits)
qed

lemma filter_length: "length (concat (filter p xs)) \<le> length (concat xs)"
  by (induction xs) auto

text \<open>
  The context of the page that goes into the prompt has at most 768 bytes and no control
  character of ASCII but the tab, whatever the browser sent.
\<close>

theorem page_context_clean:
  "length (sanitizePageContext s) \<le> 768 \<and>
   list_all (\<lambda>c. let n = of_char c :: nat in n = 9 \<or> 32 \<le> n \<and> n \<noteq> 127) (sanitizePageContext s)"
proof
  have "length (sanitizePageContext s) \<le> length (concat (runes (take 256 s)))"
    unfolding sanitizePageContext_def by (rule filter_length)
  also have "\<dots> \<le> 3 * length (take 256 s)" by (rule runes_length)
  finally show "length (sanitizePageContext s) \<le> 768" by simp
  show "list_all (\<lambda>c. let n = of_char c :: nat in n = 9 \<or> 32 \<le> n \<and> n \<noteq> 127) (sanitizePageContext s)"
    unfolding list_all_iff sanitizePageContext_def
  proof
    fix c assume "c \<in> set (concat (filter keep_rune (runes (take 256 s))))"
    then obtain r where r: "r \<in> set (runes (take 256 s))" "keep_rune r" "c \<in> set r" by auto
    show "let n = of_char c :: nat in n = 9 \<or> 32 \<le> n \<and> n \<noteq> 127"
    proof (cases "length r = 1")
      case True
      then show ?thesis using r by (auto simp: keep_rune_def length_Suc_conv Let_def)
    next
      case False
      then show ?thesis using valid_rune_bytes [OF runes_valid [OF r(1)] False r(3)] by (simp add: Let_def)
    qed
  qed
qed

end
