(* ===== verification/Yaml_Edit.thy ===== *)
theory Yaml_Edit
  imports Config_Props
begin

text \<open>
  The edit of a manifest (internal/yamledit/append_schedule.go). The code works on the syntax
  tree of yaml.v3: a node has a kind, a tag, a value and children, and carries comments, style
  and anchors along, which are one opaque field here. The Go code changes nodes in place; the
  model returns the changed tree. Parsing, printing and the conversion of JSON to YAML are the
  library's.
\<close>

section \<open>Nodes\<close>

datatype node_kind = DocumentNode | SequenceNode | MappingNode | ScalarNode | AliasNode

datatype yaml_node = Node (nd_kind: node_kind) (nd_tag: string) (nd_value: string) (nd_rest: string) (nd_content: "yaml_node list")

definition set_content :: "yaml_node list \<Rightarrow> yaml_node \<Rightarrow> yaml_node" where
  "set_content cs n = Node (nd_kind n) (nd_tag n) (nd_value n) (nd_rest n) cs"

lemma set_content_simps [simp]:
  "nd_kind (set_content cs n) = nd_kind n" "nd_content (set_content cs n) = cs" "nd_value (set_content cs n) = nd_value n"
  by (simp_all add: set_content_def)

definition str_node :: "string \<Rightarrow> yaml_node" where
  "str_node s = Node ScalarNode ''!!str'' s [] []"

fun pairs_of :: "'n list \<Rightarrow> ('n \<times> 'n) list" where
  "pairs_of (k # v # rest) = (k, v) # pairs_of rest"
| "pairs_of _ = []"

record yaml_tree_lib =
  yt_parse :: "string \<Rightarrow> yaml_node option"
  yt_print :: "yaml_node \<Rightarrow> string option"
  yt_of_json :: "json \<Rightarrow> yaml_node option"

section \<open>Finding the place\<close>

datatype edit_err = ErrSkillNotFound | ErrDuplicateScheduleName | EditFailed string

definition findSkillsSequence :: "yaml_node \<Rightarrow> edit_err + yaml_node" where
  "findSkillsSequence doc =
     (if nd_kind doc \<noteq> DocumentNode then Inl (EditFailed ''yamledit: empty manifest'')
      else case nd_content doc of
        [] \<Rightarrow> Inl (EditFailed ''yamledit: empty manifest'')
      | root # _ \<Rightarrow>
        if nd_kind root \<noteq> MappingNode then Inl (EditFailed ''yamledit: manifest root is not a mapping'')
        else case find (\<lambda>(k, _). nd_value k = ''skills'') (pairs_of (nd_content root)) of
          None \<Rightarrow> Inl (EditFailed ''yamledit: manifest has no skills: key'')
        | Some (_, v) \<Rightarrow> if nd_kind v \<noteq> SequenceNode then Inl (EditFailed ''yamledit: skills: is not a sequence'') else Inr v)"

definition matched_path :: "string \<Rightarrow> yaml_node \<Rightarrow> bool" where
  "matched_path skillPath entry \<longleftrightarrow> nd_kind entry = MappingNode \<and>
     list_ex (\<lambda>(k, v). nd_value k = ''path'' \<and> nd_value v = skillPath) (pairs_of (nd_content entry))"

definition is_schedules :: "yaml_node \<Rightarrow> yaml_node \<Rightarrow> bool" where
  "is_schedules k v \<longleftrightarrow> nd_value k = ''schedules'' \<and> nd_kind v = SequenceNode"

text \<open>The loop keeps the last sequence it meets under the key.\<close>

definition schedules_seq :: "yaml_node \<Rightarrow> yaml_node option" where
  "schedules_seq entry = (case filter (\<lambda>(k, v). is_schedules k v) (pairs_of (nd_content entry)) of
       [] \<Rightarrow> None
     | kvs \<Rightarrow> Some (snd (last kvs)))"

definition findSkillEntry :: "yaml_node \<Rightarrow> string \<Rightarrow> edit_err + yaml_node \<times> yaml_node option" where
  "findSkillEntry skillsSeq skillPath = (case find (matched_path skillPath) (nd_content skillsSeq) of
       None \<Rightarrow> Inl ErrSkillNotFound
     | Some entry \<Rightarrow> Inr (entry, schedules_seq entry))"

definition named :: "string \<Rightarrow> yaml_node \<Rightarrow> bool" where
  "named name item \<longleftrightarrow> nd_kind item = MappingNode \<and>
     list_ex (\<lambda>(k, v). nd_value k = ''name'' \<and> nd_value v = name) (pairs_of (nd_content item))"

definition hasScheduleNamed :: "yaml_node option \<Rightarrow> string \<Rightarrow> bool" where
  "hasScheduleNamed seq name = (case seq of None \<Rightarrow> False | Some s \<Rightarrow> list_ex (named name) (nd_content s))"

section \<open>The inserted node\<close>

definition canonicalScheduleKeys :: "string list" where
  "canonicalScheduleKeys = [''name'', ''cron'', ''timezone'', ''provider'', ''copilot_prefix'', ''model'',
     ''max_turns'', ''overlap_policy'', ''timeout_sec'', ''destinations'', ''writeback'', ''env'', ''mcp_env'', ''auto_pause'']"

definition isEmptyScalar :: "yaml_node \<Rightarrow> bool" where
  "isEmptyScalar n = (case nd_kind n of
       ScalarNode \<Rightarrow>
         if nd_tag n = ''!!null'' then True
         else if nd_tag n = ''!!str'' then nd_value n = []
         else if nd_tag n = ''!!int'' then nd_value n = ''0''
         else if nd_tag n = ''!!bool'' then nd_value n = ''false''
         else if nd_tag n = ''!!float'' then nd_value n = ''0'' \<or> nd_value n = ''0.0''
         else nd_tag n = [] \<and> nd_value n = []
     | MappingNode \<Rightarrow> nd_content n = []
     | SequenceNode \<Rightarrow> nd_content n = []
     | _ \<Rightarrow> False)"

definition emit_pair :: "(string \<times> yaml_node) list \<Rightarrow> string \<Rightarrow> yaml_node list" where
  "emit_pair pairs k = (case map_of (rev pairs) k of
       None \<Rightarrow> []
     | Some v \<Rightarrow> if isEmptyScalar v then [] else [str_node k, v])"

definition reorderAndFilter :: "yaml_node \<Rightarrow> yaml_node" where
  "reorderAndFilter m =
     (if nd_kind m \<noteq> MappingNode then m
      else let pairs = map (\<lambda>(k, v). (nd_value k, v)) (pairs_of (nd_content m));
               extras = sort (filter (\<lambda>k. k \<notin> set canonicalScheduleKeys) (map fst pairs)) in
        set_content (concat (map (emit_pair pairs) (canonicalScheduleKeys @ extras))) m)"

text \<open>The JSON form of a schedule, by the tags of config.Schedule.\<close>

definition schedule_json :: "schedule \<Rightarrow> json" where
  "schedule_json s = JObj ([(''name'', JStr (sc_name s)), (''cron'', JStr (sc_cron s)), (''timezone'', JStr (sc_timezone s)),
     (''overlap_policy'', JStr (sc_overlap_policy s)), (''timeout_sec'', JNum (sc_timeout_sec s)),
     (''provider'', JStr (sc_provider s)), (''model'', JStr (sc_model s))] @
     (if sc_max_turns s = 0 then [] else [(''max_turns'', JNum (sc_max_turns s))]) @
     [(''destinations'', list_json destination_json (sc_destinations s))] @
     opt_field ''writeback'' (map_option writeback_json (sc_writeback s)) @
     [(''env'', map_json env_value_json (sc_env s))] @
     (if sc_mcp_env s = [] then [] else [(''mcp_env'', map_json (map_json env_value_json) (Some (sc_mcp_env s)))]) @
     opt_field ''auto_pause'' (map_option (\<lambda>n. JObj [(''after'', JNum n)]) (sc_auto_pause_after s)) @
     str_field ''copilot_prefix'' (sc_copilot_prefix s))"

definition scheduleToNode :: "yaml_tree_lib \<Rightarrow> schedule \<Rightarrow> string + yaml_node" where
  "scheduleToNode Y s = (case yt_of_json Y (schedule_json s) of
       None \<Rightarrow> Inl ''marshal''
     | Some n \<Rightarrow>
       if nd_kind n \<noteq> DocumentNode then Inl ''yamledit: marshaled schedule has no content''
       else case nd_content n of
         [] \<Rightarrow> Inl ''yamledit: marshaled schedule has no content''
       | m # _ \<Rightarrow> Inr (reorderAndFilter m))"

section \<open>The edit\<close>

fun map_first :: "('a \<Rightarrow> bool) \<Rightarrow> ('a \<Rightarrow> 'a) \<Rightarrow> 'a list \<Rightarrow> 'a list" where
  "map_first p f [] = []"
| "map_first p f (x # xs) = (if p x then f x # xs else x # map_first p f xs)"

fun map_first_value :: "('n \<Rightarrow> bool) \<Rightarrow> ('n \<Rightarrow> 'n) \<Rightarrow> 'n list \<Rightarrow> 'n list" where
  "map_first_value p f (k # v # rest) = (if p k then k # f v # rest else k # v # map_first_value p f rest)"
| "map_first_value p f xs = xs"

fun map_last_value :: "('n \<Rightarrow> 'n \<Rightarrow> bool) \<Rightarrow> ('n \<Rightarrow> 'n) \<Rightarrow> 'n list \<Rightarrow> 'n list" where
  "map_last_value p f (k # v # rest) =
     (if p k v \<and> \<not> list_ex (\<lambda>(a, b). p a b) (pairs_of rest) then k # f v # rest else k # v # map_last_value p f rest)"
| "map_last_value p f xs = xs"

definition append_child :: "yaml_node \<Rightarrow> yaml_node \<Rightarrow> yaml_node" where
  "append_child c n = set_content (nd_content n @ [c]) n"

definition append_to_entry :: "yaml_node \<Rightarrow> yaml_node \<Rightarrow> yaml_node" where
  "append_to_entry sched entry = (case schedules_seq entry of
       None \<Rightarrow> set_content (nd_content entry @ [str_node ''schedules'', Node SequenceNode ''!!seq'' [] [] [sched]]) entry
     | Some _ \<Rightarrow> set_content (map_last_value is_schedules (append_child sched) (nd_content entry)) entry)"

definition append_to_seq :: "string \<Rightarrow> yaml_node \<Rightarrow> yaml_node \<Rightarrow> yaml_node" where
  "append_to_seq skillPath sched seq = set_content (map_first (matched_path skillPath) (append_to_entry sched) (nd_content seq)) seq"

definition append_to_doc :: "string \<Rightarrow> yaml_node \<Rightarrow> yaml_node \<Rightarrow> yaml_node" where
  "append_to_doc skillPath sched doc = (case nd_content doc of
       [] \<Rightarrow> doc
     | root # rest \<Rightarrow> set_content (set_content
         (map_first_value (\<lambda>k. nd_value k = ''skills'') (append_to_seq skillPath sched) (nd_content root)) root # rest) doc)"

definition AppendScheduleToSkill :: "yaml_tree_lib \<Rightarrow> string \<Rightarrow> string \<Rightarrow> schedule option \<Rightarrow> edit_err + string" where
  "AppendScheduleToSkill Y yamlBytes skillPath sched = (case sched of
       None \<Rightarrow> Inl (EditFailed ''yamledit: nil schedule'')
     | Some s \<Rightarrow>
       if skillPath = [] then Inl (EditFailed ''yamledit: empty skill_path'')
       else case yt_parse Y yamlBytes of
         None \<Rightarrow> Inl (EditFailed ''yamledit: parse'')
       | Some doc \<Rightarrow>
         (case findSkillsSequence doc of Inl e \<Rightarrow> Inl e | Inr skillsSeq \<Rightarrow>
         (case findSkillEntry skillsSeq skillPath of Inl e \<Rightarrow> Inl e | Inr (target, schedulesSeq) \<Rightarrow>
          if hasScheduleNamed schedulesSeq (sc_name s) then Inl ErrDuplicateScheduleName
          else (case scheduleToNode Y s of Inl e \<Rightarrow> Inl (EditFailed (''yamledit: marshal schedule: '' @ e)) | Inr schedNode \<Rightarrow>
            (case yt_print Y (append_to_doc skillPath schedNode doc) of
               None \<Rightarrow> Inl (EditFailed ''yamledit: marshal'')
             | Some bytes \<Rightarrow> Inr bytes)))))"

section \<open>Properties\<close>

lemma map_first_split: "find p xs = Some x \<Longrightarrow> \<exists>as bs. xs = as @ x # bs \<and> (\<forall>a \<in> set as. \<not> p a) \<and> p x \<and> map_first p f xs = as @ f x # bs"
proof (induction xs)
  case (Cons y ys)
  show ?case
  proof (cases "p y")
    case True
    then show ?thesis using Cons.prems by (intro exI [of _ "[]"] exI [of _ ys]) simp
  next
    case False
    then obtain as bs where "ys = as @ x # bs" "\<forall>a \<in> set as. \<not> p a" "p x" "map_first p f ys = as @ f x # bs"
      using Cons by auto
    then show ?thesis using False by (intro exI [of _ "y # as"] exI [of _ bs]) simp
  qed
qed simp

lemma map_first_value_find:
  "find (\<lambda>(k, _). p k) (pairs_of cs) = Some (k, v) \<Longrightarrow> find (\<lambda>(k, _). p k) (pairs_of (map_first_value p f cs)) = Some (k, f v)"
  by (induction p f cs rule: map_first_value.induct) (auto split: if_splits)

lemma pairs_append: "even (length cs) \<Longrightarrow> pairs_of (cs @ ds) = pairs_of cs @ pairs_of ds"
  by (induction cs rule: pairs_of.induct) auto

lemma map_last_value_filter:
  assumes "\<And>k v. p k v \<Longrightarrow> p k (f v)"
  shows "filter (\<lambda>(k, v). p k v) (pairs_of cs) \<noteq> [] \<Longrightarrow>
    filter (\<lambda>(k, v). p k v) (pairs_of (map_last_value p f cs)) =
      (let kvs = filter (\<lambda>(k, v). p k v) (pairs_of cs) in butlast kvs @ [(fst (last kvs), f (snd (last kvs)))])"
  using assms
proof (induction p f cs rule: map_last_value.induct)
  case (1 p f k v rest)
  then show ?case by (auto simp: list_ex_iff filter_empty_conv Let_def split: if_splits)
qed auto

text \<open>A mapping of a parsed tree holds its keys and values in turn.\<close>

fun well_formed :: "yaml_node \<Rightarrow> bool" where
  "well_formed (Node k t v r cs) \<longleftrightarrow> (k = MappingNode \<longrightarrow> even (length cs)) \<and> (\<forall>c \<in> set cs. well_formed c)"

lemma well_formed_child: "well_formed n \<Longrightarrow> c \<in> set (nd_content n) \<Longrightarrow> well_formed c"
  by (cases n) simp

lemma well_formed_even: "well_formed n \<Longrightarrow> nd_kind n = MappingNode \<Longrightarrow> even (length (nd_content n))"
  by (cases n) simp

lemma pairs_members: "(k, v) \<in> set (pairs_of cs) \<Longrightarrow> k \<in> set cs \<and> v \<in> set cs"
  by (induction cs rule: pairs_of.induct) auto

text \<open>What the code relies on of the library: trees are well formed, and the name of a schedule survives the conversion.\<close>

definition yaml_tree_ok :: "yaml_tree_lib \<Rightarrow> bool" where
  "yaml_tree_ok Y \<longleftrightarrow> (\<forall>b doc. yt_parse Y b = Some doc \<longrightarrow> well_formed doc) \<and>
     (\<forall>name kvs n m ms. yt_of_json Y (JObj ((''name'', JStr name) # kvs)) = Some n \<longrightarrow> nd_content n = m # ms \<longrightarrow>
        nd_kind m = MappingNode \<and> map_of (rev (map (\<lambda>(k, v). (nd_value k, v)) (pairs_of (nd_content m)))) ''name'' = Some (str_node name))"

definition entry_schedules :: "yaml_node \<Rightarrow> yaml_node list" where
  "entry_schedules e = (case schedules_seq e of None \<Rightarrow> [] | Some s \<Rightarrow> nd_content s)"

lemma schedules_seq_last:
  "filter (\<lambda>(k, v). is_schedules k v) (pairs_of (nd_content e)) = kvs @ [(k, v)] \<Longrightarrow> schedules_seq e = Some v"
  by (cases kvs) (simp_all add: schedules_seq_def)

lemma append_to_entry_schedules:
  assumes "even (length (nd_content e))"
  shows "\<exists>s. schedules_seq (append_to_entry n e) = Some s \<and> nd_content s = entry_schedules e @ [n]"
proof (cases "schedules_seq e")
  case None
  then have "filter (\<lambda>(k, v). is_schedules k v) (pairs_of (nd_content e)) = []"
    by (auto simp: schedules_seq_def split: list.splits)
  then show ?thesis using None assms
    by (simp add: append_to_entry_def schedules_seq_def entry_schedules_def pairs_append is_schedules_def str_node_def)
next
  case (Some s)
  let ?kvs = "filter (\<lambda>(k, v). is_schedules k v) (pairs_of (nd_content e))"
  have ne: "?kvs \<noteq> []" and s: "s = snd (last ?kvs)" using Some by (auto simp: schedules_seq_def split: list.splits)
  have "filter (\<lambda>(k, v). is_schedules k v) (pairs_of (nd_content (append_to_entry n e))) =
      butlast ?kvs @ [(fst (last ?kvs), append_child n s)]"
    using map_last_value_filter [of is_schedules "append_child n" "nd_content e"] Some ne s
    by (simp add: append_to_entry_def is_schedules_def append_child_def Let_def)
  then have "schedules_seq (append_to_entry n e) = Some (append_child n s)"
    by (simp add: schedules_seq_last)
  then show ?thesis using Some by (simp add: entry_schedules_def append_child_def)
qed

lemma findSkills_appended:
  assumes "findSkillsSequence doc = Inr seq"
  shows "findSkillsSequence (append_to_doc path n doc) = Inr (append_to_seq path n seq)"
  using assms map_first_value_find [of "\<lambda>k. nd_value k = ''skills''" _ _ seq "append_to_seq path n"]
  by (auto simp: findSkillsSequence_def append_to_doc_def append_to_seq_def split: if_splits list.splits option.splits)

lemma findSkills_well_formed:
  assumes "well_formed doc" and "findSkillsSequence doc = Inr seq"
  shows "well_formed seq"
proof -
  obtain root rest k where d: "nd_content doc = root # rest"
    "find (\<lambda>(k, _). nd_value k = ''skills'') (pairs_of (nd_content root)) = Some (k, seq)"
    using assms(2) by (auto simp: findSkillsSequence_def split: if_splits list.splits option.splits)
  have "well_formed root" using well_formed_child [OF assms(1)] d(1) by simp
  moreover have "seq \<in> set (nd_content root)"
    using d(2) pairs_members [of k seq "nd_content root"] by (metis find_Some_iff nth_mem)
  ultimately show ?thesis by (rule well_formed_child)
qed

lemma matched_path_kept:
  assumes "even (length (nd_content e))" and "matched_path path e"
  shows "matched_path path (append_to_entry n e)"
proof -
  have "list_ex (\<lambda>(k, v). nd_value k = ''path'' \<and> nd_value v = path) (pairs_of (map_last_value is_schedules (append_child n) cs))"
    if "list_ex (\<lambda>(k, v). nd_value k = ''path'' \<and> nd_value v = path) (pairs_of cs)" for cs
    using that by (induction is_schedules "append_child n" cs rule: map_last_value.induct) (auto simp: append_child_def)
  then show ?thesis using assms by (auto simp: matched_path_def append_to_entry_def pairs_append split: option.split)
qed

text \<open>The node that is inserted carries the name of the schedule.\<close>

lemma scheduleToNode_named:
  assumes Y: "yaml_tree_ok Y" and n: "scheduleToNode Y s = Inr n" and ne: "sc_name s \<noteq> []"
  shows "named (sc_name s) n"
proof -
  obtain d m ms where d: "yt_of_json Y (schedule_json s) = Some d" "nd_content d = m # ms" and nm: "n = reorderAndFilter m"
    using n by (auto simp: scheduleToNode_def split: option.splits if_splits list.splits)
  let ?ps = "map (\<lambda>(k, v). (nd_value k, v)) (pairs_of (nd_content m))"
  have m: "nd_kind m = MappingNode" "map_of (rev ?ps) ''name'' = Some (str_node (sc_name s))"
    using Y d unfolding yaml_tree_ok_def schedule_json_def by (auto simp: schedule_json_def)
  have "emit_pair ?ps ''name'' = [str_node ''name'', str_node (sc_name s)]"
    using m(2) ne by (simp add: emit_pair_def isEmptyScalar_def str_node_def)
  then show ?thesis
    using m(1) by (simp add: nm named_def reorderAndFilter_def Let_def canonicalScheduleKeys_def str_node_def)
qed

text \<open>
  A successful edit of a manifest adds one schedule and nothing else: the entry of the
  skill gets the new node at the end of its schedules, and every other entry of the list is
  the node it was. A second edit with the same name is refused.
\<close>

theorem append_adds_one:
  assumes Y: "yaml_tree_ok Y" and ok: "AppendScheduleToSkill Y text path (Some s) = Inr out" and ne: "sc_name s \<noteq> []"
  shows "\<exists>doc doc' seq seq' as e e' bs n. yt_parse Y text = Some doc \<and> yt_print Y doc' = Some out \<and>
    findSkillsSequence doc = Inr seq \<and> findSkillsSequence doc' = Inr seq' \<and>
    nd_content seq = as @ e # bs \<and> nd_content seq' = as @ e' # bs \<and> matched_path path e \<and> matched_path path e' \<and>
    scheduleToNode Y s = Inr n \<and> entry_schedules e' = entry_schedules e @ [n] \<and>
    \<not> hasScheduleNamed (schedules_seq e) (sc_name s) \<and> hasScheduleNamed (schedules_seq e') (sc_name s)"
proof -
  obtain doc seq e ss n where p: "yt_parse Y text = Some doc" "findSkillsSequence doc = Inr seq" "findSkillEntry seq path = Inr (e, ss)"
      "\<not> hasScheduleNamed ss (sc_name s)" "scheduleToNode Y s = Inr n" "yt_print Y (append_to_doc path n doc) = Some out"
    using ok by (auto simp: AppendScheduleToSkill_def split: if_splits option.splits sum.splits)
  have f: "find (matched_path path) (nd_content seq) = Some e" and ss: "ss = schedules_seq e"
    using p(3) by (auto simp: findSkillEntry_def split: option.splits)
  obtain as bs where l: "nd_content seq = as @ e # bs" "matched_path path e"
      "map_first (matched_path path) (append_to_entry n) (nd_content seq) = as @ append_to_entry n e # bs"
    using map_first_split [OF f] by blast
  have "well_formed seq" using findSkills_well_formed [OF _ p(2)] Y p(1) by (simp add: yaml_tree_ok_def)
  then have ev: "even (length (nd_content e))"
    using l(1,2) well_formed_child [of seq e] well_formed_even [of e] by (simp add: matched_path_def)
  obtain t where t: "schedules_seq (append_to_entry n e) = Some t" "nd_content t = entry_schedules e @ [n]"
    using append_to_entry_schedules [OF ev] by blast
  have "findSkillsSequence (append_to_doc path n doc) = Inr (append_to_seq path n seq)"
    by (rule findSkills_appended) (rule p(2))
  moreover have "nd_content (append_to_seq path n seq) = as @ append_to_entry n e # bs" using l(3) by (simp add: append_to_seq_def)
  moreover have "matched_path path (append_to_entry n e)" by (rule matched_path_kept [OF ev l(2)])
  moreover have "entry_schedules (append_to_entry n e) = entry_schedules e @ [n]" using t by (simp add: entry_schedules_def)
  moreover have "hasScheduleNamed (schedules_seq (append_to_entry n e)) (sc_name s)"
    using t scheduleToNode_named [OF Y p(5) ne] by (simp add: hasScheduleNamed_def)
  ultimately show ?thesis using p l(1,2) ss by blast
qed

definition sample_doc :: yaml_node where
  "sample_doc = Node DocumentNode [] [] [] [Node MappingNode ''!!map'' [] [] [str_node ''skills'',
     Node SequenceNode ''!!seq'' [] [] [Node MappingNode ''!!map'' [] [] [str_node ''path'', str_node ''a'']]]]"

definition sample_tree :: yaml_tree_lib where
  "sample_tree = \<lparr>yt_parse = (\<lambda>_. Some sample_doc), yt_print = (\<lambda>_. Some ''out''),
     yt_of_json = (\<lambda>j. case j of JObj ((k, JStr v) # _) \<Rightarrow> Some (Node DocumentNode [] [] []
       [Node MappingNode ''!!map'' [] [] [str_node k, str_node v]]) | _ \<Rightarrow> None)\<rparr>"

theorem append_adds_one_witness:
  "\<exists>n e e'. scheduleToNode sample_tree (sample_sched ''n'' 60) = Inr n \<and> entry_schedules e' = entry_schedules e @ [n] \<and>
     hasScheduleNamed (schedules_seq e') (sc_name (sample_sched ''n'' 60))"
proof -
  have "yaml_tree_ok sample_tree"
    by (auto simp: yaml_tree_ok_def sample_tree_def sample_doc_def str_node_def)
  moreover have "AppendScheduleToSkill sample_tree [] ''a'' (Some (sample_sched ''n'' 60)) = Inr ''out''"
    by (simp add: AppendScheduleToSkill_def sample_tree_def sample_doc_def findSkillsSequence_def findSkillEntry_def
        matched_path_def schedules_seq_def is_schedules_def hasScheduleNamed_def scheduleToNode_def schedule_json_def str_node_def)
  moreover have "sc_name (sample_sched ''n'' 60) \<noteq> []" by (simp add: sample_sched_def)
  ultimately show ?thesis using append_adds_one [of sample_tree "[]" "''a''" "sample_sched ''n'' 60" "''out''"] by blast
qed

end
