(* ===== verification/Skill_Repo.thy ===== *)
theory Skill_Repo
  imports Yaml_Edit Web_Pages Sync Copilot
begin

text \<open>
  Proposing a job (internal/webapi/skill_repo_jobs.go) and the GitHub calls behind it
  (internal/skillrepo/client.go): the manifest is read, edited, validated and pushed to a new
  branch, for which a pull request is opened. go-github is a parameter whose answers may
  depend on the calls made before; the state records the calls that change the repository.
  The decoding of the request body is a parameter as well.
\<close>

section \<open>The GitHub client\<close>

datatype gh_call =
    CreateRefCall string string string string
  | UpdateFileCall string string string string string string string
  | CreatePRCall string string string string string string

datatype 'a gh_result = GhOk 'a | GhErr "nat option" string

record gh_file =
  gf_content :: "string + string"
  gf_sha :: "string option"

record gh_api =
  ga_token :: "int \<Rightarrow> string + string"
  ga_contents :: "gh_call list \<Rightarrow> string \<Rightarrow> string \<Rightarrow> string \<Rightarrow> string \<Rightarrow> string \<Rightarrow> gh_file option gh_result"
  ga_branch :: "gh_call list \<Rightarrow> string \<Rightarrow> string \<Rightarrow> string \<Rightarrow> string \<Rightarrow> string option gh_result"
  ga_mutate :: "gh_call list \<Rightarrow> string \<Rightarrow> gh_call \<Rightarrow> (string \<times> int) gh_result"

datatype sr_err = ErrPermissionRequired | ErrConflict | ErrFileNotFound | SrErr string

record file_contents =
  fc_content :: string
  fc_file_sha :: string
  fc_head_sha :: string

type_synonym ('e, 'a) gh_sx = "(gh_call list \<times> web, 'e, 'a) sx"

definition gitHubClient :: "gh_api \<Rightarrow> int \<Rightarrow> (sr_err, string) gh_sx" where
  "gitHubClient api installID = (case ga_token api installID of Inl e \<Rightarrow> throw (SrErr (''skillrepo: token: '' @ e)) | Inr tok \<Rightarrow> ret tok)"

definition empty_or :: "string option \<Rightarrow> string" where
  "empty_or x = (case x of None \<Rightarrow> [] | Some s \<Rightarrow> s)"

definition GetFile :: "gh_api \<Rightarrow> int \<Rightarrow> string \<Rightarrow> string \<Rightarrow> string \<Rightarrow> string \<Rightarrow> (sr_err, file_contents) gh_sx" where
  "GetFile api installID owner repo path ref =
     bind (gitHubClient api installID) (\<lambda>tok. bind (gets fst) (\<lambda>log.
     case ga_contents api log tok owner repo path ref of
       GhErr status e \<Rightarrow> throw (if status = Some 404 then ErrFileNotFound else SrErr (''skillrepo: GetContents: '' @ e))
     | GhOk None \<Rightarrow> throw (SrErr (''skillrepo: '' @ path @ '' is not a file''))
     | GhOk (Some f) \<Rightarrow> (case gf_content f of
         Inl e \<Rightarrow> throw (SrErr (''skillrepo: decode content: '' @ e))
       | Inr content \<Rightarrow> (case ga_branch api log tok owner repo ref of
           GhErr _ e \<Rightarrow> throw (SrErr (''skillrepo: GetBranch: '' @ e))
         | GhOk head \<Rightarrow> ret \<lparr>fc_content = content, fc_file_sha = empty_or (gf_sha f), fc_head_sha = empty_or head\<rparr>))))"

definition gh_mutate :: "gh_api \<Rightarrow> string \<Rightarrow> gh_call \<Rightarrow> ('e, (string \<times> int) gh_result) gh_sx" where
  "gh_mutate api tok c = (\<lambda>(log, w). (Inr (ga_mutate api log tok c), (log @ [c], w)))"

definition CreateBranch :: "gh_api \<Rightarrow> int \<Rightarrow> string \<Rightarrow> string \<Rightarrow> string \<Rightarrow> string \<Rightarrow> (sr_err, unit) gh_sx" where
  "CreateBranch api installID owner repo branch fromSHA =
     bind (gitHubClient api installID) (\<lambda>tok.
     bind (gh_mutate api tok (CreateRefCall owner repo (''refs/heads/'' @ branch) fromSHA)) (\<lambda>r. case r of
       GhErr status e \<Rightarrow> throw (if status = Some 422 then ErrConflict else SrErr (''skillrepo: CreateRef: '' @ e))
     | GhOk _ \<Rightarrow> ret ()))"

definition PutFile :: "gh_api \<Rightarrow> int \<Rightarrow> string \<Rightarrow> string \<Rightarrow> string \<Rightarrow> string \<Rightarrow> string \<Rightarrow> string \<Rightarrow> string \<Rightarrow> (sr_err, unit) gh_sx" where
  "PutFile api installID owner repo branch path fileSHA msg content =
     bind (gitHubClient api installID) (\<lambda>tok.
     bind (gh_mutate api tok (UpdateFileCall owner repo branch path fileSHA msg content)) (\<lambda>r. case r of
       GhErr status e \<Rightarrow> throw (if status = Some 409 \<or> status = Some 422 then ErrConflict else SrErr (''skillrepo: UpdateFile: '' @ e))
     | GhOk _ \<Rightarrow> ret ()))"

definition CreatePR :: "gh_api \<Rightarrow> int \<Rightarrow> string \<Rightarrow> string \<Rightarrow> string \<Rightarrow> string \<Rightarrow> string \<Rightarrow> string \<Rightarrow> (sr_err, string \<times> int) gh_sx" where
  "CreatePR api installID owner repo branch base title body =
     bind (gitHubClient api installID) (\<lambda>tok.
     bind (gh_mutate api tok (CreatePRCall owner repo branch base title body)) (\<lambda>r. case r of
       GhErr status e \<Rightarrow> throw (if status = Some 403 then ErrPermissionRequired else if status = Some 422 then ErrConflict
         else SrErr (''skillrepo: CreatePR: '' @ e))
     | GhOk pr \<Rightarrow> ret pr))"

section \<open>Names and texts\<close>

definition branch_safe :: "char \<Rightarrow> bool" where
  "branch_safe c \<longleftrightarrow> (let n = of_char c :: nat in 97 \<le> n \<and> n \<le> 122 \<or> 48 \<le> n \<and> n \<le> 57 \<or> c = CHR ''-'')"

text \<open>Every run of other bytes becomes one dash.\<close>

fun dash_runs :: "string \<Rightarrow> string" where
  "dash_runs [] = []"
| "dash_runs (c # s) = (if branch_safe c then c # dash_runs s
     else (case s of d # _ \<Rightarrow> if branch_safe d then CHR ''-'' # dash_runs s else dash_runs s | [] \<Rightarrow> ''-''))"

definition trim_dashes :: "string \<Rightarrow> string" where
  "trim_dashes s = rev (dropWhile (\<lambda>c. c = CHR ''-'') (rev (dropWhile (\<lambda>c. c = CHR ''-'') s)))"

definition buildBranchName :: "time \<Rightarrow> string \<Rightarrow> string" where
  "buildBranchName now scheduleName =
     ''cronfoundry/add-job-'' @ trim_dashes (dash_runs (to_lower scheduleName)) @ ''-'' @ itoa (now div second)"

definition defaultStr :: "string \<Rightarrow> string \<Rightarrow> string" where
  "defaultStr s def = (if s = [] then def else s)"

definition ln :: string where
  "ln = [CHR 0x0A]"

definition buildPRBody :: "string \<Rightarrow> schedule \<Rightarrow> string" where
  "buildPRBody skillPath s =
     ''Adds a new schedule **'' @ sc_name s @ ''** to `'' @ skillPath @ ''` in cronfoundry.yaml.'' @ ln @ ln @
     ''- cron: `'' @ sc_cron s @ ''` ('' @ defaultStr (sc_timezone s) ''UTC'' @ '')'' @ ln @
     ''- provider: '' @ sc_provider s @ '', model: '' @ sc_model s @ ln @
     (case sc_destinations s of None \<Rightarrow> [] | Some ds \<Rightarrow> if ds = [] then [] else ''- destinations: '' @ digits (length ds) @ ln) @
     (case sc_writeback s of None \<Rightarrow> [] | Some wb \<Rightarrow>
        if wb_enabled wb then ''- writeback: '' @ wb_path wb @ '' ('' @ wb_mode wb @ '')'' @ ln else []) @
     ln @ ''Generated via the CronFoundry dashboard.''"

definition writePermissionRequired :: "web_deps \<Rightarrow> web_response" where
  "writePermissionRequired deps = writeJSON 412 (JObj [(''code'', JStr ''permission_required''),
     (''error'', JStr ''github app missing pull_requests:write permission''),
     (''review_url'', JStr (''https://github.com/settings/apps/'' @ defaultStr (wd_app_slug deps) ''cronfoundry'' @ ''/permissions''))])"

section \<open>The handler\<close>

record propose_deps =
  pd_web :: web_deps
  pd_api :: gh_api
  pd_tree :: yaml_tree_lib
  pd_yaml :: yaml_lib
  pd_decode :: "string \<Rightarrow> string + string \<times> schedule option"
  pd_db_text :: "db_err \<Rightarrow> string"
  pd_config_text :: "config_err \<Rightarrow> string"

text \<open>The connection of the organization: the first one that is listed.\<close>

definition loadConn :: "(gh_call list \<times> web, string \<times> db_err, uuid \<times> repo_row) sx" where
  "loadConn = bind (map_err (Pair ''load org: '') (on_web GetFirstOrganization)) (\<lambda>org.
     bind (map_err (Pair ''list connections: '') (on_web (on_db (ListRepoConnections (og_id org))))) (\<lambda>rows. case rows of
       [] \<Rightarrow> throw ([], ErrNoRows)
     | row # _ \<Rightarrow> ret (og_id org, row)))"

definition sr_text :: "sr_err \<Rightarrow> string" where
  "sr_text e = (case e of ErrPermissionRequired \<Rightarrow> ''skillrepo: github app missing required permission''
     | ErrConflict \<Rightarrow> ''skillrepo: github reported a conflict''
     | ErrFileNotFound \<Rightarrow> ''skillrepo: file not found on default branch'' | SrErr s \<Rightarrow> s)"

definition conn_response :: "propose_deps \<Rightarrow> string \<times> db_err \<Rightarrow> web_response" where
  "conn_response deps e = (if snd e = ErrNoRows then writeErr 400 ''no skill repo connected; connect one first'' ''no_connection''
     else writeErr 500 (''load connection: '' @ fst e @ pd_db_text deps (snd e)) ''internal'')"

definition edit_response :: "edit_err \<Rightarrow> web_response" where
  "edit_response e = (case e of
       ErrSkillNotFound \<Rightarrow> writeErr 409 ''skill_path not in cronfoundry.yaml'' ''skill_not_found''
     | ErrDuplicateScheduleName \<Rightarrow> writeErr 409 ''schedule name already exists under skill'' ''duplicate_name''
     | EditFailed m \<Rightarrow> writeErr 400 (''yaml edit: '' @ m) ''validation'')"

text \<open>The edited manifest, refused unless it parses and validates.\<close>

definition edited_manifest :: "propose_deps \<Rightarrow> string \<Rightarrow> string \<Rightarrow> schedule \<Rightarrow> web_response + string" where
  "edited_manifest deps content skillPath s = (case AppendScheduleToSkill (pd_tree deps) content skillPath (Some s) of
       Inl e \<Rightarrow> Inl (edit_response e)
     | Inr updated \<Rightarrow> (case ParseManifest (pd_yaml deps) updated of
         None \<Rightarrow> Inl (writeErr 400 ''manifest validation: '' ''validation'')
       | Some m \<Rightarrow> (case Manifest_Validate m of
           Some e \<Rightarrow> Inl (writeErr 400 (''manifest validation: '' @ pd_config_text deps e) ''validation'')
         | None \<Rightarrow> Inr updated)))"

definition filePath :: string where
  "filePath = ''cronfoundry.yaml''"

definition commitMsg :: "string \<Rightarrow> string \<Rightarrow> string" where
  "commitMsg name skillPath = ''chore(cronfoundry): add job '' @ name @ '' to '' @ skillPath"

definition pr_error :: "propose_deps \<Rightarrow> sr_err \<Rightarrow> web_response" where
  "pr_error deps e = (if e = ErrPermissionRequired then writePermissionRequired (pd_web deps)
     else if e = ErrConflict then writeErr 409 ''pull request already open for branch'' ''pr_conflict''
     else writeErr 502 (''create pr: '' @ sr_text e) ''gateway'')"

definition open_pr :: "propose_deps \<Rightarrow> repo_row \<Rightarrow> file_contents \<Rightarrow> string \<Rightarrow> string \<Rightarrow> schedule \<Rightarrow> string \<Rightarrow> (web_response, string \<times> int) gh_sx" where
  "open_pr deps conn f updated skillPath s branch =
     bind (map_err (\<lambda>e. if e = ErrConflict then writeErr 409 ''branch already exists; retry'' ''branch_conflict''
             else writeErr 502 (''create branch: '' @ sr_text e) ''gateway'')
       (CreateBranch (pd_api deps) (rc_github_app_install_id conn) (rc_owner conn) (rc_name conn) branch (fc_head_sha f))) (\<lambda>_.
     bind (map_err (\<lambda>e. if e = ErrConflict then writeErr 409 ''stale file sha; retry'' ''sha_conflict''
             else writeErr 502 (''put file: '' @ sr_text e) ''gateway'')
       (PutFile (pd_api deps) (rc_github_app_install_id conn) (rc_owner conn) (rc_name conn) branch filePath (fc_file_sha f)
         (commitMsg (sc_name s) skillPath) updated)) (\<lambda>_.
     map_err (pr_error deps) (CreatePR (pd_api deps) (rc_github_app_install_id conn) (rc_owner conn) (rc_name conn) branch
       (rc_default_branch conn) (commitMsg (sc_name s) skillPath) (buildPRBody skillPath s))))"

definition proposed_entry :: "uuid \<Rightarrow> uuid \<Rightarrow> string \<Rightarrow> schedule \<Rightarrow> string \<times> int \<Rightarrow> string \<Rightarrow> audit_entry" where
  "proposed_entry org conn skillPath s pr branch = \<lparr>ae_org_id = org, ae_actor = [], ae_action = ''schedule.proposed'',
     ae_target_kind = ''repo_connection'', ae_target_id = Some conn,
     ae_detail = Some [(''branch'', JStr branch), (''pr_number'', JNum (snd pr)), (''pr_url'', JStr (fst pr)),
       (''schedule_name'', JStr (sc_name s)), (''skill_path'', JStr skillPath)]\<rparr>"

definition propose_edited :: "propose_deps \<Rightarrow> session_claims \<Rightarrow> uuid \<Rightarrow> repo_row \<Rightarrow> string \<Rightarrow> schedule \<Rightarrow> file_contents \<Rightarrow> string \<Rightarrow> (web_response, web_response) gh_sx" where
  "propose_edited deps claims org conn skillPath s f updated =
     bind (on_web web_now) (\<lambda>now. let branch = buildBranchName now (sc_name s) in
     bind (open_pr deps conn f updated skillPath s branch) (\<lambda>pr.
     bind (on_web (auditLog (defaultStr (sc_login claims) ''system'') (proposed_entry org (rc_id conn) skillPath s pr branch))) (\<lambda>_.
     ret (writeJSON 200 (JObj [(''pr_url'', JStr (fst pr)), (''pr_number'', JNum (snd pr)), (''branch'', JStr branch)])))))"

definition get_manifest :: "propose_deps \<Rightarrow> repo_row \<Rightarrow> (web_response, file_contents) gh_sx" where
  "get_manifest deps conn =
     map_err (\<lambda>e. if e = ErrFileNotFound then writeErr 400 ''cronfoundry.yaml not found on default branch'' ''no_manifest''
         else writeErr 502 (''github get file: '' @ sr_text e) ''gateway'')
       (GetFile (pd_api deps) (rc_github_app_install_id conn) (rc_owner conn) (rc_name conn) filePath (rc_default_branch conn))"

definition propose_valid :: "propose_deps \<Rightarrow> session_claims \<Rightarrow> string \<Rightarrow> schedule \<Rightarrow> (web_response, web_response) gh_sx" where
  "propose_valid deps claims skillPath s =
     bind (map_err (conn_response deps) loadConn) (\<lambda>oc.
     bind (get_manifest deps (snd oc)) (\<lambda>f.
     case edited_manifest deps (fc_content f) skillPath s of
       Inl resp \<Rightarrow> throw resp
     | Inr updated \<Rightarrow> propose_edited deps claims (fst oc) (snd oc) skillPath s f updated))"

definition proposeJob :: "propose_deps \<Rightarrow> session_claims \<Rightarrow> web_request \<Rightarrow> (web_response, web_response) gh_sx" where
  "proposeJob deps claims r = (case pd_decode deps (wr_body r) of
       Inl e \<Rightarrow> throw (writeErr 400 (''invalid json: '' @ e) ''bad_request'')
     | Inr (skillPath, sched) \<Rightarrow>
       if TrimSpace skillPath = [] then throw (writeErr 400 ''skill_path is required'' ''validation'')
       else case sched of
         None \<Rightarrow> throw (writeErr 400 ''schedule is required'' ''validation'')
       | Some s \<Rightarrow> if TrimSpace (sc_name s) = [] then throw (writeErr 400 ''schedule.name is required'' ''validation'')
         else propose_valid deps claims skillPath s)"

section \<open>Properties\<close>

lemma dash_runs_safe: "list_all branch_safe (dash_runs s)"
  by (induction s rule: dash_runs.induct) (auto simp: branch_safe_def split: list.split)

lemma trim_dashes_set: "set (trim_dashes s) \<subseteq> set s"
  by (auto simp: trim_dashes_def dest!: set_dropWhileD)

lemma digits_safe: "list_all branch_safe (digits n)"
  using digits_digit [of n] by (auto simp: list_all_iff is_digit_def branch_safe_def Let_def)

lemma itoa_safe: "list_all branch_safe (itoa i)"
  using digits_safe by (simp add: itoa_def branch_safe_def)

lemma branch_name_chars: "list_all (\<lambda>c. branch_safe c \<or> c = CHR ''/'') (buildBranchName now name)"
proof -
  have "list_all branch_safe (trim_dashes (dash_runs (to_lower name)))"
    using dash_runs_safe [of "to_lower name"] trim_dashes_set [of "dash_runs (to_lower name)"] by (auto simp: list_all_iff)
  then show ?thesis using itoa_safe [of "now div second"]
    by (auto simp: buildBranchName_def list_all_iff) (simp_all add: branch_safe_def)
qed

text \<open>The calls of a proposal, in order.\<close>

definition pr_calls :: "repo_row \<Rightarrow> file_contents \<Rightarrow> string \<Rightarrow> string \<Rightarrow> schedule \<Rightarrow> string \<Rightarrow> gh_call list" where
  "pr_calls conn f updated skillPath s branch =
     [CreateRefCall (rc_owner conn) (rc_name conn) (''refs/heads/'' @ branch) (fc_head_sha f),
      UpdateFileCall (rc_owner conn) (rc_name conn) branch filePath (fc_file_sha f) (commitMsg (sc_name s) skillPath) updated,
      CreatePRCall (rc_owner conn) (rc_name conn) branch (rc_default_branch conn) (commitMsg (sc_name s) skillPath) (buildPRBody skillPath s)]"

lemmas gh_defs = gitHubClient_def gh_mutate_def bind_def map_err_def ret_def throw_def

lemma open_pr_calls:
  "\<exists>k. fst (snd (open_pr deps conn f updated skillPath s branch (log, w))) = log @ take k (pr_calls conn f updated skillPath s branch) \<and>
     (case fst (open_pr deps conn f updated skillPath s branch (log, w)) of Inl _ \<Rightarrow> k \<le> 3 | Inr _ \<Rightarrow> k = 3)"
proof -
  have "\<exists>k\<in>{0,1,2,3}. fst (snd (open_pr deps conn f updated skillPath s branch (log, w))) = log @ take k (pr_calls conn f updated skillPath s branch) \<and>
     (case fst (open_pr deps conn f updated skillPath s branch (log, w)) of Inl _ \<Rightarrow> k \<le> 3 | Inr _ \<Rightarrow> k = 3)"
    by (auto simp: open_pr_def CreateBranch_def PutFile_def CreatePR_def gh_defs pr_calls_def numeral_3_eq_3 numeral_2_eq_2 split: sum.splits gh_result.splits)
  then show ?thesis by blast
qed

definition log_kept :: "gh_call list \<times> web \<Rightarrow> gh_call list \<times> web \<Rightarrow> bool" where
  "log_kept x y \<longleftrightarrow> fst y = fst x"

interpretation lk: step_rel log_kept
  by unfold_locales (simp_all add: log_kept_def)

lemma on_web_log: "keeps log_kept (on_web m)"
  by (auto simp: keeps_def log_kept_def on_web_def split: prod.splits)

lemma loadConn_log: "keeps log_kept loadConn"
  unfolding loadConn_def by (auto intro!: lk.keeps_rules on_web_log split: list.split)

lemma GetFile_state: "snd (GetFile api i owner repo path ref st) = st"
  by (simp add: GetFile_def gitHubClient_def bind_def ret_def throw_def gets_def split: gh_result.split sum.split option.split)

lemma log_keptD: "keeps log_kept m \<Longrightarrow> fst (snd (m st)) = fst st"
  using keepsD [of log_kept m st] by (simp add: log_kept_def)

lemma map_err_snd [simp]: "snd (map_err h m st) = snd (m st)"
  by (simp add: map_err_def split: prod.split sum.split)

lemma edited_manifest_valid:
  assumes "edited_manifest deps content skillPath s = Inr updated"
  shows "AppendScheduleToSkill (pd_tree deps) content skillPath (Some s) = Inr updated \<and>
    (\<exists>m. ParseManifest (pd_yaml deps) updated = Some m \<and> Manifest_Validate m = None)"
  using assms by (auto simp: edited_manifest_def split: sum.splits option.splits)

text \<open>What a proposal did to the repository: nothing, or the calls up to the first that failed.\<close>

definition pushed_valid :: "propose_deps \<Rightarrow> string \<Rightarrow> schedule \<Rightarrow> gh_call list \<Rightarrow> bool \<Rightarrow> bool" where
  "pushed_valid deps skillPath s calls fin \<longleftrightarrow> (\<exists>conn f updated branch m k.
     calls = take k (pr_calls conn f updated skillPath s branch) \<and> (if fin then k = 3 else k \<le> 3) \<and>
     AppendScheduleToSkill (pd_tree deps) (fc_content f) skillPath (Some s) = Inr updated \<and>
     ParseManifest (pd_yaml deps) updated = Some m \<and> Manifest_Validate m = None \<and>
     list_all (\<lambda>c. branch_safe c \<or> c = CHR ''/'') branch)"

lemma bind_post:
  assumes "\<And>e st'. m st = (Inl e, st') \<Longrightarrow> Q (Inl e, st')" and "\<And>a st'. m st = (Inr a, st') \<Longrightarrow> Q (k a st')"
  shows "Q (bind m k st)"
proof (cases "m st")
  case (Pair x st')
  then show ?thesis using assms by (cases x) simp_all
qed

definition proposal_post :: "propose_deps \<Rightarrow> string \<Rightarrow> schedule \<Rightarrow> gh_call list \<Rightarrow> ('e + 'a) \<times> gh_call list \<times> web \<Rightarrow> bool" where
  "proposal_post deps skillPath s log out \<longleftrightarrow> (\<exists>calls. fst (snd out) = log @ calls \<and>
     (calls = [] \<and> isl (fst out) \<or> pushed_valid deps skillPath s calls (\<not> isl (fst out))))"

lemma refused_post [intro]: "fst st = log \<Longrightarrow> proposal_post deps skillPath s log (Inl e, st)"
  by (simp add: proposal_post_def)

lemma fst_of_step: "keeps log_kept m \<Longrightarrow> m st = (x, st') \<Longrightarrow> fst st = log \<Longrightarrow> fst st' = log"
  using log_keptD [of m st] by simp

lemma map_err_log: "keeps log_kept m \<Longrightarrow> keeps log_kept (map_err h m)"
  by (rule lk.map_err_keeps)

lemma GetFile_log: "keeps log_kept (GetFile api i owner repo path ref)"
  by (simp add: keeps_def log_kept_def GetFile_state)

lemma finish_pushed:
  assumes ed: "edited_manifest deps (fc_content f) skillPath s = Inr updated" and st: "fst st = log"
  shows "proposal_post deps skillPath s log (bind (open_pr deps conn f updated skillPath s (buildBranchName now (sc_name s)))
    (\<lambda>pr. bind (on_web (h pr)) (\<lambda>_. ret (g pr))) st)"
    (is "proposal_post deps skillPath s log (bind ?m ?k st)")
proof -
  let ?calls = "pr_calls conn f updated skillPath s (buildBranchName now (sc_name s))"
  obtain n where n: "fst (snd (?m st)) = log @ take n ?calls" "case fst (?m st) of Inl _ \<Rightarrow> n \<le> 3 | Inr _ \<Rightarrow> n = 3"
    using open_pr_calls [of deps conn f updated skillPath s _ log "snd st"] st by (metis prod.collapse)
  have valid: "pushed_valid deps skillPath s (take n ?calls) fin" if "if fin then n = 3 else n \<le> 3" for fin
    using that edited_manifest_valid [OF ed] branch_name_chars unfolding pushed_valid_def by blast
  show ?thesis
  proof (rule bind_post)
    fix e st' assume "?m st = (Inl e, st')"
    then show "proposal_post deps skillPath s log (Inl e, st')" using n valid [of False] by (auto simp: proposal_post_def)
  next
    fix pr st' assume m: "?m st = (Inr pr, st')"
    have "fst (snd (?k pr st')) = fst st'" by (rule log_keptD) (intro lk.bind_keeps on_web_log lk.ret_keeps)
    then show "proposal_post deps skillPath s log (?k pr st')"
      using m n valid [of "\<not> isl (fst (?k pr st'))"] by (auto simp: proposal_post_def)
  qed
qed

lemma propose_edited_post:
  assumes "edited_manifest deps (fc_content f) skillPath s = Inr updated" and "fst st = log"
  shows "proposal_post deps skillPath s log (propose_edited deps claims org conn skillPath s f updated st)"
  unfolding propose_edited_def Let_def
  by (rule bind_post) (auto intro: finish_pushed [OF assms(1)] fst_of_step [OF on_web_log _ assms(2)])

lemma propose_valid_post: "proposal_post deps skillPath s log (propose_valid deps claims skillPath s (log, w))"
  unfolding propose_valid_def
proof (rule bind_post)
  fix oc st1 assume lc: "map_err (conn_response deps) loadConn (log, w) = (Inr oc, st1)"
  have s1: "fst st1 = log" using fst_of_step [OF map_err_log [OF loadConn_log] lc] by simp
  have s2: "fst st2 = log" if "get_manifest deps (snd oc) st1 = (x, st2)" for x st2
    using that s1 fst_of_step [OF map_err_log [OF GetFile_log]] unfolding get_manifest_def by blast
  show "proposal_post deps skillPath s log (bind (get_manifest deps (snd oc)) (\<lambda>f. case edited_manifest deps (fc_content f) skillPath s of
       Inl resp \<Rightarrow> throw resp | Inr updated \<Rightarrow> propose_edited deps claims (fst oc) (snd oc) skillPath s f updated) st1)"
    by (rule bind_post) (auto simp: throw_def split: sum.split dest: s2 intro: propose_edited_post)
next
  fix e st1 assume "map_err (conn_response deps) loadConn (log, w) = (Inl e, st1)"
  from fst_of_step [OF map_err_log [OF loadConn_log] this] show "proposal_post deps skillPath s log (Inl e, st1)" by auto
qed


end
