(* ===== verification/Web_Routes.thy ===== *)
theory Web_Routes
  imports Csrf Ratelimit Web_Users Secret_Store Copilot Web_Pages Web_Schedules Events Webhook Chat Skill_Repo
begin

text \<open>
  The routes of the web server (internal/webapi/server.go): every pattern with the middleware
  around its handler, in the order of the code, and the multiplexer that picks one. The state
  of the process beside the database is the rate limiter's, the pending device flows, the
  calls made to GitHub and the events written to the current response. The multiplexer gets
  the segments of a cleaned path; net/http redirects other paths before it looks for a route.
\<close>

section \<open>The process\<close>

record 'c site =
  si_web :: web
  si_groups :: "string \<Rightarrow> 'c group_bucket option"
  si_sse :: "string \<Rightarrow> int"
  si_flows :: "(string \<times> device_flow) list"
  si_calls :: "gh_call list"
  si_frames :: "string list"

text \<open>What the routes get at registration: Deps and what its members are made of.\<close>

record ('l, 'c) site_env =
  se_deps :: web_deps
  se_limiter :: "('l, 'c) limiter_lib"
  se_store :: "web secret_store_if"
  se_syncer :: sync_deps
  se_trigger :: loopback
  se_propose :: propose_deps
  se_chat :: chat_config
  se_chat_env :: chat_env
  se_last_tick :: "int option"
  se_stream_ticks :: nat
  se_metrics :: web_response
  se_static :: "string list \<Rightarrow> web_response"

type_synonym ('c, 'a) site_sx = "('c site, web_response, 'a) sx"
type_synonym 'c site_handler = "web_request \<Rightarrow> ('c, web_response) site_sx"

definition new_site :: "('l, 'c) site_env \<Rightarrow> web \<Rightarrow> 'c site" where
  "new_site e w = \<lparr>si_web = w,
     si_groups = (\<lambda>name. Option.bind (map_of (NewRateLimiter (se_limiter e) (wd_rate_limit (se_deps e))) name) id),
     si_sse = (\<lambda>_. 0), si_flows = [], si_calls = [], si_frames = []\<rparr>"

definition in_part :: "('c site \<Rightarrow> 's) \<Rightarrow> ('s \<Rightarrow> 'c site \<Rightarrow> 'c site) \<Rightarrow> ('s, 'e, 'a) sx \<Rightarrow> ('c site, 'e, 'a) sx" where
  "in_part get put m = (\<lambda>s. case m (get s) of (r, x) \<Rightarrow> (r, put x s))"

definition in_web :: "(web, 'e, 'a) sx \<Rightarrow> ('c site, 'e, 'a) sx" where
  "in_web = in_part si_web (\<lambda>w s. s\<lparr>si_web := w\<rparr>)"

definition in_flows :: "((string \<times> device_flow) list \<times> web, 'e, 'a) sx \<Rightarrow> ('c site, 'e, 'a) sx" where
  "in_flows = in_part (\<lambda>s. (si_flows s, si_web s)) (\<lambda>(fl, w) s. s\<lparr>si_flows := fl, si_web := w\<rparr>)"

definition in_calls :: "(gh_call list \<times> web, 'e, 'a) sx \<Rightarrow> ('c site, 'e, 'a) sx" where
  "in_calls = in_part (\<lambda>s. (si_calls s, si_web s)) (\<lambda>(l, w) s. s\<lparr>si_calls := l, si_web := w\<rparr>)"

definition in_frames :: "(string list \<times> web, 'e, 'a) sx \<Rightarrow> ('c site, 'e, 'a) sx" where
  "in_frames = in_part (\<lambda>s. (si_frames s, si_web s)) (\<lambda>(f, w) s. s\<lparr>si_frames := f, si_web := w\<rparr>)"

section \<open>Middleware\<close>

definition site_now :: "'c site \<Rightarrow> time" where
  "site_now s = clock_at (ww_db (si_web s)) (stmt_ctr (ww_db (si_web s)))"

definition limited :: "('l, 'c) site_env \<Rightarrow> string \<Rightarrow> 'c site_handler \<Rightarrow> 'c site_handler" where
  "limited e name next r = (\<lambda>s.
     case Group (se_limiter e) (wd_rate_limit (se_deps e)) (site_now s) (si_groups s name) r of
       (refused, g) \<Rightarrow> let s' = s\<lparr>si_groups := (si_groups s)(name := g)\<rparr> in
         (case refused of Some resp \<Rightarrow> (Inl resp, s') | None \<Rightarrow> next r s'))"

text \<open>The cap on streams, for one request after the other: the counter is back when the handler is done.\<close>

definition SSE :: "('l, 'c) site_env \<Rightarrow> 'c site_handler \<Rightarrow> 'c site_handler" where
  "SSE e next r = (\<lambda>s. let cfg = wd_rate_limit (se_deps e); ip = clientIP r (rl_trust_proxy cfg); v = si_sse s ip + 1 in
     if sse_disabled cfg then next r s
     else if v > rl_sse_max_concurrent cfg then (Inl (rejectRateLimit ''5''), s)
     else case next r (s\<lparr>si_sse := (si_sse s)(ip := v)\<rparr>) of
       (res, s') \<Rightarrow> (res, s'\<lparr>si_sse := (si_sse s')(ip := si_sse s' ip - 1)\<rparr>))"

definition with_session :: "('l, 'c) site_env \<Rightarrow> (session_claims \<Rightarrow> 'c site_handler) \<Rightarrow> 'c site_handler" where
  "with_session e h r = bind (in_web (RequireSession (se_deps e) (\<lambda>c _. ret c) r)) (\<lambda>c. h c r)"

definition with_admin :: "('l, 'c) site_env \<Rightarrow> (session_claims \<Rightarrow> 'c site_handler) \<Rightarrow> 'c site_handler" where
  "with_admin e h r = bind (in_web (RequireRole (se_deps e) ''admin'' (\<lambda>c _. ret c) r)) (\<lambda>c. h c r)"

definition session :: "('l, 'c) site_env \<Rightarrow> (session_claims \<Rightarrow> 'c site_handler) \<Rightarrow> 'c site_handler" where
  "session e h = limited e ''api'' (with_session e h)"

definition csrfMW :: "('l, 'c) site_env \<Rightarrow> 'c site_handler \<Rightarrow> 'c site_handler" where
  "csrfMW e h = CSRF (wd_public_base_url (se_deps e)) h"

definition adminOnly :: "('l, 'c) site_env \<Rightarrow> (session_claims \<Rightarrow> 'c site_handler) \<Rightarrow> 'c site_handler" where
  "adminOnly e h = csrfMW e (limited e ''api'' (with_admin e h))"

section \<open>The stream of a run, up to the disconnect of the client\<close>

fun stream_ticks :: "nat \<Rightarrow> uuid \<Rightarrow> stream \<Rightarrow> world \<Rightarrow> stream \<times> world" where
  "stream_ticks 0 i st w = (st\<lparr>st_open := False\<rparr>, w)"
| "stream_ticks (Suc n) i st w = (case stream_send i st w of (st1, w1) \<Rightarrow>
     if \<not> st_open st1 then (st1, w1)
     else case stream_check i st1 w1 of (st2, w2) \<Rightarrow> if \<not> st_open st2 then (st2, w2) else stream_ticks n i st2 w2)"

definition data_frame :: "web_libs \<Rightarrow> event_row \<Rightarrow> string" where
  "data_frame L ev = ''data: '' @ wl_marshal L (runEventToDTO L ev) @ [CHR 0x0A, CHR 0x0A]"

definition done_frame :: string where
  "done_frame = ''event: done'' @ [CHR 0x0A] @ ''data: {}'' @ [CHR 0x0A, CHR 0x0A]"

definition events_stream :: "web_deps \<Rightarrow> nat \<Rightarrow> session_claims \<Rightarrow> web_request \<Rightarrow> web_response sse_sx" where
  "events_stream deps ticks claims r = (case uuid_parse (wl_ids (wd_libs deps)) (path_value ''id'' r) of
       None \<Rightarrow> throw (writeErr 400 ''invalid run id'' ''bad_request'')
     | Some i \<Rightarrow> (\<lambda>(frames, w). case stream_ticks ticks i stream_start (ww_db w) of (st, d) \<Rightarrow>
         (Inr ((bare_status 200)\<lparr>ws_headers := [(''Content-Type'', ''text/event-stream''), (''Cache-Control'', ''no-cache''), (''Connection'', ''keep-alive'')]\<rparr>),
          frames @ map (data_frame (wd_libs deps)) (st_sent st) @ (if st_done st then [done_frame] else []), w\<lparr>ww_db := d\<rparr>)))"

section \<open>Patterns\<close>

datatype segment = Lit string | Wild string

fun match_path :: "segment list \<Rightarrow> string list \<Rightarrow> (string \<times> string) list option" where
  "match_path [] [] = Some []"
| "match_path (Lit l # ps) (x # xs) = (if x = l then match_path ps xs else None)"
| "match_path (Wild n # ps) (x # xs) = (if x = [] then None else map_option (\<lambda>vs. (n, x) # vs) (match_path ps xs))"
| "match_path _ _ = None"

text \<open>A pattern for GET also matches HEAD.\<close>

definition match_method :: "string \<Rightarrow> string \<Rightarrow> bool" where
  "match_method p m \<longleftrightarrow> p = m \<or> p = ''GET'' \<and> m = ''HEAD''"

type_synonym 'c route = "(string \<times> segment list) \<times> 'c site_handler"

definition api_path :: "string \<Rightarrow> segment list" where
  "api_path name = [Lit ''api'', Lit name]"

definition RegisterRoutes_web :: "('l, 'c) site_env \<Rightarrow> 'c route list" where
  "RegisterRoutes_web e = (let d = se_deps e in
    [((''GET'', api_path ''me''), session e (\<lambda>c r. in_web (meHandler c r))),
     ((''GET'', [Lit ''oauth'', Lit ''login'']), limited e ''oauth'' (\<lambda>r. in_web (oauth_login d r))),
     ((''GET'', [Lit ''oauth'', Lit ''callback'']), limited e ''oauth'' (\<lambda>r. in_web (oauth_callback d r))),
     ((''GET'', [Lit ''oauth'', Lit ''logout'']), (\<lambda>r. in_web (oauth_logout r))),
     ((''GET'', api_path ''repos''), session e (\<lambda>c r. in_web (repos_list d c r))),
     ((''POST'', api_path ''repos''), adminOnly e (\<lambda>c r. in_web (repos_connect d c r))),
     ((''DELETE'', api_path ''repos'' @ [Wild ''id'']), adminOnly e (\<lambda>c r. in_web (repos_disconnect d c r))),
     ((''GET'', api_path ''skills''), session e (\<lambda>c r. in_web (skills_list d c r))),
     ((''GET'', api_path ''schedules''), session e (\<lambda>c r. in_web (schedules_list d c r))),
     ((''POST'', api_path ''schedules'' @ [Wild ''id'', Lit ''pause'']), adminOnly e (\<lambda>c r. in_web (schedule_pause d c r))),
     ((''POST'', api_path ''schedules'' @ [Wild ''id'', Lit ''resume'']), adminOnly e (\<lambda>c r. in_web (schedule_resume d c r))),
     ((''POST'', api_path ''schedules'' @ [Wild ''id'', Lit ''run-now'']), adminOnly e (\<lambda>c r. in_web (runNow d (se_trigger e) c r))),
     ((''PATCH'', api_path ''schedules'' @ [Wild ''id'', Lit ''overrides'']), adminOnly e (\<lambda>c r. in_web (patchOverrides d c r))),
     ((''DELETE'', api_path ''schedules'' @ [Wild ''id'', Lit ''overrides'']), adminOnly e (\<lambda>c r. in_web (deleteOverrides d c r))),
     ((''POST'', api_path ''skill-repo'' @ [Lit ''jobs'']), adminOnly e (\<lambda>c r. in_calls (proposeJob (se_propose e) c r))),
     ((''GET'', api_path ''runs''), session e (\<lambda>c r. in_web (runs_list d c r))),
     ((''GET'', api_path ''runs'' @ [Wild ''id'']), session e (\<lambda>c r. in_web (runs_get d c r))),
     ((''GET'', api_path ''runs'' @ [Wild ''id'', Lit ''events'']), session e (\<lambda>c r. in_web (events_list d c r))),
     ((''GET'', api_path ''runs'' @ [Wild ''id'', Lit ''events'', Lit ''stream'']),
        session e (\<lambda>c. SSE e (\<lambda>r. in_frames (events_stream d (se_stream_ticks e) c r)))),
     ((''GET'', api_path ''runs'' @ [Wild ''id'', Lit ''notifications'']), session e (\<lambda>c r. in_web (run_notifications_list d c r))),
     ((''GET'', api_path ''secrets''), session e (\<lambda>c r. in_web (secrets_list c r))),
     ((''POST'', api_path ''secrets''), adminOnly e (\<lambda>c r. in_web (secrets_create d (se_store e) c r))),
     ((''PUT'', api_path ''secrets'' @ [Wild ''name'', Lit ''rotate'']), adminOnly e (\<lambda>c r. in_web (secrets_rotate d (se_store e) c r))),
     ((''DELETE'', api_path ''secrets'' @ [Wild ''name'']), adminOnly e (\<lambda>c r. in_web (secrets_delete (se_store e) c r))),
     ((''GET'', api_path ''audit''), adminOnly e (\<lambda>c r. in_web (audit_list d c r))),
     ((''GET'', api_path ''alerts''), session e (\<lambda>c r. in_web (alerts_list d c r))),
     ((''GET'', api_path ''system'' @ [Lit ''health'']), session e (\<lambda>c r. in_web (system_health d (se_last_tick e) c r))),
     ((''GET'', api_path ''users''), adminOnly e (\<lambda>c r. in_web (users_list d c r))),
     ((''POST'', api_path ''users''), adminOnly e (\<lambda>c r. in_web (users_create d c r))),
     ((''PATCH'', api_path ''users'' @ [Wild ''login'']), adminOnly e (\<lambda>c r. in_web (updateRole d c r))),
     ((''DELETE'', api_path ''users'' @ [Wild ''login'']), adminOnly e (\<lambda>c r. in_web (users_delete d c r))),
     ((''GET'', api_path ''chat'' @ [Lit ''info'']), session e (\<lambda>c r. in_web (chat_info (se_chat e) c r))),
     ((''POST'', api_path ''chat'' @ [Lit ''stream'']),
        csrfMW e (SSE e (with_session e (\<lambda>c r. in_frames (chat_stream d (se_chat e) (se_chat_env e) (se_store e) c r))))),
     ((''GET'', [Lit ''metrics'']), (\<lambda>r. ret (se_metrics e))),
     ((''POST'', [Lit ''webhook'', Lit ''github'']), limited e ''webhook'' (\<lambda>r. in_web (webhookHandler d (se_syncer e) r))),
     ((''POST'', api_path ''copilot'' @ [Lit ''connect'']), adminOnly e (\<lambda>c r. in_flows (startFlow d r))),
     ((''GET'', api_path ''copilot'' @ [Lit ''connect'', Wild ''device_code'', Lit ''poll'']), adminOnly e (\<lambda>c r. in_flows (copilot_poll d (se_store e) r))),
     ((''GET'', [Lit ''internal'', Lit ''runs'', Wild ''id'', Lit ''copilot-token'']), (\<lambda>r. in_web (copilot_token_get d (se_store e) r)))])"

text \<open>The catch-all serves every request that no other pattern matches, whatever its method.\<close>

fun mux :: "'c route list \<Rightarrow> (string list \<Rightarrow> web_response) \<Rightarrow> string list \<Rightarrow> 'c site_handler" where
  "mux [] static path r = ret (static path)"
| "mux (((m, p), h) # rs) static path r =
     (case (if match_method m (wr_method r) then match_path p path else None) of
        Some vs \<Rightarrow> h (r\<lparr>wr_path := vs\<rparr>)
      | None \<Rightarrow> mux rs static path r)"

text \<open>One request: the response, early or not, and the state of the process after it.\<close>

definition ServeHTTP :: "('l, 'c) site_env \<Rightarrow> string list \<Rightarrow> web_request \<Rightarrow> 'c site \<Rightarrow> web_response \<times> 'c site" where
  "ServeHTTP e path r s = (case mux (RegisterRoutes_web e) (se_static e) path r (s\<lparr>si_frames := []\<rparr>) of
     (Inl resp, s') \<Rightarrow> (resp, s') | (Inr resp, s') \<Rightarrow> (resp, s'))"

end
