(* ===== verification/Web_Routes_Claims.thy ===== *)
theory Web_Routes_Claims
  imports Web_Routes Chat_Claims
begin

text \<open>
  Properties of the routes: no two patterns match one request, what a request can change
  without an admin's session, and what it can see without a session.
\<close>

section \<open>One route per request\<close>

fun overlap :: "segment list \<Rightarrow> segment list \<Rightarrow> bool" where
  "overlap [] [] = True"
| "overlap (Lit a # p) (Lit b # q) = (if a = b then overlap p q else False)"
| "overlap (Wild a # p) (Wild b # q) = overlap p q"
| "overlap (Wild a # p) (Lit b # q) = overlap p q"
| "overlap (Lit a # p) (Wild b # q) = overlap p q"
| "overlap _ _ = False"

definition clash :: "string \<times> segment list \<Rightarrow> string \<times> segment list \<Rightarrow> bool" where
  "clash a b = (if fst a = fst b \<or> fst a = ''HEAD'' \<or> fst b = ''HEAD'' then overlap (snd a) (snd b) else False)"

lemma match_overlap: "match_path p xs = Some vs \<Longrightarrow> match_path q xs = Some us \<Longrightarrow> overlap p q"
proof (induction p xs arbitrary: q vs us rule: match_path.induct)
  case (2 l ps x xs)
  then show ?case by (cases q; cases "hd q") (auto split: if_splits)
next
  case (3 n ps x xs)
  then show ?case by (cases q; cases "hd q") (auto split: if_splits)
qed (auto elim: match_path.elims)

lemma match_clash:
  assumes "match_method m x" "match_path p path = Some vs" "match_method m' x" "match_path q path = Some us"
  shows "clash (m, p) (m', q)"
  using assms match_overlap by (auto simp: clash_def match_method_def)

lemma at_most_one: "sorted_wrt (\<lambda>a b. \<not> (P a \<and> P b)) xs \<Longrightarrow> length (filter P xs) \<le> 1"
proof (induction xs)
  case (Cons x xs)
  then show ?case by (cases "P x") (auto simp: filter_empty_conv)
qed simp

lemma route_patterns_apart: "sorted_wrt (\<lambda>a b. \<not> clash (fst a) (fst b)) (RegisterRoutes_web e)"
proof -
  have "sorted_wrt (\<lambda>a b. \<not> clash a b) (map fst (RegisterRoutes_web e))"
    unfolding RegisterRoutes_web_def Let_def list.map fst_conv by code_simp
  then show ?thesis by (simp add: sorted_wrt_map)
qed

text \<open>
  No two patterns of the server match one request, so the registration does not panic for
  a conflict, and the order of registration does not matter.
\<close>

theorem routes_unambiguous:
  "length (filter (\<lambda>((m, p), h). match_method m method \<and> match_path p path \<noteq> None) (RegisterRoutes_web e)) \<le> 1"
proof (rule at_most_one, rule sorted_wrt_mono_rel [OF _ route_patterns_apart])
  fix a b
  assume "\<not> clash (fst a) (fst b)"
  then show "\<not> ((case a of (x, xa) \<Rightarrow> (case x of (m, p) \<Rightarrow> \<lambda>h. match_method m method \<and> match_path p path \<noteq> None) xa) \<and>
      (case b of (x, xa) \<Rightarrow> (case x of (m, p) \<Rightarrow> \<lambda>h. match_method m method \<and> match_path p path \<noteq> None) xa))"
    using match_clash by (fastforce split: prod.splits)
qed

section \<open>Requests that only read\<close>

text \<open>What a read leaves behind: statements and random draws that were counted.\<close>

definition web_quiet :: "web \<Rightarrow> web \<Rightarrow> bool" where
  "web_quiet w w' \<longleftrightarrow> (\<exists>n k. w' = w\<lparr>ww_db := (ww_db w)\<lparr>stmt_ctr := stmt_ctr (ww_db w) + n\<rparr>, ww_rand_ctr := k\<rparr>)"

interpretation wq: step_rel web_quiet
proof
  show "web_quiet w w" for w
    unfolding web_quiet_def by (rule exI [of _ 0], rule exI [of _ "ww_rand_ctr w"]) simp
  show "web_quiet s u" if "web_quiet s t" "web_quiet t u" for s t u
    using that by (auto simp: web_quiet_def add.assoc) blast
qed

lemma reads_quiet: "keeps reads_only m \<Longrightarrow> keeps web_quiet m"
proof (rule keepsI)
  fix w assume "keeps reads_only m"
  then obtain n where "snd (m w) = w\<lparr>ww_db := (ww_db w)\<lparr>stmt_ctr := stmt_ctr (ww_db w) + n\<rparr>\<rparr>"
    using keepsD [of reads_only m w] by (auto simp: reads_only_def)
  then show "web_quiet w (snd (m w))"
    unfolding web_quiet_def by (intro exI [of _ n] exI [of _ "ww_rand_ctr w"]) simp
qed

lemma query_quiet: "(\<And>w. snd (f w) = w) \<Longrightarrow> keeps web_quiet (on_db (stmt f))"
  by (rule reads_quiet [OF read_stmt])

lemma web_query_quiet: "(\<And>w. snd (f w) = w) \<Longrightarrow> keeps web_quiet (web_stmt f)"
  by (rule reads_quiet [OF read_web_stmt])

lemma load_org_quiet: "keeps web_quiet (load_org msg)"
  unfolding load_org_def GetFirstOrganization_def
  by (intro wq.map_err_keeps web_query_quiet) (simp split: list.split)

lemma web_now_quiet: "keeps web_quiet web_now"
  unfolding web_now_def by (rule wq.gets_keeps)

lemma rand_Read_quiet: "keeps web_quiet (rand_Read n)"
proof (rule keepsI)
  fix w show "web_quiet w (snd (rand_Read n w))"
    unfolding web_quiet_def rand_Read_def
    by (rule exI [of _ 0], rule exI [of _ "Suc (ww_rand_ctr w)"]) simp
qed

lemmas quiet_rules = wq.keeps_rules load_org_quiet web_now_quiet rand_Read_quiet query_quiet web_query_quiet

lemma listed_quiet: "(\<And>org. keeps web_quiet (on_db (q org))) \<Longrightarrow> keeps web_quiet (listed msg q dto)"
  unfolding listed_def by (intro quiet_rules)

lemma lists_quiet:
  "keeps web_quiet (repos_list d c r)" "keeps web_quiet (skills_list d c r)" "keeps web_quiet (runs_list d c r)"
  unfolding repos_list_def skills_list_def runs_list_def ListRepoConnections_def ListSkillsByOrg_def ListRunsForOrg_def
  by (intro listed_quiet query_quiet; simp)+

lemma schedules_list_quiet: "keeps web_quiet (schedules_list d c r)"
  unfolding schedules_list_def ListSchedulesByOrg_def by (intro quiet_rules) simp

lemma secrets_list_quiet: "keeps web_quiet (secrets_list c r)"
  unfolding secrets_list_def ListSecretNames_def by (intro quiet_rules) simp

lemma run_pages_quiet:
  "keeps web_quiet (runs_get d c r)" "keeps web_quiet (events_list d c r)" "keeps web_quiet (run_notifications_list d c r)"
  unfolding runs_get_def events_list_def run_notifications_list_def GetRunForAdmin_def ListRunEvents_def ListRunNotifications_def
  by (auto intro!: quiet_rules split: option.split)

lemma dashboard_quiet: "keeps web_quiet (alerts_list d c r)" "keeps web_quiet (system_health d clk c r)"
  unfolding alerts_list_def system_health_def ListSchedulesForQuietCheck_def ListRecentAutoPaused_def
    CountQueueDepth_def CountActiveWorkers_def LastRepoSyncAt_def
  by (intro quiet_rules; simp)+

lemma oauth_login_quiet: "keeps web_quiet (oauth_login d r)"
  unfolding oauth_login_def SignOAuthState_def
  by (auto intro!: quiet_rules split: sum.split)

lemma plain_quiet: "keeps web_quiet (meHandler c r)" "keeps web_quiet (oauth_logout r)" "keeps web_quiet (chat_info cfg c r)"
  unfolding meHandler_def oauth_logout_def chat_info_def by (rule wq.ret_keeps)+

lemmas read_handlers = lists_quiet schedules_list_quiet secrets_list_quiet run_pages_quiet dashboard_quiet
  oauth_login_quiet plain_quiet

section \<open>What a request can change\<close>

definition site_quiet :: "'c site \<Rightarrow> 'c site \<Rightarrow> bool" where
  "site_quiet s s' \<longleftrightarrow> web_quiet (si_web s) (si_web s') \<and> si_flows s' = si_flows s \<and> si_calls s' = si_calls s"

interpretation sq: step_rel "site_quiet :: 'c site \<Rightarrow> 'c site \<Rightarrow> bool"
  by unfold_locales (auto simp: site_quiet_def intro: wq.R_refl wq.R_trans)

lemma in_web_quiet: "keeps web_quiet m \<Longrightarrow> keeps site_quiet (in_web m)"
  by (auto simp: keeps_def in_web_def in_part_def site_quiet_def split: prod.split) (metis snd_conv)

lemma stream_send_reads: "stream_send i st w = (st', w') \<Longrightarrow> w' = w\<lparr>stmt_ctr := Suc (stmt_ctr w)\<rparr>"
  by (auto simp: stream_send_def ListRunEventsSince_def stmt_def split: prod.splits sum.splits if_splits)

lemma stream_check_reads: "stream_check i st w = (st', w') \<Longrightarrow> w' = w\<lparr>stmt_ctr := Suc (stmt_ctr w)\<rparr>"
  by (auto simp: stream_check_def GetRun_def stmt_def split: prod.splits sum.splits if_splits option.splits)

lemma stream_ticks_reads: "\<exists>n. snd (stream_ticks k i st w) = w\<lparr>stmt_ctr := stmt_ctr w + n\<rparr>"
proof (induction k i st w rule: stream_ticks.induct)
  case (1 i st w)
  show ?case by (rule exI [of _ 0]) simp
next
  case (2 n i st w)
  obtain st1 w1 where s: "stream_send i st w = (st1, w1)" by force
  obtain st2 w2 where c: "stream_check i st1 w1 = (st2, w2)" by force
  note a = stream_send_reads [OF s] and b = stream_check_reads [OF c]
  show ?case
  proof (cases "st_open st1 \<and> st_open st2")
    case True
    then obtain d where "snd (stream_ticks n i st2 w2) = w2\<lparr>stmt_ctr := stmt_ctr w2 + d\<rparr>"
      using 2 [OF s [symmetric] _ c [symmetric]] by auto
    then show ?thesis using True s c a b by (auto intro!: exI [of _ "2 + d"])
  next
    case False
    then show ?thesis using s c a b by (cases "st_open st1") (auto intro: exI [of _ 1] exI [of _ 2])
  qed
qed

lemma events_stream_quiet: "keeps site_quiet (in_frames (events_stream d n c r))"
proof (rule keepsI)
  fix s :: "'c site"
  show "site_quiet s (snd (in_frames (events_stream d n c r) s))"
  proof (cases "uuid_parse (wl_ids (wd_libs d)) (path_value ''id'' r)")
    case None
    then show ?thesis by (simp add: in_frames_def in_part_def events_stream_def throw_def site_quiet_def wq.R_refl)
  next
    case (Some i)
    obtain st w' where t: "stream_ticks n i stream_start (ww_db (si_web s)) = (st, w')" by force
    obtain k where "w' = ww_db (si_web s)\<lparr>stmt_ctr := stmt_ctr (ww_db (si_web s)) + k\<rparr>" using stream_ticks_reads [of n i stream_start "ww_db (si_web s)"] t by auto
    then have "web_quiet (si_web s) (si_web s\<lparr>ww_db := w'\<rparr>)"
      unfolding web_quiet_def by (intro exI [of _ k] exI [of _ "ww_rand_ctr (si_web s)"]) simp
    then show ?thesis using Some t by (simp add: in_frames_def in_part_def events_stream_def site_quiet_def)
  qed
qed

lemma group_state_quiet: "site_quiet s (s\<lparr>si_groups := g\<rparr>)" "site_quiet s (s\<lparr>si_sse := n\<rparr>)" "site_quiet s (s\<lparr>si_frames := f\<rparr>)"
  by (simp_all add: site_quiet_def wq.R_refl)

text \<open>Who asks: the claims of the session cookie, when it verifies at the time of the request.\<close>

definition session_of :: "web_deps \<Rightarrow> web_request \<Rightarrow> web \<Rightarrow> session_claims option" where
  "session_of d r w = (case map_of (wr_cookies r) ''cf_session'' of
       None \<Rightarrow> None
     | Some v \<Rightarrow> (case VerifySession (wd_libs d) (clock_at (ww_db w) (stmt_ctr (ww_db w))) v (wd_master_key d) of
         Inl _ \<Rightarrow> None | Inr c \<Rightarrow> Some c))"

text \<open>The response of a refusal, and the relation of a guard to its handler: it refuses or lets the request through.\<close>

definition refusal :: "web_response \<Rightarrow> bool" where
  "refusal resp \<longleftrightarrow> ws_status resp \<in> {401, 403, 429}"

definition gate :: "('c site \<Rightarrow> bool) \<Rightarrow> ('c site, web_response, 'a) sx \<Rightarrow> bool" where
  "gate P m \<longleftrightarrow> (\<forall>s. (\<exists>resp. fst (m s) = Inl resp \<and> refusal resp) \<and> site_quiet s (snd (m s)) \<or> P s)"

lemma gateI: "(\<And>s. \<not> P s \<Longrightarrow> (\<exists>resp s'. m s = (Inl resp, s') \<and> refusal resp \<and> site_quiet s s')) \<Longrightarrow> gate P m"
  unfolding gate_def by force

lemma RequireSession_refuses:
  "session_of d r w = None \<Longrightarrow> \<exists>resp. RequireSession d h r w = (Inl resp, w) \<and> refusal resp"
  by (auto simp: session_of_def RequireSession_def web_now_def bind_def gets_def throw_def refusal_def writeErr_def split: option.splits sum.splits)

lemma with_session_gate:
  fixes e :: "('l, 'c) site_env"
  shows "gate (\<lambda>s. session_of (se_deps e) r (si_web s) \<noteq> None) (with_session e h r)"
proof (rule gateI)
  fix s :: "'c site"
  assume "\<not> session_of (se_deps e) r (si_web s) \<noteq> None"
  then obtain resp where "RequireSession (se_deps e) (\<lambda>c _. ret c) r (si_web s) = (Inl resp, si_web s)" "refusal resp"
    using RequireSession_refuses by (metis (no_types, lifting))
  then show "\<exists>resp s'. with_session e h r s = (Inl resp, s') \<and> refusal resp \<and> site_quiet s s'"
    by (simp add: with_session_def bind_def in_web_def in_part_def sq.R_refl)
qed

lemma with_admin_gate:
  fixes e :: "('l, 'c) site_env"
  shows "gate (\<lambda>s. \<exists>c. session_of (se_deps e) r (si_web s) = Some c \<and> sc_role c = ''admin'') (with_admin e h r)"
proof (rule gateI)
  fix s :: "'c site"
  assume n: "\<not> (\<exists>c. session_of (se_deps e) r (si_web s) = Some c \<and> sc_role c = ''admin'')"
  have "\<exists>resp. RequireRole (se_deps e) ''admin'' (\<lambda>c _. ret c) r (si_web s) = (Inl resp, si_web s) \<and> refusal resp"
    using n by (auto simp: session_of_def RequireRole_def RequireSession_def web_now_def bind_def gets_def throw_def refusal_def
        writeErr_def ret_def split: option.splits sum.splits if_splits)
  then show "\<exists>resp s'. with_admin e h r s = (Inl resp, s') \<and> refusal resp \<and> site_quiet s s'"
    by (auto simp: with_admin_def bind_def in_web_def in_part_def sq.R_refl)
qed

text \<open>Rate limits and CSRF stand in front: they refuse, or they pass a state that differs in the limiter only.\<close>

lemma limited_cases:
  obtains resp s' where "limited e name next r s = (Inl resp, s')" "refusal resp" "site_quiet s s'"
    | g where "limited e name next r s = next r (s\<lparr>si_groups := g\<rparr>)"
proof -
  obtain refused g where G: "Group (se_limiter e) (wd_rate_limit (se_deps e)) (site_now s) (si_groups s name) r = (refused, g)" by force
  show ?thesis
  proof (cases refused)
    case None
    then show ?thesis using that(2) G by (simp add: limited_def)
  next
    case (Some resp)
    then have "resp = rejectRateLimit ''1''" using G by (auto simp: Group_def split: if_splits option.splits prod.splits)
    then have "refusal resp" by (simp add: refusal_def rejectRateLimit_def writeJSON_def)
    moreover have "limited e name next r s = (Inl resp, s\<lparr>si_groups := (si_groups s)(name := g)\<rparr>)"
      using G Some by (simp add: limited_def)
    ultimately show ?thesis using that(1) group_state_quiet(1) by blast
  qed
qed

lemma limited_gate:
  assumes "gate P (next r)" and "\<And>s g. P (s\<lparr>si_groups := g\<rparr>) \<Longrightarrow> P s"
  shows "gate P (limited e name next r)"
  unfolding gate_def
proof
  fix s
  show "(\<exists>resp. fst (limited e name next r s) = Inl resp \<and> refusal resp) \<and> site_quiet s (snd (limited e name next r s)) \<or> P s"
  proof (cases rule: limited_cases [of e name "next" r s])
    case (2 g)
    let ?s = "s\<lparr>si_groups := g\<rparr>"
    have "(\<exists>resp. fst (next r ?s) = Inl resp \<and> refusal resp) \<and> site_quiet ?s (snd (next r ?s)) \<or> P ?s"
      using assms(1) by (simp add: gate_def)
    then show ?thesis using 2 assms(2) [where s = s and g = g] sq.R_trans [OF group_state_quiet(1) [of s g]] by auto
  qed auto
qed

lemma limited_keeps: "keeps site_quiet (next r) \<Longrightarrow> keeps site_quiet (limited e name next r)"
proof (rule keepsI)
  fix s assume k: "keeps site_quiet (next r)"
  show "site_quiet s (snd (limited e name next r s))"
  proof (cases rule: limited_cases [of e name "next" r s])
    case (2 g)
    then show ?thesis using sq.R_trans [OF group_state_quiet(1) [of s g] keepsD [OF k]] by simp
  qed simp
qed

lemma SSE_cases:
  obtains resp where "SSE e next r s = (Inl resp, s)" "refusal resp"
    | n k where "fst (SSE e next r s) = fst (next r (s\<lparr>si_sse := n\<rparr>))" "snd (SSE e next r s) = snd (next r (s\<lparr>si_sse := n\<rparr>))\<lparr>si_sse := k\<rparr>"
proof -
  let ?cfg = "wd_rate_limit (se_deps e)"
  let ?ip = "clientIP r (rl_trust_proxy ?cfg)"
  let ?n = "(si_sse s)(?ip := si_sse s ?ip + 1)"
  obtain res u where u: "next r (s\<lparr>si_sse := ?n\<rparr>) = (res, u)" by force
  consider "sse_disabled ?cfg" | "\<not> sse_disabled ?cfg" "si_sse s ?ip + 1 > rl_sse_max_concurrent ?cfg"
    | "\<not> sse_disabled ?cfg" "\<not> si_sse s ?ip + 1 > rl_sse_max_concurrent ?cfg" by blast
  then show ?thesis
  proof cases
    case 1
    then show ?thesis using that(2) [of "si_sse s" "si_sse (snd (next r s))"] by (simp add: SSE_def Let_def)
  next
    case 2
    then show ?thesis using that(1) by (simp add: SSE_def Let_def refusal_def rejectRateLimit_def writeJSON_def)
  next
    case 3
    then have "SSE e next r s = (res, u\<lparr>si_sse := (si_sse u)(?ip := si_sse u ?ip - 1)\<rparr>)"
      using u by (simp add: SSE_def Let_def)
    then show ?thesis using that(2) [of ?n "(si_sse u)(?ip := si_sse u ?ip - 1)"] u by simp
  qed
qed

lemma SSE_quiet: "site_quiet t u \<Longrightarrow> site_quiet t (u\<lparr>si_sse := k\<rparr>)"
  by (simp add: site_quiet_def)

lemma SSE_gate:
  assumes "gate P (next r)" and "\<And>s g. P (s\<lparr>si_sse := g\<rparr>) \<Longrightarrow> P s"
  shows "gate P (SSE e next r)"
  unfolding gate_def
proof
  fix s
  show "(\<exists>resp. fst (SSE e next r s) = Inl resp \<and> refusal resp) \<and> site_quiet s (snd (SSE e next r s)) \<or> P s"
  proof (cases rule: SSE_cases [of e "next" r s])
    case (1 resp)
    then show ?thesis by (simp add: sq.R_refl)
  next
    case (2 n k)
    let ?s = "s\<lparr>si_sse := n\<rparr>"
    have "(\<exists>resp. fst (next r ?s) = Inl resp \<and> refusal resp) \<and> site_quiet ?s (snd (next r ?s)) \<or> P ?s"
      using assms(1) by (simp add: gate_def)
    then show ?thesis using 2 assms(2) [where s = s and g = n] sq.R_trans [OF group_state_quiet(2) [of s n]] by (auto intro: SSE_quiet)
  qed
qed

lemma SSE_keeps: "keeps site_quiet (next r) \<Longrightarrow> keeps site_quiet (SSE e next r)"
proof (rule keepsI)
  fix s assume "keeps site_quiet (next r)"
  then show "site_quiet s (snd (SSE e next r s))"
    by (cases rule: SSE_cases [of e "next" r s])
       (auto simp: sq.R_refl intro!: SSE_quiet intro: sq.R_trans [OF group_state_quiet(2)] keepsD)
qed

lemma csrf_gate:
  assumes "gate P (next r)"
  shows "gate (\<lambda>s. csrf_ok (wd_public_base_url (se_deps e)) r \<and> P s) (csrfMW e next r)"
proof (cases "csrf_ok (wd_public_base_url (se_deps e)) r")
  case True
  then have "csrfMW e next r = next r" by (intro ext) (simp add: csrfMW_def CSRF_cases)
  then show ?thesis using True assms by simp
next
  case False
  show ?thesis
  proof (rule gateI)
    fix s
    obtain reason where "csrfMW e next r s = (Inl (csrfReject reason), s)"
      using False CSRF_cases [of "wd_public_base_url (se_deps e)" "next" r s] by (simp add: csrfMW_def)
    then show "\<exists>resp s'. csrfMW e next r s = (Inl resp, s') \<and> refusal resp \<and> site_quiet s s'"
      by (simp add: refusal_def csrfReject_def writeJSON_def sq.R_refl)
  qed
qed

section \<open>The guards of the routes\<close>

text \<open>A session of the state that a request arrives in; only counters differ by the time it is checked.\<close>

definition admin_of :: "('l, 'c) site_env \<Rightarrow> web_request \<Rightarrow> 'c site \<Rightarrow> bool" where
  "admin_of e r s \<longleftrightarrow> (\<exists>c. session_of (se_deps e) r (si_web s) = Some c \<and> sc_role c = ''admin'')"

definition visitor_of :: "('l, 'c) site_env \<Rightarrow> web_request \<Rightarrow> 'c site \<Rightarrow> bool" where
  "visitor_of e r s \<longleftrightarrow> session_of (se_deps e) r (si_web s) \<noteq> None"

definition csrf_checked :: "('l, 'c) site_env \<Rightarrow> web_request \<Rightarrow> bool" where
  "csrf_checked e r \<longleftrightarrow> csrf_ok (wd_public_base_url (se_deps e)) r"

lemma adminOnly_gate: "gate (\<lambda>s. csrf_checked e r \<and> admin_of e r s) (adminOnly e h r)"
  unfolding adminOnly_def csrf_checked_def admin_of_def
  by (intro csrf_gate limited_gate with_admin_gate) simp

lemma session_gate: "gate (visitor_of e r) (session e h r)"
  unfolding session_def visitor_of_def by (intro limited_gate with_session_gate) simp

lemma with_session_keeps:
  fixes e :: "('l, 'c) site_env"
  shows "(\<And>c. keeps site_quiet (h c r)) \<Longrightarrow> keeps site_quiet (with_session e h r)"
proof (rule keepsI)
  fix s :: "'c site"
  assume h: "\<And>c. keeps site_quiet (h c r)"
  have "snd (RequireSession (se_deps e) (\<lambda>c _. ret c) r (si_web s)) = si_web s"
    by (simp add: RequireSession_def web_now_def bind_def gets_def throw_def ret_def split: option.split sum.split)
  then show "site_quiet s (snd (with_session e h r s))"
    using keepsD [OF h, of s] by (auto simp: with_session_def bind_def in_web_def in_part_def sq.R_refl split: prod.splits sum.splits)
qed

lemma session_keeps: "(\<And>c. keeps site_quiet (h c r)) \<Longrightarrow> keeps site_quiet (session e h r)"
  unfolding session_def by (intro limited_keeps with_session_keeps)

text \<open>Requests that may change more than counters, by their path and what they carry.\<close>

definition may_change :: "('l, 'c) site_env \<Rightarrow> string list \<Rightarrow> web_request \<Rightarrow> 'c site \<Rightarrow> bool" where
  "may_change e path r s \<longleftrightarrow> csrf_checked e r \<and> admin_of e r s \<or>
     path = [''api'', ''chat'', ''stream''] \<and> csrf_checked e r \<and> visitor_of e r s \<or>
     path = [''webhook'', ''github''] \<and> VerifyWebhookSignature (wd_libs (se_deps e)) (wd_webhook_secret (se_deps e)) (wr_body r)
        (header ''X-Hub-Signature-256'' r) \<or>
     path = [''oauth'', ''callback''] \<or>
     (\<exists>i. path = [''internal'', ''runs'', i, ''copilot-token''])"

definition route_safe :: "('l, 'c) site_env \<Rightarrow> 'c route \<Rightarrow> bool" where
  "route_safe e = (\<lambda>((m, p), h). \<forall>path vs r s. match_path p path = Some vs \<longrightarrow>
     site_quiet s (snd (h (r\<lparr>wr_path := vs\<rparr>) s)) \<or> may_change e path r s)"

lemma request_path [simp]:
  "session_of d (r\<lparr>wr_path := vs\<rparr>) w = session_of d r w" "header k (r\<lparr>wr_path := vs\<rparr>) = header k r"
  "csrf_checked e (r\<lparr>wr_path := vs\<rparr>) = csrf_checked e r" "admin_of e (r\<lparr>wr_path := vs\<rparr>) = admin_of e r"
  "visitor_of e (r\<lparr>wr_path := vs\<rparr>) = visitor_of e r"
  by (simp_all add: session_of_def header_def csrf_checked_def csrf_ok_def request_origin_def admin_of_def visitor_of_def fun_eq_iff)

lemma quiet_route: "(\<And>r. keeps site_quiet (h r)) \<Longrightarrow> route_safe e ((m, p), h)"
  by (simp add: route_safe_def keeps_def)

lemma admin_route: "route_safe e ((m, p), adminOnly e h)"
  using adminOnly_gate [of e _ h] by (fastforce simp: route_safe_def gate_def may_change_def)

lemma match_Lit: "match_path (Lit l # p) path = Some vs \<longleftrightarrow> (\<exists>xs. path = l # xs \<and> match_path p xs = Some vs)"
  by (cases path) auto

lemma match_Wild: "match_path (Wild l # p) path = Some vs \<longleftrightarrow> (\<exists>x xs us. x \<noteq> [] \<and> path = x # xs \<and> match_path p xs = Some us \<and> vs = (l, x) # us)"
  by (cases path) auto

lemma match_Nil [simp]: "match_path [] path = Some vs \<longleftrightarrow> path = [] \<and> vs = []"
  by (cases path) auto

lemma chat_route: "route_safe e ((m, api_path ''chat'' @ [Lit ''stream'']), csrfMW e (SSE e (with_session e h)))"
proof -
  have "gate (\<lambda>s. csrf_checked e r \<and> visitor_of e r s) (csrfMW e (SSE e (with_session e h)) r)" for r
    unfolding csrf_checked_def visitor_of_def by (intro csrf_gate SSE_gate with_session_gate) simp
  then show ?thesis by (fastforce simp: route_safe_def gate_def may_change_def api_path_def match_Lit)
qed

lemma webhook_route: "route_safe e ((m, [Lit ''webhook'', Lit ''github'']), limited e n (\<lambda>r. in_web (webhookHandler (se_deps e) sd r)))"
proof -
  have "keeps site_quiet (limited e n (\<lambda>r. in_web (webhookHandler (se_deps e) sd r)) r)"
    if "\<not> VerifyWebhookSignature (wd_libs (se_deps e)) (wd_webhook_secret (se_deps e)) (wr_body r) (header ''X-Hub-Signature-256'' r)" for r
    using that by (intro limited_keeps in_web_quiet keepsI) (simp add: webhookHandler_def Let_def wq.R_refl ret_def throw_def)
  then show ?thesis by (auto simp: route_safe_def keeps_def may_change_def match_Lit)
qed

lemma callback_route: "route_safe e ((m, [Lit ''oauth'', Lit ''callback'']), h)"
  unfolding route_safe_def prod.case by (intro allI impI disjI2) (simp add: may_change_def match_Lit)

lemma token_route: "route_safe e ((m, [Lit ''internal'', Lit ''runs'', Wild ''id'', Lit ''copilot-token'']), h)"
proof -
  have "\<exists>i. path = [''internal'', ''runs'', i, ''copilot-token'']"
    if "match_path [Lit ''internal'', Lit ''runs'', Wild ''id'', Lit ''copilot-token''] path = Some vs" for path vs
    using that by (auto simp: match_Lit match_Wild)
  then have "may_change e path r s"
    if "match_path [Lit ''internal'', Lit ''runs'', Wild ''id'', Lit ''copilot-token''] path = Some vs" for path vs r s
    unfolding may_change_def using that by blast
  then show ?thesis unfolding route_safe_def by blast
qed

lemma session_route: "(\<And>c r. keeps web_quiet (h c r)) \<Longrightarrow> route_safe e ((m, p), session e (\<lambda>c r. in_web (h c r)))"
  by (intro quiet_route session_keeps in_web_quiet)

lemma public_route: "(\<And>r. keeps web_quiet (h r)) \<Longrightarrow> route_safe e ((m, p), limited e n (\<lambda>r. in_web (h r)))"
  by (intro quiet_route limited_keeps in_web_quiet)

lemma plain_route: "(\<And>r. keeps web_quiet (h r)) \<Longrightarrow> route_safe e ((m, p), (\<lambda>r. in_web (h r)))"
  by (intro quiet_route in_web_quiet)

lemma stream_route: "route_safe e ((m, p), session e (\<lambda>c. SSE e (\<lambda>r. in_frames (events_stream d n c r))))"
  by (intro quiet_route session_keeps SSE_keeps events_stream_quiet)

lemma metrics_route: "route_safe e ((m, p), (\<lambda>r. ret resp))"
  by (intro quiet_route sq.ret_keeps)

lemma routes_safe: "list_all (route_safe e) (RegisterRoutes_web e)"
  unfolding RegisterRoutes_web_def Let_def list.pred_inject(2)
  by (intro conjI list.pred_inject(1); (rule callback_route token_route webhook_route chat_route stream_route admin_route)?;
      (rule session_route public_route plain_route metrics_route)?; (rule read_handlers)?)

lemma mux_safe:
  assumes "list_all (route_safe e) rs"
  shows "site_quiet s (snd (mux rs static path r s)) \<or> may_change e path r s"
  using assms
proof (induction rs static path r rule: mux.induct)
  case (2 m p h rs static path r)
  then show ?case
    by (cases "match_method m (wr_method r)"; cases "match_path p path") (auto simp: route_safe_def)
qed (simp add: sq.R_refl)

text \<open>
  C6: A request changes nothing but counters, of statements, random draws and the rate limiter,
  unless it is one of five kinds: it passed the CSRF check and carries a verified session of an
  admin; it talks to the assistant with a verified session and passed the CSRF check; it is
  a webhook delivery signed with the shared secret; or it goes to the login callback or to the
  Copilot token endpoint, which ask for no session. This is about every path and method of the
  server.
\<close>

theorem changes_need_authority:
  "site_quiet s (snd (ServeHTTP e path r s)) \<or>
   csrf_checked e r \<and> admin_of e r s \<or>
   path = [''api'', ''chat'', ''stream''] \<and> csrf_checked e r \<and> visitor_of e r s \<or>
   path = [''webhook'', ''github''] \<and> VerifyWebhookSignature (wd_libs (se_deps e)) (wd_webhook_secret (se_deps e)) (wr_body r)
      (header ''X-Hub-Signature-256'' r) \<or>
   path = [''oauth'', ''callback''] \<or> (\<exists>i. path = [''internal'', ''runs'', i, ''copilot-token''])"
proof -
  let ?s = "s\<lparr>si_frames := []\<rparr>"
  have "snd (ServeHTTP e path r s) = snd (mux (RegisterRoutes_web e) (se_static e) path r ?s)"
    by (simp add: ServeHTTP_def split: prod.split sum.split)
  then have "site_quiet s (snd (ServeHTTP e path r s)) \<or> may_change e path r ?s"
    using mux_safe [OF routes_safe, where s = ?s and static = "se_static e" and path = path and r = r] sq.R_trans [OF group_state_quiet(3) [of s "[]"]] by auto
  then show ?thesis by (simp add: may_change_def admin_of_def visitor_of_def)
qed

section \<open>What a request can see without a session\<close>

definition route_closed :: "('l, 'c) site_env \<Rightarrow> 'c route \<Rightarrow> bool" where
  "route_closed e = (\<lambda>((m, p), h). \<forall>xs vs r s. match_path p (''api'' # xs) = Some vs \<longrightarrow>
     visitor_of e r s \<or> (\<exists>resp. fst (h (r\<lparr>wr_path := vs\<rparr>) s) = Inl resp \<and> refusal resp))"

lemma gated_route:
  assumes "\<And>r. gate (P r) (h r)" and "\<And>r s vs. P (r\<lparr>wr_path := vs\<rparr>) s \<Longrightarrow> visitor_of e r s"
  shows "route_closed e ((m, p), h)"
  unfolding route_closed_def prod.case
proof (intro allI impI)
  fix xs vs r s
  show "visitor_of e r s \<or> (\<exists>resp. fst (h (r\<lparr>wr_path := vs\<rparr>) s) = Inl resp \<and> refusal resp)"
    using assms(1) [of "r\<lparr>wr_path := vs\<rparr>"] assms(2) [where r = r and vs = vs and s = s] unfolding gate_def by blast
qed

lemma other_route: "p = Lit l # q \<Longrightarrow> l \<noteq> ''api'' \<Longrightarrow> route_closed e ((m, p), h)"
  by (simp add: route_closed_def)

lemma closed_admin: "route_closed e ((m, p), adminOnly e h)"
  by (rule gated_route [OF adminOnly_gate]) (auto simp: admin_of_def visitor_of_def)

lemma closed_session: "route_closed e ((m, p), session e h)"
  by (rule gated_route [OF session_gate]) simp

lemma closed_chat: "route_closed e ((m, p), csrfMW e (SSE e (with_session e h)))"
proof (rule gated_route)
  show "gate (\<lambda>s. csrf_checked e r \<and> visitor_of e r s) (csrfMW e (SSE e (with_session e h)) r)" for r
    unfolding csrf_checked_def visitor_of_def by (intro csrf_gate SSE_gate with_session_gate) simp
qed simp

lemma routes_closed: "list_all (route_closed e) (RegisterRoutes_web e)"
  unfolding RegisterRoutes_web_def Let_def list.pred_inject(2)
  by (intro conjI list.pred_inject(1); (rule closed_admin closed_session closed_chat)?; (simp add: other_route)?)

lemma mux_closed:
  assumes "list_all (route_closed e) rs"
  shows "visitor_of e r s \<or> (\<exists>resp. fst (mux rs static (''api'' # xs) r s) = Inl resp \<and> refusal resp) \<or>
     fst (mux rs static (''api'' # xs) r s) = Inr (static (''api'' # xs))"
  using assms
proof (induction rs static "''api'' # xs" r rule: mux.induct)
  case (2 m p h rs static r)
  show ?case
  proof (cases "match_method m (wr_method r) \<and> match_path p (''api'' # xs) \<noteq> None")
    case True
    then obtain vs where vs: "match_method m (wr_method r)" "match_path p (''api'' # xs) = Some vs" by auto
    have "route_closed e ((m, p), h)" using 2(2) by simp
    then have "visitor_of e r s \<or> (\<exists>resp. fst (h (r\<lparr>wr_path := vs\<rparr>) s) = Inl resp \<and> refusal resp)"
      using vs(2) unfolding route_closed_def prod.case by blast
    then show ?thesis using vs by auto
  next
    case False
    then show ?thesis using 2 by (auto split: option.split)
  qed
qed simp

text \<open>
  Nothing under /api is served without a session: a request whose cookie does not verify is
  answered with 401, 403 or 429, or, when no pattern of the API matches it, with a page of the
  web interface.
\<close>

theorem api_needs_session:
  "visitor_of e r s \<or> refusal (fst (ServeHTTP e (''api'' # xs) r s)) \<or>
   fst (ServeHTTP e (''api'' # xs) r s) = se_static e (''api'' # xs)"
proof -
  let ?out = "mux (RegisterRoutes_web e) (se_static e) (''api'' # xs) r (s\<lparr>si_frames := []\<rparr>)"
  have "visitor_of e r s \<or> (\<exists>resp. fst ?out = Inl resp \<and> refusal resp) \<or> fst ?out = Inr (se_static e (''api'' # xs))"
    using mux_closed [OF routes_closed, where s = "s\<lparr>si_frames := []\<rparr>" and e = e and r = r and xs = xs and static = "se_static e"]
    by (simp add: visitor_of_def)
  then show ?thesis by (auto simp: ServeHTTP_def split: prod.split sum.split)
qed

end
