(* ===== verification/Site.thy ===== *)
theory Site
  imports Web_Routes_Claims System Secret_Store
begin

text \<open>
  The whole process: ticks of the scheduler, requests to the internal API, sync passes and
  requests to the web server, in any order. What a relation on the database needs to be kept by
  every web handler is the locale \<open>web_rel\<close>, which adds the statements of the web API to those of
  the sync; the handlers' lemmas are proved once inside it.
\<close>

section \<open>Statements of the web API\<close>

definition db_rel :: "(world \<Rightarrow> world \<Rightarrow> bool) \<Rightarrow> web \<Rightarrow> web \<Rightarrow> bool" where
  "db_rel R w w' \<longleftrightarrow> R (ww_db w) (ww_db w')"

locale web_rel = sync_rel +
  assumes InsertRepoConnection_R: "keeps R (InsertRepoConnection org inst ow nm br iv)"
    and DeleteRepoConnection_R: "keeps R (DeleteRepoConnection i org)"
    and set_overrides_R: "keeps R (set_overrides i org j)"
    and uuid_R: "R w (w\<lparr>uuid_ctr := Suc (uuid_ctr w)\<rparr>)"

sublocale web_rel \<subseteq> db: step_rel "db_rel R"
  by unfold_locales (auto simp: db_rel_def intro: R_refl R_trans)

context web_rel
begin

lemma on_db_keeps: "keeps R m \<Longrightarrow> keeps (db_rel R) (on_db m)"
  by (auto simp: keeps_def db_rel_def on_db_def split: prod.split) (metis snd_conv)

lemma web_stmt_keeps: "(\<And>w. R (ww_db w) (ww_db (snd (f w)))) \<Longrightarrow> keeps (db_rel R) (web_stmt f)"
proof -
  assume f: "\<And>w. R (ww_db w) (ww_db (snd (f w)))"
  have "keeps (db_rel R) (on_db (stmt (\<lambda>d. (Inr (), d))))"
    by (rule on_db_keeps, rule reads_keep) simp
  then show ?thesis unfolding web_stmt_def using f by (intro db.bind_keeps) (auto simp: keeps_def db_rel_def)
qed

lemma id_drawn_R: "R (ww_db w) (ww_db (id_drawn w))"
  by (simp add: id_drawn_def uuid_R)

lemma query_keeps: "(\<And>w. snd (f w) = w) \<Longrightarrow> keeps (db_rel R) (on_db (stmt f))"
  by (intro on_db_keeps reads_keep)

lemma web_reads_keep:
  "keeps (db_rel R) GetFirstOrganization" "keeps (db_rel R) (GetUserRole org l)" "keeps (db_rel R) (CountAdmins org)"
  "keeps (db_rel R) (ListUsers org)" "keeps (db_rel R) (ListSecretNames org)" "keeps (db_rel R) (GetSecretByName org n)"
  unfolding GetFirstOrganization_def GetUserRole_def CountAdmins_def ListUsers_def ListSecretNames_def GetSecretByName_def
  by (rule web_stmt_keeps; simp add: R_refl split: list.split option.split)+

lemma web_writes_keep:
  "keeps (db_rel R) (SetUserRole org l ro)" "keeps (db_rel R) (DeleteUserIfNotLast org l)" "keeps (db_rel R) (DeleteSecret org n)"
  "keeps (db_rel R) (TouchSecret i)"
  unfolding SetUserRole_def DeleteUserIfNotLast_def DeleteSecret_def TouchSecret_def
  by (rule web_stmt_keeps; simp add: R_refl)+

lemma web_inserts_keep:
  "keeps (db_rel R) (CreateUser org l ro)" "keeps (db_rel R) (UpsertUserOnLogin org l ro)" "keeps (db_rel R) (UpsertSecret org n wr ct nonce)"
  unfolding CreateUser_def UpsertUserOnLogin_def UpsertSecret_def
  by (rule web_stmt_keeps; simp add: R_refl id_drawn_R Let_def split: option.split)+

lemma rand_Read_keeps: "keeps (db_rel R) (rand_Read n)"
  by (simp add: keeps_def rand_Read_def db_rel_def R_refl)

lemma web_now_keeps: "keeps (db_rel R) web_now"
  unfolding web_now_def by (rule db.gets_keeps)

lemma load_org_keeps: "keeps (db_rel R) (load_org msg)"
  unfolding load_org_def by (intro db.map_err_keeps web_reads_keep)

lemma auditLog_keeps: "keeps (db_rel R) (auditLog actor ent)"
  unfolding auditLog_def audit_Log_def
  by (intro db.keeps_rules on_db_keeps keeps_rules InsertAuditLog_R)

lemmas web_rules = db.keeps_rules web_reads_keep web_writes_keep web_inserts_keep rand_Read_keeps web_now_keeps load_org_keeps
  auditLog_keeps query_keeps

lemma users_keep:
  "keeps (db_rel R) (users_list d c r)" "keeps (db_rel R) (users_create d c r)" "keeps (db_rel R) (users_delete d c r)"
  unfolding users_list_def users_create_def users_delete_def Let_def
  by (auto intro!: web_rules split: option.split)

lemma updateRole_keeps: "keeps (db_rel R) (updateRole d c r)"
  unfolding updateRole_def updateRole_check_def updateRole_apply_def Let_def
  by (auto intro!: web_rules split: option.split)

lemma repos_keep: "keeps (db_rel R) (repos_connect d c r)" "keeps (db_rel R) (repos_disconnect d c r)"
  unfolding repos_connect_def repos_disconnect_def
  by (auto intro!: web_rules on_db_keeps InsertRepoConnection_R DeleteRepoConnection_R split: option.split)

lemma with_schedule_id_keeps: "(\<And>org i. keeps (db_rel R) (k org i)) \<Longrightarrow> keeps (db_rel R) (with_schedule_id d r k)"
  unfolding with_schedule_id_def by (auto intro!: web_rules split: option.split)

lemma schedules_keep:
  "keeps (db_rel R) (setEnabled d b c r)" "keeps (db_rel R) (patchOverrides d c r)" "keeps (db_rel R) (deleteOverrides d c r)"
  unfolding setEnabled_def patchOverrides_def deleteOverrides_def SetScheduleOverrides_def ClearScheduleOverrides_def ListSchedulesByOrg_def
  by (auto intro!: with_schedule_id_keeps web_rules on_db_keeps reads_keep SetScheduleEnabled_R set_overrides_R split: option.split)

lemma runNow_keeps: "(\<And>u a. keeps R (loop u a)) \<Longrightarrow> keeps (db_rel R) (runNow d loop c r)"
  unfolding runNow_def Let_def by (auto intro!: web_rules on_db_keeps split: option.split)

lemma webhook_keeps: "keeps (db_rel R) (webhookHandler d sd r)"
  unfolding webhookHandler_def push_sync_def GetRepoConnectionByOwnerName_def Let_def
  by (auto intro!: web_rules on_db_keeps [OF SyncOne_keeps] split: option.split sum.split)

lemma Pair_keeps: "keeps (db_rel R) (Pair x)"
  by (simp add: keeps_def db.R_refl)

lemma callback_keeps: "keeps (db_rel R) (oauth_callback d r)"
  unfolding oauth_callback_def adding_cookies_def checked_login_def complete_login_def org_of_callback_def resolveRole_def NewCSRFToken_def
  by (auto intro!: web_rules Pair_keeps split: option.split sum.split)

lemma audit_list_keeps: "keeps (db_rel R) (audit_list d c r)"
  unfolding audit_list_def listed_def ListAuditLogByOrg_def by (intro web_rules) simp

text \<open>The secret store over PostgreSQL; any other store that keeps the relation would do.\<close>

definition store_keeps :: "web secret_store_if \<Rightarrow> bool" where
  "store_keeps S \<longleftrightarrow> (\<forall>n. keeps (db_rel R) (ss_get S n)) \<and> (\<forall>n v. keeps (db_rel R) (ss_put S n v)) \<and> (\<forall>n. keeps (db_rel R) (ss_delete S n))"

lemma lift_sum_keeps: "keeps (db_rel R) (lift_sum f x)"
  unfolding lift_sum_def by (auto intro!: db.keeps_rules split: sum.split)

lemma encryption_keeps:
  "keeps (db_rel R) (encryptWithNoncePrefixed G k p)" "keeps (db_rel R) (newWrappedDEK G m)" "keeps (db_rel R) (encrypt G k p)"
  unfolding newWrappedDEK_def encrypt_def encryptWithNoncePrefixed_def
  by (auto intro!: web_rules split: prod.split option.split)

lemma envelope_store_keeps: "store_keeps (NewEnvelopePostgresStore es)"
  unfolding store_keeps_def NewEnvelopePostgresStore_def es_Get_def es_Put_def es_Delete_def
  by (auto intro!: web_rules lift_sum_keeps encryption_keeps split: prod.split)

lemma auditSecretMutation_keeps: "keeps (db_rel R) (auditSecretMutation c act n)"
  unfolding auditSecretMutation_def by (auto intro!: web_rules split: sum.split)

lemma store_rules:
  assumes "store_keeps S"
  shows "keeps (db_rel R) (ss_get S n)" "keeps (db_rel R) (ss_put S n v)" "keeps (db_rel R) (ss_delete S n)"
  using assms by (simp_all add: store_keeps_def)

lemma web_secrets_keep:
  assumes "store_keeps S"
  shows "keeps (db_rel R) (secrets_create d S c r)" "keeps (db_rel R) (secrets_rotate d S c r)" "keeps (db_rel R) (secrets_delete S c r)"
  unfolding secrets_create_def secrets_rotate_def secrets_delete_def Let_def
  by (auto intro!: web_rules store_rules [OF assms] auditSecretMutation_keeps split: option.split)

lemma ResolveCopilotToken_keeps: "store_keeps S \<Longrightarrow> keeps (db_rel R) (ResolveCopilotToken L S clk pre base)"
  unfolding ResolveCopilotToken_def readCachedIDEToken_def writeCachedIDEToken_def
  by (auto intro!: web_rules store_rules split: option.split sum.split)

lemma copilot_token_keeps: "store_keeps S \<Longrightarrow> keeps (db_rel R) (copilot_token_get d S r)"
  unfolding copilot_token_get_def GetRunForAdmin_def GetScheduleByID_def
  by (auto intro!: web_rules ResolveCopilotToken_keeps split: option.split)

end

section \<open>Handlers with more state\<close>

text \<open>The state of a handler beside the database does not matter.\<close>

definition beside :: "(web \<Rightarrow> web \<Rightarrow> bool) \<Rightarrow> 'x \<times> web \<Rightarrow> 'x \<times> web \<Rightarrow> bool" where
  "beside Q x y \<longleftrightarrow> Q (snd x) (snd y)"

sublocale web_rel \<subseteq> be: step_rel "beside (db_rel R) :: 'x \<times> web \<Rightarrow> 'x \<times> web \<Rightarrow> bool"
  by unfold_locales (auto simp: beside_def intro: db.R_refl db.R_trans)

context web_rel
begin

lemma on_web_keeps: "keeps (db_rel R) m \<Longrightarrow> keeps (beside (db_rel R)) (on_web m)"
  by (auto simp: keeps_def beside_def on_web_def split: prod.split) (metis snd_conv)

lemma flow_keeps: "keeps (beside (db_rel R)) (put_flow code f)" "keeps (beside (db_rel R)) (drop_flow code)" "keeps (beside (db_rel R)) flow_now"
  unfolding put_flow_def drop_flow_def flow_now_def
  by (auto intro!: be.modify_keeps be.gets_keeps simp: beside_def db.R_refl)

lemma startFlow_keeps: "keeps (beside (db_rel R)) (startFlow d r)"
  unfolding startFlow_def by (auto intro!: be.keeps_rules flow_keeps split: option.split)

lemma copilot_poll_keeps: "store_keeps S \<Longrightarrow> keeps (beside (db_rel R)) (copilot_poll d S r)"
  unfolding copilot_poll_def store_tokens_def Let_def
  by (auto intro!: be.keeps_rules flow_keeps on_web_keeps db.keeps_rules store_rules split: option.split)

lemma ctr_R: "R w (w\<lparr>stmt_ctr := stmt_ctr w + n\<rparr>)"
proof (induction n)
  case (Suc n)
  show ?case using R_trans [OF Suc R_bump [of "w\<lparr>stmt_ctr := stmt_ctr w + n\<rparr>"]] by simp
qed (simp add: R_refl)

lemma quiet_keeps: "keeps web_quiet m \<Longrightarrow> keeps (db_rel R) m"
proof (rule keepsI)
  fix w assume "keeps web_quiet m"
  from keepsD [OF this, of w] show "db_rel R w (snd (m w))" by (auto simp: web_quiet_def db_rel_def ctr_R)
qed

lemma chat_Run_keeps: "keeps (beside (db_rel R)) (chat_Run cfg ms)"
proof (rule keepsI)
  fix st :: "sink_event list \<times> web"
  show "beside (db_rel R) st (snd (chat_Run cfg ms st))"
    using keepsD [OF chat_Run_reads [of cfg ms], of st] ctr_R by (auto simp: second_state_def reads_only_def beside_def db_rel_def)
qed

lemma run_chat_keeps: "keeps (beside (db_rel R)) (run_chat L cfg ms)"
proof (rule keepsI)
  fix st :: "string list \<times> web"
  show "beside (db_rel R) st (snd (run_chat L cfg ms st))"
    using keepsD [OF chat_Run_keeps [of cfg ms], of "([], snd st)"] by (auto simp: run_chat_def beside_def split: prod.splits)
qed

lemma chat_stream_keeps: "store_keeps S \<Longrightarrow> keeps (beside (db_rel R)) (chat_stream d cfg env S c r)"
  unfolding chat_stream_def resolveChatCredentials_def
  by (auto intro!: be.keeps_rules run_chat_keeps on_web_keeps load_org_keeps web_rules store_rules ResolveCopilotToken_keeps
      split: sum.split option.split)

lemma gh_calls_keep:
  "keeps (beside (db_rel R)) (gitHubClient api i)" "keeps (beside (db_rel R)) (gh_mutate api tok call)"
  "keeps (beside (db_rel R)) (GetFile api i ow re pa ref)"
  by (auto simp: keeps_def beside_def GetFile_state gitHubClient_def gh_mutate_def db.R_refl ret_def throw_def split: sum.split)

lemma proposal_keeps: "keeps (beside (db_rel R)) (proposeJob pd c r)"
  unfolding proposeJob_def propose_valid_def propose_edited_def open_pr_def get_manifest_def loadConn_def CreateBranch_def PutFile_def CreatePR_def
    ListRepoConnections_def Let_def
  by (auto intro!: be.keeps_rules gh_calls_keep on_web_keeps web_rules split: sum.split option.split gh_result.split list.split)

end

section \<open>Routes\<close>

definition site_rel :: "(world \<Rightarrow> world \<Rightarrow> bool) \<Rightarrow> 'c site \<Rightarrow> 'c site \<Rightarrow> bool" where
  "site_rel R s s' \<longleftrightarrow> R (ww_db (si_web s)) (ww_db (si_web s'))"

sublocale web_rel \<subseteq> st: step_rel "site_rel R :: 'c site \<Rightarrow> 'c site \<Rightarrow> bool"
  by unfold_locales (auto simp: site_rel_def intro: R_refl R_trans)

context web_rel
begin

lemma in_web_keeps: "keeps (db_rel R) m \<Longrightarrow> keeps (site_rel R) (in_web m)"
  by (auto simp: keeps_def in_web_def in_part_def site_rel_def db_rel_def split: prod.split) (metis snd_conv)

lemma in_parts_keep:
  "keeps (beside (db_rel R)) f \<Longrightarrow> keeps (site_rel R) (in_flows f)"
  "keeps (beside (db_rel R)) g \<Longrightarrow> keeps (site_rel R) (in_calls g)"
  "keeps (beside (db_rel R)) h \<Longrightarrow> keeps (site_rel R) (in_frames h)"
  by (auto simp: keeps_def in_flows_def in_calls_def in_frames_def in_part_def site_rel_def beside_def db_rel_def split: prod.split)
     (metis snd_conv)+

lemma limited_db: "keeps (site_rel R) (next r) \<Longrightarrow> keeps (site_rel R) (limited e n next r)"
proof (rule keepsI)
  fix s assume k: "keeps (site_rel R) (next r)"
  show "site_rel R s (snd (limited e n next r s))"
    using keepsD [OF k, of "s\<lparr>si_groups := _\<rparr>"]
    by (auto simp: limited_def Let_def site_rel_def R_refl split: prod.splits option.splits)
qed

lemma SSE_db: "keeps (site_rel R) (next r) \<Longrightarrow> keeps (site_rel R) (SSE e next r)"
proof (rule keepsI)
  fix s assume k: "keeps (site_rel R) (next r)"
  show "site_rel R s (snd (SSE e next r s))"
  proof (cases rule: SSE_cases [of e "next" r s])
    case (2 n m)
    then show ?thesis using keepsD [OF k, of "s\<lparr>si_sse := n\<rparr>"] by (simp add: site_rel_def)
  qed (simp add: st.R_refl)
qed

lemma csrf_db: "keeps (site_rel R) (next r) \<Longrightarrow> keeps (site_rel R) (csrfMW e next r)"
  unfolding csrfMW_def CSRF_def by (auto intro: st.throw_keeps split: option.split prod.split)

lemma guards_db:
  assumes h: "\<And>c. keeps (site_rel R) (h c r)"
  shows "keeps (site_rel R) (with_session e h r)" "keeps (site_rel R) (with_admin e h r)"
proof -
  have "keeps (db_rel R) (RequireSession d (\<lambda>c _. ret c) r)" "keeps (db_rel R) (RequireRole d a (\<lambda>c _. ret c) r)" for d a
    unfolding RequireRole_def RequireSession_def by (auto intro!: web_rules split: option.split sum.split)
  then show "keeps (site_rel R) (with_session e h r)" "keeps (site_rel R) (with_admin e h r)"
    unfolding with_session_def with_admin_def using h by (auto intro!: st.bind_keeps in_web_keeps)
qed

lemma session_db: "(\<And>c r. keeps (site_rel R) (h c r)) \<Longrightarrow> keeps (site_rel R) (session e h r)"
  unfolding session_def by (intro limited_db guards_db)

lemma adminOnly_db: "(\<And>c r. keeps (site_rel R) (h c r)) \<Longrightarrow> keeps (site_rel R) (adminOnly e h r)"
  unfolding adminOnly_def by (intro csrf_db limited_db guards_db)

lemma events_stream_db: "keeps (site_rel R) (in_frames (events_stream d n c r))"
proof (rule keepsI)
  fix s :: "'c site"
  show "site_rel R s (snd (in_frames (events_stream d n c r) s))"
    using keepsD [OF events_stream_quiet [of d n c r], of s] by (auto simp: site_quiet_def web_quiet_def site_rel_def ctr_R)
qed

definition route_db :: "'c route \<Rightarrow> bool" where
  "route_db = (\<lambda>(p, h). \<forall>r. keeps (site_rel R) (h r))"

lemma route_dbI: "(\<And>r. keeps (site_rel R) (h r)) \<Longrightarrow> route_db (p, h)"
  by (simp add: route_db_def)

lemmas write_handlers = users_keep updateRole_keeps repos_keep schedules_keep callback_keeps webhook_keeps audit_list_keeps

lemma pause_keeps: "keeps (db_rel R) (schedule_pause d c r)" "keeps (db_rel R) (schedule_resume d c r)"
  unfolding schedule_pause_def schedule_resume_def by (rule schedules_keep)+

lemma routes_db:
  assumes S: "store_keeps (se_store e)" and T: "\<And>u a. keeps R (se_trigger e u a)"
  shows "list_all route_db (RegisterRoutes_web e)"
  unfolding RegisterRoutes_web_def Let_def list.pred_inject(2)
  by (intro conjI list.pred_inject(1) route_dbI session_db adminOnly_db csrf_db limited_db SSE_db guards_db in_web_keeps in_parts_keep
      events_stream_db st.ret_keeps quiet_keeps [OF read_handlers(1)] quiet_keeps [OF read_handlers(2)];
      (rule write_handlers pause_keeps web_secrets_keep [OF S] copilot_token_keeps [OF S] copilot_poll_keeps [OF S] startFlow_keeps
        chat_stream_keeps [OF S] proposal_keeps runNow_keeps [OF T])?; (rule quiet_keeps, rule read_handlers)?)

lemma mux_db: "list_all route_db rs \<Longrightarrow> keeps (site_rel R) (mux rs static path r)"
proof (induction rs static path r rule: mux.induct)
  case (2 m p h rs static path r)
  then show ?case by (auto simp: route_db_def split: option.split)
qed (simp add: st.ret_keeps del: ret_apply)

lemma ServeHTTP_db:
  assumes "store_keeps (se_store e)" "\<And>u a. keeps R (se_trigger e u a)"
  shows "site_rel R s (snd (ServeHTTP e path r s))"
  using keepsD [OF mux_db [OF routes_db [OF assms], of "se_static e" path r], of "s\<lparr>si_frames := []\<rparr>"]
  by (auto simp: ServeHTTP_def site_rel_def split: prod.split sum.split)

end

section \<open>The invariant of the store\<close>

lemma InsertRepoConnection_ok: "keeps ok_step (InsertRepoConnection org inst ow nm br iv)"
proof -
  have fresh: "store_ok (w\<lparr>repos := repos w @ [c], uuid_ctr := Suc (uuid_ctr w)\<rparr>)"
    if "store_ok w" "rc_id c = uuid_gen w (uuid_ctr w)" for w c
  proof -
    have free: "uuid_gen w (uuid_ctr w) \<notin> used_ids w" "inj (uuid_gen w)" using that(1) by (simp_all add: store_ok_def supply_ok_def)
    then show ?thesis using that by (auto simp: store_ok_defs inj_eq Suc_le_eq)
  qed
  show ?thesis unfolding InsertRepoConnection_def
    by (rule ok_tx.stmt_keeps)
      (auto simp: Let_def grows_def intro!: ok_stepI repos_update_ok fresh split: option.split)
qed

lemma drop_skills_repos:
  "drop_skills q (w\<lparr>repos := x\<rparr>) = drop_skills q w\<lparr>repos := x\<rparr>" "repos (drop_skills q w) = repos w"
  "skills (drop_skills q w) = filter (\<lambda>k. \<not> q k) (skills w)"
  by (simp_all add: drop_skills_def drop_schedules_def drop_runs_def Let_def)

lemma drop_repos_ok: "store_ok w \<Longrightarrow> store_ok (drop_repos p w)"
proof -
  assume ok: "store_ok w"
  let ?gone = "rc_id ` set (filter p (repos w))"
  let ?v = "drop_skills (\<lambda>k. sk_repo_id k \<in> ?gone) w"
  have v: "store_ok ?v" by (rule drop_skills_ok [OF ok])
  have d: "drop_repos p w = ?v\<lparr>repos := filter (\<lambda>c. \<not> p c) (repos ?v)\<rparr>"
    by (simp only: drop_repos_def Let_def drop_skills_repos)
  have sk: "skills ?v = filter (\<lambda>k. sk_repo_id k \<notin> ?gone) (skills w)" "repos ?v = repos w"
    by (simp_all only: drop_skills_repos)
  have "sk_repo_id ` set (skills ?v) \<subseteq> rc_id ` set (filter (\<lambda>c. \<not> p c) (repos ?v))"
  proof
    fix i assume "i \<in> sk_repo_id ` set (skills ?v)"
    then have i: "i \<in> sk_repo_id ` set (skills w)" "i \<notin> ?gone" using sk(1) by auto
    then have "i \<in> rc_id ` set (repos w)" using ok by (auto simp: store_ok_def refs_ok_def)
    then obtain c where c: "c \<in> set (repos w)" "rc_id c = i" by blast
    then have "\<not> p c" using i(2) by auto
    then show "i \<in> rc_id ` set (filter (\<lambda>c. \<not> p c) (repos ?v))" using c sk(2) by auto
  qed
  moreover have "distinct (map rc_id (filter (\<lambda>c. \<not> p c) (repos ?v)))"
    using v by (simp add: store_ok_defs distinct_map_filter)
  ultimately show "store_ok (drop_repos p w)" using v unfolding d by (auto simp: store_ok_defs)
qed

lemma drop_repos_grows: "grows w (drop_repos p w)"
  by (simp add: grows_def drop_repos_def drop_skills_def drop_schedules_def drop_runs_def Let_def)

lemma DeleteRepoConnection_ok: "keeps ok_step (DeleteRepoConnection i org)"
  unfolding DeleteRepoConnection_def Let_def
  by (rule ok_tx.stmt_keeps) (simp add: ok_stepI drop_repos_ok drop_repos_grows)

lemma set_overrides_ok: "keeps ok_step (set_overrides i org j)"
  unfolding set_overrides_def
  by (rule ok_tx.stmt_keeps)
    (auto simp: ok_step_refl sched_update_def Let_def intro!: ok_stepI schedules_update_ok split: option.split)

interpretation ok_web: web_rel ok_step
  by unfold_locales
    (rule InsertRepoConnection_ok DeleteRepoConnection_ok set_overrides_ok | (rule ok_step_tables; simp add: grows_def))+

section \<open>The process\<close>

text \<open>A sync pass, a tick and a request to the internal API work on the database; the timer of a device flow drops it.\<close>

inductive site_step :: "server \<Rightarrow> ('l, 'c) site_env \<Rightarrow> 'c site \<Rightarrow> 'c site \<Rightarrow> bool" for S e where
  server: "server_step S (ww_db (si_web s)) d \<Longrightarrow> site_step S e s (s\<lparr>si_web := (si_web s)\<lparr>ww_db := d\<rparr>\<rparr>)"
| web: "site_step S e s (snd (ServeHTTP e path r s))"
| evict: "evict_flow code (si_flows s, si_web s) = (Inr (), fl, w) \<Longrightarrow> site_step S e s (s\<lparr>si_flows := fl\<rparr>)"

lemma internal_trigger_ok: "keeps ok_step (internal_trigger adeps base u a)"
proof (rule keepsI)
  fix w
  have "ok_step w (snd (serve_run_now adeps (Some [127, 0, 0, 1]) (run_now_id base u) (Some (Some a)) w))"
    by (rule keepsD) (rule ok.serve_run_now_keeps)
  then show "ok_step w (snd (internal_trigger adeps base u a w))"
    by (auto simp: internal_trigger_def split: prod.split sum.split http_err.split)
qed

lemma site_step_ok:
  assumes "se_store e = NewEnvelopePostgresStore es" and "se_trigger e = internal_trigger adeps base" and "site_step S e s s'"
  shows "site_rel ok_step s s'"
  using assms(3)
proof cases
  case (server d)
  then show ?thesis using server_step_ok by (simp add: site_rel_def)
next
  case (web path r)
  then show ?thesis using ok_web.ServeHTTP_db [of e s path r] assms(1,2) ok_web.envelope_store_keeps internal_trigger_ok by simp
next
  case (evict code fl w)
  then show ?thesis by (simp add: site_rel_def ok_step_refl)
qed

text \<open>
  C1: Whatever the process goes through, ticks of the scheduler, requests of runners, sync passes
  and requests of browsers and GitHub, in whatever order and whichever statements fail, the store
  stays well formed; in particular no schedule ever has two runs for one fire time. Runs of the
  web interface go through the internal endpoint, and secrets are kept in the envelope store.
\<close>

theorem site_keeps_store:
  assumes "store_ok (ww_db (si_web s))" and "reaches (site_step S e) s s'"
    and "se_store e = NewEnvelopePostgresStore es" and "se_trigger e = internal_trigger adeps base"
  shows "store_ok (ww_db (si_web s')) \<and>
    length (filter (\<lambda>r. run_schedule_id r = i \<and> run_fire_time r = Some t) (runs (ww_db (si_web s')))) \<le> 1"
proof -
  have "site_rel ok_step s s'" using ok_web.st.reaches_R [OF assms(2)] site_step_ok [OF assms(3,4)] by blast
  then have ok: "store_ok (ww_db (si_web s'))" using assms(1) by (simp add: site_rel_def ok_step_def)
  then show ?thesis using fires_unique_count [of "runs (ww_db (si_web s'))" i t] by (simp add: store_ok_def keys_ok_def)
qed

definition silent_provider :: provider where
  "silent_provider = \<lparr>pv_chat = (\<lambda>_ _ _. ([], Inl [])), pv_chat_turn = None\<rparr>"

definition sample_site_env :: "(unit, unit) site_env" where
  "sample_site_env = \<lparr>se_deps = sample_web_deps,
     se_limiter = \<lparr>ll_new = (\<lambda>_ _. ()), ll_allow = (\<lambda>_ l. (True, l)), ll_cache = (\<lambda>_. ()), ll_get = (\<lambda>c _. (Some (), c)), ll_add = (\<lambda>c _ _. c)\<rparr>,
     se_store = NewEnvelopePostgresStore sample_store, se_syncer = sv_sync sample_server,
     se_trigger = internal_trigger (sv_api sample_server) [],
     se_propose = \<lparr>pd_web = sample_web_deps,
       pd_api = \<lparr>ga_token = (\<lambda>_. Inl []), ga_contents = (\<lambda>_ _ _ _ _ _. GhErr None []), ga_branch = (\<lambda>_ _ _ _ _. GhErr None []),
         ga_mutate = (\<lambda>_ _ _. GhErr None [])\<rparr>,
       pd_tree = sample_tree, pd_yaml = climbing_yaml, pd_decode = (\<lambda>_. Inl []), pd_db_text = (\<lambda>_. []), pd_config_text = (\<lambda>_. [])\<rparr>,
     se_chat = \<lparr>ch_enabled = False, ch_provider = [], ch_model = [], ch_api_key_secret = [], ch_copilot_prefix = [], ch_max_turns = 0, ch_max_tokens = 0\<rparr>,
     se_chat_env = \<lparr>ce_providers = \<lparr>pl_openai = (\<lambda>_. silent_provider), pl_anthropic = (\<lambda>_. silent_provider),
         pl_azure_foundry = silent_provider, pl_copilot_enterprise = silent_provider\<rparr>,
       ce_getenv = (\<lambda>_. []), ce_deltas = (\<lambda>_ _. []), ce_docs = [], ce_err_text = (\<lambda>_. []), ce_incomplete = (\<lambda>_. False)\<rparr>,
     se_last_tick = None, se_stream_ticks = 0, se_metrics = bare_status 200, se_static = (\<lambda>_. bare_status 200)\<rparr>"

definition sample_site :: "unit site" where
  "sample_site = new_site sample_site_env (sample_web [])"

theorem site_keeps_store_witness:
  "\<exists>s'. reaches (site_step sample_server sample_site_env) sample_site s' \<and> store_ok (ww_db (si_web s')) \<and>
     length (filter (\<lambda>r. run_schedule_id r = 3 \<and> run_fire_time r = Some 0) (runs (ww_db (si_web s')))) \<le> 1"
proof -
  let ?s1 = "sample_site\<lparr>si_web := (si_web sample_site)\<lparr>ww_db := snd (Tick (sv_sched sample_server) (ww_db (si_web sample_site)))\<rparr>\<rparr>"
  let ?s2 = "snd (ServeHTTP sample_site_env [''api'', ''repos''] (sample_request []) ?s1)"
  have "reaches (site_step sample_server sample_site_env) sample_site ?s2"
    by (rule reaches.more [OF reaches.more [OF reaches.start]])
       (rule site_step.server, rule server_step.run, rule run_step.tick, rule site_step.web)
  moreover have "store_ok (ww_db (si_web sample_site))"
    using sample_none_ok [of "''skip''"] by (simp add: sample_site_def new_site_def sample_web_def)
  moreover have "se_store sample_site_env = NewEnvelopePostgresStore sample_store"
    "se_trigger sample_site_env = internal_trigger (sv_api sample_server) []" by (simp_all add: sample_site_env_def)
  ultimately show ?thesis using site_keeps_store [of sample_site sample_server sample_site_env ?s2 sample_store "sv_api sample_server" "[]" 3 0]
    by blast
qed

end
