(* ===== verification/Mcp_Client.thy ===== *)
theory Mcp_Client
  imports Mcp
begin

text \<open>
  The JSON-RPC client of an MCP server (internal/mcp/client.go, protocol.go) and the end of its
  process (process.go). Any number of goroutines call \<open>send\<close> while one goroutine reads the
  server's output; every access to the shared state under the mutex, every channel operation
  and every write is one step of a step relation, so the order of the goroutines is free. JSON
  text is a parameter: what a line and a raw id decode to, and how a request is printed.
\<close>

section \<open>Messages\<close>

record rpc_error =
  re_code :: int
  re_message :: string

record rpc_response =
  rp_id :: string
  rp_result :: string
  rp_error :: "rpc_error option"

record rpc_lib =
  jl_response :: "string \<Rightarrow> rpc_response option"
  jl_id :: "string \<Rightarrow> int option"
  jl_request :: "int \<Rightarrow> string \<Rightarrow> string option \<Rightarrow> string"
  jl_tools :: "string \<Rightarrow> string + mcp_tool list"
  jl_call_params :: "string \<Rightarrow> string \<Rightarrow> string + string"
  jl_error :: "string \<Rightarrow> int \<Rightarrow> string"
  jl_initialize :: string

section \<open>The client\<close>

text \<open>A channel of capacity one, made by each call for its response.\<close>

record chan =
  ch_buf :: "rpc_response option"
  ch_closed :: bool

definition open_chan :: chan where
  "open_chan = \<lparr>ch_buf = None, ch_closed = False\<rparr>"

datatype reader_pc = Reading | Delivering nat rpc_response | Ending | Ended

datatype call_pc = Idle
  | Numbered int string
  | Registered int string
  | Unwritten int string
  | Waiting int
  | Leaving int call_err
  | Returned int "call_err + rpc_response"

text \<open>
  Calls are numbered by the goroutine that makes them, which also names the channel. The
  requests written and the lines read so far are kept as a history.
\<close>

record client =
  cl_next :: int
  cl_pending :: "(int \<times> nat) list"
  cl_closed :: bool
  cl_done :: bool
  cl_reader :: reader_pc
  cl_chans :: "nat \<Rightarrow> chan"
  cl_calls :: "nat \<Rightarrow> call_pc"
  cl_sent :: "string list"
  cl_lines :: "string list"

definition newClient :: client where
  "newClient = \<lparr>cl_next = 0, cl_pending = [], cl_closed = False, cl_done = False, cl_reader = Reading,
     cl_chans = (\<lambda>_. open_chan), cl_calls = (\<lambda>_. Idle), cl_sent = [], cl_lines = []\<rparr>"

definition call_at :: "nat \<Rightarrow> call_pc \<Rightarrow> client \<Rightarrow> client" where
  "call_at c pc s = s\<lparr>cl_calls := (cl_calls s)(c := pc)\<rparr>"

definition drop_id :: "int \<Rightarrow> (int \<times> nat) list \<Rightarrow> (int \<times> nat) list" where
  "drop_id i p = filter (\<lambda>x. fst x \<noteq> i) p"

subsection \<open>Steps of a call\<close>

text \<open>The id is drawn before the parameters are printed, so a failure to print uses one up.\<close>

definition send_start :: "rpc_lib \<Rightarrow> nat \<Rightarrow> string \<Rightarrow> string + string option \<Rightarrow> client \<Rightarrow> client" where
  "send_start L c method params s = (let i = cl_next s + 1 in
     call_at c (case params of
         Inl e \<Rightarrow> Returned i (Inl (CallFailed (''marshal params: '' @ e)))
       | Inr p \<Rightarrow> Numbered i (jl_request L i method p @ [CHR 0x0A])) (s\<lparr>cl_next := i\<rparr>))"

definition send_register :: "nat \<Rightarrow> int \<Rightarrow> string \<Rightarrow> client \<Rightarrow> client" where
  "send_register c i bytes s =
     (if cl_closed s then call_at c (Returned i (Inl (CallFailed ''mcp client closed''))) s
      else call_at c (Registered i bytes) (s\<lparr>cl_pending := (i, c) # drop_id i (cl_pending s)\<rparr>))"

definition send_write :: "nat \<Rightarrow> int \<Rightarrow> string \<Rightarrow> string option \<Rightarrow> client \<Rightarrow> client" where
  "send_write c i bytes err s = (case err of
       Some e \<Rightarrow> call_at c (Unwritten i e) s
     | None \<Rightarrow> call_at c (Waiting i) (s\<lparr>cl_sent := cl_sent s @ [bytes]\<rparr>))"

definition send_leave :: "nat \<Rightarrow> int \<Rightarrow> call_err \<Rightarrow> client \<Rightarrow> client" where
  "send_leave c i e s = call_at c (Returned i (Inl e)) (s\<lparr>cl_pending := drop_id i (cl_pending s)\<rparr>)"

text \<open>Receiving from the call's channel, where it does not block.\<close>

definition send_receive :: "nat \<Rightarrow> int \<Rightarrow> client \<Rightarrow> client option" where
  "send_receive c i s = (case ch_buf (cl_chans s c) of
       Some r \<Rightarrow> Some (call_at c (Returned i (Inr r)) (s\<lparr>cl_chans := (cl_chans s)(c := (cl_chans s c)\<lparr>ch_buf := None\<rparr>)\<rparr>))
     | None \<Rightarrow> if ch_closed (cl_chans s c)
         then Some (call_at c (Returned i (Inl (CallFailed ''mcp client closed while awaiting response''))) s) else None)"

subsection \<open>Steps of the reader\<close>

definition read_line :: "rpc_lib \<Rightarrow> string \<Rightarrow> client \<Rightarrow> client" where
  "read_line L line s = (let s = s\<lparr>cl_lines := cl_lines s @ [line]\<rparr> in
     case jl_response L line of None \<Rightarrow> s
     | Some r \<Rightarrow> (case jl_id L (rp_id r) of None \<Rightarrow> s
       | Some i \<Rightarrow> (case map_of (cl_pending s) i of None \<Rightarrow> s
         | Some c \<Rightarrow> s\<lparr>cl_pending := drop_id i (cl_pending s), cl_reader := Delivering c r\<rparr>)))"

text \<open>Sending on a full channel blocks, and on a closed one it panics: neither is a step.\<close>

definition read_deliver :: "nat \<Rightarrow> rpc_response \<Rightarrow> client \<Rightarrow> client option" where
  "read_deliver c r s = (if ch_closed (cl_chans s c) \<or> ch_buf (cl_chans s c) \<noteq> None then None
     else Some (s\<lparr>cl_chans := (cl_chans s)(c := (cl_chans s c)\<lparr>ch_buf := Some r\<rparr>), cl_reader := Reading\<rparr>))"

definition read_end :: "client \<Rightarrow> client" where
  "read_end s = s\<lparr>cl_closed := True, cl_pending := [], cl_reader := Ending,
     cl_chans := (\<lambda>c. if c \<in> snd ` set (cl_pending s) then (cl_chans s c)\<lparr>ch_closed := True\<rparr> else cl_chans s c)\<rparr>"

definition close_done :: "client \<Rightarrow> client" where
  "close_done s = s\<lparr>cl_done := True, cl_reader := Ended\<rparr>"

subsection \<open>The step relation\<close>

text \<open>A context that is done gives its error; the last rule of a waiting call is its select on done.\<close>

inductive client_step :: "rpc_lib \<Rightarrow> client \<Rightarrow> client \<Rightarrow> bool" for L where
  start: "cl_calls s c = Idle \<Longrightarrow> client_step L s (send_start L c method params s)"
| register: "cl_calls s c = Numbered i b \<Longrightarrow> client_step L s (send_register c i b s)"
| wrote: "cl_calls s c = Registered i b \<Longrightarrow> client_step L s (send_write c i b err s)"
| unwritten: "cl_calls s c = Unwritten i e \<Longrightarrow> client_step L s (send_leave c i (CallFailed (''write: '' @ e)) s)"
| receive: "cl_calls s c = Waiting i \<Longrightarrow> send_receive c i s = Some s' \<Longrightarrow> client_step L s s'"
| cancel: "cl_calls s c = Waiting i \<Longrightarrow> e = DeadlineExceeded t \<or> e = Canceled t \<Longrightarrow> client_step L s (call_at c (Leaving i e) s)"
| leave: "cl_calls s c = Leaving i e \<Longrightarrow> client_step L s (send_leave c i e s)"
| ended: "cl_calls s c = Waiting i \<Longrightarrow> cl_done s \<Longrightarrow>
    client_step L s (call_at c (Returned i (Inl (CallFailed ''mcp client stream ended''))) s)"
| line: "cl_reader s = Reading \<Longrightarrow> client_step L s (read_line L line s)"
| deliver: "cl_reader s = Delivering c r \<Longrightarrow> read_deliver c r s = Some s' \<Longrightarrow> client_step L s s'"
| eof: "cl_reader s = Reading \<Longrightarrow> client_step L s (read_end s)"
| close: "cl_reader s = Ending \<Longrightarrow> client_step L s (close_done s)"

section \<open>What a method makes of the response\<close>

definition initialize :: "call_err + rpc_response \<Rightarrow> call_err option" where
  "initialize res = (case res of Inl e \<Rightarrow> Some e
     | Inr r \<Rightarrow> map_option (\<lambda>e. CallFailed (''initialize: '' @ re_message e @ '' ('' @ itoa (re_code e) @ '')'')) (rp_error r))"

definition listTools :: "rpc_lib \<Rightarrow> call_err + rpc_response \<Rightarrow> call_err + mcp_tool list" where
  "listTools L res = (case res of Inl e \<Rightarrow> Inl e
     | Inr r \<Rightarrow> (case rp_error r of Some e \<Rightarrow> Inl (CallFailed (''tools/list: '' @ re_message e))
       | None \<Rightarrow> (case jl_tools L (rp_result r) of Inl e \<Rightarrow> Inl (CallFailed (''tools/list result: '' @ e)) | Inr ts \<Rightarrow> Inr ts)))"

definition callTool :: "rpc_lib \<Rightarrow> call_err + rpc_response \<Rightarrow> call_err + string \<times> bool" where
  "callTool L res = (case res of Inl e \<Rightarrow> Inl e
     | Inr r \<Rightarrow> (case rp_error r of Some e \<Rightarrow> Inr (jl_error L (re_message e) (re_code e), True)
       | None \<Rightarrow> Inr (rp_result r, False)))"

definition initialize_request :: "rpc_lib \<Rightarrow> string \<times> (string + string option)" where
  "initialize_request L = (''initialize'', Inr (Some (jl_initialize L)))"

definition list_request :: "string \<times> (string + string option)" where
  "list_request = (''tools/list'', Inr None)"

definition call_request :: "rpc_lib \<Rightarrow> string \<Rightarrow> string \<Rightarrow> string \<times> (string + string option)" where
  "call_request L name args = (''tools/call'', (case jl_call_params L name args of Inl e \<Rightarrow> Inl e | Inr raw \<Rightarrow> Inr (Some raw)))"

section \<open>The process\<close>

datatype proc_event = CloseStdin | SIGTERM | SIGKILL

text \<open>
  \<open>exits sent ms\<close>: the exit code, if the process ends within the given milliseconds after the
  last of the events sent to it.
\<close>

definition shutdownGracePeriod :: nat where
  "shutdownGracePeriod = 5000"

definition process_shutdown :: "(proc_event list \<Rightarrow> nat \<Rightarrow> int option) \<Rightarrow> int \<times> proc_event list" where
  "process_shutdown exits = (case exits [CloseStdin] 200 of
       Some code \<Rightarrow> (code, [CloseStdin])
     | None \<Rightarrow> (case exits [CloseStdin, SIGTERM] shutdownGracePeriod of
         Some code \<Rightarrow> (code, [CloseStdin, SIGTERM])
       | None \<Rightarrow> (- 1, [CloseStdin, SIGTERM, SIGKILL])))"

section \<open>The invariant\<close>

fun id_of :: "call_pc \<Rightarrow> int option" where
  "id_of Idle = None"
| "id_of (Numbered i b) = Some i"
| "id_of (Registered i b) = Some i"
| "id_of (Unwritten i e) = Some i"
| "id_of (Waiting i) = Some i"
| "id_of (Leaving i e) = Some i"
| "id_of (Returned i res) = Some i"

text \<open>The calls that have an entry in the table until it is taken out.\<close>

fun in_flight :: "call_pc \<Rightarrow> bool" where
  "in_flight (Registered i b) = True"
| "in_flight (Unwritten i e) = True"
| "in_flight (Waiting i) = True"
| "in_flight (Leaving i e) = True"
| "in_flight _ = False"

definition answers :: "rpc_lib \<Rightarrow> string list \<Rightarrow> int \<Rightarrow> rpc_response \<Rightarrow> bool" where
  "answers L lines i r \<longleftrightarrow> (\<exists>line \<in> set lines. jl_response L line = Some r \<and> jl_id L (rp_id r) = Some i)"

text \<open>What the state holds for one call: its entries in the table and a response on its way.\<close>

definition listed :: "client \<Rightarrow> nat \<Rightarrow> int set" where
  "listed s c = {i. (i, c) \<in> set (cl_pending s)}"

definition arriving :: "client \<Rightarrow> nat \<Rightarrow> rpc_response option" where
  "arriving s c = (case cl_reader s of Delivering c' r \<Rightarrow> if c' = c then Some r else None | _ \<Rightarrow> None)"

text \<open>
  A call in flight is in the table until its response is taken out, is then on its way or in
  its channel, and everything it may receive answers its id.
\<close>

definition came :: "rpc_lib \<Rightarrow> string list \<Rightarrow> int \<Rightarrow> chan \<Rightarrow> rpc_response option \<Rightarrow> bool" where
  "came L lines i ch arr \<longleftrightarrow> (case arr of None \<Rightarrow> True | Some r \<Rightarrow> ch = open_chan \<and> answers L lines i r) \<and>
     (case ch_buf ch of None \<Rightarrow> True | Some r \<Rightarrow> answers L lines i r)"

definition flight :: "rpc_lib \<Rightarrow> string list \<Rightarrow> int \<Rightarrow> chan \<Rightarrow> int set \<Rightarrow> rpc_response option \<Rightarrow> bool" where
  "flight L lines i ch ids arr \<longleftrightarrow> ids = (if ch = open_chan \<and> arr = None then {i} else {}) \<and> came L lines i ch arr"

fun call_ok :: "rpc_lib \<Rightarrow> string list \<Rightarrow> call_pc \<Rightarrow> chan \<Rightarrow> int set \<Rightarrow> rpc_response option \<Rightarrow> bool" where
  "call_ok L lines Idle ch ids arr \<longleftrightarrow> ch = open_chan \<and> ids = {} \<and> arr = None"
| "call_ok L lines (Numbered i b) ch ids arr \<longleftrightarrow> ch = open_chan \<and> ids = {} \<and> arr = None"
| "call_ok L lines (Registered i b) ch ids arr = flight L lines i ch ids arr"
| "call_ok L lines (Unwritten i e) ch ids arr = flight L lines i ch ids arr"
| "call_ok L lines (Waiting i) ch ids arr = flight L lines i ch ids arr"
| "call_ok L lines (Leaving i e) ch ids arr = flight L lines i ch ids arr"
| "call_ok L lines (Returned i res) ch ids arr \<longleftrightarrow> ids = {} \<and> came L lines i ch arr \<and>
     (case res of Inl e \<Rightarrow> True | Inr r \<Rightarrow> answers L lines i r)"

lemma call_ok_flight: "in_flight pc \<Longrightarrow> id_of pc = Some i \<Longrightarrow> call_ok L lines pc ch ids arr = flight L lines i ch ids arr"
  by (cases pc) auto

lemma came_open [simp]: "came L lines i open_chan None"
  by (simp add: came_def open_chan_def)

definition calls_ok :: "rpc_lib \<Rightarrow> client \<Rightarrow> bool" where
  "calls_ok L s \<longleftrightarrow> (\<forall>c. call_ok L (cl_lines s) (cl_calls s c) (cl_chans s c) (listed s c) (arriving s c))"

definition ids_ok :: "client \<Rightarrow> bool" where
  "ids_ok s \<longleftrightarrow> 0 \<le> cl_next s \<and> (\<forall>c i. id_of (cl_calls s c) = Some i \<longrightarrow> 0 < i \<and> i \<le> cl_next s) \<and>
     (\<forall>c c' i. id_of (cl_calls s c) = Some i \<longrightarrow> id_of (cl_calls s c') = Some i \<longrightarrow> c = c')"

definition table_ok :: "client \<Rightarrow> bool" where
  "table_ok s \<longleftrightarrow> distinct (map fst (cl_pending s)) \<and> (cl_closed s \<longrightarrow> cl_pending s = []) \<and>
     (cl_closed s \<longleftrightarrow> cl_reader s = Ending \<or> cl_reader s = Ended) \<and> (cl_done s \<longleftrightarrow> cl_reader s = Ended)"

definition client_inv :: "rpc_lib \<Rightarrow> client \<Rightarrow> bool" where
  "client_inv L s \<longleftrightarrow> ids_ok s \<and> table_ok s \<and> calls_ok L s"

lemma set_drop_id [simp]: "(j, c) \<in> set (drop_id i p) \<longleftrightarrow> (j, c) \<in> set p \<and> j \<noteq> i"
  by (auto simp: drop_id_def)

lemma drop_id_distinct [simp]: "distinct (map fst p) \<Longrightarrow> distinct (map fst (drop_id i p))"
  by (simp add: drop_id_def distinct_map_filter)

lemma drop_id_fresh [simp]: "i \<notin> fst ` set (drop_id i p)"
  by (auto simp: drop_id_def)

lemma drop_id_Nil [simp]: "drop_id i [] = []"
  by (simp add: drop_id_def)

lemma open_chan_simps [simp]: "ch_buf open_chan = None" "\<not> ch_closed open_chan"
  by (simp_all add: open_chan_def)

lemma answers_mono: "answers L xs i r \<Longrightarrow> answers L (xs @ ys) i r"
  by (auto simp: answers_def)

lemma call_ok_mono: "call_ok L xs pc ch ids arr \<Longrightarrow> call_ok L (xs @ ys) pc ch ids arr"
  by (cases pc) (auto simp: flight_def came_def answers_mono split: option.splits sum.splits)

lemma calls_okD: "calls_ok L s \<Longrightarrow> call_ok L (cl_lines s) (cl_calls s c) (cl_chans s c) (listed s c) (arriving s c)"
  by (simp add: calls_ok_def)

text \<open>A step that touches one call keeps the others.\<close>

lemma calls_ok_update:
  assumes "calls_ok L s" "\<And>c'. c' \<noteq> c \<Longrightarrow> cl_calls s' c' = cl_calls s c' \<and> cl_chans s' c' = cl_chans s c' \<and>
      listed s' c' = listed s c' \<and> arriving s' c' = arriving s c'"
    and "cl_lines s' = cl_lines s @ ls"
    and "call_ok L (cl_lines s') (cl_calls s' c) (cl_chans s' c) (listed s' c) (arriving s' c)"
  shows "calls_ok L s'"
  using assms call_ok_mono calls_okD unfolding calls_ok_def by metis

lemma listed_owner:
  assumes "client_inv L s" "(i, c) \<in> set (cl_pending s)"
  shows "id_of (cl_calls s c) = Some i" "in_flight (cl_calls s c)" "cl_chans s c = open_chan" "arriving s c = None"
proof -
  have "call_ok L (cl_lines s) (cl_calls s c) (cl_chans s c) (listed s c) (arriving s c)" and i: "i \<in> listed s c"
    using assms by (simp_all add: client_inv_def calls_ok_def listed_def)
  then show "in_flight (cl_calls s c)" "cl_chans s c = open_chan" "arriving s c = None" "id_of (cl_calls s c) = Some i"
    by (cases "cl_calls s c"; auto simp: flight_def split: if_splits)+
qed

lemma drop_own:
  assumes "client_inv L s" "id_of (cl_calls s c) = Some i"
  shows "c' \<noteq> c \<Longrightarrow> {j. (j, c') \<in> set (cl_pending s) \<and> j \<noteq> i} = listed s c'"
    "{j. (j, c) \<in> set (cl_pending s) \<and> j \<noteq> i} = {}"
  using listed_owner(1) [OF assms(1)] assms by (force simp: client_inv_def ids_ok_def listed_def)+

section \<open>Every step keeps the invariant\<close>

lemma client_inv_start: "client_inv L newClient"
  by (simp add: client_inv_def ids_ok_def table_ok_def calls_ok_def listed_def arriving_def newClient_def)

text \<open>A call that changes its place and keeps its id.\<close>

lemma ids_ok_call_at: "ids_ok s \<Longrightarrow> id_of pc = id_of (cl_calls s c) \<Longrightarrow> cl_calls t = (cl_calls s)(c := pc) \<Longrightarrow> cl_next t = cl_next s \<Longrightarrow> ids_ok t"
  unfolding ids_ok_def by (auto split: if_splits)

lemma client_inv_moves:
  assumes I: "client_inv L s" and id: "id_of pc = id_of (cl_calls s c)" "cl_calls t = (cl_calls s)(c := pc)" "cl_next t = cl_next s"
    and p: "table_ok t" "cl_lines t = cl_lines s" "cl_reader t = cl_reader s"
    and o: "\<And>c'. c' \<noteq> c \<Longrightarrow> cl_chans t c' = cl_chans s c' \<and> listed t c' = listed s c'"
    and c: "call_ok L (cl_lines s) pc (cl_chans t c) (listed t c) (arriving s c)"
  shows "client_inv L t"
proof -
  have "arriving t = arriving s" using p by (simp add: arriving_def fun_eq_iff)
  then have "calls_ok L t"
    using I p o c id by (intro calls_ok_update [of L s c t "[]"]) (auto simp: client_inv_def)
  then show ?thesis using I p ids_ok_call_at [OF _ id] by (simp add: client_inv_def)
qed


lemma start_inv:
  assumes I: "client_inv L s" and c: "cl_calls s c = Idle"
  shows "client_inv L (send_start L c method params s)"
proof -
  have l: "listed s c = {}" "cl_chans s c = open_chan" "arriving s c = None"
    using calls_okD [of L s c] I c by (simp_all add: client_inv_def)
  let ?t = "send_start L c method params s"
  have same: "listed ?t = listed s" "arriving ?t = arriving s" "cl_chans ?t = cl_chans s" "cl_lines ?t = cl_lines s"
    "\<And>c'. c' \<noteq> c \<Longrightarrow> cl_calls ?t c' = cl_calls s c'"
    by (simp_all add: send_start_def call_at_def Let_def listed_def arriving_def fun_eq_iff)
  have "call_ok L (cl_lines s) (cl_calls ?t c) open_chan {} None"
    by (simp add: send_start_def call_at_def Let_def split: sum.split)
  then have "calls_ok L ?t"
    using I l same by (intro calls_ok_update [of L s c ?t "[]"]) (simp_all add: client_inv_def)
  moreover have "ids_ok (send_start L c method params s)"
  proof -
    define pc where "pc = cl_calls (send_start L c method params s) c"
    have pc: "id_of pc = Some (cl_next s + 1)" and
      e: "cl_calls (send_start L c method params s) = (cl_calls s)(c := pc)" "cl_next (send_start L c method params s) = cl_next s + 1"
      by (simp_all add: pc_def send_start_def call_at_def Let_def split: sum.split)
    have le: "0 \<le> cl_next s" "\<And>c i. id_of (cl_calls s c) = Some i \<Longrightarrow> 0 < i \<and> i \<le> cl_next s"
      "\<And>c c' i. id_of (cl_calls s c) = Some i \<Longrightarrow> id_of (cl_calls s c') = Some i \<Longrightarrow> c = c'"
      using I by (simp_all add: client_inv_def ids_ok_def)
    have range: "0 < i \<and> i \<le> cl_next s + 1" if "id_of (((cl_calls s)(c := pc)) c') = Some i" for c' i
      using that le(1) le(2) [of c' i] pc by (simp split: if_splits)
    have inj: "a = b" if "id_of (((cl_calls s)(c := pc)) a) = Some i" "id_of (((cl_calls s)(c := pc)) b) = Some i" for a b i
      using that le(3) [of a i b] le(2) [of a i] le(2) [of b i] pc by (simp split: if_splits)
    show ?thesis unfolding ids_ok_def e
    proof (intro conjI allI impI)
      show "0 \<le> cl_next s + 1" using le(1) by simp
      show "0 < i" "i \<le> cl_next s + 1" if "id_of (((cl_calls s)(c := pc)) c') = Some i" for c' i using range [OF that] by blast+
      show "a = b" if "id_of (((cl_calls s)(c := pc)) a) = Some i" "id_of (((cl_calls s)(c := pc)) b) = Some i" for a b i by (rule inj [OF that])
    qed
  qed
  moreover have "table_ok (send_start L c method params s)"
    using I by (simp add: client_inv_def table_ok_def send_start_def call_at_def Let_def)
  ultimately show ?thesis by (simp add: client_inv_def)
qed

lemma register_inv:
  assumes I: "client_inv L s" and c: "cl_calls s c = Numbered i b"
  shows "client_inv L (send_register c i b s)"
proof -
  have l: "listed s c = {}" "cl_chans s c = open_chan" "arriving s c = None"
    using calls_okD [of L s c] I c by (simp_all add: client_inv_def)
  note d = drop_own [OF I, of c i]
  show ?thesis
  proof (cases "cl_closed s")
    case True
    then show ?thesis using I c l
      by (intro client_inv_moves [OF I, of "Returned i (Inl (CallFailed ''mcp client closed''))" c])
        (simp_all add: send_register_def call_at_def client_inv_def table_ok_def listed_def)
  next
    case False
    have e: "send_register c i b s = s\<lparr>cl_pending := (i, c) # drop_id i (cl_pending s), cl_calls := (cl_calls s)(c := Registered i b)\<rparr>" (is "_ = ?t")
      using False by (simp add: send_register_def call_at_def)
    have "listed ?t c = {i}" using d(2) c by (auto simp: listed_def)
    moreover have "listed ?t c' = listed s c'" if "c' \<noteq> c" for c' using d(1) [OF _ that] c that by (auto simp: listed_def)
    moreover have "table_ok ?t" using I False by (simp add: client_inv_def table_ok_def)
    moreover have "call_ok L (cl_lines s) (Registered i b) open_chan {i} None" by (simp add: flight_def)
    ultimately show ?thesis unfolding e using c l by (intro client_inv_moves [OF I, of "Registered i b" c]) simp_all
  qed
qed

lemma in_flight_ok:
  assumes "client_inv L s" "id_of (cl_calls s c) = Some i" "in_flight (cl_calls s c)" "id_of pc = Some i" "in_flight pc"
  shows "call_ok L (cl_lines s) pc (cl_chans s c) (listed s c) (arriving s c)"
proof -
  have "call_ok L (cl_lines s) (cl_calls s c) (cl_chans s c) (listed s c) (arriving s c)"
    using assms(1) by (intro calls_okD) (simp add: client_inv_def)
  then show ?thesis using assms(2-) by (simp add: call_ok_flight)
qed

text \<open>A call in flight that stays in flight.\<close>

lemma stays_inv:
  assumes "client_inv L s" "id_of (cl_calls s c) = Some i" "in_flight (cl_calls s c)" "id_of pc = Some i" "in_flight pc"
  shows "client_inv L (call_at c pc (s\<lparr>cl_sent := sent\<rparr>))"
proof -
  have "table_ok (call_at c pc (s\<lparr>cl_sent := sent\<rparr>))" using assms(1) by (simp add: client_inv_def table_ok_def call_at_def)
  then show ?thesis using assms(2-) in_flight_ok [OF assms]
    by (intro client_inv_moves [OF assms(1), of pc c]) (simp_all add: call_at_def listed_def)
qed

lemma write_inv: "client_inv L s \<Longrightarrow> cl_calls s c = Registered i b \<Longrightarrow> client_inv L (send_write c i b err s)"
  using stays_inv [of L s c i "Waiting i"] stays_inv [of L s c i _ "cl_sent s"] by (auto simp: send_write_def split: option.split)

lemma cancel_inv: "client_inv L s \<Longrightarrow> cl_calls s c = Waiting i \<Longrightarrow> client_inv L (call_at c (Leaving i e) s)"
  using stays_inv [of L s c i "Leaving i e" "cl_sent s"] by simp

lemma leave_inv:
  assumes I: "client_inv L s" and c: "id_of (cl_calls s c) = Some i" "in_flight (cl_calls s c)"
  shows "client_inv L (send_leave c i e s)"
proof -
  have e: "send_leave c i e s = s\<lparr>cl_pending := drop_id i (cl_pending s), cl_calls := (cl_calls s)(c := Returned i (Inl e))\<rparr>" (is "_ = ?t")
    by (simp add: send_leave_def call_at_def)
  note d = drop_own [OF I c(1)]
  have "call_ok L (cl_lines s) (cl_calls s c) (cl_chans s c) (listed s c) (arriving s c)"
    using I by (intro calls_okD) (simp add: client_inv_def)
  then have "call_ok L (cl_lines s) (Returned i (Inl e)) (cl_chans s c) {} (arriving s c)"
    using c by (simp add: call_ok_flight flight_def)
  moreover have "listed ?t c = {}" using d(2) by (simp add: listed_def)
  moreover have "listed ?t c' = listed s c'" if "c' \<noteq> c" for c' using d(1) [OF that] by (simp add: listed_def)
  moreover have "table_ok ?t" using I by (auto simp: client_inv_def table_ok_def)
  ultimately show ?thesis unfolding e using c by (intro client_inv_moves [OF I, of "Returned i (Inl e)" c]) simp_all
qed


lemma receive_inv:
  assumes I: "client_inv L s" and c: "cl_calls s c = Waiting i" and r: "send_receive c i s = Some s'"
  shows "client_inv L s'"
proof -
  have f: "flight L (cl_lines s) i (cl_chans s c) (listed s c) (arriving s c)"
    using calls_okD [of L s c] I c by (simp add: client_inv_def)
  have n: "cl_chans s c \<noteq> open_chan" using r by (auto simp: send_receive_def)
  then have a: "listed s c = {}" "arriving s c = None"
    using f by (auto simp: flight_def came_def split: option.splits)
  show ?thesis
  proof (cases "ch_buf (cl_chans s c)")
    case None
    then have "s' = call_at c (Returned i (Inl (CallFailed ''mcp client closed while awaiting response''))) s"
      using r by (simp add: send_receive_def split: if_splits)
    then show ?thesis using I c a None
      by (intro client_inv_moves [OF I, of "Returned i (Inl (CallFailed ''mcp client closed while awaiting response''))" c])
        (simp_all add: call_at_def client_inv_def table_ok_def listed_def came_def)
  next
    case (Some m)
    then have "s' = call_at c (Returned i (Inr m)) (s\<lparr>cl_chans := (cl_chans s)(c := (cl_chans s c)\<lparr>ch_buf := None\<rparr>)\<rparr>)"
      using r by (simp add: send_receive_def)
    moreover have "answers L (cl_lines s) i m" using f Some by (simp add: flight_def came_def)
    ultimately show ?thesis using I c a
      by (intro client_inv_moves [OF I, of "Returned i (Inr m)" c])
        (simp_all add: call_at_def client_inv_def table_ok_def listed_def came_def)
  qed
qed

lemma ended_inv:
  assumes I: "client_inv L s" and c: "cl_calls s c = Waiting i" and d: "cl_done s"
  shows "client_inv L (call_at c (Returned i (Inl e)) s)"
proof -
  have f: "flight L (cl_lines s) i (cl_chans s c) (listed s c) (arriving s c)"
    using calls_okD [of L s c] I c by (simp add: client_inv_def)
  have "cl_pending s = []" using I d by (simp add: client_inv_def table_ok_def)
  then have "listed s c = {}" by (simp add: listed_def)
  then show ?thesis using I c f
    by (intro client_inv_moves [OF I, of "Returned i (Inl e)" c])
      (simp_all add: call_at_def client_inv_def table_ok_def listed_def flight_def)
qed

text \<open>The reader leaves the calls where they are.\<close>

lemma line_inv:
  assumes I: "client_inv L s" and rd: "cl_reader s = Reading"
  shows "client_inv L (read_line L line s)"
proof (cases "\<exists>r i c. jl_response L line = Some r \<and> jl_id L (rp_id r) = Some i \<and> map_of (cl_pending s) i = Some c")
  case False
  then have e: "read_line L line s = s\<lparr>cl_lines := cl_lines s @ [line]\<rparr>" (is "_ = ?t")
    by (auto simp: read_line_def Let_def split: option.splits)
  have "listed ?t = listed s" "arriving ?t = arriving s" by (simp_all add: listed_def arriving_def fun_eq_iff)
  then have "calls_ok L ?t" using I by (simp add: client_inv_def calls_ok_def call_ok_mono)
  moreover have "ids_ok ?t" "table_ok ?t" using I by (simp_all add: client_inv_def ids_ok_def table_ok_def)
  ultimately show ?thesis unfolding e by (simp add: client_inv_def)
next
  case True
  then obtain r i c where r: "jl_response L line = Some r" "jl_id L (rp_id r) = Some i" "map_of (cl_pending s) i = Some c" by blast
  then have e: "read_line L line s = s\<lparr>cl_lines := cl_lines s @ [line], cl_pending := drop_id i (cl_pending s), cl_reader := Delivering c r\<rparr>" (is "_ = ?t")
    by (simp add: read_line_def)
  have m: "(i, c) \<in> set (cl_pending s)" using r(3) by (rule map_of_SomeD)
  note o = listed_owner [OF I m] and d = drop_own [OF I listed_owner(1) [OF I m]]
  have "answers L (cl_lines s @ [line]) i r" using r by (auto simp: answers_def)
  then have "came L (cl_lines s @ [line]) i open_chan (Some r)" by (simp add: came_def)
  then have "call_ok L (cl_lines ?t) (cl_calls ?t c) (cl_chans ?t c) (listed ?t c) (arriving ?t c)"
    using o d(2) by (simp add: call_ok_flight flight_def listed_def arriving_def)
  then have "calls_ok L ?t"
    using I d(1) rd by (intro calls_ok_update [of L s c ?t "[line]"]) (simp_all add: client_inv_def listed_def arriving_def)
  moreover have "ids_ok ?t" "table_ok ?t" using I rd by (auto simp: client_inv_def ids_ok_def table_ok_def)
  ultimately show ?thesis unfolding e by (simp add: client_inv_def)
qed

text \<open>A delivery never blocks and never meets a closed channel.\<close>

lemma deliver_possible:
  assumes I: "client_inv L s" and rd: "cl_reader s = Delivering c r"
  shows "cl_chans s c = open_chan" "\<exists>i. id_of (cl_calls s c) = Some i \<and> answers L (cl_lines s) i r \<and> listed s c = {}"
    "read_deliver c r s = Some (s\<lparr>cl_chans := (cl_chans s)(c := open_chan\<lparr>ch_buf := Some r\<rparr>), cl_reader := Reading\<rparr>)"
proof -
  have "call_ok L (cl_lines s) (cl_calls s c) (cl_chans s c) (listed s c) (Some r)"
    using calls_okD [of L s c] I rd by (simp add: client_inv_def arriving_def)
  then show o: "cl_chans s c = open_chan" and "\<exists>i. id_of (cl_calls s c) = Some i \<and> answers L (cl_lines s) i r \<and> listed s c = {}"
    by (cases "cl_calls s c"; simp add: flight_def came_def)+
  show "read_deliver c r s = Some (s\<lparr>cl_chans := (cl_chans s)(c := open_chan\<lparr>ch_buf := Some r\<rparr>), cl_reader := Reading\<rparr>)"
    by (simp add: read_deliver_def o)
qed

lemma deliver_inv:
  assumes I: "client_inv L s" and rd: "cl_reader s = Delivering c r" and s': "read_deliver c r s = Some s'"
  shows "client_inv L s'"
proof -
  have e: "s' = s\<lparr>cl_chans := (cl_chans s)(c := open_chan\<lparr>ch_buf := Some r\<rparr>), cl_reader := Reading\<rparr>" (is "_ = ?t")
    using s' deliver_possible(3) [OF I rd] by simp
  obtain i where i: "id_of (cl_calls s c) = Some i" "answers L (cl_lines s) i r" "listed s c = {}" using deliver_possible(2) [OF I rd] by blast
  have "call_ok L (cl_lines s) (cl_calls s c) (cl_chans s c) (listed s c) (arriving s c)" using I by (simp add: client_inv_def calls_ok_def)
  then have "call_ok L (cl_lines s) (cl_calls s c) (open_chan\<lparr>ch_buf := Some r\<rparr>) {} None"
    using i rd by (cases "cl_calls s c") (simp_all add: flight_def came_def open_chan_def arriving_def split: sum.splits)
  then have "call_ok L (cl_lines ?t) (cl_calls ?t c) (cl_chans ?t c) (listed ?t c) (arriving ?t c)"
    using i by (simp add: listed_def arriving_def)
  then have "calls_ok L ?t"
    using I rd by (intro calls_ok_update [of L s c ?t "[]"]) (simp_all add: client_inv_def listed_def arriving_def)
  moreover have "ids_ok ?t" "table_ok ?t" using I rd by (simp_all add: client_inv_def ids_ok_def table_ok_def)
  ultimately show ?thesis unfolding e by (simp add: client_inv_def)
qed

lemma eof_inv:
  assumes I: "client_inv L s" and rd: "cl_reader s = Reading"
  shows "client_inv L (read_end s)"
proof -
  have "call_ok L (cl_lines s) (cl_calls s c) (cl_chans (read_end s) c) {} None" for c
  proof -
    have ok: "call_ok L (cl_lines s) (cl_calls s c) (cl_chans s c) (listed s c) None"
      using calls_okD [of L s c] I rd by (simp add: client_inv_def arriving_def)
    show ?thesis
    proof (cases "c \<in> snd ` set (cl_pending s)")
      case True
      then obtain i where m: "(i, c) \<in> set (cl_pending s)" by auto
      show ?thesis using listed_owner [OF I m] True
        by (simp add: read_end_def call_ok_flight flight_def came_def open_chan_def)
    next
      case False
      then have "listed s c = {}" "cl_chans (read_end s) c = cl_chans s c" by (auto simp: listed_def read_end_def image_iff)
      then show ?thesis using ok by simp
    qed
  qed
  then have "calls_ok L (read_end s)" by (simp add: calls_ok_def read_end_def listed_def arriving_def)
  moreover have "ids_ok (read_end s)" "table_ok (read_end s)"
    using I rd by (simp_all add: client_inv_def ids_ok_def table_ok_def read_end_def)
  ultimately show ?thesis by (simp add: client_inv_def)
qed

lemma close_inv:
  assumes I: "client_inv L s" and rd: "cl_reader s = Ending"
  shows "client_inv L (close_done s)"
proof -
  have "listed (close_done s) = listed s" "arriving (close_done s) = arriving s"
    using rd by (simp_all add: listed_def arriving_def close_done_def fun_eq_iff)
  then have "calls_ok L (close_done s)" using I by (simp add: client_inv_def calls_ok_def close_done_def)
  moreover have "ids_ok (close_done s)" "table_ok (close_done s)"
    using I rd by (simp_all add: client_inv_def ids_ok_def table_ok_def close_done_def)
  ultimately show ?thesis by (simp add: client_inv_def)
qed

lemma client_step_inv:
  assumes "client_step L s s'" "client_inv L s"
  shows "client_inv L s'"
  using assms
proof (cases rule: client_step.cases)
  case (unwritten c i e)
  then show ?thesis using leave_inv [OF assms(2), of c i] by simp
next
  case (leave c i e)
  then show ?thesis using leave_inv [OF assms(2), of c i] by simp
next
  case (start c m params)
  then show ?thesis using start_inv [OF assms(2)] by simp
next
  case (register c i b)
  then show ?thesis using register_inv [OF assms(2)] by simp
next
  case (wrote c i b err)
  then show ?thesis using write_inv [OF assms(2)] by simp
next
  case (receive c i)
  then show ?thesis using receive_inv [OF assms(2)] by simp
next
  case (cancel c i e t)
  then show ?thesis using cancel_inv [OF assms(2)] by simp
next
  case (ended c i)
  then show ?thesis using ended_inv [OF assms(2)] by simp
next
  case (line line)
  then show ?thesis using line_inv [OF assms(2)] by simp
next
  case (deliver c r)
  then show ?thesis using deliver_inv [OF assms(2)] by simp
next
  case eof
  then show ?thesis using eof_inv [OF assms(2)] by simp
next
  case close
  then show ?thesis using close_inv [OF assms(2)] by simp
qed

lemma client_reaches_inv: "(client_step L)\<^sup>*\<^sup>* newClient s \<Longrightarrow> client_inv L s"
  by (induction rule: rtranclp_induct) (auto intro: client_inv_start client_step_inv)


section \<open>What the callers get\<close>

text \<open>
  C33: Whatever the order in which the goroutines run and whatever the server writes, a call
  that returns a response returns one the server sent with the id of that call, and no two
  calls have the same id.
\<close>

theorem responses_match:
  assumes "(client_step L)\<^sup>*\<^sup>* newClient s" "cl_calls s c = Returned i res"
  shows "(\<forall>r. res = Inr r \<longrightarrow> answers L (cl_lines s) i r) \<and> (\<forall>c'. id_of (cl_calls s c') = Some i \<longrightarrow> c' = c)"
proof -
  have I: "client_inv L s" using assms(1) by (rule client_reaches_inv)
  have "call_ok L (cl_lines s) (cl_calls s c) (cl_chans s c) (listed s c) (arriving s c)"
    using I by (simp add: client_inv_def calls_ok_def)
  then have "\<forall>r. res = Inr r \<longrightarrow> answers L (cl_lines s) i r" using assms(2) by auto
  moreover have "id_of (cl_calls s c) = Some i" using assms(2) by simp
  then have "\<forall>c'. id_of (cl_calls s c') = Some i \<longrightarrow> c' = c" using I unfolding client_inv_def ids_ok_def by blast
  ultimately show ?thesis by blast
qed

definition sample_rpc :: rpc_lib where
  "sample_rpc = \<lparr>jl_response = (\<lambda>line. if line = ''pong'' then Some \<lparr>rp_id = ''1'', rp_result = ''{}'', rp_error = None\<rparr> else None),
     jl_id = (\<lambda>raw. if raw = ''1'' then Some 1 else None), jl_request = (\<lambda>i method params. method),
     jl_tools = (\<lambda>raw. Inr []), jl_call_params = (\<lambda>name args. Inr args), jl_error = (\<lambda>m code. m), jl_initialize = ''{}''\<rparr>"

definition pong :: rpc_response where
  "pong = \<lparr>rp_id = ''1'', rp_result = ''{}'', rp_error = None\<rparr>"

text \<open>One call up to the response in its channel.\<close>

definition asked :: client where
  "asked = send_write 0 1 (''ping'' @ [CHR 0x0A]) None (send_register 0 1 (''ping'' @ [CHR 0x0A]) (send_start sample_rpc 0 ''ping'' (Inr None) newClient))"

definition answered :: client where
  "answered = the (read_deliver 0 pong (read_line sample_rpc ''pong'' asked))"

lemma asked_reachable: "(client_step sample_rpc)\<^sup>*\<^sup>* newClient asked"
proof -
  let ?s1 = "send_start sample_rpc 0 ''ping'' (Inr None) newClient"
  let ?s2 = "send_register 0 1 (''ping'' @ [CHR 0x0A]) ?s1"
  have "client_step sample_rpc newClient ?s1" by (rule client_step.start) (simp add: newClient_def)
  moreover have "client_step sample_rpc ?s1 ?s2"
    by (rule client_step.register) (simp add: send_start_def call_at_def Let_def newClient_def sample_rpc_def)
  moreover have "client_step sample_rpc ?s2 asked" unfolding asked_def
    by (rule client_step.wrote) (simp add: send_register_def send_start_def call_at_def Let_def newClient_def)
  ultimately show ?thesis by (meson rtranclp.rtrancl_refl rtranclp.rtrancl_into_rtrancl)
qed

lemmas sample_run_defs = asked_def send_write_def send_register_def send_start_def call_at_def Let_def newClient_def

lemma asked_simps [simp]: "cl_reader asked = Reading" "cl_calls asked 0 = Waiting 1" "cl_chans asked 0 = open_chan"
  "map_of (cl_pending asked) 1 = Some 0"
  by (simp_all add: sample_run_defs)

lemma pong_line [simp]: "read_line sample_rpc ''pong'' asked =
    asked\<lparr>cl_lines := cl_lines asked @ [''pong''], cl_pending := drop_id 1 (cl_pending asked), cl_reader := Delivering 0 pong\<rparr>"
  by (simp add: read_line_def sample_rpc_def pong_def)

lemma answered_reachable: "(client_step sample_rpc)\<^sup>*\<^sup>* newClient answered"
proof -
  have "client_step sample_rpc asked (read_line sample_rpc ''pong'' asked)" by (rule client_step.line) simp
  moreover have "client_step sample_rpc (read_line sample_rpc ''pong'' asked) answered"
    by (rule client_step.deliver [of _ 0 pong]) (simp_all add: answered_def read_deliver_def)
  ultimately show ?thesis using asked_reachable by (meson rtranclp.rtrancl_into_rtrancl)
qed

lemma answered_simps [simp]: "cl_reader answered = Reading" "cl_calls answered 0 = Waiting 1"
  "cl_chans answered 0 = open_chan\<lparr>ch_buf := Some pong\<rparr>" "cl_lines answered = cl_lines asked @ [''pong'']"
  by (simp_all add: answered_def read_deliver_def)

theorem responses_match_witness:
  "\<exists>s. (client_step sample_rpc)\<^sup>*\<^sup>* newClient s \<and> cl_calls s 0 = Returned 1 (Inr pong) \<and> answers sample_rpc (cl_lines s) 1 pong"
proof -
  let ?s = "the (send_receive 0 1 answered)"
  have r: "send_receive 0 1 answered = Some ?s" by (simp add: send_receive_def)
  have "(client_step sample_rpc)\<^sup>*\<^sup>* newClient ?s"
    using answered_reachable client_step.receive [OF _ r] by (meson answered_simps(2) rtranclp.rtrancl_into_rtrancl)
  moreover have c: "cl_calls ?s 0 = Returned 1 (Inr pong)" by (simp add: send_receive_def call_at_def)
  ultimately show ?thesis using responses_match [of sample_rpc ?s 0 1 "Inr pong"] by blast
qed

text \<open>
  A call that waits is found by the reader: the next response with its id goes to it, and the
  delivery neither blocks nor panics.
\<close>

theorem answered_call_returns:
  assumes "(client_step L)\<^sup>*\<^sup>* newClient s" "cl_reader s = Reading" "cl_calls s c = Waiting i" "cl_chans s c = open_chan"
    and "jl_response L line = Some r" "jl_id L (rp_id r) = Some i"
  shows "\<exists>s1 s2. read_deliver c r (read_line L line s) = Some s1 \<and> send_receive c i s1 = Some s2 \<and> cl_calls s2 c = Returned i (Inr r)"
proof -
  have I: "client_inv L s" using assms(1) by (rule client_reaches_inv)
  have "flight L (cl_lines s) i (cl_chans s c) (listed s c) (arriving s c)"
    using calls_okD [of L s c] I assms(3) by (simp add: client_inv_def)
  then have "(i, c) \<in> set (cl_pending s)" using assms(2,4) by (auto simp: flight_def arriving_def listed_def)
  then have "map_of (cl_pending s) i = Some c" using I by (simp add: client_inv_def table_ok_def)
  then have l: "read_line L line s = s\<lparr>cl_lines := cl_lines s @ [line], cl_pending := drop_id i (cl_pending s), cl_reader := Delivering c r\<rparr>"
    using assms(5,6) by (simp add: read_line_def)
  show ?thesis using assms(3,4) by (simp add: l read_deliver_def send_receive_def call_at_def)
qed

theorem answered_call_returns_witness:
  "\<exists>s1 s2. read_deliver 0 pong (read_line sample_rpc ''pong'' asked) = Some s1 \<and> send_receive 0 1 s1 = Some s2 \<and> cl_calls s2 0 = Returned 1 (Inr pong)"
  by (rule answered_call_returns [OF asked_reachable]) (simp_all add: sample_rpc_def pong_def)

text \<open>
  When the stream has ended, no call waits for ever: its own channel is ready, closed or with
  its response, so the case of \<open>send\<close> on the end of the stream is never the only one.
\<close>

lemma ended_calls_ready:
  assumes "(client_step L)\<^sup>*\<^sup>* newClient s" "cl_closed s" "cl_calls s c = Waiting i"
  shows "\<exists>s'. send_receive c i s = Some s'"
proof -
  have I: "client_inv L s" using assms(1) by (rule client_reaches_inv)
  then have e: "listed s c = {}" "arriving s c = None" using assms(2)
    by (auto simp: client_inv_def table_ok_def listed_def arriving_def split: reader_pc.splits)
  have "flight L (cl_lines s) i (cl_chans s c) (listed s c) (arriving s c)"
    using calls_okD [of L s c] I assms(3) by (simp add: client_inv_def)
  then have "cl_chans s c \<noteq> open_chan" using e by (auto simp: flight_def)
  then show ?thesis by (cases "cl_chans s c") (auto simp: send_receive_def open_chan_def split: option.splits)
qed

text \<open>
  The case on the end of the stream competes with the response: a server that answers a
  call and exits can have its answer dropped. A state is reachable in which the response is in
  the channel of the waiting call and the call may still return that the stream has ended.
\<close>

theorem late_answer_dropped:
  "\<exists>s. (client_step sample_rpc)\<^sup>*\<^sup>* newClient s \<and> cl_calls s 0 = Waiting 1 \<and> ch_buf (cl_chans s 0) = Some pong \<and>
     client_step sample_rpc s (call_at 0 (Returned 1 (Inl (CallFailed ''mcp client stream ended''))) s)"
proof -
  let ?e = "read_end answered" and ?s = "close_done (read_end answered)"
  have "client_step sample_rpc answered ?e" by (rule client_step.eof) simp
  moreover have "client_step sample_rpc ?e ?s" by (rule client_step.close) (simp add: read_end_def)
  ultimately have "(client_step sample_rpc)\<^sup>*\<^sup>* newClient ?s" using answered_reachable by (meson rtranclp.rtrancl_into_rtrancl)
  moreover have "cl_calls ?s 0 = Waiting 1" "ch_buf (cl_chans ?s 0) = Some pong" by (simp_all add: close_done_def read_end_def)
  moreover have "client_step sample_rpc ?s (call_at 0 (Returned 1 (Inl (CallFailed ''mcp client stream ended''))) ?s)"
    by (rule client_step.ended) (simp_all add: close_done_def read_end_def)
  ultimately show ?thesis by blast
qed

text \<open>The process is asked, then told, then killed; it is killed only after the grace period.\<close>

lemma process_shutdown_escalates:
  "SIGKILL \<in> set (snd (process_shutdown exits)) \<longleftrightarrow>
     exits [CloseStdin] 200 = None \<and> exits [CloseStdin, SIGTERM] shutdownGracePeriod = None"
  by (simp add: process_shutdown_def split: option.split)

end
