(* ===== verification/Llm_Clients.thy ===== *)
theory Llm_Clients
  imports Llm Go_Text
begin

text \<open>
  The clients of the model services (internal/llm/openai.go, anthropic.go, azurefoundry.go,
  copilot.go): how a conversation becomes a request, and how the events of the answer's stream
  become text, tool calls and token counts. The SDKs are parameters: they answer a request with
  the events of the stream and the error it ended with, if any.
\<close>

section \<open>OpenAI and services with its interface\<close>

datatype oa_message = OaSystem string | OaUser string | OaAssistant string "tool_use list" | OaTool string string

record oa_request =
  oq_base_url :: string
  oq_headers :: "(string \<times> string) list"
  oq_api_key :: string
  oq_model :: string
  oq_messages :: "oa_message list"
  oq_max_tokens :: "int option"
  oq_tools :: "(string \<times> string \<times> string) list"

record oa_call_delta =
  od_index :: int
  od_id :: string
  od_name :: string
  od_arguments :: string

record oa_choice =
  oc_content :: string
  oc_tool_calls :: "oa_call_delta list"
  oc_finish_reason :: string

record oa_event =
  oe_choices :: "oa_choice list"
  oe_prompt_tokens :: int
  oe_completion_tokens :: int

text \<open>An error of the service has a status, the raw JSON of its body and a dump of the response.\<close>

datatype sdk_err = ApiError int string string string | SdkError string

text \<open>The requests are numbered like the calls of a run.\<close>

record openai_sdk =
  os_stream :: "nat \<Rightarrow> oa_request \<Rightarrow> oa_event list \<times> sdk_err option"
  os_schema_err :: "string \<Rightarrow> string option"

definition sdk_err_text :: "sdk_err \<Rightarrow> string" where
  "sdk_err_text e = (case e of ApiError code raw dump t \<Rightarrow> t | SdkError t \<Rightarrow> t)"

definition chatErr :: "string \<Rightarrow> sdk_err \<Rightarrow> string" where
  "chatErr what err = (case err of
       ApiError code raw dump t \<Rightarrow>
         (let body = (if raw \<noteq> [] then raw else if dump \<noteq> [] then dump else ''(empty body)'') in
          what @ '': status='' @ itoa code @ '' body='' @ body @ '': '' @ t)
     | SdkError t \<Rightarrow> what @ '': '' @ t)"

text \<open>The provider without tools sends the system and user messages only.\<close>

definition oa_plain :: "message \<Rightarrow> oa_message list" where
  "oa_plain m = (case mg_role m of RoleSystem \<Rightarrow> [OaSystem (mg_content m)] | RoleUser \<Rightarrow> [OaUser (mg_content m)] | _ \<Rightarrow> [])"

definition oa_convert :: "message \<Rightarrow> oa_message" where
  "oa_convert m = (case mg_role m of
       RoleSystem \<Rightarrow> OaSystem (mg_content m)
     | RoleUser \<Rightarrow> OaUser (mg_content m)
     | RoleAssistant \<Rightarrow> OaAssistant (mg_content m) (mg_tool_uses m)
     | RoleTool \<Rightarrow> OaTool (mg_content m) (mg_tool_use_id m))"

definition token_limit :: "int \<Rightarrow> int option" where
  "token_limit n = (if 0 < n then Some n else None)"

definition event_usage :: "oa_event \<Rightarrow> usage \<Rightarrow> usage" where
  "event_usage e u = (if 0 < oe_prompt_tokens e \<or> 0 < oe_completion_tokens e
     then \<lparr>ug_input_tokens = oe_prompt_tokens e, ug_output_tokens = oe_completion_tokens e\<rparr> else u)"

definition event_delta :: "oa_event \<Rightarrow> string list" where
  "event_delta e = (case oe_choices e of [] \<Rightarrow> [] | ch # _ \<Rightarrow> if oc_content ch \<noteq> [] then [oc_content ch] else [])"

definition no_usage :: usage where
  "no_usage = \<lparr>ug_input_tokens = 0, ug_output_tokens = 0\<rparr>"

text \<open>The chunks streamed and the usage, or the error after them.\<close>

definition openai_Chat :: "openai_sdk \<Rightarrow> string \<Rightarrow> (string \<times> string) list \<Rightarrow> nat \<Rightarrow> message list \<Rightarrow> call_options \<Rightarrow> string list \<times> (string + usage)" where
  "openai_Chat K base headers n messages opts =
     (case os_stream K n \<lparr>oq_base_url = base, oq_headers = headers, oq_api_key = co_api_key opts, oq_model = co_model opts,
         oq_messages = concat (map oa_plain messages), oq_max_tokens = token_limit (co_max_tokens opts), oq_tools = []\<rparr> of
       (events, err) \<Rightarrow> (concat (map event_delta events),
         case err of Some e \<Rightarrow> Inl (chatErr ''openai chat'' e) | None \<Rightarrow> Inr (fold event_usage events no_usage)))"

subsection \<open>A turn with tools\<close>

definition empty_schema :: string where
  "empty_schema = ''{'' @ [CHR 0x22] @ ''type'' @ [CHR 0x22] @ '':'' @ [CHR 0x22] @ ''object'' @ [CHR 0x22] @ '','' @
     [CHR 0x22] @ ''properties'' @ [CHR 0x22] @ '':{}}''"

fun oa_tools :: "openai_sdk \<Rightarrow> tool_def list \<Rightarrow> string + (string \<times> string \<times> string) list" where
  "oa_tools K [] = Inr []"
| "oa_tools K (t # ts) = (let schema = (if td_input_schema t = [] then empty_schema else td_input_schema t) in
     case os_schema_err K schema of
       Some e \<Rightarrow> Inl (''openai: unmarshal tool schema '' @ quoted (td_name t) @ '': '' @ e)
     | None \<Rightarrow> (case oa_tools K ts of Inl e \<Rightarrow> Inl e | Inr rest \<Rightarrow> Inr ((td_name t, td_description t, schema) # rest)))"

text \<open>The calls of the turn by their index, each filled piece by piece.\<close>

type_synonym tool_accum = "int \<Rightarrow> tool_use option"

definition no_tool_use :: tool_use where
  "no_tool_use = \<lparr>tu_id = [], tu_name = [], tu_input = []\<rparr>"

definition add_call_delta :: "oa_call_delta \<Rightarrow> tool_accum \<Rightarrow> tool_accum" where
  "add_call_delta d acc = (let t = (case acc (od_index d) of None \<Rightarrow> no_tool_use | Some t \<Rightarrow> t) in
     acc(od_index d \<mapsto> \<lparr>tu_id = (if od_id d \<noteq> [] then od_id d else tu_id t),
       tu_name = (if od_name d \<noteq> [] then od_name d else tu_name t), tu_input = tu_input t @ od_arguments d\<rparr>))"

record oa_state =
  oz_chunks :: "string list"
  oz_text :: string
  oz_calls :: tool_accum
  oz_stop_reason :: string
  oz_usage :: usage

definition oa_start :: oa_state where
  "oa_start = \<lparr>oz_chunks = [], oz_text = [], oz_calls = Map.empty, oz_stop_reason = [], oz_usage = no_usage\<rparr>"

definition oa_event_step :: "oa_event \<Rightarrow> oa_state \<Rightarrow> oa_state" where
  "oa_event_step e st = (case oe_choices e of
       [] \<Rightarrow> st\<lparr>oz_usage := event_usage e (oz_usage st)\<rparr>
     | ch # _ \<Rightarrow> st\<lparr>oz_chunks := oz_chunks st @ event_delta e, oz_text := oz_text st @ oc_content ch,
         oz_calls := fold add_call_delta (oc_tool_calls ch) (oz_calls st),
         oz_stop_reason := (if oc_finish_reason ch \<noteq> [] then oc_finish_reason ch else oz_stop_reason st),
         oz_usage := event_usage e (oz_usage st)\<rparr>)"

text \<open>
  The calls are collected from index 0 to the first index without one. The domain is finite and
  \<open>n\<close> bounds its size, so the loop ends by itself.
\<close>

fun collect_calls :: "nat \<Rightarrow> int \<Rightarrow> tool_accum \<Rightarrow> tool_use list" where
  "collect_calls 0 i acc = []"
| "collect_calls (Suc n) i acc = (case acc i of None \<Rightarrow> [] | Some t \<Rightarrow> t # collect_calls n (i + 1) acc)"

definition call_deltas :: "oa_event list \<Rightarrow> oa_call_delta list" where
  "call_deltas events = concat (map (\<lambda>e. case oe_choices e of [] \<Rightarrow> [] | ch # _ \<Rightarrow> oc_tool_calls ch) events)"

definition openai_ChatTurn ::
  "openai_sdk \<Rightarrow> string \<Rightarrow> (string \<times> string) list \<Rightarrow> nat \<Rightarrow> message list \<Rightarrow> tool_def list \<Rightarrow> call_options \<Rightarrow> string list \<times> (string + turn_result)" where
  "openai_ChatTurn K base headers n messages tools opts = (case oa_tools K tools of
       Inl e \<Rightarrow> ([], Inl e)
     | Inr apiTools \<Rightarrow>
       (case os_stream K n \<lparr>oq_base_url = base, oq_headers = headers, oq_api_key = co_api_key opts, oq_model = co_model opts,
           oq_messages = map oa_convert messages, oq_max_tokens = token_limit (co_max_tokens opts), oq_tools = apiTools\<rparr> of
         (events, err) \<Rightarrow> let st = fold oa_event_step events oa_start in
           (oz_chunks st, case err of
              Some e \<Rightarrow> Inl (chatErr ''openai chat_turn'' e)
            | None \<Rightarrow> Inr \<lparr>tr_text = oz_text st,
                tr_tool_uses = collect_calls (Suc (length (call_deltas events))) 0 (oz_calls st),
                tr_usage = oz_usage st, tr_stop_reason = oz_stop_reason st\<rparr>)))"

definition NewOpenAI :: "openai_sdk \<Rightarrow> string \<Rightarrow> provider" where
  "NewOpenAI K base = \<lparr>pv_chat = openai_Chat K base [],
     pv_chat_turn = Some (\<lambda>n messages tools opts. snd (openai_ChatTurn K base [] n messages tools opts))\<rparr>"

section \<open>Copilot\<close>

definition copilotBaseURL :: string where
  "copilotBaseURL = ''https://api.githubcopilot.com''"

definition copilot_headers :: "(string \<times> string) list" where
  "copilot_headers = [(''Editor-Version'', ''vscode/1.85.1''), (''Editor-Plugin-Version'', ''copilot-chat/0.12.0''),
     (''Copilot-Integration-Id'', ''vscode-chat'')]"

definition NewCopilotEnterprise :: "openai_sdk \<Rightarrow> provider" where
  "NewCopilotEnterprise K = \<lparr>pv_chat = openai_Chat K copilotBaseURL copilot_headers,
     pv_chat_turn = Some (\<lambda>n messages tools opts. snd (openai_ChatTurn K copilotBaseURL copilot_headers n messages tools opts))\<rparr>"

section \<open>Azure AI Foundry\<close>

definition defaultAzureAPIVersion :: string where
  "defaultAzureAPIVersion = ''2024-08-01-preview''"

text \<open>The deployment is passed as the model and the model of the options is not used.\<close>

definition azure_Chat :: "(string \<Rightarrow> openai_sdk) \<Rightarrow> nat \<Rightarrow> message list \<Rightarrow> call_options \<Rightarrow> string list \<times> (string + usage)" where
  "azure_Chat K n messages opts =
     (if co_endpoint opts = [] then ([], Inl ''azure-foundry: endpoint required'')
      else if co_deployment opts = [] then ([], Inl ''azure-foundry: deployment required'')
      else case os_stream (K defaultAzureAPIVersion) n \<lparr>oq_base_url = co_endpoint opts, oq_headers = [], oq_api_key = co_api_key opts,
          oq_model = co_deployment opts, oq_messages = concat (map oa_plain messages),
          oq_max_tokens = token_limit (co_max_tokens opts), oq_tools = []\<rparr> of
        (events, err) \<Rightarrow> (concat (map event_delta events),
          case err of Some e \<Rightarrow> Inl (''azure-foundry chat: '' @ sdk_err_text e) | None \<Rightarrow> Inr (fold event_usage events no_usage)))"

definition NewAzureFoundry :: "(string \<Rightarrow> openai_sdk) \<Rightarrow> provider" where
  "NewAzureFoundry K = \<lparr>pv_chat = azure_Chat K, pv_chat_turn = None\<rparr>"

section \<open>Anthropic\<close>

datatype an_block = AnText string | AnToolUse string string string | AnToolResult string string

datatype an_message = AnUser "an_block list" | AnAssistant "an_block list"

record an_request =
  aq_base_url :: string
  aq_api_key :: string
  aq_model :: string
  aq_max_tokens :: int
  aq_system :: string
  aq_messages :: "an_message list"
  aq_tools :: "(string \<times> string \<times> string) list"

text \<open>The events the client looks at; blocks and deltas of other kinds are the last constructor of theirs.\<close>

datatype an_block_start = ToolUseBlock string string | OtherBlock
datatype an_delta = TextDelta string | InputJSONDelta string | OtherDelta
datatype an_event = MessageStart int
  | ContentBlockStart an_block_start
  | ContentBlockDelta an_delta
  | ContentBlockStop
  | MessageDelta int string
  | OtherEvent

record anthropic_sdk =
  as_stream :: "nat \<Rightarrow> an_request \<Rightarrow> an_event list \<times> sdk_err option"
  as_schema_err :: "string \<Rightarrow> string option"

definition add_system :: "message list \<Rightarrow> string" where
  "add_system messages = fold (\<lambda>m system. if mg_role m = RoleSystem
     then (if system \<noteq> [] then system @ [CHR 0x0A, CHR 0x0A] else system) @ mg_content m else system) messages []"

definition an_plain :: "message \<Rightarrow> an_message list" where
  "an_plain m = (case mg_role m of RoleUser \<Rightarrow> [AnUser [AnText (mg_content m)]] | _ \<Rightarrow> [])"

definition an_convert :: "message \<Rightarrow> an_message list" where
  "an_convert m = (case mg_role m of
       RoleSystem \<Rightarrow> []
     | RoleUser \<Rightarrow> [AnUser [AnText (mg_content m)]]
     | RoleAssistant \<Rightarrow> [AnAssistant ((if mg_content m \<noteq> [] then [AnText (mg_content m)] else []) @
         map (\<lambda>tu. AnToolUse (tu_id tu) (tu_input tu) (tu_name tu)) (mg_tool_uses m))]
     | RoleTool \<Rightarrow> [AnUser [AnToolResult (mg_tool_use_id m) (mg_content m)]])"

definition an_usage :: "an_event \<Rightarrow> usage \<Rightarrow> usage" where
  "an_usage e u = (case e of
       MessageStart n \<Rightarrow> if 0 < n then u\<lparr>ug_input_tokens := n\<rparr> else u
     | MessageDelta n stop \<Rightarrow> if 0 < n then u\<lparr>ug_output_tokens := n\<rparr> else u
     | _ \<Rightarrow> u)"

definition an_text :: "an_event \<Rightarrow> string list" where
  "an_text e = (case e of ContentBlockDelta (TextDelta t) \<Rightarrow> if t \<noteq> [] then [t] else [] | _ \<Rightarrow> [])"

definition anthropic_Chat :: "anthropic_sdk \<Rightarrow> string \<Rightarrow> nat \<Rightarrow> message list \<Rightarrow> call_options \<Rightarrow> string list \<times> (string + usage)" where
  "anthropic_Chat K base n messages opts =
     (case as_stream K n \<lparr>aq_base_url = base, aq_api_key = co_api_key opts, aq_model = co_model opts,
         aq_max_tokens = (if co_max_tokens opts \<le> 0 then 1024 else co_max_tokens opts), aq_system = add_system messages,
         aq_messages = concat (map an_plain messages), aq_tools = []\<rparr> of
       (events, err) \<Rightarrow> (concat (map an_text events),
         case err of Some e \<Rightarrow> Inl (''anthropic chat: '' @ sdk_err_text e) | None \<Rightarrow> Inr (fold an_usage events no_usage)))"

definition an_empty_schema :: string where
  "an_empty_schema = butlast empty_schema @ '','' @ [CHR 0x22] @ ''required'' @ [CHR 0x22] @ '':[]}''"

fun an_tools :: "anthropic_sdk \<Rightarrow> tool_def list \<Rightarrow> string + (string \<times> string \<times> string) list" where
  "an_tools K [] = Inr []"
| "an_tools K (t # ts) = (let schema = (if td_input_schema t = [] then an_empty_schema else td_input_schema t) in
     case as_schema_err K schema of
       Some e \<Rightarrow> Inl (''anthropic: unmarshal tool schema '' @ quoted (td_name t) @ '': '' @ e)
     | None \<Rightarrow> (case an_tools K ts of Inl e \<Rightarrow> Inl e | Inr rest \<Rightarrow> Inr ((td_name t, td_description t, schema) # rest)))"

record an_state =
  az_chunks :: "string list"
  az_text :: string
  az_tool_uses :: "tool_use list"
  az_cur_id :: string
  az_cur_name :: string
  az_cur_input :: string
  az_usage :: usage
  az_stop_reason :: string

definition an_start :: an_state where
  "an_start = \<lparr>az_chunks = [], az_text = [], az_tool_uses = [], az_cur_id = [], az_cur_name = [], az_cur_input = [],
     az_usage = no_usage, az_stop_reason = []\<rparr>"

definition flushToolUse :: "an_state \<Rightarrow> an_state" where
  "flushToolUse st = (if az_cur_id st = [] then st
     else st\<lparr>az_tool_uses := az_tool_uses st @ [\<lparr>tu_id = az_cur_id st, tu_name = az_cur_name st, tu_input = az_cur_input st\<rparr>],
       az_cur_id := [], az_cur_name := [], az_cur_input := []\<rparr>)"

definition an_event_step :: "an_event \<Rightarrow> an_state \<Rightarrow> an_state" where
  "an_event_step e st = (case e of
       MessageStart n \<Rightarrow> st\<lparr>az_usage := an_usage e (az_usage st)\<rparr>
     | ContentBlockStart b \<Rightarrow> (case b of
           ToolUseBlock i name \<Rightarrow> (flushToolUse st)\<lparr>az_cur_id := i, az_cur_name := name, az_cur_input := []\<rparr>
         | OtherBlock \<Rightarrow> flushToolUse st)
     | ContentBlockDelta d \<Rightarrow> (case d of
           TextDelta t \<Rightarrow> st\<lparr>az_chunks := az_chunks st @ an_text e, az_text := az_text st @ t\<rparr>
         | InputJSONDelta j \<Rightarrow> st\<lparr>az_cur_input := az_cur_input st @ j\<rparr>
         | OtherDelta \<Rightarrow> st)
     | ContentBlockStop \<Rightarrow> flushToolUse st
     | MessageDelta n stop \<Rightarrow> st\<lparr>az_usage := an_usage e (az_usage st),
         az_stop_reason := (if stop \<noteq> [] then stop else az_stop_reason st)\<rparr>
     | OtherEvent \<Rightarrow> st)"

definition anthropic_ChatTurn ::
  "anthropic_sdk \<Rightarrow> string \<Rightarrow> nat \<Rightarrow> message list \<Rightarrow> tool_def list \<Rightarrow> call_options \<Rightarrow> string list \<times> (string + turn_result)" where
  "anthropic_ChatTurn K base n messages tools opts = (case an_tools K tools of
       Inl e \<Rightarrow> ([], Inl e)
     | Inr apiTools \<Rightarrow>
       (case as_stream K n \<lparr>aq_base_url = base, aq_api_key = co_api_key opts, aq_model = co_model opts,
           aq_max_tokens = (if co_max_tokens opts \<le> 0 then 4096 else co_max_tokens opts), aq_system = add_system messages,
           aq_messages = concat (map an_convert messages), aq_tools = apiTools\<rparr> of
         (events, err) \<Rightarrow> let st = fold an_event_step events an_start in
           (az_chunks st, case err of
              Some e \<Rightarrow> Inl (''anthropic chat_turn: '' @ sdk_err_text e)
            | None \<Rightarrow> Inr \<lparr>tr_text = az_text st, tr_tool_uses = az_tool_uses (flushToolUse st),
                tr_usage = az_usage st, tr_stop_reason = az_stop_reason st\<rparr>)))"

definition NewAnthropic :: "anthropic_sdk \<Rightarrow> string \<Rightarrow> provider" where
  "NewAnthropic K base = \<lparr>pv_chat = anthropic_Chat K base,
     pv_chat_turn = Some (\<lambda>n messages tools opts. snd (anthropic_ChatTurn K base n messages tools opts))\<rparr>"

section \<open>The providers of the factory\<close>

definition model_services :: "openai_sdk \<Rightarrow> anthropic_sdk \<Rightarrow> (string \<Rightarrow> openai_sdk) \<Rightarrow> provider_lib" where
  "model_services KO KA KZ = \<lparr>pl_openai = NewOpenAI KO, pl_anthropic = NewAnthropic KA, pl_azure_foundry = NewAzureFoundry KZ,
     pl_copilot_enterprise = NewCopilotEnterprise KO\<rparr>"

section \<open>The streams folded\<close>

lemma oa_fold:
  "oz_chunks (fold oa_event_step events st) = oz_chunks st @ concat (map event_delta events)"
  "oz_text (fold oa_event_step events st) = oz_text st @ concat (concat (map event_delta events))"
  "oz_calls (fold oa_event_step events st) = fold add_call_delta (call_deltas events) (oz_calls st)"
  "oz_usage (fold oa_event_step events st) = fold event_usage events (oz_usage st)"
  by (induction events arbitrary: st)
    (auto simp: oa_event_step_def event_delta_def call_deltas_def split: list.split)

text \<open>The pieces of the call with a given index, put together.\<close>

definition last_given :: "string list \<Rightarrow> string" where
  "last_given xs = (case rev (filter (\<lambda>x. x \<noteq> []) xs) of [] \<Rightarrow> [] | x # _ \<Rightarrow> x)"

definition merged :: "int \<Rightarrow> oa_call_delta list \<Rightarrow> tool_use" where
  "merged i ds = (let own = filter (\<lambda>d. od_index d = i) ds in
     \<lparr>tu_id = last_given (map od_id own), tu_name = last_given (map od_name own), tu_input = concat (map od_arguments own)\<rparr>)"

lemma last_given_snoc: "last_given (xs @ [x]) = (if x \<noteq> [] then x else last_given xs)"
  by (simp add: last_given_def)

lemma merged_snoc: "merged i (ds @ [d]) = (if od_index d \<noteq> i then merged i ds
    else \<lparr>tu_id = (if od_id d \<noteq> [] then od_id d else tu_id (merged i ds)),
      tu_name = (if od_name d \<noteq> [] then od_name d else tu_name (merged i ds)), tu_input = tu_input (merged i ds) @ od_arguments d\<rparr>)"
  by (simp add: merged_def Let_def last_given_snoc)

lemma merged_none: "i \<notin> od_index ` set ds \<Longrightarrow> merged i ds = no_tool_use"
proof -
  assume "i \<notin> od_index ` set ds"
  then have "filter (\<lambda>d. od_index d = i) ds = []" by (auto simp: filter_empty_conv)
  then show ?thesis by (simp add: merged_def no_tool_use_def last_given_def)
qed

lemma add_deltas: "fold add_call_delta ds Map.empty = (\<lambda>i. if i \<in> od_index ` set ds then Some (merged i ds) else None)"
proof (induction ds rule: rev_induct)
  case (snoc d ds)
  have "(case (if od_index d \<in> od_index ` set ds then Some (merged (od_index d) ds) else None) of None \<Rightarrow> no_tool_use | Some t \<Rightarrow> t) = merged (od_index d) ds"
    by (simp add: merged_none)
  then show ?case using snoc by (simp add: add_call_delta_def Let_def fun_eq_iff merged_snoc)
qed simp

lemma collect_calls_upto:
  assumes "\<And>j. i \<le> j \<Longrightarrow> j < i + int k \<Longrightarrow> acc j \<noteq> None" "acc (i + int k) = None" "k < n"
  shows "collect_calls n i acc = map (\<lambda>j. the (acc (i + int j))) [0..<k]"
  using assms
proof (induction k arbitrary: n i)
  case 0
  then show ?case by (cases n) auto
next
  case (Suc k)
  obtain m where m: "n = Suc m" "k < m" using Suc.prems(3) by (cases n) auto
  obtain t where t: "acc i = Some t" using Suc.prems(1) [of i] by auto
  have "collect_calls m (i + 1) acc = map (\<lambda>j. the (acc (i + 1 + int j))) [0..<k]"
    using Suc.prems(1,2) m by (intro Suc.IH) (auto simp: algebra_simps)
  then show ?case using t m upt_conv_Cons [of 0 "Suc k"]
    by (simp add: map_Suc_upt [symmetric] algebra_simps del: upt_Suc)
qed

text \<open>The number of calls with no index left out before them.\<close>

lemma first_gap:
  fixes S :: "int set"
  assumes "finite S"
  shows "\<exists>k \<le> card S. int k \<notin> S \<and> (\<forall>j < k. int j \<in> S)"
proof -
  have "\<exists>k \<le> card S. int k \<notin> S"
  proof (rule ccontr)
    assume "\<not> ?thesis"
    then have "int ` {..card S} \<subseteq> S" by auto
    then have "card (int ` {..card S}) \<le> card S" by (rule card_mono [OF assms])
    then show False by (simp add: card_image)
  qed
  then obtain k0 where k0: "k0 \<le> card S" "int k0 \<notin> S" by blast
  define k where "k = (LEAST k. int k \<notin> S)"
  have "int k \<notin> S" using LeastI [of "\<lambda>k. int k \<notin> S", OF k0(2)] by (simp add: k_def)
  moreover have "k \<le> k0" using Least_le [of "\<lambda>k. int k \<notin> S", OF k0(2)] by (simp add: k_def)
  moreover have "int j \<in> S" if "j < k" for j using not_less_Least [of j "\<lambda>k. int k \<notin> S"] that by (auto simp: k_def)
  ultimately show ?thesis using k0(1) by (intro exI [of _ k]) simp
qed

section \<open>What a turn returns\<close>

lemma openai_collects:
  assumes "oa_tools K tools = Inr api" "\<forall>q. os_stream K n q = (events, None)"
  shows "\<exists>k r. openai_ChatTurn K base headers n messages tools opts = (concat (map event_delta events), Inr r) \<and>
    tr_text r = concat (concat (map event_delta events)) \<and>
    tr_tool_uses r = map (\<lambda>i. merged (int i) (call_deltas events)) [0..<k] \<and>
    int k \<notin> od_index ` set (call_deltas events) \<and> (\<forall>i < k. int i \<in> od_index ` set (call_deltas events))"
proof -
  let ?ds = "call_deltas events"
  obtain k where k: "k \<le> card (od_index ` set ?ds)" "int k \<notin> od_index ` set ?ds" "\<forall>i < k. int i \<in> od_index ` set ?ds"
    using first_gap [of "od_index ` set ?ds"] by auto
  have "card (od_index ` set ?ds) \<le> length ?ds" using card_image_le [of "set ?ds" od_index] card_length [of ?ds] by simp
  then have "collect_calls (Suc (length ?ds)) 0 (fold add_call_delta ?ds Map.empty) = map (\<lambda>j. the (fold add_call_delta ?ds Map.empty (0 + int j))) [0..<k]"
  proof (intro collect_calls_upto)
    show "fold add_call_delta ?ds Map.empty j \<noteq> None" if "0 \<le> j" "j < 0 + int k" for j
      using k(3) that by (auto simp: add_deltas dest: spec [of _ "nat j"])
  qed (use k in \<open>simp_all add: add_deltas\<close>)
  also have "\<dots> = map (\<lambda>i. merged (int i) ?ds) [0..<k]" using k by (simp add: add_deltas)
  finally have c: "collect_calls (Suc (length ?ds)) 0 (fold add_call_delta ?ds Map.empty) = map (\<lambda>i. merged (int i) ?ds) [0..<k]" .
  show ?thesis using k(2,3) assms by (intro exI [of _ k]) (simp add: openai_ChatTurn_def oa_fold oa_start_def Let_def c del: collect_calls.simps)
qed


text \<open>
  A turn of an OpenAI service returns the text that was streamed, piece by piece, and the
  calls with the indices 0, 1, ... up to the first index that is missing, each with the last id
  and name given for it and all its argument pieces in order. It returns no other call.
\<close>

theorem openai_turn_collects:
  assumes "oa_tools K tools = Inr api" "\<forall>q. os_stream K n q = (events, None)"
  shows "\<exists>k r. openai_ChatTurn K base headers n messages tools opts = (concat (map event_delta events), Inr r) \<and>
    tr_text r = concat (concat (map event_delta events)) \<and>
    tr_tool_uses r = map (\<lambda>i. merged (int i) (call_deltas events)) [0..<k] \<and>
    int k \<notin> od_index ` set (call_deltas events) \<and> (\<forall>i < k. int i \<in> od_index ` set (call_deltas events))"
  by (rule openai_collects [OF assms])

text \<open>
  The parts of an answer, in order: a text in pieces, or a tool call whose arguments come in
  pieces. The two services stream the same answer each in its own events.
\<close>

datatype part = TextPart "string list" | CallPart string string "string list"

definition oa_text_event :: "string \<Rightarrow> oa_event" where
  "oa_text_event t = \<lparr>oe_choices = [\<lparr>oc_content = t, oc_tool_calls = [], oc_finish_reason = []\<rparr>], oe_prompt_tokens = 0, oe_completion_tokens = 0\<rparr>"

definition oa_call_event :: "nat \<Rightarrow> string \<Rightarrow> string \<Rightarrow> string \<Rightarrow> oa_event" where
  "oa_call_event i cid name args = \<lparr>oe_choices = [\<lparr>oc_content = [], oc_tool_calls = [\<lparr>od_index = int i, od_id = cid, od_name = name, od_arguments = args\<rparr>],
     oc_finish_reason = []\<rparr>], oe_prompt_tokens = 0, oe_completion_tokens = 0\<rparr>"

fun oa_encode :: "nat \<Rightarrow> part list \<Rightarrow> oa_event list" where
  "oa_encode i [] = []"
| "oa_encode i (TextPart ts # ps) = map oa_text_event ts @ oa_encode i ps"
| "oa_encode i (CallPart cid name args # ps) = oa_call_event i cid name [] # map (oa_call_event i [] []) args @ oa_encode (Suc i) ps"

fun an_encode :: "part list \<Rightarrow> an_event list" where
  "an_encode [] = []"
| "an_encode (TextPart ts # ps) = ContentBlockStart OtherBlock # map (ContentBlockDelta \<circ> TextDelta) ts @ ContentBlockStop # an_encode ps"
| "an_encode (CallPart cid name args # ps) =
     ContentBlockStart (ToolUseBlock cid name) # map (ContentBlockDelta \<circ> InputJSONDelta) args @ ContentBlockStop # an_encode ps"

fun part_texts :: "part list \<Rightarrow> string list" where
  "part_texts [] = []"
| "part_texts (TextPart ts # ps) = filter (\<lambda>t. t \<noteq> []) ts @ part_texts ps"
| "part_texts (CallPart cid name args # ps) = part_texts ps"

fun part_calls :: "part list \<Rightarrow> tool_use list" where
  "part_calls [] = []"
| "part_calls (TextPart ts # ps) = part_calls ps"
| "part_calls (CallPart cid name args # ps) = \<lparr>tu_id = cid, tu_name = name, tu_input = concat args\<rparr> # part_calls ps"

lemma an_steps [simp]:
  "an_event_step (ContentBlockStart (ToolUseBlock i name)) st = (flushToolUse st)\<lparr>az_cur_id := i, az_cur_name := name, az_cur_input := []\<rparr>"
  "an_event_step (ContentBlockStart OtherBlock) st = flushToolUse st"
  "an_event_step ContentBlockStop st = flushToolUse st"
  by (simp_all add: an_event_step_def)

lemma an_fold_texts: "fold an_event_step (map (ContentBlockDelta \<circ> TextDelta) ts) st =
    st\<lparr>az_chunks := az_chunks st @ filter (\<lambda>t. t \<noteq> []) ts, az_text := az_text st @ concat ts\<rparr>"
  by (induction ts arbitrary: st) (auto simp: an_event_step_def an_text_def)

lemma an_fold_input: "fold an_event_step (map (ContentBlockDelta \<circ> InputJSONDelta) js) st = st\<lparr>az_cur_input := az_cur_input st @ concat js\<rparr>"
  by (induction js arbitrary: st) (auto simp: an_event_step_def)

lemma concat_nonempty: "concat (filter (\<lambda>t. t \<noteq> []) ts) = concat ts"
  by (induction ts) auto

lemma an_fold_parts:
  assumes "\<forall>t \<in> set (part_calls ps). tu_id t \<noteq> []" "az_cur_id st = []"
  shows "\<exists>st'. fold an_event_step (an_encode ps) st = st' \<and> az_chunks st' = az_chunks st @ part_texts ps \<and>
    az_text st' = az_text st @ concat (part_texts ps) \<and> az_tool_uses st' = az_tool_uses st @ part_calls ps \<and> az_cur_id st' = [] \<and>
    az_usage st' = az_usage st \<and> az_stop_reason st' = az_stop_reason st"
  using assms
proof (induction ps arbitrary: st rule: part_calls.induct)
  case (2 ts ps)
  then show ?case by (simp add: an_fold_texts flushToolUse_def concat_nonempty)
next
  case (3 cid name args ps)
  then show ?case by (simp add: an_fold_input flushToolUse_def)
qed simp

definition call_delta :: "nat \<Rightarrow> string \<Rightarrow> string \<Rightarrow> string \<Rightarrow> oa_call_delta" where
  "call_delta i cid name args = \<lparr>od_index = int i, od_id = cid, od_name = name, od_arguments = args\<rparr>"

lemma call_deltas_simps [simp]:
  "call_deltas [] = []" "call_deltas (xs @ ys) = call_deltas xs @ call_deltas ys"
  "call_deltas (oa_call_event i cid name args # es) = call_delta i cid name args # call_deltas es"
  "call_deltas (map oa_text_event ts) = []" "call_deltas (map (oa_call_event i cid name) as) = map (call_delta i cid name) as"
  by (simp_all add: call_deltas_def oa_call_event_def oa_text_event_def call_delta_def, induction as, simp_all add: oa_call_event_def call_delta_def)

lemma call_delta_fields [simp]: "od_index (call_delta i cid name args) = int i" "od_id (call_delta i cid name args) = cid"
  "od_name (call_delta i cid name args) = name" "od_arguments (call_delta i cid name args) = args"
  by (simp_all add: call_delta_def)

lemma oa_deltas_encode: "od_index ` set (call_deltas (oa_encode i ps)) = int ` {i..<i + length (part_calls ps)}"
proof (induction i ps rule: oa_encode.induct)
  case (3 i cid name args ps)
  have "{i..<i + Suc (length (part_calls ps))} = insert i {Suc i..<Suc i + length (part_calls ps)}" by auto
  moreover have "od_index ` call_delta i [] [] ` set args \<subseteq> {int i}" by auto
  ultimately show ?case using 3 by (auto simp: image_Un)
qed auto

lemma merged_append: "j \<notin> od_index ` set ds \<Longrightarrow> merged j (ds @ es) = merged j es" "j \<notin> od_index ` set es \<Longrightarrow> merged j (ds @ es) = merged j ds"
proof -
  assume "j \<notin> od_index ` set ds"
  then have "filter (\<lambda>d. od_index d = j) ds = []" by (auto simp: filter_empty_conv)
  then show "merged j (ds @ es) = merged j es" by (simp add: merged_def)
next
  assume "j \<notin> od_index ` set es"
  then have "filter (\<lambda>d. od_index d = j) es = []" by (auto simp: filter_empty_conv)
  then show "merged j (ds @ es) = merged j ds" by (simp add: merged_def)
qed

lemma merged_own: "merged (int i) (call_delta i cid name [] # map (call_delta i [] []) args) = \<lparr>tu_id = cid, tu_name = name, tu_input = concat args\<rparr>"
proof (induction args rule: rev_induct)
  case Nil
  then show ?case by (simp add: merged_def last_given_def)
next
  case (snoc a args)
  then show ?case using merged_snoc [of "int i" "call_delta i cid name [] # map (call_delta i [] []) args" "call_delta i [] [] a"]
    by simp
qed

lemma merged_encode: "k < length (part_calls ps) \<Longrightarrow> merged (int (i + k)) (call_deltas (oa_encode i ps)) = part_calls ps ! k"
proof (induction i ps arbitrary: k rule: oa_encode.induct)
  case (3 i cid name args ps)
  let ?own = "call_delta i cid name [] # map (call_delta i [] []) args"
  have d: "call_deltas (oa_encode i (CallPart cid name args # ps)) = ?own @ call_deltas (oa_encode (Suc i) ps)" by simp
  show ?case
  proof (cases k)
    case 0
    have "int i \<notin> od_index ` set (call_deltas (oa_encode (Suc i) ps))" by (auto simp: oa_deltas_encode)
    then have "merged (int i) (?own @ call_deltas (oa_encode (Suc i) ps)) = merged (int i) ?own" by (rule merged_append(2))
    then show ?thesis using 0 unfolding d merged_own by simp
  next
    case (Suc m)
    have "int (i + k) \<notin> od_index ` set ?own" using Suc by auto
    then have "merged (int (i + k)) (?own @ call_deltas (oa_encode (Suc i) ps)) = merged (int (i + k)) (call_deltas (oa_encode (Suc i) ps))"
      by (rule merged_append(1))
    then show ?thesis using "3.IH" [of m] "3.prems" Suc unfolding d by simp
  qed
qed auto

lemma oa_texts_encode: "concat (map event_delta (oa_encode i ps)) = part_texts ps"
proof (induction i ps rule: oa_encode.induct)
  case (2 i ts ps)
  have "concat (map event_delta (map oa_text_event ts)) = filter (\<lambda>t. t \<noteq> []) ts"
    by (induction ts) (auto simp: event_delta_def oa_text_event_def)
  then show ?case using 2 by simp
next
  case (3 i cid name args ps)
  have "concat (map event_delta (map (oa_call_event i [] []) args)) = []" by (induction args) (auto simp: event_delta_def oa_call_event_def)
  then show ?case using 3 by (simp add: event_delta_def oa_call_event_def)
qed simp


text \<open>An answer in two texts around two calls, one of them without arguments.\<close>

definition sample_parts :: "part list" where
  "sample_parts = [TextPart [''Look'', [], ''ing''], CallPart ''c1'' ''fs__read'' [''{'', ''}''], TextPart [''.''], CallPart ''c2'' ''fs__list'' []]"

definition sample_openai :: openai_sdk where
  "sample_openai = \<lparr>os_stream = (\<lambda>n q. (oa_encode 0 sample_parts, None)), os_schema_err = (\<lambda>s. None)\<rparr>"

definition sample_anthropic :: anthropic_sdk where
  "sample_anthropic = \<lparr>as_stream = (\<lambda>n q. (an_encode sample_parts, None)), as_schema_err = (\<lambda>s. None)\<rparr>"

definition sample_options :: call_options where
  "sample_options = \<lparr>co_model = ''m'', co_max_tokens = 100, co_api_key = ''k'', co_endpoint = [], co_deployment = []\<rparr>"

theorem openai_turn_collects_witness:
  "\<exists>k r. openai_ChatTurn sample_openai [] [] 0 [] [] sample_options = (concat (map event_delta (oa_encode 0 sample_parts)), Inr r) \<and>
    tr_text r = concat (concat (map event_delta (oa_encode 0 sample_parts))) \<and>
    tr_tool_uses r = map (\<lambda>i. merged (int i) (call_deltas (oa_encode 0 sample_parts))) [0..<k] \<and>
    int k \<notin> od_index ` set (call_deltas (oa_encode 0 sample_parts)) \<and> (\<forall>i < k. int i \<in> od_index ` set (call_deltas (oa_encode 0 sample_parts)))"
  by (rule openai_turn_collects [where api = "[]"]) (simp_all add: sample_openai_def)


end
