(* ===== verification/Github_App.thy ===== *)
theory Github_App
  imports Publish Web_Http Redact
begin

text \<open>
  The client of the GitHub API (internal/github): the App's JWT (jwt.go), the private key
  (pem.go), the cache of installation tokens (installation.go), the head of a branch (refs.go)
  and the shallow clone (clone.go). RSA, PEM and JSON decoding, the network and go-git are
  parameters. The cache is a step relation: its lock is held while it is looked up and while an
  entry is stored, not while a token is fetched.
\<close>

section \<open>Libraries\<close>

record 'k github_lib =
  gl_pem :: "string \<Rightarrow> (string \<times> string) option"
  gl_pkcs1 :: "string \<Rightarrow> string + 'k"
  gl_pkcs8 :: "string \<Rightarrow> string + 'k option"
  gl_sign_rs256 :: "'k \<Rightarrow> string \<times> int \<times> int \<Rightarrow> string + string"
  gl_build_err :: "string \<Rightarrow> string option"
  gl_token_payload :: "string \<Rightarrow> string + (string \<times> string)"
  gl_rfc3339 :: "string \<Rightarrow> string + time"
  gl_branch_payload :: "string \<Rightarrow> string + string"
  gl_read_file :: "string \<Rightarrow> string + string"

section \<open>The App's JWT\<close>

text \<open>The claims are the issuer, the time of issue and the expiry, in Unix seconds.\<close>

definition app_claims :: "string \<Rightarrow> time \<Rightarrow> string \<times> int \<times> int" where
  "app_claims appID now = (let iat = now - 60 * second in (appID, iat div second, (iat + 9 * 60 * second) div second))"

definition app_key :: "'k github_lib \<Rightarrow> string \<Rightarrow> string + 'k" where
  "app_key G privateKey = (case gl_pem G privateKey of
       None \<Rightarrow> Inl ''github: appJWT: parse PEM: no PEM block''
     | Some (typ, bytes) \<Rightarrow>
       if typ = ''RSA PRIVATE KEY'' then
         (case gl_pkcs1 G bytes of Inl e \<Rightarrow> Inl (''github: appJWT: parse PKCS1: '' @ e) | Inr k \<Rightarrow> Inr k)
       else if typ = ''PRIVATE KEY'' then
         (case gl_pkcs8 G bytes of Inl e \<Rightarrow> Inl (''github: appJWT: parse PKCS8: '' @ e)
          | Inr None \<Rightarrow> Inl ''github: appJWT: PKCS8 key is not RSA'' | Inr (Some k) \<Rightarrow> Inr k)
       else Inl (''github: appJWT: unexpected PEM type '' @ quoted typ))"

definition AppJWT :: "'k github_lib \<Rightarrow> string \<Rightarrow> string \<Rightarrow> time \<Rightarrow> string + string" where
  "AppJWT G appID privateKey now = (case app_key G privateKey of
       Inl e \<Rightarrow> Inl e
     | Inr k \<Rightarrow> (case gl_sign_rs256 G k (app_claims appID now) of Inl e \<Rightarrow> Inl (''github: appJWT: sign: '' @ e) | Inr t \<Rightarrow> Inr t))"

text \<open>GitHub refuses tokens that live longer than ten minutes.\<close>

lemma app_claims_window:
  "case app_claims appID now of (iss, iat, exp) \<Rightarrow> iss = appID \<and> exp - iat = 540 \<and> iat * second \<le> now - 60 * second \<and>
     now < exp * second - 479 * second"
proof -
  have "(now - 60 * second + 9 * 60 * second) div second = (now - 60 * second) div second + 540"
    by (simp add: second_def)
  moreover have "(now - 60 * second) div second * second \<le> now - 60 * second" "now - 60 * second < ((now - 60 * second) div second + 1) * second"
    by (simp_all add: second_def)
  ultimately show ?thesis by (simp add: app_claims_def Let_def second_def)
qed

section \<open>The private key\<close>

definition inline_pem :: "string \<Rightarrow> bool" where
  "inline_pem value \<longleftrightarrow> take 10 (dropWhile (\<lambda>c. c \<in> {CHR 0x20, CHR 0x09, CHR 0x0D, CHR 0x0A}) value) = ''-----BEGIN''"

definition ReadPEM :: "'k github_lib \<Rightarrow> string \<Rightarrow> string + string" where
  "ReadPEM G value = (if inline_pem value then Inr value
     else case gl_read_file G value of
       Inr b \<Rightarrow> Inr b
     | Inl e \<Rightarrow> Inl (''read PEM file '' @ quoted value @ '': '' @ e @
         (if CHR ''/'' \<notin> set value \<and> 100 < length value
          then '' (hint: value looks like PEM content but is missing -----BEGIN header)'' else [])))"

section \<open>Installation tokens\<close>

record inst_config =
  ig_app_id :: string
  ig_private_key :: string
  ig_base_url :: string
  ig_token_ttl :: time

definition NewInstallationCache :: "inst_config \<Rightarrow> inst_config" where
  "NewInstallationCache cfg = cfg\<lparr>ig_base_url := (if ig_base_url cfg = [] then ''https://api.github.com'' else ig_base_url cfg),
     ig_token_ttl := (if ig_token_ttl cfg = 0 then 50 * 60 * second else ig_token_ttl cfg)\<rparr>"

definition inst_url :: "inst_config \<Rightarrow> int \<Rightarrow> string" where
  "inst_url cfg installID = ig_base_url cfg @ ''/app/installations/'' @ itoa installID @ ''/access_tokens''"

definition inst_request :: "inst_config \<Rightarrow> int \<Rightarrow> string \<Rightarrow> http_request" where
  "inst_request cfg installID jwt = \<lparr>rq_method = ''POST'', rq_url = inst_url cfg installID,
     rq_headers = [(''Authorization'', ''Bearer '' @ jwt), (''Accept'', ''application/vnd.github+json'')], rq_body = http_body.TextBody []\<rparr>"

definition inst_response :: "'k github_lib \<Rightarrow> http_reply \<Rightarrow> string + (string \<times> time)" where
  "inst_response G reply = (case reply of
       TransportError e \<Rightarrow> Inl (''github: installation: http do: '' @ e)
     | Status code body \<Rightarrow>
       if code \<noteq> 201 \<and> code \<noteq> 200 then Inl (''github: installation: http '' @ itoa code @ '': '' @ body)
       else case gl_token_payload G body of
         Inl e \<Rightarrow> Inl (''github: installation: decode: '' @ e)
       | Inr (tok, expires) \<Rightarrow>
         if tok = [] then Inl ''github: installation: empty token in response''
         else case gl_rfc3339 G expires of
           Inl e \<Rightarrow> Inl (''github: installation: parse expires_at: '' @ e)
         | Inr t \<Rightarrow> Inr (tok, t))"

definition inst_fetch :: "'k github_lib \<Rightarrow> inst_config \<Rightarrow> (http_request \<Rightarrow> http_reply) \<Rightarrow> int \<Rightarrow> time \<Rightarrow> string + (string \<times> time)" where
  "inst_fetch G cfg net installID now = (case AppJWT G (ig_app_id cfg) (ig_private_key cfg) now of
       Inl e \<Rightarrow> Inl (''github: installation: mint JWT: '' @ e)
     | Inr jwt \<Rightarrow>
       (case gl_build_err G (inst_url cfg installID) of
          Some e \<Rightarrow> Inl (''github: installation: new request: '' @ e)
        | None \<Rightarrow> inst_response G (net (inst_request cfg installID jwt))))"

record cached_token =
  ct_token :: string
  ct_expires_at :: time

definition cached :: "(int \<Rightarrow> cached_token option) \<Rightarrow> int \<Rightarrow> time \<Rightarrow> string option" where
  "cached entries installID now = (case entries installID of
       None \<Rightarrow> None | Some e \<Rightarrow> if now < ct_expires_at e then Some (ct_token e) else None)"

definition fresh_entry :: "inst_config \<Rightarrow> time \<Rightarrow> string \<times> time \<Rightarrow> cached_token" where
  "fresh_entry cfg now r = (case r of (tok, expires) \<Rightarrow>
     \<lparr>ct_token = tok, ct_expires_at = (if expires < now + ig_token_ttl cfg then expires else now + ig_token_ttl cfg)\<rparr>)"

text \<open>One call with no other in between.\<close>

definition Token :: "'k github_lib \<Rightarrow> inst_config \<Rightarrow> (http_request \<Rightarrow> http_reply) \<Rightarrow> time \<Rightarrow> int \<Rightarrow> (int \<Rightarrow> cached_token option) \<Rightarrow>
    (string + string) \<times> (int \<Rightarrow> cached_token option)" where
  "Token G cfg net now installID entries = (case cached entries installID now of
       Some tok \<Rightarrow> (Inr tok, entries)
     | None \<Rightarrow> (case inst_fetch G cfg net installID now of
         Inl e \<Rightarrow> (Inl e, entries)
       | Inr r \<Rightarrow> (Inr (fst r), entries(installID \<mapsto> fresh_entry cfg now r))))"

subsection \<open>Calls at the same time\<close>

text \<open>
  A call remembers the clock it read under the lock. What GitHub granted is kept as a history:
  installation, token, expiry and the clock of the call that fetched it.
\<close>

datatype token_pc = TkIdle | TkFetch int time | TkStore int time "string \<times> time" | TkDone int time "string + string"

record token_state =
  ts_entries :: "int \<Rightarrow> cached_token option"
  ts_calls :: "nat \<Rightarrow> token_pc"
  ts_granted :: "(int \<times> string \<times> time \<times> time) list"

definition token_start :: token_state where
  "token_start = \<lparr>ts_entries = Map.empty, ts_calls = (\<lambda>_. TkIdle), ts_granted = []\<rparr>"

definition token_lookup :: "nat \<Rightarrow> int \<Rightarrow> time \<Rightarrow> token_state \<Rightarrow> token_state" where
  "token_lookup c installID now s = s\<lparr>ts_calls := (ts_calls s)(c := (case cached (ts_entries s) installID now of
     Some tok \<Rightarrow> TkDone installID now (Inr tok) | None \<Rightarrow> TkFetch installID now))\<rparr>"

definition token_fetched :: "nat \<Rightarrow> int \<Rightarrow> time \<Rightarrow> string + (string \<times> time) \<Rightarrow> token_state \<Rightarrow> token_state" where
  "token_fetched c installID now res s = (case res of
       Inl e \<Rightarrow> s\<lparr>ts_calls := (ts_calls s)(c := TkDone installID now (Inl e))\<rparr>
     | Inr r \<Rightarrow> s\<lparr>ts_calls := (ts_calls s)(c := TkStore installID now r), ts_granted := ts_granted s @ [(installID, fst r, snd r, now)]\<rparr>)"

definition token_store :: "inst_config \<Rightarrow> nat \<Rightarrow> int \<Rightarrow> time \<Rightarrow> string \<times> time \<Rightarrow> token_state \<Rightarrow> token_state" where
  "token_store cfg c installID now r s = s\<lparr>ts_entries := (ts_entries s)(installID \<mapsto> fresh_entry cfg now r),
     ts_calls := (ts_calls s)(c := TkDone installID now (Inr (fst r)))\<rparr>"

text \<open>The network may answer each request anew, and the clock may show any time.\<close>

inductive token_step :: "'k github_lib \<Rightarrow> inst_config \<Rightarrow> token_state \<Rightarrow> token_state \<Rightarrow> bool" for G cfg where
  lookup: "ts_calls s c = TkIdle \<Longrightarrow> token_step G cfg s (token_lookup c installID now s)"
| fetched: "ts_calls s c = TkFetch installID now \<Longrightarrow> token_step G cfg s (token_fetched c installID now (inst_fetch G cfg net installID jwt_now) s)"
| store: "ts_calls s c = TkStore installID now r \<Longrightarrow> token_step G cfg s (token_store cfg c installID now r s)"

definition grant :: "token_state \<Rightarrow> int \<Rightarrow> string \<Rightarrow> time \<Rightarrow> time \<Rightarrow> bool" where
  "grant s installID tok expires at \<longleftrightarrow> (installID, tok, expires, at) \<in> set (ts_granted s)"

text \<open>A token that a call returns was granted to it, or is a live one of the cache.\<close>

definition usable :: "inst_config \<Rightarrow> token_state \<Rightarrow> int \<Rightarrow> time \<Rightarrow> string \<Rightarrow> bool" where
  "usable cfg s installID now tok \<longleftrightarrow> (\<exists>expires at. grant s installID tok expires at \<and>
     (at = now \<or> now < expires \<and> now < at + ig_token_ttl cfg))"

definition token_inv :: "inst_config \<Rightarrow> token_state \<Rightarrow> bool" where
  "token_inv cfg s \<longleftrightarrow>
     (\<forall>i e. ts_entries s i = Some e \<longrightarrow> (\<exists>expires at. grant s i (ct_token e) expires at \<and> ct_expires_at e \<le> expires \<and> ct_expires_at e \<le> at + ig_token_ttl cfg)) \<and>
     (\<forall>c i now r. ts_calls s c = TkStore i now r \<longrightarrow> grant s i (fst r) (snd r) now) \<and>
     (\<forall>c i now tok. ts_calls s c = TkDone i now (Inr tok) \<longrightarrow> usable cfg s i now tok)"

lemma grant_mono: "grant s i tok e at \<Longrightarrow> ts_granted t = ts_granted s @ gs \<Longrightarrow> grant t i tok e at"
  by (simp add: grant_def)

lemma usable_mono: "usable cfg s i now tok \<Longrightarrow> ts_granted t = ts_granted s @ gs \<Longrightarrow> usable cfg t i now tok"
  using grant_mono unfolding usable_def by blast

text \<open>A step that keeps the entries and moves one call.\<close>

lemma token_inv_call:
  assumes I: "token_inv cfg s" and t: "ts_entries t = ts_entries s" "ts_calls t = (ts_calls s)(c := pc)" "ts_granted t = ts_granted s @ gs"
    and c: "\<And>i now r. pc = TkStore i now r \<Longrightarrow> grant t i (fst r) (snd r) now" "\<And>i now tok. pc = TkDone i now (Inr tok) \<Longrightarrow> usable cfg t i now tok"
  shows "token_inv cfg t"
proof -
  have "\<exists>expires at. grant t i (ct_token e) expires at \<and> ct_expires_at e \<le> expires \<and> ct_expires_at e \<le> at + ig_token_ttl cfg"
    if "ts_entries t i = Some e" for i e
    using I that t(1) grant_mono [OF _ t(3)] unfolding token_inv_def by metis
  moreover have "grant t i (fst r) (snd r) now" if "ts_calls t c' = TkStore i now r" for c' i now r
    using I that t(2) c(1) grant_mono [OF _ t(3)] unfolding token_inv_def by (cases "c' = c") auto
  moreover have "usable cfg t i now tok" if "ts_calls t c' = TkDone i now (Inr tok)" for c' i now tok
    using I that t(2) c(2) usable_mono [OF _ t(3)] unfolding token_inv_def by (cases "c' = c") auto
  ultimately show ?thesis unfolding token_inv_def by blast
qed

lemma token_inv_step:
  assumes "token_step G cfg s t" "token_inv cfg s"
  shows "token_inv cfg t"
  using assms
proof (cases rule: token_step.cases)
  case (lookup c i now)
  have "usable cfg t i now tok" if "cached (ts_entries s) i now = Some tok" for tok
  proof -
    obtain e where e: "ts_entries s i = Some e" "now < ct_expires_at e" "tok = ct_token e"
      using \<open>cached (ts_entries s) i now = Some tok\<close> by (auto simp: cached_def split: option.splits if_splits)
    then obtain expires at where "grant s i tok expires at" "ct_expires_at e \<le> expires" "ct_expires_at e \<le> at + ig_token_ttl cfg"
      using assms(2) unfolding token_inv_def by blast
    then show ?thesis using e(2) lookup unfolding usable_def grant_def by (force simp: token_lookup_def)
  qed
  then show ?thesis using lookup assms(2)
    by (intro token_inv_call [OF assms(2), of t c "case cached (ts_entries s) i now of Some tok \<Rightarrow> TkDone i now (Inr tok) | None \<Rightarrow> TkFetch i now" "[]"])
      (auto simp: token_lookup_def split: option.splits)
next
  case (fetched c i now net jwt_now)
  show ?thesis
  proof (cases "inst_fetch G cfg net i jwt_now")
    case (Inl e)
    then show ?thesis using fetched
      by (intro token_inv_call [OF assms(2), of t c "TkDone i now (Inl e)" "[]"]) (simp_all add: token_fetched_def)
  next
    case (Inr r)
    then show ?thesis using fetched
      by (intro token_inv_call [OF assms(2), of t c "TkStore i now r" "[(i, fst r, snd r, now)]"]) (auto simp: token_fetched_def grant_def)
  qed
next
  case (store c i now r)
  let ?u = "s\<lparr>ts_calls := (ts_calls s)(c := TkDone i now (Inr (fst r)))\<rparr>"
  have g: "grant s i (fst r) (snd r) now" using store(2) assms(2) unfolding token_inv_def by blast
  then have "usable cfg ?u i now (fst r)" unfolding usable_def grant_def by auto
  then have "token_inv cfg ?u" by (intro token_inv_call [OF assms(2), of _ c _ "[]"]) auto
  moreover have "\<exists>expires at. grant s i (ct_token e) expires at \<and> ct_expires_at e \<le> expires \<and> ct_expires_at e \<le> at + ig_token_ttl cfg"
    if "e = fresh_entry cfg now r" for e
    using g that by (intro exI [of _ "snd r"] exI [of _ now]) (auto simp: fresh_entry_def split: prod.splits)
  ultimately show ?thesis using store unfolding token_inv_def usable_def grant_def by (auto simp: token_store_def)
qed

lemma token_reaches_inv: "(token_step G cfg)\<^sup>*\<^sup>* token_start s \<Longrightarrow> token_inv cfg s"
proof (induction rule: rtranclp_induct)
  case base
  show ?case by (simp add: token_inv_def token_start_def)
qed (rule token_inv_step)

text \<open>
  C34: However the calls to the cache interleave and whatever the clock does, a call gets a
  token that GitHub granted for its own installation, either fetched by a call at the same
  reading of the clock, or from the cache, and then at that reading the token has not expired
  and was fetched less than the configured time ago.
\<close>

theorem cached_token_live:
  assumes "(token_step G cfg)\<^sup>*\<^sup>* token_start s" "ts_calls s c = TkDone installID now (Inr tok)"
  shows "usable cfg s installID now tok"
  using token_reaches_inv [OF assms(1)] assms(2) unfolding token_inv_def by blast


definition sample_github :: "unit github_lib" where
  "sample_github = \<lparr>gl_pem = (\<lambda>p. Some (''PRIVATE KEY'', p)), gl_pkcs1 = (\<lambda>b. Inl ''bad key''), gl_pkcs8 = (\<lambda>b. Inr (Some ())),
     gl_sign_rs256 = (\<lambda>k claims. Inr ''app.jwt''), gl_build_err = (\<lambda>u. None), gl_token_payload = (\<lambda>b. Inr (b, ''later'')),
     gl_rfc3339 = (\<lambda>t. Inr (3600 * second)), gl_branch_payload = (\<lambda>b. Inr b), gl_read_file = (\<lambda>p. Inl ''no such file'')\<rparr>"

definition sample_inst :: inst_config where
  "sample_inst = NewInstallationCache \<lparr>ig_app_id = ''1'', ig_private_key = ''k'', ig_base_url = [], ig_token_ttl = 0\<rparr>"

text \<open>Two calls: the first fetches a token, the second finds it ten minutes later.\<close>

definition fetched_once :: token_state where
  "fetched_once = (let net = (\<lambda>q. Status 201 ''tok'');
     s1 = token_lookup 0 7 0 token_start; s2 = token_fetched 0 7 0 (inst_fetch sample_github sample_inst net 7 0) s1 in
     token_store sample_inst 0 7 0 (''tok'', 3600 * second) s2)"

lemma sample_fetch: "inst_fetch sample_github sample_inst (\<lambda>q. Status 201 ''tok'') 7 0 = Inr (''tok'', 3600 * second)"
  by (simp add: inst_fetch_def inst_response_def AppJWT_def app_key_def sample_github_def)

lemma fetched_once_reachable: "(token_step sample_github sample_inst)\<^sup>*\<^sup>* token_start fetched_once"
proof -
  let ?s1 = "token_lookup 0 7 0 token_start"
  let ?s2 = "token_fetched 0 7 0 (inst_fetch sample_github sample_inst (\<lambda>q. Status 201 ''tok'') 7 0) ?s1"
  have "token_step sample_github sample_inst token_start ?s1" by (rule token_step.lookup) (simp add: token_start_def)
  moreover have "token_step sample_github sample_inst ?s1 ?s2"
    by (rule token_step.fetched) (simp add: token_lookup_def token_start_def cached_def)
  moreover have "token_step sample_github sample_inst ?s2 fetched_once" unfolding fetched_once_def Let_def
    by (rule token_step.store) (simp add: token_fetched_def sample_fetch)
  ultimately show ?thesis by (meson rtranclp.rtrancl_refl rtranclp.rtrancl_into_rtrancl)
qed

theorem cached_token_live_witness:
  "\<exists>s. (token_step sample_github sample_inst)\<^sup>*\<^sup>* token_start s \<and> ts_calls s 1 = TkDone 7 (600 * second) (Inr ''tok'') \<and>
     usable sample_inst s 7 (600 * second) ''tok''"
proof -
  let ?s = "token_lookup 1 7 (600 * second) fetched_once"
  have f: "ts_calls fetched_once 1 = TkIdle"
    by (simp add: fetched_once_def Let_def token_store_def token_fetched_def sample_fetch token_lookup_def token_start_def)
  have "cached (ts_entries fetched_once) 7 (600 * second) = Some ''tok''"
    by (simp add: fetched_once_def Let_def token_store_def cached_def fresh_entry_def sample_inst_def NewInstallationCache_def second_def)
  then have c: "ts_calls ?s 1 = TkDone 7 (600 * second) (Inr ''tok'')" by (simp add: token_lookup_def)
  have "(token_step sample_github sample_inst)\<^sup>*\<^sup>* token_start ?s"
    using fetched_once_reachable token_step.lookup [OF f] by (rule rtranclp.rtrancl_into_rtrancl)
  then show ?thesis using c cached_token_live [OF _ c, of sample_github] by blast
qed

section \<open>The head of a branch\<close>

text \<open>The characters that net/url leaves alone in a path segment.\<close>

definition segment_char :: "char \<Rightarrow> bool" where
  "segment_char c \<longleftrightarrow> is_alpha c \<or> is_digit c \<or> c \<in> set ''-_.~$&+:=@''"

definition PathEscape :: "string \<Rightarrow> string" where
  "PathEscape s = concat (map (\<lambda>c. if segment_char c then [c]
     else [CHR ''%'', hex_digit (of_char c div 16), hex_digit (of_char c mod 16)]) s)"

definition branch_url :: "string \<Rightarrow> string \<Rightarrow> string \<Rightarrow> string \<Rightarrow> string" where
  "branch_url base owner name branch =
     base @ ''/repos/'' @ PathEscape owner @ ''/'' @ PathEscape name @ ''/branches/'' @ PathEscape branch"

definition branch_request :: "string \<Rightarrow> string \<Rightarrow> string \<Rightarrow> string \<Rightarrow> string \<Rightarrow> http_request" where
  "branch_request base tok owner name branch = \<lparr>rq_method = ''GET'', rq_url = branch_url base owner name branch,
     rq_headers = [(''Authorization'', ''token '' @ tok), (''Accept'', ''application/vnd.github+json'')], rq_body = http_body.TextBody []\<rparr>"

definition GetBranchHead :: "'k github_lib \<Rightarrow> (http_request \<Rightarrow> http_reply) \<Rightarrow> string \<Rightarrow> string \<Rightarrow> string \<Rightarrow> string \<Rightarrow> string \<Rightarrow> string + string" where
  "GetBranchHead G net base tok owner name branch = (case gl_build_err G (branch_url base owner name branch) of
       Some e \<Rightarrow> Inl (''github: GetBranchHead: new request: '' @ e)
     | None \<Rightarrow>
       (case net (branch_request base tok owner name branch) of
          TransportError e \<Rightarrow> Inl (''github: GetBranchHead: http do: '' @ e)
        | Status code body \<Rightarrow>
          if code \<noteq> 200 then Inl (''github: GetBranchHead: http '' @ itoa code @ '': '' @ body)
          else case gl_branch_payload G body of
            Inl e \<Rightarrow> Inl (''github: GetBranchHead: decode: '' @ e)
          | Inr sha \<Rightarrow> if sha = [] then Inl ''github: GetBranchHead: empty sha in response'' else Inr sha))"

text \<open>An escaped segment holds no separator of a path or a query, and decodes to what was escaped.\<close>

lemma hex_digit_table: "list_all (\<lambda>n. hex_digit n \<in> set ''0123456789ABCDEF'' \<and> hex_val (hex_digit n) = n) [0..<16]"
  by code_simp

lemma hex_digit_cases: "n < 16 \<Longrightarrow> hex_digit n \<in> set ''0123456789ABCDEF''"
  using hex_digit_table by (auto simp: list_all_iff)

lemma hex_val_digit: "n < 16 \<Longrightarrow> hex_val (hex_digit n) = n"
  using hex_digit_table by (auto simp: list_all_iff)

lemma of_char_256: "of_char c < (256 :: nat)"
  using of_char_mod_256 [where ?'a = nat, of c] by (metis mod_less_divisor zero_less_numeral)

lemma PathEscape_Cons: "PathEscape (c # s) = (if segment_char c then c # PathEscape s
    else CHR ''%'' # hex_digit (of_char c div 16) # hex_digit (of_char c mod 16) # PathEscape s)"
  by (simp add: PathEscape_def)

lemma percent_not_plain: "\<not> segment_char (CHR ''%'')"
  by (simp add: segment_char_def is_alpha_def is_digit_def)

lemma pct_decode_plain: "c \<noteq> CHR ''%'' \<Longrightarrow> pct_decode (c # s) = c # pct_decode s"
  by (cases s; cases "tl s") simp_all

lemma PathEscape_decodes: "pct_decode (PathEscape s) = s"
proof (induction s)
  case (Cons c s)
  have "hex_val (hex_digit (of_char c div 16)) * 16 + hex_val (hex_digit (of_char c mod 16)) = (of_char c :: nat)"
    by (subst hex_val_digit, use of_char_256 [of c] in linarith)+ simp
  moreover have "pct_decode (c # PathEscape s) = c # s" if "segment_char c"
    using Cons percent_not_plain that pct_decode_plain [of c "PathEscape s"] by metis
  ultimately show ?case using Cons by (simp add: PathEscape_Cons)
qed (simp add: PathEscape_def)

lemma PathEscape_no_separator: "set (PathEscape s) \<inter> set ''/?#'' = {}"
proof (induction s)
  case (Cons c s)
  have h: "hex_digit n \<notin> set ''/?#''" if "n < 16" for n using hex_digit_cases [OF that] by auto
  have "of_char c div 16 < (16 :: nat)" "of_char c mod 16 < (16 :: nat)" using of_char_256 [of c] by linarith+
  then have "hex_digit (of_char c div 16) \<notin> set ''/?#''" "hex_digit (of_char c mod 16) \<notin> set ''/?#''" using h by blast+
  moreover have "segment_char c \<Longrightarrow> c \<notin> set ''/?#''" by (auto simp: segment_char_def is_alpha_def is_digit_def)
  ultimately show ?case using Cons by (auto simp: PathEscape_Cons)
qed (simp add: PathEscape_def)

section \<open>Cloning\<close>

text \<open>
  \<open>gg_clone url auth depth single\<close> gives the clone; a clone has a worktree, and checking out a
  commit may fail.
\<close>

record 'r gogit_lib =
  gg_clone :: "string \<Rightarrow> (string \<times> string) option \<Rightarrow> nat \<Rightarrow> bool \<Rightarrow> string + 'r"
  gg_worktree :: "'r \<Rightarrow> string option"
  gg_checkout :: "'r \<Rightarrow> string \<Rightarrow> string + (string \<Rightarrow> string option)"

definition CloneAtSHA :: "'r gogit_lib \<Rightarrow> string \<Rightarrow> string \<Rightarrow> string \<Rightarrow> string + (string \<Rightarrow> string option)" where
  "CloneAtSHA K cloneURL tok sha =
     (case gg_clone K cloneURL (if tok \<noteq> [] then Some (''x-access-token'', tok) else None) 1 True of
        Inl e \<Rightarrow> Inl (''github: CloneAtSHA: clone '' @ cloneURL @ '': '' @ e)
      | Inr repo \<Rightarrow>
        (case gg_worktree K repo of
           Some e \<Rightarrow> Inl (''github: CloneAtSHA: worktree: '' @ e)
         | None \<Rightarrow> (case gg_checkout K repo sha of
             Inl e \<Rightarrow> Inl (''github: CloneAtSHA: checkout '' @ sha @ '': '' @ e) | Inr files \<Rightarrow> Inr files)))"

text \<open>
  go-git documents a clone of depth one and a single branch to hold the tip of the remote's
  HEAD only. The tip of any other branch is then not there to be checked out.
\<close>

lemma clone_of_other_branch_fails:
  assumes "\<And>auth. gg_clone K url auth 1 True = Inr r" "gg_worktree K r = None" "\<And>sha. sha \<noteq> tip \<Longrightarrow> \<exists>e. gg_checkout K r sha = Inl e"
    and "sha \<noteq> tip"
  shows "\<exists>e. CloneAtSHA K url tok sha = Inl (''github: CloneAtSHA: checkout '' @ sha @ '': '' @ e)"
  using assms(1,2) assms(3) [OF assms(4)] by (auto simp: CloneAtSHA_def)

end
