(* ===== verification/Dispatchers.thy ===== *)
theory Dispatchers
  imports Scheduler Publish
begin

text \<open>
  The dispatchers behind the scheduler's interface: a Fly machine (internal/jobdispatch/
  flymachines), a Kubernetes job (internal/jobdispatch/k8sjobs), an Azure Container Apps
  execution (internal/cloud/azure) and a child process (internal/cloud/subprocess.go). Each turns
  a request into a call of its platform; the platforms' clients are parameters. What a platform
  makes of its call is written as the job it starts, so that the four share one contract.
\<close>

section \<open>Environment entries\<close>

definition Cut :: "string \<Rightarrow> (string \<times> string) option" where
  "Cut kv = cut_sub ''='' kv"

text \<open>The entries in order, or the first that has no equals sign.\<close>

fun env_pairs :: "string list \<Rightarrow> string + (string \<times> string) list" where
  "env_pairs [] = Inr []"
| "env_pairs (kv # kvs) = (case Cut kv of
       None \<Rightarrow> Inl kv
     | Some p \<Rightarrow> (case env_pairs kvs of Inl e \<Rightarrow> Inl e | Inr ps \<Rightarrow> Inr (p # ps)))"

definition malformed :: "string \<Rightarrow> string \<Rightarrow> string" where
  "malformed what kv = what @ '': malformed env entry '' @ quoted kv @ '' (missing '' @ [CHR 0x27] @ ''='' @ [CHR 0x27] @ '')''"

text \<open>A variable given more than once has its last value.\<close>

definition pair_value :: "(string \<times> string) list \<Rightarrow> string \<Rightarrow> string option" where
  "pair_value ps k = map_of (rev ps) k"

section \<open>Jobs\<close>

text \<open>What runs: an image or a program, its arguments and its environment.\<close>

record job =
  jb_program :: string
  jb_args :: "string list"
  jb_env :: "string \<Rightarrow> string option"

text \<open>A dispatch gives an error, or the pid of the handle and the job the platform was told to start.\<close>

type_synonym dispatch_result = "string + (int \<times> job)"

section \<open>Fly Machines\<close>

record fly_config =
  fc_app :: string
  fc_image :: string

record fly_client =
  fy_token :: string
  fy_base_url :: string
  fy_build_err :: "string \<Rightarrow> string option"
  fy_do :: "http_request \<Rightarrow> http_reply"

definition flyMachinesBaseURL :: string where
  "flyMachinesBaseURL = ''https://api.machines.dev/v1''"

text \<open>Go prints a map with its keys in order; each key has its last value.\<close>

definition env_object :: "(string \<times> string) list \<Rightarrow> (string \<times> string) list" where
  "env_object ps = map (\<lambda>k. (k, case pair_value ps k of None \<Rightarrow> [] | Some v \<Rightarrow> v)) (sort (remdups (map fst ps)))"

definition fly_body :: "string \<Rightarrow> string list \<Rightarrow> (string \<times> string) list \<Rightarrow> json" where
  "fly_body img args env = JObj [(''config'', JObj
     ([(''image'', JStr img), (''auto_destroy'', JBool True)] @
      (if env \<noteq> [] then [(''env'', JObj (map (\<lambda>(k, v). (k, JStr v)) (env_object env)))] else []) @
      [(''init'', JObj (if args \<noteq> [] then [(''cmd'', JArr (map JStr args))] else []))]))]"

definition fly_request :: "fly_client \<Rightarrow> string \<Rightarrow> json \<Rightarrow> http_request" where
  "fly_request C app body = \<lparr>rq_method = ''POST'', rq_url = fy_base_url C @ ''/apps/'' @ app @ ''/machines'',
     rq_headers = [(''Authorization'', ''Bearer '' @ fy_token C), (''Content-Type'', ''application/json'')], rq_body = JsonBody body\<rparr>"

definition CreateMachine :: "fly_client \<Rightarrow> string \<Rightarrow> string \<Rightarrow> string list \<Rightarrow> (string \<times> string) list \<Rightarrow> string option" where
  "CreateMachine C app img args env = (let q = fly_request C app (fly_body img args env) in
     case fy_build_err C (rq_url q) of
       Some e \<Rightarrow> Some (''flymachines: build request: '' @ e)
     | None \<Rightarrow>
       (case fy_do C q of
          TransportError e \<Rightarrow> Some (''flymachines: POST machines: '' @ e)
        | Status code body \<Rightarrow>
          if 300 \<le> code then Some (''flymachines: POST machines: status '' @ itoa code @ '': '' @ TrimSpace (take 4096 body)) else None))"

definition fly_Dispatch :: "fly_client \<Rightarrow> fly_config \<Rightarrow> dispatch_request \<Rightarrow> dispatch_result" where
  "fly_Dispatch C cfg req = (case env_pairs (dr_env req) of
       Inl kv \<Rightarrow> Inl (malformed ''flymachines'' kv)
     | Inr env \<Rightarrow> (case CreateMachine C (fc_app cfg) (fc_image cfg) (dr_args req) env of
         Some e \<Rightarrow> Inl (''flymachines: dispatch: '' @ e)
       | None \<Rightarrow> Inr (0, \<lparr>jb_program = fc_image cfg, jb_args = dr_args req, jb_env = map_of (env_object env)\<rparr>)))"

section \<open>Kubernetes jobs\<close>

record k8s_config =
  kc_namespace :: string
  kc_image :: string
  kc_service_account :: string

record k8s_job =
  kj_name :: string
  kj_namespace :: string
  kj_completions :: int
  kj_backoff_limit :: int
  kj_ttl_seconds :: int
  kj_service_account :: string
  kj_restart_policy :: string
  kj_container :: string
  kj_image :: string
  kj_args :: "string list"
  kj_env :: "(string \<times> string) list"

type_synonym k8s_client = "k8s_job \<Rightarrow> string option"

definition k8s_CreateJob :: "k8s_client \<Rightarrow> k8s_config \<Rightarrow> string \<Rightarrow> string list \<Rightarrow> string list \<Rightarrow> string + k8s_job" where
  "k8s_CreateJob create cfg name args env = (case env_pairs env of
       Inl kv \<Rightarrow> Inl (malformed ''k8sjobs'' kv)
     | Inr ps \<Rightarrow>
       (let j = \<lparr>kj_name = name, kj_namespace = kc_namespace cfg, kj_completions = 1, kj_backoff_limit = 0, kj_ttl_seconds = 300,
          kj_service_account = kc_service_account cfg, kj_restart_policy = ''Never'', kj_container = ''runner'',
          kj_image = kc_image cfg, kj_args = args, kj_env = ps\<rparr> in
        case create j of Some e \<Rightarrow> Inl (''k8sjobs: create job '' @ quoted name @ '': '' @ e) | None \<Rightarrow> Inr j))"

definition k8s_Dispatch :: "k8s_client \<Rightarrow> k8s_config \<Rightarrow> string \<Rightarrow> dispatch_request \<Rightarrow> dispatch_result" where
  "k8s_Dispatch create cfg newid req = (case k8s_CreateJob create cfg (''cf-runner-'' @ newid) (dr_args req) (dr_env req) of
       Inl e \<Rightarrow> Inl (''k8sjobs: dispatch: '' @ e)
     | Inr j \<Rightarrow> Inr (0, \<lparr>jb_program = kj_image j, jb_args = kj_args j, jb_env = pair_value (kj_env j)\<rparr>))"

section \<open>Azure Container Apps\<close>

record azure_config =
  az_resource_group :: string
  az_job_name :: string
  az_image :: string

record arm_template =
  at_container :: string
  at_image :: string
  at_args :: "string list"
  at_env :: "(string \<times> string) list"

record arm_client =
  ar_begin_start :: "string \<Rightarrow> string \<Rightarrow> arm_template \<Rightarrow> string option"
  ar_poll :: "string option \<Rightarrow> string + string option"

definition toARMTemplate :: "string \<Rightarrow> string list \<Rightarrow> string list \<Rightarrow> string + arm_template" where
  "toARMTemplate img args env =
     (if img = [] then Inl ''toARMTemplate: ContainerImage must not be empty''
      else case env_pairs env of
        Inl kv \<Rightarrow> Inl (malformed ''toARMTemplate'' kv)
      | Inr ps \<Rightarrow> Inr \<lparr>at_container = ''runner'', at_image = img, at_args = args, at_env = ps\<rparr>)"

text \<open>The execution is started first; the error of waiting for its name comes after it runs.\<close>

definition BeginStartExecution :: "arm_client \<Rightarrow> string \<Rightarrow> string \<Rightarrow> string + arm_template \<Rightarrow> (string + string) \<times> arm_template option" where
  "BeginStartExecution C rg jobName tmpl = (case tmpl of
       Inl e \<Rightarrow> (Inl e, None)
     | Inr t \<Rightarrow>
       (case ar_begin_start C rg jobName t of
          Some e \<Rightarrow> (Inl (''BeginStart: '' @ e), None)
        | None \<Rightarrow>
          (case ar_poll C None of
             Inl e \<Rightarrow> (Inl (''PollUntilDone: '' @ e), Some t)
           | Inr None \<Rightarrow> (Inl ''ARM response missing execution name'', Some t)
           | Inr (Some n) \<Rightarrow> (Inr n, Some t))))"

definition azure_Dispatch :: "arm_client \<Rightarrow> azure_config \<Rightarrow> dispatch_request \<Rightarrow> dispatch_result \<times> arm_template option" where
  "azure_Dispatch C cfg req =
     (case BeginStartExecution C (az_resource_group cfg) (az_job_name cfg) (toARMTemplate (az_image cfg) (dr_args req) (dr_env req)) of
        (Inl e, started) \<Rightarrow> (Inl (''cloud/azure: dispatch job '' @ az_job_name cfg @ '': '' @ e), started)
      | (Inr n, started) \<Rightarrow> (case started of
            None \<Rightarrow> (Inl [], None)
          | Some t \<Rightarrow> (Inr (0, \<lparr>jb_program = at_image t, jb_args = at_args t, jb_env = pair_value (at_env t)\<rparr>), Some t)))"

section \<open>Child processes\<close>

text \<open>
  The child's environment is the server's with the entries of the request after it; an entry
  without an equals sign stands for nothing.
\<close>

definition child_env :: "string list \<Rightarrow> string \<Rightarrow> string option" where
  "child_env env = pair_value (concat (map (\<lambda>kv. case Cut kv of None \<Rightarrow> [] | Some p \<Rightarrow> [p]) env))"

definition subprocess_Dispatch :: "(string \<Rightarrow> string list \<Rightarrow> string list \<Rightarrow> string + int) \<Rightarrow> string list \<Rightarrow> dispatch_request \<Rightarrow> dispatch_result" where
  "subprocess_Dispatch exec environ req = (let env = environ @ dr_env req in
     case exec (dr_binary_path req) (dr_args req) env of
       Inl e \<Rightarrow> Inl (''cloud: subprocess: start '' @ dr_binary_path req @ '': '' @ e)
     | Inr pid \<Rightarrow> Inr (pid, \<lparr>jb_program = dr_binary_path req, jb_args = dr_args req, jb_env = child_env env\<rparr>))"

section \<open>The contract\<close>

text \<open>
  A job that was started runs with the arguments of the request, and every variable the
  request sets has there the value the request gives it last.
\<close>

definition carries :: "dispatch_request \<Rightarrow> job \<Rightarrow> bool" where
  "carries req j \<longleftrightarrow> jb_args j = dr_args req \<and>
     (\<forall>ps k v. env_pairs (dr_env req) = Inr ps \<longrightarrow> pair_value ps k = Some v \<longrightarrow> jb_env j k = Some v)"

locale dispatcher =
  fixes dispatch :: "dispatch_request \<Rightarrow> dispatch_result"
  assumes dispatch_carries: "dispatch req = Inr (pid, j) \<Longrightarrow> carries req j"
begin

lemma job_variable:
  assumes "dispatch req = Inr (pid, j)" "env_pairs (dr_env req) = Inr ps" "pair_value ps k = Some v"
  shows "jb_env j k = Some v"
  using dispatch_carries [OF assms(1)] assms(2,3) by (simp add: carries_def)

lemma job_args: "dispatch req = Inr (pid, j) \<Longrightarrow> jb_args j = dr_args req"
  using dispatch_carries by (simp add: carries_def)

end

lemma pair_value_append: "pair_value ps k = Some v \<Longrightarrow> pair_value (qs @ ps) k = Some v"
  by (simp add: pair_value_def)

lemma map_of_tabulated: "map_of (map (\<lambda>k. (k, f k)) ks) k = (if k \<in> set ks then Some (f k) else None)"
  by (induction ks) auto

lemma env_object_value: "map_of (env_object ps) k = pair_value ps k"
proof (cases "pair_value ps k")
  case None
  then have "k \<notin> set (map fst ps)" by (simp add: pair_value_def map_of_eq_None_iff image_def)
  then show ?thesis using None by (simp add: env_object_def map_of_tabulated)
next
  case (Some v)
  then have "k \<in> set (map fst ps)" using map_of_SomeD [of "rev ps" k v] by (force simp: pair_value_def)
  then show ?thesis using Some by (simp add: env_object_def map_of_tabulated)
qed

lemma child_pairs: "env_pairs env = Inr ps \<Longrightarrow> concat (map (\<lambda>kv. case Cut kv of None \<Rightarrow> [] | Some p \<Rightarrow> [p]) env) = ps"
  by (induction env arbitrary: ps) (auto split: option.splits sum.splits)

interpretation fly: dispatcher "fly_Dispatch C cfg" for C cfg
  by unfold_locales (auto simp: fly_Dispatch_def carries_def env_object_value split: sum.splits option.splits)

interpretation k8s: dispatcher "k8s_Dispatch create cfg newid" for create cfg newid
  by unfold_locales (auto simp: k8s_Dispatch_def k8s_CreateJob_def carries_def Let_def split: sum.splits option.splits)

interpretation azure: dispatcher "\<lambda>req. fst (azure_Dispatch C cfg req)" for C cfg
  by unfold_locales (auto simp: azure_Dispatch_def BeginStartExecution_def toARMTemplate_def carries_def
    split: sum.splits option.splits if_splits)

interpretation child: dispatcher "subprocess_Dispatch exec environ" for exec environ
  by unfold_locales (auto simp: subprocess_Dispatch_def carries_def Let_def child_env_def child_pairs pair_value_append split: sum.splits)

text \<open>
  An execution whose name cannot be read has started all the same, and the dispatch fails: the
  scheduler then leaves the run pending.
\<close>

lemma azure_error_after_start:
  assumes "env_pairs (dr_env req) = Inr ps" "az_image cfg \<noteq> []" "ar_begin_start C (az_resource_group cfg) (az_job_name cfg) = (\<lambda>t. None)"
    and "ar_poll C None = Inl e"
  shows "\<exists>t msg. azure_Dispatch C cfg req = (Inl msg, Some t)"
  using assms by (simp add: azure_Dispatch_def BeginStartExecution_def toARMTemplate_def)

end
