(* ===== verification/Serve.thy ===== *)
theory Serve
  imports Github_App Dispatchers Secret_Store Chat Session_Claims Web_Users
begin

text \<open>
  The start of the server (cmd/cronfoundry/serve.go): the environment is validated, the
  organization is loaded, the table of users is seeded once, the collaborators are chosen and
  configured, orphaned runs are swept, and the service comes up or refuses to. What listens,
  loops and shuts down afterwards is the operating system's; the routes and the scheduler it
  starts are modelled in their own theories.
\<close>

section \<open>Reading the environment\<close>

text \<open>A variable that is not set reads as the empty string.\<close>

record 'k serve_env =
  sv_getenv :: "string \<Rightarrow> string"
  sv_github :: "'k github_lib"
  sv_open_pool :: "string \<Rightarrow> string option"
  sv_err_text :: "db_err \<Rightarrow> string"
  sv_gcm :: gcm_lib
  sv_web_libs :: web_libs
  sv_executable :: "string + string"
  sv_in_cluster :: "string option"
  sv_azure_credential :: "string option"
  sv_arm_client :: "string \<Rightarrow> string option"
  sv_kv_client :: "string \<Rightarrow> string option"

definition splitLogins :: "string \<Rightarrow> string list" where
  "splitLogins raw = (if raw = [] then [] else filter (\<lambda>t. t \<noteq> []) (map TrimSpace (split_on (CHR '','') raw)))"

definition envInt :: "(string \<Rightarrow> string) \<Rightarrow> string \<Rightarrow> int \<Rightarrow> int" where
  "envInt getenv name dflt = (let v = getenv name in
     if v = [] then dflt else case ParseInt 64 v of Some i \<Rightarrow> i | None \<Rightarrow> dflt)"

definition envBool :: "(string \<Rightarrow> string) \<Rightarrow> string \<Rightarrow> bool" where
  "envBool getenv name \<longleftrightarrow> to_lower (getenv name) \<in> {''1'', ''true'', ''yes''}"

definition required :: "string \<Rightarrow> string" where
  "required name = name @ '' is required''"

record serve_config =
  sf_master :: string
  sf_dsn :: string
  sf_app_id :: string
  sf_pem :: string
  sf_client_id :: string
  sf_client_secret :: string
  sf_admin_logins :: "string list"
  sf_viewer_logins :: "string list"

text \<open>The checks before anything is opened, in the order of the code.\<close>

definition load_config :: "'k serve_env \<Rightarrow> string + serve_config" where
  "load_config E = (let g = sv_getenv E in
     if g ''CRONFOUNDRY_MASTER_KEY'' = [] then Inl (required ''CRONFOUNDRY_MASTER_KEY'')
     else case parseMasterKey (g ''CRONFOUNDRY_MASTER_KEY'') of
       Inl e \<Rightarrow> Inl (''parse master key: '' @ e)
     | Inr master \<Rightarrow>
       if g ''CRONFOUNDRY_DATABASE_URL'' = [] then Inl (required ''CRONFOUNDRY_DATABASE_URL'')
       else if g ''CRONFOUNDRY_GITHUB_APP_ID'' = [] \<or> g ''CRONFOUNDRY_GITHUB_APP_PEM'' = []
       then Inl ''CRONFOUNDRY_GITHUB_APP_ID and CRONFOUNDRY_GITHUB_APP_PEM are required''
       else if g ''CRONFOUNDRY_GITHUB_OAUTH_CLIENT_ID'' = [] then Inl (required ''CRONFOUNDRY_GITHUB_OAUTH_CLIENT_ID'')
       else if g ''CRONFOUNDRY_GITHUB_OAUTH_CLIENT_SECRET'' = [] then Inl (required ''CRONFOUNDRY_GITHUB_OAUTH_CLIENT_SECRET'')
       else if g ''CRONFOUNDRY_ADMIN_LOGINS'' = [] then Inl ''CRONFOUNDRY_ADMIN_LOGINS must contain at least one login''
       else case ReadPEM (sv_github E) (g ''CRONFOUNDRY_GITHUB_APP_PEM'') of
         Inl e \<Rightarrow> Inl (''read PEM: '' @ e)
       | Inr pem \<Rightarrow> Inr \<lparr>sf_master = master, sf_dsn = g ''CRONFOUNDRY_DATABASE_URL'', sf_app_id = g ''CRONFOUNDRY_GITHUB_APP_ID'', sf_pem = pem,
           sf_client_id = g ''CRONFOUNDRY_GITHUB_OAUTH_CLIENT_ID'', sf_client_secret = g ''CRONFOUNDRY_GITHUB_OAUTH_CLIENT_SECRET'',
           sf_admin_logins = splitLogins (g ''CRONFOUNDRY_ADMIN_LOGINS''), sf_viewer_logins = splitLogins (g ''CRONFOUNDRY_VIEWER_LOGINS'')\<rparr>)"

definition rate_config_of :: "(string \<Rightarrow> string) \<Rightarrow> rate_config" where
  "rate_config_of g = \<lparr>rl_trust_proxy = envBool g ''CRONFOUNDRY_TRUST_PROXY'', rl_disabled = envBool g ''CRONFOUNDRY_RATE_DISABLED'',
     rl_api_rpm = envInt g ''CRONFOUNDRY_RATE_API_RPM'' 60, rl_oauth_rpm = envInt g ''CRONFOUNDRY_RATE_OAUTH_RPM'' 10,
     rl_webhook_rpm = envInt g ''CRONFOUNDRY_RATE_WEBHOOK_RPM'' 300, rl_sse_max_concurrent = envInt g ''CRONFOUNDRY_RATE_SSE_MAX_CONCURRENT'' 5,
     rl_lru_size = envInt g ''CRONFOUNDRY_RATE_LRU_SIZE'' 4096\<rparr>"

definition chat_config_of :: "(string \<Rightarrow> string) \<Rightarrow> chat_config" where
  "chat_config_of g = (let provider = g ''CRONFOUNDRY_CHAT_PROVIDER''; model = g ''CRONFOUNDRY_CHAT_MODEL'';
       key = g ''CRONFOUNDRY_CHAT_API_KEY_SECRET''; pre = g ''CRONFOUNDRY_CHAT_COPILOT_PREFIX'';
       ready = (if provider = ''copilot-enterprise'' then pre \<noteq> [] else key \<noteq> []) in
     \<lparr>ch_enabled = (provider \<noteq> [] \<and> model \<noteq> [] \<and> ready), ch_provider = provider, ch_model = model, ch_api_key_secret = key,
      ch_copilot_prefix = pre, ch_max_turns = envInt g ''CRONFOUNDRY_CHAT_MAX_TURNS'' 0, ch_max_tokens = envInt g ''CRONFOUNDRY_CHAT_MAX_TOKENS'' 0\<rparr>)"

section \<open>Choosing the dispatcher and the secret store\<close>

datatype platform = FlyPlatform string fly_config | K8sPlatform k8s_config | AzurePlatform string azure_config | SubprocessPlatform

definition show_bool :: "bool \<Rightarrow> string" where
  "show_bool b = (if b then ''true'' else ''false'')"

definition buildJobDispatcher :: "'k serve_env \<Rightarrow> string + platform" where
  "buildJobDispatcher E = (let g = sv_getenv E; app = g ''FLY_RUNNER_APP''; ns = g ''K8S_RUNNER_NAMESPACE'';
       rg = g ''AZURE_CAE_RESOURCE_GROUP''; jobName = g ''AZURE_CAE_JOB_NAME''; subID = g ''AZURE_SUBSCRIPTION_ID''; img = g ''AZURE_CAE_JOB_IMAGE'' in
     if app \<noteq> [] then
       (if g ''FLY_API_TOKEN'' = [] then Inl ''FLY_RUNNER_APP is set but FLY_API_TOKEN is missing''
        else if g ''FLY_RUNNER_IMAGE'' = [] then Inl ''FLY_RUNNER_APP is set but FLY_RUNNER_IMAGE is missing''
        else Inr (FlyPlatform (g ''FLY_API_TOKEN'') \<lparr>fc_app = app, fc_image = g ''FLY_RUNNER_IMAGE''\<rparr>))
     else if ns \<noteq> [] then
       (if g ''K8S_RUNNER_IMAGE'' = [] then Inl ''K8S_RUNNER_NAMESPACE is set but K8S_RUNNER_IMAGE is missing''
        else case sv_in_cluster E of
          Some e \<Rightarrow> Inl (''k8s in-cluster client: '' @ e)
        | None \<Rightarrow> Inr (K8sPlatform \<lparr>kc_namespace = ns, kc_image = g ''K8S_RUNNER_IMAGE'',
            kc_service_account = (if g ''K8S_RUNNER_SERVICE_ACCOUNT'' = [] then ''cf-runner'' else g ''K8S_RUNNER_SERVICE_ACCOUNT'')\<rparr>))
     else if rg = [] \<or> jobName = [] \<or> subID = [] then
       (if rg \<noteq> [] \<or> jobName \<noteq> [] \<or> subID \<noteq> []
        then Inl (''partial Azure dispatcher config: AZURE_CAE_RESOURCE_GROUP='' @ show_bool (rg \<noteq> []) @ '' AZURE_CAE_JOB_NAME='' @
          show_bool (jobName \<noteq> []) @ '' AZURE_SUBSCRIPTION_ID='' @ show_bool (subID \<noteq> []) @ em_dash @ ''all three are required'')
        else Inr SubprocessPlatform)
     else if img = [] then Inl ''AZURE_CAE_JOB_IMAGE is required when Azure dispatcher is configured''
     else case sv_azure_credential E of
       Some e \<Rightarrow> Inl (''azure credential: '' @ e)
     | None \<Rightarrow> (case sv_arm_client E subID of
         Some e \<Rightarrow> Inl (''arm jobs client: '' @ e)
       | None \<Rightarrow> Inr (AzurePlatform subID \<lparr>az_resource_group = rg, az_job_name = jobName, az_image = img\<rparr>)))"

text \<open>The platforms' clients, for the dispatchers that are built on them.\<close>

record platforms =
  pf_fly :: "string \<Rightarrow> fly_client"
  pf_k8s :: k8s_client
  pf_new_uuid :: string
  pf_arm :: "string \<Rightarrow> arm_client"
  pf_exec :: "string \<Rightarrow> string list \<Rightarrow> string list \<Rightarrow> string + int"
  pf_environ :: "string list"

definition platform_dispatch :: "platforms \<Rightarrow> platform \<Rightarrow> dispatch_request \<Rightarrow> dispatch_result" where
  "platform_dispatch P p req = (case p of
       FlyPlatform tok cfg \<Rightarrow> fly_Dispatch (pf_fly P tok) cfg req
     | K8sPlatform cfg \<Rightarrow> k8s_Dispatch (pf_k8s P) cfg (pf_new_uuid P) req
     | AzurePlatform sub cfg \<Rightarrow> fst (azure_Dispatch (pf_arm P sub) cfg req)
     | SubprocessPlatform \<Rightarrow> subprocess_Dispatch (pf_exec P) (pf_environ P) req)"

interpretation platform: dispatcher "platform_dispatch P p" for P p
  by unfold_locales (auto simp: platform_dispatch_def split: platform.splits
    intro: fly.dispatch_carries k8s.dispatch_carries azure.dispatch_carries child.dispatch_carries)

datatype store_choice = EnvelopeStore envelope_store | KeyVaultAt string

definition buildSecretStore :: "'k serve_env \<Rightarrow> uuid \<Rightarrow> string \<Rightarrow> string + store_choice" where
  "buildSecretStore E org master = (let kvURL = sv_getenv E ''AZURE_KEYVAULT_URL'' in
     if kvURL = [] then Inr (EnvelopeStore \<lparr>es_org_id = org, es_master = master, es_gcm = sv_gcm E\<rparr>)
     else case sv_azure_credential E of
       Some e \<Rightarrow> Inl (''azure credential: '' @ e)
     | None \<Rightarrow> (case sv_kv_client E kvURL of Some e \<Rightarrow> Inl (''keyvault client: '' @ e) | None \<Rightarrow> Inr (KeyVaultAt kvURL)))"

section \<open>Seeding the users\<close>

text \<open>A login that is already there counts as seeded; any other error is logged.\<close>

definition seedOne :: "uuid \<Rightarrow> string \<Rightarrow> string \<Rightarrow> (web, string, bool) sx" where
  "seedOne org role login = bind (attempt (CreateUser org login role)) (\<lambda>res.
     ret (case res of Inl e \<Rightarrow> e = ErrNoRows | Inr _ \<Rightarrow> True))"

primrec seed_all :: "uuid \<Rightarrow> string \<Rightarrow> string list \<Rightarrow> (web, string, nat) sx" where
  "seed_all org role [] = ret 0"
| "seed_all org role (l # ls) = bind (seedOne org role l) (\<lambda>ok. bind (seed_all org role ls) (\<lambda>n. ret ((if ok then 1 else 0) + n)))"

definition bootstrap_users :: "'k serve_env \<Rightarrow> uuid \<Rightarrow> string list \<Rightarrow> string list \<Rightarrow> (web, string, unit) sx" where
  "bootstrap_users E org admins viewers =
     bind (map_err (\<lambda>e. ''count users: '' @ sv_err_text E e) (CountUsers org)) (\<lambda>count.
     if count = 0 \<and> (admins \<noteq> [] \<or> viewers \<noteq> []) then
       bind (seed_all org ''admin'' admins) (\<lambda>seeded.
       bind (seed_all org ''viewer'' viewers) (\<lambda>_.
       if admins \<noteq> [] \<and> seeded = 0
       then throw (''bootstrap: all '' @ itoa (int (length admins)) @ '' admin seeds failed'' @ em_dash @ ''refusing to start with zero admins'')
       else ret ()))
     else ret ())"

section \<open>The service\<close>

record service =
  sr_config :: serve_config
  sr_org_id :: uuid
  sr_store :: store_choice
  sr_installations :: inst_config
  sr_platform :: platform
  sr_web :: web_deps
  sr_chat :: chat_config
  sr_runner_api_key :: string
  sr_runner_api_url :: string
  sr_runner_binary :: string
  sr_metrics_disabled :: bool

definition installs_config :: "(string \<Rightarrow> string) \<Rightarrow> serve_config \<Rightarrow> inst_config" where
  "installs_config g cfg = NewInstallationCache \<lparr>ig_app_id = sf_app_id cfg, ig_private_key = sf_pem cfg,
     ig_base_url = g ''CRONFOUNDRY_GITHUB_BASE_URL'', ig_token_ttl = 0\<rparr>"

definition web_deps_of :: "'k serve_env \<Rightarrow> string \<Rightarrow> int \<Rightarrow> serve_config \<Rightarrow> web_deps" where
  "web_deps_of E addr cadence cfg = (let g = sv_getenv E in
     \<lparr>wd_libs = sv_web_libs E, wd_master_key = sf_master cfg, wd_client_id = sf_client_id cfg, wd_client_secret = sf_client_secret cfg,
      wd_github_base = [], wd_queries = True, wd_public_base_url = g ''CRONFOUNDRY_PUBLIC_BASE_URL'',
      wd_webhook_secret = g ''CRONFOUNDRY_GITHUB_WEBHOOK_SECRET'', wd_api_base_url = ''http://'' @ addr,
      wd_app_slug = g ''CRONFOUNDRY_GITHUB_APP_SLUG'', wd_rate_limit = rate_config_of g, wd_sweep_interval = cadence\<rparr>)"

text \<open>Up to the point where the server listens and the scheduler loops; a failed sweep is only logged.\<close>

definition runServe :: "'k serve_env \<Rightarrow> string \<Rightarrow> int \<Rightarrow> (web, string, service) sx" where
  "runServe E addr cadence = (case load_config E of
       Inl e \<Rightarrow> throw e
     | Inr cfg \<Rightarrow>
       (case sv_open_pool E (sf_dsn cfg) of
          Some e \<Rightarrow> throw (''open pool: '' @ e)
        | None \<Rightarrow>
          bind (map_err (\<lambda>e. ''load organization (run `cronfoundry admin init`?): '' @ sv_err_text E e) GetFirstOrganization) (\<lambda>org.
          bind (bootstrap_users E (og_id org) (sf_admin_logins cfg) (sf_viewer_logins cfg)) (\<lambda>_.
          case buildSecretStore E (og_id org) (sf_master cfg) of
            Inl e \<Rightarrow> throw (''build secret store: '' @ e)
          | Inr store \<Rightarrow>
            bind (attempt (on_db SweepOrphans)) (\<lambda>_.
            case sv_executable E of
              Inl e \<Rightarrow> throw (''locate self binary: '' @ e)
            | Inr self \<Rightarrow>
              (case buildJobDispatcher E of
                 Inl e \<Rightarrow> throw (''build job dispatcher: '' @ e)
               | Inr p \<Rightarrow> ret \<lparr>sr_config = cfg, sr_org_id = og_id org, sr_store = store,
                   sr_installations = installs_config (sv_getenv E) cfg, sr_platform = p, sr_web = web_deps_of E addr cadence cfg,
                   sr_chat = chat_config_of (sv_getenv E), sr_runner_api_key = sv_getenv E ''CRONFOUNDRY_RUNNER_API_KEY'',
                   sr_runner_api_url = sv_getenv E ''CRONFOUNDRY_API_BASE_URL'', sr_runner_binary = self,
                   sr_metrics_disabled = envBool (sv_getenv E) ''CRONFOUNDRY_METRICS_DISABLED''\<rparr>))))))"

text \<open>
  What holds when the server has started: the job of every dispatched run gets the token, the
  id and the URL of the request whatever the platform, and the seeding of the users leaves an
  admin when it succeeds, touches no table that has users, and can still be defeated by a
  restart.
\<close>

section \<open>Jobs of every platform\<close>

lemma Cut_variable: "CHR ''='' \<notin> set k \<Longrightarrow> Cut (k @ CHR ''='' # v) = Some (k, v)"
proof -
  assume "CHR ''='' \<notin> set k"
  then have "\<not> sublist ''='' (k @ butlast ''='')" by (auto simp: sublist_def)
  then show ?thesis using cut_sub_skip [of "CHR ''=''" "[]" k v] by (simp add: Cut_def)
qed

definition runner_url :: "sched_deps \<Rightarrow> string" where
  "runner_url deps = (if sd_runner_api_url deps = [] then sd_api_base_url deps else sd_runner_api_url deps)"

lemma runner_pairs:
  "env_pairs (dr_env (runner_request deps args tok)) = Inr ([(''CRONFOUNDRY_API_URL'', runner_url deps),
     (''CRONFOUNDRY_RUN_ID'', uuid_string (sd_libs deps) (da_run_id args)), (''CRONFOUNDRY_RUN_TOKEN'', tok)] @
     (if github_token deps (da_install_id args) \<noteq> [] then [(''GITHUB_TOKEN'', github_token deps (da_install_id args))] else []))"
proof -
  have c: "Cut (''CRONFOUNDRY_API_URL='' @ v) = Some (''CRONFOUNDRY_API_URL'', v)" "Cut (''CRONFOUNDRY_RUN_ID='' @ v) = Some (''CRONFOUNDRY_RUN_ID'', v)"
    "Cut (''CRONFOUNDRY_RUN_TOKEN='' @ v) = Some (''CRONFOUNDRY_RUN_TOKEN'', v)" "Cut (''GITHUB_TOKEN='' @ v) = Some (''GITHUB_TOKEN'', v)" for v
    using Cut_variable [of "''CRONFOUNDRY_API_URL''" v] Cut_variable [of "''CRONFOUNDRY_RUN_ID''" v]
      Cut_variable [of "''CRONFOUNDRY_RUN_TOKEN''" v] Cut_variable [of "''GITHUB_TOKEN''" v] by simp_all
  show ?thesis
    by (simp add: runner_request_def Let_def runner_url_def c [unfolded append_Cons append_Nil])
qed


definition sample_platforms :: platforms where
  "sample_platforms = \<lparr>pf_fly = (\<lambda>tok. \<lparr>fy_token = tok, fy_base_url = flyMachinesBaseURL, fy_build_err = (\<lambda>u. None), fy_do = (\<lambda>q. Status 200 [])\<rparr>),
     pf_k8s = (\<lambda>j. None), pf_new_uuid = ''u'', pf_arm = (\<lambda>s. \<lparr>ar_begin_start = (\<lambda>g n t. None), ar_poll = (\<lambda>n. Inr (Some ''x''))\<rparr>),
     pf_exec = (\<lambda>b a e. Inr 4242), pf_environ = [''PATH=/bin'', ''CRONFOUNDRY_RUN_TOKEN=old'']\<rparr>"

definition sample_args :: dispatch_args where
  "sample_args = \<lparr>da_run_id = 5, da_org_id = 9, da_timeout_sec = 60, da_secret_refs = [], da_install_id = 0, da_schedule_name = ''s''\<rparr>"


section \<open>The users\<close>

definition all_admins :: "uuid \<Rightarrow> web \<Rightarrow> bool" where
  "all_admins org w \<longleftrightarrow> (\<forall>u \<in> set (ww_users w). usr_org_id u = org \<longrightarrow> usr_role u = ''admin'')"

lemma CreateUser_adds: "\<exists>us. ww_users (snd (CreateUser org l r w)) = ww_users w @ us \<and> (\<forall>u \<in> set us. usr_role u = r)"
  by (auto simp: CreateUser_def web_stmt_run Let_def split: option.split)

lemma CreateUser_seeds:
  assumes "CreateUser org l r w = (Inr u, w')"
  shows "u \<in> set (ww_users w') \<and> usr_org_id u = org \<and> usr_role u = r"
proof -
  note run = web_stmt_Inr [OF assms [unfolded CreateUser_def]]
  show ?thesis using run by (auto simp: Let_def split: if_splits option.splits)
qed

lemma CreateUser_conflict: "CreateUser org l r w = (Inl ErrNoRows, w') \<Longrightarrow> \<exists>u \<in> set (ww_users w). usr_org_id u = org"
  by (auto simp: CreateUser_def web_stmt_run Let_def user_key_def split: if_splits option.splits dest!: find_member)

lemma seedOne_run: "seedOne org r l w = (Inr (case fst (CreateUser org l r w) of Inl e \<Rightarrow> e = ErrNoRows | Inr _ \<Rightarrow> True), snd (CreateUser org l r w))"
  by (simp add: seedOne_def bind_def attempt_def ret_def split: prod.split)

lemma seed_all_run:
  "\<exists>n us. seed_all org r ls w = (Inr n, snd (seed_all org r ls w)) \<and> ww_users (snd (seed_all org r ls w)) = ww_users w @ us \<and> (\<forall>u \<in> set us. usr_role u = r)"
proof (induction ls arbitrary: w)
  case (Cons l ls)
  obtain us where us: "ww_users (snd (CreateUser org l r w)) = ww_users w @ us" "\<forall>u \<in> set us. usr_role u = r"
    using CreateUser_adds by blast
  obtain n us' where r: "seed_all org r ls (snd (CreateUser org l r w)) = (Inr n, snd (seed_all org r ls (snd (CreateUser org l r w))))"
      "ww_users (snd (seed_all org r ls (snd (CreateUser org l r w)))) = ww_users (snd (CreateUser org l r w)) @ us'" "\<forall>u \<in> set us'. usr_role u = r"
    using Cons by blast
  have "seed_all org r (l # ls) w = (Inr ((if case fst (CreateUser org l r w) of Inl e \<Rightarrow> e = ErrNoRows | Inr _ \<Rightarrow> True then 1 else 0) + n),
      snd (seed_all org r ls (snd (CreateUser org l r w))))"
  proof -
    obtain w2 where w2: "seed_all org r ls (snd (CreateUser org l r w)) = (Inr n, w2)" using r(1) by blast
    then show ?thesis by (simp add: bind_def seedOne_run ret_def)
  qed
  then show ?case using us r(2,3) by auto
qed (simp add: ret_def)

text \<open>An admin login that was counted as seeded leaves an admin behind.\<close>

lemma seed_all_admin:
  assumes "all_admins org w" "seed_all org ''admin'' ls w = (Inr n, w')" "0 < n"
  shows "\<exists>u \<in> set (ww_users w'). usr_org_id u = org \<and> usr_role u = ''admin''"
  using assms
proof (induction ls arbitrary: w n)
  case (Cons l ls)
  let ?w1 = "snd (CreateUser org l ''admin'' w)"
  obtain us where us: "ww_users ?w1 = ww_users w @ us" "\<forall>u \<in> set us. usr_role u = ''admin''" using CreateUser_adds by blast
  then have a1: "all_admins org ?w1" using Cons.prems(1) by (auto simp: all_admins_def)
  obtain m us' where m: "seed_all org ''admin'' ls ?w1 = (Inr m, w')" "ww_users w' = ww_users ?w1 @ us'"
    using Cons.prems(2) seed_all_run [of org "''admin''" ls ?w1] by (auto simp: bind_def seedOne_run ret_def split: prod.splits sum.splits)
  show ?case
  proof (cases "fst (CreateUser org l ''admin'' w)")
    case (Inr u)
    then have "u \<in> set (ww_users ?w1) \<and> usr_org_id u = org \<and> usr_role u = ''admin''"
      using CreateUser_seeds [of org l "''admin''" w u ?w1] by (metis prod.collapse)
    then show ?thesis using m(2) by auto
  next
    case (Inl e)
    show ?thesis
    proof (cases "e = ErrNoRows")
      case True
      then obtain u where "u \<in> set (ww_users w)" "usr_org_id u = org"
        using CreateUser_conflict [of org l "''admin''" w ?w1] Inl by (metis prod.collapse)
      then show ?thesis using Cons.prems(1) us(1) m(2) by (auto simp: all_admins_def)
    next
      case False
      then have "0 < m" using Cons.prems(2,3) m(1) Inl by (auto simp: bind_def seedOne_run ret_def)
      then show ?thesis by (rule Cons.IH [OF a1 m(1)])
    qed
  qed
qed (simp add: ret_def)

text \<open>
  Seeding is done once and leaves an admin: when the organization has users already, the
  logins of the environment change nothing; when it has none and admins are asked for, the
  start goes on only if there is an admin afterwards.
\<close>

theorem bootstrap_leaves_admin:
  assumes "bootstrap_users E org admins viewers w = (Inr (), w')"
  shows "(users_of org (ww_users w) \<noteq> [] \<longrightarrow> ww_users w' = ww_users w) \<and>
    (users_of org (ww_users w) = [] \<and> admins \<noteq> [] \<longrightarrow> admins_of org (ww_users w') \<noteq> [])"
proof (cases "fault (ww_db w) (stmt_ctr (ww_db w))")
  case True
  then show ?thesis using assms by (simp add: bootstrap_users_def CountUsers_def web_stmt_run map_err_def bind_def)
next
  case False
  show ?thesis
  proof (cases "users_of org (ww_users w) = [] \<and> (admins \<noteq> [] \<or> viewers \<noteq> [])")
    case no: False
    then show ?thesis using assms False by (auto simp: bootstrap_users_def CountUsers_def web_stmt_run map_err_def bind_def ret_def)
  next
    case True
    obtain n where n: "seed_all org ''admin'' admins (counted w) = (Inr n, snd (seed_all org ''admin'' admins (counted w)))"
      using seed_all_run by blast
    let ?w1 = "snd (seed_all org ''admin'' admins (counted w))"
    obtain v us where v: "seed_all org ''viewer'' viewers ?w1 = (Inr v, snd (seed_all org ''viewer'' viewers ?w1))"
        "ww_users (snd (seed_all org ''viewer'' viewers ?w1)) = ww_users ?w1 @ us"
      using seed_all_run by blast
    have w': "w' = snd (seed_all org ''viewer'' viewers ?w1)" "admins \<noteq> [] \<longrightarrow> 0 < n"
      using assms False True n v(1)
      by (auto simp: bootstrap_users_def CountUsers_def web_stmt_run map_err_def bind_def ret_def throw_def split: if_splits prod.splits sum.splits)
    have "all_admins org (counted w)" using True by (auto simp: all_admins_def users_of_def filter_empty_conv)
    then have "admins \<noteq> [] \<longrightarrow> (\<exists>u \<in> set (ww_users ?w1). usr_org_id u = org \<and> usr_role u = ''admin'')"
      using seed_all_admin [OF _ n] w'(2) by blast
    then show ?thesis using True v(2) w'(1) by (auto simp: admins_of_def filter_empty_conv)
  qed
qed


section \<open>A restart defeats the guard\<close>

definition sample_getenv :: "string \<Rightarrow> string \<Rightarrow> string" where
  "sample_getenv admins name = (if name = ''CRONFOUNDRY_MASTER_KEY'' then std64_encode (replicate 32 (CHR ''m''))
     else if name = ''CRONFOUNDRY_DATABASE_URL'' then ''postgres://db'' else if name = ''CRONFOUNDRY_GITHUB_APP_ID'' then ''1''
     else if name = ''CRONFOUNDRY_GITHUB_APP_PEM'' then ''-----BEGIN'' else if name = ''CRONFOUNDRY_GITHUB_OAUTH_CLIENT_ID'' then ''id''
     else if name = ''CRONFOUNDRY_GITHUB_OAUTH_CLIENT_SECRET'' then ''cs'' else if name = ''CRONFOUNDRY_ADMIN_LOGINS'' then admins
     else if name = ''CRONFOUNDRY_VIEWER_LOGINS'' then ''bob'' else [])"

definition sample_serve :: "string \<Rightarrow> unit serve_env" where
  "sample_serve admins = \<lparr>sv_getenv = sample_getenv admins, sv_github = sample_github, sv_open_pool = (\<lambda>d. None), sv_err_text = (\<lambda>e. ''error''),
     sv_gcm = sample_gcm, sv_web_libs = sample_web_libs, sv_executable = Inr ''/bin/cronfoundry'', sv_in_cluster = None,
     sv_azure_credential = None, sv_arm_client = (\<lambda>s. None), sv_kv_client = (\<lambda>u. None)\<rparr>"

lemma sample_config: "load_config (sample_serve admins) = (if admins = [] then Inl ''CRONFOUNDRY_ADMIN_LOGINS must contain at least one login''
    else Inr \<lparr>sf_master = replicate 32 (CHR ''m''), sf_dsn = ''postgres://db'', sf_app_id = ''1'', sf_pem = ''-----BEGIN'', sf_client_id = ''id'',
      sf_client_secret = ''cs'', sf_admin_logins = splitLogins admins, sf_viewer_logins = [''bob'']\<rparr>)"
proof -
  have "parseMasterKey (std64_encode (replicate 32 (CHR ''m''))) = Inr (replicate 32 (CHR ''m''))"
    by (simp add: parseMasterKey_def std64.dec_enc keyLen_def)
  moreover have "std64_encode (replicate 32 (CHR ''m'')) \<noteq> []" by code_simp
  moreover have "splitLogins ''bob'' = [''bob'']" by code_simp
  moreover have "inline_pem ''-----BEGIN''" by code_simp
  ultimately show ?thesis
    by (simp add: load_config_def sample_serve_def sample_getenv_def Let_def ReadPEM_def)
qed


text \<open>A database on which the third statement of the start fails, and nothing else.\<close>

definition flaky_web :: web where
  "flaky_web = (sample_web [])\<lparr>ww_db := (sample_world ''skip'' [])\<lparr>fault := (\<lambda>n. n = 2)\<rparr>\<rparr>"

definition first_start :: "(string + service) \<times> web" where
  "first_start = runServe (sample_serve ''ann'') ''127.0.0.1:8080'' 30 flaky_web"

definition second_start :: "(string + service) \<times> web" where
  "second_start = runServe (sample_serve ''ann'') ''127.0.0.1:8080'' 30 (snd first_start)"

lemma sample_serve_simps [simp]:
  "sv_getenv (sample_serve a) = sample_getenv a" "sv_open_pool (sample_serve a) d = None" "sv_executable (sample_serve a) = Inr ''/bin/cronfoundry''"
  by (simp_all add: sample_serve_def)

lemmas start_defs = GetFirstOrganization_def bootstrap_users_def CountUsers_def CreateUser_def seedOne_def web_stmt_run bind_def map_err_def
  attempt_def ret_def throw_def users_of_def org_exists_def valid_role_column_def user_key_def Let_def flaky_web_def sample_web_def
  sample_world_def sample_getenv_def buildSecretStore_def buildJobDispatcher_def counted_def id_drawn_def
  SweepOrphans_def OrphanSweep_def stmt_def on_db_def admins_of_def

text \<open>
  The guard against a service without admins does not survive a restart. When the one
  admin cannot be stored, the first start fails as intended, but the viewers seeded after it
  stay; the second start finds a user, skips the seeding and comes up with no admin.
\<close>

theorem restart_without_admins:
  "\<exists>e svc. fst first_start = Inl e \<and> fst second_start = Inr svc \<and> sf_admin_logins (sr_config svc) = [''ann''] \<and>
     admins_of (sr_org_id svc) (ww_users (snd second_start)) = []"
proof -
  have a: "splitLogins ''ann'' = [''ann'']" by code_simp
  obtain w1 e where first: "first_start = (Inl e, w1)" and w1: "ww_orgs w1 = ww_orgs flaky_web" "map usr_role (ww_users w1) = [''viewer'']"
      "map usr_org_id (ww_users w1) = [9]" "stmt_ctr (ww_db w1) = 4" "fault (ww_db w1) = (\<lambda>n. n = 2)"
    by (simp add: first_start_def runServe_def sample_config a start_defs)
  obtain u where u: "ww_users w1 = [u]" "usr_role u = ''viewer''" "usr_org_id u = 9" using w1(2,3) by auto
  have "fault (ww_db w1) 4 = False" "fault (ww_db w1) 5 = False" "fault (ww_db w1) 6 = False" using w1(5) by simp_all
  then show ?thesis using w1(1,4) u
    by (simp add: second_start_def first runServe_def sample_config a start_defs)
qed


text \<open>A list of logins that holds no login passes the check for at least one.\<close>

lemma comma_is_not_a_login: "\<exists>cfg. load_config (sample_serve '','') = Inr cfg \<and> sf_admin_logins cfg = []"
proof -
  have "splitLogins '','' = []" by code_simp
  then show ?thesis by (simp add: sample_config)
qed

end
