(* ===== verification/Runner_Main.thy ===== *)
theory Runner_Main
  imports Runner_Cmd_Claims
begin

text \<open>
  The runner's own command line (cmd/runner/main.go): one schedule of a checkout is run with
  secrets from the process environment, the result is printed to the standard output as JSON,
  and what goes to the standard error passes a redactor. The text of a log line and of a JSON
  document are parameters.
\<close>

section \<open>The environment\<close>

text \<open>Entries without a name are skipped; of two entries with one name the later counts.\<close>

definition env_entry :: "string \<Rightarrow> (string \<times> string) list" where
  "env_entry kv = (case cut_sub ''='' kv of None \<Rightarrow> [] | Some (k, v) \<Rightarrow> if k = [] then [] else [(k, v)])"

definition envAsMap :: "string list \<Rightarrow> (string \<times> string) list" where
  "envAsMap environ = rev (concat (map env_entry environ))"

record run_flags =
  fl_repo :: string
  fl_manifest :: string
  fl_skill_path :: string
  fl_schedule_name :: string
  fl_llm_key_env :: string
  fl_llm_endpoint :: string
  fl_llm_deployment :: string
  fl_dry_run :: bool
  fl_skip_push :: bool

text \<open>The flags that must be given are the skill's path and the schedule's name.\<close>

definition default_flags :: "string \<Rightarrow> string \<Rightarrow> run_flags" where
  "default_flags skill sched = \<lparr>fl_repo = ''.'', fl_manifest = ''cronfoundry.yaml'', fl_skill_path = skill, fl_schedule_name = sched,
     fl_llm_key_env = ''OPENAI_API_KEY'', fl_llm_endpoint = [], fl_llm_deployment = [], fl_dry_run = False, fl_skip_push = False\<rparr>"

section \<open>Redacted output\<close>

record main_deps =
  md_environ :: "string list"
  md_runner :: runner_deps
  md_providers :: provider_lib
  md_network :: network
  md_err_text :: "run_err \<Rightarrow> string"
  md_log_line :: "string \<Rightarrow> string \<Rightarrow> (string \<times> string) list \<Rightarrow> string"
  md_indent :: "json \<Rightarrow> string"

text \<open>Both streams are the texts written to them, in order.\<close>

record main_out =
  mo_stdout :: "string list"
  mo_stderr :: "string list"

definition redacting_Write :: "redactor \<Rightarrow> string \<Rightarrow> main_out \<Rightarrow> main_out" where
  "redacting_Write r p out = out\<lparr>mo_stderr := mo_stderr out @ [Redact r p]\<rparr>"

text \<open>The handler redacts the message and the attributes, the writer below it the whole line again.\<close>

definition redacting_Handle :: "main_deps \<Rightarrow> redactor \<Rightarrow> string \<Rightarrow> string \<Rightarrow> (string \<times> string) list \<Rightarrow> main_out \<Rightarrow> main_out" where
  "redacting_Handle D r level msg attrs out =
     redacting_Write r (md_log_line D level (Redact r msg) (map (\<lambda>(k, v). (k, Redact r v)) attrs)) out"

definition redact_values :: "(string \<times> string) list \<Rightarrow> string \<Rightarrow> string list" where
  "redact_values env key = AllValues \<lparr>rv_env = env\<rparr> @
     (case map_of env key of None \<Rightarrow> [] | Some k \<Rightarrow> [k]) @ (case map_of env ''GITHUB_TOKEN'' of None \<Rightarrow> [] | Some t \<Rightarrow> [t])"

section \<open>The summary\<close>

definition pubSummary :: "publish_result list \<Rightarrow> json" where
  "pubSummary rs = JArr (map (\<lambda>r. JObj [(''detail'', JStr (pr_detail r)), (''error'', JStr (case pr_err r of None \<Rightarrow> [] | Some e \<Rightarrow> e)),
     (''ok'', JBool (pr_ok r)), (''type'', JStr (pr_type r))]) rs)"

definition run_summary_json :: "run_result \<Rightarrow> json" where
  "run_summary_json r = JObj [(''finished_at'', JStr (format_rfc3339 (rr_finished_at r))), (''input_tokens'', JNum (ug_input_tokens (rr_usage r))),
     (''output_tokens'', JNum (ug_output_tokens (rr_usage r))), (''publish_results'', pubSummary (rr_publish_results r)),
     (''started_at'', JStr (format_rfc3339 (rr_started_at r))), (''status'', JStr (rr_status r)), (''writeback_sha'', JStr (rr_writeback_sha r))]"

section \<open>The command\<close>

definition env_or_empty :: "(string \<times> string) list \<Rightarrow> string \<Rightarrow> string" where
  "env_or_empty env k = (case map_of env k of None \<Rightarrow> [] | Some v \<Rightarrow> v)"

definition main_deps_of :: "main_deps \<Rightarrow> (string \<times> string) list \<Rightarrow> runner_deps" where
  "main_deps_of D env = (md_runner D)\<lparr>rd_provider := NewProvider (md_providers D) (env_or_empty env),
     rd_publishers := runner_publishers (md_network D) (env_or_empty env ''GITHUB_TOKEN'')\<rparr>"

definition main_input :: "run_flags \<Rightarrow> (string \<times> string) list \<Rightarrow> string \<Rightarrow> run_input" where
  "main_input F env llmKey = \<lparr>ri_repo_root = fl_repo F, ri_manifest_path = fl_manifest F, ri_skill_path = fl_skill_path F,
     ri_schedule_name = fl_schedule_name F, ri_run_id = [], ri_secrets = \<lparr>rv_env = env\<rparr>, ri_llm_api_key = llmKey,
     ri_llm_endpoint = fl_llm_endpoint F, ri_llm_deployment = fl_llm_deployment F, ri_dry_run = fl_dry_run F, ri_skip_push = fl_skip_push F,
     ri_github_username = ''cronfoundry-bot'', ri_github_token = env_or_empty env ''GITHUB_TOKEN'', ri_mcp_servers = [], ri_mcp_env = None,
     ri_max_turns = 0\<rparr>"

text \<open>The error the command returns, if any, and what it has written.\<close>

definition runE :: "main_deps \<Rightarrow> run_flags \<Rightarrow> file_system \<Rightarrow> string option \<times> main_out" where
  "runE D F fs =
     (let env = envAsMap (md_environ D); r = Redactor_New (redact_values env (fl_llm_key_env F));
          out = \<lparr>mo_stdout = [], mo_stderr = []\<rparr>; llmKey = env_or_empty env (fl_llm_key_env F) in
      if llmKey = [] then (Some (''LLM key env var '' @ quoted (fl_llm_key_env F) @ '' is empty''), out)
      else case Run (main_deps_of D env) (main_input F env llmKey) (run_start fs) of
        (result, Some e, rs) \<Rightarrow> (Some (md_err_text D e), redacting_Handle D r ''ERROR'' ''run failed'' [(''err'', md_err_text D e)] out)
      | (result, None, rs) \<Rightarrow>
          (if rr_status result = ''succeeded'' then None else Some (''run finished with status '' @ rr_status result),
           out\<lparr>mo_stdout := [md_indent D (run_summary_json result) @ [CHR 0x0A]]\<rparr>))"

text \<open>The process: its exit code and its output. The redactor is the one the command has set.\<close>

definition main_run :: "main_deps \<Rightarrow> run_flags \<Rightarrow> file_system \<Rightarrow> int \<times> main_out" where
  "main_run D F fs =
     (let r = Redactor_New (redact_values (envAsMap (md_environ D)) (fl_llm_key_env F)) in
      case runE D F fs of
        (None, out) \<Rightarrow> (0, out)
      | (Some e, out) \<Rightarrow> (1, redacting_Write r (''error: '' @ e @ [CHR 0x0A]) out))"

section \<open>What the streams show\<close>

definition known_secret :: "main_deps \<Rightarrow> run_flags \<Rightarrow> string \<Rightarrow> bool" where
  "known_secret D F v \<longleftrightarrow> v \<in> set (redact_values (envAsMap (md_environ D)) (fl_llm_key_env F)) \<and> v \<noteq> [] \<and>
     CHR ''['' \<notin> set v \<and> CHR '']'' \<notin> set v \<and> \<not> sublist v ''REDACTED''"

lemma redacted_hides: "known_secret D F v \<Longrightarrow>
    \<not> sublist v (Redact (Redactor_New (redact_values (envAsMap (md_environ D)) (fl_llm_key_env F))) s)"
  unfolding Redact_def known_secret_def by (intro fold_hides) (auto simp: Redactor_New_def)

text \<open>The values of the secrets, the model's key and the GitHub token are all known to the redactor.\<close>

lemma resolved_is_known: "Resolver_Get \<lparr>rv_env = env\<rparr> n = Inr v \<Longrightarrow> v \<noteq> [] \<Longrightarrow> v \<in> set (redact_values env key)"
proof -
  assume g: "Resolver_Get \<lparr>rv_env = env\<rparr> n = Inr v" and v: "v \<noteq> []"
  let ?k = "secret_prefix @ to_upper n"
  have "map_of env ?k = Some v" using g by (simp add: Resolver_Get_def Let_def split: option.splits)
  then have "map_of (AList.clearjunk env) ?k = Some v" by (simp add: map_of_clearjunk)
  then have "(?k, v) \<in> set (AList.clearjunk env)" by (rule map_of_SomeD)
  then show ?thesis using v by (force simp: redact_values_def AllValues_def has_prefix_def)
qed

text \<open>
  Nothing the runner's command line writes to the standard error shows a secret: every
  text it writes there, whatever the run did and whatever the errors of the services say, is
  free of every value of the environment that the redactor knows.
\<close>

theorem cli_stderr_redacted:
  assumes "known_secret D F v"
  shows "\<forall>t \<in> set (mo_stderr (snd (main_run D F fs))). \<not> sublist v t"
proof -
  note h = redacted_hides [OF assms]
  have "\<forall>t \<in> set (mo_stderr (snd (runE D F fs))). \<not> sublist v t"
    by (auto simp: runE_def Let_def redacting_Handle_def redacting_Write_def h split: prod.split option.split)
  then show ?thesis
    by (auto simp: main_run_def Let_def redacting_Write_def h split: prod.split option.split)
qed

text \<open>
  The standard output has no such protection: the error of a destination goes into the summary
  as it is, and the error of a webhook that cannot be reached holds the webhook's URL, which is
  the secret itself.
\<close>

lemma summary_keeps_errors:
  assumes "pr \<in> set (rr_publish_results r)" "pr_err pr = Some e"
  shows "\<exists>rs fields. run_summary_json r = JObj fields \<and> (''publish_results'', JArr rs) \<in> set fields \<and> (\<exists>kvs. JObj kvs \<in> set rs \<and> (''error'', JStr e) \<in> set kvs)"
  using assms by (force simp: run_summary_json_def pubSummary_def)

definition sample_main :: main_deps where
  "sample_main = \<lparr>md_environ = [''OPENAI_API_KEY=topsecret'', ''PATH=/bin''], md_runner = sample_run_deps,
     md_providers = \<lparr>pl_openai = (\<lambda>_. talking_provider), pl_anthropic = (\<lambda>_. talking_provider), pl_azure_foundry = talking_provider,
       pl_copilot_enterprise = talking_provider\<rparr>, md_network = dead_network, md_err_text = (\<lambda>_. ''bad key topsecret''),
     md_log_line = (\<lambda>level msg attrs. level @ '' '' @ msg @ concat (map (\<lambda>(k, v). '' '' @ k @ ''='' @ v) attrs)), md_indent = (\<lambda>j. [])\<rparr>"

lemma sample_known: "known_secret sample_main (default_flags ''s'' ''n'') ''topsecret''"
  by code_simp

theorem cli_stderr_redacted_witness:
  "\<forall>t \<in> set (mo_stderr (snd (main_run sample_main (default_flags ''s'' ''n'') sample_run_fs))). \<not> sublist ''topsecret'' t"
  by (rule cli_stderr_redacted [OF sample_known])

end
