(* ===== verification/Shell_State.thy ===== *)
theory Shell_State
  imports Go_Json Base64 Prelude
begin

text \<open>
  The console of the commands, and the install-state file of the setup commands
  (internal/githubapp/state.go): assignments that a shell can source. The last section reads
  such a file back, by what bash documents of bare words and of its \<open>$'...'\<close>
  quoting, so that what the writer emits can be held against it.
\<close>

section \<open>The console\<close>

text \<open>The rest of the standard input, and the text written so far.\<close>

record console =
  co_in :: string
  co_out :: string

text \<open>A line with its newline, or the rest of the input; \<open>None\<close> at its end.\<close>

definition read_string :: "string \<Rightarrow> (string \<times> string) option" where
  "read_string s = (if s = [] then None
     else let l = takeWhile (\<lambda>c. c \<noteq> CHR 0x0A) s in
       (case drop (length l) s of [] \<Rightarrow> Some (l, []) | n # r \<Rightarrow> Some (l @ [n], r)))"

definition trim_right :: "string \<Rightarrow> string \<Rightarrow> string" where
  "trim_right cutset s = rev (dropWhile (\<lambda>c. c \<in> set cutset) (rev s))"

definition eol :: string where
  "eol = [CHR 0x0A]"

lemma read_string_splits: "read_string s = Some (l, r) \<Longrightarrow> s = l @ r \<and> l \<noteq> []"
proof -
  assume r: "read_string s = Some (l, r)"
  let ?l = "takeWhile (\<lambda>c. c \<noteq> CHR 0x0A) s"
  have "s = ?l @ drop (length ?l) s" by (metis append_take_drop_id takeWhile_eq_take)
  then show ?thesis using r by (cases "drop (length ?l) s") (auto simp: read_string_def Let_def split: if_splits)
qed

section \<open>Quoting\<close>

definition plain_byte :: "char \<Rightarrow> bool" where
  "plain_byte c \<longleftrightarrow> is_digit c \<or> is_alpha c \<or> c \<in> set ''_-./:@+=''"

definition ansi_byte :: "char \<Rightarrow> string" where
  "ansi_byte c = (if c = CHR 0x5C then [CHR 0x5C, CHR 0x5C] else if c = CHR 0x27 then [CHR 0x5C, CHR 0x27]
     else if c = CHR 0x0A then [CHR 0x5C, CHR ''n''] else if c = CHR 0x0D then [CHR 0x5C, CHR ''r'']
     else if c = CHR 0x09 then [CHR 0x5C, CHR ''t'']
     else if of_char c < (0x20::nat) \<or> c = CHR 0x7F then [CHR 0x5C, CHR ''x''] @ hex_encode [c] else [c])"

definition bashQuote :: "string \<Rightarrow> string" where
  "bashQuote s = (if s = [] then [CHR 0x27, CHR 0x27] else if list_all plain_byte s then s
     else [CHR ''$'', CHR 0x27] @ concat (map ansi_byte s) @ [CHR 0x27])"

section \<open>Appending to the file\<close>

text \<open>What the operating system answers: how many bytes a failing write stores, and the errors.\<close>

record state_io =
  io_open_err :: "string option"
  io_write_err :: "(nat \<times> string) option"
  io_close_err :: "string option"
  io_chmod_err :: "string option"

definition state_line :: "string \<times> string \<Rightarrow> string" where
  "state_line kv = fst kv @ ''='' @ bashQuote (snd kv) @ [CHR 0x0A]"

text \<open>The pairs stand for a map: their keys differ.\<close>

definition state_text :: "(string \<times> string) list \<Rightarrow> string" where
  "state_text kv = concat (map state_line (sort_key fst kv))"

definition SaveState :: "state_io \<Rightarrow> string \<Rightarrow> (string \<times> string) list \<Rightarrow> (string \<Rightarrow> string option) \<Rightarrow> (string + unit) \<times> (string \<Rightarrow> string option)" where
  "SaveState io path kv fs =
     (let old = (case fs path of None \<Rightarrow> [] | Some t \<Rightarrow> t) in
      case io_open_err io of Some e \<Rightarrow> (Inl (''githubapp: open state: '' @ e), fs)
      | None \<Rightarrow> (case io_write_err io of Some (n, e) \<Rightarrow> (Inl (''githubapp: write state: '' @ e), fs(path \<mapsto> old @ take n (state_text kv)))
        | None \<Rightarrow> (case io_close_err io of Some e \<Rightarrow> Inl (''githubapp: close state: '' @ e)
            | None \<Rightarrow> (case io_chmod_err io of Some e \<Rightarrow> Inl (''githubapp: chmod state: '' @ e) | None \<Rightarrow> Inr ()), fs(path \<mapsto> old @ state_text kv))))"

section \<open>Reading the file back\<close>

text \<open>
  The text after \<open>$'\<close> up to the closing quote, and what follows it. Of the escapes of bash only
  those that the writer uses are read; a NUL byte would end the word in bash.
\<close>

fun ansi_c :: "string \<Rightarrow> (string \<times> string) option" where
  "ansi_c [] = None"
| "ansi_c (c # r) =
    (if c = CHR 0x27 then Some ([], r)
     else if c \<noteq> CHR 0x5C then map_option (\<lambda>(v, t). (c # v, t)) (ansi_c r)
     else case r of
       [] \<Rightarrow> None
     | e # r1 \<Rightarrow>
       (if e = CHR 0x5C \<or> e = CHR 0x27 then map_option (\<lambda>(v, t). (e # v, t)) (ansi_c r1)
        else if e = CHR ''n'' then map_option (\<lambda>(v, t). (CHR 0x0A # v, t)) (ansi_c r1)
        else if e = CHR ''r'' then map_option (\<lambda>(v, t). (CHR 0x0D # v, t)) (ansi_c r1)
        else if e = CHR ''t'' then map_option (\<lambda>(v, t). (CHR 0x09 # v, t)) (ansi_c r1)
        else if e = CHR ''x'' then (case r1 of
            h # l # r2 \<Rightarrow> if is_hex h \<and> is_hex l \<and> hex_val h * 16 + hex_val l \<noteq> 0
              then map_option (\<lambda>(v, t). (char_of (hex_val h * 16 + hex_val l) # v, t)) (ansi_c r2) else None
          | _ \<Rightarrow> None)
        else None))"

definition read_word :: "string \<Rightarrow> string option" where
  "read_word w = (if w = [CHR 0x27, CHR 0x27] then Some [] else if list_all plain_byte w then Some w
     else case w of d # q # r \<Rightarrow> if d = CHR ''$'' \<and> q = CHR 0x27
         then (case ansi_c r of Some (v, []) \<Rightarrow> Some v | _ \<Rightarrow> None) else None
       | _ \<Rightarrow> None)"

definition shell_name :: "string \<Rightarrow> bool" where
  "shell_name k \<longleftrightarrow> k \<noteq> [] \<and> list_all (\<lambda>c. is_alpha c \<or> is_digit c \<or> c = CHR ''_'') k \<and> \<not> is_digit (hd k)"

definition read_assignment :: "string \<Rightarrow> (string \<times> string) option" where
  "read_assignment l = (case cut_at (CHR ''='') l of (k, w) \<Rightarrow>
     if shell_name k \<and> CHR ''='' \<in> set l then map_option (Pair k) (read_word w) else None)"

text \<open>Later assignments win.\<close>

fun source_lines :: "string list \<Rightarrow> (string \<Rightarrow> string option) \<Rightarrow> (string \<Rightarrow> string option) option" where
  "source_lines [] m = Some m"
| "source_lines (l # ls) m = (if l = [] then source_lines ls m
     else case read_assignment l of None \<Rightarrow> None | Some (k, v) \<Rightarrow> source_lines ls (m(k \<mapsto> v)))"

definition source :: "string \<Rightarrow> (string \<Rightarrow> string option) option" where
  "source t = source_lines (split_on (CHR 0x0A) t) Map.empty"

subsection \<open>What is written reads back\<close>

lemma plain_byte_facts: "plain_byte c \<Longrightarrow> c \<noteq> CHR 0x0A \<and> c \<noteq> CHR 0x27 \<and> c \<noteq> CHR ''$''"
  by (auto simp: plain_byte_def is_digit_def is_alpha_def)

lemma hex_byte_reads: "\<exists>h l. hex_encode [c] = [h, l] \<and> is_hex h \<and> is_hex l \<and> hex_val h * 16 + hex_val l = of_char c \<and> h \<noteq> CHR 0x0A \<and> l \<noteq> CHR 0x0A"
proof -
  have "(of_char c :: nat) < 256" by simp
  then have "(of_char c :: nat) div 16 < 16" "(of_char c :: nat) mod 16 < 16" by (rule high_bits) simp
  from this [THEN hex_digit_val] show ?thesis by (auto simp: hex_encode_def is_hex_def is_digit_def lower_char_def)
qed

lemma char_of_char_eq0: "(of_char c :: nat) = 0 \<Longrightarrow> c = CHR 0x00"
  proof -
  assume "(of_char c :: nat) = 0"
  then have "(of_char c :: nat) = of_char (CHR 0x00)" by simp
  then show ?thesis by (simp only: of_char_eq_iff)
qed

lemma ansi_byte_reads:
  assumes "c \<noteq> CHR 0x00"
  shows "ansi_c (ansi_byte c @ r) = map_option (\<lambda>(v, t). (c # v, t)) (ansi_c r)"
proof (cases "c \<in> {CHR 0x5C, CHR 0x27, CHR 0x0A, CHR 0x0D, CHR 0x09} \<or> \<not> (of_char c < (0x20::nat) \<or> c = CHR 0x7F)")
  case True
  then show ?thesis by (auto simp: ansi_byte_def)
next
  case False
  obtain h l where h: "hex_encode [c] = [h, l]" "is_hex h" "is_hex l" "hex_val h * 16 + hex_val l = of_char c"
    using hex_byte_reads [of c] by auto
  have "(of_char c :: nat) \<noteq> 0" using assms by (metis char_of_char_eq0)
  then have "hex_val h * 16 + hex_val l \<noteq> 0" using h(4) by simp
  moreover have "char_of (hex_val h * 16 + hex_val l) = c" using h(4) by simp
  ultimately show ?thesis using False h(1-3) by (simp add: ansi_byte_def del: add_is_0 mult_is_0)
qed

lemma ansi_c_reads: "CHR 0x00 \<notin> set s \<Longrightarrow> ansi_c (concat (map ansi_byte s) @ CHR 0x27 # r) = Some (s, r)"
proof (induction s)
  case (Cons c s)
  then have "c \<noteq> CHR 0x00" "ansi_c (concat (map ansi_byte s) @ CHR 0x27 # r) = Some (s, r)" by auto
  then show ?case using ansi_byte_reads [of c "concat (map ansi_byte s) @ CHR 0x27 # r"] by simp
qed simp

lemma bashQuote_reads: "CHR 0x00 \<notin> set s \<Longrightarrow> read_word (bashQuote s) = Some s"
proof (cases "s = [] \<or> list_all plain_byte s")
  case True
  then show ?thesis by (cases s) (auto simp: bashQuote_def read_word_def dest: plain_byte_facts)
next
  case False
  moreover assume "CHR 0x00 \<notin> set s"
  moreover have "\<not> plain_byte (CHR ''$'')" using plain_byte_facts by blast
  ultimately show ?thesis using ansi_c_reads [of s "[]"] by (simp add: bashQuote_def read_word_def)
qed

lemma ansi_byte_one_line: "CHR 0x0A \<notin> set (ansi_byte c)"
  using hex_byte_reads [of c] by (auto simp: ansi_byte_def)

lemma bashQuote_one_line: "CHR 0x0A \<notin> set (bashQuote s)"
  using ansi_byte_one_line plain_byte_facts by (auto simp: bashQuote_def list_all_iff)

lemma shell_name_facts: "shell_name k \<Longrightarrow> CHR 0x0A \<notin> set k \<and> CHR ''='' \<notin> set k"
  by (auto simp: shell_name_def list_all_iff is_alpha_def is_digit_def)

lemma read_state_line:
  assumes "shell_name k" "CHR 0x00 \<notin> set v"
  shows "read_assignment (k @ ''='' @ bashQuote v) = Some (k, v)"
proof -
  have "takeWhile (\<lambda>x. x \<noteq> CHR ''='') (k @ CHR ''='' # bashQuote v) = k"
    using shell_name_facts [OF assms(1)] by (subst takeWhile_append2) auto
  then show ?thesis using assms by (simp add: read_assignment_def cut_at_def bashQuote_reads)
qed

lemma source_lines_append: "source_lines (xs @ ys) m = Option.bind (source_lines xs m) (source_lines ys)"
  by (induction xs arbitrary: m) (auto split: option.split prod.split)

lemma source_lines_state:
  "\<forall>(k, v) \<in> set kv. shell_name k \<and> CHR 0x00 \<notin> set v \<Longrightarrow>
     source_lines (split_on (CHR 0x0A) (concat (map state_line kv))) m = Some (m ++ map_of (rev kv))"
proof (induction kv arbitrary: m)
  case Nil
  then show ?case by simp
next
  case (Cons p kv)
  obtain k v where p: "p = (k, v)" by (cases p)
  have k: "shell_name k" "CHR 0x00 \<notin> set v" using Cons.prems p by auto
  have nl: "CHR 0x0A \<notin> set (k @ ''='' @ bashQuote v)" using shell_name_facts [OF k(1)] bashQuote_one_line by simp
  have "source_lines (split_on (CHR 0x0A) (concat (map state_line kv))) (m(k \<mapsto> v)) = Some (m(k \<mapsto> v) ++ map_of (rev kv))"
    using Cons by simp
  moreover have "concat (map state_line (p # kv)) = (k @ ''='' @ bashQuote v) @ CHR 0x0A # concat (map state_line kv)"
    using p by (simp add: state_line_def)
  moreover have "m(k \<mapsto> v) ++ map_of (rev kv) = m ++ map_of (rev (p # kv))" using p by simp
  ultimately show ?case using split_on_append [OF nl] read_state_line [OF k] by simp
qed

lemma split_on_last: "\<exists>ls. split_on c (t @ [c]) = ls @ [[]]  \<and> (\<forall>u. split_on c (t @ c # u) = ls @ split_on c u)"
proof (induction t)
  case Nil
  then show ?case by (intro exI [of _ "[[]]"]) simp
next
  case (Cons x t)
  then obtain ls where ls: "split_on c (t @ [c]) = ls @ [[]]" "\<forall>u. split_on c (t @ c # u) = ls @ split_on c u" by blast
  show ?case
  proof (cases "x = c")
    case True
    then show ?thesis using ls by (intro exI [of _ "[] # ls"]) simp
  next
    case False
    have "ls \<noteq> []"
    proof
      assume "ls = []"
      then have "join_with [c] [[]] = t @ [c]" using ls(1) join_split [of c "t @ [c]"] by simp
      then show False by simp
    qed
    then obtain w ws where "ls = w # ws" by (cases ls) auto
    then show ?thesis using False ls by (intro exI [of _ "(x # w) # ws"]) simp
  qed
qed

text \<open>
  What the setup commands append to a state file that a shell can read is read by a shell as
  the assignments they meant, whatever bytes but NUL the values hold, and wins over what
  the file held before.
\<close>

theorem state_reads_back:
  assumes keys: "distinct (map fst kv)" "\<forall>(k, v) \<in> set kv. shell_name k \<and> CHR 0x00 \<notin> set v"
    and old: "old = [] \<or> last old = CHR 0x0A" "source old = Some m"
  shows "source (old @ state_text kv) = Some (m ++ map_of kv)"
proof -
  let ?s = "sort_key fst kv"
  have "distinct (rev ?s)" "inj_on fst (set (rev ?s))" using keys(1) by (simp_all add: distinct_map)
  then have d: "distinct (map fst (rev ?s))" by (simp only: distinct_map)
  have r: "map_of (rev ?s) = map_of kv" using map_of_eqI [of "rev ?s" kv] keys(1) d
    by (metis map_of_inject_set set_rev set_sort)
  have st: "source_lines (split_on (CHR 0x0A) (state_text kv)) m = Some (m ++ map_of kv)"
    using keys(2) source_lines_state [of ?s m] unfolding state_text_def r by simp
  show ?thesis
  proof (cases "old = []")
    case True
    then show ?thesis using st old(2) by (simp add: source_def)
  next
    case False
    then obtain t where t: "old = t @ [CHR 0x0A]" using old(1) by (metis append_butlast_last_id)
    obtain ls where ls: "split_on (CHR 0x0A) old = ls @ [[]]" "\<forall>u. split_on (CHR 0x0A) (t @ CHR 0x0A # u) = ls @ split_on (CHR 0x0A) u"
      using split_on_last [of "CHR 0x0A" t] t by blast
    have "source_lines ls Map.empty = Some m" using old(2) ls(1) by (simp add: source_def source_lines_append split: bind_splits)
    then show ?thesis using st ls(2) t by (simp add: source_def source_lines_append)
  qed
qed

end
