(* ===== verification/App_Setup.thy ===== *)
theory App_Setup
  imports Shell_State Github_App Paths "HOL-Library.Multiset"
begin

text \<open>
  The setup of the GitHub App (internal/githubapp and cmd/cronfoundry/setup_githubapp.go,
  setup_mintjwt.go): the manifest, the exchange of its code for credentials, the local callback
  server as a step relation over its shared state, the prompts of the manual way, and the two
  commands. GitHub, the random source and the operating system are parameters; the browser is
  any client that can reach the local port.
\<close>

section \<open>The manifest\<close>

record manifest_input =
  mi_name :: string
  mi_callback_url :: string
  mi_homepage_url :: string
  mi_webhook_url :: string
  mi_oauth_callback_url :: string

record app_manifest =
  am_name :: string
  am_url :: string
  am_hook_url :: string
  am_redirect_url :: string
  am_callback_urls :: "string list"
  am_setup_url :: string
  am_setup_on_update :: bool
  am_public :: bool
  am_default_events :: "string list"
  am_default_perms :: "(string \<times> string) list"

definition BuildManifest :: "manifest_input \<Rightarrow> app_manifest" where
  "BuildManifest i =
     (let base = mi_callback_url i in
      \<lparr>am_name = mi_name i, am_url = (if mi_homepage_url i = [] then base else mi_homepage_url i),
       am_hook_url = (if mi_webhook_url i = [] then base @ ''/webhook'' else mi_webhook_url i),
       am_redirect_url = base @ ''/callback'',
       am_callback_urls = [if mi_oauth_callback_url i = [] then base @ ''/oauth/callback'' else mi_oauth_callback_url i],
       am_setup_url = base @ ''/installed'', am_setup_on_update = True, am_public = False, am_default_events = [''push''],
       am_default_perms = [(''contents'', ''write''), (''issues'', ''write''), (''metadata'', ''read''), (''pull_requests'', ''write'')]\<rparr>)"

definition manifest_json :: "app_manifest \<Rightarrow> json" where
  "manifest_json m = JObj [(''name'', JStr (am_name m)), (''url'', JStr (am_url m)), (''hook_attributes'', JObj [(''url'', JStr (am_hook_url m))]),
     (''redirect_url'', JStr (am_redirect_url m)), (''callback_urls'', JArr (map JStr (am_callback_urls m))), (''setup_url'', JStr (am_setup_url m)),
     (''setup_on_update'', JBool (am_setup_on_update m)), (''public'', JBool (am_public m)), (''default_events'', JArr (map JStr (am_default_events m))),
     (''default_permissions'', JObj (map (\<lambda>(k, v). (k, JStr v)) (am_default_perms m)))]"

section \<open>The exchange of the code\<close>

record conversion =
  cv_id :: int
  cv_slug :: string
  cv_client_id :: string
  cv_client_secret :: string
  cv_webhook_secret :: string
  cv_pem :: string

text \<open>The libraries: building a request, decoding the answer, JSON text.\<close>

record setup_lib =
  sl_build_err :: "string \<Rightarrow> string option"
  sl_conversion :: "string \<Rightarrow> string + conversion"
  sl_marshal :: "json \<Rightarrow> string"

definition conversion_url :: "string \<Rightarrow> string \<Rightarrow> string" where
  "conversion_url base code = base @ ''/app-manifests/'' @ code @ ''/conversions''"

definition conversion_request :: "string \<Rightarrow> string \<Rightarrow> http_request" where
  "conversion_request base code = \<lparr>rq_method = ''POST'', rq_url = conversion_url base code,
     rq_headers = [(''Accept'', ''application/vnd.github+json''), (''User-Agent'', ''cronfoundry-setup'')], rq_body = http_body.TextBody []\<rparr>"

text \<open>
  The attempts left, the error of the last one, the network's answer to each attempt, and the
  error of the context if it ends while the next attempt waits.
\<close>

fun convert_from :: "setup_lib \<Rightarrow> string \<Rightarrow> string \<Rightarrow> (nat \<Rightarrow> http_reply) \<Rightarrow> string option \<Rightarrow> nat \<Rightarrow> nat \<Rightarrow> string \<Rightarrow> string + conversion" where
  "convert_from L base code net ctx 0 k lastErr = Inl lastErr"
| "convert_from L base code net ctx (Suc n) k lastErr =
     (case (if 0 < k then ctx else None) of Some e \<Rightarrow> Inl e
      | None \<Rightarrow>
        (case sl_build_err L (conversion_url base code) of Some e \<Rightarrow> Inl (''githubapp: build request: '' @ e)
         | None \<Rightarrow>
           (case net k of
              TransportError e \<Rightarrow> convert_from L base code net ctx n (Suc k) (''githubapp: do request: '' @ e)
            | Status st body \<Rightarrow>
              if 500 \<le> st then convert_from L base code net ctx n (Suc k) (''githubapp: http '' @ itoa st @ '': '' @ body)
              else if 400 \<le> st then Inl (''githubapp: http '' @ itoa st @ '': '' @ body)
              else case sl_conversion L body of Inl e \<Rightarrow> Inl (''githubapp: decode: '' @ e) | Inr c \<Rightarrow> Inr c)))"

definition Convert :: "setup_lib \<Rightarrow> string \<Rightarrow> (http_request \<Rightarrow> nat \<Rightarrow> http_reply) \<Rightarrow> string option \<Rightarrow> string \<Rightarrow> string + conversion" where
  "Convert L base net ctx code = convert_from L base code (net (conversion_request base code)) ctx 2 0 []"

text \<open>One retry, and only after an answer that may pass: a conversion comes from one of the two attempts.\<close>

lemma Convert_some: "Convert L base net ctx code = Inr c \<Longrightarrow>
    \<exists>k st body. k < 2 \<and> net (conversion_request base code) k = Status st body \<and> st < 400 \<and> sl_conversion L body = Inr c"
  by (auto simp: Convert_def numeral_2_eq_2 split: option.splits http_reply.splits if_splits sum.splits)

section \<open>Slugs and the key file\<close>

definition isSafeSlug :: "string \<Rightarrow> bool" where
  "isSafeSlug slug \<longleftrightarrow> slug \<noteq> [] \<and> length slug \<le> 64 \<and> hd slug \<noteq> CHR ''-'' \<and> last slug \<noteq> CHR ''-'' \<and>
     list_all (\<lambda>c. is_alpha c \<or> is_digit c \<or> c = CHR ''-'') slug"

text \<open>The operating system's errors, and the text of the files.\<close>

record setup_io =
  si_mkdir_err :: "string option"
  si_write_err :: "string option"
  si_state :: state_io

definition pem_path :: "string \<Rightarrow> string \<Rightarrow> string" where
  "pem_path dir slug = Join dir (slug @ ''.pem'')"

definition writePEM :: "setup_io \<Rightarrow> string \<Rightarrow> conversion \<Rightarrow> (string \<Rightarrow> string option) \<Rightarrow> (string + string) \<times> (string \<Rightarrow> string option)" where
  "writePEM io dir c fs =
     (case si_mkdir_err io of Some e \<Rightarrow> (Inl (''githubapp: mkdir pem-dir: '' @ e), fs)
      | None \<Rightarrow>
        if \<not> isSafeSlug (cv_slug c) then (Inl (''githubapp: refusing to write pem with unsafe slug '' @ quoted (cv_slug c)), fs)
        else (case si_write_err io of Some e \<Rightarrow> (Inl (''githubapp: write pem: '' @ e), fs)
          | None \<Rightarrow> (Inr (pem_path dir (cv_slug c)), fs(pem_path dir (cv_slug c) \<mapsto> cv_pem c))))"

section \<open>The callback server\<close>

text \<open>The state under the mutex, the closed channel, and a history of what the handlers did with nonces.\<close>

record setup_server =
  as_conv :: "conversion option"
  as_nonce :: string
  as_installation :: int
  as_conv_err :: "string option"
  as_done :: bool
  as_minted :: "string list"
  as_spent :: "string list"

definition server_start :: setup_server where
  "server_start = \<lparr>as_conv = None, as_nonce = [], as_installation = 0, as_conv_err = None, as_done = False, as_minted = [], as_spent = []\<rparr>"

text \<open>
  A handler holds the mutex for one group of assignments at a time. What is left of a request
  after its first group: nothing, the parsing of the installation, or the signal that the flow
  is over, with the status it answers.
\<close>

datatype handler_pc = HpNew | HpInstall string | HpSignal nat | HpDone nat

definition fail_flow :: "string \<Rightarrow> nat \<Rightarrow> setup_server \<Rightarrow> handler_pc \<times> setup_server" where
  "fail_flow e status s = (HpSignal status, s\<lparr>as_conv_err := Some e\<rparr>)"

text \<open>The query of a request, the answer of GitHub to the code, and the random bytes of the nonce.\<close>

definition handleCallback :: "string \<Rightarrow> (string \<Rightarrow> string + conversion) \<Rightarrow> string + string \<Rightarrow> (string \<times> string) list \<Rightarrow> setup_server \<Rightarrow> handler_pc \<times> setup_server" where
  "handleCallback state convert random query s =
     (let code = lookup_or_empty ''code'' query in
      if lookup_or_empty ''state'' query \<noteq> state then (HpDone 400, s)
      else if code = [] then (HpDone 400, s)
      else case convert code of
        Inl e \<Rightarrow> fail_flow e 502 s
      | Inr c \<Rightarrow>
        if \<not> isSafeSlug (cv_slug c) then fail_flow (''githubapp: github returned unsafe slug '' @ quoted (cv_slug c)) 502 s
        else case random of
          Inl e \<Rightarrow> fail_flow (''githubapp: random install nonce: '' @ e) 500 s
        | Inr bytes \<Rightarrow> (let nonce = hex_encode bytes in
            (HpDone 200, s\<lparr>as_conv := Some c, as_nonce := nonce, as_minted := as_minted s @ [nonce]\<rparr>)))"

definition nonce_ok :: "string \<Rightarrow> setup_server \<Rightarrow> bool" where
  "nonce_ok got s \<longleftrightarrow> as_conv s \<noteq> None \<and> as_nonce s \<noteq> [] \<and> got = as_nonce s"

definition installed_check :: "(string \<times> string) list \<Rightarrow> setup_server \<Rightarrow> handler_pc \<times> setup_server" where
  "installed_check query s =
     (let got = lookup_or_empty ''state'' query in
      if nonce_ok got s then (HpInstall (lookup_or_empty ''installation_id'' query), s\<lparr>as_nonce := [], as_spent := as_spent s @ [got]\<rparr>)
      else (HpDone 400, s))"

text \<open>
  The verb \<open>%d\<close> of Sscanf: leading space other than a newline, a sign, and the digits up to the
  first other byte; what follows is left unread.
\<close>

function skip_space :: "string \<Rightarrow> string option" where
  "skip_space s = (case s of [] \<Rightarrow> Some []
     | c # r \<Rightarrow>
       if c = CHR 0x0D \<and> has_prefix r [CHR 0x0A] then skip_space r
       else if c = CHR 0x0A then None
       else if leading_space spaces s = 0 then Some s
       else skip_space (drop (leading_space spaces s) s))"
  by auto
termination by (relation "measure length") (auto simp: leading_space_def split: option.splits)

definition Sscanf_d :: "string \<Rightarrow> int option" where
  "Sscanf_d s = (case skip_space s of None \<Rightarrow> None
     | Some t \<Rightarrow> (let sign = (if t \<noteq> [] \<and> hd t \<in> {CHR ''+'', CHR ''-''} then take 1 t else []) in
         ParseInt 64 (sign @ takeWhile is_digit (drop (length sign) t))))"

definition installed_set :: "string \<Rightarrow> setup_server \<Rightarrow> handler_pc \<times> setup_server" where
  "installed_set idStr s = (case Sscanf_d idStr of
       None \<Rightarrow> (HpDone 400, s)
     | Some i \<Rightarrow> if i \<le> 0 then (HpDone 400, s) else (HpSignal 200, s\<lparr>as_installation := i\<rparr>))"

text \<open>
  Requests interleave: each holds its path and its query, and \<open>convert\<close> is what GitHub answers to
  its code. The random source yields any 32 bytes, or fails.
\<close>

record setup_request =
  sr_path :: string
  sr_query :: "(string \<times> string) list"

record setup_state =
  su_server :: setup_server
  su_pc :: "nat \<Rightarrow> handler_pc"

definition setup_start :: setup_state where
  "setup_start = \<lparr>su_server = server_start, su_pc = (\<lambda>_. HpNew)\<rparr>"

definition moved :: "nat \<Rightarrow> handler_pc \<times> setup_server \<Rightarrow> setup_state \<Rightarrow> setup_state" where
  "moved r x s = s\<lparr>su_server := snd x, su_pc := (su_pc s)(r := fst x)\<rparr>"

inductive setup_step :: "string \<Rightarrow> (nat \<Rightarrow> setup_request) \<Rightarrow> setup_state \<Rightarrow> setup_state \<Rightarrow> bool" for state rq where
  callback: "su_pc s r = HpNew \<Longrightarrow> sr_path (rq r) = ''/callback'' \<Longrightarrow> (\<And>b. random = Inr b \<Longrightarrow> length b = 32) \<Longrightarrow>
    setup_step state rq s (moved r (handleCallback state convert random (sr_query (rq r)) (su_server s)) s)"
| check: "su_pc s r = HpNew \<Longrightarrow> sr_path (rq r) = ''/installed'' \<Longrightarrow>
    setup_step state rq s (moved r (installed_check (sr_query (rq r)) (su_server s)) s)"
| set_id: "su_pc s r = HpInstall idStr \<Longrightarrow> setup_step state rq s (moved r (installed_set idStr (su_server s)) s)"
| signal: "su_pc s r = HpSignal status \<Longrightarrow> setup_step state rq s (moved r (HpDone status, (su_server s)\<lparr>as_done := True\<rparr>) s)"

text \<open>A callback that carried the state of this server, and one that the nonce of a callback admitted.\<close>

definition called_back :: "string \<Rightarrow> (nat \<Rightarrow> setup_request) \<Rightarrow> setup_state \<Rightarrow> bool" where
  "called_back state rq s \<longleftrightarrow> (\<exists>r. sr_path (rq r) = ''/callback'' \<and> lookup_or_empty ''state'' (sr_query (rq r)) = state \<and>
     lookup_or_empty ''code'' (sr_query (rq r)) \<noteq> [] \<and> su_pc s r = HpDone 200)"

definition admitted :: "(nat \<Rightarrow> setup_request) \<Rightarrow> setup_state \<Rightarrow> int \<Rightarrow> bool" where
  "admitted rq s i \<longleftrightarrow> (\<exists>r. sr_path (rq r) = ''/installed'' \<and> lookup_or_empty ''state'' (sr_query (rq r)) \<in> set (as_spent (su_server s)) \<and>
     Sscanf_d (lookup_or_empty ''installation_id'' (sr_query (rq r))) = Some i)"

definition live_nonce :: "setup_server \<Rightarrow> string multiset" where
  "live_nonce s = (if as_nonce s = [] then {#} else {#as_nonce s#})"

definition setup_inv :: "string \<Rightarrow> (nat \<Rightarrow> setup_request) \<Rightarrow> setup_state \<Rightarrow> bool" where
  "setup_inv state rq s \<longleftrightarrow> (let v = su_server s in
     mset (as_spent v) + live_nonce v \<subseteq># mset (as_minted v) \<and>
     (as_minted v \<noteq> [] \<longrightarrow> called_back state rq s) \<and>
     (\<forall>r i. su_pc s r = HpInstall i \<longrightarrow> sr_path (rq r) = ''/installed'' \<and> i = lookup_or_empty ''installation_id'' (sr_query (rq r)) \<and>
        lookup_or_empty ''state'' (sr_query (rq r)) \<in> set (as_spent v)) \<and>
     (as_installation v \<noteq> 0 \<longrightarrow> 0 < as_installation v \<and> admitted rq s (as_installation v)))"

lemma called_back_moved: "called_back state rq s \<Longrightarrow> su_pc s r \<noteq> HpDone 200 \<Longrightarrow> called_back state rq (moved r x s)"
  by (auto simp: called_back_def moved_def)

lemma admitted_mono: "admitted rq s i \<Longrightarrow> set (as_spent (su_server s)) \<subseteq> set (as_spent (su_server t)) \<Longrightarrow> admitted rq t i"
  by (auto simp: admitted_def)

lemma spent_minted: "setup_inv state rq s \<Longrightarrow> mset (as_spent (su_server s)) \<subseteq># mset (as_minted (su_server s))"
  using mset_subset_eq_add_left subset_mset.order_trans unfolding setup_inv_def Let_def by blast

text \<open>A move that leaves nonces, installation and the list of conversions as they are.\<close>

lemma setup_inv_quiet:
  assumes "setup_inv state rq s" "su_pc s r \<noteq> HpDone 200" "\<forall>i. fst x \<noteq> HpInstall i"
    and "as_nonce (snd x) = as_nonce (su_server s)" "as_minted (snd x) = as_minted (su_server s)"
      "as_spent (snd x) = as_spent (su_server s)" "as_installation (snd x) = as_installation (su_server s)"
  shows "setup_inv state rq (moved r x s)"
proof -
  have "as_minted (su_server s) \<noteq> [] \<Longrightarrow> called_back state rq (moved r x s)"
    using assms(1) called_back_moved [OF _ assms(2)] by (auto simp: setup_inv_def Let_def)
  moreover have "admitted rq s i \<Longrightarrow> admitted rq (moved r x s) i" for i
    using assms(6) by (elim admitted_mono) (simp add: moved_def)
  ultimately show ?thesis using assms by (auto simp: setup_inv_def Let_def moved_def live_nonce_def)
qed

lemma setup_inv_step:
  assumes "setup_step state rq s t" "setup_inv state rq s"
  shows "setup_inv state rq t"
  using assms(1)
proof (cases rule: setup_step.cases)
  case (callback r random convert)
  let ?q = "sr_query (rq r)" and ?x = "handleCallback state convert random (sr_query (rq r)) (su_server s)"
  show ?thesis
  proof (cases "fst ?x = HpDone 200")
    case False
    then show ?thesis unfolding callback(1) using callback(2)
      by (intro setup_inv_quiet [OF assms(2)]) (auto simp: handleCallback_def Let_def fail_flow_def split: sum.splits if_splits)
  next
    case True
    then obtain c b where x: "?x = (HpDone 200, (su_server s)\<lparr>as_conv := Some c, as_nonce := hex_encode b, as_minted := as_minted (su_server s) @ [hex_encode b]\<rparr>)"
        "lookup_or_empty ''state'' ?q = state" "lookup_or_empty ''code'' ?q \<noteq> []" "random = Inr b"
      by (auto simp: handleCallback_def Let_def fail_flow_def split: sum.splits if_splits)
    have "called_back state rq t" using x callback by (auto simp: called_back_def moved_def)
    moreover have "admitted rq s i \<Longrightarrow> admitted rq t i" for i using x by (elim admitted_mono) (simp add: callback moved_def)
    moreover have "mset (as_spent (su_server s)) \<subseteq># mset (as_minted (su_server s))"
      using assms(2) by (rule spent_minted)
    ultimately show ?thesis using assms(2) x(1) hex_encode_nonempty callback(4) x(4)
      unfolding callback(1) by (cases b) (auto simp: setup_inv_def Let_def moved_def live_nonce_def)
  qed
next
  case (check r)
  let ?q = "sr_query (rq r)" and ?v = "su_server s"
  show ?thesis
  proof (cases "nonce_ok (lookup_or_empty ''state'' ?q) ?v")
    case False
    then show ?thesis unfolding check(1) using check(2)
      by (intro setup_inv_quiet [OF assms(2)]) (auto simp: installed_check_def Let_def)
  next
    case True
    then have n: "lookup_or_empty ''state'' ?q = as_nonce ?v" "as_nonce ?v \<noteq> []" by (auto simp: nonce_ok_def)
    have t: "su_server t = ?v\<lparr>as_nonce := [], as_spent := as_spent ?v @ [as_nonce ?v]\<rparr>"
        "su_pc t = (su_pc s)(r := HpInstall (lookup_or_empty ''installation_id'' ?q))"
      using True n by (simp_all add: check(1) installed_check_def Let_def moved_def)
    have "admitted rq s i \<Longrightarrow> admitted rq t i" for i using t by (elim admitted_mono) auto
    moreover have "called_back state rq s \<Longrightarrow> called_back state rq t" using check(2) by (simp add: check(1) called_back_moved)
    ultimately show ?thesis using assms(2) n check(3) by (auto simp: setup_inv_def Let_def t live_nonce_def)
  qed
next
  case (set_id r idStr)
  let ?x = "installed_set idStr (su_server s)"
  show ?thesis
  proof (cases "\<exists>i. Sscanf_d idStr = Some i \<and> 0 < i")
    case False
    then have "?x = (HpDone 400, su_server s)" by (auto simp: installed_set_def split: option.split)
    then show ?thesis unfolding set_id(1) using set_id(2) by (intro setup_inv_quiet [OF assms(2)]) auto
  next
    case True
    then obtain i where i: "Sscanf_d idStr = Some i" "0 < i" by blast
    then have x: "?x = (HpSignal 200, (su_server s)\<lparr>as_installation := i\<rparr>)" by (simp add: installed_set_def)
    have "admitted rq t i" using assms(2) set_id(2) i x
      by (auto simp: set_id(1) setup_inv_def Let_def admitted_def moved_def)
    moreover have "called_back state rq s \<Longrightarrow> called_back state rq t" using set_id(2) by (simp add: set_id(1) called_back_moved)
    ultimately show ?thesis using assms(2) i x unfolding set_id(1) by (auto simp: setup_inv_def Let_def moved_def live_nonce_def)
  qed
next
  case (signal r status)
  then show ?thesis by (simp only:) (intro setup_inv_quiet [OF assms(2)]; simp)
qed

lemma setup_reaches_inv: "(setup_step state rq)\<^sup>*\<^sup>* setup_start s \<Longrightarrow> setup_inv state rq s"
proof (induction rule: rtranclp_induct)
  case base
  show ?case by (simp add: setup_inv_def setup_start_def server_start_def live_nonce_def)
qed (rule setup_inv_step)

text \<open>
  C37: Whoever reaches the local port, an installation is recorded only after a callback that
  carried the state of this server, for a request that presented a nonce such a callback had
  minted, with the number the request carries; and a nonce admits one request for each time it
  was minted.
\<close>

theorem installation_needs_nonce:
  assumes "(setup_step state rq)\<^sup>*\<^sup>* setup_start s" "as_installation (su_server s) = i" "i \<noteq> 0"
  shows "0 < i \<and> called_back state rq s \<and> admitted rq s i \<and> set (as_spent (su_server s)) \<subseteq> set (as_minted (su_server s)) \<and>
    (\<forall>n. count_list (as_spent (su_server s)) n \<le> count_list (as_minted (su_server s)) n)"
proof -
  have I: "setup_inv state rq s" by (rule setup_reaches_inv [OF assms(1)])
  then have i: "0 < i" "admitted rq s i" using assms(2,3) by (auto simp: setup_inv_def Let_def)
  have m: "mset (as_spent (su_server s)) \<subseteq># mset (as_minted (su_server s))"
    using I by (rule spent_minted)
  then have "as_minted (su_server s) \<noteq> []" using i(2) by (auto simp: admitted_def)
  then have "called_back state rq s" using I by (simp add: setup_inv_def Let_def)
  then show ?thesis using i m set_mset_mono [OF m] by (simp add: subseteq_mset_def count_mset)
qed

text \<open>One flow: the callback, then the installation with the nonce of its page.\<close>

definition sample_bytes :: string where
  "sample_bytes = replicate 32 (CHR ''A'')"

definition sample_created :: conversion where
  "sample_created = \<lparr>cv_id = 7, cv_slug = ''cf'', cv_client_id = [], cv_client_secret = [], cv_webhook_secret = [], cv_pem = []\<rparr>"

definition sample_requests :: "nat \<Rightarrow> setup_request" where
  "sample_requests r = (if r = 0 then \<lparr>sr_path = ''/callback'', sr_query = [(''state'', ''S''), (''code'', ''C'')]\<rparr>
     else \<lparr>sr_path = ''/installed'', sr_query = [(''state'', hex_encode sample_bytes), (''installation_id'', ''42'')]\<rparr>)"

definition after_callback :: setup_state where
  "after_callback = moved 0 (handleCallback ''S'' (\<lambda>_. Inr sample_created) (Inr sample_bytes) (sr_query (sample_requests 0)) server_start) setup_start"

definition after_check :: setup_state where
  "after_check = moved 1 (installed_check (sr_query (sample_requests 1)) (su_server after_callback)) after_callback"

definition after_set :: setup_state where
  "after_set = moved 1 (installed_set ''42'' (su_server after_check)) after_check"

lemma sample_created_safe: "isSafeSlug (cv_slug sample_created)"
  by code_simp

lemma sample_scan: "Sscanf_d ''42'' = Some 42"
  by code_simp

lemma after_callback_eq: "after_callback = \<lparr>su_server = server_start\<lparr>as_conv := Some sample_created, as_nonce := hex_encode sample_bytes,
    as_minted := [hex_encode sample_bytes]\<rparr>, su_pc = (\<lambda>_. HpNew)(0 := HpDone 200)\<rparr>"
  using sample_created_safe
  by (simp add: after_callback_def handleCallback_def moved_def setup_start_def server_start_def sample_requests_def lookup_or_empty_def Let_def)

lemma after_check_eq: "after_check = \<lparr>su_server = server_start\<lparr>as_conv := Some sample_created, as_nonce := [],
    as_minted := [hex_encode sample_bytes], as_spent := [hex_encode sample_bytes]\<rparr>, su_pc = (\<lambda>_. HpNew)(0 := HpDone 200, 1 := HpInstall ''42'')\<rparr>"
  using hex_encode_nonempty [of sample_bytes]
  by (simp add: after_check_def after_callback_eq installed_check_def nonce_ok_def moved_def server_start_def sample_requests_def
    lookup_or_empty_def Let_def sample_bytes_def)

lemma after_set_reachable: "(setup_step ''S'' sample_requests)\<^sup>*\<^sup>* setup_start after_set"
proof -
  have "setup_step ''S'' sample_requests setup_start after_callback"
    using setup_step.callback [of setup_start 0 sample_requests "Inr sample_bytes" "''S''" "\<lambda>_. Inr sample_created"]
    unfolding after_callback_def by (simp add: setup_start_def sample_requests_def sample_bytes_def)
  moreover have "setup_step ''S'' sample_requests after_callback after_check"
    unfolding after_check_def by (rule setup_step.check) (simp_all add: after_callback_eq sample_requests_def)
  moreover have "setup_step ''S'' sample_requests after_check after_set"
    unfolding after_set_def by (rule setup_step.set_id) (simp add: after_check_eq)
  ultimately show ?thesis by (meson rtranclp.rtrancl_refl rtranclp.rtrancl_into_rtrancl)
qed

lemma after_set_installation: "as_installation (su_server after_set) = 42"
  by (simp add: after_set_def installed_set_def sample_scan moved_def)

theorem installation_needs_nonce_witness:
  "called_back ''S'' sample_requests after_set \<and> admitted sample_requests after_set 42"
  using installation_needs_nonce [OF after_set_reachable after_set_installation] by simp

end
