(* ===== verification/Setup_Cmd.thy ===== *)
theory Setup_Cmd
  imports App_Setup Shell_State
begin

text \<open>
  The end of the callback server's run, the pages it serves, the manual prompts of
  internal/githubapp/manual.go, and the commands \<open>setup github-app\<close> and \<open>setup mint-jwt\<close>. What a
  finished flow leaves on disk is read back by Shell_State.
\<close>

section \<open>Pages\<close>

definition htmlEscape :: "string \<Rightarrow> string" where
  "htmlEscape s = concat (map (\<lambda>c. if c = CHR ''&'' then ''&amp;'' else if c = CHR 0x27 then ''&#39;''
     else if c = CHR 0x22 then ''&quot;'' else [c]) s)"

text \<open>The form of the first page: its action and the value of its only field, both in quotes.\<close>

definition root_form :: "setup_lib \<Rightarrow> string \<Rightarrow> manifest_input \<Rightarrow> string \<times> string" where
  "root_form L state i = (''https://github.com/settings/apps/new?state='' @ state, htmlEscape (sl_marshal L (manifest_json (BuildManifest i))))"

text \<open>The address the second page sends the browser to.\<close>

definition install_url :: "string \<Rightarrow> string \<Rightarrow> string" where
  "install_url slug nonce = ''https://github.com/apps/'' @ slug @ ''/installations/new?state='' @ nonce"

text \<open>No text can leave the attribute it is written into, and none the script.\<close>

lemma htmlEscape_quotes: "CHR 0x27 \<notin> set (htmlEscape s)" "CHR 0x22 \<notin> set (htmlEscape s)"
  by (auto simp: htmlEscape_def)

lemma install_url_safe:
  assumes "isSafeSlug slug"
  shows "CHR 0x22 \<notin> set (install_url slug (hex_encode b))" "CHR ''<'' \<notin> set (install_url slug (hex_encode b))"
proof -
  have h: "c \<noteq> CHR 0x22 \<and> c \<noteq> CHR ''<''" if "c \<in> set (hex_encode b)" for c
  proof -
    have "is_hex c" using that by (rule hex_encode_digits)
    moreover have "\<not> is_hex (CHR 0x22)" "\<not> is_hex (CHR ''<'')" by code_simp+
    ultimately show ?thesis by auto
  qed
  have s: "c \<noteq> CHR 0x22 \<and> c \<noteq> CHR ''<''" if "c \<in> set slug" for c
    using assms that by (auto simp: isSafeSlug_def list_all_iff is_alpha_def is_digit_def)
  show "CHR 0x22 \<notin> set (install_url slug (hex_encode b))" using h s by (fastforce simp: install_url_def)
  show "CHR ''<'' \<notin> set (install_url slug (hex_encode b))" using h s by (fastforce simp: install_url_def)
qed

section \<open>The end of the flow\<close>

record setup_result =
  sr_app_id :: int
  sr_slug :: string
  sr_client_id :: string
  sr_webhook_secret :: string
  sr_installation_id :: int
  sr_pem_path :: string

record setup_options =
  so_state_file :: string
  so_pem_dir :: string

definition credentials :: "conversion \<Rightarrow> int \<Rightarrow> string \<Rightarrow> (string \<times> string) list" where
  "credentials c inst pem = [(''CF_GITHUB_APP_ID'', itoa (cv_id c)), (''CF_GITHUB_APP_SLUG'', cv_slug c),
     (''CF_GITHUB_CLIENT_ID'', cv_client_id c), (''CF_GITHUB_CLIENT_SECRET'', cv_client_secret c),
     (''CF_GITHUB_WEBHOOK_SECRET'', cv_webhook_secret c), (''CF_GITHUB_PEM_PATH'', pem), (''CF_INSTALLATION_ID'', itoa inst)]"

text \<open>What ended the wait: the signal, the caller, or the time.\<close>

datatype flow_end = FlowSignalled | FlowCancelled string | FlowTimedOut string

definition save_flow :: "setup_io \<Rightarrow> setup_options \<Rightarrow> conversion \<Rightarrow> int \<Rightarrow> (string \<Rightarrow> string option) \<Rightarrow> (string + setup_result) \<times> (string \<Rightarrow> string option)" where
  "save_flow io opts c inst fs = (case writePEM io (so_pem_dir opts) c fs of
       (Inl e, fs1) \<Rightarrow> (Inl e, fs1)
     | (Inr pem, fs1) \<Rightarrow> (case SaveState (si_state io) (so_state_file opts) (credentials c inst pem) fs1 of
         (Inl e, fs2) \<Rightarrow> (Inl e, fs2)
       | (Inr _, fs2) \<Rightarrow> (Inr \<lparr>sr_app_id = cv_id c, sr_slug = cv_slug c, sr_client_id = cv_client_id c,
           sr_webhook_secret = cv_webhook_secret c, sr_installation_id = inst, sr_pem_path = pem\<rparr>, fs2)))"

definition flow_result :: "setup_io \<Rightarrow> setup_options \<Rightarrow> flow_end \<Rightarrow> setup_server \<Rightarrow> (string \<Rightarrow> string option) \<Rightarrow> (string + setup_result) \<times> (string \<Rightarrow> string option)" where
  "flow_result io opts why s fs = (case why of
       FlowCancelled e \<Rightarrow> (Inl (''githubapp: cancelled while waiting for manifest flow: '' @ e), fs)
     | FlowTimedOut e \<Rightarrow> (Inl (''githubapp: timed out waiting for manifest flow: '' @ e), fs)
     | FlowSignalled \<Rightarrow>
       (case as_conv_err s of Some e \<Rightarrow> (Inl e, fs)
        | None \<Rightarrow> (case as_conv s of None \<Rightarrow> (Inl ''githubapp: flow ended without credentials'', fs)
          | Some c \<Rightarrow> if as_installation s = 0 then (Inl ''githubapp: flow ended without credentials'', fs)
              else save_flow io opts c (as_installation s) fs)))"

text \<open>
  A second visit of the callback address ends the flow: GitHub converts a code once, the error
  of the second attempt wins over the credentials of the first, and nothing of them is kept.
\<close>

lemma second_callback_discards:
  assumes "lookup_or_empty ''state'' q = state" "lookup_or_empty ''code'' q \<noteq> []"
    and "convert (lookup_or_empty ''code'' q) = Inl e" "handleCallback state convert random q s = (pc, t)"
  shows "pc = HpSignal 502 \<and> as_conv t = as_conv s \<and> flow_result io opts FlowSignalled t fs = (Inl e, fs)"
  using assms by (auto simp: handleCallback_def Let_def fail_flow_def flow_result_def)

subsection \<open>What a finished flow leaves on disk\<close>

lemma safe_slug_segment: "isSafeSlug slug \<Longrightarrow> CHR ''/'' \<notin> set (slug @ ''.pem'') \<and> plain_seg (slug @ ''.pem'')"
  by (auto simp: isSafeSlug_def plain_seg_def list_all_iff is_alpha_def is_digit_def append_eq_Cons_conv)

lemma digits_no_nul: "CHR 0x00 \<notin> set (digits n)"
  using digits_digit [of n] by (auto simp: list_all_iff is_digit_def)

lemma itoa_no_nul: "CHR 0x00 \<notin> set (itoa i)"
  using digits_no_nul by (simp add: itoa_def)

lemma credentials_keys: "distinct (map fst (credentials c inst pem))" "\<forall>k \<in> set (map fst (credentials c inst pem)). shell_name k"
  by (simp_all add: credentials_def) (simp add: shell_name_def is_alpha_def is_digit_def)

lemma safe_slug_no_nul: "isSafeSlug slug \<Longrightarrow> CHR 0x00 \<notin> set slug"
  by (auto simp: isSafeSlug_def list_all_iff is_alpha_def is_digit_def)

lemma save_flow_ok:
  assumes "save_flow io opts c inst fs = (Inr res, fs')"
  shows "isSafeSlug (cv_slug c)" "sr_pem_path res = pem_path (so_pem_dir opts) (cv_slug c)"
    "sr_app_id res = cv_id c" "sr_installation_id res = inst"
    "fs' = (let fs1 = fs(sr_pem_path res \<mapsto> cv_pem c) in
       fs1(so_state_file opts \<mapsto> (case fs1 (so_state_file opts) of None \<Rightarrow> [] | Some t \<Rightarrow> t) @ state_text (credentials c inst (sr_pem_path res))))"
  using assms by (auto simp: save_flow_def writePEM_def SaveState_def Let_def split: prod.splits sum.splits option.splits if_splits)


text \<open>A flow of which the files are empty at first.\<close>

definition sample_conversion :: conversion where
  "sample_conversion = \<lparr>cv_id = 7, cv_slug = ''cf-app'', cv_client_id = ''Iv1'', cv_client_secret = ''it's a $ecret'',
     cv_webhook_secret = [], cv_pem = ''key''\<rparr>"

definition sample_setup_io :: setup_io where
  "sample_setup_io = \<lparr>si_mkdir_err = None, si_write_err = None,
     si_state = \<lparr>io_open_err = None, io_write_err = None, io_close_err = None, io_chmod_err = None\<rparr>\<rparr>"

definition sample_setup_options :: setup_options where
  "sample_setup_options = \<lparr>so_state_file = ''/home/u/state'', so_pem_dir = ''/home/u/keys''\<rparr>"

definition sample_finished :: setup_server where
  "sample_finished = server_start\<lparr>as_conv := Some sample_conversion, as_installation := 42, as_done := True\<rparr>"

lemma sample_pem_path: "pem_path ''/home/u/keys'' ''cf-app'' = ''/home/u/keys/cf-app.pem''"
  by code_simp

lemma sample_slug: "isSafeSlug ''cf-app''"
  by code_simp

lemma sample_flow: "\<exists>fs'. flow_result sample_setup_io sample_setup_options FlowSignalled sample_finished Map.empty =
    (Inr \<lparr>sr_app_id = 7, sr_slug = ''cf-app'', sr_client_id = ''Iv1'', sr_webhook_secret = [], sr_installation_id = 42,
       sr_pem_path = ''/home/u/keys/cf-app.pem''\<rparr>, fs')"
  by (simp add: flow_result_def sample_finished_def server_start_def save_flow_def writePEM_def SaveState_def sample_setup_io_def
    sample_setup_options_def sample_conversion_def sample_slug sample_pem_path)


section \<open>The manual way\<close>

text \<open>Writing to the console does not fail.\<close>

definition console_prompt :: "string \<Rightarrow> (console, string, string) sx" where
  "console_prompt label c = (let c1 = c\<lparr>co_out := co_out c @ label\<rparr> in
     case read_string (co_in c1) of None \<Rightarrow> (Inl ''githubapp: read prompt: EOF'', c1)
     | Some (l, r) \<Rightarrow> (Inr (trim_right [CHR 0x0D, CHR 0x0A] l), c1\<lparr>co_in := r\<rparr>))"

definition guard_err :: "bool \<Rightarrow> string \<Rightarrow> (console, string, unit) sx" where
  "guard_err ok e = (if ok then ret () else throw e)"

definition positive_int64 :: "string \<Rightarrow> bool" where
  "positive_int64 s \<longleftrightarrow> (case ParseInt 64 s of None \<Rightarrow> False | Some i \<Rightarrow> 0 < i)"

definition check_pem :: "(string \<Rightarrow> string + bool) \<Rightarrow> string \<Rightarrow> (console, string, unit) sx" where
  "check_pem stat pem = (case stat pem of
       Inl e \<Rightarrow> throw (''githubapp: pem not found at '' @ pem @ '': '' @ e)
     | Inr regular \<Rightarrow> guard_err regular (''githubapp: pem path '' @ pem @ '' is not a regular file''))"

definition write_out :: "string \<Rightarrow> (console, string, unit) sx" where
  "write_out t = modify (\<lambda>c. c\<lparr>co_out := co_out c @ t\<rparr>)"

text \<open>\<open>stat\<close> answers with an error or whether the path is a regular file; \<open>text\<close> is the text of the instructions.\<close>

definition manual_values :: "string \<Rightarrow> (string \<Rightarrow> string + bool) \<Rightarrow> (console, string, (string \<times> string) list) sx" where
  "manual_values instructions stat =
     bind (write_out instructions) (\<lambda>_.
     bind (console_prompt ''GitHub App ID (numeric): '') (\<lambda>app.
     bind (guard_err (positive_int64 app) (''githubapp: app id must be a positive integer, got '' @ quoted app)) (\<lambda>_.
     bind (console_prompt ''GitHub App Client ID (starts with Iv23li): '') (\<lambda>client.
     bind (guard_err (client \<noteq> []) ''githubapp: client ID cannot be empty'') (\<lambda>_.
     bind (console_prompt ''GitHub App Client Secret: '') (\<lambda>secret.
     bind (guard_err (secret \<noteq> []) ''githubapp: client secret cannot be empty'') (\<lambda>_.
     bind (console_prompt ''GitHub App Webhook Secret (from `openssl rand -hex 32`): '') (\<lambda>webhook.
     bind (guard_err (webhook \<noteq> []) ''githubapp: webhook secret cannot be empty'') (\<lambda>_.
     bind (console_prompt ''Path to GitHub App .pem file: '') (\<lambda>pem.
     bind (check_pem stat pem) (\<lambda>_.
     bind (console_prompt ''GitHub App Installation ID: '') (\<lambda>inst.
     bind (guard_err (positive_int64 inst) (''githubapp: installation id must be a positive integer, got '' @ quoted inst)) (\<lambda>_.
     ret [(''CF_GITHUB_APP_ID'', app), (''CF_GITHUB_CLIENT_ID'', client), (''CF_GITHUB_CLIENT_SECRET'', secret),
       (''CF_GITHUB_WEBHOOK_SECRET'', webhook), (''CF_GITHUB_PEM_PATH'', pem), (''CF_INSTALLATION_ID'', inst)])))))))))))))"

definition RunManual :: "string \<Rightarrow> (string \<Rightarrow> string + bool) \<Rightarrow> state_io \<Rightarrow> string \<Rightarrow> (string \<Rightarrow> string option) \<Rightarrow> console \<Rightarrow> (string + unit) \<times> console \<times> (string \<Rightarrow> string option)" where
  "RunManual instructions stat io stateFile fs c = (case manual_values instructions stat c of
       (Inl e, c1) \<Rightarrow> (Inl e, c1, fs)
     | (Inr kv, c1) \<Rightarrow> (case SaveState io stateFile kv fs of (r, fs1) \<Rightarrow> (r, c1, fs1)))"

lemma guard_err_Inr: "guard_err ok e c = (Inr u, c') \<longleftrightarrow> ok \<and> c' = c"
  by (auto simp: guard_err_def ret_def throw_def)

lemma bind_InrE: "bind m f s = (Inr y, t) \<longleftrightarrow> (\<exists>x u. m s = (Inr x, u) \<and> f x u = (Inr y, t))"
  by (auto simp: bind_def split: prod.split sum.split)

lemma check_pem_Inr: "check_pem stat pem c = (Inr u, c') \<longleftrightarrow> stat pem = Inr True \<and> c' = c"
  by (auto simp: check_pem_def guard_err_Inr throw_def split: sum.splits)

text \<open>Six prompts in order, each answer checked before the next is asked for; nothing is saved before the last.\<close>

lemma manual_values_checked:
  assumes "manual_values instructions stat c = (Inr kv, c')"
  shows "\<exists>app client secret webhook pem inst. kv = [(''CF_GITHUB_APP_ID'', app), (''CF_GITHUB_CLIENT_ID'', client), (''CF_GITHUB_CLIENT_SECRET'', secret),
      (''CF_GITHUB_WEBHOOK_SECRET'', webhook), (''CF_GITHUB_PEM_PATH'', pem), (''CF_INSTALLATION_ID'', inst)] \<and>
    positive_int64 app \<and> client \<noteq> [] \<and> secret \<noteq> [] \<and> webhook \<noteq> [] \<and> stat pem = Inr True \<and> positive_int64 inst"
  using assms unfolding manual_values_def bind_InrE
  by (auto simp: guard_err_Inr check_pem_Inr ret_def)

lemma RunManual_fails_clean: "manual_values instructions stat c = (Inl e, c1) \<Longrightarrow> RunManual instructions stat io f fs c = (Inl e, c1, fs)"
  by (simp add: RunManual_def)

section \<open>The commands\<close>

record setup_flags =
  sg_state_file :: string
  sg_default_name :: string
  sg_pem_dir :: string
  sg_homepage_url :: string
  sg_callback_url :: string
  sg_webhook_url :: string

definition setup_paths :: "string + string \<Rightarrow> setup_flags \<Rightarrow> string + setup_options" where
  "setup_paths home F =
     (if sg_state_file F \<noteq> [] \<and> sg_pem_dir F \<noteq> [] then Inr \<lparr>so_state_file = sg_state_file F, so_pem_dir = sg_pem_dir F\<rparr>
      else case home of
        Inl e \<Rightarrow> Inl (''setup: resolve home directory (pass --state-file and --pem-dir to override): '' @ e)
      | Inr h \<Rightarrow> Inr \<lparr>so_state_file = (if sg_state_file F = [] then Join h ''.cronfoundry-quickstart-state'' else sg_state_file F),
          so_pem_dir = (if sg_pem_dir F = [] then Join h ''.cronfoundry'' else sg_pem_dir F)\<rparr>)"

definition default_name :: "string option \<Rightarrow> setup_flags \<Rightarrow> string" where
  "default_name user F = (if sg_default_name F \<noteq> [] then sg_default_name F
     else case user of Some u \<Rightarrow> if u = [] then ''cronfoundry-app'' else ''cronfoundry-'' @ u | None \<Rightarrow> ''cronfoundry-app'')"

text \<open>The input of the manifest, with the address of the local server.\<close>

definition setup_input :: "string option \<Rightarrow> setup_flags \<Rightarrow> string \<Rightarrow> manifest_input" where
  "setup_input user F url = \<lparr>mi_name = default_name user F, mi_callback_url = url, mi_homepage_url = sg_homepage_url F,
     mi_webhook_url = sg_webhook_url F, mi_oauth_callback_url = sg_callback_url F\<rparr>"

text \<open>The local server is always the redirect of the manifest and of the installation.\<close>

lemma local_handshake: "am_redirect_url (BuildManifest (setup_input user F url)) = url @ ''/callback'' \<and>
    am_setup_url (BuildManifest (setup_input user F url)) = url @ ''/installed''"
  by (simp add: BuildManifest_def setup_input_def Let_def)

definition setup_mint_jwt :: "'k github_lib \<Rightarrow> string \<Rightarrow> string \<Rightarrow> time \<Rightarrow> string + string" where
  "setup_mint_jwt G appID pemPath now = (case gl_read_file G pemPath of
       Inl e \<Rightarrow> Inl (''read pem: '' @ e)
     | Inr pem \<Rightarrow> (case AppJWT G appID pem now of Inl e \<Rightarrow> Inl e | Inr jwt \<Rightarrow> Inr (jwt @ [CHR 0x0A])))"

end
