(* ===== verification/Key_Vault.thy ===== *)
theory Key_Vault
  imports Secret_Store
begin

text \<open>
  The Azure Key Vault backend of the secret store (internal/secrets/server/azurekv). The SDK is
  a parameter; what is assumed of the vault is that it is a map whose names do not distinguish
  case, as its documentation says. The locale \<open>keyed_store\<close> is the contract of a store that
  identifies some names; the contract \<open>secret_store\<close> is the case in which it identifies none.
\<close>

section \<open>The client over the SDK\<close>

datatype vault_err = ResponseError int | OtherSdkError string

text \<open>A listing is a sequence of pages, each an error or the names of its items; an item may have no name.\<close>

record 's vault_sdk =
  vs_get :: "string \<Rightarrow> string \<Rightarrow> ('s, vault_err, string option) sx"
  vs_set :: "string \<Rightarrow> string \<Rightarrow> ('s, vault_err, unit) sx"
  vs_delete :: "string \<Rightarrow> ('s, vault_err, unit) sx"
  vs_pages :: "'s \<Rightarrow> (vault_err + string option list) list"

datatype kv_err = KvNotFound | KvError vault_err

record 's kv_client =
  kv_get :: "string \<Rightarrow> string \<Rightarrow> ('s, kv_err, string) sx"
  kv_set :: "string \<Rightarrow> string \<Rightarrow> ('s, kv_err, unit) sx"
  kv_delete :: "string \<Rightarrow> ('s, kv_err, unit) sx"
  kv_list :: "('s, kv_err, string list) sx"

definition real_get :: "'s vault_sdk \<Rightarrow> string \<Rightarrow> string \<Rightarrow> ('s, kv_err, string) sx" where
  "real_get V name version =
     bind (map_err (\<lambda>e. if e = ResponseError 404 then KvNotFound else KvError e) (vs_get V name version)) (\<lambda>v.
       case v of None \<Rightarrow> throw KvNotFound | Some x \<Rightarrow> ret x)"

definition real_set :: "'s vault_sdk \<Rightarrow> string \<Rightarrow> string \<Rightarrow> ('s, kv_err, unit) sx" where
  "real_set V name value = map_err KvError (vs_set V name value)"

definition real_delete :: "'s vault_sdk \<Rightarrow> string \<Rightarrow> ('s, kv_err, unit) sx" where
  "real_delete V name = (\<lambda>s. case vs_delete V name s of
       (Inl e, s') \<Rightarrow> (if e = ResponseError 404 then Inr () else Inl (KvError e), s')
     | (Inr u, s') \<Rightarrow> (Inr (), s'))"

fun collect_pages :: "(vault_err + string option list) list \<Rightarrow> string list \<Rightarrow> kv_err + string list" where
  "collect_pages [] names = Inr names"
| "collect_pages (p # ps) names = (case p of Inl e \<Rightarrow> Inl (KvError e) | Inr items \<Rightarrow> collect_pages ps (names @ List.map_filter id items))"

definition real_list :: "'s vault_sdk \<Rightarrow> ('s, kv_err, string list) sx" where
  "real_list V = (\<lambda>s. (collect_pages (vs_pages V s) [], s))"

definition NewRealKVClient :: "'s vault_sdk \<Rightarrow> 's kv_client" where
  "NewRealKVClient V = \<lparr>kv_get = real_get V, kv_set = real_set V, kv_delete = real_delete V, kv_list = real_list V\<rparr>"

section \<open>The store\<close>

definition secretNameRe :: "string \<Rightarrow> bool" where
  "secretNameRe name \<longleftrightarrow> 1 \<le> length name \<and> length name \<le> 127 \<and> list_all (\<lambda>c. is_digit c \<or> is_alpha c \<or> c = CHR ''-'') name"

definition kvs_Get :: "'s kv_client \<Rightarrow> string \<Rightarrow> ('s, secret_err, string) sx" where
  "kvs_Get C name = map_err (\<lambda>e. if e = KvNotFound then ErrNotFound else StoreError ''get'' name) (kv_get C name [])"

definition kvs_Put :: "'s kv_client \<Rightarrow> string \<Rightarrow> string \<Rightarrow> ('s, secret_err, unit) sx" where
  "kvs_Put C name value =
     (if \<not> secretNameRe name then throw (StoreError ''azure keyvault: secret name must match ^[0-9a-zA-Z-]{1,127}$'' name)
      else map_err (\<lambda>_. StoreError ''put'' name) (kv_set C name value))"

definition kvs_Delete :: "'s kv_client \<Rightarrow> string \<Rightarrow> ('s, secret_err, unit) sx" where
  "kvs_Delete C name = (\<lambda>s. case kv_delete C name s of
       (Inl e, s') \<Rightarrow> (if e = KvNotFound then Inr () else Inl (StoreError ''delete'' name), s')
     | (Inr u, s') \<Rightarrow> (Inr (), s'))"

definition kvs_List :: "'s kv_client \<Rightarrow> ('s, secret_err, string list) sx" where
  "kvs_List C = bind (map_err (\<lambda>_. StoreError ''list'' []) (kv_list C)) (\<lambda>names. ret (sort names))"

definition NewKeyVaultStore :: "'s kv_client \<Rightarrow> 's secret_store_if" where
  "NewKeyVaultStore C = \<lparr>ss_get = kvs_Get C, ss_put = kvs_Put C, ss_delete = kvs_Delete C, ss_list = kvs_List C\<rparr>"

section \<open>Stores that identify names\<close>

locale keyed_store =
  fixes S :: "'s secret_store_if" and contents :: "'s \<Rightarrow> string \<Rightarrow> string option" and key :: "string \<Rightarrow> string"
  assumes kput_done: "ss_put S n v s = (Inr (), s') \<Longrightarrow> contents s' = (contents s)(key n := Some v)"
    and kput_failed: "ss_put S n v s = (Inl e, s') \<Longrightarrow> contents s' = contents s"
    and kget_done: "ss_get S n s = (Inr v, s') \<Longrightarrow> contents s (key n) = Some v"
    and kget_failed: "ss_get S n s = (Inl ErrNotFound, s') \<Longrightarrow> contents s (key n) = None"
    and kget_keeps: "contents (snd (ss_get S n s)) = contents s"
    and kdelete_done: "ss_delete S n s = (Inr (), s') \<Longrightarrow> contents s' = (contents s)(key n := None)"
    and kdelete_failed: "ss_delete S n s = (Inl e, s') \<Longrightarrow> contents s' = contents s"
begin

lemma put_then_get:
  assumes "ss_put S n v s = (Inr (), s')" "ss_get S m s' = (Inr x, s'')"
  shows "if key m = key n then x = v else contents s (key m) = Some x"
  using kput_done [OF assms(1)] kget_done [OF assms(2)] by auto

text \<open>Two names with one key: the second value is read under both.\<close>

lemma twins_collide:
  assumes "key m = key n" "ss_put S n v s = (Inr (), s1)" "ss_put S m w s1 = (Inr (), s2)" "ss_get S n s2 = (Inr x, s3)"
  shows "x = w"
  using put_then_get [OF assms(3,4)] assms(1) by simp

end

text \<open>A store that keeps every name apart is one of these, so the envelope store is.\<close>

sublocale secret_store \<subseteq> keyed: keyed_store S contents "\<lambda>n. n"
  by unfold_locales (auto intro: put_done put_failed get_done get_failed get_keeps delete_done delete_failed)

context secret_store begin

lemma as_keyed: "keyed_store S contents (\<lambda>n. n)"
  by (rule keyed.keyed_store_axioms)

end

section \<open>The vault keeps the contract\<close>

text \<open>What is documented of the vault: a map, and names without regard to case.\<close>

definition get_ok :: "'s vault_sdk \<Rightarrow> ('s \<Rightarrow> string \<Rightarrow> string option) \<Rightarrow> string \<Rightarrow> 's \<Rightarrow> bool" where
  "get_ok V ct n s \<longleftrightarrow> (case vs_get V n [] s of
     (Inr v, s') \<Rightarrow> ct s (to_lower n) = v \<and> ct s' = ct s
   | (Inl e, s') \<Rightarrow> (e = ResponseError 404 \<longrightarrow> ct s (to_lower n) = None) \<and> ct s' = ct s)"

definition set_ok :: "'s vault_sdk \<Rightarrow> ('s \<Rightarrow> string \<Rightarrow> string option) \<Rightarrow> string \<Rightarrow> string \<Rightarrow> 's \<Rightarrow> bool" where
  "set_ok V ct n v s \<longleftrightarrow> (case vs_set V n v s of
     (Inr u, s') \<Rightarrow> ct s' = (ct s)(to_lower n := Some v) | (Inl e, s') \<Rightarrow> ct s' = ct s)"

definition delete_ok :: "'s vault_sdk \<Rightarrow> ('s \<Rightarrow> string \<Rightarrow> string option) \<Rightarrow> string \<Rightarrow> 's \<Rightarrow> bool" where
  "delete_ok V ct n s \<longleftrightarrow> (case vs_delete V n s of
     (Inr u, s') \<Rightarrow> ct s' = (ct s)(to_lower n := None)
   | (Inl e, s') \<Rightarrow> ct s' = ct s \<and> (e = ResponseError 404 \<longrightarrow> ct s (to_lower n) = None))"

definition vault_ok :: "'s vault_sdk \<Rightarrow> ('s \<Rightarrow> string \<Rightarrow> string option) \<Rightarrow> bool" where
  "vault_ok V ct \<longleftrightarrow> (\<forall>n s. get_ok V ct n s \<and> (\<forall>v. set_ok V ct n v s) \<and> delete_ok V ct n s)"

lemma vault_getD: "vault_ok V ct \<Longrightarrow> vs_get V n [] s = (r, s') \<Longrightarrow> ct s' = ct s \<and>
    (\<forall>v. r = Inr v \<longrightarrow> ct s (to_lower n) = v) \<and> (r = Inl (ResponseError 404) \<longrightarrow> ct s (to_lower n) = None)"
proof -
  assume "vault_ok V ct" "vs_get V n [] s = (r, s')"
  then have "get_ok V ct n s" "vs_get V n [] s = (r, s')" by (simp_all add: vault_ok_def)
  then show ?thesis by (cases r) (auto simp: get_ok_def)
qed

lemma vault_setD: "vault_ok V ct \<Longrightarrow> vs_set V n v s = (r, s') \<Longrightarrow>
    ct s' = (case r of Inl e \<Rightarrow> ct s | Inr u \<Rightarrow> (ct s)(to_lower n := Some v))"
proof -
  assume "vault_ok V ct" "vs_set V n v s = (r, s')"
  then have "set_ok V ct n v s" "vs_set V n v s = (r, s')" by (simp_all add: vault_ok_def)
  then show ?thesis by (cases r) (auto simp: set_ok_def)
qed

lemma vault_deleteD: "vault_ok V ct \<Longrightarrow> vs_delete V n s = (r, s') \<Longrightarrow>
    ct s' = (case r of Inl e \<Rightarrow> ct s | Inr u \<Rightarrow> (ct s)(to_lower n := None)) \<and> (r = Inl (ResponseError 404) \<longrightarrow> ct s (to_lower n) = None)"
proof -
  assume "vault_ok V ct" "vs_delete V n s = (r, s')"
  then have "delete_ok V ct n s" "vs_delete V n s = (r, s')" by (simp_all add: vault_ok_def)
  then show ?thesis by (cases r) (auto simp: delete_ok_def)
qed

text \<open>
  C39: Over a vault that is such a map the Key Vault store refines the map on names in lower
  case: reading returns what the map holds and changes nothing, writing updates it,
  deleting removes, also where the vault answers that there is nothing to remove, and an
  operation that fails leaves it; a name that the vault would refuse is refused before it is asked.
\<close>

theorem vault_refines_map:
  assumes "vault_ok V ct"
  shows "keyed_store (NewKeyVaultStore (NewRealKVClient V)) ct to_lower \<and>
    (\<not> secretNameRe n \<longrightarrow> snd (ss_put (NewKeyVaultStore (NewRealKVClient V)) n v s) = s \<and>
       (\<exists>e. fst (ss_put (NewKeyVaultStore (NewRealKVClient V)) n v s) = Inl e))"
proof (intro conjI impI)
  let ?S = "NewKeyVaultStore (NewRealKVClient V)"
  note defs = NewKeyVaultStore_def NewRealKVClient_def kvs_Get_def kvs_Put_def kvs_Delete_def real_get_def real_set_def real_delete_def
  show "keyed_store ?S ct to_lower"
  proof
    fix n v s s' assume "ss_put ?S n v s = (Inr (), s')"
    then show "ct s' = (ct s)(to_lower n := Some v)"
      by (auto simp: defs map_err_def throw_def split: if_splits sum.splits prod.splits dest!: vault_setD [OF assms])
  next
    fix n v s e s' assume "ss_put ?S n v s = (Inl e, s')"
    then show "ct s' = ct s"
      by (auto simp: defs map_err_def throw_def split: if_splits sum.splits prod.splits dest!: vault_setD [OF assms])
  next
    fix n s v s' assume "ss_get ?S n s = (Inr v, s')"
    then show "ct s (to_lower n) = Some v"
      by (auto simp: defs map_err_def throw_def ret_def bind_def split: if_splits sum.splits prod.splits option.splits dest!: vault_getD [OF assms])
  next
    fix n s s' assume "ss_get ?S n s = (Inl ErrNotFound, s')"
    then show "ct s (to_lower n) = None"
      by (auto simp: defs map_err_def throw_def ret_def bind_def split: if_splits sum.splits prod.splits option.splits dest!: vault_getD [OF assms])
  next
    fix n s show "ct (snd (ss_get ?S n s)) = ct s"
      by (auto simp: defs map_err_def throw_def ret_def bind_def split: if_splits sum.splits prod.splits option.splits dest!: vault_getD [OF assms])
  next
    fix n s s' assume "ss_delete ?S n s = (Inr (), s')"
    then show "ct s' = (ct s)(to_lower n := None)"
      by (auto simp: defs fun_upd_idem split: if_splits sum.splits prod.splits dest!: vault_deleteD [OF assms])
  next
    fix n s e s' assume "ss_delete ?S n s = (Inl e, s')"
    then show "ct s' = ct s"
      by (auto simp: defs split: if_splits sum.splits prod.splits dest!: vault_deleteD [OF assms])
  qed
next
  assume "\<not> secretNameRe n"
  then show "snd (ss_put (NewKeyVaultStore (NewRealKVClient V)) n v s) = s"
    "\<exists>e. fst (ss_put (NewKeyVaultStore (NewRealKVClient V)) n v s) = Inl e"
    by (simp_all add: NewKeyVaultStore_def kvs_Put_def throw_def)
qed

section \<open>A vault in memory\<close>

definition mem_vault :: "(string \<rightharpoonup> string) vault_sdk" where
  "mem_vault = \<lparr>vs_get = (\<lambda>n v m. (case m (to_lower n) of None \<Rightarrow> Inl (ResponseError 404) | Some x \<Rightarrow> Inr (Some x), m)),
     vs_set = (\<lambda>n v m. (Inr (), m(to_lower n \<mapsto> v))),
     vs_delete = (\<lambda>n m. if m (to_lower n) = None then (Inl (ResponseError 404), m) else (Inr (), m(to_lower n := None))),
     vs_pages = (\<lambda>m. [])\<rparr>"

lemma mem_vault_ok: "vault_ok mem_vault (\<lambda>m. m)"
  by (auto simp: vault_ok_def get_ok_def set_ok_def delete_ok_def mem_vault_def split: option.splits)

theorem vault_refines_map_witness:
  "keyed_store (NewKeyVaultStore (NewRealKVClient mem_vault)) (\<lambda>m. m) to_lower \<and>
   snd (ss_put (NewKeyVaultStore (NewRealKVClient mem_vault)) ''API_KEY'' ''v'' Map.empty) = Map.empty"
proof -
  have "\<not> secretNameRe ''API_KEY''" by code_simp
  then show ?thesis using vault_refines_map [OF mem_vault_ok, of "''API_KEY''" "''v''" Map.empty] by blast
qed

text \<open>
  The two backends differ: names that differ in case only are two secrets to the envelope
  store and one to the vault, where the later value replaces the earlier.
\<close>

lemma case_twins_share_value:
  "fst (bind (ss_put (NewKeyVaultStore (NewRealKVClient mem_vault)) ''token'' ''a'') (\<lambda>_.
     bind (ss_put (NewKeyVaultStore (NewRealKVClient mem_vault)) ''TOKEN'' ''b'') (\<lambda>_.
     ss_get (NewKeyVaultStore (NewRealKVClient mem_vault)) ''token'')) Map.empty) = Inr ''b''"
proof -
  have "secretNameRe ''token''" "secretNameRe ''TOKEN''" "to_lower ''TOKEN'' = ''token''" "to_lower ''token'' = ''token''" by code_simp+
  then show ?thesis
    by (simp add: NewKeyVaultStore_def NewRealKVClient_def kvs_Put_def kvs_Get_def real_set_def real_get_def mem_vault_def map_err_def bind_def ret_def)
qed

lemma case_twins_apart:
  assumes "ss_put (NewEnvelopePostgresStore sample_store) ''token'' v s = (Inr (), s1)"
    "ss_put (NewEnvelopePostgresStore sample_store) ''TOKEN'' w s1 = (Inr (), s2)"
    "ss_get (NewEnvelopePostgresStore sample_store) ''token'' s2 = (Inr x, s3)"
  shows "x = v"
  using sample.keyed.put_then_get [OF assms(2,3)] sample.keyed.kput_done [OF assms(1)] by simp

end
