(* ===== verification/Admin.thy ===== *)
theory Admin
  imports Serve Key_Vault Shell_State Sync
begin

text \<open>
  The admin commands (cmd/cronfoundry/admin_*.go) on the state of the server's database: init,
  set-secret, connect-repo, trigger-sync and the listings. A command is a computation on the
  database and the text it has written, so what it printed before it failed is kept. Formats of
  times in the local zone, the tab writer, the migrations and the texts of errors are parameters.
\<close>

section \<open>What a command runs on\<close>

record 'k admin_env =
  al_serve :: "'k serve_env"
  al_migrate :: "(web, string, unit) sx"
  al_vault :: "string \<Rightarrow> web vault_sdk"
  al_secret_text :: "secret_err \<Rightarrow> string"
  al_sync :: "inst_config \<Rightarrow> sync_deps"
  al_tab :: "string list list \<Rightarrow> string"
  al_datetime :: "time \<Rightarrow> string"
  al_rfc3339 :: "time \<Rightarrow> string"
  al_clock :: "time \<Rightarrow> string"

record admin =
  ad_web :: web
  ad_out :: string

type_synonym 'a cmd = "(admin, string, 'a) sx"

definition on_admin :: "(web, 'e, 'a) sx \<Rightarrow> (admin, 'e, 'a) sx" where
  "on_admin m = (\<lambda>s. case m (ad_web s) of (r, w) \<Rightarrow> (r, s\<lparr>ad_web := w\<rparr>))"

definition say :: "string \<Rightarrow> unit cmd" where
  "say t = modify (\<lambda>s. s\<lparr>ad_out := ad_out s @ t\<rparr>)"

definition say_line :: "string \<Rightarrow> unit cmd" where
  "say_line t = say (t @ eol)"

abbreviation genv :: "'k admin_env \<Rightarrow> string \<Rightarrow> string" where
  "genv A \<equiv> sv_getenv (al_serve A)"

definition ids :: "'k admin_env \<Rightarrow> libs" where
  "ids A = wl_ids (sv_web_libs (al_serve A))"

definition db_text :: "'k admin_env \<Rightarrow> string \<Rightarrow> db_err \<Rightarrow> string" where
  "db_text A what e = what @ '': '' @ sv_err_text (al_serve A) e"

definition need_dsn :: "'k admin_env \<Rightarrow> unit cmd" where
  "need_dsn A = (if genv A ''CRONFOUNDRY_DATABASE_URL'' = [] then throw (required ''CRONFOUNDRY_DATABASE_URL'') else ret ())"

definition open_pool :: "'k admin_env \<Rightarrow> unit cmd" where
  "open_pool A = (case sv_open_pool (al_serve A) (genv A ''CRONFOUNDRY_DATABASE_URL'') of
     Some e \<Rightarrow> throw (''open pool: '' @ e) | None \<Rightarrow> ret ())"

definition seeded_org :: "'k admin_env \<Rightarrow> org_row cmd" where
  "seeded_org A = map_err (\<lambda>e. if e = ErrNoRows then db_text A ''no organization seeded; run `cronfoundry admin init` first'' e
     else db_text A ''load organization'' e) (on_admin GetFirstOrganization)"

definition open_org :: "'k admin_env \<Rightarrow> org_row cmd" where
  "open_org A = bind (open_pool A) (\<lambda>_. seeded_org A)"

section \<open>init\<close>

definition print_key :: "'k admin_env \<Rightarrow> unit cmd" where
  "print_key A =
     bind (map_err (\<lambda>e. ''generate master key: '' @ e) (on_admin GenerateMasterKey)) (\<lambda>key.
     bind (say_line ''CRONFOUNDRY_MASTER_KEY is not set. Generated one for you:'') (\<lambda>_.
     bind (say_line []) (\<lambda>_.
     bind (say_line (''  CRONFOUNDRY_MASTER_KEY='' @ key)) (\<lambda>_.
     bind (say_line []) (\<lambda>_.
     bind (say_line (''Add this to your environment (do not lose it'' @ em_dash @ ''it cannot be recovered)'')) (\<lambda>_.
     say_line ''and re-run `cronfoundry admin init`.''))))))"

definition seed_org :: "'k admin_env \<Rightarrow> string \<Rightarrow> unit cmd" where
  "seed_org A orgName =
     bind (attempt (on_admin GetFirstOrganization)) (\<lambda>found. case found of
       Inr org \<Rightarrow> say_line (''Organization already seeded (id='' @ uuid_string (ids A) (og_id org) @ '', name='' @ quoted (og_name org) @ ''). Ready.'')
     | Inl e \<Rightarrow>
       if e \<noteq> ErrNoRows then throw (db_text A ''load organization'' e)
       else bind (map_err (db_text A ''seed organization'') (on_admin (CreateOrganization orgName))) (\<lambda>row.
         say_line (''Seeded organization id='' @ uuid_string (ids A) (og_id row) @ '' name='' @ quoted (og_name row) @ ''. Ready.'')))"

definition runAdminInit :: "'k admin_env \<Rightarrow> string \<Rightarrow> unit cmd" where
  "runAdminInit A orgName =
     (if genv A ''CRONFOUNDRY_MASTER_KEY'' = [] then print_key A
      else bind (need_dsn A) (\<lambda>_.
        bind (say_line ''Running migrations...'') (\<lambda>_.
        bind (map_err (\<lambda>e. ''migrate: '' @ e) (on_admin (al_migrate A))) (\<lambda>_.
        bind (open_pool A) (\<lambda>_. seed_org A orgName)))))"

section \<open>set-secret\<close>

text \<open>The input and the error that ends it early, if one does.\<close>

definition readOneLine :: "string \<Rightarrow> string option \<Rightarrow> string + string" where
  "readOneLine s err = (if CHR 0x0A \<notin> set s \<and> err \<noteq> None then Inl (the err)
     else Inr (trim_right [CHR 0x0D] (trim_right [CHR 0x0A] (case read_string s of None \<Rightarrow> [] | Some (l, _) \<Rightarrow> l))))"

definition store_if :: "'k admin_env \<Rightarrow> store_choice \<Rightarrow> web secret_store_if" where
  "store_if A c = (case c of EnvelopeStore st \<Rightarrow> NewEnvelopePostgresStore st | KeyVaultAt url \<Rightarrow> NewKeyVaultStore (NewRealKVClient (al_vault A url)))"

definition admin_master :: "'k admin_env \<Rightarrow> string cmd" where
  "admin_master A = (let enc = genv A ''CRONFOUNDRY_MASTER_KEY'' in
     if enc = [] then throw (''CRONFOUNDRY_MASTER_KEY is required; run `cronfoundry admin init` first'')
     else lift_sum (\<lambda>e. ''parse CRONFOUNDRY_MASTER_KEY: '' @ e) (parseMasterKey enc))"

definition runAdminSetSecret :: "'k admin_env \<Rightarrow> string \<Rightarrow> string \<Rightarrow> string option \<Rightarrow> unit cmd" where
  "runAdminSetSecret A name stdin err =
     bind (need_dsn A) (\<lambda>_.
     bind (if genv A ''AZURE_KEYVAULT_URL'' = [] then admin_master A else ret []) (\<lambda>master.
     bind (lift_sum (\<lambda>e. ''read value from stdin: '' @ e) (readOneLine stdin err)) (\<lambda>value.
     if value = [] then throw ''empty value; type the secret on stdin and press Enter''
     else bind (open_org A) (\<lambda>org.
       bind (lift_sum (\<lambda>e. ''build secret store: '' @ e) (buildSecretStore (al_serve A) (og_id org) master)) (\<lambda>store.
       bind (map_err (\<lambda>e. ''put secret: '' @ al_secret_text A e) (on_admin (ss_put (store_if A store) name value))) (\<lambda>_.
       say_line (''Stored secret '' @ quoted name)))))))"

section \<open>connect-repo\<close>

definition split_repo :: "string \<Rightarrow> (string \<times> string) option" where
  "split_repo repo = (case Index repo ''/'' of None \<Rightarrow> None
     | Some i \<Rightarrow> let owner = take i repo; rest = drop (Suc i) repo in
         if owner = [] \<or> rest = [] then None else Some (owner, rest))"

definition runAdminConnectRepo :: "'k admin_env \<Rightarrow> string \<Rightarrow> int \<Rightarrow> string \<Rightarrow> int \<Rightarrow> unit cmd" where
  "runAdminConnectRepo A repo installID branch syncSec =
     (if installID \<le> 0 then throw (''installation-id must be positive; got '' @ itoa installID)
      else if branch = [] then throw ''branch must not be empty''
      else if syncSec \<le> 0 then throw (''sync-interval-sec must be positive; got '' @ itoa syncSec)
      else case split_repo repo of
        None \<Rightarrow> throw (''repo must be exactly owner/name (no extra slashes); got '' @ quoted repo)
      | Some (owner, name) \<Rightarrow>
        if CHR ''/'' \<in> set name then throw (''repo must be exactly owner/name (no extra slashes); got '' @ quoted repo)
        else bind (need_dsn A) (\<lambda>_. bind (open_org A) (\<lambda>org.
          bind (map_err (db_text A ''insert repo connection'')
            (on_admin (on_db (InsertRepoConnection (og_id org) installID owner name branch (int32 syncSec))))) (\<lambda>row.
          say_line (''Connected '' @ rc_owner row @ ''/'' @ rc_name row @ '' (install='' @ itoa (rc_github_app_install_id row) @
            '', branch='' @ rc_default_branch row @ '', interval='' @ itoa (rc_sync_interval_sec row) @ ''s)'')))))"

section \<open>Listings\<close>

definition table :: "'k admin_env \<Rightarrow> string list \<Rightarrow> string list list \<Rightarrow> unit cmd" where
  "table A heads rows = say (al_tab A (heads # rows))"

definition conn_cells :: "'k admin_env \<Rightarrow> repo_row \<Rightarrow> string list" where
  "conn_cells A r = [rc_owner r @ ''/'' @ rc_name r, rc_default_branch r, itoa (rc_github_app_install_id r), itoa (rc_sync_interval_sec r) @ ''s'',
     (case rc_last_synced_at r of None \<Rightarrow> ''never'' | Some t \<Rightarrow> al_datetime A t),
     (case rc_last_sync_error r of None \<Rightarrow> ''ok'' | Some e \<Rightarrow> if e = [] then ''ok'' else ''ERROR'')]"

definition runAdminListConnections :: "'k admin_env \<Rightarrow> unit cmd" where
  "runAdminListConnections A = bind (need_dsn A) (\<lambda>_. bind (open_org A) (\<lambda>org.
     bind (map_err (db_text A ''list'') (on_admin (on_db (ListRepoConnections (og_id org))))) (\<lambda>rows.
     if rows = [] then say_line ''(no connected repos)''
     else table A [''REPO'', ''BRANCH'', ''INSTALL'', ''INTERVAL'', ''LAST SYNC'', ''STATE''] (map (conn_cells A) rows))))"

definition sched_cells :: "sched_row \<times> skill_row \<times> repo_row \<Rightarrow> string list" where
  "sched_cells row = (case row of (s, k, c) \<Rightarrow> [rc_owner c @ ''/'' @ rc_name c, sk_path k, sch_name s, sch_cron s, sch_provider s,
     show_bool (sch_enabled s)])"

definition runAdminListSchedules :: "'k admin_env \<Rightarrow> unit cmd" where
  "runAdminListSchedules A = bind (need_dsn A) (\<lambda>_. bind (open_org A) (\<lambda>org.
     bind (map_err (db_text A ''list'') (on_admin (on_db (ListSchedulesByOrg (og_id org))))) (\<lambda>rows.
     if rows = [] then say_line ''(no schedules discovered yet)''
     else table A [''REPO'', ''SKILL'', ''SCHEDULE'', ''CRON'', ''PROVIDER'', ''ENABLED''] (map sched_cells rows))))"

definition list_limit :: "int \<Rightarrow> int" where
  "list_limit limit = (let l = (if limit \<le> 0 then 20 else limit) in if 1000 < l then 1000 else l)"

text \<open>The first eight characters of the identifier.\<close>

definition toRunDisplayRow :: "'k admin_env \<Rightarrow> run_join \<Rightarrow> string list" where
  "toRunDisplayRow A row = (case row of (r, s, k, c) \<Rightarrow>
     [take 8 (uuid_string (ids A) (run_id r)), rc_owner c @ ''/'' @ rc_name c @ ''/'' @ sch_name s, sk_path k, run_status r,
      (case run_started_at r of None \<Rightarrow> ''-'' | Some t \<Rightarrow> al_datetime A t),
      (case run_duration_ms r of None \<Rightarrow> ''-'' | Some d \<Rightarrow> itoa d @ ''ms'')])"

definition runAdminListRuns :: "'k admin_env \<Rightarrow> int \<Rightarrow> string \<Rightarrow> unit cmd" where
  "runAdminListRuns A limit sched = bind (need_dsn A) (\<lambda>_. bind (open_org A) (\<lambda>org.
     bind (map_err (db_text A ''list'') (on_admin (on_db (if sched = [] then ListRunsForOrg (og_id org) (list_limit limit)
       else ListRunsForSchedule (og_id org) sched (list_limit limit))))) (\<lambda>rows.
     if rows = [] then say_line ''(no runs yet)''
     else table A [''RUN ID'', ''SCHEDULE'', ''SKILL'', ''STATUS'', ''STARTED'', ''DURATION''] (map (toRunDisplayRow A) rows))))"

section \<open>show-run\<close>

definition opt_line :: "string \<Rightarrow> ('a \<Rightarrow> string) \<Rightarrow> 'a option \<Rightarrow> string list" where
  "opt_line label f v = (case v of None \<Rightarrow> [] | Some x \<Rightarrow> [label @ f x])"

definition run_lines :: "'k admin_env \<Rightarrow> run_join \<Rightarrow> string list" where
  "run_lines A row = (case row of (r, s, k, c) \<Rightarrow>
     [''Run ID:         '' @ uuid_string (ids A) (run_id r), ''Status:         '' @ run_status r, ''Fire reason:    '' @ run_fire_reason r,
      ''Schedule:       '' @ rc_owner c @ ''/'' @ rc_name c @ ''/'' @ sch_name s, ''Skill:          '' @ sk_path k @ '' @ '' @ run_skill_sha r,
      ''Cron:           '' @ sch_cron s] @
     opt_line ''Actor:          '' id (run_actor r) @ opt_line ''Started:        '' (al_rfc3339 A) (run_started_at r) @
     opt_line ''Finished:       '' (al_rfc3339 A) (run_finished_at r) @ opt_line ''Duration:       '' (\<lambda>d. itoa d @ ''ms'') (run_duration_ms r) @
     opt_line ''Tokens in:      '' itoa (run_tokens_in r) @ opt_line ''Tokens out:     '' itoa (run_tokens_out r) @
     opt_line ''Cost (cents):   '' itoa (run_cost_cents r) @ opt_line ''Writeback SHA:  '' id (run_writeback_commit_sha r) @
     opt_line ''Error kind:     '' id (if run_error_kind r = Some [] then None else run_error_kind r) @
     opt_line ''Error message:  '' id (if run_error_msg r = Some [] then None else run_error_msg r))"

definition event_line :: "'k admin_env \<Rightarrow> event_row \<Rightarrow> string" where
  "event_line A e = ''  ['' @ al_clock A (ev_ts e) @ ''] '' @ ev_level e @ replicate (5 - length (runes (ev_level e))) (CHR '' '') @ '' '' @ ev_event_type e @ '': '' @
     wl_marshal (sv_web_libs (al_serve A)) (ev_payload_json e)"

definition event_lines :: "'k admin_env \<Rightarrow> event_row list \<Rightarrow> string list" where
  "event_lines A evs = (if evs = [] then [[], ''(no events recorded)'']
     else [[], ''Events:''] @
       (if 20 < length evs then [''  ... ('' @ itoa (int (length evs - 20)) @ '' earlier events omitted)''] else []) @
       map (event_line A) (drop (length evs - 20) evs))"

definition say_lines :: "string list \<Rightarrow> unit cmd" where
  "say_lines ls = for_each ls say_line"

definition runAdminShowRun :: "'k admin_env \<Rightarrow> string \<Rightarrow> unit cmd" where
  "runAdminShowRun A idStr = (case uuid_parse (ids A) idStr of
       None \<Rightarrow> throw ''invalid run id''
     | Some i \<Rightarrow> bind (need_dsn A) (\<lambda>_. bind (open_pool A) (\<lambda>_.
         bind (map_err (\<lambda>e. if e = ErrNoRows then ''run not found: '' @ idStr else db_text A ''load run'' e) (on_admin (on_db (GetRunForAdmin i)))) (\<lambda>row.
         bind (say_lines (run_lines A row)) (\<lambda>_.
         bind (map_err (db_text A ''list events'') (on_admin (on_db (ListRunEvents (run_id (fst row)))))) (\<lambda>evs.
         say_lines (event_lines A evs)))))))"

section \<open>trigger-sync\<close>

definition admin_cache :: "'k admin_env \<Rightarrow> string \<Rightarrow> string \<Rightarrow> inst_config" where
  "admin_cache A appID pem = NewInstallationCache \<lparr>ig_app_id = appID, ig_private_key = pem,
     ig_base_url = genv A ''CRONFOUNDRY_GITHUB_BASE_URL'', ig_token_ttl = 0\<rparr>"

definition runAdminTriggerSync :: "'k admin_env \<Rightarrow> string \<Rightarrow> unit cmd" where
  "runAdminTriggerSync A repo =
     bind (need_dsn A) (\<lambda>_. let appID = genv A ''CRONFOUNDRY_GITHUB_APP_ID''; pem = genv A ''CRONFOUNDRY_GITHUB_APP_PEM'' in
     if appID = [] then throw (required ''CRONFOUNDRY_GITHUB_APP_ID'')
     else if pem = [] then throw ''CRONFOUNDRY_GITHUB_APP_PEM is required (path to GitHub App private key PEM, or inline PEM contents)''
     else case ReadPEM (sv_github (al_serve A)) pem of
       Inl e \<Rightarrow> throw (''read CRONFOUNDRY_GITHUB_APP_PEM: '' @ e)
     | Inr key \<Rightarrow> (case split_repo repo of
         None \<Rightarrow> throw (''repo must be owner/name; got '' @ quoted repo)
       | Some (owner, name) \<Rightarrow> bind (open_org A) (\<lambda>org.
           bind (map_err (db_text A ''list connections'') (on_admin (on_db (ListRepoConnections (og_id org))))) (\<lambda>rows.
           case find (\<lambda>r. rc_owner r = owner \<and> rc_name r = name) rows of
             None \<Rightarrow> throw (''no connection for '' @ owner @ ''/'' @ name @ ''; run `cronfoundry admin connect-repo` first'')
           | Some r \<Rightarrow> (let deps = al_sync A (admin_cache A appID key) in
               bind (map_err (\<lambda>e. ''sync: '' @ sy_err_text deps e) (on_admin (on_db (SyncOne deps (rc_id r))))) (\<lambda>_.
               say_line (''Synced '' @ owner @ ''/'' @ name)))))))"

end
