(* ===== verification/Connect_Copilot.thy ===== *)
theory Connect_Copilot
  imports Admin
begin

text \<open>
  The admin command connect-copilot (cmd/cronfoundry/admin_connectcopilot.go): GitHub's device
  flow and the storing of its tokens. The replies of GitHub are a parameter, by the number of the
  request; time is the clock at which a request is made, and the context ends at a deadline. The
  polling loop is a partial function: that it returns is a theorem.
\<close>

section \<open>Requests\<close>

record copilot_cfg =
  cp_device_url :: string
  cp_token_url :: string
  cp_client_id :: string
  cp_scope :: string
  cp_interval :: time

definition applyDefaults :: "copilot_cfg \<Rightarrow> copilot_cfg" where
  "applyDefaults d = d\<lparr>cp_device_url := (if cp_device_url d = [] then ''https://github.com/login/device/code'' else cp_device_url d),
     cp_token_url := (if cp_token_url d = [] then ''https://github.com/login/oauth/access_token'' else cp_token_url d),
     cp_client_id := (if cp_client_id d = [] then copilotClientID else cp_client_id d),
     cp_scope := (if cp_scope d = [] then ''copilot'' else cp_scope d)\<rparr>"

definition prodConnectCopilotDeps :: copilot_cfg where
  "prodConnectCopilotDeps = applyDefaults \<lparr>cp_device_url = [], cp_token_url = [], cp_client_id = [], cp_scope = [], cp_interval = 5 * second\<rparr>"

definition form_post :: "string \<Rightarrow> (string \<times> string) list \<Rightarrow> http_request" where
  "form_post url kvs = \<lparr>rq_method = ''POST'', rq_url = url,
     rq_headers = [(''Accept'', ''application/json''), (''Content-Type'', ''application/x-www-form-urlencoded'')],
     rq_body = http_body.TextBody (Values_Encode kvs)\<rparr>"

record device_code =
  dc_device_code :: string
  dc_user_code :: string
  dc_verification_uri :: string
  dc_interval :: int

record token_resp =
  tr_access_token :: string
  tr_refresh_token :: string
  tr_expires_in :: int
  tr_error :: string

text \<open>The replies and durations of the requests, the decoders, and the error of a context that has ended.\<close>

record flow_net =
  fn_reply :: "nat \<Rightarrow> http_request \<Rightarrow> http_reply"
  fn_latency :: "nat \<Rightarrow> time"
  fn_build_err :: "string \<Rightarrow> string option"
  fn_device :: "string \<Rightarrow> string + device_code"
  fn_token :: "string \<Rightarrow> string + token_resp"
  fn_deadline :: time
  fn_ctx_err :: string

section \<open>The device code\<close>

definition device_request :: "copilot_cfg \<Rightarrow> http_request" where
  "device_request d = form_post (cp_device_url d) [(''client_id'', cp_client_id d), (''scope'', cp_scope d)]"

definition device_response :: "flow_net \<Rightarrow> int \<Rightarrow> string \<Rightarrow> string + device_code" where
  "device_response N st body =
     (if st div 100 \<noteq> 2 then Inl (''device-code endpoint returned '' @ itoa st @ '': '' @ TrimSpace (take 512 body))
      else case fn_device N body of
        Inl e \<Rightarrow> Inl (''decode device-code response: '' @ e)
      | Inr dc \<Rightarrow> if dc_device_code dc = [] then Inl ''device-code response missing device_code'' else Inr dc)"

text \<open>The attempts made, and the clock at the next one; the wait before an attempt doubles.\<close>

fun device_attempt :: "flow_net \<Rightarrow> copilot_cfg \<Rightarrow> nat \<Rightarrow> nat \<Rightarrow> time \<Rightarrow> (string + device_code) \<times> nat \<times> time" where
  "device_attempt N d 0 n now = (Inl [], n, now)"
| "device_attempt N d (Suc left) n now =
     (case fn_build_err N (cp_device_url d) of Some e \<Rightarrow> (Inl e, n, now)
      | None \<Rightarrow>
        (let later = now + fn_latency N n in
         case fn_reply N n (device_request d) of
           Status st body \<Rightarrow> (device_response N st body, Suc n, later)
         | TransportError e \<Rightarrow>
           if fn_deadline N \<le> later then (Inl e, Suc n, later)
           else if left = 0 then (Inl e, Suc n, later)
           else (let t = later + int (3 - left) * 2 * second in
             if fn_deadline N \<le> t then (Inl (fn_ctx_err N), Suc n, fn_deadline N) else device_attempt N d left (Suc n) t)))"

definition requestDeviceCode :: "flow_net \<Rightarrow> copilot_cfg \<Rightarrow> time \<Rightarrow> (string + device_code) \<times> nat \<times> time" where
  "requestDeviceCode N d now = device_attempt N d 3 0 now"

section \<open>Polling for the token\<close>

definition token_request :: "copilot_cfg \<Rightarrow> string \<Rightarrow> http_request" where
  "token_request d code = form_post (cp_token_url d)
     [(''client_id'', cp_client_id d), (''device_code'', code), (''grant_type'', ''urn:ietf:params:oauth:grant-type:device_code'')]"

definition first_interval :: "copilot_cfg \<Rightarrow> device_code \<Rightarrow> time" where
  "first_interval d dc = (if 0 < dc_interval dc \<and> 0 < cp_interval d then dc_interval dc * second else cp_interval d)"

text \<open>What a reply says: the end of the flow, or the interval to wait.\<close>

definition token_verdict :: "flow_net \<Rightarrow> http_reply \<Rightarrow> time \<Rightarrow> (string + token_resp) + time" where
  "token_verdict N reply interval = (case reply of
       TransportError e \<Rightarrow> Inl (Inl e)
     | Status st body \<Rightarrow> (case fn_token N body of
         Inl e \<Rightarrow> Inl (Inl (''decode token response: '' @ e))
       | Inr tr \<Rightarrow>
         if tr_error tr = [] then (if tr_access_token tr = [] then Inl (Inl ''token response missing access_token'') else Inl (Inr tr))
         else if tr_error tr = ''authorization_pending'' then Inr interval
         else if tr_error tr = ''slow_down'' then Inr ((if interval \<le> 0 then 5 * second else interval) + 5 * second)
         else Inl (Inl (''token endpoint error: '' @ tr_error tr))))"

text \<open>The result, the number of requests made and the clock at the end.\<close>

partial_function (option) pollForToken ::
    "flow_net \<Rightarrow> copilot_cfg \<Rightarrow> device_code \<Rightarrow> time \<Rightarrow> nat \<Rightarrow> time \<Rightarrow> ((string + token_resp) \<times> nat \<times> time) option" where
  "pollForToken N d dc interval n now =
     (case fn_build_err N (cp_token_url d) of Some e \<Rightarrow> Some (Inl e, n, now)
      | None \<Rightarrow>
        (let later = now + fn_latency N n in
         case token_verdict N (fn_reply N n (token_request d (dc_device_code dc))) interval of
           Inl res \<Rightarrow> Some (res, Suc n, later)
         | Inr wait \<Rightarrow> (let t = later + (if wait \<le> 0 then 0 else wait) in
             if fn_deadline N \<le> t then Some (Inl (fn_ctx_err N), Suc n, fn_deadline N)
             else pollForToken N d dc wait (Suc n) t)))"

lemma token_verdict_waits: "token_verdict N reply interval = Inr wait \<Longrightarrow> 0 < interval \<Longrightarrow> interval \<le> wait"
  by (auto simp: token_verdict_def second_def split: http_reply.splits sum.splits if_splits)

lemma poll_loop_ends:
  assumes "0 < interval" "\<And>k. 0 \<le> fn_latency N k"
  shows "\<exists>res m t. pollForToken N d dc interval n now = Some (res, m, t) \<and> m \<le> n + nat ((fn_deadline N - now) div interval) + 1"
  using assms
proof (induction "nat (fn_deadline N - now)" arbitrary: interval n now rule: less_induct)
  case less
  let ?later = "now + fn_latency N n"
  let ?v = "token_verdict N (fn_reply N n (token_request d (dc_device_code dc))) interval"
  show ?case
  proof (cases "fn_build_err N (cp_token_url d)")
    case (Some e)
    then show ?thesis by (subst pollForToken.simps) simp
  next
    case b: None
    show ?thesis
    proof (cases ?v)
      case (Inl res)
      then show ?thesis using b by (subst pollForToken.simps) (simp add: Let_def)
    next
      case (Inr wait)
      have w: "interval \<le> wait" "0 < wait" using token_verdict_waits [OF Inr] less.prems(1) by auto
      let ?t = "?later + wait"
      show ?thesis
      proof (cases "fn_deadline N \<le> ?t")
        case True
        then show ?thesis using b Inr w by (subst pollForToken.simps) (simp add: Let_def)
      next
        case False
        have step: "now + interval \<le> ?t" using w less.prems(2) [of n] by simp
        obtain res m t where r: "pollForToken N d dc wait (Suc n) ?t = Some (res, m, t)"
          "m \<le> Suc n + nat ((fn_deadline N - ?t) div wait) + 1"
          using less.hyps [of ?t wait "Suc n"] False w step less.prems(1,2) by auto
        have "(fn_deadline N - ?t) div wait \<le> (fn_deadline N - ?t) div interval"
          using w less.prems(1) False by (intro zdiv_mono2) auto
        also have "\<dots> \<le> (fn_deadline N - now - interval) div interval"
          using step less.prems(1) by (intro zdiv_mono1) auto
        also have "\<dots> = (fn_deadline N - now) div interval - 1"
          using div_add_self2 [of interval "fn_deadline N - now - interval"] less.prems(1) by simp
        finally have le: "(fn_deadline N - ?t) div wait + 1 \<le> (fn_deadline N - now) div interval" by simp
        have "0 \<le> (fn_deadline N - ?t) div wait" using False w by (simp add: pos_imp_zdiv_nonneg_iff)
        then have "m \<le> n + nat ((fn_deadline N - now) div interval) + 1" using r(2) le by simp
        then show ?thesis using b Inr w False r(1) by (subst pollForToken.simps) (simp add: Let_def)
      qed
    qed
  qed
qed


definition pending_net :: flow_net where
  "pending_net = \<lparr>fn_reply = (\<lambda>n q. Status 200 ''pending''), fn_latency = (\<lambda>n. 1), fn_build_err = (\<lambda>u. None), fn_device = (\<lambda>b. Inl b),
     fn_token = (\<lambda>b. Inr \<lparr>tr_access_token = [], tr_refresh_token = [], tr_expires_in = 0, tr_error = ''authorization_pending''\<rparr>),
     fn_deadline = 900 * second, fn_ctx_err = ''context deadline exceeded''\<rparr>"

definition sample_code :: device_code where
  "sample_code = \<lparr>dc_device_code = ''d'', dc_user_code = ''ABCD-1234'', dc_verification_uri = ''https://github.com/login/device'', dc_interval = 5\<rparr>"


section \<open>Storing the tokens\<close>

text \<open>With a Key Vault neither the database nor the master key is needed; otherwise the store is the organization's.\<close>

definition copilot_store :: "'k admin_env \<Rightarrow> store_choice cmd" where
  "copilot_store A =
     (if genv A ''AZURE_KEYVAULT_URL'' \<noteq> [] then lift_sum (\<lambda>e. ''build secret store: '' @ e) (buildSecretStore (al_serve A) 0 [])
      else bind (need_dsn A) (\<lambda>_. bind (admin_master A) (\<lambda>master. bind (open_org A) (\<lambda>org.
        lift_sum (\<lambda>e. ''build secret store: '' @ e) (buildSecretStore (al_serve A) (og_id org) master)))))"

definition put_token :: "'k admin_env \<Rightarrow> web secret_store_if \<Rightarrow> string \<Rightarrow> string \<Rightarrow> string \<Rightarrow> unit cmd" where
  "put_token A S what name value = map_err (\<lambda>e. ''put '' @ what @ '': '' @ al_secret_text A e) (on_admin (ss_put S name value))"

definition put_tokens :: "'k admin_env \<Rightarrow> web secret_store_if \<Rightarrow> string \<Rightarrow> string \<Rightarrow> string \<Rightarrow> time \<Rightarrow> unit cmd" where
  "put_tokens A S pre access refresh expiresAt =
     bind (put_token A S ''access token'' (pre @ ''-access-token'') access) (\<lambda>_.
     bind (put_token A S ''refresh token'' (pre @ ''-refresh-token'') refresh) (\<lambda>_.
     put_token A S ''expiry'' (pre @ ''-expiry'') (itoa (expiresAt div second))))"

definition storeCopilotTokensProd :: "'k admin_env \<Rightarrow> time \<Rightarrow> string \<Rightarrow> string \<Rightarrow> string \<Rightarrow> int \<Rightarrow> unit cmd" where
  "storeCopilotTokensProd A now pre access refresh expiresIn =
     bind (copilot_store A) (\<lambda>c. put_tokens A (store_if A c) pre access refresh (now + expiresIn * second))"

section \<open>The command\<close>

definition announce :: "device_code \<Rightarrow> unit cmd" where
  "announce dc = say_line (''Visit '' @ dc_verification_uri dc @ '' and enter code '' @ dc_user_code dc)"

definition store_and_say :: "'k admin_env \<Rightarrow> time \<Rightarrow> string \<Rightarrow> token_resp \<Rightarrow> unit cmd" where
  "store_and_say A now pre tr =
     bind (map_err (\<lambda>e. ''store tokens: '' @ e) (storeCopilotTokensProd A now pre (tr_access_token tr) (tr_refresh_token tr) (tr_expires_in tr)))
       (\<lambda>_. say_line (''Stored tokens with prefix '' @ quoted pre))"

text \<open>
  \<open>None\<close> is a loop that does not return. The clock at which the expiry is computed is that of the
  end of the flow.
\<close>

definition runAdminConnectCopilot :: "'k admin_env \<Rightarrow> flow_net \<Rightarrow> copilot_cfg \<Rightarrow> string \<Rightarrow> time \<Rightarrow> time \<Rightarrow> admin \<Rightarrow> ((string + unit) \<times> admin) option" where
  "runAdminConnectCopilot A N d pre timeout now s =
     (if pre = [] then Some (throw ''--prefix must not be empty'' s)
      else if timeout \<le> 0 then Some (throw ''--timeout must be positive'' s)
      else (let M = N\<lparr>fn_deadline := now + timeout\<rparr> in
        case requestDeviceCode M d now of
          (Inl e, n, t) \<Rightarrow> Some (throw (''request device code: '' @ e) s)
        | (Inr dc, n, t) \<Rightarrow>
          (let s1 = snd (announce dc s) in
            (case pollForToken M d dc (first_interval d dc) n t of
               None \<Rightarrow> None
             | Some (Inl e, m, u) \<Rightarrow> Some (throw (''poll for token: '' @ e) s1)
             | Some (Inr tr, m, u) \<Rightarrow> Some (store_and_say A u pre tr s1)))))"

text \<open>In production the interval is positive whatever GitHub asks for, so the command returns.\<close>

lemma first_interval_positive: "0 < cp_interval d \<Longrightarrow> 0 < first_interval d dc"
  by (simp add: first_interval_def second_def)

theorem connect_copilot_returns:
  assumes "0 < cp_interval d" "\<And>k. 0 \<le> fn_latency N k"
  shows "\<exists>r. runAdminConnectCopilot A N d pre timeout now s = Some r"
proof -
  have "\<exists>res m u. pollForToken (N\<lparr>fn_deadline := now + timeout\<rparr>) d dc (first_interval d dc) n t = Some (res, m, u)" for dc n t
    using poll_loop_ends [OF first_interval_positive [OF assms(1)], of "N\<lparr>fn_deadline := now + timeout\<rparr>"] assms(2) by fastforce
  then show ?thesis
    by (auto simp: runAdminConnectCopilot_def Let_def split: prod.split sum.split option.split) (metis option.distinct(1))+
qed

section \<open>What a connection leaves\<close>

lemma GetFirstOrganization_secrets: "ww_secrets (snd (GetFirstOrganization w)) = ww_secrets w"
  by (simp add: GetFirstOrganization_def web_stmt_def on_db_def bind_def split: prod.split sum.split list.split)

lemma put_token_done:
  assumes "keyed_store S ct key" "put_token A S what n v s = (Inr (), s')"
  shows "ct (ad_web s') = (ct (ad_web s))(key n := Some v)"
  using assms(2) keyed_store.kput_done [OF assms(1)] by (auto simp: put_token_def map_err_def on_admin_def split: prod.splits sum.splits)

lemma put_tokens_done:
  assumes "keyed_store S ct key" "put_tokens A S pre access refresh expires s = (Inr (), s')"
  shows "ct (ad_web s') = (ct (ad_web s))(key (pre @ ''-access-token'') := Some access, key (pre @ ''-refresh-token'') := Some refresh,
    key (pre @ ''-expiry'') := Some (itoa (expires div second)))"
  using assms(2) unfolding put_tokens_def bind_eq_Inr_iff
  by (auto simp: put_token_done [OF assms(1)])

lemma say_web: "ad_web (snd (say_line t s)) = ad_web s"
  by (simp add: say_line_def say_def modify_def)

lemma seeded_org_secrets: "ww_secrets (ad_web (snd (open_org A s))) = ww_secrets (ad_web s)"
  using GetFirstOrganization_secrets [of "ad_web s"]
  by (auto simp: open_org_def open_pool_def seeded_org_def bind_def map_err_def on_admin_def throw_def ret_def split: option.split prod.splits sum.split)

lemma store_opened:
  assumes "genv A ''AZURE_KEYVAULT_URL'' = []" "buildSecretStore (al_serve A) org master = Inr c"
  shows "store_if A c = NewEnvelopePostgresStore \<lparr>es_org_id = org, es_master = master, es_gcm = sv_gcm (al_serve A)\<rparr>"
  using assms by (auto simp: buildSecretStore_def Let_def store_if_def)

lemma admin_master_Inr: "admin_master A s = (Inr m, s') \<Longrightarrow> parseMasterKey (genv A ''CRONFOUNDRY_MASTER_KEY'') = Inr m \<and> s' = s"
  by (auto simp: admin_master_def Let_def lift_sum_def throw_def ret_def split: if_splits sum.splits)

lemma open_org_Inr: "open_org A s = (Inr org, s') \<Longrightarrow> fst (GetFirstOrganization (ad_web s)) = Inr org \<and> ww_secrets (ad_web s') = ww_secrets (ad_web s)"
  using seeded_org_secrets [of A s]
  by (auto simp: open_org_def open_pool_def seeded_org_def bind_def map_err_def on_admin_def throw_def ret_def split: option.splits prod.splits sum.splits)

definition org_store :: "'k admin_env \<Rightarrow> web \<Rightarrow> envelope_store \<Rightarrow> bool" where
  "org_store A w st \<longleftrightarrow> (\<exists>org. fst (GetFirstOrganization w) = Inr org \<and> es_org_id st = og_id org \<and>
     parseMasterKey (genv A ''CRONFOUNDRY_MASTER_KEY'') = Inr (es_master st) \<and> es_gcm st = sv_gcm (al_serve A))"

lemma envelope_keyed: "gcm_ok (es_gcm st) \<Longrightarrow> keyed_store (NewEnvelopePostgresStore st) (es_contents st) (\<lambda>n. n)"
  by (rule secret_store.as_keyed [OF envelope_secret_store])

lemma store_and_say_Inr:
  assumes "store_and_say A now pre tr s = (Inr u, s')"
  shows "\<exists>s2. storeCopilotTokensProd A now pre (tr_access_token tr) (tr_refresh_token tr) (tr_expires_in tr) s = (Inr (), s2) \<and> ad_web s' = ad_web s2"
proof -
  obtain x s2 where x: "map_err (\<lambda>e. ''store tokens: '' @ e) (storeCopilotTokensProd A now pre (tr_access_token tr) (tr_refresh_token tr) (tr_expires_in tr)) s = (Inr x, s2)"
      "say_line (''Stored tokens with prefix '' @ quoted pre) s2 = (Inr u, s')"
    using assms unfolding store_and_say_def bind_eq_Inr_iff by blast
  have "ad_web s' = ad_web s2" using say_web [of "''Stored tokens with prefix '' @ quoted pre" s2] x(2) by simp
  moreover have "storeCopilotTokensProd A now pre (tr_access_token tr) (tr_refresh_token tr) (tr_expires_in tr) s = (Inr (), s2)"
    using map_err_eq_Inr [OF x(1)] by simp
  ultimately show ?thesis by blast
qed

lemma flow_of_connection:
  assumes "runAdminConnectCopilot A N d pre timeout now s = Some (Inr u, s')"
  shows "\<exists>dc n t tr m t' s1. requestDeviceCode (N\<lparr>fn_deadline := now + timeout\<rparr>) d now = (Inr dc, n, t) \<and>
    pollForToken (N\<lparr>fn_deadline := now + timeout\<rparr>) d dc (first_interval d dc) n t = Some (Inr tr, m, t') \<and> ad_web s1 = ad_web s \<and>
    store_and_say A t' pre tr s1 = (Inr u, s')"
proof -
  let ?M = "N\<lparr>fn_deadline := now + timeout\<rparr>"
  obtain r n t where r: "requestDeviceCode ?M d now = (r, n, t)" by (metis prod_cases3)
  have pre: "pre \<noteq> []" "\<not> timeout \<le> 0" using assms by (auto simp: runAdminConnectCopilot_def throw_def split: if_splits)
  note run = assms [unfolded runAdminConnectCopilot_def Let_def r if_not_P [OF pre(1)] if_not_P [OF pre(2)] prod.case]
  obtain dc where dc: "r = Inr dc" using run by (cases r) (simp_all add: throw_def)
  let ?s1 = "snd (announce dc s)"
  let ?p = "pollForToken ?M d dc (first_interval d dc) n t"
  obtain q m t' where q: "?p = Some (q, m, t')"
    using run unfolding dc by (cases ?p) (auto simp: case_prod_beta)
  obtain tr where tr: "q = Inr tr"
    using run unfolding dc by (cases q) (simp_all add: case_prod_beta q throw_def)
  have "store_and_say A t' pre tr ?s1 = (Inr u, s')"
    using run unfolding dc by (simp add: case_prod_beta q tr)
  moreover have "ad_web ?s1 = ad_web s" by (simp add: announce_def say_web)
  ultimately show ?thesis using r dc q tr by blast
qed

text \<open>
  A connection that ends well has stored, beside the tokens GitHub gave for the code the
  operator entered, when they expire, under three names, and no other secret.
\<close>

theorem connect_copilot_stores:
  assumes "gcm_ok (sv_gcm (al_serve A))" "genv A ''AZURE_KEYVAULT_URL'' = []"
    and ok: "runAdminConnectCopilot A N d pre timeout now s = Some (Inr u, s')"
  shows "\<exists>st dc tr m n t t'. org_store A (ad_web s) st \<and> requestDeviceCode (N\<lparr>fn_deadline := now + timeout\<rparr>) d now = (Inr dc, n, t) \<and>
    pollForToken (N\<lparr>fn_deadline := now + timeout\<rparr>) d dc (first_interval d dc) n t = Some (Inr tr, m, t') \<and>
    es_contents st (ad_web s') = (es_contents st (ad_web s))(pre @ ''-access-token'' := Some (tr_access_token tr),
      pre @ ''-refresh-token'' := Some (tr_refresh_token tr), pre @ ''-expiry'' := Some (itoa ((t' + tr_expires_in tr * second) div second)))"
proof -
  obtain dc n t tr m t' s1 where f: "requestDeviceCode (N\<lparr>fn_deadline := now + timeout\<rparr>) d now = (Inr dc, n, t)"
      "pollForToken (N\<lparr>fn_deadline := now + timeout\<rparr>) d dc (first_interval d dc) n t = Some (Inr tr, m, t')"
      "ad_web s1 = ad_web s"
      "store_and_say A t' pre tr s1 = (Inr u, s')"
    using flow_of_connection [OF ok] by blast
  obtain s2 where s2: "storeCopilotTokensProd A t' pre (tr_access_token tr) (tr_refresh_token tr) (tr_expires_in tr) s1 = (Inr (), s2)"
      "ad_web s' = ad_web s2"
    using store_and_say_Inr [OF f(4)] by blast
  obtain c s3 where c: "copilot_store A s1 = (Inr c, s3)"
      "put_tokens A (store_if A c) pre (tr_access_token tr) (tr_refresh_token tr) (t' + tr_expires_in tr * second) s3 = (Inr (), s2)"
    using s2(1) unfolding storeCopilotTokensProd_def bind_eq_Inr_iff by blast
  obtain org master where o: "fst (GetFirstOrganization (ad_web s)) = Inr org" "ww_secrets (ad_web s3) = ww_secrets (ad_web s)"
      "parseMasterKey (genv A ''CRONFOUNDRY_MASTER_KEY'') = Inr master" "buildSecretStore (al_serve A) (og_id org) master = Inr c"
    using c(1) f(3) assms(2) unfolding copilot_store_def need_dsn_def
    by (auto simp: bind_eq_Inr_iff lift_sum_Inr throw_def ret_def dest!: admin_master_Inr open_org_Inr split: if_splits)
  define st where "st = \<lparr>es_org_id = og_id org, es_master = master, es_gcm = sv_gcm (al_serve A)\<rparr>"
  have S: "store_if A c = NewEnvelopePostgresStore st" using store_opened [OF assms(2) o(4)] by (simp add: st_def)
  have k: "keyed_store (NewEnvelopePostgresStore st) (es_contents st) (\<lambda>n. n)"
    using assms(1) by (intro envelope_keyed) (simp add: st_def)
  have "es_contents st (ad_web s3) = es_contents st (ad_web s)" using o(2) by (simp add: es_contents_def fun_eq_iff)
  then have "es_contents st (ad_web s') = (es_contents st (ad_web s))(pre @ ''-access-token'' := Some (tr_access_token tr),
      pre @ ''-refresh-token'' := Some (tr_refresh_token tr), pre @ ''-expiry'' := Some (itoa ((t' + tr_expires_in tr * second) div second)))"
    using put_tokens_done [OF k c(2) [unfolded S]] s2(2) by simp
  moreover have "org_store A (ad_web s) st" using o by (auto simp: org_store_def st_def)
  ultimately show ?thesis using f(1,2) by blast
qed

end
