(* ===== verification/Admin_Claims.thy ===== *)
theory Admin_Claims
  imports Connect_Copilot Chat_Claims
begin

text \<open>
  What the admin commands do to the database: the listings change nothing, init seeds one
  organization and no second, and set-secret stores the line it reads.
\<close>

section \<open>Listings\<close>

text \<open>A command that only looks changes no table and only adds to its output.\<close>

definition looks :: "admin \<Rightarrow> admin \<Rightarrow> bool" where
  "looks s t \<longleftrightarrow> reads_only (ad_web s) (ad_web t) \<and> (\<exists>u. ad_out t = ad_out s @ u)"

interpretation look: step_rel looks
  by unfold_locales (auto simp: looks_def ro.R_refl intro: ro.R_trans)

lemma on_admin_looks: "keeps reads_only m \<Longrightarrow> keeps looks (on_admin m)"
  by (auto simp: keeps_def looks_def on_admin_def split: prod.split) (metis snd_conv)

lemma say_looks: "keeps looks (say t)"
  by (simp add: keeps_def looks_def say_def modify_def ro.R_refl)

lemma say_line_looks: "keeps looks (say_line t)"
  unfolding say_line_def by (rule say_looks)

lemma say_lines_looks: "keeps looks (say_lines ls)"
  unfolding say_lines_def by (intro look.for_each_keeps say_line_looks)

lemma need_dsn_looks: "keeps looks (need_dsn A)"
  unfolding need_dsn_def by (auto intro: look.keeps_rules)

lemma open_pool_looks: "keeps looks (open_pool A)"
  unfolding open_pool_def by (auto intro: look.keeps_rules split: option.split)

lemma open_org_looks: "keeps looks (open_org A)"
  unfolding open_org_def seeded_org_def GetFirstOrganization_def
  by (intro look.keeps_rules open_pool_looks on_admin_looks read_web_stmt) (auto split: list.split)

lemmas look_rules = look.bind_keeps look.map_err_keeps look.throw_keeps look.ret_keeps say_line_looks say_looks say_lines_looks need_dsn_looks
  open_pool_looks open_org_looks on_admin_looks read_stmt

lemma runAdminListConnections_looks: "keeps looks (runAdminListConnections A)"
  unfolding runAdminListConnections_def table_def ListRepoConnections_def by (auto intro!: look_rules)

lemma runAdminListSchedules_looks: "keeps looks (runAdminListSchedules A)"
  unfolding runAdminListSchedules_def table_def ListSchedulesByOrg_def by (auto intro!: look_rules)

lemma runAdminListRuns_looks: "keeps looks (runAdminListRuns A limit sched)"
  unfolding runAdminListRuns_def table_def ListRunsForOrg_def ListRunsForSchedule_def by (auto intro!: look_rules)

lemma runAdminShowRun_looks: "keeps looks (runAdminShowRun A i)"
  unfolding runAdminShowRun_def GetRunForAdmin_def ListRunEvents_def
  by (auto intro!: look_rules split: option.split)

text \<open>
  The four listing commands change no table, whatever fails, and what they print is added
  to what was printed.
\<close>

theorem listings_read_only:
  "\<forall>m \<in> {runAdminListConnections A, runAdminListSchedules A, runAdminListRuns A limit sched, runAdminShowRun A i}. looks s (snd (m s))"
  using runAdminListConnections_looks [THEN keepsD] runAdminListSchedules_looks [THEN keepsD]
    runAdminListRuns_looks [THEN keepsD] runAdminShowRun_looks [THEN keepsD] by auto

lemma list_limit_range: "1 \<le> list_limit l \<and> list_limit l \<le> 1000"
  by (simp add: list_limit_def Let_def)

text \<open>At most twenty events, the last ones.\<close>

lemma event_lines_tail: "\<exists>head. event_lines A evs = head @ map (event_line A) (drop (length evs - 20) evs) \<and> length (drop (length evs - 20) evs) \<le> 20"
  by (auto simp: event_lines_def)

section \<open>init\<close>

lemma say_line_web: "say_line t s = (Inr u, s') \<Longrightarrow> ad_web s' = ad_web s"
  using say_web [of t s] by simp

definition same_orgs :: "admin \<Rightarrow> admin \<Rightarrow> bool" where
  "same_orgs s t \<longleftrightarrow> ww_orgs (ad_web t) = ww_orgs (ad_web s)"

interpretation orgs: step_rel same_orgs
  by unfold_locales (simp_all add: same_orgs_def)

lemma say_line_orgs: "keeps same_orgs (say_line t)"
  by (simp add: keeps_def same_orgs_def say_web)

lemma GetFirstOrganization_orgs: "GetFirstOrganization w = (r, w') \<Longrightarrow> ww_orgs w' = ww_orgs w \<and> (r = Inl ErrNoRows \<longrightarrow> ww_orgs w = [])"
proof -
  assume g: "GetFirstOrganization w = (r, w')"
  show ?thesis
  proof (cases "sort_key og_created_at (ww_orgs w)")
    case Nil
    then have "ww_orgs w = []" by (metis length_0_conv length_sort)
    then show ?thesis using g by (auto simp: GetFirstOrganization_def web_stmt_run counted_def split: if_splits)
  next
    case (Cons o' os)
    then show ?thesis using g by (auto simp: GetFirstOrganization_def web_stmt_run counted_def split: if_splits)
  qed
qed

lemma on_web_Inr: "on_admin m s = (Inr a, s') \<longleftrightarrow> (\<exists>w. m (ad_web s) = (Inr a, w) \<and> s' = s\<lparr>ad_web := w\<rparr>)"
  by (auto simp: on_admin_def split: prod.splits)

lemma open_pool_Inr: "open_pool A s = (Inr u, s') \<Longrightarrow> s' = s"
  by (auto simp: open_pool_def throw_def ret_def split: option.splits)

lemma need_dsn_Inr: "need_dsn A s = (Inr u, s') \<Longrightarrow> s' = s"
  by (auto simp: need_dsn_def throw_def ret_def split: if_splits)

lemma CreateOrganization_orgs: "CreateOrganization name w = (Inr row, w') \<Longrightarrow> og_name row = name \<and> ww_orgs w' = ww_orgs w @ [row]"
  by (auto simp: CreateOrganization_def web_stmt_run counted_def id_drawn_def Let_def split: if_splits)

lemma attempt_Inr: "attempt m s = (Inr x, s') \<longleftrightarrow> m s = (x, s')"
  by (auto simp: attempt_def split: prod.splits)

lemma seed_org_orgs:
  assumes "seed_org A name s = (Inr u, s')"
  shows "if ww_orgs (ad_web s) \<noteq> [] then ww_orgs (ad_web s') = ww_orgs (ad_web s)
    else \<exists>row. ww_orgs (ad_web s') = [row] \<and> og_name row = name"
proof -
  obtain found w where g: "GetFirstOrganization (ad_web s) = (found, w)" by (metis surj_pair)
  let ?s1 = "s\<lparr>ad_web := w\<rparr>"
  have o1: "ww_orgs w = ww_orgs (ad_web s)" "found = Inl ErrNoRows \<longrightarrow> ww_orgs (ad_web s) = []"
    using GetFirstOrganization_orgs [OF g] by auto
  have a: "attempt (on_admin GetFirstOrganization) s = (Inr found, ?s1)" using g by (simp add: attempt_Inr on_admin_def)
  note rest = assms [unfolded seed_org_def bind_Inr [of "attempt (on_admin GetFirstOrganization)" s, OF a]]
  show ?thesis
  proof (cases found)
    case (Inr org)
    have "ad_web s' = w" using rest [unfolded Inr sum.case] by (auto dest: say_line_web)
    moreover have "ww_orgs (ad_web s) \<noteq> []" using g Inr
      by (auto simp: GetFirstOrganization_def web_stmt_run counted_def split: if_splits)
    ultimately show ?thesis using o1 by simp
  next
    case (Inl e)
    then have e: "e = ErrNoRows" using rest by (auto simp: throw_def split: if_splits)
    then have z: "ww_orgs w = []" "ww_orgs (ad_web s) = []" using o1 Inl by simp_all
    obtain row s2 where r: "map_err (db_text A ''seed organization'') (on_admin (CreateOrganization name)) ?s1 = (Inr row, s2)"
        "ad_web s' = ad_web s2"
      using rest [unfolded Inl sum.case e] by (auto simp: bind_eq_Inr_iff dest: say_line_web)
    then obtain w2 where "CreateOrganization name w = (Inr row, w2)" "ad_web s2 = w2"
      using map_err_eq_Inr [OF r(1)] by (auto simp: on_web_Inr)
    then show ?thesis using CreateOrganization_orgs z r(2) by fastforce
  qed
qed

text \<open>
  A run of init that ends well, with the master key set, leaves the organizations as
  they were if there was one, and exactly one of the given name if there was none; so the second
  run changes nothing. Without the key it touches no table.
\<close>

theorem init_seeds_once:
  assumes mig: "\<And>w. ww_orgs (snd (al_migrate A w)) = ww_orgs w" and ok: "runAdminInit A name s = (Inr u, s')"
  shows "if genv A ''CRONFOUNDRY_MASTER_KEY'' = [] \<or> ww_orgs (ad_web s) \<noteq> [] then ww_orgs (ad_web s') = ww_orgs (ad_web s)
    else \<exists>row. ww_orgs (ad_web s') = [row] \<and> og_name row = name"
proof (cases "genv A ''CRONFOUNDRY_MASTER_KEY'' = []")
  case True
  have "keeps same_orgs (on_admin GenerateMasterKey)"
    by (simp add: keeps_def same_orgs_def on_admin_def GenerateMasterKey_def rand_Read_def bind_def map_err_def ret_def split: option.split)
  then have "keeps same_orgs (runAdminInit A name)" unfolding runAdminInit_def if_P [OF True] print_key_def
    by (intro orgs.bind_keeps orgs.map_err_keeps say_line_orgs)
  then show ?thesis using ok keepsD [of same_orgs "runAdminInit A name" s] True by (simp add: same_orgs_def)
next
  case False
  obtain s1 s2 where st: "ad_web s1 = ad_web s" "on_admin (al_migrate A) s1 = (Inr (), s2)" "seed_org A name s2 = (Inr u, s')"
    using ok unfolding runAdminInit_def if_not_P [OF False]
    by (auto simp: bind_eq_Inr_iff dest!: map_err_eq_Inr need_dsn_Inr open_pool_Inr say_line_web)
  have "ww_orgs (ad_web s2) = ww_orgs (ad_web s)" using st(1,2) mig [of "ad_web s1"] by (auto simp: on_web_Inr)
  then show ?thesis using seed_org_orgs [OF st(3)] False by simp
qed

section \<open>set-secret\<close>

text \<open>One line, without its end.\<close>

lemma readOneLine_line:
  assumes "readOneLine s err = Inr v"
  shows "CHR 0x0A \<notin> set v \<and> (v = [] \<or> last v \<noteq> CHR 0x0D) \<and> (\<exists>t. s = v @ t)"
proof -
  let ?l = "case read_string s of None \<Rightarrow> [] | Some (l, _) \<Rightarrow> l"
  have v: "v = trim_right [CHR 0x0D] (trim_right [CHR 0x0A] ?l)" using assms by (auto simp: readOneLine_def split: if_splits)
  have tr: "\<exists>t. x = trim_right c x @ t" for c x
    unfolding trim_right_def by (metis rev_append rev_rev_ident takeWhile_dropWhile_id)
  have last: "trim_right [c] x = [] \<or> last (trim_right [c] x) \<noteq> c" for c x
    unfolding trim_right_def by (cases "dropWhile (\<lambda>d. d \<in> set [c]) (rev x)") (auto dest: dropWhile_eq_Cons_conv [THEN iffD1])
  have "\<exists>t. s = ?l @ t" by (auto split: option.split prod.split dest: read_string_splits)
  moreover have nl: "CHR 0x0A \<notin> set (trim_right [CHR 0x0A] ?l)"
  proof (cases "read_string s")
    case None
    then show ?thesis by (simp add: trim_right_def)
  next
    case (Some p)
    define t where "t = takeWhile (\<lambda>c. c \<noteq> CHR 0x0A) s"
    have nt: "CHR 0x0A \<notin> set t" unfolding t_def by (auto dest: set_takeWhileD)
    have d: "drop (length t) s = dropWhile (\<lambda>c. c \<noteq> CHR 0x0A) s" unfolding t_def by (rule dropWhile_eq_drop [symmetric])
    have "fst p = t \<or> fst p = t @ [CHR 0x0A]"
    proof (cases "drop (length t) s")
      case Nil
      then show ?thesis using Some by (auto simp: read_string_def Let_def t_def [symmetric] split: if_splits)
    next
      case (Cons n r)
      then have "dropWhile (\<lambda>c. c \<noteq> CHR 0x0A) s = n # r" using d by simp
      then have "n = CHR 0x0A" by (simp only: dropWhile_eq_Cons_conv) simp
      then show ?thesis using Some Cons by (auto simp: read_string_def Let_def t_def [symmetric] split: if_splits)
    qed
    moreover have "trim_right [CHR 0x0A] (t @ [CHR 0x0A]) = trim_right [CHR 0x0A] t" by (simp add: trim_right_def)
    moreover have "CHR 0x0A \<notin> set (trim_right [CHR 0x0A] t)" using nt by (auto simp: trim_right_def dest: set_dropWhileD)
    ultimately have "CHR 0x0A \<notin> set (trim_right [CHR 0x0A] (fst p))" by metis
    then show ?thesis using Some by (simp add: case_prod_beta)
  qed
  moreover have "\<exists>t. ?l = trim_right [CHR 0x0A] ?l @ t" by (rule tr)
  moreover have v3: "\<exists>t. trim_right [CHR 0x0A] ?l = v @ t" unfolding v by (rule tr)
  ultimately have "\<exists>t. s = v @ t" by (metis append.assoc)
  moreover have "CHR 0x0A \<notin> set v" using nl v3 by (metis Un_iff set_append)
  moreover have "v = [] \<or> last v \<noteq> CHR 0x0D" unfolding v by (rule last)
  ultimately show ?thesis by blast
qed

text \<open>
  A secret that the command stores is the line it read, under the name it was given, and no
  other secret changes.
\<close>

theorem set_secret_stores:
  assumes "gcm_ok (sv_gcm (al_serve A))" "genv A ''AZURE_KEYVAULT_URL'' = []"
    and ok: "runAdminSetSecret A name stdin err s = (Inr u, s')"
  shows "\<exists>st v. org_store A (ad_web s) st \<and> readOneLine stdin err = Inr v \<and> v \<noteq> [] \<and> CHR 0x0A \<notin> set v \<and>
    es_contents st (ad_web s') = (es_contents st (ad_web s))(name := Some v)"
proof -
  obtain master v org s2 c s3 where f: "admin_master A s = (Inr master, s)" "readOneLine stdin err = Inr v" "v \<noteq> []" "open_org A s = (Inr org, s2)"
      "buildSecretStore (al_serve A) (og_id org) master = Inr c" "on_admin (ss_put (store_if A c) name v) s2 = (Inr (), s3)" "ad_web s' = ad_web s3"
    using ok assms(2) unfolding runAdminSetSecret_def bind_eq_Inr_iff
    by (auto simp: lift_sum_Inr bind_eq_Inr_iff throw_def dest!: map_err_eq_Inr need_dsn_Inr say_line_web split: if_splits) (metis admin_master_Inr)
  define st where "st = \<lparr>es_org_id = og_id org, es_master = master, es_gcm = sv_gcm (al_serve A)\<rparr>"
  have S: "store_if A c = NewEnvelopePostgresStore st" using store_opened [OF assms(2) f(5)] by (simp add: st_def)
  have k: "keyed_store (NewEnvelopePostgresStore st) (es_contents st) (\<lambda>n. n)"
    using assms(1) by (intro envelope_keyed) (simp add: st_def)
  have "es_contents st (ad_web s2) = es_contents st (ad_web s)"
    using open_org_Inr [OF f(4)] by (simp add: es_contents_def fun_eq_iff)
  moreover have "es_contents st (ad_web s3) = (es_contents st (ad_web s2))(name := Some v)"
    using f(6) keyed_store.kput_done [OF k] unfolding S by (auto simp: on_web_Inr)
  moreover have "org_store A (ad_web s) st"
    using open_org_Inr [OF f(4)] admin_master_Inr [OF f(1)] by (auto simp: org_store_def st_def)
  ultimately show ?thesis using f(2,3,7) readOneLine_line [OF f(2)] by metis
qed

end
