(* ===== verification/Azure_Bootstrap.thy ===== *)
theory Azure_Bootstrap
  imports Shell_State Publish Secret_Store
begin

text \<open>
  The interactive deployment to Azure (internal/bootstrap/azure and cmd/cronfoundry/bootstrap.go):
  the prompts, the validation of their answers, the parameter file and the fixed sequence of
  commands. The commands of the az tool, HTTP and the clock are parameters; the commands run are
  kept as a history. The overrides of the registry, the scheme and the host that the tests use are left out.
\<close>

section \<open>Inputs\<close>

record az_inputs =
  ai_env :: string
  ai_region :: string
  ai_image_owner :: string
  ai_image_tag :: string
  ai_github_app_id :: string
  ai_client_id :: string
  ai_client_secret :: string
  ai_pem :: string
  ai_admin_logins :: string
  ai_pg_password :: string

definition envSuffixRe :: "string \<Rightarrow> bool" where
  "envSuffixRe s \<longleftrightarrow> 1 \<le> length s \<and> length s \<le> 10 \<and> list_all (\<lambda>c. is_digit c \<or> is_alpha c \<and> lower_char c = c) s"

definition alphanumericRe :: "string \<Rightarrow> bool" where
  "alphanumericRe s \<longleftrightarrow> s \<noteq> [] \<and> list_all (\<lambda>c. is_alpha c \<or> is_digit c) s"

definition Inputs_Validate :: "az_inputs \<Rightarrow> string option" where
  "Inputs_Validate i =
     (if \<not> envSuffixRe (ai_env i) then Some (''env '' @ quoted (ai_env i) @ '' invalid: must be 1-10 lowercase alphanumerics'')
      else if ai_region i = [] then Some ''region required''
      else if ai_image_owner i = [] then Some ''image owner required''
      else if ai_image_tag i = [] then Some ''image tag required''
      else if ai_github_app_id i = [] \<or> ai_client_id i = [] \<or> ai_client_secret i = []
      then Some ''github app id, oauth client id, oauth client secret all required''
      else if length (ai_pem i) < 16 then Some ''PEM contents missing or implausibly short''
      else if ai_admin_logins i = [] then Some ''at least one admin github login required''
      else if ai_pg_password i = [] then Some ''postgres password required''
      else if \<not> alphanumericRe (ai_pg_password i) then Some ''postgres password must be alphanumeric'' else None)"

definition password_alphabet :: string where
  "password_alphabet = ''abcdefghijklmnopqrstuvwxyzABCDEFGHIJKLMNOPQRSTUVWXYZ0123456789''"

text \<open>From 24 random bytes.\<close>

definition GeneratePostgresPassword :: "string \<Rightarrow> string" where
  "GeneratePostgresPassword buf = map (\<lambda>b. password_alphabet ! (of_char b mod length password_alphabet)) buf"

lemma password_alphabet_all: "list_all (\<lambda>c. is_alpha c \<or> is_digit c) password_alphabet \<and> length password_alphabet = 62"
  by code_simp

lemma generated_password_valid: "length buf = 24 \<Longrightarrow> alphanumericRe (GeneratePostgresPassword buf) \<and> length (GeneratePostgresPassword buf) = 24"
proof -
  assume l: "length buf = 24"
  have "is_alpha (password_alphabet ! (n mod length password_alphabet)) \<or> is_digit (password_alphabet ! (n mod length password_alphabet))" for n
    using password_alphabet_all by (simp add: list_all_length)
  then show ?thesis using l by (cases buf) (auto simp: GeneratePostgresPassword_def alphanumericRe_def list_all_iff)
qed

section \<open>Prompts\<close>

definition ask :: "string \<Rightarrow> string \<Rightarrow> (console, string, string) sx" where
  "ask label def' c =
     (let c1 = c\<lparr>co_out := co_out c @ (if def' = [] then label @ '': '' else label @ '' ['' @ def' @ '']: '')\<rparr> in
      case read_string (co_in c1) of None \<Rightarrow> (Inl ''EOF'', c1)
      | Some (l, r) \<Rightarrow> (let v = trim_right [CHR 0x0D, CHR 0x0A] l in (Inr (if v = [] then def' else v), c1\<lparr>co_in := r\<rparr>)))"

text \<open>\<open>rand\<close> is the random source: 24 bytes or an error.\<close>

definition Prompt :: "(string \<Rightarrow> string + string) \<Rightarrow> string + string \<Rightarrow> (console, string, az_inputs) sx" where
  "Prompt read_file rand =
     bind (ask ''env suffix'' ''prod'') (\<lambda>env.
     bind (ask ''Azure region'' ''swedencentral'') (\<lambda>region.
     bind (ask ''GHCR image owner'' ''gambtho'') (\<lambda>owner.
     bind (ask ''image tag'' ''latest'') (\<lambda>tag.
     bind (ask ''GitHub App ID (numeric)'' []) (\<lambda>app.
     bind (ask ''OAuth Client ID (Iv23li...)'' []) (\<lambda>client.
     bind (ask ''OAuth Client Secret'' []) (\<lambda>secret.
     bind (ask ''Path to GitHub App .pem file'' []) (\<lambda>path.
     bind (lift_sum (\<lambda>e. ''read pem: '' @ e) (read_file path)) (\<lambda>pem.
     bind (ask ''Admin GitHub login(s) (comma-separated)'' []) (\<lambda>logins.
     bind (ask ''Postgres admin password (blank to generate)'' []) (\<lambda>pw.
     bind (if pw \<noteq> [] then ret pw else bind (lift_sum (\<lambda>e. e) rand) (\<lambda>buf. let g = GeneratePostgresPassword buf in
       bind (modify (\<lambda>c. c\<lparr>co_out := co_out c @ ''  generated postgres password: '' @ g @ eol\<rparr>)) (\<lambda>_. ret g))) (\<lambda>password.
     ret \<lparr>ai_env = env, ai_region = region, ai_image_owner = owner, ai_image_tag = tag, ai_github_app_id = app, ai_client_id = client,
       ai_client_secret = secret, ai_pem = pem, ai_admin_logins = logins, ai_pg_password = password\<rparr>))))))))))))"

section \<open>The parameter file\<close>

definition param :: "string \<Rightarrow> json \<Rightarrow> string \<times> json" where
  "param k v = (k, JObj [(''value'', v)])"

definition params_doc :: "az_inputs \<Rightarrow> string \<Rightarrow> json" where
  "params_doc i masterKey = JObj [
     (''$schema'', JStr ''https://schema.management.azure.com/schemas/2019-04-01/deploymentParameters.json#''),
     (''contentVersion'', JStr ''1.0.0.0''),
     (''parameters'', JObj [param ''adminLogins'' (JStr (ai_admin_logins i)), param ''env'' (JStr (ai_env i)),
        param ''githubAppId'' (JStr (ai_github_app_id i)), param ''githubAppOAuthClientId'' (JStr (ai_client_id i)),
        param ''githubAppOAuthClientSecret'' (JStr (ai_client_secret i)), param ''githubAppPem'' (JStr (ai_pem i)),
        param ''imageTag'' (JStr (ai_image_tag i)), param ''ingressExternal'' (JBool True), param ''location'' (JStr (ai_region i)),
        param ''masterKey'' (JStr masterKey), param ''postgresAdminPassword'' (JStr (ai_pg_password i)),
        param ''publicBaseUrl'' (JStr []), param ''trustProxy'' (JBool True), param ''viewerLogins'' (JStr [])])]"

text \<open>
  The owner of the image is asked for and its image is probed, but the parameters do not carry
  it: two inputs that differ in the owner only are deployed the same.
\<close>

lemma image_owner_not_deployed: "params_doc (i\<lparr>ai_image_owner := o'\<rparr>) masterKey = params_doc i masterKey"
  by (simp add: params_doc_def)

section \<open>The deployment\<close>

text \<open>A command with its arguments, and the variables it adds to the environment.\<close>

record az_call =
  az_name :: string
  az_args :: "string list"
  az_env :: "string list"

record deployment =
  dp_calls :: "az_call list"
  dp_out :: "string list"
  dp_files :: "string \<Rightarrow> string option"

text \<open>The outside: the answer to the n-th command, HTTP, the public address, file errors, and the clock as text.\<close>

record azure_world =
  az_answer :: "nat \<Rightarrow> az_call \<Rightarrow> string + string"
  az_probe :: "string \<Rightarrow> http_reply"
  az_public_ip :: "string + string"
  az_health :: "nat \<Rightarrow> string \<Rightarrow> http_reply"
  az_health_latency :: "nat \<Rightarrow> time"
  az_write_err :: "string option"
  az_marshal :: "json \<Rightarrow> string"
  az_stamp :: string
  az_unix :: string

record bootstrap =
  bs_inputs :: az_inputs
  bs_master_key :: string
  bs_params_path :: string
  bs_template_file :: string
  bs_binary :: string
  bs_dry_run :: bool

type_synonym 'a dep = "(deployment, string, 'a) sx"

definition run_cmd :: "azure_world \<Rightarrow> az_call \<Rightarrow> string dep" where
  "run_cmd W call = (\<lambda>s. (az_answer W (length (dp_calls s)) call, s\<lparr>dp_calls := dp_calls s @ [call]\<rparr>))"

definition announce_step :: "string \<Rightarrow> unit dep" where
  "announce_step t = modify (\<lambda>s. s\<lparr>dp_out := dp_out s @ [t]\<rparr>)"

definition call_account :: az_call where
  "call_account = \<lparr>az_name = ''az'', az_args = [''account'', ''show''], az_env = []\<rparr>"

definition call_bicep :: az_call where
  "call_bicep = \<lparr>az_name = ''az'', az_args = [''bicep'', ''version''], az_env = []\<rparr>"

definition Preflight :: "azure_world \<Rightarrow> unit dep" where
  "Preflight W =
     bind (map_err (\<lambda>e. ''az login required: '' @ e @ '' (run `az login` then retry)'') (run_cmd W call_account)) (\<lambda>_.
     bind (map_err (\<lambda>e. ''bicep CLI required: '' @ e @ '' (run `az bicep install` then retry)'') (run_cmd W call_bicep)) (\<lambda>_. ret ()))"

definition image_url :: "string \<Rightarrow> string \<Rightarrow> string" where
  "image_url owner tag = ''https://ghcr.io/v2/'' @ owner @ ''/cronfoundry/manifests/'' @ tag"

definition ProbeImage :: "azure_world \<Rightarrow> string \<Rightarrow> string \<Rightarrow> unit dep" where
  "ProbeImage W owner tag = (let url = image_url owner tag in case az_probe W url of
       TransportError e \<Rightarrow> throw (''probe '' @ url @ '': '' @ e)
     | Status st body \<Rightarrow>
       if st = 200 then ret ()
       else if st = 404 then throw (''image '' @ url @ '' not found. Publish it first:'' @ eol @ ''  git tag v'' @ tag @ '' && git push origin v'' @ tag @ eol @
         ''(Wait ~5 min for the Release workflow.)'')
       else throw (''probe '' @ url @ '': HTTP '' @ itoa st))"

definition WriteParams :: "azure_world \<Rightarrow> az_inputs \<Rightarrow> string \<Rightarrow> string \<Rightarrow> unit dep" where
  "WriteParams W i masterKey path = (case az_write_err W of Some e \<Rightarrow> throw e
     | None \<Rightarrow> modify (\<lambda>s. s\<lparr>dp_files := (dp_files s)(path \<mapsto> az_marshal W (params_doc i masterKey))\<rparr>))"

definition call_deploy :: "bootstrap \<Rightarrow> az_call" where
  "call_deploy B = \<lparr>az_name = ''az'', az_args = [''deployment'', ''sub'', ''create'', ''--location'', ai_region (bs_inputs B),
     ''--template-file'', bs_template_file B, ''--parameters'', ''@'' @ bs_params_path B], az_env = []\<rparr>"

definition call_firewall :: "azure_world \<Rightarrow> bootstrap \<Rightarrow> string \<Rightarrow> az_call" where
  "call_firewall W B ip = \<lparr>az_name = ''az'', az_args = [''postgres'', ''flexible-server'', ''firewall-rule'', ''create'',
     ''--resource-group'', ''rg-cronfoundry-'' @ ai_env (bs_inputs B), ''--name'', ''cf-pg-'' @ ai_env (bs_inputs B),
     ''--rule-name'', ''cf-bootstrap-'' @ az_stamp W, ''--start-ip-address'', ip, ''--end-ip-address'', ip], az_env = []\<rparr>"

definition dsn_of :: "az_inputs \<Rightarrow> string" where
  "dsn_of i = ''postgres://cfadmin:'' @ ai_pg_password i @ ''@cf-pg-'' @ ai_env i @ ''.postgres.database.azure.com:5432/cronfoundry?sslmode=require''"

definition call_init :: "bootstrap \<Rightarrow> az_call" where
  "call_init B = \<lparr>az_name = bs_binary B, az_args = [''admin'', ''init'', ''--org-name'', ''default''],
     az_env = [''CRONFOUNDRY_DATABASE_URL='' @ dsn_of (bs_inputs B), ''CRONFOUNDRY_MASTER_KEY='' @ bs_master_key B]\<rparr>"

definition call_restart :: "azure_world \<Rightarrow> bootstrap \<Rightarrow> az_call" where
  "call_restart W B = \<lparr>az_name = ''az'', az_args = [''containerapp'', ''update'', ''--resource-group'', ''rg-cronfoundry-'' @ ai_env (bs_inputs B),
     ''--name'', ''cf-serve-'' @ ai_env (bs_inputs B), ''--set-env-vars'', ''RESTART_TRIGGER='' @ az_unix W], az_env = []\<rparr>"

definition call_fqdn :: "bootstrap \<Rightarrow> az_call" where
  "call_fqdn B = \<lparr>az_name = ''az'', az_args = [''containerapp'', ''show'', ''--resource-group'', ''rg-cronfoundry-'' @ ai_env (bs_inputs B),
     ''--name'', ''cf-serve-'' @ ai_env (bs_inputs B), ''--query'', ''properties.configuration.ingress.fqdn'', ''-o'', ''tsv''], az_env = []\<rparr>"

section \<open>Waiting for the server\<close>

text \<open>The clock, and the number of the next request. A request that is too slow is a transport error.\<close>

partial_function (option) waitHealthyAt :: "azure_world \<Rightarrow> string \<Rightarrow> time \<Rightarrow> time \<Rightarrow> nat \<Rightarrow> time \<Rightarrow> (string + unit) option" where
  "waitHealthyAt W url deadline interval n now =
     (if deadline - now \<le> 0 then Some (Inl ''timeout waiting for /healthz'')
      else case az_health W n url of
        Status st body \<Rightarrow>
          if st = 200 then Some (Inr ())
          else (let later = now + az_health_latency W n in
            if deadline < later then Some (Inl ''timeout waiting for /healthz'')
            else waitHealthyAt W url deadline interval (Suc n) (later + interval))
      | TransportError e \<Rightarrow> (let later = now + az_health_latency W n in
            if deadline < later then Some (Inl ''timeout waiting for /healthz'')
            else waitHealthyAt W url deadline interval (Suc n) (later + interval)))"

lemma waitHealthyAt_ends:
  assumes "0 < interval" "\<And>k. 0 \<le> az_health_latency W k"
  shows "\<exists>r. waitHealthyAt W url deadline interval n now = Some r \<and>
    (r = Inr () \<longrightarrow> (\<exists>k body. n \<le> k \<and> az_health W k url = Status 200 body))"
proof (induction "nat (deadline - now)" arbitrary: n now rule: less_induct)
  case less
  show ?case
  proof (cases "deadline - now \<le> 0")
    case True
    then show ?thesis by (subst waitHealthyAt.simps) simp
  next
    case live: False
    let ?t = "now + az_health_latency W n + interval"
    have "now < ?t" using assms(1) assms(2) [of n] by linarith
    then have IH: "\<exists>r. waitHealthyAt W url deadline interval (Suc n) ?t = Some r \<and>
        (r = Inr () \<longrightarrow> (\<exists>k body. Suc n \<le> k \<and> az_health W k url = Status 200 body))"
      using less [of ?t "Suc n"] live by simp
    then obtain r where r: "waitHealthyAt W url deadline interval (Suc n) ?t = Some r"
        "r = Inr () \<longrightarrow> (\<exists>k body. n \<le> k \<and> az_health W k url = Status 200 body)"
      using Suc_leD by blast
    show ?thesis using live r by (subst waitHealthyAt.simps) (auto simp: Let_def split: http_reply.split)
  qed
qed

definition wait_healthy :: "azure_world \<Rightarrow> string \<Rightarrow> unit dep" where
  "wait_healthy W host = (case waitHealthyAt W (''https://'' @ host @ ''/healthz'') (300 * second) (5 * second) 0 0 of
     None \<Rightarrow> throw [] | Some (Inl e) \<Rightarrow> throw e | Some (Inr u) \<Rightarrow> ret ())"

section \<open>The sequence\<close>

definition check_bootstrap :: "bootstrap \<Rightarrow> string option" where
  "check_bootstrap B = (case Inputs_Validate (bs_inputs B) of Some e \<Rightarrow> Some e
     | None \<Rightarrow> if bs_params_path B = [] then Some ''Bootstrap.ParamsPath is required''
       else if bs_master_key B = [] then Some ''Bootstrap.MasterKey is required''
       else if bs_dry_run B then None
       else if bs_template_file B = [] then Some ''Bootstrap.TemplateFile is required when DryRun is false''
       else if bs_binary B = [] then Some ''Bootstrap.Binary is required when DryRun is false'' else None)"

definition deploy_steps :: "azure_world \<Rightarrow> bootstrap \<Rightarrow> unit dep" where
  "deploy_steps W B =
     bind (announce_step ''==> deploying (this takes ~10 minutes)'') (\<lambda>_.
     bind (run_cmd W (call_deploy B)) (\<lambda>_.
     bind (lift_sum (\<lambda>e. ''detect public ip: '' @ e) (az_public_ip W)) (\<lambda>ip.
     bind (announce_step (''==> opening postgres firewall to '' @ ip)) (\<lambda>_.
     bind (run_cmd W (call_firewall W B ip)) (\<lambda>_.
     bind (announce_step ''==> running admin init'') (\<lambda>_.
     bind (map_err (\<lambda>e. ''admin init: '' @ e) (run_cmd W (call_init B))) (\<lambda>_.
     bind (announce_step ''==> restarting serve revision'') (\<lambda>_.
     bind (run_cmd W (call_restart W B)) (\<lambda>_.
     bind (map_err (\<lambda>e. ''discover fqdn: '' @ e) (run_cmd W (call_fqdn B))) (\<lambda>out. let fqdn = TrimSpace out in
     bind (announce_step (''==> waiting for /healthz at '' @ fqdn)) (\<lambda>_.
     bind (wait_healthy W fqdn) (\<lambda>_.
     bind (announce_step []) (\<lambda>_.
     bind (announce_step ''Deploy complete.'') (\<lambda>_.
     bind (announce_step (''  Login URL:        https://'' @ fqdn @ ''/'')) (\<lambda>_.
     announce_step (''  GitHub App URLs:  paste https://'' @ fqdn @ '' into Homepage / Callback / Webhook''))))))))))))))))"

definition Bootstrap_Run :: "azure_world \<Rightarrow> bootstrap \<Rightarrow> unit dep" where
  "Bootstrap_Run W B = (case check_bootstrap B of Some e \<Rightarrow> throw e
     | None \<Rightarrow>
       bind (announce_step ''==> preflight'') (\<lambda>_.
       bind (Preflight W) (\<lambda>_.
       bind (announce_step ''==> probing image'') (\<lambda>_.
       bind (ProbeImage W (ai_image_owner (bs_inputs B)) (ai_image_tag (bs_inputs B))) (\<lambda>_.
       bind (announce_step (''==> writing params: '' @ bs_params_path B)) (\<lambda>_.
       bind (WriteParams W (bs_inputs B) (bs_master_key B) (bs_params_path B)) (\<lambda>_.
       if bs_dry_run B then announce_step ''dry-run: skipping deploy'' else deploy_steps W B)))))))"

section \<open>What a deployment has run\<close>

text \<open>The commands of a deployment, in the order of the code.\<close>

definition plan :: "azure_world \<Rightarrow> bootstrap \<Rightarrow> string \<Rightarrow> az_call list" where
  "plan W B ip = [call_account, call_bicep, call_deploy B, call_firewall W B ip, call_init B, call_restart W B, call_fqdn B]"

text \<open>\<open>m\<close> runs a beginning of these calls, and all of them if it ends well.\<close>

definition runs_calls :: "'a dep \<Rightarrow> az_call list \<Rightarrow> bool" where
  "runs_calls m cs \<longleftrightarrow> (\<forall>s. (\<exists>k. dp_calls (snd (m s)) = dp_calls s @ take k cs) \<and>
     (\<forall>a. fst (m s) = Inr a \<longrightarrow> dp_calls (snd (m s)) = dp_calls s @ cs))"

lemma runs_bind:
  assumes "runs_calls m cs" "\<And>a. runs_calls (f a) ds"
  shows "runs_calls (bind m f) (cs @ ds)"
  unfolding runs_calls_def
proof (intro allI conjI impI)
  fix s
  obtain r t where m: "m s = (r, t)" by (cases "m s")
  have t: "\<exists>k. dp_calls t = dp_calls s @ take k cs" using assms(1) m unfolding runs_calls_def by (metis snd_conv)
  show "\<exists>k. dp_calls (snd (bind m f s)) = dp_calls s @ take k (cs @ ds)"
  proof (cases r)
    case (Inl e)
    then obtain k where "dp_calls t = dp_calls s @ take k cs" using t by blast
    then show ?thesis using m Inl by (intro exI [of _ "min k (length cs)"]) (simp add: bind_def min_def)
  next
    case (Inr a)
    have "dp_calls t = dp_calls s @ cs" using assms(1) m Inr unfolding runs_calls_def by (metis fst_conv snd_conv)
    moreover obtain k where "dp_calls (snd (f a t)) = dp_calls t @ take k ds" using assms(2) unfolding runs_calls_def by metis
    ultimately show ?thesis using m Inr by (intro exI [of _ "length cs + k"]) (simp add: bind_def)
  qed
  fix b assume "fst (bind m f s) = Inr b"
  then obtain a where a: "r = Inr a" using m by (cases r) (simp_all add: bind_def)
  then have "dp_calls t = dp_calls s @ cs" "fst (f a t) = Inr b" using assms(1) m \<open>fst (bind m f s) = Inr b\<close>
    unfolding runs_calls_def by (metis fst_conv snd_conv, simp add: bind_def)
  then show "dp_calls (snd (bind m f s)) = dp_calls s @ cs @ ds"
    using assms(2) [of a] m a unfolding runs_calls_def by (simp add: bind_def)
qed

lemma runs_cmd: "runs_calls (run_cmd W c) [c]"
  by (auto simp: runs_calls_def run_cmd_def intro: exI [of _ 1])

lemma runs_quiet: "(\<And>s. dp_calls (snd (m s)) = dp_calls s) \<Longrightarrow> runs_calls m []"
  by (simp add: runs_calls_def)

lemma runs_map_err: "runs_calls m cs \<Longrightarrow> runs_calls (map_err g m) cs"
  by (simp add: runs_calls_def map_err_def split: prod.split sum.split) (metis fst_conv snd_conv sum.distinct(1))

lemma announce_quiet: "runs_calls (announce_step t) []"
  by (rule runs_quiet) (simp add: announce_step_def modify_def)

lemma sum_quiet: "runs_calls (lift_sum g x) []"
  by (rule runs_quiet) (simp add: lift_sum_def throw_def ret_def split: sum.split)

lemma bind_quiet: "runs_calls m [] \<Longrightarrow> (\<And>a. runs_calls (f a) ds) \<Longrightarrow> runs_calls (bind m f) ds"
  using runs_bind [of m "[]" f ds] by simp

lemma bind_cmd: "runs_calls m [c] \<Longrightarrow> (\<And>a. runs_calls (f a) ds) \<Longrightarrow> runs_calls (bind m f) (c # ds)"
  using runs_bind [of m "[c]" f ds] by simp

lemma probe_quiet: "runs_calls (ProbeImage W owner tag) []"
  by (rule runs_quiet) (auto simp: ProbeImage_def Let_def throw_def ret_def split: http_reply.split)

lemma params_quiet: "runs_calls (WriteParams W i k p) []"
  by (rule runs_quiet) (auto simp: WriteParams_def throw_def modify_def split: option.split)

lemma healthy_quiet: "runs_calls (wait_healthy W host) []"
  by (rule runs_quiet) (auto simp: wait_healthy_def throw_def ret_def split: option.split sum.split)

lemma preflight_runs: "runs_calls (Preflight W) [call_account, call_bicep]"
proof -
  have r: "runs_calls (ret ()) []" by (rule runs_quiet) (simp add: ret_def)
  show ?thesis unfolding Preflight_def by (intro bind_cmd runs_map_err runs_cmd r)
qed

lemma throw_runs: "runs_calls (throw e) cs"
  by (auto simp: runs_calls_def intro: exI [of _ 0])

lemma deploy_runs: "\<exists>ip. runs_calls (deploy_steps W B) [call_deploy B, call_firewall W B ip, call_init B, call_restart W B, call_fqdn B] \<and>
    (\<forall>s. fst (deploy_steps W B s) = Inr () \<longrightarrow> az_public_ip W = Inr ip)"
proof (cases "az_public_ip W")
  case (Inl e)
  have "runs_calls (deploy_steps W B) (call_deploy B # cs)" for cs
    unfolding deploy_steps_def Let_def lift_sum_def Inl sum.case bind_throw
    by (intro bind_quiet announce_quiet bind_cmd runs_cmd throw_runs)
  moreover have "fst (deploy_steps W B s) \<noteq> Inr ()" for s
    by (auto simp: deploy_steps_def bind_def lift_sum_def Inl split: prod.split sum.split)
  ultimately show ?thesis by blast
next
  case (Inr ip)
  have "runs_calls (deploy_steps W B) [call_deploy B, call_firewall W B ip, call_init B, call_restart W B, call_fqdn B]"
    unfolding deploy_steps_def Let_def lift_sum_def Inr sum.case bind_ret
    by (intro bind_quiet announce_quiet bind_cmd runs_cmd runs_map_err healthy_quiet)
  then show ?thesis using Inr by blast
qed

lemma checked_runs:
  assumes "check_bootstrap B = None" "runs_calls (if bs_dry_run B then announce_step ''dry-run: skipping deploy'' else deploy_steps W B) cs"
  shows "runs_calls (Bootstrap_Run W B) ([call_account, call_bicep] @ cs)"
  unfolding Bootstrap_Run_def assms(1) option.case
  by (intro bind_quiet announce_quiet runs_bind [OF preflight_runs] probe_quiet params_quiet assms(2))

text \<open>
  Whatever fails, a deployment has run a beginning of the fixed sequence of commands: the
  two checks, the deployment, the firewall rule, admin init, the restart, the look-up of the
  address. One that ends well has run all of them, and a dry run ends after the checks.
\<close>

theorem bootstrap_follows_plan:
  "\<exists>ip k. dp_calls (snd (Bootstrap_Run W B s)) = dp_calls s @ take k (plan W B ip) \<and> (bs_dry_run B \<longrightarrow> k \<le> 2) \<and>
    (fst (Bootstrap_Run W B s) = Inr () \<longrightarrow> k = (if bs_dry_run B then 2 else 7))"
proof (cases "check_bootstrap B")
  case (Some e)
  then show ?thesis by (intro exI [of _ "[]"] exI [of _ 0]) (simp add: Bootstrap_Run_def)
next
  case None
  obtain ip where ip: "runs_calls (deploy_steps W B) [call_deploy B, call_firewall W B ip, call_init B, call_restart W B, call_fqdn B]"
    using deploy_runs by blast
  let ?cs = "if bs_dry_run B then [] else [call_deploy B, call_firewall W B ip, call_init B, call_restart W B, call_fqdn B]"
  have "runs_calls (Bootstrap_Run W B) ([call_account, call_bicep] @ ?cs)"
    using ip by (intro checked_runs [OF None]) (simp add: announce_quiet)
  moreover have cs: "[call_account, call_bicep] @ ?cs = take (if bs_dry_run B then 2 else 7) (plan W B ip)" by (simp add: plan_def)
  ultimately obtain k where k: "dp_calls (snd (Bootstrap_Run W B s)) = dp_calls s @ take k (take (if bs_dry_run B then 2 else 7) (plan W B ip))"
      "\<And>u. fst (Bootstrap_Run W B s) = Inr u \<Longrightarrow> dp_calls (snd (Bootstrap_Run W B s)) = dp_calls s @ take (if bs_dry_run B then 2 else 7) (plan W B ip)"
    unfolding runs_calls_def cs by metis
  show ?thesis
  proof (cases "fst (Bootstrap_Run W B s) = Inr ()")
    case True
    then show ?thesis using k(2) [of "()"] by (intro exI [of _ ip] exI [of _ "if bs_dry_run B then 2 else 7"]) simp
  next
    case False
    then show ?thesis using k(1) by (intro exI [of _ ip] exI [of _ "min k (if bs_dry_run B then 2 else 7)"]) (auto simp: min_def)
  qed
qed

end
