(* ===== verification/Spec2Isabelle.thy ===== *)
theory Spec2Isabelle
  imports Scheduler_Claims Api_Claims Sync_Claims System Runner_Cmd_Claims Template Memory Mcp Session_Claims Csrf Ratelimit Web_Users Secret_Store Copilot Web_Schedules Events Webhook Chat_Claims Skill_Repo Site Mcp_Client Llm_Clients Serve Runner_Main Setup_Cmd Admin_Claims Azure_Bootstrap
begin

text \<open>
  CronFoundry runs prompts ("skills") of a Git repository on a schedule. A server keeps skills,
  schedules and runs in PostgreSQL; a scheduler fires due schedules and dispatches runs to a
  platform; a runner process, started per run, fetches its context from the server's internal API,
  talks to a model, publishes the output and reports the end of the run; a poller and a webhook
  sync the repository's manifest into the database; a web API lets people look, administer and
  chat; commands set the system up. This library models src/ and proves what it promises.

  \<^bold>\<open>Conventions.\<close> A Go function that returns an error is a computation
  \<open>'s \<Rightarrow> ('e + 'a) \<times> 's\<close> with \<open>bind\<close> for the early return (Prelude). Every SQL statement, of the
  generated code in internal/db/gen, is one such computation on the record \<open>world\<close>: it advances a
  statement counter, fails where \<open>fault\<close> says so and else does what its SQL does, constraints and
  cascades included. So a property that holds for every \<open>fault\<close> holds for every pattern of database
  failures. Time is in microseconds, identifiers are numbers, Go strings are byte lists, int32
  conversions wrap. Code outside src/ (the JWT, cron, uuid, YAML and git libraries, HMAC and AES,
  GitHub, the SDKs, the LLM services, the az tool) enters as a record of functions, with the laws
  the code relies on as named hypotheses; the sample instances meet them.

  \<^bold>\<open>Store.\<close> Store (tables, transactions, the invariant \<open>store_ok\<close>), Run_Queries and
  Schedule_Queries (statements), Store_Inv (every statement keeps the invariant), Web_Store and
  Web_Queries (organizations, users, secrets and the statements of the web API). The locale
  \<open>step_rel\<close> lifts a reflexive and transitive relation on states from statements to handlers; it is
  interpreted for the invariant, for the finality of outcomes, for phases, calls and requests of a
  run, for reading only.

  \<^bold>\<open>Server.\<close> Token (internal/token), Scheduler (internal/scheduler: tick, overlap policy, dispatch,
  drain, sweep, loop), Dispatchers (internal/jobdispatch and internal/cloud: the four platforms
  keep the contract \<open>dispatcher\<close>), Api (internal/api: bearer authentication, the seven endpoints,
  auto-pause), Secret_Refs, Config, Paths, Url (internal/config: manifest, skills, includes), Sync
  (internal/sync). Github_App (internal/github) holds the App's JWT, the cache of installation
  tokens as a step relation, branch heads and the clone. Scheduler_Keeps, Api_Keeps and Finality say what each part
  keeps; System interleaves ticks, requests and sync passes in a step relation and shows that the
  store stays well formed and that outcomes are final; Dispatch_Once shows that each run is
  dispatched at most once while the database answers, and how a lost update breaks this.
  Scheduler_Claims, Api_Claims, Sync_Claims and Config_Props hold the properties of the parts.
  Serve (cmd/cronfoundry/serve.go) is the start of the server: environment, seeding of the users,
  choice of platform and of secret store; a job it starts finds its token.

  \<^bold>\<open>Web API\<close> (internal/webapi). Web_Http (requests, responses, JSON), Session and Session_Claims
  (signed cookies, OAuth), Csrf, Ratelimit, Web_Users, Secret_Store (internal/secrets/server and its
  routes, the contract \<open>secret_store\<close>), Key_Vault (the Key Vault backend and the contract of stores
  that identify names), Copilot, Web_Pages (repositories, skills, runs, audit, alerts, health),
  Web_Schedules, Events (event streams as a step relation), Webhook, Chat and Chat_Claims
  (internal/chat and its route), Yaml_Edit and Skill_Repo (internal/yamledit, internal/skillrepo, job
  proposals). Web_Routes is the router with its middleware; Web_Routes_Claims shows which requests
  can change anything; Site adds browsers to the step relation of System.

  \<^bold>\<open>Runner.\<close> Llm, Llm_Clients (the four clients; they agree on what an answer is), Mcp, Mcp_Client
  (the JSON-RPC client as a step relation of callers and reader), Template, Memory, Redact, Publish
  and Writeback model the packages of those names; Runner (internal/runner) composes them into the
  phases of a run; Runner_Cmd (cmd/cronfoundry/runner.go) is the command, whose API client calls the
  modelled server and whose transport may lose any request; Runner_Main (cmd/runner) is the
  stand-alone command. Runner_Props and Runner_Cmd_Claims show that a run goes through its phases,
  that its calls to the model are bounded, that a command always ends with exactly one finalize
  request and that its success is recorded on the server. Go_Strings, Go_Text, Go_Json and Base64
  hold the functions of Go's library.

  \<^bold>\<open>Commands.\<close> Shell_State (the console and the install-state file, which is read back as a shell
  reads it), App_Setup and Setup_Cmd (internal/githubapp and the setup commands: the callback server
  as a step relation, the end of its flow), Admin, Connect_Copilot and Admin_Claims (the admin
  commands on the server's database), Azure_Bootstrap (internal/bootstrap/azure).

  \<^bold>\<open>Bounds.\<close> No fuel is used: every loop of the model is structural, has a measure, or is a partial
  function of which it is proved that it returns (the polls of Connect_Copilot and
  Azure_Bootstrap). The turn loop recurses on the turns left, which is the loop bound of the code;
  the scheduler's loop is a list of ticks of any length.

  \<^bold>\<open>Idealizations.\<close> Handlers are atomic with respect to each other except where a step relation
  interleaves them; scan errors of rows, JSON decoding of the internal API's request bodies and
  the texts of wrapped library errors are left out or abbreviated; file paths have no symbolic
  links; case folding is that of ASCII and ORDER BY is bytewise; \<open>%q\<close> takes its text as printable;
  a variable that is not set reads as empty; request paths are clean; writing to the console does
  not fail; the prose of HTML pages and of redirects is left out.

  \<^bold>\<open>Not modelled.\<close> The static files, listening and the goroutines and tickers that start the
  modelled loops, the starting of MCP processes and their pipes, the connection pool and the
  migrations, opening a browser, running the az tool, the registration of the commands with their
  flags, and test support: I/O without logic of its own.
\<close>

end
